(* ===== verification/Prelude.thy ===== *)
theory Prelude
  imports Main "HOL-Library.AList" "HOL-Library.Sublist" "HOL-Library.Monad_Syntax"
begin

text \<open>
  Shared vocabulary of the development: the Python values, exceptions and string
  operations the modelled components use, insertion-ordered dictionaries, and the
  generic lemmas the component theories rest on.

  \<^item> A Python \<^verbatim>\<open>str\<close> is a \<^typ>\<open>string\<close>; a character stands for a code point below 256.
  \<^item> A \<^verbatim>\<open>datetime\<close> is its distance to the epoch in microseconds (the resolution of the
    Python type), an unbounded \<^typ>\<open>int\<close>.
  \<^item> A Python \<^verbatim>\<open>dict\<close> whose order is observable is an association list; storing a key
    keeps the position of the key, or appends it (\<^const>\<open>AList.update\<close>).
  \<^item> A raised exception is a value \<^term>\<open>Inl e\<close> of type \<^typ>\<open>'e + 'a\<close>; it carries the
    exception class of the source and its message.
\<close>

named_theorems model_defs \<open>definitions unfolded together by the component proofs\<close>
named_theorems frame_simps \<open>what an operation leaves unchanged\<close>

section \<open>Values and exceptions\<close>

type_synonym datetime = int

definition seconds :: "int \<Rightarrow> int" where
  "seconds n = n * 1000000"

datatype (plugins only: code) exn =
    DomainError string
  | DomainValidationError string
  | LookupError string
  | ValueError string
  | KeyError string
  | AssessmentPermissionError string
  | GrantNotFoundError string
  | JobNotFoundError string
  | JobLeaseError string
  | RunnerError string
  | TokenNotIssuedError string
  | TokenReuseError string
  | ApprovalRequired string
  | ApprovalRejected string
  | PauseBudgetExceeded string
  | LoopNotFoundError string
  | LoopAlreadyTerminalError string
  | IntegrityError string
  | AttributeError string
  | TypeError string
  | ExecutionStateError string
  | PermitExpired string
  | PermitSignatureInvalid string
  | PermitReplayed string
  | PermitWorkerMismatch string
  | RuntimeError string
  | CaseParseError string
  | CaseNotFoundError string
  | CasePermissionError string
  | CaseTransitionError string
  | CaseNotModelGeneratedError string
  | RiskPublishDenied string
  | RiskUndeclared string
  | ExpressionError string
  | InterpreterError string
  | AppModelNotFoundError string
  | AppModelPermissionError string
  | AppModelTransitionError string
  | PeerAgentNotRegistered string
  | PeerAgentTrustDenied string
  | PeerAgentAlreadyRegistered string
  | PeerRunScopeViolation string
  | DnsRebindingError string
  | ModelPermissionError string
  | ModelNotFoundError string
  | ModelTransitionError string
  | ModelNotSignedError string
  | BundleFetchError string
  | BundleRevokedError string
  | ScopeDeniedError string
  | ImageDigestMismatch string
  | ContainerExecError string
  | StrixReportParseError string
  | TimeoutExpired string
  | AssertionError string
  | OSError string
  | OverflowError string
  | HTTPException int string \<comment> \<open>status code and detail\<close>
  | DrawsExhausted \<comment> \<open>the finite supply of random draws given to the model is used up\<close>

type_synonym 'a result = "exn + 'a"

datatype pyval =
    VNone
  | VBool bool
  | VInt int
  | VFloat string \<comment> \<open>a float, by its shortest round-trip numeral\<close>
  | VStr string
  | VList "pyval list"
  | VDict "(string \<times> pyval) list"

type_synonym pydict = "(string \<times> pyval) list"

text \<open>Python truthiness of a value, as \<^verbatim>\<open>if v:\<close> sees it.\<close>

fun truthy :: "pyval \<Rightarrow> bool" where
  "truthy VNone = False"
| "truthy (VBool b) = b"
| "truthy (VInt n) = (n \<noteq> 0)"
| "truthy (VFloat r) = (r \<notin> {''0.0'', ''-0.0''})"
| "truthy (VStr s) = (s \<noteq> [])"
| "truthy (VList xs) = (xs \<noteq> [])"
| "truthy (VDict d) = (d \<noteq> [])"

section \<open>Results\<close>

definition bind_res :: "'e + 'a \<Rightarrow> ('a \<Rightarrow> 'e + 'b) \<Rightarrow> 'e + 'b" where
  "bind_res r f = (case r of Inl e \<Rightarrow> Inl e | Inr x \<Rightarrow> f x)"

lemma bind_res_simps [simp]:
  "bind_res (Inl e) f = Inl e"
  "bind_res (Inr x) f = f x"
  by (simp_all add: bind_res_def)

lemma bind_res_Inr_iff: "bind_res r f = Inr y \<longleftrightarrow> (\<exists>x. r = Inr x \<and> f x = Inr y)"
  by (cases r) auto

lemma bind_res_Inl_iff: "bind_res r f = Inl e \<longleftrightarrow> r = Inl e \<or> (\<exists>x. r = Inr x \<and> f x = Inl e)"
  by (cases r) auto

text \<open>A comprehension whose elements may raise: the first exception stops it.\<close>

fun map_res :: "('a \<Rightarrow> 'b result) \<Rightarrow> 'a list \<Rightarrow> 'b list result" where
  "map_res f [] = Inr []"
| "map_res f (x # xs) = bind_res (f x) (\<lambda>y. bind_res (map_res f xs) (\<lambda>ys. Inr (y # ys)))"

lemma map_res_Inr:
  "map_res f xs = Inr ys \<Longrightarrow> (\<forall>x \<in> set xs. \<exists>y. f x = Inr y) \<and> set ys = {y. \<exists>x \<in> set xs. f x = Inr y}"
  by (induction xs arbitrary: ys) (force simp: bind_res_def split: sum.splits)+

lemma map_res_total: "\<forall>x \<in> set xs. \<exists>y. f x = Inr y \<Longrightarrow> \<exists>ys. map_res f xs = Inr ys"
  by (induction xs) (auto simp: bind_res_def)

lemma map_res_map: "\<forall>x \<in> set xs. f x = Inr (g x) \<Longrightarrow> map_res f xs = Inr (map g xs)"
  by (induction xs) auto

text \<open>A guard of the source: \<^verbatim>\<open>if not c: raise e\<close>.\<close>

definition guard :: "bool \<Rightarrow> 'e \<Rightarrow> 'e + unit" where
  "guard c e = (if c then Inr () else Inl e)"

lemma guard_simps [simp]:
  "guard c e = Inr u \<longleftrightarrow> c"
  "guard c e = Inl e' \<longleftrightarrow> \<not> c \<and> e' = e"
  by (auto simp: guard_def)

section \<open>Commands\<close>

text \<open>
  A method of a stateful object: it maps the state to what it returns or raises, and to the
  state it leaves, which is kept when it raises.
\<close>

type_synonym ('s, 'a) cmd = "'s \<Rightarrow> 'a result \<times> 's"

definition bindC :: "('s, 'a) cmd \<Rightarrow> ('a \<Rightarrow> ('s, 'b) cmd) \<Rightarrow> ('s, 'b) cmd" where
  "bindC m f = (\<lambda>s. case m s of (Inl e, s') \<Rightarrow> (Inl e, s') | (Inr x, s') \<Rightarrow> f x s')"

definition returnC :: "'a \<Rightarrow> ('s, 'a) cmd" where
  "returnC x = (\<lambda>s. (Inr x, s))"

definition raiseC :: "exn \<Rightarrow> ('s, 'a) cmd" where
  "raiseC e = (\<lambda>s. (Inl e, s))"

lemma returnC_apply [simp]: "returnC x s = (Inr x, s)"
  by (simp add: returnC_def)

lemma raiseC_apply [simp]: "raiseC e s = (Inl e, s)"
  by (simp add: raiseC_def)

lemma bindC_eq [simp]:
  "m s = (Inr x, s') \<Longrightarrow> bindC m f s = f x s'"
  "m s = (Inl e, s') \<Longrightarrow> bindC m f s = (Inl e, s')"
  by (simp_all add: bindC_def)

lemma bindC_Inr:
  "bindC m f s = (Inr y, t) \<longleftrightarrow> (\<exists>x s'. m s = (Inr x, s') \<and> f x s' = (Inr y, t))"
  by (auto simp: bindC_def split: prod.splits sum.splits)

lemma bindC_cases:
  obtains (raised) e s' where "m s = (Inl e, s')" "bindC m f s = (Inl e, s')"
  | (returned) x s' where "m s = (Inr x, s')" "bindC m f s = f x s'"
proof (cases "m s")
  case (Pair r s')
  then show thesis
    using raised returned by (cases r) auto
qed

definition liftC :: "'a result \<Rightarrow> ('s, 'a) cmd" where
  "liftC r s = (r, s)"

lemma lift_bindC: "bindC (liftC r) f s = (case r of Inl e \<Rightarrow> (Inl e, s) | Inr x \<Rightarrow> f x s)"
  by (simp add: bindC_def liftC_def split: sum.split)

lemma bindC_assoc: "bindC (bindC m f) g = bindC m (\<lambda>x. bindC (f x) g)"
  by (auto simp: bindC_def fun_eq_iff split: prod.split sum.split)

lemma bindC_cong: "(\<And>x. f x = g x) \<Longrightarrow> bindC m f = bindC m g"
  by presburger

lemma bindC_returnC [simp]: "bindC (returnC x) f = f x"
  by (simp add: bindC_def fun_eq_iff)

text \<open>A postcondition of a command: it relates the state before to the outcome and the state after.\<close>

definition ensures :: "('s, 'a) cmd \<Rightarrow> 's \<Rightarrow> ('a result \<Rightarrow> 's \<Rightarrow> bool) \<Rightarrow> bool" where
  "ensures m s Q \<longleftrightarrow> (case m s of (r, s') \<Rightarrow> Q r s')"

lemma ensures_bindC:
  "ensures (bindC m f) s Q \<longleftrightarrow>
     ensures m s (\<lambda>r s'. case r of Inl e \<Rightarrow> Q (Inl e) s' | Inr x \<Rightarrow> ensures (f x) s' Q)"
  by (auto simp: ensures_def bindC_def split: prod.split sum.split)

lemma ensures_returnC [simp]: "ensures (returnC x) s Q \<longleftrightarrow> Q (Inr x) s"
  by (simp add: ensures_def)

lemma ensures_raiseC [simp]: "ensures (raiseC e) s Q \<longleftrightarrow> Q (Inl e) s"
  by (simp add: ensures_def)

lemma ensuresD: "ensures m s Q \<Longrightarrow> m s = (r, s') \<Longrightarrow> Q r s'"
  by (simp add: ensures_def)

lemma ensures_weaken: "ensures m s Q \<Longrightarrow> (\<And>r s'. Q r s' \<Longrightarrow> R r s') \<Longrightarrow> ensures m s R"
  by (auto simp: ensures_def split: prod.splits)

lemma ensures_if: "ensures (if b then m else m') s Q \<longleftrightarrow> (if b then ensures m s Q else ensures m' s Q)"
  by simp

text \<open>A command that leaves the state as it is, whatever it returns or raises.\<close>

definition readonly :: "('s, 'a) cmd \<Rightarrow> bool" where
  "readonly m \<longleftrightarrow> (\<forall>s. snd (m s) = s)"

lemma readonlyD: "readonly m \<Longrightarrow> m s = (r, s') \<Longrightarrow> s' = s"
  by (metis readonly_def snd_conv)

lemma readonly_intros [intro, simp]:
  "readonly (returnC x)" "readonly (raiseC e)" "readonly (liftC r)" "readonly (\<lambda>s. (f s, s))"
  by (simp_all add: readonly_def liftC_def)

lemma readonly_bindC [intro]: "readonly m \<Longrightarrow> (\<And>x. readonly (f x)) \<Longrightarrow> readonly (bindC m f)"
  unfolding readonly_def bindC_def by (metis (no_types, lifting) prod.collapse prod.case snd_conv sum.case_eq_if)

lemma readonly_case_option [intro]:
  "readonly m \<Longrightarrow> (\<And>x. readonly (f x)) \<Longrightarrow> readonly (case opt of None \<Rightarrow> m | Some x \<Rightarrow> f x)"
  by (cases opt) simp_all

lemma readonly_if [intro]: "readonly m \<Longrightarrow> readonly m' \<Longrightarrow> readonly (if b then m else m')"
  by simp

text \<open>A command that leaves one part of the state as it is.\<close>

definition keeps :: "('s \<Rightarrow> 'x) \<Rightarrow> ('s, 'a) cmd \<Rightarrow> bool" where
  "keeps f m \<longleftrightarrow> (\<forall>s. f (snd (m s)) = f s)"

lemma keepsD: "keeps f m \<Longrightarrow> m s = (r, s') \<Longrightarrow> f s' = f s"
  by (metis keeps_def snd_conv)

lemma keeps_readonly: "readonly m \<Longrightarrow> keeps f m"
  by (simp add: keeps_def readonly_def)

lemma keeps_bindC [intro]: "keeps f m \<Longrightarrow> (\<And>x. keeps f (k x)) \<Longrightarrow> keeps f (bindC m k)"
  unfolding keeps_def bindC_def by (metis (no_types, lifting) prod.collapse prod.case snd_conv sum.case_eq_if)

lemma keeps_case_option [intro]:
  "keeps f m \<Longrightarrow> (\<And>x. keeps f (k x)) \<Longrightarrow> keeps f (case opt of None \<Rightarrow> m | Some x \<Rightarrow> k x)"
  by (cases opt) simp_all

lemma keeps_case_sum [intro]:
  "(\<And>e. keeps f (m e)) \<Longrightarrow> (\<And>x. keeps f (k x)) \<Longrightarrow> keeps f (case r of Inl e \<Rightarrow> m e | Inr x \<Rightarrow> k x)"
  by (cases r) simp_all

lemma keeps_if [intro]: "keeps f m \<Longrightarrow> keeps f m' \<Longrightarrow> keeps f (if b then m else m')"
  by simp

text \<open>A sequence that changes a part its first command keeps went on to its second command.\<close>

lemma bindC_changed:
  assumes "f (snd (bindC m k s)) \<noteq> f s" "keeps f m"
  obtains x s' where "m s = (Inr x, s')" "f s' = f s" "f (snd (k x s')) \<noteq> f s'"
proof (cases rule: bindC_cases [of m s k])
  case (raised e s')
  then show thesis using assms keepsD by fastforce
next
  case (returned x s')
  then show thesis using assms keepsD [OF assms(2) returned(1)] that by simp
qed

text \<open>
  An operation behind a gate: it first runs a command that only reads, and goes on when that returns. The
  clients' arguments are collected in \<open>k\<close>.
\<close>

locale gated_operation =
  fixes gate :: "'k \<Rightarrow> ('s, unit) cmd"
    and body :: "'k \<Rightarrow> ('s, 'a) cmd"
    and op :: "'k \<Rightarrow> ('s, 'a) cmd"
  assumes gate_readonly: "readonly (gate k)"
    and op_gated: "op k = bindC (gate k) (\<lambda>_. body k)"
begin

lemma refused: "gate k s = (Inl e, s') \<Longrightarrow> op k s = (Inl e, s)"
  using readonlyD [OF gate_readonly] by (fastforce simp: op_gated)

lemma admitted:
  assumes "op k s = (Inr x, s')"
  shows "gate k s = (Inr (), s) \<and> body k s = (Inr x, s')"
  using assms readonlyD [OF gate_readonly] by (auto simp: op_gated bindC_Inr)

lemma open_gate: "gate k s = (Inr (), s') \<Longrightarrow> op k s = body k s"
  using readonlyD [OF gate_readonly] by (fastforce simp: op_gated)

end

section \<open>Strings\<close>

definition starts_with :: "string \<Rightarrow> string \<Rightarrow> bool" where
  "starts_with s p \<longleftrightarrow> take (length p) s = p"

definition ends_with :: "string \<Rightarrow> string \<Rightarrow> bool" where
  "ends_with s p \<longleftrightarrow> length p \<le> length s \<and> drop (length s - length p) s = p"

lemma starts_with_prefix: "starts_with s p \<longleftrightarrow> prefix p s"
  unfolding starts_with_def prefix_def
  by (metis append_eq_conv_conj append_take_drop_id)

lemma ends_with_suffix: "ends_with s p \<longleftrightarrow> suffix p s"
  unfolding ends_with_def suffix_def
  by (metis append_eq_conv_conj append_take_drop_id diff_diff_cancel length_append length_drop
      le_add2 add_diff_cancel_right')

lemma starts_with_append [simp]: "starts_with (p @ s) p"
  by (simp add: starts_with_def)

definition removeprefix :: "string \<Rightarrow> string \<Rightarrow> string" where
  "removeprefix s p = (if starts_with s p then drop (length p) s else s)"

lemma removeprefix_append [simp]: "removeprefix (p @ s) p = s"
  by (simp add: removeprefix_def)

text \<open>\<^verbatim>\<open>str.lower\<close> on code points below 256.\<close>

definition lower_char :: "char \<Rightarrow> char" where
  "lower_char c =
     (let n = (of_char c :: nat) in
      if 65 \<le> n \<and> n \<le> 90 \<or> 192 \<le> n \<and> n \<le> 222 \<and> n \<noteq> 215 then char_of (n + 32) else c)"

definition py_lower :: "string \<Rightarrow> string" where
  "py_lower s = map lower_char s"

text \<open>\<^verbatim>\<open>p in s\<close> on strings, and \<^verbatim>\<open>str.replace\<close> for a non-empty pattern.\<close>

definition contains_str :: "string \<Rightarrow> string \<Rightarrow> bool" where
  "contains_str s p \<longleftrightarrow> (\<exists>i \<in> set [0..<Suc (length s)]. take (length p) (drop i s) = p)"

lemma contains_str_sublist: "contains_str s p \<longleftrightarrow> sublist p s"
proof
  assume "contains_str s p"
  then obtain i where "take (length p) (drop i s) = p"
    by (auto simp: contains_str_def)
  then have "s = take i s @ p @ drop (length p) (drop i s)"
    by (metis append_take_drop_id)
  then show "sublist p s"
    unfolding sublist_def by blast
next
  assume "sublist p s"
  then obtain a b where s: "s = a @ p @ b"
    by (auto simp: sublist_def)
  have "length a \<in> set [0..<Suc (length s)]"
    by (simp add: s)
  moreover have "take (length p) (drop (length a) s) = p"
    by (simp add: s)
  ultimately show "contains_str s p"
    unfolding contains_str_def by blast
qed

function replace_str :: "string \<Rightarrow> string \<Rightarrow> string \<Rightarrow> string" where
  "replace_str s p r =
     (if p = [] \<or> s = [] then s
      else if starts_with s p then r @ replace_str (drop (length p) s) p r
      else hd s # replace_str (tl s) p r)"
  by pat_completeness auto
termination by (relation "measure (\<lambda>(s, p, r). length s)") auto

declare replace_str.simps [simp del]

section \<open>Insertion-ordered dictionaries\<close>

abbreviation dict_get :: "('k \<times> 'v) list \<Rightarrow> 'k \<Rightarrow> 'v option" where
  "dict_get \<equiv> map_of"

abbreviation dict_set :: "'k \<Rightarrow> 'v \<Rightarrow> ('k \<times> 'v) list \<Rightarrow> ('k \<times> 'v) list" where
  "dict_set \<equiv> AList.update"

abbreviation dict_values :: "('k \<times> 'v) list \<Rightarrow> 'v list" where
  "dict_values \<equiv> map snd"

abbreviation dict_keys :: "('k \<times> 'v) list \<Rightarrow> 'k list" where
  "dict_keys \<equiv> map fst"

lemma dict_get_set [simp]: "dict_get (dict_set k v d) j = (if j = k then Some v else dict_get d j)"
  by (simp add: update_conv')

lemma dict_keys_set_new: "k \<notin> set (dict_keys d) \<Longrightarrow> dict_set k v d = d @ [(k, v)]"
  by (induction d) auto

lemma dict_keys_set_old [simp]:
  "k \<in> set (dict_keys d) \<Longrightarrow> dict_keys (dict_set k v d) = dict_keys d"
  by (induction d) auto

lemma dict_set_same: "dict_get d k = Some v \<Longrightarrow> dict_set k v d = d"
  by (induction d) (auto split: if_splits)

lemma dict_values_get:
  "distinct (dict_keys d) \<Longrightarrow> v \<in> set (dict_values d) \<longleftrightarrow> (\<exists>k. dict_get d k = Some v)"
  by (force simp: map_of_eq_Some_iff)

lemma dict_set_map_values:
  assumes "dict_get d k = Some v" "f v' = f v"
  shows "map f (dict_values (dict_set k v' d)) = map f (dict_values d)"
  using assms by (induction d) (auto split: if_splits)

lemma set_dict_set:
  "distinct (dict_keys d) \<Longrightarrow> set (dict_set k v d) = insert (k, v) {p \<in> set d. fst p \<noteq> k}"
  by (induction d) (auto simp: rev_image_eqI)

lemma set_values_dict_set:
  "set (map f (dict_values (dict_set k v d))) \<subseteq> insert (f v) (set (map f (dict_values d)))"
  by (induction d) auto

lemma distinct_dict_set_fresh:
  assumes "distinct (map f (dict_values d))" "f v \<notin> set (map f (dict_values d))"
  shows "distinct (map f (dict_values (dict_set k v d)))"
  using assms
proof (induction d)
  case (Cons p d)
  then show ?case
    using set_values_dict_set [of f k v d] by (cases p) auto
qed simp

lemma find_distinct_key:
  "distinct (map f xs) \<Longrightarrow> e \<in> set xs \<Longrightarrow> f e = k \<Longrightarrow> List.find (\<lambda>x. f x = k) xs = Some e"
  by (induction xs) (auto simp: rev_image_eqI)

lemma dict_get_value: "dict_get d k = Some v \<Longrightarrow> v \<in> set (dict_values d)"
  by (force dest: map_of_SomeD)

lemma dict_get_key: "dict_get d k = Some v \<Longrightarrow> k \<in> set (dict_keys d)"
  by (force dest: map_of_SomeD)

lemma distinct_map_Cons_neq: "distinct (map f (x # xs)) \<Longrightarrow> y \<in> set xs \<Longrightarrow> f y \<noteq> f x"
  by (metis distinct.simps(2) image_eqI list.simps(9) set_map)

end
