(* ===== verification/Policy.thy ===== *)
theory Policy
  imports Prelude
begin

text \<open>
  The risk ladder and the execution modes (\<^verbatim>\<open>domain/policy/models.py\<close>), and the ranking of
  risks the case publish gate uses (\<^verbatim>\<open>domain/cases/risk.py\<close>). The ranking makes
  \<open>risk_class\<close> a linear order, so that the library's \<^const>\<open>Max\<close>, \<^const>\<open>sort\<close> and order
  reasoning apply to it.
\<close>

datatype risk_class = PASSIVE | LOW | ACTIVE | INTRUSIVE | DESTRUCTIVE

datatype execution_mode = APPROVAL | SCOPE_AUTOPILOT

fun risk_value :: "risk_class \<Rightarrow> string" where
  "risk_value PASSIVE = ''passive''"
| "risk_value LOW = ''low''"
| "risk_value ACTIVE = ''active''"
| "risk_value INTRUSIVE = ''intrusive''"
| "risk_value DESTRUCTIVE = ''destructive''"

fun mode_value :: "execution_mode \<Rightarrow> string" where
  "mode_value APPROVAL = ''approval''"
| "mode_value SCOPE_AUTOPILOT = ''scope_autopilot''"

lemma risk_value_inject [simp]: "risk_value r = risk_value s \<longleftrightarrow> r = s"
  by (cases r; cases s) auto

lemma mode_value_inject [simp]: "mode_value m = mode_value n \<longleftrightarrow> m = n"
  by (cases m; cases n) auto

text \<open>Python's \<^verbatim>\<open>RiskClass(s)\<close>: look a member up by its value.\<close>

definition risk_of_value :: "string \<Rightarrow> risk_class option" where
  "risk_of_value s = List.find (\<lambda>r. risk_value r = s) [PASSIVE, LOW, ACTIVE, INTRUSIVE, DESTRUCTIVE]"

lemma risk_of_value_roundtrip [simp]: "risk_of_value (risk_value r) = Some r"
  by (cases r) (simp_all add: risk_of_value_def)

lemma risk_of_value_Some: "risk_of_value s = Some r \<longleftrightarrow> s = risk_value r"
proof
  assume "risk_of_value s = Some r"
  then show "s = risk_value r"
    by (auto simp: risk_of_value_def split: if_splits)
qed simp

fun risk_rank :: "risk_class \<Rightarrow> nat" where
  "risk_rank PASSIVE = 0"
| "risk_rank LOW = 1"
| "risk_rank ACTIVE = 2"
| "risk_rank INTRUSIVE = 3"
| "risk_rank DESTRUCTIVE = 4"

lemma risk_rank_inject [simp]: "risk_rank r = risk_rank s \<longleftrightarrow> r = s"
  by (cases r; cases s) auto

instantiation risk_class :: linorder
begin

definition less_eq_risk_class :: "risk_class \<Rightarrow> risk_class \<Rightarrow> bool" where
  "less_eq_risk_class r s \<longleftrightarrow> risk_rank r \<le> risk_rank s"

definition less_risk_class :: "risk_class \<Rightarrow> risk_class \<Rightarrow> bool" where
  "less_risk_class r s \<longleftrightarrow> risk_rank r < risk_rank s"

instance
proof
  fix r s t :: risk_class
  show "r < s \<longleftrightarrow> r \<le> s \<and> \<not> s \<le> r"
    by (auto simp: less_eq_risk_class_def less_risk_class_def)
  show "r \<le> r" by (simp add: less_eq_risk_class_def)
  show "r \<le> s \<or> s \<le> r" by (auto simp: less_eq_risk_class_def)
  show "r \<le> s \<Longrightarrow> s \<le> t \<Longrightarrow> r \<le> t" by (simp add: less_eq_risk_class_def)
  show "r \<le> s \<Longrightarrow> s \<le> r \<Longrightarrow> r = s"
    using risk_rank_inject by (auto simp: less_eq_risk_class_def)
qed

end

lemma risk_le_iff_rank: "r \<le> s \<longleftrightarrow> risk_rank r \<le> risk_rank s"
  by (simp add: less_eq_risk_class_def)

lemma risk_less_iff_rank: "r < s \<longleftrightarrow> risk_rank r < risk_rank s"
  by (simp add: less_risk_class_def)

record policy_decision =
  allowed :: bool
  reason :: string

end
