(* ===== verification/Canonical.thy ===== *)
theory Canonical
  imports Prelude "HOL-Library.List_Lexorder" "HOL-Library.Char_ord"
begin

text \<open>
  Canonical serialisation (\<^verbatim>\<open>domain/common/canonical.py\<close>): \<^verbatim>\<open>json.dumps\<close> with sorted keys,
  compact separators and no ASCII escaping, and the SHA-256 digest over it. SHA-256 itself
  (the \<^verbatim>\<open>hexdigest\<close> of \<^verbatim>\<open>hashlib\<close>, compiled code) is the parameter \<open>sha\<close>.
\<close>

section \<open>Decimal and hexadecimal numerals\<close>

definition digit_char :: "nat \<Rightarrow> char" where
  "digit_char n = char_of (if n < 10 then 48 + n else 87 + n)"

fun nat_repr :: "nat \<Rightarrow> string" where
  "nat_repr n = (if n < 10 then [digit_char n] else nat_repr (n div 10) @ [digit_char (n mod 10)])"

declare nat_repr.simps [simp del]

definition int_repr :: "int \<Rightarrow> string" where
  "int_repr i = (if i < 0 then CHR ''-'' # nat_repr (nat (- i)) else nat_repr (nat i))"

section \<open>JSON text\<close>

definition json_escape :: "char \<Rightarrow> string" where
  "json_escape c =
     (if c = CHR 0x22 then [CHR 0x5C, CHR 0x22]
      else if c = CHR 0x5C then [CHR 0x5C, CHR 0x5C]
      else if c = CHR 0x08 then [CHR 0x5C, CHR ''b'']
      else if c = CHR 0x0C then [CHR 0x5C, CHR ''f'']
      else if c = CHR 0x0A then [CHR 0x5C, CHR ''n'']
      else if c = CHR 0x0D then [CHR 0x5C, CHR ''r'']
      else if c = CHR 0x09 then [CHR 0x5C, CHR ''t'']
      else if of_char c < (32::nat) then
        [CHR 0x5C, CHR ''u'', CHR ''0'', CHR ''0'',
         digit_char (of_char c div 16), digit_char (of_char c mod 16)]
      else [c])"

definition json_string :: "string \<Rightarrow> string" where
  "json_string s = CHR 0x22 # concat (map json_escape s) @ [CHR 0x22]"

fun join :: "string \<Rightarrow> string list \<Rightarrow> string" where
  "join sep [] = []"
| "join sep [x] = x"
| "join sep (x # y # zs) = x @ sep @ join sep (y # zs)"

fun canonical_json :: "pyval \<Rightarrow> string" where
  "canonical_json VNone = ''null''"
| "canonical_json (VBool b) = (if b then ''true'' else ''false'')"
| "canonical_json (VInt i) = int_repr i"
| "canonical_json (VFloat r) = r"
| "canonical_json (VStr s) = json_string s"
| "canonical_json (VList vs) = ''['' @ join '','' (map canonical_json vs) @ '']''"
| "canonical_json (VDict d) =
     ''{'' @ join '','' (map (\<lambda>(k, t). json_string k @ '':'' @ t)
        (sort_key fst (map (\<lambda>(k, v). (k, canonical_json v)) d))) @ ''}''"

definition canonical_digest :: "(string \<Rightarrow> string) \<Rightarrow> pyval \<Rightarrow> string" where
  "canonical_digest sha v = ''sha256:'' @ sha (canonical_json v)"

lemma canonical_digest_nonempty [simp]: "canonical_digest sha v \<noteq> []"
  by (simp add: canonical_digest_def)

abbreviation VStrs :: "string list \<Rightarrow> pyval" where
  "VStrs ss \<equiv> VList (map VStr ss)"

abbreviation VOptStr :: "string option \<Rightarrow> pyval" where
  "VOptStr x \<equiv> (case x of None \<Rightarrow> VNone | Some s \<Rightarrow> VStr s)"

section \<open>Timestamps\<close>

text \<open>
  The proleptic Gregorian date of a day number counted from 1970-01-01, and the text
  \<^verbatim>\<open>_default\<close> gives an aware \<^verbatim>\<open>datetime\<close>: its ISO form in UTC, with microseconds only when they
  are not zero, and \<^verbatim>\<open>+00:00\<close> written \<^verbatim>\<open>Z\<close>.
\<close>

definition civil_from_days :: "int \<Rightarrow> int \<times> int \<times> int" where
  "civil_from_days n =
     (let z = n + 719468; era = z div 146097; doe = z mod 146097;
          yoe = (doe - doe div 1460 + doe div 36524 - doe div 146096) div 365;
          doy = doe - (365 * yoe + yoe div 4 - yoe div 100);
          mp = (5 * doy + 2) div 153;
          d = doy - (153 * mp + 2) div 5 + 1;
          m = (if mp < 10 then mp + 3 else mp - 9)
      in (yoe + era * 400 + (if m \<le> 2 then 1 else 0), m, d))"

definition pad :: "nat \<Rightarrow> int \<Rightarrow> string" where
  "pad w i = (let s = int_repr i in replicate (w - length s) (CHR ''0'') @ s)"

definition iso_utc :: "datetime \<Rightarrow> string" where
  "iso_utc t =
     (let (y, m, d) = civil_from_days (t div 86400000000); r = t mod 86400000000;
          us = r mod 1000000; sec = r div 1000000
      in pad 4 y @ ''-'' @ pad 2 m @ ''-'' @ pad 2 d @ ''T'' @ pad 2 (sec div 3600) @ '':'' @
         pad 2 (sec div 60 mod 60) @ '':'' @ pad 2 (sec mod 60) @
         (if us = 0 then [] else ''.'' @ pad 6 us) @ ''Z'')"

section \<open>The text of a value\<close>

text \<open>\<^verbatim>\<open>repr\<close> of a string: single quotes unless it has one and no double quote.\<close>

definition repr_char :: "char \<Rightarrow> char \<Rightarrow> string" where
  "repr_char q c =
     (let n = (of_char c :: nat) in
      if c = q \<or> c = CHR 0x5C then [CHR 0x5C, c]
      else if c = CHR 0x0A then [CHR 0x5C, CHR ''n'']
      else if c = CHR 0x0D then [CHR 0x5C, CHR ''r'']
      else if c = CHR 0x09 then [CHR 0x5C, CHR ''t'']
      else if n < 32 \<or> 127 \<le> n \<and> n \<le> 160 \<or> n = 173 then
        [CHR 0x5C, CHR ''x'', digit_char (n div 16), digit_char (n mod 16)]
      else [c])"

definition repr_str :: "string \<Rightarrow> string" where
  "repr_str s =
     (let q = (if CHR 0x27 \<in> set s \<and> CHR 0x22 \<notin> set s then CHR 0x22 else CHR 0x27)
      in q # concat (map (repr_char q) s) @ [q])"

fun py_repr :: "pyval \<Rightarrow> string" where
  "py_repr VNone = ''None''"
| "py_repr (VBool b) = (if b then ''True'' else ''False'')"
| "py_repr (VInt i) = int_repr i"
| "py_repr (VFloat r) = r"
| "py_repr (VStr s) = repr_str s"
| "py_repr (VList vs) = ''['' @ join '', '' (map py_repr vs) @ '']''"
| "py_repr (VDict d) = ''{'' @ join '', '' (map (\<lambda>(k, v). repr_str k @ '': '' @ py_repr v) d) @ ''}''"

definition py_str :: "pyval \<Rightarrow> string" where
  "py_str v = (case v of VStr s \<Rightarrow> s | _ \<Rightarrow> py_repr v)"

end
