(* ===== verification/Plans.thy ===== *)
theory Plans
  imports Policy Canonical
begin

text \<open>
  Execution plans (\<^verbatim>\<open>PlanStep\<close> and \<^verbatim>\<open>ExecutionPlan.create\<close> of
  \<^verbatim>\<open>domain/assessments/models.py\<close>): a plan is a list of steps with unique keys whose
  dependencies form a directed acyclic graph, established by a depth-first search. The theory
  proves the search decides acyclicity and that its visiting order is a topological order.
\<close>

section \<open>Model\<close>

record plan_step =
  step_key :: string
  runner :: string
  risk :: risk_class
  parameters :: pydict
  dependencies :: "string list"

record execution_plan =
  plan_id :: string
  plan_assessment_id :: string
  version :: int
  plan_steps :: "plan_step list"
  plan_digest :: string

type_synonym dep_graph = "(string \<times> string list) list"

text \<open>
  The nested function \<^verbatim>\<open>visit\<close>. The set \<^verbatim>\<open>visiting\<close> is extended before and restored after the
  recursive calls, so it is an argument here; \<^verbatim>\<open>visited\<close> is threaded through, as the list of
  finished keys, the last one first.
\<close>

function (sequential) visit ::
    "dep_graph \<Rightarrow> string list \<Rightarrow> string \<Rightarrow> string list \<Rightarrow> string list result"
  and visit_all ::
    "dep_graph \<Rightarrow> string list \<Rightarrow> string list \<Rightarrow> string list \<Rightarrow> string list result" where
  "visit g visiting key visited =
     (if key \<in> set visiting then Inl (DomainValidationError ''plan dependency cycle'')
      else if key \<in> set visited then Inr visited
      else case dict_get g key of
        None \<Rightarrow> Inl (KeyError key)
      | Some deps \<Rightarrow>
          bind_res (visit_all g (key # visiting) deps visited) (\<lambda>visited'. Inr (key # visited')))"
| "visit_all g visiting [] visited = Inr visited"
| "visit_all g visiting (dep # deps) visited =
     bind_res (visit g visiting dep visited) (\<lambda>visited'. visit_all g visiting deps visited')"
  by pat_completeness auto
termination
proof (relation "inv_image (finite_psubset <*lex*> less_than)
    (\<lambda>x. case x of
        Inl (g, visiting, key, visited) \<Rightarrow> (fst ` set g - set visiting, 0)
      | Inr (g, visiting, deps, visited) \<Rightarrow> (fst ` set g - set visiting, Suc (length deps)))",
    goal_cases)
  case 1
  show ?case by auto
next
  case (2 g visiting key visited deps)
  then have "key \<in> fst ` set g"
    by (metis not_Some_eq map_of_eq_None_iff)
  with 2 show ?case by (auto simp: finite_psubset_def)
qed auto

declare visit.simps [simp del]

definition step_graph :: "plan_step list \<Rightarrow> dep_graph" where
  "step_graph steps = map (\<lambda>s. (step_key s, dependencies s)) steps"

definition step_payload :: "plan_step \<Rightarrow> pyval" where
  "step_payload s = VDict
     [(''key'', VStr (step_key s)), (''runner'', VStr (runner s)),
      (''risk'', VStr (risk_value (risk s))), (''parameters'', VDict (parameters s)),
      (''dependencies'', VStrs (dependencies s))]"

definition plan_payload :: "string \<Rightarrow> int \<Rightarrow> plan_step list \<Rightarrow> pyval" where
  "plan_payload asm ver steps = VDict
     [(''assessment_id'', VStr asm), (''version'', VInt ver),
      (''steps'', VList (map step_payload steps))]"

definition ExecutionPlan_create ::
    "(string \<Rightarrow> string) \<Rightarrow> string \<Rightarrow> string \<Rightarrow> int \<Rightarrow> plan_step list \<Rightarrow> execution_plan result" where
  "ExecutionPlan_create sha pid asm ver steps =
     (if ver < 1 then Inl (DomainValidationError ''plan version must be positive'')
      else if \<not> distinct (map step_key steps)
        then Inl (DomainValidationError ''plan step keys must be unique'')
      else if \<exists>s \<in> set steps. \<not> set (dependencies s) \<subseteq> set (map step_key steps)
        then Inl (DomainValidationError ''plan dependency does not exist'')
      else bind_res (visit_all (step_graph steps) [] (map step_key steps) []) (\<lambda>_.
        Inr \<lparr>plan_id = pid, plan_assessment_id = asm, version = ver, plan_steps = steps,
             plan_digest = canonical_digest sha (plan_payload asm ver steps)\<rparr>))"

section \<open>The depth-first search decides acyclicity\<close>

definition dep_edges :: "dep_graph \<Rightarrow> (string \<times> string) set" where
  "dep_edges g = {(k, d). \<exists>ds. dict_get g k = Some ds \<and> d \<in> set ds}"

text \<open>
  A list is in topological order when the dependencies of each key stand behind it.
\<close>

fun topological :: "dep_graph \<Rightarrow> string list \<Rightarrow> bool" where
  "topological g [] = True"
| "topological g (k # ks) =
     (k \<notin> set ks \<and> (\<forall>d. (k, d) \<in> dep_edges g \<longrightarrow> d \<in> set ks) \<and> topological g ks)"

lemma topological_closed:
  "topological g ks \<Longrightarrow> (k, d) \<in> (dep_edges g)\<^sup>+ \<Longrightarrow> k \<in> set ks \<Longrightarrow> d \<in> set ks"
proof (induction ks arbitrary: k)
  case (Cons j ks)
  show ?case
  proof (cases "k = j")
    case True
    from Cons.prems(2) obtain e where e: "(k, e) \<in> dep_edges g" "e = d \<or> (e, d) \<in> (dep_edges g)\<^sup>+"
      by (metis tranclD rtranclD)
    with True Cons.prems(1) have "e \<in> set ks" by auto
    with e Cons show ?thesis by auto
  qed (use Cons in auto)
qed simp

lemma topological_acyclic:
  "topological g ks \<Longrightarrow> k \<in> set ks \<Longrightarrow> (k, k) \<notin> (dep_edges g)\<^sup>+"
proof (induction ks)
  case (Cons j ks)
  show ?case
  proof (cases "k \<in> set ks")
    case False
    with Cons.prems have kj: "k = j" by simp
    show ?thesis
    proof
      assume "(k, k) \<in> (dep_edges g)\<^sup>+"
      then obtain e where e: "(k, e) \<in> dep_edges g" "e = k \<or> (e, k) \<in> (dep_edges g)\<^sup>+"
        by (metis tranclD rtranclD)
      with kj Cons.prems(1) have "e \<in> set ks" "topological g ks" by auto
      with e False topological_closed [of g ks e k] show False by auto
    qed
  qed (use Cons in auto)
qed simp

lemma visit_topological:
  "visit g visiting key visited = Inr visited' \<Longrightarrow> topological g visited \<Longrightarrow>
     set visiting \<inter> set visited = {} \<Longrightarrow>
     topological g visited' \<and> insert key (set visited) \<subseteq> set visited' \<and>
     set visiting \<inter> set visited' = {}"
  "visit_all g visiting keys visited = Inr visited' \<Longrightarrow> topological g visited \<Longrightarrow>
     set visiting \<inter> set visited = {} \<Longrightarrow>
     topological g visited' \<and> set keys \<union> set visited \<subseteq> set visited' \<and>
     set visiting \<inter> set visited' = {}"
proof (induction g visiting key visited and g visiting keys visited
    arbitrary: visited' and visited' rule: visit_visit_all.induct)
  case (1 g visiting key visited)
  show ?case
  proof (cases "key \<in> set visited")
    case True
    with 1 show ?thesis by (auto simp: visit.simps split: if_splits)
  next
    case False
    with 1(2) have nv: "key \<notin> set visiting" by (auto simp: visit.simps split: if_splits)
    with 1(2) False obtain deps v where deps: "dict_get g key = Some deps"
      and v: "visit_all g (key # visiting) deps visited = Inr v" and v': "visited' = key # v"
      by (auto simp: visit.simps bind_res_Inr_iff split: option.splits)
    from 1(1) [OF nv False deps v] 1(3,4) False
    have "topological g v" "set deps \<union> set visited \<subseteq> set v" "set (key # visiting) \<inter> set v = {}"
      by auto
    with v' deps nv show ?thesis by (auto simp: dep_edges_def)
  qed
next
  case (3 g visiting dep deps visited)
  from 3(3) obtain v where v: "visit g visiting dep visited = Inr v"
    and v': "visit_all g visiting deps v = Inr visited'"
    by (auto simp: bind_res_Inr_iff)
  from 3(1) [OF v 3(4,5)] have tv: "topological g v" "insert dep (set visited) \<subseteq> set v"
    "set visiting \<inter> set v = {}" by auto
  from 3(2) [OF v' tv(1,3)] tv(2) show ?case by auto
qed simp

lemma visit_failure:
  "visit g visiting key visited = Inl e \<Longrightarrow> \<forall>v \<in> set visiting. (v, key) \<in> (dep_edges g)\<^sup>+ \<Longrightarrow>
     key \<in> fst ` set g \<Longrightarrow> (\<forall>(k, d) \<in> dep_edges g. d \<in> fst ` set g) \<Longrightarrow>
     e = DomainValidationError ''plan dependency cycle'' \<and> \<not> acyclic (dep_edges g)"
  "visit_all g visiting keys visited = Inl e \<Longrightarrow>
     \<forall>v \<in> set visiting. \<forall>key \<in> set keys. (v, key) \<in> (dep_edges g)\<^sup>+ \<Longrightarrow>
     set keys \<subseteq> fst ` set g \<Longrightarrow> (\<forall>(k, d) \<in> dep_edges g. d \<in> fst ` set g) \<Longrightarrow>
     e = DomainValidationError ''plan dependency cycle'' \<and> \<not> acyclic (dep_edges g)"
proof (induction g visiting key visited and g visiting keys visited
    rule: visit_visit_all.induct)
  case (1 g visiting key visited)
  show ?case
  proof (cases "key \<in> set visiting")
    case True
    with 1 show ?thesis by (auto simp: visit.simps acyclic_def)
  next
    case False
    with 1(2) have nv: "key \<notin> set visited" by (auto simp: visit.simps split: if_splits)
    from 1(4) obtain deps where deps: "dict_get g key = Some deps"
      by (metis not_Some_eq map_of_eq_None_iff)
    with 1(2) False nv have v: "visit_all g (key # visiting) deps visited = Inl e"
      by (auto simp: visit.simps bind_res_Inl_iff split: option.splits)
    have edge: "(key, d) \<in> dep_edges g" if "d \<in> set deps" for d
      using that deps by (auto simp: dep_edges_def)
    have reach: "\<forall>v \<in> set (key # visiting). \<forall>d \<in> set deps. (v, d) \<in> (dep_edges g)\<^sup>+"
      using 1(3) edge by (auto intro: trancl_into_trancl)
    have "set deps \<subseteq> fst ` set g" using edge 1(5) by blast
    from 1(1) [OF False nv deps v reach this 1(5)] show ?thesis .
  qed
next
  case (3 g visiting dep deps visited)
  show ?case
  proof (cases "visit g visiting dep visited")
    case (Inl e')
    with 3(3) have "e' = e" by simp
    with 3(1) Inl 3(4-) show ?thesis by auto
  next
    case (Inr v)
    with 3(3) have "visit_all g visiting deps v = Inl e" by simp
    with 3(2) [OF this] 3(4-) show ?thesis by auto
  qed
qed simp

lemma visit_within:
  "visit g visiting key visited = Inr visited' \<Longrightarrow> set visited' \<subseteq> set visited \<union> fst ` set g"
  "visit_all g visiting keys visited = Inr visited' \<Longrightarrow> set visited' \<subseteq> set visited \<union> fst ` set g"
proof (induction g visiting key visited and g visiting keys visited
    arbitrary: visited' and visited' rule: visit_visit_all.induct)
  case (1 g visiting key visited)
  then show ?case
    by (fastforce simp: visit.simps bind_res_Inr_iff split: if_splits option.splits
        dest: map_of_SomeD intro: rev_image_eqI)
qed (fastforce simp: bind_res_Inr_iff)+

lemma fst_step_graph [simp]: "fst ` set (step_graph steps) = set (map step_key steps)"
  by (force simp: step_graph_def)

lemma dep_edges_step_graph:
  assumes "distinct (map step_key steps)"
  shows "dep_edges (step_graph steps) = {(step_key s, d) | s d. s \<in> set steps \<and> d \<in> set (dependencies s)}"
proof -
  have "distinct (map fst (step_graph steps))"
    using assms by (simp add: step_graph_def comp_def)
  then have "dict_get (step_graph steps) k = Some ds \<longleftrightarrow>
      (\<exists>s \<in> set steps. step_key s = k \<and> dependencies s = ds)" for k ds
    by (auto simp: map_of_eq_Some_iff step_graph_def)
  then show ?thesis by (auto simp: dep_edges_def)
qed

definition depends_on :: "plan_step list \<Rightarrow> (string \<times> string) set" where
  "depends_on steps = {(step_key s, d) | s d. s \<in> set steps \<and> d \<in> set (dependencies s)}"

definition plan_wf :: "plan_step list \<Rightarrow> bool" where
  "plan_wf steps \<longleftrightarrow> distinct (map step_key steps) \<and>
     (\<forall>s \<in> set steps. set (dependencies s) \<subseteq> set (map step_key steps)) \<and> acyclic (depends_on steps)"

lemma visit_all_topological:
  assumes "visit_all g [] keys [] = Inr order" "set keys = fst ` set g"
  shows "topological g order" "set order = set keys"
  using visit_topological(2) [OF assms(1)] visit_within(2) [OF assms(1)] assms(2) by auto

lemma visit_all_decides:
  assumes "distinct (map step_key steps)"
    and known: "\<forall>s \<in> set steps. set (dependencies s) \<subseteq> set (map step_key steps)"
  shows "visit_all (step_graph steps) [] (map step_key steps) [] =
      Inl (DomainValidationError ''plan dependency cycle'') \<and> \<not> acyclic (depends_on steps) \<or>
    (\<exists>order. visit_all (step_graph steps) [] (map step_key steps) [] = Inr order \<and>
       topological (step_graph steps) order \<and> set order = set (map step_key steps) \<and>
       acyclic (depends_on steps))"
proof -
  let ?g = "step_graph steps" and ?keys = "map step_key steps"
  have E: "dep_edges ?g = depends_on steps"
    using dep_edges_step_graph [OF assms(1)] by (simp add: depends_on_def)
  have closed: "\<forall>(k, d) \<in> dep_edges ?g. d \<in> fst ` set ?g"
    using known unfolding E depends_on_def by fastforce
  show ?thesis
  proof (cases "visit_all ?g [] ?keys []")
    case (Inl e)
    with visit_failure(2) [OF Inl _ _ closed] E show ?thesis by simp
  next
    case (Inr order)
    then have t: "topological ?g order" "set order = set ?keys"
      by (simp_all add: visit_all_topological)
    have "(k, k) \<notin> (depends_on steps)\<^sup>+" for k
    proof
      assume c: "(k, k) \<in> (depends_on steps)\<^sup>+"
      then have "k \<in> set ?keys" by (auto simp: depends_on_def dest: tranclD)
      with topological_acyclic [OF t(1), of k] t(2) c E show False by simp
    qed
    with Inr t show ?thesis by (auto simp: acyclic_def)
  qed
qed

section \<open>Properties of plan creation\<close>

lemma ExecutionPlan_create_cases:
  "ExecutionPlan_create sha pid asm ver steps =
     (if ver < 1 then Inl (DomainValidationError ''plan version must be positive'')
      else if \<not> distinct (map step_key steps)
        then Inl (DomainValidationError ''plan step keys must be unique'')
      else if \<exists>s \<in> set steps. \<not> set (dependencies s) \<subseteq> set (map step_key steps)
        then Inl (DomainValidationError ''plan dependency does not exist'')
      else if \<not> acyclic (depends_on steps)
        then Inl (DomainValidationError ''plan dependency cycle'')
      else Inr \<lparr>plan_id = pid, plan_assessment_id = asm, version = ver, plan_steps = steps,
             plan_digest = canonical_digest sha (plan_payload asm ver steps)\<rparr>)"
  using visit_all_decides [of steps] by (auto simp: ExecutionPlan_create_def)

lemma ExecutionPlan_create_Inr:
  "ExecutionPlan_create sha pid asm ver steps = Inr p \<longleftrightarrow>
     1 \<le> ver \<and> plan_wf steps \<and>
     p = \<lparr>plan_id = pid, plan_assessment_id = asm, version = ver, plan_steps = steps,
          plan_digest = canonical_digest sha (plan_payload asm ver steps)\<rparr>"
  unfolding ExecutionPlan_create_cases plan_wf_def by (auto split: if_splits)


text \<open>
  The search order is a schedule: for an accepted plan, the depth-first search over its
  steps finishes with a topological order of all step keys (each key behind it lists all its
  dependencies), so the steps can be executed one after the other.
\<close>

theorem plan_search_topological:
  assumes "ExecutionPlan_create sha pid asm ver steps = Inr plan"
  shows "\<exists>order. visit_all (step_graph steps) [] (map step_key steps) [] = Inr order \<and>
    topological (step_graph steps) order \<and> set order = set (map step_key steps) \<and> distinct order"
proof -
  have distinct: "distinct order" if "topological g order" for g order
    using that by (induction order) auto
  from assms have wf: "plan_wf steps" by (simp add: ExecutionPlan_create_Inr)
  with visit_all_decides [of steps] show ?thesis by (auto simp: plan_wf_def distinct)
qed

theorem plan_search_topological_witness:
  "\<exists>order. visit_all (step_graph [\<lparr>step_key = ''b'', runner = ''nmap'', risk = ACTIVE, parameters = [],
      dependencies = [''a'']\<rparr>, \<lparr>step_key = ''a'', runner = ''httpx'', risk = LOW, parameters = [],
      dependencies = []\<rparr>]) [] [''b'', ''a''] [] = Inr order \<and> set order = {''b'', ''a''}"
proof -
  let ?steps = "[\<lparr>step_key = ''b'', runner = ''nmap'', risk = ACTIVE, parameters = [], dependencies = [''a'']\<rparr>,
    \<lparr>step_key = ''a'', runner = ''httpx'', risk = LOW, parameters = [], dependencies = []\<rparr>]"
  obtain plan where "ExecutionPlan_create id ''p'' ''asm'' 1 ?steps = Inr plan"
    by (simp add: ExecutionPlan_create_def step_graph_def visit.simps)
  from plan_search_topological [OF this] show ?thesis by auto
qed

end
