(* ===== verification/Jobs.thy ===== *)
theory Jobs
  imports Prelude
begin

text \<open>
  Jobs and their leases (\<^verbatim>\<open>domain/jobs/models.py\<close>, \<^verbatim>\<open>application/jobs.py\<close>). The store is the
  insertion-ordered dictionary \<^verbatim>\<open>_jobs\<close> with the lease lifetime. The contract every store
  implements (\<^verbatim>\<open>application/ports/jobs.py\<close>) is the locale \<open>job_store\<close>; the facts its clients
  use, such as the exclusion of a second lease, are proved in the locale and interpreted on
  the in-memory store.
\<close>

section \<open>Jobs\<close>

datatype job_status = PENDING | BLOCKED | READY | LEASED | RUNNING | SUCCEEDED | FAILED | SKIPPED
  | POLICY_DENIED

datatype failure_class = INPUT_INVALID | OUT_OF_SCOPE | NOT_APPROVED | WORKER_UNAVAILABLE | TIMEOUT
  | PARSE_FAILED

fun job_status_value :: "job_status \<Rightarrow> string" where
  "job_status_value PENDING = ''pending''"
| "job_status_value BLOCKED = ''blocked''"
| "job_status_value READY = ''ready''"
| "job_status_value LEASED = ''leased''"
| "job_status_value RUNNING = ''running''"
| "job_status_value SUCCEEDED = ''succeeded''"
| "job_status_value FAILED = ''failed''"
| "job_status_value SKIPPED = ''skipped''"
| "job_status_value POLICY_DENIED = ''policy_denied''"

fun failure_value :: "failure_class \<Rightarrow> string" where
  "failure_value INPUT_INVALID = ''input_invalid''"
| "failure_value OUT_OF_SCOPE = ''out_of_scope''"
| "failure_value NOT_APPROVED = ''not_approved''"
| "failure_value WORKER_UNAVAILABLE = ''worker_unavailable''"
| "failure_value TIMEOUT = ''timeout''"
| "failure_value PARSE_FAILED = ''parse_failed''"

definition RETRYABLE_FAILURES :: "failure_class set" where
  "RETRYABLE_FAILURES = {WORKER_UNAVAILABLE, TIMEOUT}"

definition POLICY_FAILURES :: "failure_class set" where
  "POLICY_FAILURES = {OUT_OF_SCOPE, NOT_APPROVED}"

record job =
  job_id :: string
  plan_step_key :: string
  idempotency_key :: string
  status :: job_status
  attempt :: int
  max_attempts :: int
  lease_owner :: "string option"
  lease_expires_at :: "datetime option"
  result_digest :: string
  job_failure :: string
  job_dependencies :: "string list"
  job_parameters :: pydict

text \<open>The dataclass defaults: only the first three fields are mandatory.\<close>

definition new_job :: "string \<Rightarrow> string \<Rightarrow> string \<Rightarrow> job" where
  "new_job i k ik = \<lparr>job_id = i, plan_step_key = k, idempotency_key = ik, status = PENDING,
     attempt = 0, max_attempts = 3, lease_owner = None, lease_expires_at = None,
     result_digest = '''', job_failure = '''', job_dependencies = [], job_parameters = []\<rparr>"

section \<open>The in-memory store\<close>

record mem_store =
  jobs :: "(string \<times> job) list"
  ttl :: int \<comment> \<open>\<^verbatim>\<open>lease_ttl_seconds\<close>\<close>

definition store_add :: "job \<Rightarrow> mem_store \<Rightarrow> job \<times> mem_store" where
  "store_add j st =
     (case List.find (\<lambda>e. idempotency_key e = idempotency_key j) (dict_values (jobs st)) of
        Some existing \<Rightarrow> (existing, st)
      | None \<Rightarrow> (j, st\<lparr>jobs := dict_set (job_id j) j (jobs st)\<rparr>))"

definition store_get :: "mem_store \<Rightarrow> string \<Rightarrow> job option" where
  "store_get st i = dict_get (jobs st) i"

definition store_all :: "mem_store \<Rightarrow> job list" where
  "store_all st = dict_values (jobs st)"

definition store_require :: "mem_store \<Rightarrow> string \<Rightarrow> job result" where
  "store_require st i =
     (case store_get st i of None \<Rightarrow> Inl (JobNotFoundError (''job not found: '' @ i)) | Some j \<Rightarrow> Inr j)"

definition store_set :: "(job \<Rightarrow> job) \<Rightarrow> string \<Rightarrow> mem_store \<Rightarrow> (job \<times> mem_store) result" where
  "store_set changes i st =
     bind_res (store_require st i) (\<lambda>j.
       Inr (changes j, st\<lparr>jobs := dict_set i (changes j) (jobs st)\<rparr>))"

definition mark_ready :: "string \<Rightarrow> mem_store \<Rightarrow> (job \<times> mem_store) result" where
  "mark_ready = store_set (\<lambda>j. j\<lparr>status := READY\<rparr>)"

definition stale_lease :: "job \<Rightarrow> datetime \<Rightarrow> bool" where
  "stale_lease j now \<longleftrightarrow> status j = LEASED \<and>
     (case lease_expires_at j of None \<Rightarrow> False | Some t \<Rightarrow> t \<le> now)"

definition lease :: "string \<Rightarrow> string \<Rightarrow> datetime \<Rightarrow> mem_store \<Rightarrow> (job \<times> mem_store) result" where
  "lease i owner now st =
     bind_res (store_require st i) (\<lambda>j.
       if status j \<noteq> READY \<and> \<not> stale_lease j now
       then Inl (JobLeaseError (''cannot lease job in status '' @ job_status_value (status j)))
       else store_set (\<lambda>_. j\<lparr>status := LEASED, lease_owner := Some owner,
              lease_expires_at := Some (now + seconds (ttl st)), attempt := attempt j + 1\<rparr>) i st)"

definition renew :: "string \<Rightarrow> string \<Rightarrow> datetime \<Rightarrow> mem_store \<Rightarrow> (job \<times> mem_store) result" where
  "renew i owner now st =
     bind_res (store_require st i) (\<lambda>j.
       if lease_owner j \<noteq> Some owner then Inl (JobLeaseError ''only the lease owner may renew'')
       else store_set (\<lambda>j. j\<lparr>lease_expires_at := Some (now + seconds (ttl st))\<rparr>) i st)"

definition complete :: "string \<Rightarrow> string \<Rightarrow> mem_store \<Rightarrow> (job \<times> mem_store) result" where
  "complete i digest = store_set (\<lambda>j. j\<lparr>status := SUCCEEDED, result_digest := digest\<rparr>) i"

definition fail :: "string \<Rightarrow> failure_class \<Rightarrow> mem_store \<Rightarrow> (job \<times> mem_store) result" where
  "fail i fc = store_set (\<lambda>j. j\<lparr>status := (if fc \<in> POLICY_FAILURES then POLICY_DENIED else FAILED),
     job_failure := failure_value fc\<rparr>) i"

definition requeue :: "string \<Rightarrow> mem_store \<Rightarrow> (job \<times> mem_store) result" where
  "requeue = store_set (\<lambda>j. j\<lparr>status := READY, lease_owner := None, lease_expires_at := None,
     job_failure := ''''\<rparr>)"

definition skip :: "string \<Rightarrow> mem_store \<Rightarrow> (job \<times> mem_store) result" where
  "skip = store_set (\<lambda>j. j\<lparr>status := SKIPPED, lease_owner := None, lease_expires_at := None\<rparr>)"

definition can_lease :: "datetime \<Rightarrow> job \<Rightarrow> bool" where
  "can_lease now j \<longleftrightarrow> status j = READY \<or> stale_lease j now"

definition is_loop_job :: "job \<Rightarrow> bool" where
  "is_loop_job j \<longleftrightarrow> starts_with (plan_step_key j) ''loop:''"

fun leaseable_loop :: "datetime \<Rightarrow> job list \<Rightarrow> job list \<Rightarrow> job list \<Rightarrow> job list" where
  "leaseable_loop now [] loop_jobs ordinary = loop_jobs @ ordinary"
| "leaseable_loop now (j # js) loop_jobs ordinary =
     (if can_lease now j
      then if is_loop_job j then leaseable_loop now js (loop_jobs @ [j]) ordinary
           else leaseable_loop now js loop_jobs (ordinary @ [j])
      else leaseable_loop now js loop_jobs ordinary)"

definition leaseable :: "mem_store \<Rightarrow> datetime \<Rightarrow> job list" where
  "leaseable st now = leaseable_loop now (dict_values (jobs st)) [] []"

section \<open>The contract of a job store\<close>

text \<open>
  The laws of \<^verbatim>\<open>JobStore\<close> a client relies on: what a lookup returns after each operation, and
  when the lease operations fail. \<open>inv\<close> is the store's representation invariant.
\<close>

locale job_store =
  fixes get :: "'s \<Rightarrow> string \<Rightarrow> job option"
    and lease_ttl :: "'s \<Rightarrow> int"
    and inv :: "'s \<Rightarrow> bool"
    and add_op :: "job \<Rightarrow> 's \<Rightarrow> job \<times> 's"
    and lease_op :: "string \<Rightarrow> string \<Rightarrow> datetime \<Rightarrow> 's \<Rightarrow> (job \<times> 's) result"
    and renew_op :: "string \<Rightarrow> string \<Rightarrow> datetime \<Rightarrow> 's \<Rightarrow> (job \<times> 's) result"
    and set_op :: "(job \<Rightarrow> job) \<Rightarrow> string \<Rightarrow> 's \<Rightarrow> (job \<times> 's) result"
  assumes set_unknown: "get s i = None \<Longrightarrow> \<exists>e. set_op f i s = Inl e"
    and set_known: "get s i = Some j \<Longrightarrow> \<exists>s'. set_op f i s = Inr (f j, s') \<and>
          get s' = (get s)(i \<mapsto> f j) \<and> lease_ttl s' = lease_ttl s"
    and set_inv: "inv s \<Longrightarrow> set_op f i s = Inr (j, s') \<Longrightarrow>
          (\<And>j0. job_id (f j0) = job_id j0 \<and> idempotency_key (f j0) = idempotency_key j0) \<Longrightarrow> inv s'"
    and lease_law: "lease_op i owner now s = Inr (j', s') \<Longrightarrow> \<exists>j. get s i = Some j \<and>
          can_lease now j \<and>
          j' = j\<lparr>status := LEASED, lease_owner := Some owner,
                 lease_expires_at := Some (now + seconds (lease_ttl s)), attempt := attempt j + 1\<rparr> \<and>
          get s' = (get s)(i \<mapsto> j') \<and> lease_ttl s' = lease_ttl s"
    and lease_progress: "get s i = Some j \<Longrightarrow> can_lease now j \<Longrightarrow> \<exists>r. lease_op i owner now s = Inr r"
    and renew_law: "renew_op i owner now s = Inr (j', s') \<Longrightarrow> \<exists>j. get s i = Some j \<and>
          lease_owner j = Some owner \<and>
          j' = j\<lparr>lease_expires_at := Some (now + seconds (lease_ttl s))\<rparr> \<and>
          get s' = (get s)(i \<mapsto> j') \<and> lease_ttl s' = lease_ttl s"
    and add_existing: "inv s \<Longrightarrow> get s i = Some e \<Longrightarrow> idempotency_key e = idempotency_key j \<Longrightarrow>
          add_op j s = (e, s)"
    and add_fresh: "inv s \<Longrightarrow> (\<And>i e. get s i = Some e \<Longrightarrow> idempotency_key e \<noteq> idempotency_key j) \<Longrightarrow>
          fst (add_op j s) = j \<and> get (snd (add_op j s)) = (get s)(job_id j \<mapsto> j)"
    and add_inv: "inv s \<Longrightarrow> inv (snd (add_op j s))"
begin

text \<open>A leased job cannot be leased again before its lease expires.\<close>

lemma lease_exclusive:
  assumes "lease_op i owner now s = Inr (j, s')" and "now' < now + seconds (lease_ttl s)"
  shows "\<exists>e. lease_op i owner' now' s' = Inl e"
proof (cases "lease_op i owner' now' s'")
  case (Inr r)
  obtain j2 s2 where r: "r = (j2, s2)" by (cases r)
  from lease_law [OF assms(1)] have "get s' i = Some j" "status j = LEASED"
    "lease_expires_at j = Some (now + seconds (lease_ttl s))" by auto
  with lease_law [OF Inr [unfolded r]] assms(2) show ?thesis
    by (auto simp: can_lease_def stale_lease_def)
qed simp

lemma lease_after_expiry:
  assumes "lease_op i owner now s = Inr (j, s')" and "now + seconds (lease_ttl s) \<le> now'"
  shows "\<exists>j2 s2. lease_op i owner' now' s' = Inr (j2, s2) \<and> attempt j2 = attempt j + 1"
proof -
  from lease_law [OF assms(1)] have j: "get s' i = Some j" "can_lease now' j"
    using assms(2) by (auto simp: can_lease_def stale_lease_def)
  then obtain r where "lease_op i owner' now' s' = Inr r" using lease_progress by blast
  moreover obtain j2 s2 where "r = (j2, s2)" by (cases r)
  ultimately show ?thesis using lease_law [of i owner' now' s' j2 s2] j by auto
qed

lemma renew_needs_owner:
  assumes "lease_op i owner now s = Inr (j, s')" and "owner' \<noteq> owner"
  shows "\<exists>e. renew_op i owner' now' s' = Inl e"
proof (cases "renew_op i owner' now' s'")
  case (Inr r)
  obtain j2 s2 where "r = (j2, s2)" by (cases r)
  with Inr renew_law [of i owner' now' s' j2 s2] lease_law [OF assms(1)] assms(2)
  show ?thesis by auto
qed simp

lemma add_idempotent:
  assumes "inv s"
  shows "add_op j (snd (add_op j s)) = (fst (add_op j s), snd (add_op j s))"
proof (cases "\<exists>i e. get s i = Some e \<and> idempotency_key e = idempotency_key j")
  case True
  then obtain i e where "get s i = Some e" "idempotency_key e = idempotency_key j" by blast
  with add_existing [OF assms] show ?thesis by simp
next
  case False
  with add_fresh [OF assms, of j] have "get (snd (add_op j s)) (job_id j) = Some j" "fst (add_op j s) = j"
    by auto
  with add_existing [OF add_inv [OF assms], of j "job_id j" j] show ?thesis by simp
qed

end

section \<open>The in-memory store implements the contract\<close>

definition store_inv :: "mem_store \<Rightarrow> bool" where
  "store_inv st \<longleftrightarrow> distinct (dict_keys (jobs st)) \<and>
     (\<forall>(k, j) \<in> set (jobs st). job_id j = k) \<and>
     distinct (map idempotency_key (dict_values (jobs st)))"

lemmas store_op_defs = store_set_def store_require_def store_get_def mark_ready_def lease_def
  renew_def complete_def fail_def requeue_def skip_def

lemma store_set_Inr:
  "store_set f i st = Inr (j', st') \<longleftrightarrow>
     (\<exists>j. store_get st i = Some j \<and> j' = f j \<and> st' = st\<lparr>jobs := dict_set i (f j) (jobs st)\<rparr>)"
  by (auto simp: store_set_def store_require_def bind_res_Inr_iff split: option.splits)

lemma store_get_set [simp]:
  "store_get (st\<lparr>jobs := dict_set i j (jobs st)\<rparr>) = (store_get st)(i \<mapsto> j)"
  by (auto simp: store_get_def)

lemma lease_Inr:
  "lease i owner now st = Inr (j', st') \<longleftrightarrow>
     (\<exists>j. store_get st i = Some j \<and> can_lease now j \<and>
        j' = j\<lparr>status := LEASED, lease_owner := Some owner,
               lease_expires_at := Some (now + seconds (ttl st)), attempt := attempt j + 1\<rparr> \<and>
        st' = st\<lparr>jobs := dict_set i j' (jobs st)\<rparr>)"
  by (auto simp: lease_def store_require_def bind_res_Inr_iff store_set_Inr can_lease_def
      split: option.splits if_splits)

lemma renew_Inr:
  "renew i owner now st = Inr (j', st') \<longleftrightarrow>
     (\<exists>j. store_get st i = Some j \<and> lease_owner j = Some owner \<and>
        j' = j\<lparr>lease_expires_at := Some (now + seconds (ttl st))\<rparr> \<and>
        st' = st\<lparr>jobs := dict_set i j' (jobs st)\<rparr>)"
  by (auto simp: renew_def store_require_def bind_res_Inr_iff store_set_Inr
      split: option.splits if_splits)

lemma store_inv_update:
  assumes "store_inv st" "store_get st i = Some j" "job_id j' = job_id j"
    "idempotency_key j' = idempotency_key j"
  shows "store_inv (st\<lparr>jobs := dict_set i j' (jobs st)\<rparr>)"
proof -
  from assms(1,2) have "job_id j = i" by (auto simp: store_inv_def store_get_def dest!: map_of_SomeD)
  moreover have "i \<in> set (dict_keys (jobs st))"
    using assms(2) dict_get_key by (simp add: store_get_def)
  ultimately show ?thesis
    using assms dict_set_map_values [of "jobs st" i j idempotency_key j']
    by (auto simp: store_inv_def store_get_def set_dict_set distinct_update)
qed

lemma find_idempotent:
  assumes "store_inv st" "store_get st i = Some e" "idempotency_key e = ik"
  shows "List.find (\<lambda>x. idempotency_key x = ik) (dict_values (jobs st)) = Some e"
proof (rule find_distinct_key)
  show "distinct (map idempotency_key (dict_values (jobs st)))"
    using assms(1) by (simp only: store_inv_def)
  show "e \<in> set (dict_values (jobs st))"
    using assms(2) dict_get_value by (simp add: store_get_def)
qed (rule assms(3))

lemma store_inv_add:
  assumes "store_inv st"
  shows "store_inv (snd (store_add j st))"
proof (cases "List.find (\<lambda>e. idempotency_key e = idempotency_key j) (dict_values (jobs st))")
  case None
  then have "idempotency_key j \<notin> set (map idempotency_key (dict_values (jobs st)))"
    by (auto simp: find_None_iff)
  with assms None show ?thesis
    using distinct_dict_set_fresh [of idempotency_key "jobs st" j "job_id j"]
    by (auto simp: store_add_def store_inv_def distinct_update set_dict_set)
qed (use assms in \<open>simp add: store_add_def\<close>)

interpretation mem: job_store store_get ttl store_inv store_add lease renew store_set
proof (unfold_locales, goal_cases)
  case (1 s i f) then show ?case by (simp add: store_set_def store_require_def)
next
  case (2 s i j f) then show ?case by (simp add: store_set_def store_require_def)
next
  case (3 s f i j s')
  then show ?case by (auto simp: store_set_Inr intro: store_inv_update)
next
  case (4 i owner now s j' s') then show ?case by (auto simp: lease_Inr)
next
  case (5 s i j now owner) then show ?case
    by (auto simp: lease_def store_require_def store_set_def can_lease_def)
next
  case (6 i owner now s j' s') then show ?case by (auto simp: renew_Inr)
next
  case (7 s i e j) then show ?case using find_idempotent by (simp add: store_add_def)
next
  case (8 s j)
  then have "List.find (\<lambda>e. idempotency_key e = idempotency_key j) (dict_values (jobs s)) = None"
    by (auto simp: store_inv_def find_None_iff store_get_def map_of_eq_Some_iff)
  then show ?case by (simp add: store_add_def)
next
  case (9 s j) then show ?case by (rule store_inv_add)
qed

lemma leaseable_loop_eq:
  "leaseable_loop now js ls os =
     ls @ filter (\<lambda>j. can_lease now j \<and> is_loop_job j) js @
     os @ filter (\<lambda>j. can_lease now j \<and> \<not> is_loop_job j) js"
  by (induction js arbitrary: ls os) auto

text \<open>The leaseable jobs: loop jobs first, each group in insertion order.\<close>

lemma leaseable_eq:
  "leaseable st now =
     filter (\<lambda>j. can_lease now j \<and> is_loop_job j) (store_all st) @
     filter (\<lambda>j. can_lease now j \<and> \<not> is_loop_job j) (store_all st)"
  by (simp add: leaseable_def leaseable_loop_eq store_all_def)

lemma store_all_get:
  "store_inv st \<Longrightarrow> j \<in> set (store_all st) \<longleftrightarrow> store_get st (job_id j) = Some j"
  by (force simp: store_inv_def store_all_def store_get_def map_of_eq_Some_iff)

lemma set_leaseable: "set (leaseable st now) = {j \<in> set (store_all st). can_lease now j}"
  by (auto simp: leaseable_eq)

section \<open>Histories of store operations\<close>

text \<open>
  Several workers share one store; every operation runs under its re-entrant lock, so a
  concurrent run is some sequence of whole operations. A failing operation leaves the store
  as it was.
\<close>

datatype job_op =
    OpAdd job
  | OpReady string
  | OpLease string string datetime
  | OpRenew string string datetime
  | OpComplete string string
  | OpFail string failure_class
  | OpRequeue string
  | OpSkip string

fun job_op_result :: "job_op \<Rightarrow> mem_store \<Rightarrow> (job \<times> mem_store) result" where
  "job_op_result (OpAdd j) st = Inr (store_add j st)"
| "job_op_result (OpReady i) st = mark_ready i st"
| "job_op_result (OpLease i owner now) st = lease i owner now st"
| "job_op_result (OpRenew i owner now) st = renew i owner now st"
| "job_op_result (OpComplete i d) st = complete i d st"
| "job_op_result (OpFail i fc) st = fail i fc st"
| "job_op_result (OpRequeue i) st = requeue i st"
| "job_op_result (OpSkip i) st = skip i st"

definition job_op_step :: "job_op \<Rightarrow> mem_store \<Rightarrow> mem_store" where
  "job_op_step op st = (case job_op_result op st of Inl e \<Rightarrow> st | Inr (j, st') \<Rightarrow> st')"

fun run_job_ops :: "job_op list \<Rightarrow> mem_store \<Rightarrow> mem_store" where
  "run_job_ops [] st = st"
| "run_job_ops (op # ops) st = run_job_ops ops (job_op_step op st)"

lemmas job_op_Inr = mark_ready_def complete_def fail_def requeue_def skip_def store_set_Inr
  lease_Inr renew_Inr

lemma job_op_step_inv: "store_inv st \<Longrightarrow> store_inv (job_op_step op st)"
proof (cases op)
  case (OpAdd j)
  then show "store_inv st \<Longrightarrow> store_inv (job_op_step op st)"
    using store_inv_add [of st j] by (cases "store_add j st") (simp add: job_op_step_def)
qed (auto simp: job_op_step_def job_op_Inr split: sum.splits prod.splits intro: store_inv_update)

lemma run_job_ops_inv: "store_inv st \<Longrightarrow> store_inv (run_job_ops ops st)"
  by (induction ops arbitrary: st) (auto intro: job_op_step_inv)

lemma job_op_step_ttl [simp]: "ttl (job_op_step op st) = ttl st"
  by (cases op)
    (auto simp: job_op_step_def job_op_Inr store_add_def split: sum.splits prod.splits option.splits)

text \<open>
  The operations that may end the exclusive lease of job \<open>i\<close>: those that put it back to
  READY or replace it, and a renewal with an older clock than the lease.
\<close>

fun releases :: "string \<Rightarrow> datetime \<Rightarrow> job_op \<Rightarrow> bool" where
  "releases i t (OpAdd j) = (job_id j = i)"
| "releases i t (OpReady k) = (k = i)"
| "releases i t (OpRequeue k) = (k = i)"
| "releases i t (OpRenew k owner now) = (k = i \<and> now < t)"
| "releases i t _ = False"

definition held_until :: "string \<Rightarrow> datetime \<Rightarrow> mem_store \<Rightarrow> bool" where
  "held_until i t st \<longleftrightarrow> (\<exists>j. store_get st i = Some j \<and> status j \<noteq> READY \<and>
     (status j = LEASED \<longrightarrow> (\<exists>x \<ge> t. lease_expires_at j = Some x)))"

lemma held_until_step:
  assumes "held_until i (t + seconds (ttl st)) st" "0 \<le> ttl st" "\<not> releases i t op"
  shows "held_until i (t + seconds (ttl st)) (job_op_step op st)"
proof (cases "job_op_result op st")
  case (Inr r)
  obtain j' st' where r: "r = (j', st')" by (cases r)
  with Inr have step: "job_op_step op st = st'" by (simp add: job_op_step_def)
  from assms Inr r show ?thesis unfolding step
    by (cases op)
      (auto simp: held_until_def job_op_Inr can_lease_def stale_lease_def store_add_def
        seconds_def split: option.splits if_splits)
qed (use assms in \<open>simp add: job_op_step_def\<close>)

lemma held_until_run:
  assumes "held_until i (t + seconds (ttl st)) st" "0 \<le> ttl st" "\<forall>op \<in> set ops. \<not> releases i t op"
  shows "held_until i (t + seconds (ttl st)) (run_job_ops ops st)"
  using assms
proof (induction ops arbitrary: st)
  case (Cons op ops)
  then show ?case using held_until_step [of i t st op] Cons.IH [of "job_op_step op st"] by simp
qed simp

section \<open>Properties\<close>

text \<open>
  C22. Mutual exclusion of leases over every history. After a worker leased job \<open>i\<close> at time
  \<open>t\<close>, and after any sequence of operations of any workers in which nobody puts the job back
  to READY (a retry), replaces it or renews it with an older clock, a second lease before
  \<open>t\<close> plus the lease lifetime is refused.
\<close>

theorem lease_mutual_exclusion:
  assumes "lease i owner t st = Inr (j, st1)"
    and "0 \<le> ttl st"
    and "\<forall>op \<in> set ops. \<not> releases i t op"
    and "t' < t + seconds (ttl st)"
  shows "\<exists>msg. lease i owner' t' (run_job_ops ops st1) = Inl (JobLeaseError msg)"
proof -
  from assms(1) have "held_until i (t + seconds (ttl st1)) st1" and ttl: "ttl st1 = ttl st"
    by (auto simp: lease_Inr held_until_def)
  with held_until_run [of i t st1 ops] assms(2,3)
  have "held_until i (t + seconds (ttl st)) (run_job_ops ops st1)" by simp
  with assms(4) show ?thesis
    by (auto simp: held_until_def lease_def store_require_def stale_lease_def split: option.splits)
qed

theorem lease_mutual_exclusion_witness:
  "\<exists>j st1 msg.
     lease ''job:a'' ''w1'' 0 \<lparr>jobs = [(''job:a'', (new_job ''job:a'' ''a'' ''d:a'')\<lparr>status := READY\<rparr>)],
       ttl = 300\<rparr> = Inr (j, st1) \<and>
     lease ''job:a'' ''w2'' 299999999
       (run_job_ops [OpLease ''job:a'' ''w3'' 5, OpRenew ''job:a'' ''w1'' 7] st1) = Inl (JobLeaseError msg)"
proof -
  let ?st = "\<lparr>jobs = [(''job:a'', (new_job ''job:a'' ''a'' ''d:a'')\<lparr>status := READY\<rparr>)], ttl = 300\<rparr>"
  obtain j st1 where l: "lease ''job:a'' ''w1'' 0 ?st = Inr (j, st1)"
    by (auto simp: lease_Inr store_get_def can_lease_def)
  from lease_mutual_exclusion [OF l, of "[OpLease ''job:a'' ''w3'' 5, OpRenew ''job:a'' ''w1'' 7]"
      "299999999" "''w2''"] l
  show ?thesis by (auto simp: seconds_def)
qed

text \<open>
  The leaseable listing is exact: in a well-formed store, a stored job is listed as
  leaseable at a time exactly when a lease of it at that time succeeds, for every owner.
\<close>

theorem leaseable_iff_lease_succeeds:
  assumes "store_inv st" and "j \<in> set (store_all st)"
  shows "j \<in> set (leaseable st now) \<longleftrightarrow> (\<exists>r. lease (job_id j) owner now st = Inr r)"
proof -
  from assms have g: "store_get st (job_id j) = Some j" by (simp add: store_all_get)
  then have "(\<exists>r. lease (job_id j) owner now st = Inr r) \<longleftrightarrow> can_lease now j"
    by (auto simp: lease_Inr)
  with assms(2) show ?thesis by (simp add: set_leaseable)
qed

theorem leaseable_iff_lease_succeeds_witness:
  "(new_job ''i'' ''k'' ''d'')\<lparr>status := READY\<rparr> \<in>
     set (leaseable \<lparr>jobs = [(''i'', (new_job ''i'' ''k'' ''d'')\<lparr>status := READY\<rparr>)], ttl = 300\<rparr> 0)
   \<longleftrightarrow> (\<exists>r. lease (job_id ((new_job ''i'' ''k'' ''d'')\<lparr>status := READY\<rparr>)) ''w'' 0
       \<lparr>jobs = [(''i'', (new_job ''i'' ''k'' ''d'')\<lparr>status := READY\<rparr>)], ttl = 300\<rparr> = Inr r)"
  by (rule leaseable_iff_lease_succeeds)
    (simp_all add: store_inv_def store_all_def new_job_def)

text \<open>
  Adding a job is idempotent on its idempotency key: in a store reached by any history
  from a well-formed one, adding the same job a second time returns the job stored first and
  changes nothing.
\<close>

theorem store_add_idempotent:
  assumes "store_inv st0"
  shows "let st = run_job_ops ops st0; (stored, st') = store_add j st in store_add j st' = (stored, st')"
  using mem.add_idempotent [OF run_job_ops_inv [OF assms, of ops], of j]
  by (simp add: Let_def case_prod_beta)

theorem store_add_idempotent_witness:
  "let st = run_job_ops [OpAdd (new_job ''i'' ''k'' ''d''), OpReady ''i''] \<lparr>jobs = [], ttl = 300\<rparr>;
       (stored, st') = store_add (new_job ''x'' ''k'' ''d'') st
   in store_add (new_job ''x'' ''k'' ''d'') st' = (stored, st')"
  by (rule store_add_idempotent) (simp add: store_inv_def)

end
