(* ===== verification/Orchestration.thy ===== *)
theory Orchestration
  imports Plans Jobs
begin

text \<open>
  The orchestrator (\<^verbatim>\<open>application/orchestrator.py\<close>): a plan is dispatched into one job per
  step; every round leases and executes the leaseable jobs, classifies failures into retry
  and denial, and unblocks the jobs whose dependencies succeeded. The step runner and the
  step-boundary gate are injected, so they are arguments: functions on a world state \<open>'w\<close> of
  their own. The model is the serial executor (\<^verbatim>\<open>max_workers = 1\<close>, the default).
\<close>

section \<open>Model\<close>

datatype run_outcome =
    RunOk string                \<comment> \<open>\<^verbatim>\<open>StepResult\<close>\<close>
  | RunFailure failure_class    \<comment> \<open>\<^verbatim>\<open>StepFailure\<close>\<close>
  | RunRaise string             \<comment> \<open>any other exception, which propagates\<close>

type_synonym 'w step_runner = "'w \<Rightarrow> plan_step \<Rightarrow> run_outcome \<times> 'w"
type_synonym 'w step_gate = "('w \<Rightarrow> string option \<times> 'w) option"

record 'w orchestrator =
  store :: mem_store
  known_steps :: "(string \<times> plan_step) list"
  world :: 'w

datatype 'a outcome = Returned 'a | StepPaused | StepCancelled | Raised exn

definition step_job :: "execution_plan \<Rightarrow> plan_step \<Rightarrow> job" where
  "step_job plan s =
     (new_job (''job:'' @ step_key s) (step_key s) (plan_digest plan @ '':'' @ step_key s))
       \<lparr>job_dependencies := dependencies s,
        status := (if dependencies s \<noteq> [] then BLOCKED else READY)\<rparr>"

fun dispatch_steps ::
    "execution_plan \<Rightarrow> plan_step list \<Rightarrow> 'w orchestrator \<Rightarrow> job list \<times> 'w orchestrator" where
  "dispatch_steps plan [] orc = ([], orc)"
| "dispatch_steps plan (s # ss) orc =
     (let (j, st) = store_add (step_job plan s) (store orc);
          (js, orc') = dispatch_steps plan ss
            (orc\<lparr>store := st, known_steps := dict_set (step_key s) s (known_steps orc)\<rparr>)
      in (j # js, orc'))"

definition dispatch :: "execution_plan \<Rightarrow> 'w orchestrator \<Rightarrow> job list \<times> 'w orchestrator" where
  "dispatch plan orc = dispatch_steps plan (plan_steps plan) orc"

definition check_gate :: "'w step_gate \<Rightarrow> 'w \<Rightarrow> unit outcome \<times> 'w" where
  "check_gate gate w =
     (case gate of
        None \<Rightarrow> (Returned (), w)
      | Some g \<Rightarrow>
          (let (decision, w') = g w in
           if decision = Some ''paused'' then (StepPaused, w')
           else if decision = Some ''cancelled'' then (StepCancelled, w')
           else (Returned (), w')))"

definition handle_failure :: "job \<Rightarrow> failure_class \<Rightarrow> mem_store \<Rightarrow> (job \<times> mem_store) result" where
  "handle_failure j fc st =
     (if fc \<in> POLICY_FAILURES then fail (job_id j) fc st
      else if fc \<in> RETRYABLE_FAILURES \<and> attempt j < max_attempts j then requeue (job_id j) st
      else fail (job_id j) fc st)"

definition execute_step ::
    "'w step_runner \<Rightarrow> string \<Rightarrow> datetime \<Rightarrow> job \<Rightarrow> plan_step \<Rightarrow> 'w orchestrator
      \<Rightarrow> job outcome \<times> 'w orchestrator" where
  "execute_step run owner now j step orc =
     (case lease (job_id j) owner now (store orc) of
        Inl e \<Rightarrow> (Raised e, orc)
      | Inr (leased, st1) \<Rightarrow>
          (let (out, w) = run (world orc) step;
               orc1 = orc\<lparr>store := st1, world := w\<rparr>;
               finish = (case out of
                   RunRaise msg \<Rightarrow> Inl (RunnerError msg)
                 | RunFailure fc \<Rightarrow> handle_failure leased fc st1
                 | RunOk digest \<Rightarrow> complete (job_id j) digest st1)
           in case finish of
                Inl e \<Rightarrow> (Raised e, orc1)
              | Inr (j', st2) \<Rightarrow> (Returned j', orc1\<lparr>store := st2\<rparr>)))"

fun execute_targets ::
    "'w step_runner \<Rightarrow> 'w step_gate \<Rightarrow> string \<Rightarrow> datetime \<Rightarrow> (job \<times> plan_step) list \<Rightarrow>
      'w orchestrator \<Rightarrow> job list outcome \<times> 'w orchestrator" where
  "execute_targets run gate owner now [] orc = (Returned [], orc)"
| "execute_targets run gate owner now ((j, step) # rest) orc =
     (case check_gate gate (world orc) of
        (StepPaused, w) \<Rightarrow> (StepPaused, orc\<lparr>world := w\<rparr>)
      | (StepCancelled, w) \<Rightarrow> (StepCancelled, orc\<lparr>world := w\<rparr>)
      | (Raised e, w) \<Rightarrow> (Raised e, orc\<lparr>world := w\<rparr>)
      | (Returned _, w) \<Rightarrow>
          (case execute_step run owner now j step (orc\<lparr>world := w\<rparr>) of
             (Returned j', orc1) \<Rightarrow>
               (case execute_targets run gate owner now rest orc1 of
                  (Returned js, orc2) \<Rightarrow> (Returned (j' # js), orc2)
                | r \<Rightarrow> r)
           | (Raised e, orc1) \<Rightarrow> (Raised e, orc1)
           | (StepPaused, orc1) \<Rightarrow> (StepPaused, orc1)
           | (StepCancelled, orc1) \<Rightarrow> (StepCancelled, orc1)))"

definition succeeded_keys :: "job list \<Rightarrow> string set" where
  "succeeded_keys js = plan_step_key ` {j \<in> set js. status j = SUCCEEDED}"

fun unblock :: "string set \<Rightarrow> job list \<Rightarrow> mem_store \<Rightarrow> mem_store result" where
  "unblock succeeded [] st = Inr st"
| "unblock succeeded (j # js) st =
     (if status j = BLOCKED \<and> set (job_dependencies j) \<subseteq> succeeded
      then bind_res (mark_ready (job_id j) st) (\<lambda>(_, st'). unblock succeeded js st')
      else unblock succeeded js st)"

definition resolve_dependencies :: "mem_store \<Rightarrow> mem_store result" where
  "resolve_dependencies st = unblock (succeeded_keys (store_all st)) (store_all st) st"

definition targets :: "datetime \<Rightarrow> 'w orchestrator \<Rightarrow> (job \<times> plan_step) list" where
  "targets now orc =
     concat (map (\<lambda>j. case dict_get (known_steps orc) (plan_step_key j) of
                        None \<Rightarrow> [] | Some s \<Rightarrow> [(j, s)])
       (leaseable (store orc) now))"

definition execute_ready ::
    "'w step_runner \<Rightarrow> 'w step_gate \<Rightarrow> string \<Rightarrow> datetime \<Rightarrow> 'w orchestrator
      \<Rightarrow> job list outcome \<times> 'w orchestrator" where
  "execute_ready run gate owner now orc =
     (case execute_targets run gate owner now (targets now orc) orc of
        (Returned js, orc1) \<Rightarrow>
          (case resolve_dependencies (store orc1) of
             Inl e \<Rightarrow> (Raised e, orc1)
           | Inr st \<Rightarrow> (Returned js, orc1\<lparr>store := st\<rparr>))
      | r \<Rightarrow> r)"

fun run_to_completion ::
    "'w step_runner \<Rightarrow> 'w step_gate \<Rightarrow> string \<Rightarrow> datetime \<Rightarrow> nat \<Rightarrow> 'w orchestrator
      \<Rightarrow> (exn + string) \<times> 'w orchestrator" where
  "run_to_completion run gate owner now 0 orc = (Inr ''completed'', orc)"
| "run_to_completion run gate owner now (Suc rounds) orc =
     (case execute_ready run gate owner now orc of
        (StepPaused, orc1) \<Rightarrow> (Inr ''paused'', orc1)
      | (StepCancelled, orc1) \<Rightarrow> (Inr ''cancelled'', orc1)
      | (Raised e, orc1) \<Rightarrow> (Inl e, orc1)
      | (Returned executed, orc1) \<Rightarrow>
          if executed = [] then (Inr ''completed'', orc1)
          else run_to_completion run gate owner now rounds orc1)"

section \<open>The effect of one execution\<close>

text \<open>What a finished execution makes of the job: its attempt is counted and it is closed or requeued.\<close>

definition executed_job :: "string \<Rightarrow> datetime \<Rightarrow> int \<Rightarrow> run_outcome \<Rightarrow> job \<Rightarrow> job" where
  "executed_job owner now lifetime out j =
     (let l = j\<lparr>status := LEASED, lease_owner := Some owner,
                lease_expires_at := Some (now + seconds lifetime), attempt := attempt j + 1\<rparr>
      in case out of
           RunOk d \<Rightarrow> l\<lparr>status := SUCCEEDED, result_digest := d\<rparr>
         | RunRaise _ \<Rightarrow> l
         | RunFailure fc \<Rightarrow>
             if fc \<in> RETRYABLE_FAILURES \<and> fc \<notin> POLICY_FAILURES \<and> attempt j + 1 < max_attempts j
             then l\<lparr>status := READY, lease_owner := None, lease_expires_at := None, job_failure := ''''\<rparr>
             else l\<lparr>status := (if fc \<in> POLICY_FAILURES then POLICY_DENIED else FAILED),
                    job_failure := failure_value fc\<rparr>)"

definition put_job :: "job \<Rightarrow> mem_store \<Rightarrow> mem_store" where
  "put_job j st = st\<lparr>jobs := dict_set (job_id j) j (jobs st)\<rparr>"

lemma dict_set_twice [simp]: "dict_set k v (dict_set k u d) = dict_set k v d"
  by (induction d) auto

lemma put_job_simps [simp]:
  "store_get (put_job j st) = (store_get st)(job_id j \<mapsto> j)"
  "ttl (put_job j st) = ttl st"
  "job_id j' = job_id j \<Longrightarrow> put_job j' (put_job j st) = put_job j' st"
  by (simp_all add: put_job_def)

lemma executed_job_simps [simp]:
  "job_id (executed_job owner now life out j) = job_id j"
  "idempotency_key (executed_job owner now life out j) = idempotency_key j"
  "plan_step_key (executed_job owner now life out j) = plan_step_key j"
  "job_dependencies (executed_job owner now life out j) = job_dependencies j"
  "max_attempts (executed_job owner now life out j) = max_attempts j"
  "attempt (executed_job owner now life out j) = attempt j + 1"
  by (simp_all add: executed_job_def Let_def split: run_outcome.splits)

lemma set_via_put:
  "store_get st i = Some j \<Longrightarrow> job_id (f j) = i \<Longrightarrow> store_set f i st = Inr (f j, put_job (f j) st)"
  by (simp add: store_set_def store_require_def put_job_def)

lemma execute_step_eq:
  assumes "store_get (store orc) (job_id j) = Some j" "can_lease now j"
    "run (world orc) step = (out, w)"
  shows "execute_step run owner now j step orc =
     ((case out of RunRaise msg \<Rightarrow> Raised (RunnerError msg)
        | _ \<Rightarrow> Returned (executed_job owner now (ttl (store orc)) out j)),
      orc\<lparr>store := put_job (executed_job owner now (ttl (store orc)) out j) (store orc), world := w\<rparr>)"
proof -
  let ?l = "j\<lparr>status := LEASED, lease_owner := Some owner,
                lease_expires_at := Some (now + seconds (ttl (store orc))), attempt := attempt j + 1\<rparr>"
  have l: "lease (job_id j) owner now (store orc) = Inr (?l, put_job ?l (store orc))"
    using assms(1,2) by (simp add: lease_Inr put_job_def)
  show ?thesis
  proof (cases out)
    case (RunFailure fc)
    with l assms show ?thesis
      by (simp add: execute_step_def handle_failure_def fail_def requeue_def set_via_put
          executed_job_def Let_def)
  qed (use l assms in \<open>simp_all add: execute_step_def complete_def set_via_put executed_job_def Let_def\<close>)
qed

section \<open>The run invariant\<close>

text \<open>
  A call log for stating what the runner saw: the runner extended with a list of its calls
  and their outcomes, the newest first. Gates do not see the log.
\<close>

type_synonym call_log = "(plan_step \<times> run_outcome) list"

definition logged :: "'w step_runner \<Rightarrow> ('w \<times> call_log) step_runner" where
  "logged run wl step =
     (let (out, w') = run (fst wl) step in (out, (w', (step, out) # snd wl)))"

definition logged_gate :: "'w step_gate \<Rightarrow> ('w \<times> call_log) step_gate" where
  "logged_gate gate = map_option (\<lambda>g wl. let (d, w') = g (fst wl) in (d, (w', snd wl))) gate"

fun is_ok :: "run_outcome \<Rightarrow> bool" where
  "is_ok (RunOk d) = True"
| "is_ok _ = False"

definition ok_keys :: "call_log \<Rightarrow> string set" where
  "ok_keys log = {step_key s | s out. (s, out) \<in> set log \<and> is_ok out}"

fun deps_first :: "call_log \<Rightarrow> bool" where
  "deps_first [] = True"
| "deps_first ((s, out) # log) = (set (dependencies s) \<subseteq> ok_keys log \<and> deps_first log)"

definition calls_of :: "string \<Rightarrow> call_log \<Rightarrow> nat" where
  "calls_of k log = length (filter (\<lambda>(s, out). step_key s = k) log)"

lemma calls_of_Cons [simp]:
  "calls_of k ((s, out) # log) = (if step_key s = k then Suc (calls_of k log) else calls_of k log)"
  by (simp add: calls_of_def)

fun retryable :: "run_outcome \<Rightarrow> bool" where
  "retryable (RunFailure fc) = (fc \<in> RETRYABLE_FAILURES)"
| "retryable _ = False"

definition only_retries :: "string \<Rightarrow> call_log \<Rightarrow> bool" where
  "only_retries k log \<longleftrightarrow> (\<forall>(s, out) \<in> set log. step_key s = k \<longrightarrow> retryable out)"

text \<open>A step is called again only after transient failures.\<close>

fun retries_justified :: "call_log \<Rightarrow> bool" where
  "retries_justified [] = True"
| "retries_justified ((s, out) # log) = (only_retries (step_key s) log \<and> retries_justified log)"

lemma only_retries_Cons [simp]:
  "only_retries k ((s, out) # log) = ((step_key s = k \<longrightarrow> retryable out) \<and> only_retries k log)"
  by (simp add: only_retries_def)

definition no_raise :: "call_log \<Rightarrow> bool" where
  "no_raise log \<longleftrightarrow> (\<forall>s out msg. (s, out) \<in> set log \<longrightarrow> out \<noteq> RunRaise msg)"

lemma no_raise_Cons [simp]:
  "no_raise ((s, out) # log) \<longleftrightarrow> (\<forall>msg. out \<noteq> RunRaise msg) \<and> no_raise log"
  by (auto simp: no_raise_def)

definition job_ok :: "datetime \<Rightarrow> (string \<times> plan_step) list \<Rightarrow> call_log \<Rightarrow> job \<Rightarrow> bool" where
  "job_ok now known log j \<longleftrightarrow>
     (\<exists>s. dict_get known (plan_step_key j) = Some s \<and> step_key s = plan_step_key j \<and>
          dependencies s = job_dependencies j) \<and>
     job_id j = ''job:'' @ plan_step_key j \<and>
     (status j \<noteq> BLOCKED \<longrightarrow> set (job_dependencies j) \<subseteq> ok_keys log) \<and>
     (status j = SUCCEEDED \<longrightarrow> plan_step_key j \<in> ok_keys log) \<and>
     attempt j = int (calls_of (plan_step_key j) log) \<and>
     max_attempts j = 3 \<and> attempt j \<le> 3 \<and>
     (status j \<in> {READY, BLOCKED} \<longrightarrow> attempt j < 3 \<and> only_retries (plan_step_key j) log) \<and>
     \<not> stale_lease j now \<and> status j \<notin> {PENDING, RUNNING, SKIPPED} \<and>
     (status j = LEASED \<longrightarrow> \<not> no_raise log)"

text \<open>Every call in the log belongs to a stored job.\<close>

definition log_covered :: "mem_store \<Rightarrow> call_log \<Rightarrow> bool" where
  "log_covered st log \<longleftrightarrow>
     (\<forall>s out. (s, out) \<in> set log \<longrightarrow> (\<exists>i j. store_get st i = Some j \<and> plan_step_key j = step_key s))"

definition run_inv :: "datetime \<Rightarrow> ('w \<times> call_log) orchestrator \<Rightarrow> bool" where
  "run_inv now orc \<longleftrightarrow> store_inv (store orc) \<and> 0 < ttl (store orc) \<and>
     deps_first (snd (world orc)) \<and> retries_justified (snd (world orc)) \<and>
     log_covered (store orc) (snd (world orc)) \<and>
     (\<forall>i j. store_get (store orc) i = Some j \<longrightarrow>
        job_ok now (known_steps orc) (snd (world orc)) j)"

lemma run_inv_job:
  "run_inv now orc \<Longrightarrow> store_get (store orc) i = Some j \<Longrightarrow>
     job_ok now (known_steps orc) (snd (world orc)) j"
  by (simp add: run_inv_def)

lemma job_ok_step: "job_ok now known log j \<Longrightarrow> \<exists>s. dict_get known (plan_step_key j) = Some s"
  by (auto simp: job_ok_def)

lemma run_inv_world [simp]: "run_inv now (orc\<lparr>world := (w, snd (world orc))\<rparr>) = run_inv now orc"
  by (simp add: run_inv_def)

lemma ok_keys_Cons: "ok_keys ((s, out) # log) = (if is_ok out then insert (step_key s) (ok_keys log) else ok_keys log)"
  by (auto simp: ok_keys_def)

lemma executed_job_status:
  "status (executed_job owner now life out j) = BLOCKED \<Longrightarrow> False"
  "status (executed_job owner now life out j) = SUCCEEDED \<Longrightarrow> is_ok out"
  "status (executed_job owner now life out j) = READY \<Longrightarrow> attempt j + 1 < max_attempts j \<and> retryable out"
  "0 < life \<Longrightarrow> \<not> stale_lease (executed_job owner now life out j) now"
  "status (executed_job owner now life out j) = LEASED \<Longrightarrow> \<exists>msg. out = RunRaise msg"
  "status (executed_job owner now life out j) \<notin> {PENDING, RUNNING, SKIPPED}"
  by (auto simp: executed_job_def Let_def stale_lease_def seconds_def
      split: run_outcome.splits if_splits)

lemma store_inv_get_id: "store_inv st \<Longrightarrow> store_get st i = Some j \<Longrightarrow> job_id j = i"
  by (auto simp: store_inv_def store_get_def dest!: map_of_SomeD)

lemma ready_target:
  assumes "run_inv now orc" "store_get (store orc) (job_id j) = Some j" "can_lease now j"
  shows "status j = READY"
  using assms by (auto simp: run_inv_def job_ok_def can_lease_def)

lemma run_inv_execute:
  assumes inv: "run_inv now orc" and j: "store_get (store orc) (job_id j) = Some j"
    and lease: "can_lease now j" and step: "dict_get (known_steps orc) (plan_step_key j) = Some step"
    and run: "run (fst (world orc)) step = (out, w)"
    and orc': "orc' = orc\<lparr>store := put_job (executed_job owner now (ttl (store orc)) out j) (store orc),
                      world := (w, (step, out) # snd (world orc))\<rparr>"
  shows "run_inv now orc'"
proof -
  let ?log = "snd (world orc)" and ?j' = "executed_job owner now (ttl (store orc)) out j"
  have ok: "job_ok now (known_steps orc) ?log j" and ready: "status j = READY"
    using inv j ready_target [OF inv j lease] by (auto simp: run_inv_def)
  then have s: "step_key step = plan_step_key j" "dependencies step = job_dependencies j"
    and d: "set (dependencies step) \<subseteq> ok_keys ?log" and bound: "attempt j < 3" "max_attempts j = 3"
    and once: "only_retries (step_key step) ?log"
    using step by (auto simp: job_ok_def)
  have j': "job_ok now (known_steps orc) ((step, out) # ?log) ?j'"
    using ok ready s d bound once inv executed_job_status [where owner = owner and now = now
          and life = "ttl (store orc)" and out = out and j = j]
    by (auto simp: job_ok_def run_inv_def ok_keys_Cons step)
  have other: "job_ok now (known_steps orc) ((step, out) # ?log) k"
    if "store_get (store orc) i = Some k" "i \<noteq> job_id j" for i k
  proof -
    from that inv have k: "job_ok now (known_steps orc) ?log k" and "job_id k = i"
      by (auto simp: run_inv_def dest: store_inv_get_id)
    with that ok have "plan_step_key k \<noteq> step_key step" by (auto simp: job_ok_def s)
    with k show ?thesis by (auto simp: job_ok_def ok_keys_Cons)
  qed
  have "store_inv (put_job ?j' (store orc))"
    using inv j store_inv_update [of "store orc" "job_id j" j ?j'] by (simp add: run_inv_def put_job_def)
  moreover have "log_covered (put_job ?j' (store orc)) ((step, out) # ?log)"
    unfolding log_covered_def
  proof (intro allI impI)
    fix s' out'
    assume that: "(s', out') \<in> set ((step, out) # ?log)"
    show "\<exists>i k. store_get (put_job ?j' (store orc)) i = Some k \<and> plan_step_key k = step_key s'"
    proof (cases "step_key s' = step_key step")
      case True
      then show ?thesis by (intro exI [of _ "job_id j"] exI [of _ ?j']) (simp add: s)
    next
      case False
      with that have "(s', out') \<in> set ?log" by auto
      with inv obtain i k where ik: "store_get (store orc) i = Some k" "plan_step_key k = step_key s'"
        unfolding run_inv_def log_covered_def by blast
      with False s j have "i \<noteq> job_id j" by auto
      with ik show ?thesis by (intro exI [of _ i] exI [of _ k]) simp
    qed
  qed
  ultimately show ?thesis using inv d once j' other by (auto simp: run_inv_def orc')
qed

lemma run_inv_targets:
  assumes "run_inv now orc"
    "\<forall>(j, s) \<in> set ts. store_get (store orc) (job_id j) = Some j \<and> can_lease now j \<and>
        dict_get (known_steps orc) (plan_step_key j) = Some s"
    "distinct (map (job_id \<circ> fst) ts)"
    "execute_targets (logged run) (logged_gate gate) owner now ts orc = (r, orc')"
  shows "run_inv now orc' \<and> known_steps orc' = known_steps orc"
  using assms
proof (induction ts arbitrary: orc r orc')
  case (Cons t ts)
  obtain j s where t: "t = (j, s)" by (cases t)
  obtain c w where cg: "check_gate (logged_gate gate) (world orc) = (c, w)"
    by (cases "check_gate (logged_gate gate) (world orc)")
  have w: "w = (fst w, snd (world orc))"
    using cg by (auto simp: check_gate_def logged_gate_def split: option.splits prod.splits if_splits)
  then have sw: "snd w = snd (world orc)" by (metis snd_conv)
  let ?orc = "orc\<lparr>world := w\<rparr>"
  have inv: "run_inv now ?orc" using Cons.prems(1) w by (metis run_inv_world)
  show ?case
  proof (cases c)
    case (Returned u)
    obtain out w' where run: "run (fst w) s = (out, w')" by (cases "run (fst w) s")
    let ?j' = "executed_job owner now (ttl (store orc)) out j"
    let ?orc1 = "orc\<lparr>store := put_job ?j' (store orc), world := (w', (s, out) # snd (world orc))\<rparr>"
    have j: "store_get (store ?orc) (job_id j) = Some j" "can_lease now j"
      "dict_get (known_steps ?orc) (plan_step_key j) = Some s" using Cons.prems(2) t by auto
    have "logged run (world ?orc) s = (out, (w', (s, out) # snd (world orc)))"
      using run w by (metis (no_types, lifting) case_prod_conv logged_def orchestrator.select_convs(3)
          orchestrator.update_convs(3) orchestrator.surjective snd_conv)
    then have ex: "execute_step (logged run) owner now j s ?orc =
       ((case out of RunRaise msg \<Rightarrow> Raised (RunnerError msg) | _ \<Rightarrow> Returned ?j'), ?orc1)"
      using execute_step_eq [OF j(1,2)] by (cases out) simp_all
    have inv1: "run_inv now ?orc1"
      by (rule run_inv_execute [OF inv j, of run out w' _ owner]) (use run sw in simp_all)
    have rest: "\<forall>(k, s) \<in> set ts. store_get (store ?orc1) (job_id k) = Some k \<and> can_lease now k \<and>
        dict_get (known_steps ?orc1) (plan_step_key k) = Some s"
    proof (clarify, goal_cases)
      case (1 k s')
      then have "job_id k \<noteq> job_id j" using Cons.prems(3) t by (force simp: image_iff)
      with bspec [OF Cons.prems(2), of "(k, s')"] 1 show ?case by simp
    qed
    have IH: "run_inv now orc2 \<and> known_steps orc2 = known_steps orc"
      if "execute_targets (logged run) (logged_gate gate) owner now ts ?orc1 = (r2, orc2)" for r2 orc2
      using Cons.IH [OF inv1 rest _ that] Cons.prems(3) by simp
    show ?thesis using Cons.prems(4) inv1 IH
      by (auto simp: t cg Returned ex split: run_outcome.splits prod.splits outcome.splits)
  qed (use Cons.prems(4) inv in \<open>auto simp: t cg\<close>)
qed simp

lemma targets_ok:
  assumes "run_inv now orc"
  shows "\<forall>(j, s) \<in> set (targets now orc). store_get (store orc) (job_id j) = Some j \<and>
      can_lease now j \<and> dict_get (known_steps orc) (plan_step_key j) = Some s"
    "distinct (map (job_id \<circ> fst) (targets now orc))"
    "map fst (targets now orc) = leaseable (store orc) now"
proof -
  let ?st = "store orc"
  have inv: "store_inv ?st" using assms by (simp add: run_inv_def)
  have member: "store_get ?st (job_id j) = Some j \<and> can_lease now j \<and>
      (\<exists>s. dict_get (known_steps orc) (plan_step_key j) = Some s)" if "j \<in> set (leaseable ?st now)" for j
    using that inv run_inv_job [OF assms] job_ok_step by (fastforce simp: set_leaseable store_all_get)
  then show "\<forall>(j, s) \<in> set (targets now orc). store_get ?st (job_id j) = Some j \<and>
      can_lease now j \<and> dict_get (known_steps orc) (plan_step_key j) = Some s"
    by (fastforce simp: targets_def split: option.splits)
  have fst: "map fst (concat (map (\<lambda>j. case dict_get K (plan_step_key j) of None \<Rightarrow> [] | Some s \<Rightarrow> [(j, s)]) js)) = js"
    if "\<forall>j \<in> set js. \<exists>s. dict_get K (plan_step_key j) = Some s" for js and K :: "(string \<times> plan_step) list"
    using that by (induction js) auto
  with member show t: "map fst (targets now orc) = leaseable ?st now"
    unfolding targets_def by blast
  have "dict_keys (jobs ?st) = map job_id (store_all ?st)"
    using inv by (auto simp: store_inv_def store_all_def)
  then have "distinct (map job_id (store_all ?st))" using inv by (simp add: store_inv_def)
  then have "distinct (map job_id (leaseable ?st now))"
    unfolding leaseable_eq by (auto simp: distinct_map inj_on_def)
  then show "distinct (map (job_id \<circ> fst) (targets now orc))"
    using t by (metis map_map)
qed

definition unblocked :: "string set \<Rightarrow> job \<Rightarrow> job" where
  "unblocked S j = (if status j = BLOCKED \<and> set (job_dependencies j) \<subseteq> S then j\<lparr>status := READY\<rparr> else j)"

lemma unblocked_simps [simp]:
  "job_id (unblocked S j) = job_id j" "idempotency_key (unblocked S j) = idempotency_key j"
  "plan_step_key (unblocked S j) = plan_step_key j"
  "status (unblocked S j) = SUCCEEDED \<longleftrightarrow> status j = SUCCEEDED"
  by (simp_all add: unblocked_def)

lemma unblocked_BLOCKED:
  "status (unblocked S j) = BLOCKED \<Longrightarrow> unblocked S j = j \<and> \<not> set (job_dependencies j) \<subseteq> S"
  by (auto simp: unblocked_def split: if_splits)

lemma unblock_effect:
  assumes "\<forall>j \<in> set js. store_get st (job_id j) = Some j" "distinct (map job_id js)" "store_inv st"
  shows "\<exists>st'. unblock S js st = Inr st' \<and> ttl st' = ttl st \<and> store_inv st' \<and>
    (\<forall>i. store_get st' i =
       map_option (\<lambda>j. if j \<in> set js then unblocked S j else j) (store_get st i))"
  using assms
proof (induction js arbitrary: st)
  case Nil
  then show ?case by (simp add: option.map_ident)
next
  case (Cons j js)
  define st1 where "st1 = put_job (unblocked S j) st"
  have g: "store_get st (job_id j) = Some j" using Cons.prems(1) by simp
  have step: "unblock S (j # js) st = unblock S js st1"
  proof (cases "status j = BLOCKED \<and> set (job_dependencies j) \<subseteq> S")
    case True
    then have "unblocked S j = j\<lparr>status := READY\<rparr>" by (simp add: unblocked_def)
    with True g show ?thesis by (simp add: st1_def mark_ready_def set_via_put)
  next
    case False
    then have "unblocked S j = j" by (simp add: unblocked_def)
    with g have "st1 = st" by (simp add: st1_def put_job_def store_get_def dict_set_same)
    with False show ?thesis by auto
  qed
  have "\<forall>k \<in> set js. store_get st1 (job_id k) = Some k"
  proof
    fix k assume k: "k \<in> set js"
    then have "job_id k \<noteq> job_id j" by (rule distinct_map_Cons_neq [OF Cons.prems(2)])
    with k Cons.prems(1) show "store_get st1 (job_id k) = Some k" by (simp add: st1_def)
  qed
  moreover have inv1: "store_inv st1"
    using Cons.prems(3) g store_inv_update [of st "job_id j" j "unblocked S j"]
    by (simp add: st1_def put_job_def)
  ultimately obtain st' where st': "unblock S js st1 = Inr st'" "ttl st' = ttl st1" "store_inv st'"
    "\<forall>i. store_get st' i = map_option (\<lambda>j. if j \<in> set js then unblocked S j else j) (store_get st1 i)"
    using Cons.IH [of st1] Cons.prems(2) by auto
  have "store_get st' i = map_option (\<lambda>k. if k \<in> set (j # js) then unblocked S k else k) (store_get st i)" for i
  proof (cases "i = job_id j")
    case True
    have "job_id (unblocked S j) \<notin> job_id ` set js" using Cons.prems(2) by simp
    then have "unblocked S j \<notin> set js" by blast
    with True g st' show ?thesis by (simp add: st1_def)
  next
    case False
    then have "store_get st i = Some k \<Longrightarrow> k \<noteq> j" for k
      using store_inv_get_id [OF Cons.prems(3)] by blast
    with False st' show ?thesis by (cases "store_get st i") (auto simp: st1_def)
  qed
  with st' step show ?case by (auto simp: st1_def)
qed

lemma resolve_dependencies_effect:
  assumes "store_inv st"
  shows "\<exists>st'. resolve_dependencies st = Inr st' \<and> ttl st' = ttl st \<and> store_inv st' \<and>
    (\<forall>i. store_get st' i = map_option (unblocked (succeeded_keys (store_all st))) (store_get st i))"
proof -
  have all: "\<forall>j \<in> set (store_all st). store_get st (job_id j) = Some j"
    using assms by (simp add: store_all_get)
  have "dict_keys (jobs st) = map job_id (store_all st)"
    using assms by (auto simp: store_inv_def store_all_def)
  then have "distinct (map job_id (store_all st))" using assms by (simp add: store_inv_def)
  from unblock_effect [OF all this assms, of "succeeded_keys (store_all st)"]
  obtain st' where st': "resolve_dependencies st = Inr st'" "ttl st' = ttl st" "store_inv st'"
    "\<And>i. store_get st' i = map_option (\<lambda>j. if j \<in> set (store_all st)
       then unblocked (succeeded_keys (store_all st)) j else j) (store_get st i)"
    by (auto simp: resolve_dependencies_def)
  have "store_get st i = Some j \<Longrightarrow> j \<in> set (store_all st)" for i j
    unfolding store_all_def store_get_def by (rule dict_get_value)
  with st' show ?thesis by (fastforce simp: option.map_comp intro!: map_option_cong)
qed

lemma run_inv_resolve:
  assumes inv: "run_inv now orc" and r: "resolve_dependencies (store orc) = Inr st"
  shows "run_inv now (orc\<lparr>store := st\<rparr>)"
proof -
  let ?S = "succeeded_keys (store_all (store orc))" and ?log = "snd (world orc)"
  have si: "store_inv (store orc)" using inv by (simp add: run_inv_def)
  have ok: "job_ok now (known_steps orc) ?log j" if "store_get (store orc) i = Some j" for i j
    using inv that by (rule run_inv_job)
  have S: "?S \<subseteq> ok_keys ?log"
    using ok si by (auto simp: succeeded_keys_def store_all_get job_ok_def)
  have "job_ok now (known_steps orc) ?log (unblocked ?S j)" if "store_get (store orc) i = Some j" for i j
    using ok [OF that] S by (auto simp: job_ok_def unblocked_def stale_lease_def)
  moreover have "log_covered st ?log"
    using inv resolve_dependencies_effect [OF si] r by (fastforce simp: run_inv_def log_covered_def)
  ultimately show ?thesis using resolve_dependencies_effect [OF si] r inv
    by (auto simp: run_inv_def)
qed

lemma run_inv_ready:
  assumes inv: "run_inv now orc"
    and r: "execute_ready (logged run) (logged_gate gate) owner now orc = (r, orc')"
  shows "run_inv now orc' \<and> known_steps orc' = known_steps orc"
proof -
  obtain r1 orc1 where e: "execute_targets (logged run) (logged_gate gate) owner now (targets now orc) orc
      = (r1, orc1)"
    by (cases "execute_targets (logged run) (logged_gate gate) owner now (targets now orc) orc")
  from run_inv_targets [OF inv targets_ok(1,2) [OF inv] e]
  have "run_inv now orc1" "known_steps orc1 = known_steps orc" by simp_all
  with r e run_inv_resolve [of now orc1] show ?thesis
    by (auto simp: execute_ready_def split: outcome.splits sum.splits)
qed

lemma run_inv_run:
  assumes "run_inv now orc"
    and "run_to_completion (logged run) (logged_gate gate) owner now rounds orc = (r, orc')"
  shows "run_inv now orc' \<and> known_steps orc' = known_steps orc"
  using assms
proof (induction rounds arbitrary: orc)
  case (Suc rounds)
  obtain r1 orc1 where e: "execute_ready (logged run) (logged_gate gate) owner now orc = (r1, orc1)"
    by (cases "execute_ready (logged run) (logged_gate gate) owner now orc")
  with run_inv_ready [OF Suc.prems(1) e] Suc.IH [of orc1] Suc.prems(2) show ?case
    by (auto split: outcome.splits if_splits)
qed simp

section \<open>Dispatch\<close>

definition fresh_orchestrator :: "int \<Rightarrow> 'w \<Rightarrow> 'w orchestrator" where
  "fresh_orchestrator lifetime w = \<lparr>store = \<lparr>jobs = [], ttl = lifetime\<rparr>, known_steps = [], world = w\<rparr>"

text \<open>On an empty store, dispatch creates exactly one job per step, in plan order.\<close>

lemma dispatch_steps_fresh:
  assumes "distinct (map step_key ss)" "store_inv (store orc)"
    "\<forall>s \<in> set ss. \<forall>j \<in> set (store_all (store orc)). idempotency_key j \<noteq> idempotency_key (step_job plan s)"
    "\<forall>s \<in> set ss. job_id (step_job plan s) \<notin> set (dict_keys (jobs (store orc)))"
    "\<forall>s \<in> set ss. step_key s \<notin> set (dict_keys (known_steps orc))"
  shows "dispatch_steps plan ss orc =
     (map (step_job plan) ss,
      orc\<lparr>store := (store orc)\<lparr>jobs := jobs (store orc) @ map (\<lambda>s. (job_id (step_job plan s), step_job plan s)) ss\<rparr>,
          known_steps := known_steps orc @ map (\<lambda>s. (step_key s, s)) ss\<rparr>)"
  using assms
proof (induction ss arbitrary: orc)
  case (Cons s ss)
  let ?j = "step_job plan s"
  have "List.find (\<lambda>e. idempotency_key e = idempotency_key ?j) (dict_values (jobs (store orc))) = None"
    using Cons.prems(3) by (auto simp: find_None_iff store_all_def)
  then have add: "store_add ?j (store orc) = (?j, (store orc)\<lparr>jobs := jobs (store orc) @ [(job_id ?j, ?j)]\<rparr>)"
    using Cons.prems(4) by (simp add: store_add_def dict_keys_set_new)
  let ?orc = "orc\<lparr>store := (store orc)\<lparr>jobs := jobs (store orc) @ [(job_id ?j, ?j)]\<rparr>,
                 known_steps := known_steps orc @ [(step_key s, s)]\<rparr>"
  have ne: "\<forall>x \<in> set ss. step_key x \<noteq> step_key s" using distinct_map_Cons_neq [OF Cons.prems(1)] by blast
  have "store_inv (store ?orc)" using add store_inv_add [OF Cons.prems(2), of ?j] by simp
  then have "dispatch_steps plan ss ?orc =
     (map (step_job plan) ss,
      ?orc\<lparr>store := (store ?orc)\<lparr>jobs := jobs (store ?orc) @ map (\<lambda>s. (job_id (step_job plan s), step_job plan s)) ss\<rparr>,
          known_steps := known_steps ?orc @ map (\<lambda>s. (step_key s, s)) ss\<rparr>)"
    using Cons.prems ne by (intro Cons.IH) (auto simp: step_job_def new_job_def store_all_def)
  with add Cons.prems(5) show ?case by (simp add: dict_keys_set_new)
qed simp

lemma dispatch_fresh:
  assumes "distinct (map step_key (plan_steps plan))"
  shows "dispatch plan (fresh_orchestrator lifetime w) =
     (map (step_job plan) (plan_steps plan),
      \<lparr>store = \<lparr>jobs = map (\<lambda>s. (job_id (step_job plan s), step_job plan s)) (plan_steps plan), ttl = lifetime\<rparr>,
       known_steps = map (\<lambda>s. (step_key s, s)) (plan_steps plan), world = w\<rparr>)"
  unfolding dispatch_def
  by (subst dispatch_steps_fresh)
    (use assms in \<open>simp_all add: fresh_orchestrator_def store_inv_def store_all_def\<close>)

lemma run_inv_dispatch:
  assumes "distinct (map step_key (plan_steps plan))" "0 < lifetime"
  shows "run_inv now (snd (dispatch plan (fresh_orchestrator lifetime (w, []))))"
proof -
  let ?ss = "plan_steps plan"
  have d: "distinct (map (\<lambda>s. f (step_key s)) ?ss)" if "inj f" for f :: "string \<Rightarrow> string"
    using assms(1) that by (auto simp: distinct_map inj_on_def comp_def)
  have ids: "distinct (map (\<lambda>s. job_id (step_job plan s)) ?ss)"
    "distinct (map (\<lambda>s. idempotency_key (step_job plan s)) ?ss)"
    using d [of "\<lambda>k. ''job:'' @ k"] d [of "\<lambda>k. plan_digest plan @ '':'' @ k"]
    by (simp_all add: step_job_def new_job_def inj_def)
  have si: "store_inv \<lparr>jobs = map (\<lambda>s. (job_id (step_job plan s), step_job plan s)) ?ss, ttl = lifetime\<rparr>"
    using ids by (auto simp: store_inv_def comp_def)
  have "dict_get (map (\<lambda>s. (step_key s, s)) ?ss) (step_key s) = Some s" if "s \<in> set ?ss" for s
    using assms(1) that by (auto simp: map_of_eq_Some_iff comp_def)
  then have "job_ok now (map (\<lambda>s. (step_key s, s)) ?ss) [] (step_job plan s)" if "s \<in> set ?ss" for s
    using that by (auto simp: job_ok_def step_job_def new_job_def calls_of_def stale_lease_def only_retries_def)
  with si assms show ?thesis
    by (auto simp: log_covered_def dispatch_fresh run_inv_def store_get_def dest!: map_of_SomeD)
qed

section \<open>Every run drains\<close>

definition deps_resolved :: "mem_store \<Rightarrow> bool" where
  "deps_resolved st \<longleftrightarrow> (\<forall>i j. store_get st i = Some j \<and> status j = BLOCKED \<longrightarrow>
     \<not> set (job_dependencies j) \<subseteq> succeeded_keys (store_all st))"

lemma succeeded_keys_get:
  "store_inv st \<Longrightarrow> succeeded_keys (store_all st) =
     {plan_step_key j | i j. store_get st i = Some j \<and> status j = SUCCEEDED}"
  by (auto simp: succeeded_keys_def store_all_get dest: store_inv_get_id)

lemma resolve_resolved:
  assumes "store_inv st" "resolve_dependencies st = Inr st'"
  shows "deps_resolved st'"
proof -
  let ?S = "succeeded_keys (store_all st)"
  from resolve_dependencies_effect [OF assms(1)] assms(2) have st': "store_inv st'"
    "\<And>i. store_get st' i = map_option (unblocked ?S) (store_get st i)" by auto
  have "k \<in> succeeded_keys (store_all st') \<longleftrightarrow> k \<in> ?S" for k
  proof
    assume "k \<in> succeeded_keys (store_all st')"
    then obtain i j where "map_option (unblocked ?S) (store_get st i) = Some j"
      "status j = SUCCEEDED" "k = plan_step_key j"
      unfolding succeeded_keys_get [OF st'(1)] st'(2) by blast
    then obtain z where "store_get st i = Some z" "status z = SUCCEEDED" "k = plan_step_key z" by auto
    then show "k \<in> ?S" unfolding succeeded_keys_get [OF assms(1)] by blast
  next
    assume "k \<in> ?S"
    then obtain i z where z: "store_get st i = Some z" "status z = SUCCEEDED" "k = plan_step_key z"
      unfolding succeeded_keys_get [OF assms(1)] by blast
    then have "store_get st' i = Some (unblocked ?S z)" by (simp add: st'(2))
    moreover have "status (unblocked ?S z) = SUCCEEDED" "plan_step_key (unblocked ?S z) = k"
      using z by simp_all
    ultimately show "k \<in> succeeded_keys (store_all st')"
      unfolding succeeded_keys_get [OF st'(1)] by blast
  qed
  then have "succeeded_keys (store_all st') = ?S" by blast
  then show ?thesis using unblocked_BLOCKED [of ?S] by (fastforce simp: deps_resolved_def st'(2))
qed

lemma resolve_idle:
  assumes "store_inv st" "deps_resolved st" "resolve_dependencies st = Inr st'"
  shows "store_get st' = store_get st"
proof
  fix i
  show "store_get st' i = store_get st i"
    using resolve_dependencies_effect [OF assms(1)] assms(2,3)
    by (cases "store_get st i") (auto simp: deps_resolved_def unblocked_def)
qed

lemma leaseable_Nil_iff:
  "store_inv st \<Longrightarrow> leaseable st now = [] \<longleftrightarrow> (\<forall>i j. store_get st i = Some j \<longrightarrow> \<not> can_lease now j)"
  unfolding set_empty [symmetric] set_leaseable
  by (auto simp: store_all_get dest: store_inv_get_id)

definition never_raises :: "'w step_runner \<Rightarrow> bool" where
  "never_raises run \<longleftrightarrow> (\<forall>w s msg. fst (run w s) \<noteq> RunRaise msg)"

text \<open>A run stops before its end only when the gate has just said so, or the runner has just raised; \<open>w\<close> is the world it left.\<close>

definition gate_said :: "'w step_gate \<Rightarrow> string \<Rightarrow> 'w \<Rightarrow> bool" where
  "gate_said gate answer w \<longleftrightarrow> (\<exists>g v. gate = Some g \<and> g v = (Some answer, w))"

definition runner_raised :: "'w step_runner \<Rightarrow> exn \<Rightarrow> 'w \<Rightarrow> bool" where
  "runner_raised run e w \<longleftrightarrow> (\<exists>v s msg. run v s = (RunRaise msg, w) \<and> e = RunnerError msg)"

fun stopped :: "'w step_runner \<Rightarrow> 'w step_gate \<Rightarrow> 'a outcome \<Rightarrow> 'w \<Rightarrow> bool" where
  "stopped run gate (Returned x) w \<longleftrightarrow> True"
| "stopped run gate StepPaused w \<longleftrightarrow> gate_said gate ''paused'' w"
| "stopped run gate StepCancelled w \<longleftrightarrow> gate_said gate ''cancelled'' w"
| "stopped run gate (Raised e) w \<longleftrightarrow> runner_raised run e w"

lemma check_gate_logged:
  assumes "check_gate (logged_gate gate) wl = (c, wl')"
  shows "snd wl' = snd wl \<and> (c = Returned () \<or> c \<in> {StepPaused, StepCancelled} \<and> stopped run gate c (fst wl'))"
  using assms by (auto simp: check_gate_def logged_gate_def gate_said_def split: option.splits prod.splits if_splits)

lemma execute_targets_outcome:
  assumes "\<forall>(j, s) \<in> set ts. store_get (store orc) (job_id j) = Some j \<and> can_lease now j"
    "distinct (map (job_id \<circ> fst) ts)"
    "execute_targets (logged run) (logged_gate gate) owner now ts orc = (r, orc')"
  shows "stopped run gate r (fst (world orc')) \<and> (\<forall>js. r = Returned js \<longrightarrow>
    length js = length ts \<and> length (snd (world orc')) = length (snd (world orc)) + length ts \<and>
    (ts = [] \<longrightarrow> orc' = orc) \<and> (no_raise (snd (world orc)) \<longrightarrow> no_raise (snd (world orc'))))"
  using assms
proof (induction ts arbitrary: orc r orc')
  case (Cons t ts)
  obtain j s where t: "t = (j, s)" by (cases t)
  obtain c wl where g: "check_gate (logged_gate gate) (world orc) = (c, wl)" by (cases "check_gate (logged_gate gate) (world orc)")
  note cg = check_gate_logged [OF g, of run]
  show ?case
  proof (cases "c = Returned ()")
    case False
    with cg obtain "c = StepPaused \<or> c = StepCancelled" "stopped run gate c (fst wl)" by auto
    with Cons.prems(3) show ?thesis by (auto simp: t g)
  next
    case True
    obtain out w where run: "run (fst wl) s = (out, w)" by (cases "run (fst wl) s")
    let ?j' = "executed_job owner now (ttl (store orc)) out j"
    let ?orc1 = "orc\<lparr>store := put_job ?j' (store orc), world := (w, (s, out) # snd (world orc))\<rparr>"
    have "logged run wl s = (out, (w, (s, out) # snd (world orc)))"
      using run cg by (simp add: logged_def)
    then have ex: "execute_step (logged run) owner now j s (orc\<lparr>world := wl\<rparr>) =
       ((case out of RunRaise msg \<Rightarrow> Raised (RunnerError msg) | _ \<Rightarrow> Returned ?j'), ?orc1)"
      using execute_step_eq [of "orc\<lparr>world := wl\<rparr>" j now "logged run" s] Cons.prems(1) t by (cases out) auto
    have rest: "\<forall>(k, s) \<in> set ts. store_get (store ?orc1) (job_id k) = Some k \<and> can_lease now k"
    proof (clarify, goal_cases)
      case (1 k s')
      then have "(job_id \<circ> fst) (k, s') \<noteq> (job_id \<circ> fst) t"
        by (rule distinct_map_Cons_neq [OF Cons.prems(2)])
      with bspec [OF Cons.prems(1), of "(k, s')"] 1 t show ?case by simp
    qed
    obtain r2 orc2 where e: "execute_targets (logged run) (logged_gate gate) owner now ts ?orc1 = (r2, orc2)"
      by (cases "execute_targets (logged run) (logged_gate gate) owner now ts ?orc1")
    from Cons.IH [OF rest _ e] Cons.prems(2)
    have IH: "stopped run gate r2 (fst (world orc2))" "\<And>js. r2 = Returned js \<Longrightarrow> length js = length ts \<and>
       length (snd (world orc2)) = Suc (length (snd (world orc)) + length ts) \<and>
       ((\<forall>msg. out \<noteq> RunRaise msg) \<and> no_raise (snd (world orc)) \<longrightarrow> no_raise (snd (world orc2)))" by auto
    show ?thesis
    proof (cases "\<exists>msg. out = RunRaise msg")
      case True
      then obtain msg where m: "out = RunRaise msg" ..
      with run have "runner_raised run (RunnerError msg) w" unfolding runner_raised_def by blast
      with Cons.prems(3) m \<open>c = Returned ()\<close> ex show ?thesis by (auto simp: t g)
    next
      case no: False
      then have "execute_step (logged run) owner now j s (orc\<lparr>world := wl\<rparr>) = (Returned ?j', ?orc1)"
        using ex by (cases out) auto
      then have "execute_targets (logged run) (logged_gate gate) owner now (t # ts) orc =
          (case r2 of Returned js \<Rightarrow> (Returned (?j' # js), orc2) | _ \<Rightarrow> (r2, orc2))"
        using \<open>c = Returned ()\<close> by (cases r2) (simp_all add: t g e)
      with Cons.prems(3) IH no show ?thesis by (cases r2) auto
    qed
  qed
qed simp

lemma calls_of_bound:
  assumes "run_inv now orc"
  shows "calls_of k (snd (world orc)) \<le> 3"
proof (cases "calls_of k (snd (world orc)) = 0")
  case False
  then obtain s out where "(s, out) \<in> set (snd (world orc))" "step_key s = k"
    by (auto simp: calls_of_def filter_empty_conv)
  with assms obtain i j where "store_get (store orc) i = Some j" "plan_step_key j = k"
    unfolding run_inv_def log_covered_def by blast
  with run_inv_job [OF assms, of i j] show ?thesis by (auto simp: job_ok_def)
qed simp

lemma calls_of_count: "count_list (map (step_key \<circ> fst) log) k = calls_of k log"
  by (induction log) (auto simp: calls_of_def)

lemma log_length_bound:
  assumes "run_inv now orc"
  shows "length (snd (world orc)) \<le> 3 * length (known_steps orc)"
proof -
  let ?log = "snd (world orc)" and ?K = "set (dict_keys (known_steps orc))"
  let ?keys = "map (step_key \<circ> fst) ?log"
  have "set ?keys \<subseteq> ?K"
  proof clarify
    fix k assume "k \<in> set ?keys"
    then obtain s out where "(s, out) \<in> set ?log" "k = step_key s" by auto
    with assms obtain i j where "store_get (store orc) i = Some j" "plan_step_key j = k"
      unfolding run_inv_def log_covered_def by blast
    with run_inv_job [OF assms] job_ok_step dict_get_key show "k \<in> ?K" by metis
  qed
  then have "length ?keys = (\<Sum>k \<in> ?K. count_list ?keys k)"
    using sum_count_set [of ?keys ?K] by simp
  also have "\<dots> \<le> (\<Sum>k \<in> ?K. 3)"
    unfolding calls_of_count by (rule sum_mono) (rule calls_of_bound [OF assms])
  also have "\<dots> \<le> 3 * length (known_steps orc)"
    using card_length [of "dict_keys (known_steps orc)"] by simp
  finally show ?thesis by simp
qed

text \<open>How a run ends: with nothing left to lease, or stopped.\<close>

definition drained :: "datetime \<Rightarrow> ('w \<times> call_log) orchestrator \<Rightarrow> bool" where
  "drained now orc \<longleftrightarrow> run_inv now orc \<and> deps_resolved (store orc) \<and> leaseable (store orc) now = [] \<and> no_raise (snd (world orc))"

definition ended :: "'w step_runner \<Rightarrow> 'w step_gate \<Rightarrow> datetime \<Rightarrow> exn + string \<Rightarrow> ('w \<times> call_log) orchestrator \<Rightarrow> bool" where
  "ended run gate now r orc \<longleftrightarrow>
     r = Inr ''completed'' \<and> drained now orc \<or>
     (\<exists>answer \<in> {''paused'', ''cancelled''}. r = Inr answer \<and> gate_said gate answer (fst (world orc))) \<or>
     (\<exists>e. r = Inl e \<and> runner_raised run e (fst (world orc)))"

lemma run_ends:
  assumes "run_inv now orc" "deps_resolved (store orc)" "no_raise (snd (world orc))"
    "3 * length (known_steps orc) < rounds + length (snd (world orc))"
    "run_to_completion (logged run) (logged_gate gate) owner now rounds orc = (r, orc')"
  shows "ended run gate now r orc'"
  using assms
proof (induction rounds arbitrary: orc)
  case 0
  then show ?case using log_length_bound [of now orc] by simp
next
  case (Suc rounds)
  have ts: "\<forall>(j, s) \<in> set (targets now orc). store_get (store orc) (job_id j) = Some j \<and> can_lease now j"
    using targets_ok(1) [OF Suc.prems(1)] by fast
  obtain r1 orc1 where e: "execute_targets (logged run) (logged_gate gate) owner now (targets now orc) orc = (r1, orc1)"
    by (cases "execute_targets (logged run) (logged_gate gate) owner now (targets now orc) orc")
  note out = execute_targets_outcome [OF ts targets_ok(2) [OF Suc.prems(1)] e]
  have inv1: "run_inv now orc1" "known_steps orc1 = known_steps orc"
    using run_inv_targets [OF Suc.prems(1) targets_ok(1,2) [OF Suc.prems(1)] e] by simp_all
  show ?case
  proof (cases r1)
    case (Returned js)
    from inv1 have si1: "store_inv (store orc1)" by (simp add: run_inv_def)
    then obtain st where st: "resolve_dependencies (store orc1) = Inr st"
      using resolve_dependencies_effect by blast
    let ?orc2 = "orc1\<lparr>store := st\<rparr>"
    have ready: "execute_ready (logged run) (logged_gate gate) owner now orc = (Returned js, ?orc2)"
      using e st Returned by (simp add: execute_ready_def)
    have inv2: "run_inv now ?orc2" "deps_resolved (store ?orc2)"
      using run_inv_resolve [OF inv1(1) st] resolve_resolved [OF si1 st] by simp_all
    have nr: "no_raise (snd (world ?orc2))" using out Returned Suc.prems(3) by simp
    show ?thesis
    proof (cases "js = []")
      case True
      with out Returned have idle: "targets now orc = []" "orc1 = orc" by auto
      with targets_ok(3) [OF Suc.prems(1)] have "leaseable (store orc) now = []" by simp
      moreover have "store_get st = store_get (store orc)"
        using resolve_idle [of "store orc" st] idle si1 st Suc.prems(2) by simp
      ultimately have "leaseable (store ?orc2) now = []"
        using inv2(1) si1 idle by (simp add: leaseable_Nil_iff run_inv_def)
      with True ready inv2 nr Suc.prems(5) show ?thesis by (auto simp: ended_def drained_def)
    next
      case False
      with out Returned Suc.prems(4) inv1(2)
      have "3 * length (known_steps ?orc2) < rounds + length (snd (world ?orc2))" by (cases js) auto
      with Suc.IH [OF inv2 nr] Suc.prems(5) False ready show ?thesis by simp
    qed
  qed (use e out Suc.prems(5) in \<open>auto simp: ended_def execute_ready_def\<close>)
qed

section \<open>The log is transparent\<close>

definition erase :: "('w \<times> call_log) orchestrator \<Rightarrow> 'w orchestrator" where
  "erase orc = \<lparr>store = store orc, known_steps = known_steps orc, world = fst (world orc)\<rparr>"

lemma erase_simps [simp]:
  "store (erase orc) = store orc" "known_steps (erase orc) = known_steps orc"
  "world (erase orc) = fst (world orc)"
  "erase (orc\<lparr>store := st\<rparr>) = (erase orc)\<lparr>store := st\<rparr>"
  "erase (orc\<lparr>world := w\<rparr>) = (erase orc)\<lparr>world := fst w\<rparr>"
  by (simp_all add: erase_def)

lemma execute_step_erase:
  "execute_step run owner now j s (erase orc) =
     map_prod id erase (execute_step (logged run) owner now j s orc)"
  by (auto simp: execute_step_def logged_def Let_def map_prod_def
      split: sum.splits prod.splits run_outcome.splits)

lemma check_gate_erase:
  "check_gate gate (fst wl) = map_prod id fst (check_gate (logged_gate gate) wl)"
  by (auto simp: check_gate_def logged_gate_def map_prod_def split: option.splits prod.splits)

lemma execute_targets_erase:
  "execute_targets run gate owner now ts (erase orc) =
     map_prod id erase (execute_targets (logged run) (logged_gate gate) owner now ts orc)"
proof (induction ts arbitrary: orc)
  case (Cons t ts)
  obtain j s where t: "t = (j, s)" by (cases t)
  obtain c w where g: "check_gate (logged_gate gate) (world orc) = (c, w)"
    by (cases "check_gate (logged_gate gate) (world orc)")
  then have g': "check_gate gate (fst (world orc)) = (c, fst w)"
    by (simp add: check_gate_erase)
  obtain r orc1 where e: "execute_step (logged run) owner now j s (orc\<lparr>world := w\<rparr>) = (r, orc1)"
    by (cases "execute_step (logged run) owner now j s (orc\<lparr>world := w\<rparr>)")
  then have e': "execute_step run owner now j s ((erase orc)\<lparr>world := fst w\<rparr>) = (r, erase orc1)"
    using execute_step_erase [of run owner now j s "orc\<lparr>world := w\<rparr>"] by simp
  obtain r2 orc2 where i: "execute_targets (logged run) (logged_gate gate) owner now ts orc1 = (r2, orc2)"
    by (cases "execute_targets (logged run) (logged_gate gate) owner now ts orc1")
  show ?case
    by (cases c; cases r; cases r2) (simp_all add: t g g' e e' i Cons.IH)
qed simp

lemma run_to_completion_erase:
  "run_to_completion run gate owner now rounds (erase orc) =
     map_prod id erase (run_to_completion (logged run) (logged_gate gate) owner now rounds orc)"
proof (induction rounds arbitrary: orc)
  case (Suc rounds)
  have "targets now (erase orc) = targets now orc" by (simp add: targets_def)
  then have r: "execute_ready run gate owner now (erase orc) =
      map_prod id erase (execute_ready (logged run) (logged_gate gate) owner now orc)"
    by (auto simp: execute_ready_def execute_targets_erase split: outcome.splits sum.splits prod.splits)
  obtain o1 orc1 where e: "execute_ready (logged run) (logged_gate gate) owner now orc = (o1, orc1)"
    by (cases "execute_ready (logged run) (logged_gate gate) owner now orc")
  show ?case by (cases o1) (simp_all add: r e Suc.IH)
qed simp

section \<open>Properties\<close>

lemma erase_dispatch:
  assumes "distinct (map step_key (plan_steps plan))"
  shows "erase (snd (dispatch plan (fresh_orchestrator lifetime (w, [])))) =
    snd (dispatch plan (fresh_orchestrator lifetime w))"
  by (simp add: dispatch_fresh [OF assms] erase_def)

lemma created_plan:
  "ExecutionPlan_create sha pid asm ver steps = Inr plan \<Longrightarrow>
     plan_steps plan = steps \<and> distinct (map step_key steps)"
  by (auto simp: ExecutionPlan_create_Inr plan_wf_def)

definition demo_steps :: "plan_step list" where
  "demo_steps =
     [\<lparr>step_key = ''scan'', runner = ''nuclei'', risk = ACTIVE, parameters = [], dependencies = [''recon'']\<rparr>,
      \<lparr>step_key = ''recon'', runner = ''httpx'', risk = PASSIVE, parameters = [], dependencies = []\<rparr>]"

lemma demo_plan: "\<exists>plan. ExecutionPlan_create sha ''p'' ''asm'' 1 demo_steps = Inr plan"
  by (simp add: ExecutionPlan_create_def demo_steps_def step_graph_def visit.simps)

lemma dispatched_resolved:
  assumes "distinct (map step_key (plan_steps plan))"
  shows "deps_resolved (store (snd (dispatch plan (fresh_orchestrator lifetime w))))"
proof -
  have deps: "status (step_job plan s) = BLOCKED \<Longrightarrow> job_dependencies (step_job plan s) \<noteq> []"
    "status (step_job plan s) \<noteq> SUCCEEDED" for s
    by (auto simp: step_job_def split: if_splits)
  then have none: "succeeded_keys (store_all (store (snd (dispatch plan (fresh_orchestrator lifetime w))))) = {}"
    by (auto simp: dispatch_fresh [OF assms] succeeded_keys_def store_all_def)
  show ?thesis
    unfolding deps_resolved_def none using deps(1)
    by (auto simp: dispatch_fresh [OF assms] store_get_def dest!: map_of_SomeD)
qed

lemma drained_jobs:
  assumes "drained now orc" "j \<in> set (store_all (store orc))"
  shows "status j \<in> {SUCCEEDED, FAILED, POLICY_DENIED} \<or>
     status j = BLOCKED \<and> (\<exists>d \<in> set (job_dependencies j). d \<notin> succeeded_keys (store_all (store orc)))"
proof -
  have f: "run_inv now orc" "deps_resolved (store orc)" "leaseable (store orc) now = []" "no_raise (snd (world orc))"
    using assms(1) by (simp_all add: drained_def)
  then have si: "store_inv (store orc)" by (simp add: run_inv_def)
  with assms(2) have g: "store_get (store orc) (job_id j) = Some j" by (simp add: store_all_get)
  with f si have "\<not> can_lease now j" by (simp add: leaseable_Nil_iff)
  with run_inv_job [OF f(1) g] f(4) g f(2) show ?thesis
    by (cases "status j") (auto simp: job_ok_def can_lease_def deps_resolved_def)
qed

text \<open>
  C19. Dependency order. For every plan the constructor accepts, every step runner, gate, number
  of rounds and outcome of the run: each time the runner is called with a step, every
  dependency of that step had already been run successfully. The first conjunct says that the
  logged run is the real run with a log of the runner calls.
\<close>

theorem run_respects_dependencies:
  assumes "ExecutionPlan_create sha pid asm ver steps = Inr plan" and "0 < lifetime"
  shows "case run_to_completion (logged run) (logged_gate gate) owner now rounds
        (snd (dispatch plan (fresh_orchestrator lifetime (w, [])))) of
      (r, orc') \<Rightarrow>
        run_to_completion run gate owner now rounds (snd (dispatch plan (fresh_orchestrator lifetime w)))
          = (r, erase orc') \<and>
        deps_first (snd (world orc'))"
proof -
  let ?orc = "snd (dispatch plan (fresh_orchestrator lifetime (w, [])))"
  obtain r orc' where r: "run_to_completion (logged run) (logged_gate gate) owner now rounds ?orc = (r, orc')"
    by (cases "run_to_completion (logged run) (logged_gate gate) owner now rounds ?orc")
  have d: "distinct (map step_key (plan_steps plan))" using created_plan [OF assms(1)] by simp
  from run_inv_run [OF run_inv_dispatch [OF d assms(2)] r] have "deps_first (snd (world orc'))"
    by (simp add: run_inv_def)
  with r run_to_completion_erase [of run gate owner now rounds ?orc] erase_dispatch [OF d, of lifetime w]
  show ?thesis by simp
qed

theorem run_respects_dependencies_witness:
  "\<exists>plan. ExecutionPlan_create id ''p'' ''asm'' 1 demo_steps = Inr plan \<and>
     (case run_to_completion (logged (\<lambda>w s. (RunOk ''d'', w))) (logged_gate None) ''w1'' 0 100
        (snd (dispatch plan (fresh_orchestrator 300 ((), [])))) of
      (r, orc') \<Rightarrow>
        run_to_completion (\<lambda>w s. (RunOk ''d'', w)) None ''w1'' 0 100
          (snd (dispatch plan (fresh_orchestrator 300 ()))) = (r, erase orc') \<and>
        deps_first (snd (world orc')))"
proof -
  obtain plan where p: "ExecutionPlan_create id ''p'' ''asm'' 1 demo_steps = Inr plan"
    using demo_plan by blast
  from run_respects_dependencies [OF p, of 300 "\<lambda>w s. (RunOk ''d'', w)" None "''w1''" 0 100 "()"] p
  show ?thesis by auto
qed

text \<open>
  C21. Bounded, justified retries. In every run of an accepted plan no step is handed to the
  runner more than three times (the default \<^verbatim>\<open>max_attempts\<close>), and a step is handed to it again
  only if all its earlier calls failed with a transient failure class: a step that succeeded,
  was denied by policy or failed for good is never executed again.
\<close>

theorem run_bounds_retries:
  assumes "ExecutionPlan_create sha pid asm ver steps = Inr plan" and "0 < lifetime"
    and "run_to_completion (logged run) (logged_gate gate) owner now rounds
        (snd (dispatch plan (fresh_orchestrator lifetime (w, [])))) = (r, orc')"
  shows "calls_of k (snd (world orc')) \<le> 3 \<and> retries_justified (snd (world orc'))"
proof -
  have d: "distinct (map step_key (plan_steps plan))" using created_plan [OF assms(1)] by simp
  from run_inv_run [OF run_inv_dispatch [OF d assms(2)] assms(3)] calls_of_bound show ?thesis
    by (auto simp: run_inv_def)
qed

theorem run_bounds_retries_witness:
  "\<exists>plan r orc'. ExecutionPlan_create id ''p'' ''asm'' 1 demo_steps = Inr plan \<and>
     run_to_completion (logged (\<lambda>w s. (RunFailure TIMEOUT, w))) (logged_gate None) ''w1'' 0 100
        (snd (dispatch plan (fresh_orchestrator 300 ((), [])))) = (r, orc') \<and>
     calls_of ''recon'' (snd (world orc')) \<le> 3 \<and> retries_justified (snd (world orc'))"
proof -
  let ?run = "logged (\<lambda>w s. (RunFailure TIMEOUT, w))"
  obtain plan where p: "ExecutionPlan_create id ''p'' ''asm'' 1 demo_steps = Inr plan"
    using demo_plan by blast
  obtain r orc' where r: "run_to_completion ?run (logged_gate None) ''w1'' 0 100
      (snd (dispatch plan (fresh_orchestrator 300 ((), [])))) = (r, orc')"
    by (cases "run_to_completion ?run (logged_gate None) ''w1'' 0 100
      (snd (dispatch plan (fresh_orchestrator 300 ((), []))))")
  from run_bounds_retries [OF p _ r, of "''recon''"] p r show ?thesis by auto
qed

text \<open>
  C20. How runs end. Every run of an accepted plan with more rounds than three times the number of steps, whatever the
  runner and the gate do, ends in one of three ways. It returns "completed", and every job succeeded, failed, was denied, or is
  still blocked behind a dependency that did not succeed: nothing is left to do. Or it returns "paused" or "cancelled", and that is
  what the gate has just answered. Or it raises, and what it raises is what the runner has just raised.
  So without a gate and with a runner that never raises, it completes. With the default of 100 rounds this covers plans of up to 33 steps.
\<close>

theorem run_reaches_final_states:
  assumes "ExecutionPlan_create sha pid asm ver steps = Inr plan" and "0 < lifetime" and "3 * length steps < rounds"
    and "run_to_completion run gate owner now rounds (snd (dispatch plan (fresh_orchestrator lifetime w))) = (r, orc')"
  shows "r = Inr ''completed'' \<and>
      (\<forall>j \<in> set (store_all (store orc')). status j \<in> {SUCCEEDED, FAILED, POLICY_DENIED} \<or>
         status j = BLOCKED \<and> (\<exists>d \<in> set (job_dependencies j). d \<notin> succeeded_keys (store_all (store orc')))) \<or>
    (\<exists>answer \<in> {''paused'', ''cancelled''}. r = Inr answer \<and> (\<exists>g v. gate = Some g \<and> g v = (Some answer, world orc'))) \<or>
    (\<exists>msg v s. r = Inl (RunnerError msg) \<and> run v s = (RunRaise msg, world orc'))"
proof -
  let ?orc = "snd (dispatch plan (fresh_orchestrator lifetime (w, [])))"
  have d: "distinct (map step_key (plan_steps plan))" "plan_steps plan = steps"
    using created_plan [OF assms(1)] by simp_all
  have inv: "run_inv now ?orc" by (rule run_inv_dispatch [OF d(1) assms(2)])
  have res: "deps_resolved (store ?orc)" by (rule dispatched_resolved [OF d(1)])
  obtain q orc2 where o: "run_to_completion (logged run) (logged_gate gate) owner now rounds ?orc = (q, orc2)"
    by (cases "run_to_completion (logged run) (logged_gate gate) owner now rounds ?orc")
  have "no_raise (snd (world ?orc))" "3 * length (known_steps ?orc) < rounds + length (snd (world ?orc))"
    using assms(3) by (simp_all add: dispatch_fresh [OF d(1)] d(2) no_raise_def)
  note e = run_ends [OF inv res this o]
  have eq: "q = r" "orc' = erase orc2"
    using run_to_completion_erase [of run gate owner now rounds ?orc] o erase_dispatch [OF d(1), of lifetime w] assms(4) by simp_all
  show ?thesis
    using e drained_jobs [of now orc2] unfolding ended_def eq gate_said_def runner_raised_def by auto
qed

corollary undisturbed_run_completes:
  assumes "ExecutionPlan_create sha pid asm ver steps = Inr plan" and "0 < lifetime"
    and "never_raises run" and "3 * length steps < rounds"
  shows "fst (run_to_completion run None owner now rounds (snd (dispatch plan (fresh_orchestrator lifetime w)))) = Inr ''completed''"
proof -
  let ?orc = "snd (dispatch plan (fresh_orchestrator lifetime (w, [])))"
  have d: "distinct (map step_key (plan_steps plan))" "plan_steps plan = steps"
    using created_plan [OF assms(1)] by simp_all
  obtain q orc2 where o: "run_to_completion (logged run) (logged_gate None) owner now rounds ?orc = (q, orc2)"
    by (cases "run_to_completion (logged run) (logged_gate None) owner now rounds ?orc")
  have "no_raise (snd (world ?orc))" "3 * length (known_steps ?orc) < rounds + length (snd (world ?orc))"
    using assms(4) by (simp_all add: dispatch_fresh [OF d(1)] d(2) no_raise_def)
  from run_ends [OF run_inv_dispatch [OF d(1) assms(2)] dispatched_resolved [OF d(1)] this o] assms(3)
  have "q = Inr ''completed''" unfolding ended_def gate_said_def runner_raised_def never_raises_def by (metis fst_conv option.distinct(1))
  with run_to_completion_erase [of run None owner now rounds ?orc] o erase_dispatch [OF d(1), of lifetime w] show ?thesis by simp
qed

text \<open>A gate that lets the first step pass and then pauses.\<close>

definition pausing_gate :: "nat step_gate" where
  "pausing_gate = Some (\<lambda>n. (if n = 0 then None else Some ''paused'', n + 1))"

theorem run_reaches_final_states_witness:
  "\<exists>plan orc'. ExecutionPlan_create id ''p'' ''asm'' 1 demo_steps = Inr plan \<and>
    run_to_completion (\<lambda>w s. (RunOk ''d'', w)) pausing_gate ''w1'' 0 100
      (snd (dispatch plan (fresh_orchestrator 300 0))) = (Inr ''paused'', orc') \<and>
    (\<exists>g v. pausing_gate = Some g \<and> g v = (Some ''paused'', world orc'))"
proof -
  define p where "p = (case ExecutionPlan_create id ''p'' ''asm'' 1 demo_steps of Inr plan \<Rightarrow> plan)"
  let ?run = "run_to_completion (\<lambda>w s. (RunOk ''d'', w)) pausing_gate ''w1'' 0 100 (snd (dispatch p (fresh_orchestrator 300 0)))"
  have p: "ExecutionPlan_create id ''p'' ''asm'' 1 demo_steps = Inr p" using demo_plan [of id] by (auto simp: p_def)
  obtain r orc' where r: "?run = (r, orc')" by (cases ?run)
  have "fst ?run = Inr ''paused''" unfolding p_def by code_simp
  with r have paused: "r = Inr ''paused''" by simp
  from run_reaches_final_states [OF p _ _ r] have "\<exists>g v. pausing_gate = Some g \<and> g v = (Some ''paused'', world orc')"
    by (auto simp: paused demo_steps_def)
  with p r paused show ?thesis by blast
qed

end
