(* ===== verification/Net.thy ===== *)
theory Net
  imports Canonical
begin

text \<open>
  What the scope code uses of Python's standard library (version 3.11, the project's minimum): string
  splitting and stripping, \<^verbatim>\<open>ipaddress\<close> (parsing, printing and containment of IPv4 and IPv6 addresses
  and networks), \<^verbatim>\<open>urllib.parse.urlsplit\<close> and \<^verbatim>\<open>urlunsplit\<close>, \<^verbatim>\<open>posixpath.normpath\<close> and the ASCII path
  of the IDNA codec. Nameprep and Punycode, for host names with characters outside ASCII, are
  the parameter \<open>idna\<close>. A \<^verbatim>\<open>ValueError\<close> of these functions is \<^term>\<open>None\<close> where the callers only ask
  whether parsing succeeds.
\<close>

section \<open>Splitting and stripping\<close>

fun split_on :: "char \<Rightarrow> string \<Rightarrow> string list" where
  "split_on c [] = [[]]"
| "split_on c (x # xs) =
     (if x = c then [] # split_on c xs
      else case split_on c xs of [] \<Rightarrow> [[x]] | p # ps \<Rightarrow> (x # p) # ps)"

lemma split_on_absent: "c \<notin> set xs \<Longrightarrow> split_on c xs = [xs]"
  by (induction xs) auto

lemma split_on_append: "c \<notin> set xs \<Longrightarrow> split_on c (xs @ c # ys) = xs # split_on c ys"
  by (induction xs) auto

text \<open>\<^verbatim>\<open>s.partition(c)\<close> and \<^verbatim>\<open>s.rpartition(c)\<close>: the part before, whether \<open>c\<close> occurs, the part after.\<close>

definition partition_on :: "char \<Rightarrow> string \<Rightarrow> string \<times> bool \<times> string" where
  "partition_on c s = (takeWhile (\<lambda>x. x \<noteq> c) s, c \<in> set s, tl (dropWhile (\<lambda>x. x \<noteq> c) s))"

definition rpartition_on :: "char \<Rightarrow> string \<Rightarrow> string \<times> bool \<times> string" where
  "rpartition_on c s =
     (if c \<in> set s then
        (rev (tl (dropWhile (\<lambda>x. x \<noteq> c) (rev s))), True, rev (takeWhile (\<lambda>x. x \<noteq> c) (rev s)))
      else ([], False, s))"

definition is_space :: "char \<Rightarrow> bool" where
  "is_space c \<longleftrightarrow> (let n = (of_char c :: nat) in
     9 \<le> n \<and> n \<le> 13 \<or> 28 \<le> n \<and> n \<le> 32 \<or> n = 133 \<or> n = 160)"

definition rstrip_when :: "(char \<Rightarrow> bool) \<Rightarrow> string \<Rightarrow> string" where
  "rstrip_when p s = rev (dropWhile p (rev s))"

definition py_strip :: "string \<Rightarrow> string" where
  "py_strip s = rstrip_when is_space (dropWhile is_space s)"

definition is_ascii :: "string \<Rightarrow> bool" where
  "is_ascii s \<longleftrightarrow> list_all (\<lambda>c. (of_char c :: nat) < 128) s"

definition is_digit :: "char \<Rightarrow> bool" where
  "is_digit c \<longleftrightarrow> (let n = (of_char c :: nat) in 48 \<le> n \<and> n \<le> 57)"

definition is_alpha_ascii :: "char \<Rightarrow> bool" where
  "is_alpha_ascii c \<longleftrightarrow> (let n = (of_char c :: nat) in 65 \<le> n \<and> n \<le> 90 \<or> 97 \<le> n \<and> n \<le> 122)"

text \<open>\<^verbatim>\<open>str.isalnum\<close> of one code point below 256.\<close>

definition is_alnum :: "char \<Rightarrow> bool" where
  "is_alnum c \<longleftrightarrow> is_digit c \<or> is_alpha_ascii c \<or> (let n = (of_char c :: nat) in
     n \<in> {170, 178, 179, 181, 185, 186, 188, 189, 190} \<or> 192 \<le> n \<and> n \<noteq> 215 \<and> n \<noteq> 247)"

definition digit_value :: "char \<Rightarrow> int" where
  "digit_value c = (let n = (of_char c :: int) in
     if n \<le> 57 then n - 48 else if n \<le> 70 then n - 55 else n - 87)"

definition number_of :: "int \<Rightarrow> string \<Rightarrow> int" where
  "number_of base s = foldl (\<lambda>n c. base * n + digit_value c) 0 s"

section \<open>IP addresses\<close>

datatype ip_addr = V4 int | V6 int "string option"

definition parse_octet :: "string \<Rightarrow> int option" where
  "parse_octet s =
     (if s = [] \<or> \<not> list_all is_digit s \<or> length s > 3 \<or> (s \<noteq> ''0'' \<and> hd s = CHR ''0'') then None
      else if number_of 10 s > 255 then None else Some (number_of 10 s))"

definition parse_v4 :: "string \<Rightarrow> int option" where
  "parse_v4 s =
     (case map parse_octet (split_on (CHR ''.'') s) of
        [Some a, Some b, Some c, Some d] \<Rightarrow> Some (((a * 256 + b) * 256 + c) * 256 + d)
      | _ \<Rightarrow> None)"

definition hex_digits :: "char set" where
  "hex_digits = set ''0123456789ABCDEFabcdef''"

definition parse_hextet :: "string \<Rightarrow> int option" where
  "parse_hextet s =
     (if set s \<subseteq> hex_digits \<and> s \<noteq> [] \<and> length s \<le> 4 then Some (number_of 16 s) else None)"

fun hextets_value :: "int \<Rightarrow> string list \<Rightarrow> int option" where
  "hextets_value n [] = Some n"
| "hextets_value n (p # ps) =
     (case parse_hextet p of None \<Rightarrow> None | Some h \<Rightarrow> hextets_value (n * 65536 + h) ps)"

function hex_repr :: "int \<Rightarrow> string" where
  "hex_repr n = (if n < 16 then [digit_char (nat n)] else hex_repr (n div 16) @ [digit_char (nat (n mod 16))])"
  by pat_completeness auto
termination by (relation "measure nat") auto

declare hex_repr.simps [simp del]

text \<open>The dotted-quad suffix of an IPv6 text becomes two hextets.\<close>

definition v6_parts :: "string \<Rightarrow> string list option" where
  "v6_parts s =
     (let parts = split_on (CHR '':'') s in
      if s = [] \<or> length parts < 3 then None
      else if CHR ''.'' \<in> set (last parts) then
        (case parse_v4 (last parts) of
           None \<Rightarrow> None
         | Some v \<Rightarrow> Some (butlast parts @ [hex_repr (v div 65536), hex_repr (v mod 65536)]))
      else Some parts)"

definition parse_v6_int :: "string \<Rightarrow> int option" where
  "parse_v6_int s =
     (case v6_parts s of
        None \<Rightarrow> None
      | Some parts \<Rightarrow>
          let n = length parts; skips = filter (\<lambda>i. parts ! i = []) [1..<n - 1] in
          if n > 9 then None
          else case skips of
            [] \<Rightarrow>
              if n \<noteq> 8 \<or> hd parts = [] \<or> last parts = [] then None else hextets_value 0 parts
          | [k] \<Rightarrow>
              let hi = (if hd parts = [] then k - 1 else k);
                  lo = (if last parts = [] then n - k - 2 else n - k - 1) in
              if hd parts = [] \<and> hi > 0 \<or> last parts = [] \<and> lo > 0 \<or> hi + lo > 7 then None
              else (case hextets_value 0 (take hi parts) of
                      None \<Rightarrow> None
                    | Some v \<Rightarrow> hextets_value (v * 65536 ^ (8 - (hi + lo))) (drop (n - lo) parts))
          | _ \<Rightarrow> None)"

definition parse_v6 :: "string \<Rightarrow> (int \<times> string option) option" where
  "parse_v6 s =
     (case partition_on (CHR ''%'') s of (addr, sep, scope) \<Rightarrow>
        if sep \<and> (scope = [] \<or> CHR ''%'' \<in> set scope) then None
        else map_option (\<lambda>v. (v, if sep then Some scope else None)) (parse_v6_int addr))"

definition ip_address :: "string \<Rightarrow> ip_addr option" where
  "ip_address s =
     (if CHR ''/'' \<in> set s then None
      else case parse_v4 s of
        Some v \<Rightarrow> Some (V4 v)
      | None \<Rightarrow> map_option (\<lambda>(v, sc). V6 v sc) (parse_v6 s))"

definition v4_text :: "int \<Rightarrow> string" where
  "v4_text v = join ''.'' (map int_repr [v div 16777216, v div 65536 mod 256, v div 256 mod 256, v mod 256])"

text \<open>
  \<^verbatim>\<open>_compress_hextets\<close>: the first longest run of zero hextets, of length at least two, is left out.
  The loop keeps the best run and the current one.
\<close>

fun best_run :: "nat \<Rightarrow> nat \<Rightarrow> nat \<Rightarrow> nat option \<Rightarrow> nat \<Rightarrow> string list \<Rightarrow> nat \<times> nat" where
  "best_run i best_start best_len start run [] = (best_start, best_len)"
| "best_run i best_start best_len start run (h # hs) =
     (if h = ''0'' then
        (let run' = run + 1; st = (case start of None \<Rightarrow> i | Some k \<Rightarrow> k) in
         if run' > best_len then best_run (i + 1) st run' (Some st) run' hs
         else best_run (i + 1) best_start best_len (Some st) run' hs)
      else best_run (i + 1) best_start best_len None 0 hs)"

definition compress_hextets :: "string list \<Rightarrow> string list" where
  "compress_hextets hs =
     (case best_run 0 0 0 None 0 hs of (st, len) \<Rightarrow>
        if len > 1 then
          (if st = 0 then [[]] else []) @ take st hs @ [[]] @ drop (st + len) hs @
          (if st + len = length hs then [[]] else [])
        else hs)"

definition v6_text :: "int \<Rightarrow> string option \<Rightarrow> string" where
  "v6_text v sc =
     join '':'' (compress_hextets (map (\<lambda>i. hex_repr (v div 65536 ^ (7 - i) mod 65536)) [0..<8])) @
     (case sc of Some z \<Rightarrow> CHR ''%'' # z | None \<Rightarrow> [])"

fun ip_text :: "ip_addr \<Rightarrow> string" where
  "ip_text (V4 v) = v4_text v"
| "ip_text (V6 v sc) = v6_text v sc"

section \<open>Networks\<close>

record ip_net =
  net_addr :: ip_addr
  net_prefix :: int

definition mask_bits :: "int \<Rightarrow> int \<Rightarrow> int \<Rightarrow> int" where
  "mask_bits width p v = v div 2 ^ nat (width - p) * 2 ^ nat (width - p)"

definition prefix_string :: "int \<Rightarrow> string \<Rightarrow> int option" where
  "prefix_string width s =
     (if s \<noteq> [] \<and> list_all is_digit s \<and> number_of 10 s \<le> width then Some (number_of 10 s) else None)"

text \<open>A dotted netmask or hostmask: the prefix length whose mask (or inverted mask) it is.\<close>

definition prefix_from_ip_int :: "int \<Rightarrow> int option" where
  "prefix_from_ip_int v = List.find (\<lambda>p. v = mask_bits 32 p (2 ^ 32 - 1)) [0..32]"

definition v4_mask :: "string \<Rightarrow> int option" where
  "v4_mask s =
     (case prefix_string 32 s of
        Some p \<Rightarrow> Some p
      | None \<Rightarrow>
          (case parse_v4 s of
             None \<Rightarrow> None
           | Some v \<Rightarrow>
               (case prefix_from_ip_int v of
                  Some p \<Rightarrow> Some p
                | None \<Rightarrow> prefix_from_ip_int (2 ^ 32 - 1 - v))))"

text \<open>\<^verbatim>\<open>ip_network(s, strict=False)\<close>.\<close>

definition ip_network :: "string \<Rightarrow> ip_net option" where
  "ip_network s =
     (let parts = split_on (CHR ''/'') s;
          addr = hd parts;
          v4 = (case parse_v4 addr of
                  None \<Rightarrow> None
                | Some v \<Rightarrow>
                    (case (if length parts = 1 then Some 32 else v4_mask (parts ! 1)) of
                       None \<Rightarrow> None
                     | Some p \<Rightarrow> Some \<lparr>net_addr = V4 (mask_bits 32 p v), net_prefix = p\<rparr>));
          v6 = (case parse_v6 addr of
                  None \<Rightarrow> None
                | Some (v, sc) \<Rightarrow>
                    (case (if length parts = 1 then Some 128 else prefix_string 128 (parts ! 1)) of
                       None \<Rightarrow> None
                     | Some p \<Rightarrow>
                         let w = mask_bits 128 p v in
                         Some \<lparr>net_addr = V6 w (if w = v then sc else None), net_prefix = p\<rparr>))
      in if length parts > 2 then None else case v4 of Some n \<Rightarrow> Some n | None \<Rightarrow> v6)"

definition net_text :: "ip_net \<Rightarrow> string" where
  "net_text n = ip_text (net_addr n) @ ''/'' @ int_repr (net_prefix n)"

fun in_network :: "ip_addr \<Rightarrow> ip_net \<Rightarrow> bool" where
  "in_network (V4 v) n = (case net_addr n of V4 w \<Rightarrow> mask_bits 32 (net_prefix n) v = w | V6 _ _ \<Rightarrow> False)"
| "in_network (V6 v _) n = (case net_addr n of V6 w _ \<Rightarrow> mask_bits 128 (net_prefix n) v = w | V4 _ \<Rightarrow> False)"

text \<open>\<^verbatim>\<open>is_loopback\<close>, \<^verbatim>\<open>is_link_local\<close>, \<^verbatim>\<open>is_unspecified\<close> and \<^verbatim>\<open>is_multicast\<close>.\<close>

fun is_loopback :: "ip_addr \<Rightarrow> bool" where
  "is_loopback (V4 v) = (v div 2 ^ 24 = 127)"
| "is_loopback (V6 v _) = (v = 1)"

fun is_link_local :: "ip_addr \<Rightarrow> bool" where
  "is_link_local (V4 v) = (v div 2 ^ 16 = 169 * 256 + 254)"
| "is_link_local (V6 v _) = (v div 2 ^ 118 = 0x3FA)"

fun is_unspecified :: "ip_addr \<Rightarrow> bool" where
  "is_unspecified (V4 v) = (v = 0)"
| "is_unspecified (V6 v _) = (v = 0)"

fun is_multicast :: "ip_addr \<Rightarrow> bool" where
  "is_multicast (V4 v) = (v div 2 ^ 28 = 14)"
| "is_multicast (V6 v _) = (v div 2 ^ 120 = 255)"

section \<open>URLs\<close>

record split_url =
  u_scheme :: string
  u_netloc :: string
  u_path :: string
  u_query :: string
  u_fragment :: string

definition is_scheme_char :: "char \<Rightarrow> bool" where
  "is_scheme_char c \<longleftrightarrow> is_alpha_ascii c \<or> is_digit c \<or> c \<in> set ''+-.''"

text \<open>\<^verbatim>\<open>_check_bracketed_host\<close>: an \<^verbatim>\<open>IPvFuture\<close> form or an IPv6 address.\<close>

definition bracketed_ok :: "string \<Rightarrow> bool" where
  "bracketed_ok h =
     (if starts_with h ''v'' then
        (case partition_on (CHR ''.'') (tl h) of (a, dot, b) \<Rightarrow>
           dot \<and> a \<noteq> [] \<and> set a \<subseteq> hex_digits \<and> b \<noteq> [] \<and> CHR 0x0A \<notin> set b)
      else case ip_address h of Some (V6 _ _) \<Rightarrow> True | _ \<Rightarrow> False)"

definition urlsplit :: "string \<Rightarrow> split_url result" where
  "urlsplit raw =
     (let url0 = filter (\<lambda>c. c \<notin> set [CHR 0x09, CHR 0x0D, CHR 0x0A])
                   (dropWhile (\<lambda>c. (of_char c :: nat) \<le> 32) raw);
          (pre, colon, post) = partition_on (CHR '':'') url0;
          has_scheme = (colon \<and> pre \<noteq> [] \<and> is_alpha_ascii (hd pre) \<and> list_all is_scheme_char pre);
          scheme = (if has_scheme then py_lower pre else []);
          url1 = (if has_scheme then post else url0);
          has_netloc = starts_with url1 ''//'';
          stop = (\<lambda>c. c \<notin> set ''/?#'');
          netloc = (if has_netloc then takeWhile stop (drop 2 url1) else []);
          url2 = (if has_netloc then dropWhile stop (drop 2 url1) else url1);
          ob = (CHR ''['' \<in> set netloc); cb = (CHR '']'' \<in> set netloc);
          bracketed = fst (partition_on (CHR '']'') (snd (snd (partition_on (CHR ''['') netloc))));
          (url3, _, fragment) = partition_on (CHR ''#'') url2;
          (path, _, query) = partition_on (CHR ''?'') url3
      in if ob \<noteq> cb then Inl (ValueError ''Invalid IPv6 URL'')
         else if ob \<and> cb \<and> \<not> bracketed_ok bracketed then Inl (ValueError ''Invalid bracketed host'')
         else Inr \<lparr>u_scheme = scheme, u_netloc = netloc, u_path = path, u_query = query, u_fragment = fragment\<rparr>)"

definition hostinfo :: "split_url \<Rightarrow> string \<times> string" where
  "hostinfo u =
     (let (_, _, h) = rpartition_on (CHR ''@'') (u_netloc u);
          (_, open_br, bracketed) = partition_on (CHR ''['') h
      in if open_br then
           (let (name, _, rest) = partition_on (CHR '']'') bracketed;
                (_, _, port) = partition_on (CHR '':'') rest in (name, port))
         else (let (name, _, port) = partition_on (CHR '':'') h in (name, port)))"

text \<open>\<^verbatim>\<open>parsed.hostname or ""\<close>: lower-cased up to a zone.\<close>

definition url_hostname :: "split_url \<Rightarrow> string" where
  "url_hostname u =
     (case partition_on (CHR ''%'') (fst (hostinfo u)) of (h, pct, zone) \<Rightarrow>
        py_lower h @ (if pct then CHR ''%'' # zone else []))"

definition url_port :: "split_url \<Rightarrow> int option result" where
  "url_port u =
     (let p = snd (hostinfo u) in
      if p = [] then Inr None
      else if \<not> list_all is_digit p then
        Inl (ValueError (''Port could not be cast to integer value as '' @ repr_str p))
      else if number_of 10 p > 65535 then Inl (ValueError ''Port out of range 0-65535'')
      else Inr (Some (number_of 10 p)))"

definition urlunsplit :: "split_url \<Rightarrow> string" where
  "urlunsplit u =
     (let url = u_path u;
          url = (if u_netloc u \<noteq> [] \<or> u_scheme u \<in> {''http'', ''https''} \<or> starts_with url ''//'' then
                   ''//'' @ u_netloc u @ (if url \<noteq> [] \<and> hd url \<noteq> CHR ''/'' then ''/'' @ url else url)
                 else url);
          url = (if u_scheme u \<noteq> [] then u_scheme u @ '':'' @ url else url);
          url = (if u_query u \<noteq> [] then url @ ''?'' @ u_query u else url)
      in if u_fragment u \<noteq> [] then url @ ''#'' @ u_fragment u else url)"

text \<open>\<^verbatim>\<open>posixpath.normpath\<close> of a path with exactly one leading slash, the only form the source builds.\<close>

fun norm_comps :: "string list \<Rightarrow> string list \<Rightarrow> string list" where
  "norm_comps acc [] = rev acc"
| "norm_comps acc (c # cs) =
     (if c = [] \<or> c = ''.'' then norm_comps acc cs
      else if c \<noteq> ''..'' \<or> (acc \<noteq> [] \<and> hd acc = ''..'') then norm_comps (c # acc) cs
      else norm_comps (case acc of [] \<Rightarrow> [] | _ # r \<Rightarrow> r) cs)"

definition normpath_abs :: "string \<Rightarrow> string" where
  "normpath_abs p = CHR ''/'' # join ''/'' (norm_comps [] (split_on (CHR ''/'') p))"

section \<open>IDNA\<close>

definition idna_encode :: "(string \<Rightarrow> string option) \<Rightarrow> string \<Rightarrow> string option" where
  "idna_encode idna s =
     (if s = [] then Some []
      else if is_ascii s then
        (let labels = split_on (CHR ''.'') s in
         if list_all (\<lambda>l. 0 < length l \<and> length l < 64) (butlast labels) \<and> length (last labels) < 64
         then Some s else None)
      else idna s)"

end
