(* ===== verification/Scope.thy ===== *)
theory Scope
  imports Complex_Main Net Policy
begin

text \<open>
  The scope of an engagement: normalisation of targets (\<^verbatim>\<open>domain/scope/normalize.py\<close>), the frozen
  snapshot and its matching rules (\<^verbatim>\<open>domain/scope/models.py\<close>), the policy engine
  (\<^verbatim>\<open>domain/policy/engine.py\<close>) and the execution-time chain (\<^verbatim>\<open>application/scope_enforcer.py\<close>).
  Parameters: \<open>idna\<close> (see \<^verbatim>\<open>Net\<close>), \<open>sha\<close>, \<open>fr\<close> (the numeral of a float) and the DNS resolver.
\<close>

section \<open>Normalisation\<close>

definition normalize_domain :: "(string \<Rightarrow> string option) \<Rightarrow> string \<Rightarrow> string result" where
  "normalize_domain idna v =
     (let domain = py_lower (rstrip_when (\<lambda>c. c = CHR ''.'') (py_strip v));
          wildcard = starts_with domain ''*.'';
          raw = (if wildcard then drop 2 domain else domain) in
      case idna_encode idna raw of
        None \<Rightarrow> Inl (DomainValidationError ''invalid domain'')
      | Some encoded \<Rightarrow>
          if encoded = [] \<or> [] \<in> set (split_on (CHR ''.'') encoded)
          then Inl (DomainValidationError ''invalid domain'')
          else Inr ((if wildcard then ''*.'' else []) @ encoded))"

definition normalize_ip_or_network :: "string \<Rightarrow> string result" where
  "normalize_ip_or_network v =
     (case (if CHR ''/'' \<in> set v then map_option net_text (ip_network (py_strip v))
            else map_option ip_text (ip_address (py_strip v))) of
        None \<Rightarrow> Inl (DomainValidationError ''invalid IP or CIDR'')
      | Some t \<Rightarrow> Inr t)"

definition normalize_url :: "(string \<Rightarrow> string option) \<Rightarrow> string \<Rightarrow> string result" where
  "normalize_url idna v =
     bind_res (urlsplit (py_strip v)) (\<lambda>u.
       let scheme = py_lower (u_scheme u) in
       if scheme \<notin> {''http'', ''https''} \<or> url_hostname u = [] then
         Inl (DomainValidationError ''URL must use http or https'')
       else
         bind_res (normalize_domain idna (url_hostname u)) (\<lambda>host.
         bind_res (url_port u) (\<lambda>port0.
           let port = (if port0 = Some (if scheme = ''https'' then 443 else 80) then None else port0);
               netloc = (case port of None \<Rightarrow> host | Some p \<Rightarrow> host @ '':'' @ int_repr p);
               path = normpath_abs (CHR ''/'' # dropWhile (\<lambda>c. c = CHR ''/'') (u_path u));
               path = (if ends_with (u_path u) ''/'' \<and> \<not> ends_with path ''/'' then path @ ''/'' else path) in
           Inr (urlunsplit \<lparr>u_scheme = scheme, u_netloc = netloc, u_path = path,
                            u_query = u_query u, u_fragment = []\<rparr>))))"

definition normalize_port :: "int \<Rightarrow> int result" where
  "normalize_port v =
     (if 1 \<le> v \<and> v \<le> 65535 then Inr v
      else Inl (DomainValidationError ''port must be between 1 and 65535''))"

definition normalize_cloud_account :: "string \<Rightarrow> string result" where
  "normalize_cloud_account v =
     (case partition_on (CHR '':'') (py_strip v) of (provider0, sep, account0) \<Rightarrow>
        let provider = py_lower (py_strip provider0); account = py_strip account0;
            core = filter (\<lambda>c. c \<notin> set ''-_'') provider in
        if \<not> sep then Inl (DomainValidationError ''cloud account must be provider:account_id'')
        else if provider = [] \<or> account = [] then
          Inl (DomainValidationError ''cloud account provider and id must be non-empty'')
        else if core = [] \<or> \<not> list_all is_alnum core then
          Inl (DomainValidationError ''invalid cloud provider'')
        else Inr (provider @ '':'' @ account))"

section \<open>Snapshots\<close>

record scope_limits =
  requests_per_second :: rat
  concurrency :: int
  max_requests :: int

definition ScopeLimits_check :: "scope_limits \<Rightarrow> scope_limits result" where
  "ScopeLimits_check l =
     (if requests_per_second l \<le> 0 \<or> concurrency l < 1 \<or> max_requests l < 1
      then Inl (DomainValidationError ''scope limits must be positive'') else Inr l)"

record scope_snapshot =
  sc_id :: string
  sc_project_id :: string
  sc_include :: "string list"
  sc_exclude :: "string list"
  sc_ports :: "int list"
  sc_limits :: scope_limits
  sc_approved_by :: string
  sc_approved_at :: datetime
  sc_digest :: string
  sc_cloud_accounts :: "string list"

definition is_http :: "string \<Rightarrow> bool" where
  "is_http s \<longleftrightarrow> starts_with s ''http://'' \<or> starts_with s ''https://''"

definition domain_matches :: "string \<Rightarrow> string \<Rightarrow> bool" where
  "domain_matches rule domain =
     (if starts_with rule ''*.'' then
        (let suffix = drop 2 rule in ends_with domain (CHR ''.'' # suffix) \<and> domain \<noteq> suffix)
      else domain = rule)"

definition host_matches :: "string \<Rightarrow> string \<Rightarrow> bool" where
  "host_matches rule_host value_host =
     (if domain_matches rule_host value_host then True
      else case ip_network rule_host of
        None \<Rightarrow> False
      | Some net \<Rightarrow> (case ip_address value_host of None \<Rightarrow> False | Some a \<Rightarrow> in_network a net))"

definition target_matches :: "(string \<Rightarrow> string option) \<Rightarrow> string \<Rightarrow> string \<Rightarrow> bool result" where
  "target_matches idna rule v =
     (if is_http rule then
        bind_res (urlsplit rule) (\<lambda>ru.
          if url_hostname ru = [] then Inr False
          else bind_res (if is_http v then bind_res (urlsplit v) (\<lambda>vu. Inr (url_hostname vu)) else Inr v) (\<lambda>vh.
            if vh = [] then Inr False else Inr (host_matches (url_hostname ru) vh)))
      else case ip_network rule of
        None \<Rightarrow> bind_res (normalize_domain idna v) (\<lambda>d. Inr (domain_matches rule d))
      | Some net \<Rightarrow> (case ip_address v of None \<Rightarrow> Inr False | Some a \<Rightarrow> Inr (in_network a net)))"

text \<open>\<^verbatim>\<open>any(f(x) for x in xs)\<close>: stops at the first true element, and raises what an element before it raises.\<close>

fun any_res :: "('a \<Rightarrow> bool result) \<Rightarrow> 'a list \<Rightarrow> bool result" where
  "any_res f [] = Inr False"
| "any_res f (x # xs) = bind_res (f x) (\<lambda>b. if b then Inr True else any_res f xs)"

definition deny_first :: "(string \<Rightarrow> bool result) \<Rightarrow> scope_snapshot \<Rightarrow> bool result" where
  "deny_first matches sc =
     bind_res (any_res matches (sc_exclude sc)) (\<lambda>denied.
       if denied then Inr False else any_res matches (sc_include sc))"

definition includes_ip :: "(string \<Rightarrow> string option) \<Rightarrow> scope_snapshot \<Rightarrow> string \<Rightarrow> bool result" where
  "includes_ip idna sc v =
     bind_res (normalize_ip_or_network v) (\<lambda>n.
       if CHR ''/'' \<in> set n then Inl (DomainValidationError ''target must be a single IP'')
       else deny_first (\<lambda>rule. target_matches idna rule n) sc)"

definition includes_domain :: "(string \<Rightarrow> string option) \<Rightarrow> scope_snapshot \<Rightarrow> string \<Rightarrow> bool result" where
  "includes_domain idna sc v =
     bind_res (normalize_domain idna v) (\<lambda>n. deny_first (\<lambda>rule. target_matches idna rule n) sc)"

definition url_rule_matches :: "(string \<Rightarrow> string option) \<Rightarrow> string \<Rightarrow> string \<Rightarrow> string \<Rightarrow> bool result" where
  "url_rule_matches idna normalized host rule =
     (if is_http rule then Inr (starts_with normalized rule) else target_matches idna rule host)"

definition includes_url :: "(string \<Rightarrow> string option) \<Rightarrow> scope_snapshot \<Rightarrow> string \<Rightarrow> bool result" where
  "includes_url idna sc v =
     bind_res (normalize_url idna v) (\<lambda>n.
     bind_res (urlsplit n) (\<lambda>u. deny_first (url_rule_matches idna n (url_hostname u)) sc))"

definition matches_any :: "(string \<Rightarrow> string option) \<Rightarrow> string \<Rightarrow> string list \<Rightarrow> bool result" where
  "matches_any idna host rules = any_res (\<lambda>rule. target_matches idna rule host) rules"

definition includes_host :: "(string \<Rightarrow> string option) \<Rightarrow> scope_snapshot \<Rightarrow> string \<Rightarrow> bool result" where
  "includes_host idna sc host =
     bind_res (matches_any idna host (sc_exclude sc)) (\<lambda>denied.
       if denied then Inr False else matches_any idna host (sc_include sc))"

definition excludes_host :: "(string \<Rightarrow> string option) \<Rightarrow> scope_snapshot \<Rightarrow> string \<Rightarrow> bool result" where
  "excludes_host idna sc host = matches_any idna host (sc_exclude sc)"

definition includes_port :: "scope_snapshot \<Rightarrow> int \<Rightarrow> bool result" where
  "includes_port sc v = bind_res (normalize_port v) (\<lambda>p. Inr (p \<in> set (sc_ports sc)))"

definition cloud_account_excluded :: "scope_snapshot \<Rightarrow> string \<Rightarrow> bool" where
  "cloud_account_excluded sc normalized \<longleftrightarrow>
     (\<exists>rule \<in> set (sc_exclude sc). normalize_cloud_account rule = Inr normalized)"

definition includes_cloud_account :: "scope_snapshot \<Rightarrow> string \<Rightarrow> bool result" where
  "includes_cloud_account sc v =
     bind_res (normalize_cloud_account v) (\<lambda>n.
       if cloud_account_excluded sc n then Inr False else Inr (n \<in> set (sc_cloud_accounts sc)))"

section \<open>Drafts\<close>

record scope_draft =
  sd_project_id :: string
  sd_include :: "string list"
  sd_exclude :: "string list"
  sd_ports :: "int list"
  sd_limits :: scope_limits
  sd_cloud_accounts :: "string list"

definition ScopeDraft_check :: "scope_draft \<Rightarrow> scope_draft result" where
  "ScopeDraft_check d =
     (if py_strip (sd_project_id d) = [] \<or> sd_include d = [] then
        Inl (DomainValidationError ''project and include targets are required'')
      else bind_res (map_res normalize_port (sd_ports d)) (\<lambda>_. Inr d))"

definition normalize_target :: "(string \<Rightarrow> string option) \<Rightarrow> string \<Rightarrow> string result" where
  "normalize_target idna v =
     (if is_http (py_lower (py_strip v)) then normalize_url idna v
      else case normalize_ip_or_network v of
        Inr n \<Rightarrow> Inr n
      | Inl _ \<Rightarrow> normalize_domain idna v)"

definition sorted_set :: "('a :: linorder) list \<Rightarrow> 'a list" where
  "sorted_set xs = sort (remdups xs)"

definition snapshot_payload :: "(rat \<Rightarrow> string) \<Rightarrow> scope_snapshot \<Rightarrow> pyval" where
  "snapshot_payload fr s = VDict
     [(''id'', VStr (sc_id s)), (''project_id'', VStr (sc_project_id s)), (''include'', VStrs (sc_include s)),
      (''exclude'', VStrs (sc_exclude s)), (''ports'', VList (map VInt (sc_ports s))),
      (''limits'', VDict [(''requests_per_second'', VFloat (fr (requests_per_second (sc_limits s)))),
         (''concurrency'', VInt (concurrency (sc_limits s))), (''max_requests'', VInt (max_requests (sc_limits s)))]),
      (''cloud_accounts'', VStrs (sc_cloud_accounts s)), (''approved_by'', VStr (sc_approved_by s)),
      (''approved_at'', VStr (iso_utc (sc_approved_at s)))]"

definition freeze ::
  "(string \<Rightarrow> string) \<Rightarrow> (rat \<Rightarrow> string) \<Rightarrow> (string \<Rightarrow> string option) \<Rightarrow> scope_draft \<Rightarrow> string \<Rightarrow> string \<Rightarrow> datetime \<Rightarrow>
   scope_snapshot result" where
  "freeze sha fr idna d snapshot_id approved_by now =
     bind_res (map_res (normalize_target idna) (sd_include d)) (\<lambda>inc.
     bind_res (map_res (normalize_target idna) (sd_exclude d)) (\<lambda>exc.
     bind_res (map_res normalize_port (sd_ports d)) (\<lambda>ports.
     bind_res (map_res normalize_cloud_account (sd_cloud_accounts d)) (\<lambda>accts.
       let s = \<lparr>sc_id = snapshot_id, sc_project_id = sd_project_id d, sc_include = sorted_set inc,
                sc_exclude = sorted_set exc, sc_ports = sorted_set ports, sc_limits = sd_limits d,
                sc_approved_by = approved_by, sc_approved_at = now, sc_digest = [],
                sc_cloud_accounts = sorted_set accts\<rparr>
       in Inr (s\<lparr>sc_digest := canonical_digest sha (snapshot_payload fr s)\<rparr>)))))"

section \<open>The policy engine\<close>

record action_request =
  ar_target :: string
  ar_port :: int
  ar_risk :: risk_class
  ar_capability :: string

definition evaluate ::
  "(string \<Rightarrow> string option) \<Rightarrow> action_request \<Rightarrow> scope_snapshot \<Rightarrow> execution_mode \<Rightarrow> risk_class set \<Rightarrow> string set \<Rightarrow>
   policy_decision result" where
  "evaluate idna rq sc mode approved_risks approved_capabilities =
     (if ar_risk rq = DESTRUCTIVE then Inr \<lparr>allowed = False, reason = ''DESTRUCTIVE_ACTION_DENIED''\<rparr>
      else
        bind_res (bind_res (includes_port sc (ar_port rq)) (\<lambda>p. if p then includes_url idna sc (ar_target rq) else Inr False)) (\<lambda>inside.
          if \<not> inside then Inr \<lparr>allowed = False, reason = ''SCOPE_DENIED''\<rparr>
          else if ar_risk rq \<notin> approved_risks then Inr \<lparr>allowed = False, reason = ''RISK_NOT_APPROVED''\<rparr>
          else if ar_risk rq \<in> {ACTIVE, INTRUSIVE} \<and> ar_capability rq \<notin> approved_capabilities
          then Inr \<lparr>allowed = False, reason = ''CAPABILITY_NOT_APPROVED''\<rparr>
          else Inr \<lparr>allowed = True, reason = ''ALLOWED''\<rparr>))"

section \<open>The execution-time chain\<close>

record enforcement_context =
  ec_risk :: risk_class
  ec_approved_risks :: "risk_class set"
  ec_approved :: bool
  ec_budget_remaining :: rat
  ec_hour :: int
  ec_time_window :: "(int \<times> int) option"
  ec_permit_valid :: bool

text \<open>
  \<^verbatim>\<open>int(s)\<close> of a string: surrounding white space, a sign, and digits (at most 4300) with single
  underscores between them.
\<close>

definition py_int :: "string \<Rightarrow> int option" where
  "py_int s =
     (let t = py_strip s;
          (sign, body) = (case t of [] \<Rightarrow> (1, []) | c # r \<Rightarrow> if c = CHR ''-'' then (- 1, r) else if c = CHR ''+'' then (1, r) else (1, t));
          groups = split_on (CHR ''_'') body in
      if list_all (\<lambda>g. g \<noteq> [] \<and> list_all is_digit g) groups \<and> length (concat groups) \<le> 4300
      then Some (sign * number_of 10 (concat groups)) else None)"

definition split_target :: "string \<Rightarrow> (string \<times> int option) result" where
  "split_target target =
     (if is_http target then
        bind_res (urlsplit target) (\<lambda>u. bind_res (url_port u) (\<lambda>p.
          Inr (url_hostname u,
               Some (case p of Some n \<Rightarrow> if n = 0 then (if u_scheme u = ''https'' then 443 else 80) else n
                     | None \<Rightarrow> if u_scheme u = ''https'' then 443 else 80))))
      else case rpartition_on (CHR '':'') target of (host, sep, port_str) \<Rightarrow>
        if sep then (case py_int port_str of Some p \<Rightarrow> Inr (host, Some p) | None \<Rightarrow> Inr (target, None))
        else Inr (target, None))"

definition is_blocked_ip :: "string \<Rightarrow> bool result" where
  "is_blocked_ip ip =
     (case ip_address ip of
        None \<Rightarrow> Inl (ValueError (repr_str ip @ '' does not appear to be an IPv4 or IPv6 address''))
      | Some a \<Rightarrow> Inr (is_loopback a \<or> is_link_local a \<or> is_unspecified a \<or> is_multicast a))"

definition deny :: "string \<Rightarrow> policy_decision" where
  "deny r = \<lparr>allowed = False, reason = r\<rparr>"

text \<open>Step 5: the recheck of the resolved addresses; \<^term>\<open>None\<close> means that all of them passed.\<close>

fun recheck :: "(string \<Rightarrow> string option) \<Rightarrow> scope_snapshot \<Rightarrow> string list \<Rightarrow> policy_decision option result" where
  "recheck idna sc [] = Inr None"
| "recheck idna sc (ip # ips) =
     bind_res (is_blocked_ip ip) (\<lambda>blocked.
       if blocked then Inr (Some (deny ''REBINDING_BLOCKED''))
       else bind_res (includes_ip idna sc ip) (\<lambda>inside.
         if \<not> inside then Inr (Some (deny ''RESOLVED_IP_OUT_OF_SCOPE'')) else recheck idna sc ips))"

definition late_checks :: "scope_snapshot \<Rightarrow> enforcement_context \<Rightarrow> int option \<Rightarrow> policy_decision result" where
  "late_checks sc ctx port =
     bind_res (case port of None \<Rightarrow> Inr True | Some p \<Rightarrow> includes_port sc p) (\<lambda>port_ok.
       if \<not> port_ok then Inr (deny ''PORT_NOT_ALLOWED'')
       else if (case ec_time_window ctx of None \<Rightarrow> False | Some (a, b) \<Rightarrow> \<not> (a \<le> ec_hour ctx \<and> ec_hour ctx < b))
       then Inr (deny ''OUTSIDE_TIME_WINDOW'')
       else if ec_risk ctx = DESTRUCTIVE then Inr (deny ''DESTRUCTIVE_DENIED'')
       else if ec_risk ctx \<notin> ec_approved_risks ctx then Inr (deny ''RISK_NOT_APPROVED'')
       else if \<not> ec_approved ctx then Inr (deny ''NOT_APPROVED'')
       else if ec_budget_remaining ctx \<le> 0 then Inr (deny ''BUDGET_EXHAUSTED'')
       else if \<not> ec_permit_valid ctx then Inr (deny ''PERMIT_INVALID'')
       else Inr \<lparr>allowed = True, reason = ''ALLOWED''\<rparr>)"

definition scope_check ::
  "(string \<Rightarrow> string option) \<Rightarrow> (string \<Rightarrow> string list result) \<Rightarrow> string \<Rightarrow> scope_snapshot \<Rightarrow> enforcement_context \<Rightarrow>
   policy_decision result" where
  "scope_check idna resolve target sc ctx =
     bind_res (split_target target) (\<lambda>(host, port).
       if host = [] then Inr (deny ''INVALID_TARGET'')
       else bind_res (excludes_host idna sc host) (\<lambda>ex.
         if ex then Inr (deny ''EXPLICIT_DENY'')
         else bind_res (includes_host idna sc host) (\<lambda>inc.
           if \<not> inc then Inr (deny ''NOT_INCLUDED'')
           else bind_res (if ip_address host \<noteq> None then Inr [host] else resolve host) (\<lambda>resolved.
             if resolved = [] then Inr (deny ''DNS_RESOLUTION_FAILED'')
             else bind_res (recheck idna sc resolved) (\<lambda>verdict.
               case verdict of Some d \<Rightarrow> Inr d | None \<Rightarrow> late_checks sc ctx port)))))"

section \<open>Deny-first matching\<close>

lemma any_res_False [simp]: "any_res f xs = Inr False \<longleftrightarrow> (\<forall>x \<in> set xs. f x = Inr False)"
  by (induction xs) (auto simp: bind_res_def split: sum.splits)

lemma any_res_TrueD: "any_res f xs = Inr True \<Longrightarrow> \<exists>x \<in> set xs. f x = Inr True"
  by (induction xs) (auto simp: bind_res_def split: sum.splits if_splits)

lemma deny_first_True:
  "deny_first m sc = Inr True \<longleftrightarrow> (\<forall>r \<in> set (sc_exclude sc). m r = Inr False) \<and> any_res m (sc_include sc) = Inr True"
  unfolding any_res_False [symmetric] by (auto simp del: any_res_False simp: deny_first_def bind_res_def split: sum.splits)

text \<open>
  The four membership queries share one contract: the value is prepared once, and a prepared value is
  accepted by the deny-first scan of the rules.
\<close>

locale scope_query =
  fixes query :: "scope_snapshot \<Rightarrow> 'v \<Rightarrow> bool result"
    and prepare :: "'v \<Rightarrow> 'p result"
    and matches :: "'p \<Rightarrow> string \<Rightarrow> bool result"
  assumes query_deny_first: "query sc v = bind_res (prepare v) (\<lambda>p. deny_first (matches p) sc)"
begin

lemma query_True:
  "query sc v = Inr True \<longleftrightarrow>
     (\<exists>p. prepare v = Inr p \<and> (\<forall>r \<in> set (sc_exclude sc). matches p r = Inr False) \<and>
          any_res (matches p) (sc_include sc) = Inr True)"
  by (auto simp: query_deny_first bind_res_def deny_first_True split: sum.splits)

lemma excluded_never_in:
  assumes "prepare v = Inr p" "r \<in> set (sc_exclude sc)" "matches p r = Inr True"
  shows "query sc v \<noteq> Inr True"
  using assms by (force simp: query_True)

lemma query_needs_include:
  assumes "query sc v = Inr True"
  shows "\<exists>p. prepare v = Inr p \<and> (\<exists>r \<in> set (sc_include sc). matches p r = Inr True)"
  using assms any_res_TrueD by (fastforce simp: query_True)

lemma fewer_exclusions:
  assumes "query sc v = Inr True" "set (sc_exclude sc') \<subseteq> set (sc_exclude sc)" "sc_include sc' = sc_include sc"
  shows "query sc' v = Inr True"
  using assms by (auto simp: query_True)

end

interpretation ip_query: scope_query "includes_ip idna"
  "\<lambda>v. bind_res (normalize_ip_or_network v) (\<lambda>n.
        if CHR ''/'' \<in> set n then Inl (DomainValidationError ''target must be a single IP'') else Inr n)"
  "\<lambda>n rule. target_matches idna rule n" for idna
  by unfold_locales (auto simp: includes_ip_def bind_res_def split: sum.splits)

interpretation domain_query: scope_query "includes_domain idna" "normalize_domain idna"
  "\<lambda>n rule. target_matches idna rule n" for idna
  by unfold_locales (simp add: includes_domain_def)

interpretation url_query: scope_query "includes_url idna"
  "\<lambda>v. bind_res (normalize_url idna v) (\<lambda>n. bind_res (urlsplit n) (\<lambda>u. Inr (n, url_hostname u)))"
  "\<lambda>(n, host). url_rule_matches idna n host" for idna
  by unfold_locales (auto simp: includes_url_def bind_res_def split: sum.splits)

interpretation host_query: scope_query "includes_host idna" Inr "\<lambda>host rule. target_matches idna rule host" for idna
  by unfold_locales (auto simp: includes_host_def matches_any_def deny_first_def bind_res_def split: sum.splits)

section \<open>The chain\<close>

lemma recheck_None:
  "recheck idna sc ips = Inr None \<longleftrightarrow>
     (\<forall>ip \<in> set ips. is_blocked_ip ip = Inr False \<and> includes_ip idna sc ip = Inr True)"
  by (induction ips) (auto simp: bind_res_def split: sum.splits)

lemma recheck_Some_denies: "recheck idna sc ips = Inr (Some d) \<Longrightarrow> \<not> allowed d"
  by (induction ips) (auto simp: bind_res_def deny_def split: sum.splits if_splits)

definition window_open :: "enforcement_context \<Rightarrow> bool" where
  "window_open ctx \<longleftrightarrow> (case ec_time_window ctx of None \<Rightarrow> True | Some (a, b) \<Rightarrow> a \<le> ec_hour ctx \<and> ec_hour ctx < b)"

definition authorised :: "enforcement_context \<Rightarrow> bool" where
  "authorised ctx \<longleftrightarrow> ec_risk ctx \<noteq> DESTRUCTIVE \<and> ec_risk ctx \<in> ec_approved_risks ctx \<and> ec_approved ctx \<and>
     ec_budget_remaining ctx > 0 \<and> ec_permit_valid ctx"

lemma late_checks_allows:
  "(\<exists>d. late_checks sc ctx port = Inr d \<and> allowed d) \<longleftrightarrow>
     (\<forall>p. port = Some p \<longrightarrow> includes_port sc p = Inr True) \<and> window_open ctx \<and> authorised ctx"
  by (cases port; cases "ec_time_window ctx")
     (auto simp: late_checks_def bind_res_def deny_def window_open_def authorised_def split: sum.splits)

lemma includes_port_True [simp]:
  "includes_port sc p = Inr True \<longleftrightarrow> 1 \<le> p \<and> p \<le> 65535 \<and> p \<in> set (sc_ports sc)"
  by (auto simp: includes_port_def normalize_port_def bind_res_def)

text \<open>What the chain promises, written as one predicate over the snapshot and the resolver.\<close>

definition chain_admits ::
  "(string \<Rightarrow> string option) \<Rightarrow> (string \<Rightarrow> string list result) \<Rightarrow> string \<Rightarrow> scope_snapshot \<Rightarrow> enforcement_context \<Rightarrow>
   bool" where
  "chain_admits idna resolve target sc ctx \<longleftrightarrow>
     (\<exists>host port ips.
        split_target target = Inr (host, port) \<and> host \<noteq> [] \<and>
        (\<forall>r \<in> set (sc_exclude sc). target_matches idna r host = Inr False) \<and>
        matches_any idna host (sc_include sc) = Inr True \<and>
        (if ip_address host \<noteq> None then Inr [host] else resolve host) = Inr ips \<and> ips \<noteq> [] \<and>
        (\<forall>ip \<in> set ips. is_blocked_ip ip = Inr False \<and> includes_ip idna sc ip = Inr True) \<and>
        (\<forall>p. port = Some p \<longrightarrow> 1 \<le> p \<and> p \<le> 65535 \<and> p \<in> set (sc_ports sc)) \<and>
        window_open ctx \<and> authorised ctx)"

lemma scope_check_admits:
  "(\<exists>d. scope_check idna resolve target sc ctx = Inr d \<and> allowed d) \<longleftrightarrow> chain_admits idna resolve target sc ctx"
proof (cases "split_target target")
  case (Inl e)
  then show ?thesis by (simp add: scope_check_def chain_admits_def bind_res_def)
next
  case (Inr hp)
  obtain host port where hp: "hp = (host, port)" by (cases hp)
  have ex: "excludes_host idna sc host = Inr False \<longleftrightarrow>
      (\<forall>r \<in> set (sc_exclude sc). target_matches idna r host = Inr False)"
    by (simp add: excludes_host_def matches_any_def)
  have inc: "includes_host idna sc host = matches_any idna host (sc_include sc)"
    if "excludes_host idna sc host = Inr False"
    using that by (simp add: includes_host_def excludes_host_def bind_res_def)
  let ?ips = "if ip_address host \<noteq> None then Inr [host] else resolve host"
  have "(\<exists>d. scope_check idna resolve target sc ctx = Inr d \<and> allowed d) \<longleftrightarrow>
      host \<noteq> [] \<and> excludes_host idna sc host = Inr False \<and> includes_host idna sc host = Inr True \<and>
      (\<exists>ips. ?ips = Inr ips \<and> ips \<noteq> [] \<and> recheck idna sc ips = Inr None \<and>
         (\<exists>d. late_checks sc ctx port = Inr d \<and> allowed d))"
    unfolding scope_check_def Inr hp
    by (auto simp: bind_res_def deny_def dest: recheck_Some_denies split: sum.splits option.splits if_splits)
  then show ?thesis
    unfolding late_checks_allows recheck_None Inr hp ex chain_admits_def
    using inc ex by (auto simp del: includes_port_True simp: includes_port_True [symmetric] cong: conj_cong)
qed

definition sample_scope :: scope_snapshot where
  "sample_scope = \<lparr>sc_id = ''s1'', sc_project_id = ''p1'', sc_include = [''10.0.0.0/24'', ''app.example''],
     sc_exclude = [''10.0.0.9/32''], sc_ports = [80, 443],
     sc_limits = \<lparr>requests_per_second = 5, concurrency = 3, max_requests = 50000\<rparr>,
     sc_approved_by = ''human:alice'', sc_approved_at = 0, sc_digest = [], sc_cloud_accounts = []\<rparr>"

definition sample_context :: enforcement_context where
  "sample_context = \<lparr>ec_risk = ACTIVE, ec_approved_risks = {PASSIVE, ACTIVE}, ec_approved = True,
     ec_budget_remaining = 1, ec_hour = 10, ec_time_window = Some (9, 17), ec_permit_valid = True\<rparr>"

lemma sample_check:
  "scope_check (\<lambda>_. None) (\<lambda>_. Inr [''10.0.0.5'']) ''https://app.example/x'' sample_scope sample_context
     = Inr \<lparr>allowed = True, reason = ''ALLOWED''\<rparr>"
  by code_simp

text \<open>
  C30. The execution-time chain is deny-first and complete: \<^verbatim>\<open>ScopeEnforcer.check\<close> allows a target exactly
  when a non-empty host is read from it, no exclude rule matches the host and some include rule does,
  the host resolves, every resolved address (not only the first) is outside the blocked classes and is
  itself in scope (so a rebinding answer is refused), the port is in the frozen port list, the clock is
  inside the time window, and the risk is approved and not destructive, with approval, budget and permit.
\<close>

theorem scope_chain_allows_iff:
  "(\<exists>d. scope_check idna resolve target sc ctx = Inr d \<and> allowed d) \<longleftrightarrow>
     (\<exists>host port ips.
        split_target target = Inr (host, port) \<and> host \<noteq> [] \<and>
        (\<forall>r \<in> set (sc_exclude sc). target_matches idna r host = Inr False) \<and>
        matches_any idna host (sc_include sc) = Inr True \<and>
        (if ip_address host \<noteq> None then Inr [host] else resolve host) = Inr ips \<and> ips \<noteq> [] \<and>
        (\<forall>ip \<in> set ips. is_blocked_ip ip = Inr False \<and> includes_ip idna sc ip = Inr True) \<and>
        (\<forall>p. port = Some p \<longrightarrow> 1 \<le> p \<and> p \<le> 65535 \<and> p \<in> set (sc_ports sc)) \<and>
        window_open ctx \<and> authorised ctx)"
  unfolding scope_check_admits chain_admits_def ..

theorem scope_chain_allows_iff_witness:
  "\<exists>host port ips.
     split_target ''https://app.example/x'' = Inr (host, port) \<and>
     matches_any (\<lambda>_. None) host (sc_include sample_scope) = Inr True \<and>
     (if ip_address host \<noteq> None then Inr [host] else Inr [''10.0.0.5'']) = Inr ips \<and> ips \<noteq> [] \<and>
     (\<forall>ip \<in> set ips. is_blocked_ip ip = Inr False \<and> includes_ip (\<lambda>_. None) sample_scope ip = Inr True)"
  using scope_chain_allows_iff [of "\<lambda>_. None" "\<lambda>_. Inr [''10.0.0.5'']" "''https://app.example/x''"
      sample_scope sample_context] sample_check by force

text \<open>
  Adding exclusions can only narrow a scope: whatever a snapshot accepts as an address, domain, URL or
  host, and whatever target the execution chain allows under it, is accepted and allowed under the same
  snapshot with fewer exclude rules; no exclusion ever re-admits a target.
\<close>

theorem more_exclusions_only_narrow:
  assumes "set (sc_exclude sc) \<subseteq> set (sc_exclude sc')"
    and "sc_include sc = sc_include sc'" and "sc_ports sc = sc_ports sc'"
  shows "(includes_ip idna sc' v = Inr True \<longrightarrow> includes_ip idna sc v = Inr True) \<and>
    (includes_domain idna sc' v = Inr True \<longrightarrow> includes_domain idna sc v = Inr True) \<and>
    (includes_url idna sc' v = Inr True \<longrightarrow> includes_url idna sc v = Inr True) \<and>
    (includes_host idna sc' v = Inr True \<longrightarrow> includes_host idna sc v = Inr True) \<and>
    ((\<exists>d. scope_check idna resolve v sc' ctx = Inr d \<and> allowed d) \<longrightarrow>
     (\<exists>d. scope_check idna resolve v sc ctx = Inr d \<and> allowed d))"
proof -
  have ips: "includes_ip idna sc' v = Inr True \<longrightarrow> includes_ip idna sc v = Inr True" for v
    using ip_query.fewer_exclusions assms by blast
  moreover have "includes_domain idna sc' v = Inr True \<longrightarrow> includes_domain idna sc v = Inr True"
    using domain_query.fewer_exclusions assms by blast
  moreover have "includes_url idna sc' v = Inr True \<longrightarrow> includes_url idna sc v = Inr True"
    using url_query.fewer_exclusions assms by blast
  moreover have "includes_host idna sc' v = Inr True \<longrightarrow> includes_host idna sc v = Inr True"
    using host_query.fewer_exclusions assms by blast
  moreover have "chain_admits idna resolve v sc' ctx \<longrightarrow> chain_admits idna resolve v sc ctx"
    unfolding chain_admits_def using assms ips by (simp only:) blast
  ultimately show ?thesis
    unfolding scope_check_admits by blast
qed

theorem more_exclusions_only_narrow_witness:
  "\<exists>d. scope_check (\<lambda>_. None) (\<lambda>_. Inr [''10.0.0.5'']) ''https://app.example/x'' (sample_scope\<lparr>sc_exclude := []\<rparr>)
        sample_context = Inr d \<and> allowed d"
  using more_exclusions_only_narrow [of "sample_scope\<lparr>sc_exclude := []\<rparr>" sample_scope "\<lambda>_. None"
      "''https://app.example/x''" "\<lambda>_. Inr [''10.0.0.5'']" sample_context] sample_check by simp

lemma evaluate_allows:
  "(\<exists>d. evaluate idna rq sc mode risks caps = Inr d \<and> allowed d) \<longleftrightarrow>
     ar_risk rq \<noteq> DESTRUCTIVE \<and> includes_port sc (ar_port rq) = Inr True \<and>
     includes_url idna sc (ar_target rq) = Inr True \<and> ar_risk rq \<in> risks \<and>
     (ar_risk rq = PASSIVE \<or> ar_risk rq = LOW \<or> ar_capability rq \<in> caps)"
  by (cases "ar_risk rq") (auto simp: evaluate_def bind_res_def simp del: includes_port_True split: sum.splits)

text \<open>
  The policy engine allows an action exactly when its risk is not destructive, its port is in the frozen
  port list, its URL is in scope, the risk is approved, and, for active and intrusive actions, the
  capability is approved too; the execution mode plays no part.
\<close>

theorem evaluate_allows_iff:
  "(\<exists>d. evaluate idna rq sc mode risks caps = Inr d \<and> allowed d) \<longleftrightarrow>
     ar_risk rq \<noteq> DESTRUCTIVE \<and> 1 \<le> ar_port rq \<and> ar_port rq \<le> 65535 \<and> ar_port rq \<in> set (sc_ports sc) \<and>
     includes_url idna sc (ar_target rq) = Inr True \<and> ar_risk rq \<in> risks \<and>
     (ar_risk rq = PASSIVE \<or> ar_risk rq = LOW \<or> ar_capability rq \<in> caps)"
  by (simp add: evaluate_allows)

end
