(* ===== verification/Canonical_Injective.thy ===== *)
theory Canonical_Injective
  imports Canonical
begin

text \<open>
  Canonical JSON text commits to the value: two well-formed values with the same text are equal
  up to the order of dictionary keys. Every digest of the code base (plans, audit events, loop
  contexts) is taken over this text, so this is what makes equal digests mean equal content as
  long as the hash function does not collide on the two texts.
\<close>

section \<open>Well-formed values and key order\<close>

definition number_chars :: "char set" where
  "number_chars = set ''0123456789-+.e''"

text \<open>A float numeral: number characters only, and not the form of an \<^verbatim>\<open>int\<close>.\<close>

definition float_text :: "string \<Rightarrow> bool" where
  "float_text r \<longleftrightarrow> r \<noteq> [] \<and> set r \<subseteq> number_chars \<and> (CHR ''.'' \<in> set r \<or> CHR ''e'' \<in> set r)"

fun wf_json :: "pyval \<Rightarrow> bool" where
  "wf_json (VFloat r) = float_text r"
| "wf_json (VList vs) = list_all wf_json vs"
| "wf_json (VDict d) = (distinct (dict_keys d) \<and> list_all wf_json (map snd d))"
| "wf_json _ = True"

fun norm_json :: "pyval \<Rightarrow> pyval" where
  "norm_json (VList vs) = VList (map norm_json vs)"
| "norm_json (VDict d) = VDict (sort_key fst (map (\<lambda>(k, v). (k, norm_json v)) d))"
| "norm_json v = v"

section \<open>Numerals\<close>

definition digit_chars :: "char set" where
  "digit_chars = set ''0123456789''"

lemma digit_chars_number: "digit_chars \<subseteq> number_chars" "CHR ''-'' \<in> number_chars"
  "CHR ''-'' \<notin> digit_chars" "CHR ''.'' \<notin> digit_chars" "CHR ''e'' \<notin> digit_chars"
  unfolding digit_chars_def number_chars_def by code_simp+

lemma digit_char_less: "n < 10 \<Longrightarrow> digit_char n \<in> digit_chars"
proof -
  have "\<forall>n \<in> set [0..<10]. digit_char n \<in> set ''0123456789''"
    by code_simp
  then show "n < 10 \<Longrightarrow> digit_char n \<in> digit_chars"
    by (simp add: digit_chars_def)
qed

lemma digit_char_inject: "a < 16 \<Longrightarrow> b < 16 \<Longrightarrow> digit_char a = digit_char b \<longleftrightarrow> a = b"
proof -
  have "\<forall>a \<in> set [0..<16]. \<forall>b \<in> set [0..<16]. digit_char a = digit_char b \<longleftrightarrow> a = b"
    by code_simp
  then show "a < 16 \<Longrightarrow> b < 16 \<Longrightarrow> digit_char a = digit_char b \<longleftrightarrow> a = b"
    by simp
qed

lemma nat_repr_digits: "set (nat_repr n) \<subseteq> digit_chars"
proof (induction n rule: nat_repr.induct)
  case (1 n)
  show ?case
  proof (cases "n < 10")
    case True
    then show ?thesis
      using digit_char_less [of n] by (subst nat_repr.simps) simp
  next
    case False
    then show ?thesis
      using 1 digit_char_less [of "n mod 10"] by (subst nat_repr.simps) auto
  qed
qed

lemma nat_repr_nonempty [simp]: "nat_repr n \<noteq> []"
  by (subst nat_repr.simps) simp

lemma nat_repr_inject: "nat_repr m = nat_repr n \<Longrightarrow> m = n"
proof (induction m arbitrary: n rule: nat_repr.induct)
  case (1 m)
  have len: "length (nat_repr k) = 1 \<longleftrightarrow> k < 10" for k
    by (subst nat_repr.simps) simp
  show ?case
  proof (cases "m < 10")
    case True
    then have "n < 10"
      using 1(2) len by metis
    then show ?thesis
      using True 1(2) digit_char_inject [of m n] by (simp add: nat_repr.simps [of m] nat_repr.simps [of n])
  next
    case False
    then have n: "\<not> n < 10"
      using 1(2) len by metis
    then have "nat_repr (m div 10) = nat_repr (n div 10)" "digit_char (m mod 10) = digit_char (n mod 10)"
      using False 1(2) by (simp_all add: nat_repr.simps [of m] nat_repr.simps [of n])
    then have "m div 10 = n div 10" "m mod 10 = n mod 10"
      using 1(1) [OF False] digit_char_inject [of "m mod 10" "n mod 10"] by auto
    then show ?thesis
      by (metis div_mult_mod_eq)
  qed
qed

lemma int_repr_chars: "set (int_repr i) \<subseteq> insert (CHR ''-'') digit_chars"
  using nat_repr_digits [of "nat i"] nat_repr_digits [of "nat (- i)"] by (auto simp: int_repr_def)

lemma int_repr_number: "set (int_repr i) \<subseteq> number_chars" "int_repr i \<noteq> []" "\<not> float_text (int_repr i)"
proof -
  show "set (int_repr i) \<subseteq> number_chars"
    using int_repr_chars [of i] digit_chars_number by blast
  show "int_repr i \<noteq> []"
    by (simp add: int_repr_def)
  have "CHR ''.'' \<notin> set (int_repr i)" "CHR ''e'' \<notin> set (int_repr i)"
    using int_repr_chars [of i] digit_chars_number by auto
  then show "\<not> float_text (int_repr i)"
    by (simp add: float_text_def)
qed

lemma int_repr_inject: "int_repr i = int_repr j \<Longrightarrow> i = j"
proof -
  assume eq: "int_repr i = int_repr j"
  have "i < 0 \<longleftrightarrow> CHR ''-'' \<in> set (int_repr i)" for i
    using nat_repr_digits [of "nat i"] digit_chars_number by (auto simp: int_repr_def)
  then have sign: "i < 0 \<longleftrightarrow> j < 0"
    using eq by metis
  show "i = j"
  proof (cases "i < 0")
    case True
    then show ?thesis
      using eq sign nat_repr_inject [of "nat (- i)" "nat (- j)"] by (simp add: int_repr_def)
  next
    case False
    then show ?thesis
      using eq sign nat_repr_inject [of "nat i" "nat j"] by (simp add: int_repr_def)
  qed
qed

section \<open>Strings\<close>

lemma json_escape_quote: "json_escape c @ x \<noteq> CHR 0x22 # y"
  by (auto simp: json_escape_def split: if_splits)

lemma json_escape_inject: "json_escape c @ x = json_escape d @ y \<Longrightarrow> c = d \<and> x = y"
proof -
  have small: "(of_char c :: nat) < 32 \<Longrightarrow> (of_char c div 16 :: nat) < 16 \<and> (of_char c mod 16 :: nat) < 16" for c :: char
    by simp
  have ctl: "c = d" if "(of_char c :: nat) < 32" "(of_char d :: nat) < 32"
    "digit_char (of_char c div 16) = digit_char (of_char d div 16)"
    "digit_char (of_char c mod 16) = digit_char (of_char d mod 16)"
  proof -
    have "(of_char c :: nat) div 16 = of_char d div 16" "(of_char c :: nat) mod 16 = of_char d mod 16"
      using that digit_char_inject small by blast+
    then have "(of_char c :: nat) = of_char d"
      by (metis div_mult_mod_eq)
    then show ?thesis
      by simp
  qed
  assume "json_escape c @ x = json_escape d @ y"
  then show ?thesis
    using ctl by (auto simp: json_escape_def split: if_splits)
qed

lemma json_string_inject:
  assumes "json_string s @ x = json_string t @ y"
  shows "s = t \<and> x = y"
proof -
  have "concat (map json_escape s) @ CHR 0x22 # x = concat (map json_escape t) @ CHR 0x22 # y \<Longrightarrow>
        s = t \<and> x = y"
  proof (induction s arbitrary: t)
    case Nil
    show ?case
    proof (cases t)
      case (Cons d u)
      then have "json_escape d @ concat (map json_escape u) @ CHR 0x22 # y = CHR 0x22 # x"
        using Nil by simp
      then show ?thesis
        using json_escape_quote by blast
    qed (use Nil in simp)
  next
    case (Cons c s)
    have "json_escape c @ concat (map json_escape s) @ CHR 0x22 # x =
          concat (map json_escape t) @ CHR 0x22 # y"
      using Cons.prems by simp
    then have "t \<noteq> []"
      using json_escape_quote by fastforce
    then obtain d u where t: "t = d # u"
      by (cases t) auto
    then have "json_escape c @ concat (map json_escape s) @ CHR 0x22 # x =
               json_escape d @ concat (map json_escape u) @ CHR 0x22 # y"
      using Cons.prems by simp
    then show ?case
      using json_escape_inject Cons.IH t by blast
  qed
  then show ?thesis
    using assms by (simp add: json_string_def)
qed

section \<open>Delimited texts\<close>

definition delimited :: "string \<Rightarrow> bool" where
  "delimited r \<longleftrightarrow> r = [] \<or> hd r \<in> set '',]}''"

lemma delimited_simps [simp]: "delimited []" "delimited (c # r) \<longleftrightarrow> c \<in> set '',]}''"
  by (simp_all add: delimited_def)

lemma number_text_inject:
  assumes "a @ r = b @ s" "set a \<subseteq> number_chars" "set b \<subseteq> number_chars" "delimited r" "delimited s"
  shows "a = b \<and> r = s"
proof -
  have stop: "takeWhile (\<lambda>c. c \<in> number_chars) (u @ w) = u"
    if "set u \<subseteq> number_chars" "delimited w" for u w
  proof -
    have "takeWhile (\<lambda>c. c \<in> number_chars) w = []"
      using that(2) by (cases w) (auto simp: number_chars_def)
    then show ?thesis
      using that(1) by (simp add: takeWhile_append2 subset_iff)
  qed
  show ?thesis
    using assms stop [of a r] stop [of b s] by auto
qed

text \<open>The first character of a text tells the shape of its value.\<close>

datatype shape = SNone | STrue | SFalse | SNum | SStr | SList | SDict | SOther

definition shape_of :: "char \<Rightarrow> shape" where
  "shape_of c =
     (if c = CHR ''n'' then SNone else if c = CHR ''t'' then STrue else if c = CHR ''f'' then SFalse
      else if c = CHR 0x22 then SStr else if c = CHR ''['' then SList else if c = CHR ''{'' then SDict
      else if c \<in> number_chars then SNum else SOther)"

fun value_shape :: "pyval \<Rightarrow> shape" where
  "value_shape VNone = SNone"
| "value_shape (VBool b) = (if b then STrue else SFalse)"
| "value_shape (VInt _) = SNum"
| "value_shape (VFloat _) = SNum"
| "value_shape (VStr _) = SStr"
| "value_shape (VList _) = SList"
| "value_shape (VDict _) = SDict"

lemma shape_number: "c \<in> number_chars \<Longrightarrow> shape_of c = SNum"
  by (auto simp: shape_of_def number_chars_def)

lemma canonical_json_shape:
  assumes "wf_json v"
  shows "canonical_json v \<noteq> [] \<and> shape_of (hd (canonical_json v)) = value_shape v"
proof (cases v)
  case (VInt i)
  then show ?thesis
    using int_repr_number [of i] by (auto intro!: shape_number)
next
  case (VFloat r)
  then show ?thesis
    using assms by (auto simp: float_text_def intro!: shape_number)
qed (auto simp: shape_of_def json_string_def)

lemma canonical_json_hd_delim: "wf_json v \<Longrightarrow> \<not> delimited (canonical_json v @ r)"
proof
  assume "wf_json v" "delimited (canonical_json v @ r)"
  moreover have "\<forall>c \<in> set '',]}''. shape_of c = SOther"
    unfolding shape_of_def number_chars_def by code_simp
  ultimately have "value_shape v = SOther"
    using canonical_json_shape [of v] by (auto simp: delimited_def)
  then show False
    by (cases v) (auto split: if_splits)
qed

lemma same_shape:
  assumes "wf_json v" "wf_json w" "canonical_json v @ r = canonical_json w @ s"
  shows "value_shape v = value_shape w"
proof -
  have "hd (canonical_json v) = hd (canonical_json w)"
    using arg_cong [OF assms(3), of hd] canonical_json_shape [OF assms(1)]
      canonical_json_shape [OF assms(2)] by simp
  then show ?thesis
    using canonical_json_shape [OF assms(1)] canonical_json_shape [OF assms(2)] by simp
qed

section \<open>Sequences\<close>

lemma join_Cons: "join sep (x # xs) = x @ (if xs = [] then [] else sep @ join sep xs)"
  by (cases xs) auto

text \<open>
  A comma-separated sequence is read back element by element: \<open>R\<close> is what the texts of two
  elements with the same reading have in common.
\<close>

lemma join_inject:
  assumes "join '','' (map f xs) @ e # r = join '','' (map g ys) @ e # s"
    and "e \<in> set '']}''"
    and elem: "\<And>x y u w. x \<in> set xs \<Longrightarrow> y \<in> set ys \<Longrightarrow> f x @ u = g y @ w \<Longrightarrow>
                 delimited u \<Longrightarrow> delimited w \<Longrightarrow> R x y \<and> u = w"
    and hdf: "\<And>x u. x \<in> set xs \<Longrightarrow> \<not> delimited (f x @ u)"
    and hdg: "\<And>y u. y \<in> set ys \<Longrightarrow> \<not> delimited (g y @ u)"
  shows "list_all2 R xs ys \<and> r = s"
  using assms(1) elem hdf hdg
proof (induction xs arbitrary: ys)
  case Nil
  show ?case
  proof (cases ys)
    case Nil
    then show ?thesis
      using \<open>join '','' (map f []) @ e # r = _\<close> by simp
  next
    case (Cons y zs)
    define u where "u = (if zs = [] then [] else '','' @ join '','' (map g zs)) @ e # s"
    have "e # r = g y @ u"
      using Nil.prems(1) by (simp add: Cons u_def join_Cons)
    moreover have "delimited (e # r)"
      using assms(2) by auto
    ultimately have False
      using Nil.prems(4) [of y u] Cons by simp
    then show ?thesis ..
  qed
next
  case (Cons x xs)
  define u where "u = (if xs = [] then [] else '','' @ join '','' (map f xs)) @ e # r"
  have u: "f x @ u = join '','' (map g ys) @ e # s" "delimited u"
    using Cons.prems(1) assms(2) by (auto simp: u_def join_Cons)
  then have "ys \<noteq> []"
    using Cons.prems(3) [of x u] assms(2) by auto
  then obtain y zs where ys: "ys = y # zs"
    by (cases ys) auto
  define w where "w = (if zs = [] then [] else '','' @ join '','' (map g zs)) @ e # s"
  have "f x @ u = g y @ w" "delimited w"
    using u assms(2) by (auto simp: w_def ys join_Cons)
  then have xy: "R x y" "u = w"
    using Cons.prems(2) [of x y u w] u(2) by (auto simp: ys)
  have ne: "e \<noteq> CHR '',''"
    using assms(2) by auto
  have empty: "xs = [] \<longleftrightarrow> zs = []"
    using xy(2) ne by (auto simp: u_def w_def split: if_splits)
  have "list_all2 R xs zs \<and> r = s"
  proof (cases "xs = []")
    case True
    then show ?thesis
      using xy(2) empty by (simp add: u_def w_def)
  next
    case False
    then have "join '','' (map f xs) @ e # r = join '','' (map g zs) @ e # s"
      using xy(2) empty by (simp add: u_def w_def)
    then show ?thesis
      using Cons.IH [of zs] Cons.prems(2,3,4) by (auto simp: ys)
  qed
  then show ?case
    using xy(1) ys by simp
qed

lemma insort_map_values:
  "insort_key fst (k, h v) (map (\<lambda>(k, v). (k, h v)) d) =
   map (\<lambda>(k, v). (k, h v)) (insort_key fst (k, v) d)"
  by (induction d) auto

lemma sort_map_values:
  "sort_key fst (map (\<lambda>(k, v). (k, h v)) d) = map (\<lambda>(k, v). (k, h v)) (sort_key fst d)"
  by (induction d) (auto simp: insort_map_values)

section \<open>Injectivity\<close>

lemma canonical_json_inject_gen:
  "wf_json v \<Longrightarrow> wf_json w \<Longrightarrow> canonical_json v @ r = canonical_json w @ s \<Longrightarrow>
   delimited r \<Longrightarrow> delimited s \<Longrightarrow> norm_json v = norm_json w \<and> r = s"
proof (induction v arbitrary: w r s)
  case (VList vs)
  then obtain ws where w: "w = VList ws"
    using same_shape [of "VList vs" w r s] by (cases w) (auto split: if_splits)
  have "list_all2 (\<lambda>v w. norm_json v = norm_json w) vs ws \<and> r = s"
  proof (rule join_inject)
    show "join '','' (map canonical_json vs) @ CHR '']'' # r = join '','' (map canonical_json ws) @ CHR '']'' # s"
      using VList.prems(3) by (simp add: w)
  qed (use VList w canonical_json_hd_delim in \<open>auto simp: list_all_iff\<close>)
  then show ?case
    by (auto simp: w list_all2_conv_all_nth intro: nth_equalityI)
next
  case (VDict d)
  then obtain e where w: "w = VDict e"
    using same_shape [of "VDict d" w r s] by (cases w) (auto split: if_splits)
  define entry where "entry = (\<lambda>(k, v). json_string k @ '':'' @ canonical_json v)"
  have dict_text: "canonical_json (VDict c) = ''{'' @ join '','' (map entry (sort_key fst c)) @ ''}''" for c
    unfolding canonical_json.simps sort_map_values by (simp add: entry_def comp_def case_prod_beta')
  have "list_all2 (\<lambda>p q. fst p = fst q \<and> norm_json (snd p) = norm_json (snd q))
          (sort_key fst d) (sort_key fst e) \<and> r = s"
  proof (rule join_inject)
    show "join '','' (map entry (sort_key fst d)) @ CHR ''}'' # r =
          join '','' (map entry (sort_key fst e)) @ CHR ''}'' # s"
      using VDict.prems(3) unfolding w dict_text by simp
    show "(fst p = fst q \<and> norm_json (snd p) = norm_json (snd q)) \<and> u = v"
      if "p \<in> set (sort_key fst d)" "q \<in> set (sort_key fst e)" "entry p @ u = entry q @ v"
        "delimited u" "delimited v" for p q u v
    proof -
      obtain k x where p: "p = (k, x)" by fastforce
      obtain l y where q: "q = (l, y)" by fastforce
      have "json_string k @ '':'' @ canonical_json x @ u = json_string l @ '':'' @ canonical_json y @ v"
        using that(3) by (simp add: p q entry_def)
      then have kl: "k = l" "canonical_json x @ u = canonical_json y @ v"
        using json_string_inject [of k "'':'' @ canonical_json x @ u" l "'':'' @ canonical_json y @ v"]
        by simp_all
      have "wf_json x" "wf_json y"
        using that(1,2) VDict.prems(1,2) by (auto simp: p q w list_all_iff)
      then have "norm_json x = norm_json y \<and> u = v"
        using VDict.IH [of "(k, x)" x y u v] that kl by (auto simp: p)
      then show ?thesis
        by (simp add: p q kl)
    qed
  qed (auto simp: entry_def json_string_def)
  then show ?case
    by (auto simp: w sort_map_values list_all2_conv_all_nth case_prod_beta intro: nth_equalityI)
next
  case (VInt i)
  then show ?case
    using same_shape [of "VInt i" w r s] number_text_inject [of "int_repr i" r "canonical_json w" s]
      int_repr_number int_repr_inject
    by (cases w) (auto simp: float_text_def split: if_splits)
next
  case (VFloat x)
  then show ?case
    using same_shape [of "VFloat x" w r s] number_text_inject [of x r "canonical_json w" s]
      int_repr_number
    by (cases w) (auto simp: float_text_def split: if_splits)
next
  case (VStr x)
  then show ?case
    using same_shape [of "VStr x" w r s] json_string_inject [of x r _ s]
    by (cases w) (auto split: if_splits)
next
  case VNone
  then show ?case
    using same_shape [of VNone w r s] by (cases w) (auto split: if_splits)
next
  case (VBool b)
  then show ?case
    using same_shape [of "VBool b" w r s] by (cases w) (auto split: if_splits)
qed

text \<open>The text does not depend on the order in which a dictionary was filled.\<close>

lemma canonical_json_norm: "canonical_json (norm_json v) = canonical_json v"
proof (induction v)
  case (VList vs)
  then have "map canonical_json (map norm_json vs) = map canonical_json vs"
    by simp
  then show ?case
    by (simp only: norm_json.simps canonical_json.simps)
next
  case (VDict d)
  have "map (\<lambda>(k, v). (k, canonical_json (norm_json v))) d = map (\<lambda>(k, v). (k, canonical_json v)) d"
    using VDict by (auto simp: snds.simps)
  then have "sort_key fst (map (\<lambda>(k, v). (k, canonical_json v))
               (sort_key fst (map (\<lambda>(k, v). (k, norm_json v)) d))) =
             sort_key fst (map (\<lambda>(k, v). (k, canonical_json v)) d)"
    unfolding sort_map_values [symmetric]
    by (simp add: sort_key_id_if_sorted comp_def case_prod_beta' cong: map_cong)
  then show ?case
    by (simp only: norm_json.simps canonical_json.simps)
qed simp_all

text \<open>
  C29. Canonical JSON text commits to content: two well-formed values (distinct dictionary keys,
  floats written as float numerals) have the same text exactly when they are equal up to the
  order of dictionary keys.
\<close>

theorem canonical_json_commits:
  assumes "wf_json v" "wf_json w"
  shows "canonical_json v = canonical_json w \<longleftrightarrow> norm_json v = norm_json w"
  using canonical_json_inject_gen [OF assms, of "[]" "[]"] canonical_json_norm [of v]
    canonical_json_norm [of w] by auto

theorem canonical_json_commits_witness:
  "(canonical_json (VDict [(''b'', VInt 1), (''a'', VNone)]) =
    canonical_json (VDict [(''a'', VNone), (''b'', VInt 1)])) =
   (norm_json (VDict [(''b'', VInt 1), (''a'', VNone)]) =
    norm_json (VDict [(''a'', VNone), (''b'', VInt 1)]))"
  by (rule canonical_json_commits) simp_all

end
