(* ===== verification/Scope_Text.thy ===== *)
theory Scope_Text
  imports Scope Canonical_Injective
begin

text \<open>
  The textual side of the scope: printing and reading IPv4 addresses and networks (so that a frozen range
  means the range of addresses), and freezing a draft into a canonical snapshot. The last section holds
  the concrete inputs on which the matching is weaker than its documentation.
\<close>

section \<open>Text of IPv4 addresses and networks\<close>

lemma digit_char_facts:
  assumes "n < 10"
  shows "is_digit (digit_char n)" "digit_value (digit_char n) = int n"
proof -
  have "\<forall>n \<in> set [0..<10]. is_digit (digit_char n) \<and> digit_value (digit_char n) = int n"
    by code_simp
  then show "is_digit (digit_char n)" "digit_value (digit_char n) = int n"
    using assms by auto
qed

lemma nat_repr_is_digit: "list_all is_digit (nat_repr n)"
proof (induction n rule: nat_repr.induct)
  case (1 n)
  then show ?case
    using digit_char_facts(1) by (cases "n < 10") (simp_all add: nat_repr.simps [of n])
qed

lemma number_of_nat_repr: "number_of 10 (nat_repr n) = int n"
proof (induction n rule: nat_repr.induct)
  case (1 n)
  show ?case
  proof (cases "n < 10")
    case True
    then show ?thesis by (simp add: nat_repr.simps [of n] number_of_def digit_char_facts)
  next
    case False
    then have "number_of 10 (nat_repr n) = 10 * number_of 10 (nat_repr (n div 10)) + int (n mod 10)"
      by (simp add: nat_repr.simps [of n] number_of_def digit_char_facts)
    then show ?thesis using 1 False by (simp add: zdiv_int zmod_int)
  qed
qed

lemma nat_repr_leading: "0 < n \<Longrightarrow> hd (nat_repr n) \<noteq> CHR ''0''"
proof (induction n rule: nat_repr.induct)
  case (1 n)
  have "digit_value (CHR ''0'') = 0" by (simp add: digit_value_def)
  then show ?case
    using 1 digit_char_facts(2) [of n] by (cases "n < 10") (auto simp: nat_repr.simps [of n])
qed

lemma nat_repr_short: "n < 1000 \<Longrightarrow> length (nat_repr n) \<le> 3"
  by (simp add: nat_repr.simps [of n] nat_repr.simps [of "n div 10"] nat_repr.simps [of "n div 10 div 10"])

definition octet_text_ok :: "int \<Rightarrow> bool" where
  "octet_text_ok x \<longleftrightarrow> parse_octet (int_repr x) = Some x \<and> int_repr x \<noteq> [] \<and> list_all is_digit (int_repr x)"

lemma octet_text:
  assumes "0 \<le> x" "x < 256"
  shows "octet_text_ok x"
proof (cases "x = 0")
  case True
  have "octet_text_ok 0" by code_simp
  then show ?thesis using True by simp
next
  case False
  have "nat x < 1000" using assms by simp
  then show ?thesis
    using nat_repr_short [of "nat x"] nat_repr_leading [of "nat x"] nat_repr_is_digit [of "nat x"] assms False
    by (auto simp: octet_text_ok_def parse_octet_def int_repr_def number_of_nat_repr)
qed

lemma v4_mask_text: "0 \<le> p \<Longrightarrow> p \<le> 32 \<Longrightarrow> v4_mask (int_repr p) = Some p"
  by (simp add: v4_mask_def prefix_string_def int_repr_def number_of_nat_repr nat_repr_is_digit)

lemma not_digit [simp]: "\<not> is_digit (CHR ''.'')" "\<not> is_digit (CHR ''/'')" "\<not> is_digit (CHR ''h'')"
  by (simp_all add: is_digit_def)

lemma octet_text_chars:
  assumes "octet_text_ok x"
  shows "CHR ''.'' \<notin> set (int_repr x)" "CHR ''/'' \<notin> set (int_repr x)" "hd (int_repr x) \<noteq> CHR ''h''" "int_repr x \<noteq> []"
  using assms not_digit hd_in_set [of "int_repr x"] by (force simp: octet_text_ok_def list_all_iff)+

lemma v4_octets:
  fixes v :: int
  assumes "0 \<le> v" "v < 2 ^ 32"
  shows "0 \<le> v div 16777216" "v div 16777216 < 256"
    "((v div 16777216 * 256 + v div 65536 mod 256) * 256 + v div 256 mod 256) * 256 + v mod 256 = v"
proof -
  have "v div 16777216 = v div 65536 div 256" "v div 65536 = v div 256 div 256"
    using zdiv_zmult2_eq [of 256 v 65536] zdiv_zmult2_eq [of 256 v 256] by simp_all
  then show "((v div 16777216 * 256 + v div 65536 mod 256) * 256 + v div 256 mod 256) * 256 + v mod 256 = v"
    by simp
qed (use assms in auto)

lemma v4_octet_texts:
  assumes "0 \<le> v" "v < 2 ^ 32"
  shows "octet_text_ok (v div 16777216)" "octet_text_ok (v div 65536 mod 256)"
    "octet_text_ok (v div 256 mod 256)" "octet_text_ok (v mod 256)"
  by (rule octet_text; use v4_octets(1,2) [OF assms] in simp)+

lemma v4_text_split:
  assumes "0 \<le> v" "v < 2 ^ 32"
  shows "split_on (CHR ''.'') (v4_text v) =
     map int_repr [v div 16777216, v div 65536 mod 256, v div 256 mod 256, v mod 256]"
  using octet_text_chars(1) [OF v4_octet_texts(1) [OF assms]] octet_text_chars(1) [OF v4_octet_texts(2) [OF assms]]
    octet_text_chars(1) [OF v4_octet_texts(3) [OF assms]] octet_text_chars(1) [OF v4_octet_texts(4) [OF assms]]
  by (simp add: v4_text_def split_on_append split_on_absent)

lemma parse_v4_octets:
  assumes "split_on (CHR ''.'') s = map int_repr [a, b, c, d]" "octet_text_ok a" "octet_text_ok b" "octet_text_ok c" "octet_text_ok d"
  shows "parse_v4 s = Some (((a * 256 + b) * 256 + c) * 256 + d)"
  using assms by (simp add: parse_v4_def octet_text_ok_def)

lemma parse_v4_text:
  assumes "0 \<le> v" "v < 2 ^ 32"
  shows "parse_v4 (v4_text v) = Some v"
  using parse_v4_octets [OF v4_text_split [OF assms] v4_octet_texts [OF assms]] unfolding v4_octets(3) [OF assms] .

lemma v4_text_chars:
  assumes "0 \<le> v" "v < 2 ^ 32"
  shows "CHR ''/'' \<notin> set (v4_text v)" "v4_text v \<noteq> []" "hd (v4_text v) \<noteq> CHR ''h''"
  using v4_octet_texts [OF assms, THEN octet_text_chars(2)] octet_text_chars(3,4) [OF v4_octet_texts(1) [OF assms]]
  by (simp_all add: v4_text_def)

lemma ip_address_v4_text: "0 \<le> v \<Longrightarrow> v < 2 ^ 32 \<Longrightarrow> ip_address (v4_text v) = Some (V4 v)"
  by (simp add: ip_address_def v4_text_chars parse_v4_text)

lemma ip_network_v4_text:
  assumes "0 \<le> w" "w < 2 ^ 32" "0 \<le> p" "p \<le> 32"
  shows "ip_network (v4_text w @ CHR ''/'' # int_repr p) = Some \<lparr>net_addr = V4 (mask_bits 32 p w), net_prefix = p\<rparr>"
proof -
  have "CHR ''/'' \<notin> set (int_repr p)"
    using octet_text_chars(2) [OF octet_text [of p]] assms by simp
  then have "split_on (CHR ''/'') (v4_text w @ ''/'' @ int_repr p) = [v4_text w, int_repr p]"
    using v4_text_chars(1) [OF assms(1,2)] by (simp add: split_on_append split_on_absent)
  then show ?thesis
    using assms by (simp add: ip_network_def parse_v4_text v4_mask_text)
qed

lemma div_eq_iff_range:
  fixes v k q :: int
  assumes "0 < k"
  shows "v div k = q \<longleftrightarrow> k * q \<le> v \<and> v < k * q + k"
proof
  assume "v div k = q"
  then have "v = k * q + v mod k" using mult_div_mod_eq [of k v] by simp
  then show "k * q \<le> v \<and> v < k * q + k" using pos_mod_bound [OF assms, of v] pos_mod_sign [OF assms, of v] by linarith
next
  assume "k * q \<le> v \<and> v < k * q + k"
  then show "v div k = q" using int_div_pos_eq [of v k q "v - k * q"] by simp
qed

lemma is_http_hd: "is_http s \<Longrightarrow> s \<noteq> [] \<and> hd s = CHR ''h''"
  by (cases s) (auto simp: is_http_def starts_with_def)

text \<open>
  A frozen IPv4 range matches exactly the addresses of the range: the rule printed from a network and
  the value printed from an address, read back by the matcher, match if and only if the two agree on
  the first \<open>p\<close> bits, that is, the address lies between the network's first and last address.
\<close>

theorem cidr_rule_exact:
  assumes "0 \<le> w" "w < 2 ^ 32" "0 \<le> p" "p \<le> 32" "0 \<le> v" "v < 2 ^ 32" "2 ^ nat (32 - p) dvd w"
  shows "target_matches idna (v4_text w @ ''/'' @ int_repr p) (v4_text v) =
     Inr (w \<le> v \<and> v < w + 2 ^ nat (32 - p))"
proof -
  define k :: int where "k = 2 ^ nat (32 - p)"
  have k: "k > 0" by (simp add: k_def)
  obtain q where q: "w = k * q" using assms(7) by (auto simp: k_def)
  have "\<not> is_http (v4_text w @ ''/'' @ int_repr p)"
    using is_http_hd v4_text_chars [OF assms(1,2)] by fastforce
  then have "target_matches idna (v4_text w @ ''/'' @ int_repr p) (v4_text v) =
      Inr (v div k * k = w div k * k)"
    using assms by (simp add: target_matches_def ip_network_v4_text ip_address_v4_text mask_bits_def k_def)
  moreover have "v div k * k = w div k * k \<longleftrightarrow> v div k = q"
    using k q by simp
  moreover have "v div k = q \<longleftrightarrow> w \<le> v \<and> v < w + k"
    unfolding q by (rule div_eq_iff_range [OF k])
  ultimately show ?thesis by (simp add: k_def)
qed

theorem cidr_rule_exact_witness:
  "target_matches (\<lambda>_. None) (v4_text 167772160 @ ''/'' @ int_repr 24) (v4_text 167772165) =
     Inr (167772160 \<le> (167772165 :: int) \<and> 167772165 < 167772160 + (2 :: int) ^ nat (32 - 24))"
  using cidr_rule_exact [of 167772160 24 167772165 "\<lambda>_. None"] by simp

section \<open>Freezing\<close>

lemma map_res_same_set:
  assumes "map_res f xs = Inr ys" "set xs' = set xs"
  obtains ys' where "map_res f xs' = Inr ys'" "set ys' = set ys"
  using map_res_total [of xs' f] map_res_Inr [OF assms(1)] map_res_Inr [of f xs'] assms(2) by metis

lemma sorted_set_facts [simp]:
  "set (sorted_set xs) = set xs" "sorted (sorted_set xs)" "distinct (sorted_set xs)"
  by (simp_all add: sorted_set_def)

lemma sorted_set_cong: "set xs = set ys \<Longrightarrow> sorted_set xs = sorted_set ys"
  by (rule sorted_distinct_set_unique) simp_all

lemma freeze_Inr:
  "freeze sha fr idna d i by0 now = Inr s \<longleftrightarrow>
     (\<exists>inc exc ports accts.
        map_res (normalize_target idna) (sd_include d) = Inr inc \<and>
        map_res (normalize_target idna) (sd_exclude d) = Inr exc \<and>
        map_res normalize_port (sd_ports d) = Inr ports \<and>
        map_res normalize_cloud_account (sd_cloud_accounts d) = Inr accts \<and>
        s = (let s0 = \<lparr>sc_id = i, sc_project_id = sd_project_id d, sc_include = sorted_set inc,
                sc_exclude = sorted_set exc, sc_ports = sorted_set ports, sc_limits = sd_limits d,
                sc_approved_by = by0, sc_approved_at = now, sc_digest = [],
                sc_cloud_accounts = sorted_set accts\<rparr>
             in s0\<lparr>sc_digest := canonical_digest sha (snapshot_payload fr s0)\<rparr>))"
  by (auto simp: freeze_def bind_res_def Let_def split: sum.splits)

lemma normalize_port_Inr: "normalize_port p = Inr q \<longleftrightarrow> q = p \<and> 1 \<le> p \<and> p \<le> 65535"
  by (auto simp: normalize_port_def)

text \<open>
  A frozen scope is a canonical form of its draft: the target, port and account lists of the snapshot are
  sorted and without duplicates, its ports are valid and are the draft's ports, its digest is the digest
  of its own content, and any draft that lists the same targets, ports and accounts in another order, or
  repeats some, freezes to the very same snapshot.
\<close>

theorem freeze_canonical:
  assumes "freeze sha fr idna d i by0 now = Inr s"
    and "set (sd_include d') = set (sd_include d)" "set (sd_exclude d') = set (sd_exclude d)"
    and "set (sd_ports d') = set (sd_ports d)" "set (sd_cloud_accounts d') = set (sd_cloud_accounts d)"
    and "sd_project_id d' = sd_project_id d" "sd_limits d' = sd_limits d"
  shows "freeze sha fr idna d' i by0 now = Inr s \<and>
    sorted (sc_include s) \<and> distinct (sc_include s) \<and> sorted (sc_exclude s) \<and> distinct (sc_exclude s) \<and>
    sorted (sc_ports s) \<and> distinct (sc_ports s) \<and> set (sc_ports s) = set (sd_ports d) \<and>
    set (sc_ports s) \<subseteq> {1..65535} \<and> sorted (sc_cloud_accounts s) \<and> distinct (sc_cloud_accounts s) \<and>
    sc_digest s = canonical_digest sha (snapshot_payload fr s)"
proof -
  obtain inc exc ports accts where
    m: "map_res (normalize_target idna) (sd_include d) = Inr inc"
       "map_res (normalize_target idna) (sd_exclude d) = Inr exc"
       "map_res normalize_port (sd_ports d) = Inr ports"
       "map_res normalize_cloud_account (sd_cloud_accounts d) = Inr accts"
    and s: "s = (let s0 = \<lparr>sc_id = i, sc_project_id = sd_project_id d, sc_include = sorted_set inc,
                sc_exclude = sorted_set exc, sc_ports = sorted_set ports, sc_limits = sd_limits d,
                sc_approved_by = by0, sc_approved_at = now, sc_digest = [],
                sc_cloud_accounts = sorted_set accts\<rparr>
             in s0\<lparr>sc_digest := canonical_digest sha (snapshot_payload fr s0)\<rparr>)"
    using assms(1) unfolding freeze_Inr by blast
  obtain inc' where inc': "map_res (normalize_target idna) (sd_include d') = Inr inc'" "set inc' = set inc"
    using map_res_same_set [OF m(1) assms(2)] .
  obtain exc' where exc': "map_res (normalize_target idna) (sd_exclude d') = Inr exc'" "set exc' = set exc"
    using map_res_same_set [OF m(2) assms(3)] .
  obtain ports' where ports': "map_res normalize_port (sd_ports d') = Inr ports'" "set ports' = set ports"
    using map_res_same_set [OF m(3) assms(4)] .
  obtain accts' where accts': "map_res normalize_cloud_account (sd_cloud_accounts d') = Inr accts'" "set accts' = set accts"
    using map_res_same_set [OF m(4) assms(5)] .
  have "freeze sha fr idna d' i by0 now = Inr s"
    unfolding freeze_Inr s
    using inc' exc' ports' accts' assms(6,7)
      sorted_set_cong [OF inc'(2)] sorted_set_cong [OF exc'(2)] sorted_set_cong [OF ports'(2)]
      sorted_set_cong [OF accts'(2)] by simp
  moreover have "set ports = set (sd_ports d)" "set (sd_ports d) \<subseteq> {1..65535}"
    using map_res_Inr [OF m(3)] by (auto simp: normalize_port_Inr)
  ultimately show ?thesis
    by (simp add: s Let_def snapshot_payload_def)
qed

definition sample_draft :: scope_draft where
  "sample_draft = \<lparr>sd_project_id = ''p1'', sd_include = [''App.Example.'', ''10.0.0.7/24''], sd_exclude = [],
     sd_ports = [443, 80, 443], sd_limits = \<lparr>requests_per_second = 5, concurrency = 3, max_requests = 50000\<rparr>,
     sd_cloud_accounts = [''AWS: 123'']\<rparr>"

lemma sample_draft_freezes:
  "map_sum id (\<lambda>s. (sc_include s, sc_ports s, sc_cloud_accounts s))
     (freeze (\<lambda>x. ''h'') (\<lambda>_. ''5.0'') (\<lambda>_. None) sample_draft ''s1'' ''human:alice'' 0) =
   Inr ([''10.0.0.0/24'', ''app.example''], [80, 443], [''aws:123''])"
  by code_simp

theorem freeze_canonical_witness:
  "\<exists>s. freeze (\<lambda>x. ''h'') (\<lambda>_. ''5.0'') (\<lambda>_. None) (sample_draft\<lparr>sd_ports := [80, 443]\<rparr>) ''s1'' ''human:alice'' 0 = Inr s \<and>
     sorted (sc_include s) \<and> set (sc_ports s) = {80, 443}"
proof -
  obtain s where s: "freeze (\<lambda>x. ''h'') (\<lambda>_. ''5.0'') (\<lambda>_. None) sample_draft ''s1'' ''human:alice'' 0 = Inr s"
    using sample_draft_freezes by (cases "freeze (\<lambda>x. ''h'') (\<lambda>_. ''5.0'') (\<lambda>_. None) sample_draft ''s1'' ''human:alice'' 0") auto
  show ?thesis
    using freeze_canonical [OF s, of "sample_draft\<lparr>sd_ports := [80, 443]\<rparr>"] by (auto simp: sample_draft_def)
qed

section \<open>Where the matching is weaker than its documentation\<close>

text \<open>
  The recheck refuses loopback, link-local, unspecified and multicast addresses, but an IPv4-mapped IPv6
  address (RFC 4291, section 2.5.5.2) is judged by its IPv6 value only.
\<close>

lemma mapped_addresses_not_blocked:
  "is_blocked_ip ''127.0.0.1'' = Inr True \<and> is_blocked_ip ''::ffff:127.0.0.1'' = Inr False \<and>
   is_blocked_ip ''169.254.169.254'' = Inr True \<and> is_blocked_ip ''::ffff:169.254.169.254'' = Inr False"
  by code_simp

text \<open>A URL rule is compared as a string prefix, not by path segment.\<close>

lemma url_rule_admits_sibling_path:
  "url_rule_matches (\<lambda>_. None) ''http://h.example/application'' ''h.example'' ''http://h.example/app'' = Inr True"
  by code_simp

text \<open>An IPv6 URL loses its brackets when it is normalised, so that its host is read back as the first group.\<close>

lemma ipv6_url_loses_brackets:
  "normalize_url (\<lambda>_. None) ''http://[2001:db8::1]/x'' = Inr ''http://2001:db8::1/x'' \<and>
   bind_res (urlsplit ''http://2001:db8::1/x'') (\<lambda>u. Inr (url_hostname u)) = Inr ''2001''"
  by code_simp

text \<open>A bare IPv6 address is split at its last colon, and its last group becomes a port.\<close>

lemma bare_ipv6_split: "split_target ''2001:db8::1'' = Inr (''2001:db8:'', Some 1)"
  by code_simp

end
