(* ===== verification/Grants.thy ===== *)
theory Grants
  imports Scope_Text Plans
begin

text \<open>
  Engagement grants (\<^verbatim>\<open>domain/grants/models.py\<close>, \<^verbatim>\<open>application/grants.py\<close>): the boundary inside which an
  agent may approve and start assessments by itself. The repositories are the ones of
  \<^verbatim>\<open>infrastructure/repositories\<close> over one database: tables indexed by primary key, scope snapshots and
  grants being separate rows. Parameters: \<open>sha\<close> and \<open>idna\<close> as before; the clock reading \<open>now\<close> and the
  random suffix \<open>uid\<close> of \<^verbatim>\<open>uuid4\<close> are arguments of the operations that draw them.
\<close>

section \<open>The grant\<close>

datatype grant_status = GACTIVE | GREVOKED | GEXPIRED

record engagement_grant =
  gr_id :: string
  gr_project_id :: string
  gr_name :: string
  gr_scope :: scope_snapshot
  gr_risk_caps :: "risk_class set"
  gr_valid_from :: datetime
  gr_valid_to :: datetime
  gr_created_by :: string
  gr_created_at :: datetime
  gr_status :: grant_status
  gr_digest :: string

text \<open>\<^verbatim>\<open>datetime.isoformat\<close> of a UTC instant, which ends in the offset and not in \<^verbatim>\<open>Z\<close>.\<close>

definition isoformat :: "datetime \<Rightarrow> string" where
  "isoformat t = butlast (iso_utc t) @ ''+00:00''"

definition grant_payload ::
  "string \<Rightarrow> string \<Rightarrow> string \<Rightarrow> risk_class set \<Rightarrow> datetime \<Rightarrow> datetime \<Rightarrow> string \<Rightarrow> datetime \<Rightarrow> pyval" where
  "grant_payload project name scope_digest caps valid_from valid_to created_by created_at = VDict
     [(''project_id'', VStr project), (''name'', VStr (py_strip name)), (''scope_digest'', VStr scope_digest),
      (''risk_caps'', VStrs (sorted_list_of_set (risk_value ` caps))),
      (''valid_from'', VStr (isoformat valid_from)), (''valid_to'', VStr (isoformat valid_to)),
      (''created_by'', VStr created_by), (''created_at'', VStr (isoformat created_at))]"

definition EngagementGrant_create ::
  "(string \<Rightarrow> string) \<Rightarrow> string \<Rightarrow> string \<Rightarrow> string \<Rightarrow> scope_snapshot \<Rightarrow> risk_class set \<Rightarrow> datetime \<Rightarrow> datetime \<Rightarrow> string \<Rightarrow>
   datetime \<Rightarrow> string option \<Rightarrow> engagement_grant result" where
  "EngagementGrant_create sha uid project name scope caps valid_from valid_to created_by created_at grant_id =
     (if py_strip name = [] then Inl (DomainValidationError ''grant name must be non-empty'')
      else if DESTRUCTIVE \<in> caps then Inl (DomainValidationError ''destructive risk can never be grant-approved'')
      else if valid_to \<le> valid_from then Inl (DomainValidationError ''grant window must be positive'')
      else Inr \<lparr>gr_id = (case grant_id of Some g \<Rightarrow> if g = [] then ''grant-'' @ uid else g | None \<Rightarrow> ''grant-'' @ uid),
                gr_project_id = project, gr_name = py_strip name, gr_scope = scope, gr_risk_caps = caps,
                gr_valid_from = valid_from, gr_valid_to = valid_to, gr_created_by = created_by,
                gr_created_at = created_at, gr_status = GACTIVE,
                gr_digest = canonical_digest sha
                  (grant_payload project name (sc_digest scope) caps valid_from valid_to created_by created_at)\<rparr>)"

definition grant_revoke :: "engagement_grant \<Rightarrow> engagement_grant" where
  "grant_revoke g = g\<lparr>gr_status := GREVOKED\<rparr>"

definition is_active_at :: "engagement_grant \<Rightarrow> datetime \<Rightarrow> bool" where
  "is_active_at g now =
     (if gr_status g = GREVOKED then False else \<not> (now < gr_valid_from g \<or> now > gr_valid_to g))"

text \<open>
  \<^verbatim>\<open>try: if q: return True; except DomainValidationError: pass\<close>, then \<open>k\<close>; any other exception escapes, a
  bare \<^verbatim>\<open>ValueError\<close> too, since \<^verbatim>\<open>DomainValidationError\<close> is its subclass and not the converse.
\<close>

definition or_else :: "bool result \<Rightarrow> bool result \<Rightarrow> bool result" where
  "or_else q k =
     (case q of
        Inr b \<Rightarrow> if b then Inr True else k
      | Inl (DomainValidationError _) \<Rightarrow> k
      | Inl e \<Rightarrow> Inl e)"

definition matches_boundary :: "(string \<Rightarrow> string option) \<Rightarrow> scope_snapshot \<Rightarrow> string \<Rightarrow> bool result" where
  "matches_boundary idna sc target =
     or_else (includes_url idna sc target)
       (or_else (includes_ip idna sc target)
         (or_else (includes_domain idna sc target) (Inr False)))"

text \<open>\<^verbatim>\<open>all(f(x) for x in xs)\<close>.\<close>

fun all_res :: "('a \<Rightarrow> bool result) \<Rightarrow> 'a list \<Rightarrow> bool result" where
  "all_res f [] = Inr True"
| "all_res f (x # xs) = bind_res (f x) (\<lambda>b. if b then all_res f xs else Inr False)"

definition covers_scope :: "(string \<Rightarrow> string option) \<Rightarrow> engagement_grant \<Rightarrow> scope_snapshot \<Rightarrow> bool result" where
  "covers_scope idna g sc =
     (if \<not> set (sc_ports sc) \<subseteq> set (sc_ports (gr_scope g)) then Inr False
      else all_res (matches_boundary idna (gr_scope g)) (sc_include sc))"

definition covers_risks :: "engagement_grant \<Rightarrow> plan_step list \<Rightarrow> bool" where
  "covers_risks g steps = list_all (\<lambda>s. risk s \<in> gr_risk_caps g) steps"

section \<open>Scope and grant rows\<close>

record scope_row =
  sr_id :: string
  sr_project_id :: string
  sr_include :: "string list"
  sr_exclude :: "string list"
  sr_ports :: "int list"
  sr_limits :: scope_limits
  sr_approved_by :: string
  sr_approved_at :: datetime
  sr_digest :: string

definition from_snapshot :: "scope_snapshot \<Rightarrow> scope_row" where
  "from_snapshot s = \<lparr>sr_id = sc_id s, sr_project_id = sc_project_id s, sr_include = sc_include s,
     sr_exclude = sc_exclude s, sr_ports = sc_ports s, sr_limits = sc_limits s, sr_approved_by = sc_approved_by s,
     sr_approved_at = sc_approved_at s, sr_digest = sc_digest s\<rparr>"

definition to_snapshot :: "scope_row \<Rightarrow> scope_snapshot result" where
  "to_snapshot r = bind_res (ScopeLimits_check (sr_limits r)) (\<lambda>limits. Inr
     \<lparr>sc_id = sr_id r, sc_project_id = sr_project_id r, sc_include = sr_include r,
      sc_exclude = sr_exclude r, sc_ports = sr_ports r, sc_limits = limits, sc_approved_by = sr_approved_by r,
      sc_approved_at = sr_approved_at r, sc_digest = sr_digest r, sc_cloud_accounts = []\<rparr>)"

record grant_row =
  gw_id :: string
  gw_project_id :: string
  gw_name :: string
  gw_scope_snapshot_id :: string
  gw_risk_caps :: "string list"
  gw_valid_from :: datetime
  gw_valid_to :: datetime
  gw_created_by :: string
  gw_created_at :: datetime
  gw_status :: grant_status
  gw_digest :: string

record grant_db =
  scope_rows :: "(string \<times> scope_row) list"
  grant_rows :: "(string \<times> grant_row) list"

text \<open>\<^verbatim>\<open>session.add\<close> of a row inserts it: an existing primary key is refused by the database.\<close>

definition add_snapshot :: "scope_snapshot \<Rightarrow> ('a grant_db_scheme, unit) cmd" where
  "add_snapshot s db =
     (case dict_get (scope_rows db) (sc_id s) of
        Some _ \<Rightarrow> (Inl (IntegrityError ''core_scope_snapshots.id''), db)
      | None \<Rightarrow> (Inr (), db\<lparr>scope_rows := dict_set (sc_id s) (from_snapshot s) (scope_rows db)\<rparr>))"

definition get_snapshot :: "string \<Rightarrow> ('a grant_db_scheme, scope_snapshot option) cmd" where
  "get_snapshot i db =
     (case dict_get (scope_rows db) i of
        None \<Rightarrow> (Inr None, db)
      | Some r \<Rightarrow> (map_sum id Some (to_snapshot r), db))"

definition grant_to_row :: "engagement_grant \<Rightarrow> grant_row" where
  "grant_to_row g = \<lparr>gw_id = gr_id g, gw_project_id = gr_project_id g, gw_name = gr_name g,
     gw_scope_snapshot_id = sc_id (gr_scope g), gw_risk_caps = sorted_list_of_set (risk_value ` gr_risk_caps g),
     gw_valid_from = gr_valid_from g, gw_valid_to = gr_valid_to g, gw_created_by = gr_created_by g,
     gw_created_at = gr_created_at g, gw_status = gr_status g, gw_digest = gr_digest g\<rparr>"

definition risk_lookup :: "string \<Rightarrow> risk_class result" where
  "risk_lookup s =
     (case risk_of_value s of
        Some r \<Rightarrow> Inr r
      | None \<Rightarrow> Inl (ValueError (repr_str s @ '' is not a valid RiskClass'')))"

definition grant_from_row :: "grant_row \<Rightarrow> scope_snapshot \<Rightarrow> engagement_grant result" where
  "grant_from_row w sc =
     bind_res (map_res risk_lookup (gw_risk_caps w)) (\<lambda>caps. Inr
       \<lparr>gr_id = gw_id w, gr_project_id = gw_project_id w, gr_name = gw_name w, gr_scope = sc,
        gr_risk_caps = set caps, gr_valid_from = gw_valid_from w, gr_valid_to = gw_valid_to w,
        gr_created_by = gw_created_by w, gr_created_at = gw_created_at w, gr_status = gw_status w,
        gr_digest = gw_digest w\<rparr>)"

definition grant_add :: "engagement_grant \<Rightarrow> ('a grant_db_scheme, unit) cmd" where
  "grant_add g =
     bindC (\<lambda>db. if dict_get (scope_rows db) (sc_id (gr_scope g)) = None then add_snapshot (gr_scope g) db else (Inr (), db))
       (\<lambda>_ db. (Inr (), db\<lparr>grant_rows := dict_set (gr_id g) (grant_to_row g) (grant_rows db)\<rparr>))"

definition grant_get :: "string \<Rightarrow> ('a grant_db_scheme, engagement_grant option) cmd" where
  "grant_get i db =
     (case dict_get (grant_rows db) i of
        None \<Rightarrow> (Inr None, db)
      | Some w \<Rightarrow>
          bindC (get_snapshot (gw_scope_snapshot_id w)) (\<lambda>sc.
            case sc of None \<Rightarrow> returnC None | Some s \<Rightarrow> liftC (map_sum id Some (grant_from_row w s))) db)"

fun read_grants :: "grant_row list \<Rightarrow> ('a grant_db_scheme, engagement_grant list) cmd" where
  "read_grants [] = returnC []"
| "read_grants (w # ws) =
     bindC (get_snapshot (gw_scope_snapshot_id w)) (\<lambda>sc.
       case sc of
         None \<Rightarrow> read_grants ws
       | Some s \<Rightarrow>
           bindC (liftC (grant_from_row w s)) (\<lambda>g. bindC (read_grants ws) (\<lambda>gs. returnC (g # gs))))"

definition list_for_project :: "string \<Rightarrow> ('a grant_db_scheme, engagement_grant list) cmd" where
  "list_for_project project db =
     read_grants (sort_key (\<lambda>w. - gw_created_at w)
       (filter (\<lambda>w. gw_project_id w = project) (dict_values (grant_rows db)))) db"

section \<open>The service\<close>

definition grant_require_human :: "string \<Rightarrow> unit result" where
  "grant_require_human role =
     guard (role = ''human'') (AssessmentPermissionError ''grant creation/revocation is human-only'')"

definition create_human ::
  "(string \<Rightarrow> string) \<Rightarrow> datetime \<Rightarrow> string \<Rightarrow> string \<Rightarrow> string \<Rightarrow> scope_snapshot \<Rightarrow> risk_class set \<Rightarrow> datetime \<Rightarrow> datetime \<Rightarrow>
   string \<Rightarrow> ('a grant_db_scheme, engagement_grant) cmd" where
  "create_human sha now uid project name scope caps valid_from valid_to role =
     bindC (liftC (grant_require_human role)) (\<lambda>_.
     bindC (liftC (EngagementGrant_create sha uid project name scope caps valid_from valid_to role now None)) (\<lambda>g.
     bindC (grant_add g) (\<lambda>_. returnC g)))"

definition revoke_grant :: "string \<Rightarrow> string \<Rightarrow> ('a grant_db_scheme, engagement_grant) cmd" where
  "revoke_grant i role =
     bindC (liftC (grant_require_human role)) (\<lambda>_.
     bindC (grant_get i) (\<lambda>g.
       case g of
         None \<Rightarrow> raiseC (GrantNotFoundError (''grant not found: '' @ i))
       | Some g \<Rightarrow> bindC (grant_add (grant_revoke g)) (\<lambda>_. returnC (grant_revoke g))))"

definition authorize ::
  "(string \<Rightarrow> string option) \<Rightarrow> datetime \<Rightarrow> string \<Rightarrow> scope_snapshot \<Rightarrow> plan_step list \<Rightarrow>
   ('a grant_db_scheme, policy_decision) cmd" where
  "authorize idna now i sc steps =
     bindC (grant_get i) (\<lambda>g.
       case g of
         None \<Rightarrow> returnC (deny ''GRANT_NOT_FOUND'')
       | Some g \<Rightarrow>
           if \<not> is_active_at g now then returnC (deny ''GRANT_INACTIVE'')
           else bindC (liftC (covers_scope idna g sc)) (\<lambda>covered.
             if \<not> covered then returnC (deny ''GRANT_SCOPE_MISMATCH'')
             else if \<not> covers_risks g steps then returnC (deny ''GRANT_RISK_NOT_APPROVED'')
             else returnC \<lparr>allowed = True, reason = ''ALLOWED''\<rparr>))"

definition list_active :: "string \<Rightarrow> datetime \<Rightarrow> ('a grant_db_scheme, engagement_grant list) cmd" where
  "list_active project now =
     bindC (list_for_project project) (\<lambda>gs. returnC (filter (\<lambda>g. is_active_at g now) gs))"

definition get_active :: "string \<Rightarrow> datetime \<Rightarrow> ('a grant_db_scheme, engagement_grant option) cmd" where
  "get_active i now =
     bindC (grant_get i) (\<lambda>g. returnC (case g of None \<Rightarrow> None | Some g \<Rightarrow> if is_active_at g now then Some g else None))"

section \<open>Stored scopes\<close>

lemma to_from_snapshot:
  "ScopeLimits_check (sc_limits s) = Inr l \<Longrightarrow> to_snapshot (from_snapshot s) = Inr (s\<lparr>sc_cloud_accounts := []\<rparr>)"
  by (auto simp: to_snapshot_def from_snapshot_def ScopeLimits_check_def split: if_splits)

lemma readonly_get_snapshot [intro, simp]: "readonly (get_snapshot i)"
  by (simp add: readonly_def get_snapshot_def split: option.split)

text \<open>
  A stored scope comes back as it was frozen, rule by rule, except for its cloud accounts, which the row
  does not hold: whatever accounts the approved snapshot lists, the stored scope accepts no cloud account.
\<close>

theorem stored_scope_roundtrip:
  assumes "ScopeLimits_check (sc_limits s) = Inr (sc_limits s)" and "dict_get (scope_rows db) (sc_id s) = None"
  shows "\<exists>db'. add_snapshot s db = (Inr (), db') \<and>
    (\<exists>s'. get_snapshot (sc_id s) db' = (Inr (Some s'), db') \<and> s' = s\<lparr>sc_cloud_accounts := []\<rparr> \<and>
       (\<forall>v. includes_cloud_account s' v \<noteq> Inr True))"
proof -
  have "includes_cloud_account (s\<lparr>sc_cloud_accounts := []\<rparr>) v \<noteq> Inr True" for v
    by (simp add: includes_cloud_account_def bind_res_Inr_iff)
  then show ?thesis
    using assms by (simp add: add_snapshot_def get_snapshot_def to_from_snapshot)
qed

theorem stored_scope_roundtrip_witness:
  "let s = sample_scope\<lparr>sc_cloud_accounts := [''aws:123'']\<rparr>; db = \<lparr>scope_rows = [], grant_rows = []\<rparr> in
   includes_cloud_account s ''aws:123'' = Inr True \<and>
   (\<exists>db' s'. add_snapshot s db = (Inr (), db') \<and> get_snapshot (sc_id s) db' = (Inr (Some s'), db') \<and>
      includes_cloud_account s' ''aws:123'' \<noteq> Inr True)"
proof -
  have "includes_cloud_account (sample_scope\<lparr>sc_cloud_accounts := [''aws:123'']\<rparr>) ''aws:123'' = Inr True"
    by code_simp
  then show ?thesis
    using stored_scope_roundtrip [of "sample_scope\<lparr>sc_cloud_accounts := [''aws:123'']\<rparr>" "\<lparr>scope_rows = [], grant_rows = []\<rparr>"]
    by (auto simp: Let_def ScopeLimits_check_def sample_scope_def)
qed

section \<open>Stored grants\<close>

lemma finite_risks [simp]: "finite (R :: risk_class set)"
proof (rule finite_subset)
  show "R \<subseteq> {PASSIVE, LOW, ACTIVE, INTRUSIVE, DESTRUCTIVE}"
    using risk_class.exhaust by blast
qed simp

text \<open>What every stored grant row satisfies: it stands under its id and has no destructive cap.\<close>

definition grants_ok :: "'a grant_db_scheme \<Rightarrow> bool" where
  "grants_ok db \<longleftrightarrow>
     (\<forall>i w. dict_get (grant_rows db) i = Some w \<longrightarrow> gw_id w = i \<and> risk_value DESTRUCTIVE \<notin> set (gw_risk_caps w))"

lemma risk_lookup_Inr [simp]: "risk_lookup s = Inr r \<longleftrightarrow> s = risk_value r"
  by (auto simp: risk_lookup_def risk_of_value_Some split: option.splits)

lemma grant_from_row_Inr:
  assumes "grant_from_row w sc = Inr g"
  shows "gr_id g = gw_id w" "gr_scope g = sc" "gr_status g = gw_status w"
    "DESTRUCTIVE \<in> gr_risk_caps g \<Longrightarrow> risk_value DESTRUCTIVE \<in> set (gw_risk_caps w)"
  using assms map_res_Inr [of risk_lookup "gw_risk_caps w"] by (auto simp: grant_from_row_def bind_res_Inr_iff)

lemma readonly_read_row:
  "readonly (bindC (get_snapshot j) (\<lambda>sc. case sc of None \<Rightarrow> returnC None | Some s \<Rightarrow> liftC (f s)))"
  by (intro readonly_bindC readonly_case_option) simp_all

lemma readonly_grant_get [intro, simp]: "readonly (grant_get i)"
  unfolding readonly_def grant_get_def by (auto simp: readonly_read_row [unfolded readonly_def, rule_format] split: option.split)

lemma grant_get_Some:
  assumes "grant_get i db = (Inr (Some g), db')"
  shows "db' = db"
    and "\<exists>w sc. dict_get (grant_rows db) i = Some w \<and> get_snapshot (gw_scope_snapshot_id w) db = (Inr (Some sc), db) \<and>
           grant_from_row w sc = Inr g"
proof -
  show "db' = db" using readonlyD [OF readonly_grant_get assms] .
  show "\<exists>w sc. dict_get (grant_rows db) i = Some w \<and> get_snapshot (gw_scope_snapshot_id w) db = (Inr (Some sc), db) \<and>
           grant_from_row w sc = Inr g"
    using assms
    by (auto simp: grant_get_def bindC_Inr liftC_def get_snapshot_def split: option.splits sum.splits)
       (auto simp: map_sum_def split: sum.splits)
qed

lemma grant_get_ok:
  assumes "grants_ok db" "grant_get i db = (Inr (Some g), db')"
  shows "gr_id g = i \<and> DESTRUCTIVE \<notin> gr_risk_caps g"
  using assms(1) grant_get_Some(2) [OF assms(2)] grant_from_row_Inr unfolding grants_ok_def by metis

lemma grant_add_rows:
  "grant_rows (snd (grant_add g db)) = dict_set (gr_id g) (grant_to_row g) (grant_rows db)"
  "fst (grant_add g db) = Inr ()"
  by (auto simp: grant_add_def bindC_def add_snapshot_def split: option.splits)

lemma grant_add_ok: "grants_ok db \<Longrightarrow> DESTRUCTIVE \<notin> gr_risk_caps g \<Longrightarrow> grants_ok (snd (grant_add g db))"
  unfolding grants_ok_def grant_add_rows(1) by (auto simp: grant_to_row_def simp del: risk_value.simps)

lemma EngagementGrant_create_Inr:
  assumes "EngagementGrant_create sha uid project name scope caps f t by0 at0 None = Inr g"
  shows "gr_id g = ''grant-'' @ uid \<and> DESTRUCTIVE \<notin> gr_risk_caps g \<and> gr_risk_caps g = caps \<and> gr_scope g = scope \<and> f < t"
  using assms by (auto simp: EngagementGrant_create_def split: if_splits)

lemma create_human_cases:
  obtains (kept) "snd (create_human sha now uid project name scope caps f t role db) = db"
  | (added) g where "snd (create_human sha now uid project name scope caps f t role db) = snd (grant_add g db)"
      "gr_id g = ''grant-'' @ uid" "DESTRUCTIVE \<notin> gr_risk_caps g" "role = ''human''"
proof (cases "EngagementGrant_create sha uid project name scope caps f t role now None")
  case (Inr g)
  note g = EngagementGrant_create_Inr [OF Inr]
  show thesis
  proof (cases "role = ''human''")
    case True
    then have "snd (create_human sha now uid project name scope caps f t role db) = snd (grant_add g db)"
      using Inr grant_add_rows(2) [of g db]
      by (cases "grant_add g db") (simp add: create_human_def bindC_def liftC_def grant_require_human_def guard_def)
    then show thesis using added [of g] g True by blast
  qed (use kept in \<open>simp add: create_human_def bindC_def liftC_def grant_require_human_def guard_def\<close>)
qed (use kept in \<open>auto simp: create_human_def bindC_def liftC_def grant_require_human_def guard_def split: if_splits\<close>)

lemma revoke_grant_cases:
  obtains (kept) e where "revoke_grant i role db = (Inl e, db)"
  | (added) g where "revoke_grant i role db = (Inr (grant_revoke g), snd (grant_add (grant_revoke g) db))"
      "grant_get i db = (Inr (Some g), db)" "role = ''human''"
proof -
  obtain r where get: "grant_get i db = (r, db)"
    using readonlyD [OF readonly_grant_get] by (metis surj_pair)
  show thesis
  proof (cases "role = ''human''")
    case True
    show thesis
    proof (cases r)
      case (Inr x)
      show thesis
      proof (cases x)
        case None
        then show thesis
          using kept get True Inr by (simp add: revoke_grant_def bindC_def liftC_def grant_require_human_def guard_def)
      next
        case (Some g)
        then show thesis
          using added [of g] get True Inr grant_add_rows(2) [of "grant_revoke g" db]
          by (cases "grant_add (grant_revoke g) db")
             (simp add: revoke_grant_def bindC_def liftC_def grant_require_human_def guard_def)
      qed
    qed (use kept get True in \<open>auto simp: revoke_grant_def bindC_def liftC_def grant_require_human_def guard_def\<close>)
  qed (use kept in \<open>simp add: revoke_grant_def bindC_def liftC_def grant_require_human_def guard_def\<close>)
qed

lemma create_human_ok:
  "grants_ok db \<Longrightarrow> grants_ok (snd (create_human sha now uid project name scope caps f t role db))"
  by (cases rule: create_human_cases [of sha now uid project name scope caps f t role db]) (simp_all add: grant_add_ok)

lemma revoke_grant_ok: "grants_ok db \<Longrightarrow> grants_ok (snd (revoke_grant i role db))"
  using grant_get_ok [of db i]
  by (cases rule: revoke_grant_cases [of i role db]) (auto intro!: grant_add_ok simp: grant_revoke_def)

section \<open>Authorisation\<close>

lemma readonly_authorize [intro, simp]: "readonly (authorize idna now i sc steps)"
  unfolding authorize_def by (intro readonly_bindC readonly_case_option readonly_if) simp_all

lemma authorize_allows:
  "(\<exists>d db'. authorize idna now i sc steps db = (Inr d, db') \<and> allowed d) \<longleftrightarrow>
     (\<exists>g. grant_get i db = (Inr (Some g), db) \<and> is_active_at g now \<and> covers_scope idna g sc = Inr True \<and>
          covers_risks g steps)"
proof -
  obtain r where get: "grant_get i db = (r, db)"
    using readonlyD [OF readonly_grant_get] by (metis surj_pair)
  show ?thesis
  proof (cases r)
    case (Inr g)
    then show ?thesis
      by (cases g; cases "covers_scope idna (the g) sc")
         (auto simp: authorize_def get bindC_def liftC_def deny_def)
  qed (simp add: authorize_def get bindC_def)
qed

lemma all_res_True: "all_res f xs = Inr True \<longleftrightarrow> (\<forall>x \<in> set xs. f x = Inr True)"
  by (induction xs) (auto simp: bind_res_def split: sum.splits)

lemma covers_scope_True:
  "covers_scope idna g sc = Inr True \<longleftrightarrow>
     set (sc_ports sc) \<subseteq> set (sc_ports (gr_scope g)) \<and>
     (\<forall>t \<in> set (sc_include sc). matches_boundary idna (gr_scope g) t = Inr True)"
  by (simp add: covers_scope_def all_res_True)

end
