(* ===== verification/Assessments.thy ===== *)
theory Assessments
  imports Grants
begin

text \<open>
  Assessments (\<^verbatim>\<open>domain/assessments/models.py\<close>, \<^verbatim>\<open>transitions.py\<close>) and the service that owns their life
  cycle (\<^verbatim>\<open>application/assessments.py\<close>) over the repositories of \<^verbatim>\<open>infrastructure/repositories\<close>. Saving an
  assessment merges its row; saving a plan or an approval inserts a row and is refused when the key exists.
\<close>

section \<open>Data\<close>

datatype assessment_status =
  DRAFT | PLANNED | AWAITING_APPROVAL | APPROVED | REJECTED | QUEUED | RUNNING | PAUSED | COMPLETED | PARTIAL |
  FAILED | CANCELLED

datatype control_state = CNONE | PAUSE_REQUESTED | RESUME_REQUESTED | CANCEL_REQUESTED

fun asm_status_value :: "assessment_status \<Rightarrow> string" where
  "asm_status_value DRAFT = ''draft''"
| "asm_status_value PLANNED = ''planned''"
| "asm_status_value AWAITING_APPROVAL = ''awaiting_approval''"
| "asm_status_value APPROVED = ''approved''"
| "asm_status_value REJECTED = ''rejected''"
| "asm_status_value QUEUED = ''queued''"
| "asm_status_value RUNNING = ''running''"
| "asm_status_value PAUSED = ''paused''"
| "asm_status_value COMPLETED = ''completed''"
| "asm_status_value PARTIAL = ''partial''"
| "asm_status_value FAILED = ''failed''"
| "asm_status_value CANCELLED = ''cancelled''"

record approval =
  apr_id :: string
  apr_assessment_id :: string
  apr_plan_digest :: string
  apr_scope_digest :: string
  apr_mode :: execution_mode
  apr_risks :: "risk_class set"
  apr_capabilities :: "string set"
  apr_by :: string
  apr_digest :: string

definition approval_payload ::
  "string \<Rightarrow> string \<Rightarrow> string \<Rightarrow> execution_mode \<Rightarrow> risk_class set \<Rightarrow> string set \<Rightarrow> string \<Rightarrow> pyval" where
  "approval_payload asm pd sd mode risks caps by0 = VDict
     [(''assessment_id'', VStr asm), (''plan_digest'', VStr pd), (''scope_digest'', VStr sd),
      (''mode'', VStr (mode_value mode)), (''approved_risks'', VStrs (sorted_list_of_set (risk_value ` risks))),
      (''approved_capabilities'', VStrs (sorted_list_of_set caps)), (''approved_by'', VStr by0)]"

definition Approval_create ::
  "(string \<Rightarrow> string) \<Rightarrow> string \<Rightarrow> string \<Rightarrow> string \<Rightarrow> string \<Rightarrow> execution_mode \<Rightarrow> risk_class set \<Rightarrow> string set \<Rightarrow> string \<Rightarrow>
   approval result" where
  "Approval_create sha i asm pd sd mode risks caps by0 =
     (if pd = [] \<or> sd = [] then Inl (DomainValidationError ''approval requires plan and scope digest'')
      else Inr \<lparr>apr_id = i, apr_assessment_id = asm, apr_plan_digest = pd, apr_scope_digest = sd, apr_mode = mode,
                apr_risks = risks, apr_capabilities = caps, apr_by = by0,
                apr_digest = canonical_digest sha (approval_payload asm pd sd mode risks caps by0)\<rparr>)"

record assessment =
  asm_id :: string
  asm_project_id :: string
  asm_scope_snapshot_id :: string
  asm_mode :: execution_mode
  asm_status :: assessment_status
  asm_active_plan_id :: "string option"
  asm_approval_id :: "string option"
  asm_control :: control_state

definition Assessment_create :: "string \<Rightarrow> string \<Rightarrow> string \<Rightarrow> execution_mode \<Rightarrow> assessment result" where
  "Assessment_create i project scope mode =
     (if i = [] \<or> project = [] \<or> scope = [] then Inl (DomainValidationError ''assessment identifiers are required'')
      else Inr \<lparr>asm_id = i, asm_project_id = project, asm_scope_snapshot_id = scope, asm_mode = mode, asm_status = DRAFT,
                asm_active_plan_id = None, asm_approval_id = None, asm_control = CNONE\<rparr>)"

text \<open>Python truthiness of an optional string.\<close>

definition given :: "string option \<Rightarrow> bool" where
  "given x \<longleftrightarrow> x \<noteq> None \<and> x \<noteq> Some []"

definition Assessment_start :: "assessment \<Rightarrow> string option \<Rightarrow> string option \<Rightarrow> assessment result" where
  "Assessment_start a pid apid =
     (if \<not> given apid then Inl (DomainValidationError ''assessment requires approval'')
      else if asm_status a \<notin> {DRAFT, APPROVED} then
        Inl (DomainValidationError ''assessment cannot start from current status'')
      else Inr (a\<lparr>asm_status := QUEUED, asm_active_plan_id := pid, asm_approval_id := apid\<rparr>))"

section \<open>The transition table\<close>

fun ALLOWED_TRANSITIONS :: "assessment_status \<Rightarrow> assessment_status set" where
  "ALLOWED_TRANSITIONS DRAFT = {AWAITING_APPROVAL}"
| "ALLOWED_TRANSITIONS PLANNED = {}"
| "ALLOWED_TRANSITIONS AWAITING_APPROVAL = {APPROVED, REJECTED, AWAITING_APPROVAL}"
| "ALLOWED_TRANSITIONS APPROVED = {QUEUED}"
| "ALLOWED_TRANSITIONS REJECTED = {}"
| "ALLOWED_TRANSITIONS QUEUED = {RUNNING, CANCELLED}"
| "ALLOWED_TRANSITIONS RUNNING = {COMPLETED, PARTIAL, FAILED, PAUSED, CANCELLED}"
| "ALLOWED_TRANSITIONS PAUSED = {RUNNING, CANCELLED}"
| "ALLOWED_TRANSITIONS COMPLETED = {}"
| "ALLOWED_TRANSITIONS PARTIAL = {}"
| "ALLOWED_TRANSITIONS FAILED = {}"
| "ALLOWED_TRANSITIONS CANCELLED = {}"

definition assert_transition :: "assessment_status \<Rightarrow> assessment_status \<Rightarrow> unit result" where
  "assert_transition s t = guard (t \<in> ALLOWED_TRANSITIONS s)
     (DomainValidationError (''illegal assessment transition: '' @ asm_status_value s @ '' -> '' @ asm_status_value t))"

section \<open>Repository\<close>

record asm_db = grant_db +
  asm_rows :: "(string \<times> assessment) list"
  plan_rows :: "(string \<times> execution_plan) list"
  approval_rows :: "(string \<times> approval) list"

definition asm_add :: "assessment \<Rightarrow> ('a asm_db_scheme, unit) cmd" where
  "asm_add a db = (Inr (), db\<lparr>asm_rows := dict_set (asm_id a) a (asm_rows db)\<rparr>)"

definition save_plan :: "execution_plan \<Rightarrow> ('a asm_db_scheme, unit) cmd" where
  "save_plan p db =
     (case dict_get (plan_rows db) (plan_id p) of
        Some _ \<Rightarrow> (Inl (IntegrityError ''core_execution_plans.id''), db)
      | None \<Rightarrow> (Inr (), db\<lparr>plan_rows := dict_set (plan_id p) p (plan_rows db)\<rparr>))"

definition save_approval :: "approval \<Rightarrow> ('a asm_db_scheme, unit) cmd" where
  "save_approval p db =
     (case dict_get (approval_rows db) (apr_id p) of
        Some _ \<Rightarrow> (Inl (IntegrityError ''core_approvals.id''), db)
      | None \<Rightarrow> (Inr (), db\<lparr>approval_rows := dict_set (apr_id p) p (approval_rows db)\<rparr>))"

text \<open>\<^verbatim>\<open>repo.get\<close> followed by the \<^verbatim>\<open>LookupError\<close> every operation raises when the row is missing.\<close>

definition asm_require :: "string \<Rightarrow> ('a asm_db_scheme, assessment) cmd" where
  "asm_require i db =
     (case dict_get (asm_rows db) i of
        None \<Rightarrow> (Inl (LookupError (''assessment '' @ i @ '' not found'')), db)
      | Some a \<Rightarrow> (Inr a, db))"

section \<open>Service\<close>

record asm_ports =
  ap_sha :: "string \<Rightarrow> string"
  ap_idna :: "string \<Rightarrow> string option"
  ap_scope_repo :: bool
  ap_grant_service :: bool

definition asm_create :: "string \<Rightarrow> string \<Rightarrow> string \<Rightarrow> execution_mode \<Rightarrow> ('a asm_db_scheme, assessment) cmd" where
  "asm_create uid project scope mode =
     bindC (liftC (Assessment_create (''asm-'' @ uid) project scope mode)) (\<lambda>a.
     bindC (asm_add a) (\<lambda>_. returnC a))"

definition attach_plan ::
  "asm_ports \<Rightarrow> string \<Rightarrow> string \<Rightarrow> plan_step list \<Rightarrow> ('a asm_db_scheme, assessment) cmd" where
  "attach_plan P uid i steps =
     bindC (asm_require i) (\<lambda>a.
     bindC (liftC (assert_transition (asm_status a) AWAITING_APPROVAL)) (\<lambda>_.
     bindC (liftC (ExecutionPlan_create (ap_sha P) (''plan-'' @ uid) i 1 steps)) (\<lambda>plan.
     bindC (save_plan plan) (\<lambda>_.
       let updated = a\<lparr>asm_status := AWAITING_APPROVAL, asm_active_plan_id := Some (plan_id plan)\<rparr> in
       bindC (asm_add updated) (\<lambda>_. returnC updated)))))"

definition require_human :: "string \<Rightarrow> unit result" where
  "require_human role =
     (if role = ''agent'' then
        Inl (AssessmentPermissionError ''agents cannot approve or reject assessments (human-only action)'')
      else guard (role = ''human'') (AssessmentPermissionError (''unknown actor role: '' @ repr_str role)))"

definition authorize_via_grant ::
  "asm_ports \<Rightarrow> datetime \<Rightarrow> string \<Rightarrow> string \<Rightarrow> ('a asm_db_scheme, unit) cmd" where
  "authorize_via_grant P now gid i =
     (if \<not> ap_grant_service P then raiseC (AssessmentPermissionError ''grant service not configured'')
      else if \<not> ap_scope_repo P then
        raiseC (AssessmentPermissionError ''scope repository not configured for grant approval'')
      else
        bindC (asm_require i) (\<lambda>a.
        bindC (get_snapshot (asm_scope_snapshot_id a)) (\<lambda>sc0.
          case sc0 of
            None \<Rightarrow> raiseC (DomainValidationError ''assessment scope not found'')
          | Some sc \<Rightarrow>
              bindC (\<lambda>db. (Inr (case asm_active_plan_id a of
                                  None \<Rightarrow> []
                                | Some p \<Rightarrow> if p = [] then []
                                    else (case dict_get (plan_rows db) p of None \<Rightarrow> [] | Some pl \<Rightarrow> plan_steps pl)), db))
                (\<lambda>steps.
              bindC (authorize (ap_idna P) now gid sc steps) (\<lambda>d.
                if \<not> allowed d then raiseC (AssessmentPermissionError (''grant denied: '' @ reason d)) else returnC ())))))"

definition gatekeep :: "asm_ports \<Rightarrow> datetime \<Rightarrow> string \<Rightarrow> string option \<Rightarrow> string \<Rightarrow> ('a asm_db_scheme, unit) cmd" where
  "gatekeep P now role grant_id i =
     (case grant_id of Some g \<Rightarrow> authorize_via_grant P now g i | None \<Rightarrow> liftC (require_human role))"

definition record_approval ::
  "asm_ports \<Rightarrow> string \<Rightarrow> string \<Rightarrow> string \<Rightarrow> risk_class set \<Rightarrow> string set \<Rightarrow> string \<Rightarrow> string option \<Rightarrow>
   ('a asm_db_scheme, approval) cmd" where
  "record_approval P uid i approved_by0 risks caps scope_digest grant_id =
     (let approved_by = (case grant_id of Some g \<Rightarrow> ''grant:'' @ g | None \<Rightarrow> approved_by0) in
     bindC (asm_require i) (\<lambda>a.
       case asm_active_plan_id a of
         None \<Rightarrow> raiseC (DomainValidationError ''assessment has no plan to approve'')
       | Some pid \<Rightarrow>
           bindC (liftC (assert_transition (asm_status a) APPROVED)) (\<lambda>_ db.
             case dict_get (plan_rows db) pid of
               None \<Rightarrow> (Inl (LookupError ''active plan not found''), db)
             | Some plan \<Rightarrow>
                 bindC (liftC (Approval_create (ap_sha P) (''apr-'' @ uid) i (plan_digest plan) scope_digest (asm_mode a)
                          risks caps approved_by)) (\<lambda>ap.
                 bindC (save_approval ap) (\<lambda>_.
                 bindC (asm_add (a\<lparr>asm_status := APPROVED, asm_approval_id := Some (apr_id ap)\<rparr>)) (\<lambda>_.
                   returnC ap))) db)))"

definition approve ::
  "asm_ports \<Rightarrow> datetime \<Rightarrow> string \<Rightarrow> string \<Rightarrow> string \<Rightarrow> risk_class set \<Rightarrow> string set \<Rightarrow> string \<Rightarrow> string \<Rightarrow> string option \<Rightarrow>
   ('a asm_db_scheme, approval) cmd" where
  "approve P now uid i approved_by0 risks caps scope_digest role grant_id =
     bindC (gatekeep P now role grant_id i) (\<lambda>_.
       record_approval P uid i approved_by0 risks caps scope_digest grant_id)"

definition reject :: "string \<Rightarrow> string \<Rightarrow> string \<Rightarrow> ('a asm_db_scheme, assessment) cmd" where
  "reject i why role =
     bindC (liftC (require_human role)) (\<lambda>_.
     bindC (asm_require i) (\<lambda>a.
     bindC (liftC (assert_transition (asm_status a) REJECTED)) (\<lambda>_.
       if py_strip why = [] then raiseC (DomainValidationError ''rejection reason must be non-empty'')
       else bindC (asm_add (a\<lparr>asm_status := REJECTED\<rparr>)) (\<lambda>_. returnC (a\<lparr>asm_status := REJECTED\<rparr>)))))"

definition queue_assessment :: "string \<Rightarrow> ('a asm_db_scheme, assessment) cmd" where
  "queue_assessment i =
     bindC (asm_require i) (\<lambda>a.
     bindC (liftC (assert_transition (asm_status a) QUEUED)) (\<lambda>_.
       if \<not> given (asm_active_plan_id a) then raiseC (DomainValidationError ''assessment has no plan to execute'')
       else if \<not> given (asm_approval_id a) then raiseC (DomainValidationError ''assessment has no approval'')
       else
         bindC (liftC (Assessment_start a (asm_active_plan_id a) (asm_approval_id a))) (\<lambda>u.
         bindC (asm_add u) (\<lambda>_. returnC u))))"

definition asm_start :: "asm_ports \<Rightarrow> datetime \<Rightarrow> string \<Rightarrow> string \<Rightarrow> string option \<Rightarrow> ('a asm_db_scheme, assessment) cmd" where
  "asm_start P now i role grant_id = bindC (gatekeep P now role grant_id i) (\<lambda>_. queue_assessment i)"

text \<open>\<^verbatim>\<open>mark_running\<close>, \<^verbatim>\<open>complete\<close> and \<^verbatim>\<open>fail\<close>: the same guarded status change to three targets.\<close>

definition move_to :: "assessment_status \<Rightarrow> string \<Rightarrow> ('a asm_db_scheme, assessment) cmd" where
  "move_to t i =
     bindC (asm_require i) (\<lambda>a.
     bindC (liftC (assert_transition (asm_status a) t)) (\<lambda>_.
     bindC (asm_add (a\<lparr>asm_status := t\<rparr>)) (\<lambda>_. returnC (a\<lparr>asm_status := t\<rparr>))))"

definition mark_running :: "string \<Rightarrow> ('a asm_db_scheme, assessment) cmd" where
  "mark_running = move_to RUNNING"

definition asm_complete :: "string \<Rightarrow> ('a asm_db_scheme, assessment) cmd" where
  "asm_complete = move_to COMPLETED"

definition asm_fail :: "string \<Rightarrow> string \<Rightarrow> ('a asm_db_scheme, assessment) cmd" where
  "asm_fail i why = move_to FAILED i"

definition set_control :: "assessment \<Rightarrow> assessment_status \<Rightarrow> control_state \<Rightarrow> assessment result" where
  "set_control a t signal =
     bind_res (assert_transition (asm_status a) t) (\<lambda>_. Inr (a\<lparr>asm_status := t, asm_control := signal\<rparr>))"

definition control_op :: "assessment_status \<Rightarrow> control_state \<Rightarrow> string \<Rightarrow> ('a asm_db_scheme, assessment) cmd" where
  "control_op t signal i =
     bindC (asm_require i) (\<lambda>a.
     bindC (liftC (set_control a t signal)) (\<lambda>u.
     bindC (asm_add u) (\<lambda>_. returnC u)))"

definition asm_pause :: "string \<Rightarrow> ('a asm_db_scheme, assessment) cmd" where
  "asm_pause = control_op PAUSED PAUSE_REQUESTED"

definition asm_resume :: "string \<Rightarrow> ('a asm_db_scheme, assessment) cmd" where
  "asm_resume = control_op RUNNING RESUME_REQUESTED"

definition asm_cancel :: "string \<Rightarrow> ('a asm_db_scheme, assessment) cmd" where
  "asm_cancel = control_op CANCELLED CANCEL_REQUESTED"

end
