(* ===== verification/Audit_Trail.thy ===== *)
theory Audit_Trail
  imports Canonical_Injective
begin

text \<open>
  The audit trail: events linked by hashes (\<^verbatim>\<open>domain/audit/models.py\<close>), the repository-backed
  \<^verbatim>\<open>AuditService\<close> (\<^verbatim>\<open>application/audit.py\<close>) and the signed \<^verbatim>\<open>AuditChain\<close> with rotation, GDPR
  redaction and reload after a restart (\<^verbatim>\<open>application/audit_chain.py\<close>). Both recorders satisfy the
  port \<^verbatim>\<open>AuditRecorder\<close>, stated as a locale, whose specification is the list of recorded calls.
  Parameters: \<open>sha\<close> (hex SHA-256), the signer's \<open>sign\<close> and \<open>check\<close> (Ed25519, a third-party
  package) and every clock reading.
\<close>

section \<open>Events\<close>

definition GENESIS_HASH :: string where
  "GENESIS_HASH = replicate 64 (CHR ''0'')"

definition SECRET_KEYS :: "string list" where
  "SECRET_KEYS = [''password'', ''secret'', ''token'', ''authorization'', ''api_key'', ''cookie'']"

record audit_event =
  ev_id :: string
  ev_actor :: string
  ev_action :: string
  ev_resource_type :: string
  ev_resource_id :: string
  ev_payload :: pydict
  ev_previous_hash :: string
  ev_hash :: string
  ev_occurred_at :: datetime

text \<open>One call of \<^verbatim>\<open>AuditRecorder.record\<close>.\<close>

record audit_call =
  c_actor :: string
  c_action :: string
  c_resource_type :: string
  c_resource_id :: string
  c_payload :: pydict

definition check_no_secret :: "pydict \<Rightarrow> unit result" where
  "check_no_secret p =
     (case List.find (\<lambda>k. py_lower k \<in> set SECRET_KEYS) (dict_keys p) of
        None \<Rightarrow> Inr ()
      | Some k \<Rightarrow> Inl (DomainValidationError
          (''secret key '' @ [CHR 0x27] @ k @ [CHR 0x27] @ '' must not appear in audit payload'')))"

definition event_body ::
  "string \<Rightarrow> string \<Rightarrow> string \<Rightarrow> string \<Rightarrow> string \<Rightarrow> pydict \<Rightarrow> string \<Rightarrow> datetime \<Rightarrow> pyval" where
  "event_body i actor action rtype rid p prev t = VDict
     [(''id'', VStr i), (''actor'', VStr actor), (''action'', VStr action),
      (''resource_type'', VStr rtype), (''resource_id'', VStr rid), (''payload'', VDict p),
      (''previous_hash'', VStr prev), (''occurred_at'', VStr (iso_utc t))]"

definition AuditEvent_create ::
  "(string \<Rightarrow> string) \<Rightarrow> datetime \<Rightarrow> string \<Rightarrow> audit_call \<Rightarrow> string \<Rightarrow> audit_event result" where
  "AuditEvent_create sha now event_id c previous_hash =
     (if event_id = [] \<or> c_actor c = [] \<or> c_action c = [] \<or> c_resource_type c = [] \<or>
         c_resource_id c = []
      then Inl (DomainValidationError ''audit event fields must not be empty'')
      else bind_res (check_no_secret (c_payload c)) (\<lambda>_.
        Inr \<lparr>ev_id = event_id, ev_actor = c_actor c, ev_action = c_action c,
          ev_resource_type = c_resource_type c, ev_resource_id = c_resource_id c,
          ev_payload = c_payload c, ev_previous_hash = previous_hash,
          ev_hash = ''sha256:'' @ sha (canonical_json (event_body event_id (c_actor c) (c_action c)
            (c_resource_type c) (c_resource_id c) (c_payload c) previous_hash now)),
          ev_occurred_at = now\<rparr>))"

definition body_of :: "audit_event \<Rightarrow> pyval" where
  "body_of e = event_body (ev_id e) (ev_actor e) (ev_action e) (ev_resource_type e)
     (ev_resource_id e) (ev_payload e) (ev_previous_hash e) (ev_occurred_at e)"

fun verify_chain_from :: "(string \<Rightarrow> string) \<Rightarrow> string \<Rightarrow> audit_event list \<Rightarrow> bool" where
  "verify_chain_from sha previous [] = True"
| "verify_chain_from sha previous (e # es) =
     (let expected_prev = (if starts_with previous ''sha256:''
                           then removeprefix previous ''sha256:'' else previous) in
      if ev_previous_hash e \<noteq> expected_prev then False
      else if ''sha256:'' @ sha (canonical_json (body_of e)) \<noteq> ev_hash e then False
      else verify_chain_from sha (removeprefix (ev_hash e) ''sha256:'') es)"

definition verify_chain :: "(string \<Rightarrow> string) \<Rightarrow> audit_event list \<Rightarrow> bool" where
  "verify_chain sha es = verify_chain_from sha GENESIS_HASH es"

section \<open>AuditService\<close>

text \<open>
  The repository (\<^verbatim>\<open>SqlAlchemyAuditRepository\<close>) keeps rows and lists them by \<^verbatim>\<open>occurred_at\<close>; rows
  with equal times are taken in insertion order.
\<close>

definition list_events :: "audit_event list \<Rightarrow> audit_event list" where
  "list_events rows = sort_key ev_occurred_at rows"

definition last_hash :: "audit_event list \<Rightarrow> string" where
  "last_hash rows =
     (case rev (list_events rows) of [] \<Rightarrow> GENESIS_HASH
      | e # _ \<Rightarrow> removeprefix (ev_hash e) ''sha256:'')"

definition AuditService_record ::
  "(string \<Rightarrow> string) \<Rightarrow> datetime \<Rightarrow> audit_call \<Rightarrow> (audit_event list, audit_event) cmd" where
  "AuditService_record sha now c rows =
     (let previous = (if last_hash rows = [] then GENESIS_HASH else last_hash rows) in
      case AuditEvent_create sha now (''evt-'' @ nat_repr (length (list_events rows) + 1)) c previous of
        Inl e \<Rightarrow> (Inl e, rows)
      | Inr ev \<Rightarrow> (Inr ev, rows @ [ev]))"

section \<open>The signed chain\<close>

record signed_audit_event =
  sg_event :: audit_event
  sg_signature :: string

record audit_chain =
  ac_store :: "signed_audit_event list option"
  ac_events :: "signed_audit_event list"
  ac_tail :: string
  ac_counter :: nat
  ac_redactions :: "(string \<times> string set) list"

definition reload_redaction :: "(string \<times> string set) list \<Rightarrow> audit_event \<Rightarrow> (string \<times> string set) list" where
  "reload_redaction rs e =
     (if ev_action e = ''gdpr.redacted'' then
        (case (dict_get (ev_payload e) ''redacted_event_id'', dict_get (ev_payload e) ''keys'') of
           (Some (VStr eid), Some (VList ks)) \<Rightarrow> dict_set eid (set (map py_str ks)) rs
         | _ \<Rightarrow> rs)
      else rs)"

definition load_from_store :: "signed_audit_event list \<Rightarrow> audit_chain \<Rightarrow> audit_chain" where
  "load_from_store loaded c =
     (let c' = c\<lparr>ac_events := loaded\<rparr>;
          c'' = (if loaded = [] then c'
                 else c'\<lparr>ac_tail := removeprefix (ev_hash (sg_event (last loaded))) ''sha256:'',
                         ac_counter := length loaded\<rparr>)
      in c''\<lparr>ac_redactions := foldl reload_redaction (ac_redactions c'') (map sg_event loaded)\<rparr>)"

definition AuditChain_new :: "signed_audit_event list option \<Rightarrow> audit_chain" where
  "AuditChain_new store =
     (let c = \<lparr>ac_store = store, ac_events = [], ac_tail = GENESIS_HASH, ac_counter = 0,
               ac_redactions = []\<rparr>
      in case store of None \<Rightarrow> c | Some loaded \<Rightarrow> load_from_store loaded c)"

definition chain_record ::
  "(string \<Rightarrow> string) \<Rightarrow> (string \<Rightarrow> string) \<Rightarrow> datetime \<Rightarrow> string option \<Rightarrow> audit_call \<Rightarrow>
   (audit_chain, signed_audit_event) cmd" where
  "chain_record sha sign now permit_nonce call c =
     (let c1 = c\<lparr>ac_counter := ac_counter c + 1\<rparr>;
          body = (case permit_nonce of None \<Rightarrow> c_payload call
                  | Some n \<Rightarrow> dict_set ''permit_nonce'' (VStr n) (c_payload call))
      in case AuditEvent_create sha now (''evt-'' @ nat_repr (ac_counter c1))
                (call\<lparr>c_payload := body\<rparr>) (ac_tail c1) of
           Inl e \<Rightarrow> (Inl e, c1)
         | Inr ev \<Rightarrow>
             let s = \<lparr>sg_event = ev, sg_signature = sign (ev_hash ev)\<rparr>
             in (Inr s, c1\<lparr>ac_events := ac_events c1 @ [s],
                           ac_tail := removeprefix (ev_hash ev) ''sha256:'',
                           ac_store := map_option (\<lambda>st. st @ [s]) (ac_store c1)\<rparr>))"

definition record_permit_nonce ::
  "(string \<Rightarrow> string) \<Rightarrow> (string \<Rightarrow> string) \<Rightarrow> datetime \<Rightarrow> string \<Rightarrow> string \<Rightarrow> string \<Rightarrow>
   (audit_chain, signed_audit_event) cmd" where
  "record_permit_nonce sha sign now actor job_id nonce =
     chain_record sha sign now (Some nonce)
       \<lparr>c_actor = actor, c_action = ''permit.used'', c_resource_type = ''permit'',
        c_resource_id = job_id, c_payload = [(''job_id'', VStr job_id)]\<rparr>"

definition permit_nonces :: "audit_chain \<Rightarrow> string set" where
  "permit_nonces c =
     set (map py_str (List.map_filter (\<lambda>s. dict_get (ev_payload (sg_event s)) ''permit_nonce'') (ac_events c)))"

definition chain_verify :: "(string \<Rightarrow> string) \<Rightarrow> (string \<Rightarrow> string \<Rightarrow> bool) \<Rightarrow> audit_chain \<Rightarrow> bool" where
  "chain_verify sha check c \<longleftrightarrow>
     verify_chain sha (map sg_event (ac_events c)) \<and>
     list_all (\<lambda>s. check (ev_hash (sg_event s)) (sg_signature s)) (ac_events c)"

definition rotate ::
  "(string \<Rightarrow> string) \<Rightarrow> (string \<Rightarrow> string) \<Rightarrow> datetime \<Rightarrow> string \<Rightarrow> (audit_chain, signed_audit_event) cmd" where
  "rotate sha sign now actor c =
     chain_record sha sign now None
       \<lparr>c_actor = actor, c_action = ''audit.rotated'', c_resource_type = ''audit_chain'',
        c_resource_id = ''rotation'',
        c_payload = [(''previous_chain_tail_hash'', VStr (ac_tail c))]\<rparr> c"

definition redact_pii ::
  "(string \<Rightarrow> string) \<Rightarrow> (string \<Rightarrow> string) \<Rightarrow> datetime \<Rightarrow> string \<Rightarrow> string set \<Rightarrow> string \<Rightarrow>
   (audit_chain, signed_audit_event) cmd" where
  "redact_pii sha sign now event_id keys actor c =
     chain_record sha sign now None
       \<lparr>c_actor = actor, c_action = ''gdpr.redacted'', c_resource_type = ''audit_event'',
        c_resource_id = event_id,
        c_payload = [(''redacted_event_id'', VStr event_id),
                     (''keys'', VStrs (sorted_list_of_set keys))]\<rparr>
       (c\<lparr>ac_redactions := dict_set event_id keys (ac_redactions c)\<rparr>)"

definition chain_export :: "bool \<Rightarrow> audit_chain \<Rightarrow> audit_event list" where
  "chain_export redacted c =
     (if \<not> redacted then map sg_event (ac_events c)
      else map (\<lambda>s. let e = sg_event s in
             case dict_get (ac_redactions c) (ev_id e) of
               None \<Rightarrow> e
             | Some keys \<Rightarrow>
                 (if keys = {} then e
                  else e\<lparr>ev_payload :=
                    map (\<lambda>(k, v). (k, if k \<in> keys then VStr ''[REDACTED:gdpr]'' else v)) (ev_payload e)\<rparr>))
           (ac_events c))"

text \<open>\<^verbatim>\<open>chain_hmac\<close> over the event hashes; the keyed hash of the standard library is the parameter \<open>hm\<close>.\<close>

definition chain_hmac :: "(string \<Rightarrow> string \<Rightarrow> string) \<Rightarrow> audit_event list \<Rightarrow> string \<Rightarrow> string" where
  "chain_hmac hm es key = ''hmac-sha256:'' @ hm key (concat (map ev_hash es))"

definition verify_chain_hmac :: "(string \<Rightarrow> string \<Rightarrow> string) \<Rightarrow> audit_event list \<Rightarrow> string \<Rightarrow> string \<Rightarrow> bool" where
  "verify_chain_hmac hm es key expected \<longleftrightarrow> chain_hmac hm es key = expected"

section \<open>The recorder port\<close>

definition call_ok :: "audit_call \<Rightarrow> bool" where
  "call_ok c \<longleftrightarrow> c_actor c \<noteq> [] \<and> c_action c \<noteq> [] \<and> c_resource_type c \<noteq> [] \<and> c_resource_id c \<noteq> [] \<and>
     (\<forall>k \<in> set (dict_keys (c_payload c)). py_lower k \<notin> set SECRET_KEYS)"

definition call_of :: "audit_event \<Rightarrow> audit_call" where
  "call_of e = \<lparr>c_actor = ev_actor e, c_action = ev_action e, c_resource_type = ev_resource_type e,
     c_resource_id = ev_resource_id e, c_payload = ev_payload e\<rparr>"

text \<open>The abstract recorder the clients are written against: the list of accepted calls.\<close>

definition call_error :: "audit_call \<Rightarrow> exn" where
  "call_error c =
     (if c_actor c = [] \<or> c_action c = [] \<or> c_resource_type c = [] \<or> c_resource_id c = []
      then DomainValidationError ''audit event fields must not be empty''
      else case check_no_secret (c_payload c) of Inl e \<Rightarrow> e | Inr _ \<Rightarrow> DomainValidationError [])"

definition log_record :: "audit_call \<Rightarrow> (audit_call list, unit) cmd" where
  "log_record c log = (if call_ok c then (Inr (), log @ [c]) else (Inl (call_error c), log))"

locale audit_recorder =
  fixes record_call :: "audit_call \<Rightarrow> 's \<Rightarrow> 'r result \<times> 's"
    and calls :: "'s \<Rightarrow> audit_call list"
  assumes accepts: "call_ok c \<Longrightarrow> \<exists>r s'. record_call c s = (Inr r, s') \<and> calls s' = calls s @ [c]"
    and rejects: "\<not> call_ok c \<Longrightarrow> \<exists>s'. record_call c s = (Inl (call_error c), s') \<and> calls s' = calls s"
begin

primrec record_calls :: "audit_call list \<Rightarrow> 's \<Rightarrow> unit result \<times> 's" where
  "record_calls [] s = (Inr (), s)"
| "record_calls (c # cs) s =
     (case record_call c s of (Inl e, s') \<Rightarrow> (Inl e, s') | (Inr _, s') \<Rightarrow> record_calls cs s')"

lemma calls_record_calls: "calls (snd (record_calls cs s)) = calls s @ takeWhile call_ok cs"
proof (induction cs arbitrary: s)
  case (Cons c cs)
  then show ?case
    using accepts [of c s] rejects [of c s] by (cases "call_ok c") auto
qed simp

lemma record_calls_returns: "fst (record_calls cs s) = Inr () \<longleftrightarrow> list_all call_ok cs"
proof (induction cs arbitrary: s)
  case (Cons c cs)
  then show ?case
    using accepts [of c s] rejects [of c s] by (cases "call_ok c") auto
qed simp

lemma record_refines_log:
  "fst (record_call c s) = Inl e \<longleftrightarrow> fst (log_record c (calls s)) = Inl e"
  "calls (snd (record_call c s)) = snd (log_record c (calls s))"
  using accepts [of c s] rejects [of c s] by (cases "call_ok c"; force simp: log_record_def)+

end

section \<open>Lemmas on events\<close>

lemma check_no_secret_Inr:
  "check_no_secret p = Inr () \<longleftrightarrow> (\<forall>k \<in> set (dict_keys p). py_lower k \<notin> set SECRET_KEYS)"
  by (auto simp: check_no_secret_def find_None_iff find_Some_iff split: option.splits)

lemma call_ok_create:
  assumes "i \<noteq> []"
  shows "call_ok c \<longleftrightarrow> (\<exists>e. AuditEvent_create sha now i c prev = Inr e)"
  using assms check_no_secret_Inr [of "c_payload c"]
  by (cases "check_no_secret (c_payload c)") (auto simp: AuditEvent_create_def call_ok_def)

lemma create_Inr:
  assumes "AuditEvent_create sha now i c prev = Inr e"
  shows "call_of e = c" "ev_previous_hash e = prev" "ev_id e = i" "ev_occurred_at e = now"
    "ev_hash e = ''sha256:'' @ sha (canonical_json (body_of e))"
  using assms
  by (auto simp: AuditEvent_create_def body_of_def call_of_def bind_res_Inr_iff split: if_splits)

lemma create_Inl:
  assumes "AuditEvent_create sha now i c prev = Inl x" "i \<noteq> []"
  shows "x = call_error c"
  using assms by (auto simp: AuditEvent_create_def call_error_def bind_res_Inl_iff split: if_splits)

interpretation audit_log: audit_recorder log_record "\<lambda>log. log"
  by unfold_locales (auto simp: log_record_def)

interpretation service: audit_recorder "AuditService_record sha now" "map call_of" for sha now
proof
  fix c rows
  define i where "i = ''evt-'' @ nat_repr (length (list_events rows) + 1)"
  define prev where "prev = (if last_hash rows = [] then GENESIS_HASH else last_hash rows)"
  have i: "i \<noteq> []"
    by (simp add: i_def)
  have rec: "AuditService_record sha now c rows =
      (case AuditEvent_create sha now i c prev of Inl e \<Rightarrow> (Inl e, rows) | Inr ev \<Rightarrow> (Inr ev, rows @ [ev]))"
    by (simp add: AuditService_record_def i_def prev_def Let_def)
  show "\<exists>r s'. AuditService_record sha now c rows = (Inr r, s') \<and> map call_of s' = map call_of rows @ [c]"
    if "call_ok c"
    using that call_ok_create [OF i, of c sha now prev] create_Inr(1) by (fastforce simp: rec)
  show "\<exists>s'. AuditService_record sha now c rows = (Inl (call_error c), s') \<and> map call_of s' = map call_of rows"
    if "\<not> call_ok c"
    using that call_ok_create [OF i, of c sha now prev] create_Inl [OF _ i]
    by (cases "AuditEvent_create sha now i c prev") (fastforce simp: rec)+
qed

definition chain_calls :: "audit_chain \<Rightarrow> audit_call list" where
  "chain_calls c = map (call_of \<circ> sg_event) (ac_events c)"

lemma chain_record_None:
  "chain_record sha sign now None call c =
     (case AuditEvent_create sha now (''evt-'' @ nat_repr (ac_counter c + 1)) call (ac_tail c) of
        Inl e \<Rightarrow> (Inl e, c\<lparr>ac_counter := ac_counter c + 1\<rparr>)
      | Inr ev \<Rightarrow>
          (let s = \<lparr>sg_event = ev, sg_signature = sign (ev_hash ev)\<rparr>
           in (Inr s, c\<lparr>ac_counter := ac_counter c + 1, ac_events := ac_events c @ [s],
                ac_tail := removeprefix (ev_hash ev) ''sha256:'',
                ac_store := map_option (\<lambda>st. st @ [s]) (ac_store c)\<rparr>)))"
  by (simp add: chain_record_def Let_def split: sum.splits)

interpretation chain: audit_recorder "chain_record sha sign now None" chain_calls for sha sign now
proof
  fix call and c :: audit_chain
  define i where "i = ''evt-'' @ nat_repr (ac_counter c + 1)"
  have i: "i \<noteq> []"
    by (simp add: i_def)
  show "\<exists>r s'. chain_record sha sign now None call c = (Inr r, s') \<and> chain_calls s' = chain_calls c @ [call]"
    if ok: "call_ok call"
  proof -
    obtain e where e: "AuditEvent_create sha now i call (ac_tail c) = Inr e"
      using ok call_ok_create [OF i] by blast
    then show ?thesis
      using create_Inr(1) [OF e] by (auto simp: chain_record_None chain_calls_def Let_def i_def)
  qed
  show "\<exists>s'. chain_record sha sign now None call c = (Inl (call_error call), s') \<and> chain_calls s' = chain_calls c"
    if "\<not> call_ok call"
    using that call_ok_create [OF i, of call sha now "ac_tail c"] create_Inl [OF _ i]
    by (cases "AuditEvent_create sha now i call (ac_tail c)")
      (fastforce simp: chain_record_None chain_calls_def Let_def i_def)+
qed

section \<open>The chain stays intact\<close>

text \<open>\<^verbatim>\<open>hexdigest\<close> returns 64 hexadecimal characters.\<close>

definition hexdigest :: "(string \<Rightarrow> string) \<Rightarrow> bool" where
  "hexdigest sha \<longleftrightarrow> (\<forall>x. length (sha x) = 64 \<and> set (sha x) \<subseteq> set ''0123456789abcdef'')"

lemma hexdigest_bare: "hexdigest sha \<Longrightarrow> \<not> starts_with (sha x) ''sha256:''"
proof
  assume "hexdigest sha" and s: "starts_with (sha x) ''sha256:''"
  then have "set (take 7 (sha x)) \<subseteq> set ''0123456789abcdef''"
    unfolding hexdigest_def by (meson order_trans set_take_subset)
  moreover have "take 7 (sha x) = ''sha256:''"
    using s by (simp add: starts_with_def eval_nat_numeral)
  ultimately show False
    by simp
qed

definition chain_tail :: "audit_event list \<Rightarrow> string" where
  "chain_tail es = (if es = [] then GENESIS_HASH else removeprefix (ev_hash (last es)) ''sha256:'')"

lemma genesis_bare: "\<not> starts_with GENESIS_HASH ''sha256:''"
  by (simp add: GENESIS_HASH_def starts_with_def numeral_eq_Suc)

lemma verify_chain_from_snoc:
  assumes "hexdigest sha" "\<not> starts_with p ''sha256:''"
  shows "verify_chain_from sha p (es @ [e]) \<longleftrightarrow> verify_chain_from sha p es \<and>
    ev_previous_hash e = (if es = [] then p else removeprefix (ev_hash (last es)) ''sha256:'') \<and>
    ev_hash e = ''sha256:'' @ sha (canonical_json (body_of e))"
  using assms(2)
proof (induction es arbitrary: p)
  case Nil
  then show ?case
    by (auto simp: Let_def)
next
  case (Cons d es)
  show ?case
  proof (cases "ev_hash d = ''sha256:'' @ sha (canonical_json (body_of d))")
    case True
    then have r: "removeprefix (ev_hash d) ''sha256:'' = sha (canonical_json (body_of d))"
      by (metis removeprefix_append)
    then show ?thesis
      using Cons.IH [of "sha (canonical_json (body_of d))"] Cons.prems True
        hexdigest_bare [OF assms(1), of "canonical_json (body_of d)"]
      by (auto simp: Let_def r)
  next
    case False
    then show ?thesis
      by (auto simp: Let_def)
  qed
qed

lemma verify_chain_snoc:
  "hexdigest sha \<Longrightarrow> verify_chain sha (es @ [e]) \<longleftrightarrow> verify_chain sha es \<and>
     ev_previous_hash e = chain_tail es \<and> ev_hash e = ''sha256:'' @ sha (canonical_json (body_of e))"
  unfolding verify_chain_def chain_tail_def by (rule verify_chain_from_snoc [OF _ genesis_bare])

text \<open>A history of a chain: what a recorder, an operator and a process restart do to it.\<close>

datatype chain_op =
    OpRecord datetime "string option" audit_call
  | OpRotate datetime string
  | OpRedact datetime string "string set" string
  | OpRestart

fun chain_step :: "(string \<Rightarrow> string) \<Rightarrow> (string \<Rightarrow> string) \<Rightarrow> audit_chain \<Rightarrow> chain_op \<Rightarrow> audit_chain" where
  "chain_step sha sign c (OpRecord now n call) = snd (chain_record sha sign now n call c)"
| "chain_step sha sign c (OpRotate now actor) = snd (rotate sha sign now actor c)"
| "chain_step sha sign c (OpRedact now i keys actor) = snd (redact_pii sha sign now i keys actor c)"
| "chain_step sha sign c OpRestart =
     (case ac_store c of None \<Rightarrow> c | Some loaded \<Rightarrow> AuditChain_new (Some loaded))"

definition chain_run :: "(string \<Rightarrow> string) \<Rightarrow> (string \<Rightarrow> string) \<Rightarrow> chain_op list \<Rightarrow> audit_chain" where
  "chain_run sha sign ops = foldl (chain_step sha sign) (AuditChain_new (Some [])) ops"

definition chain_inv :: "(string \<Rightarrow> string) \<Rightarrow> (string \<Rightarrow> string) \<Rightarrow> audit_chain \<Rightarrow> bool" where
  "chain_inv sha sign c \<longleftrightarrow>
     ac_store c = Some (ac_events c) \<and> verify_chain sha (map sg_event (ac_events c)) \<and>
     ac_tail c = chain_tail (map sg_event (ac_events c)) \<and>
     (\<forall>s \<in> set (ac_events c). sg_signature s = sign (ev_hash (sg_event s)))"

lemma chain_inv_record:
  assumes "hexdigest sha" "chain_inv sha sign c"
  shows "chain_inv sha sign (snd (chain_record sha sign now n call c))"
proof -
  define call' where "call' = (case n of None \<Rightarrow> call
    | Some n \<Rightarrow> call\<lparr>c_payload := dict_set ''permit_nonce'' (VStr n) (c_payload call)\<rparr>)"
  have rec: "chain_record sha sign now n call c = chain_record sha sign now None call' c"
    by (simp add: chain_record_def call'_def split: option.split)
  show ?thesis
  proof (cases "AuditEvent_create sha now (''evt-'' @ nat_repr (ac_counter c + 1)) call' (ac_tail c)")
    case (Inl e)
    then show ?thesis
      using assms(2) unfolding rec by (simp add: chain_record_None chain_inv_def)
  next
    case (Inr e)
    then show ?thesis
      using assms create_Inr(2,5) [OF Inr] unfolding rec
      by (auto simp: chain_record_None chain_inv_def Let_def verify_chain_snoc chain_tail_def)
  qed
qed

lemma chain_inv_load: "chain_inv sha sign c \<Longrightarrow> chain_inv sha sign (AuditChain_new (ac_store c))"
  by (auto simp: chain_inv_def AuditChain_new_def load_from_store_def Let_def chain_tail_def last_map)

lemma chain_inv_step:
  assumes "hexdigest sha" "chain_inv sha sign c"
  shows "chain_inv sha sign (chain_step sha sign c op)"
proof (cases op)
  case (OpRedact now i keys actor)
  have "chain_inv sha sign (c\<lparr>ac_redactions := r\<rparr>)" for r
    using assms(2) by (simp add: chain_inv_def)
  then show ?thesis
    using OpRedact chain_inv_record [OF assms(1)] by (simp add: redact_pii_def)
next
  case OpRestart
  then show ?thesis
    using assms chain_inv_load by (fastforce split: option.split)
qed (use assms chain_inv_record in \<open>auto simp: rotate_def\<close>)

lemma chain_inv_run: "hexdigest sha \<Longrightarrow> chain_inv sha sign (chain_run sha sign ops)"
proof -
  assume h: "hexdigest sha"
  have start: "chain_inv sha sign (AuditChain_new (Some []))"
    by (simp add: chain_inv_def AuditChain_new_def load_from_store_def verify_chain_def chain_tail_def)
  have "chain_inv sha sign c \<Longrightarrow> chain_inv sha sign (foldl (chain_step sha sign) c ops)" for c
  proof (induction ops arbitrary: c)
    case (Cons op ops)
    then show ?case
      using chain_inv_step [OF h, of sign c op] by simp
  qed simp
  then show ?thesis
    unfolding chain_run_def using start by blast
qed

text \<open>
  C27. The signed audit chain verifies after every history of recordings (accepted or refused),
  permit nonces, rotations, redactions and process restarts, whatever the clock does: the links,
  the recomputed hashes and every signature check, provided the hash yields hexadecimal digests
  and the signer accepts its own signatures.
\<close>

theorem audit_chain_verifies:
  assumes "hexdigest sha" "\<And>m. check m (sign m)"
  shows "chain_verify sha check (chain_run sha sign ops)"
  using chain_inv_run [OF assms(1), of sign ops] assms(2)
  by (auto simp: chain_verify_def chain_inv_def list_all_iff)

theorem audit_chain_verifies_witness:
  "chain_verify (\<lambda>_. replicate 64 (CHR ''0'')) (\<lambda>m s. s = m)
     (chain_run (\<lambda>_. replicate 64 (CHR ''0'')) (\<lambda>m. m)
       [OpRotate 0 ''ops'', OpRestart, OpRotate 5 ''ops''])"
  by (rule audit_chain_verifies) (auto simp: hexdigest_def)

section \<open>Tampering is evident\<close>

definition same_event :: "audit_event \<Rightarrow> audit_event \<Rightarrow> bool" where
  "same_event e f \<longleftrightarrow> call_of e\<lparr>c_payload := []\<rparr> = call_of f\<lparr>c_payload := []\<rparr> \<and>
     norm_json (VDict (ev_payload e)) = norm_json (VDict (ev_payload f)) \<and>
     ev_id e = ev_id f \<and> ev_previous_hash e = ev_previous_hash f \<and> ev_hash e = ev_hash f \<and>
     iso_utc (ev_occurred_at e) = iso_utc (ev_occurred_at f)"

definition collision :: "(string \<Rightarrow> string) \<Rightarrow> audit_event list \<Rightarrow> audit_event list \<Rightarrow> bool" where
  "collision sha es fs \<longleftrightarrow> (\<exists>e \<in> set es. \<exists>f \<in> set fs.
     canonical_json (body_of e) \<noteq> canonical_json (body_of f) \<and>
     sha (canonical_json (body_of e)) = sha (canonical_json (body_of f)))"

definition hits_genesis :: "(string \<Rightarrow> string) \<Rightarrow> audit_event list \<Rightarrow> bool" where
  "hits_genesis sha es \<longleftrightarrow> (\<exists>e \<in> set es. sha (canonical_json (body_of e)) = GENESIS_HASH)"

lemma body_of_text_inject:
  assumes "canonical_json (body_of e) = canonical_json (body_of f)"
    and "wf_json (VDict (ev_payload e))" "wf_json (VDict (ev_payload f))" "ev_hash e = ev_hash f"
  shows "same_event e f"
proof -
  have wf: "wf_json (body_of e)" "wf_json (body_of f)"
    using assms(2,3) by (simp_all add: body_of_def event_body_def)
  have "norm_json (body_of e) = norm_json (body_of f)"
    using canonical_json_inject_gen [OF wf, of "[]" "[]"] assms(1) by simp
  then show ?thesis
    using assms(4) unfolding same_event_def body_of_def event_body_def call_of_def
    by simp
qed

lemma chain_tail_snoc:
  "ev_hash e = ''sha256:'' @ h \<Longrightarrow> chain_tail (es @ [e]) = h"
  using removeprefix_append [of "''sha256:''" h] by (simp add: chain_tail_def)

lemma tail_commits:
  assumes "hexdigest sha" "verify_chain sha es" "verify_chain sha fs" "chain_tail es = chain_tail fs"
    and "\<forall>e \<in> set es \<union> set fs. wf_json (VDict (ev_payload e))"
  shows "list_all2 same_event es fs \<or> collision sha es fs \<or> hits_genesis sha es \<or> hits_genesis sha fs"
  using assms(2-)
proof (induction es arbitrary: fs rule: rev_induct)
  case Nil
  show ?case
  proof (cases fs rule: rev_cases)
    case (snoc gs f)
    then show ?thesis
      using Nil verify_chain_snoc [OF assms(1), of gs f] chain_tail_snoc [of f _ gs]
      by (auto simp: hits_genesis_def chain_tail_def [of "[]"])
  qed simp
next
  case (snoc e es)
  note ve = snoc.prems(1) [unfolded verify_chain_snoc [OF assms(1)]]
  show ?case
  proof (cases fs rule: rev_cases)
    case Nil
    then show ?thesis
      using snoc.prems(3) ve chain_tail_snoc [of e _ es]
      by (auto simp: hits_genesis_def chain_tail_def [of "[]"])
  next
    case fs: (snoc gs f)
    note vf = snoc.prems(2) [unfolded fs verify_chain_snoc [OF assms(1)]]
    have same: "sha (canonical_json (body_of e)) = sha (canonical_json (body_of f))"
      using snoc.prems(3) ve vf chain_tail_snoc [of e _ es] chain_tail_snoc [of f _ gs] by (simp add: fs)
    show ?thesis
    proof (cases "canonical_json (body_of e) = canonical_json (body_of f)")
      case False
      then show ?thesis
        using same by (auto simp: collision_def fs)
    next
      case True
      have ef: "same_event e f"
        using body_of_text_inject [OF True] snoc.prems(4) ve vf same by (simp add: fs)
      then have "chain_tail es = chain_tail gs"
        using ve vf by (simp add: same_event_def)
      then have "list_all2 same_event es gs \<or> collision sha es gs \<or> hits_genesis sha es \<or> hits_genesis sha gs"
        using snoc.IH [of gs] ve vf snoc.prems(4) by (simp add: fs)
      then show ?thesis
        using ef by (auto simp: fs collision_def hits_genesis_def list_all2_appendI)
    qed
  qed
qed

text \<open>
  C28. Tampering is evident from the last hash alone: if two event lists both verify and end in the
  same tail hash, they hold the same events one by one (actor, action, resource, payload up to
  key order, timestamp, links), unless the hash function collides on the texts of two of their
  events or maps one of them to the all-zero genesis hash.
\<close>

theorem audit_tail_commits_to_history:
  assumes "hexdigest sha" "verify_chain sha es" "verify_chain sha fs" "chain_tail es = chain_tail fs"
    and "\<forall>e \<in> set es \<union> set fs. wf_json (VDict (ev_payload e))"
    and "\<not> collision sha es fs" "\<not> hits_genesis sha es" "\<not> hits_genesis sha fs"
  shows "list_all2 same_event es fs"
  using tail_commits [OF assms(1-5)] assms(6-) by blast

theorem audit_tail_commits_to_history_witness:
  "list_all2 same_event
     (map sg_event (ac_events (chain_run (\<lambda>_. replicate 64 (CHR ''1'')) id [OpRotate 0 ''ops''])))
     (map sg_event (ac_events (chain_run (\<lambda>_. replicate 64 (CHR ''1'')) id [OpRotate 0 ''ops''])))"
proof (rule audit_tail_commits_to_history)
  let ?sha = "\<lambda>_ :: string. replicate 64 (CHR ''1'')"
  let ?es = "map sg_event (ac_events (chain_run ?sha id [OpRotate 0 ''ops'']))"
  show h: "hexdigest ?sha"
    by (simp add: hexdigest_def)
  show "verify_chain ?sha ?es" "verify_chain ?sha ?es"
    using chain_inv_run [OF h] by (auto simp: chain_inv_def)
  show "\<forall>e \<in> set ?es \<union> set ?es. wf_json (VDict (ev_payload e))"
    by code_simp
  show "\<not> collision ?sha ?es ?es" "\<not> hits_genesis ?sha ?es" "\<not> hits_genesis ?sha ?es"
    by code_simp+
qed simp

section \<open>Redaction\<close>

definition masked :: "string set \<Rightarrow> pydict \<Rightarrow> pydict" where
  "masked keys p = map (\<lambda>(k, v). (k, if k \<in> keys then VStr ''[REDACTED:gdpr]'' else v)) p"

lemma chain_record_frame:
  "ac_redactions (snd (chain_record sha sign now n call c)) = ac_redactions c"
  "prefix (ac_events c) (ac_events (snd (chain_record sha sign now n call c)))"
  by (simp_all add: chain_record_def Let_def split: sum.split)

lemma redact_pii_frame:
  assumes "redact_pii sha sign now eid keys actor c = (r, c')"
  shows "ac_redactions c' = dict_set eid keys (ac_redactions c)" "prefix (ac_events c) (ac_events c')"
proof -
  have "c' = snd (redact_pii sha sign now eid keys actor c)"
    using assms by simp
  then show "ac_redactions c' = dict_set eid keys (ac_redactions c)" "prefix (ac_events c) (ac_events c')"
    using chain_record_frame(2) [of "c\<lparr>ac_redactions := dict_set eid keys (ac_redactions c)\<rparr>"]
    by (auto simp: redact_pii_def chain_record_frame(1))
qed

lemma redact_pii_event:
  assumes "redact_pii sha sign now eid keys actor c = (r, c')" "i < length (ac_events c)"
    "ev_id (sg_event (ac_events c ! i)) = eid" "keys \<noteq> {}"
  shows "i < length (ac_events c')" "ac_events c' ! i = ac_events c ! i"
    "ev_payload (chain_export True c' ! i) = masked keys (ev_payload (sg_event (ac_events c ! i)))"
proof -
  show i: "i < length (ac_events c')" "ac_events c' ! i = ac_events c ! i"
    using redact_pii_frame(2) [OF assms(1)] assms(2) by (auto simp: prefix_def nth_append)
  show "ev_payload (chain_export True c' ! i) = masked keys (ev_payload (sg_event (ac_events c ! i)))"
    using assms(3,4) i redact_pii_frame(1) [OF assms(1)] by (simp add: chain_export_def masked_def Let_def)
qed

lemma dict_get_masked: "k \<notin> keys \<Longrightarrow> dict_get (masked keys p) k = dict_get p k"
  by (induction p) (auto simp: masked_def)

text \<open>
  Redacting keys of an event keeps every event the chain held: an unredacted export still
  begins with exactly those events, while a redacted export shows each of them with its hash and
  id unchanged and, for the redacted event, none of the redacted keys in clear.
\<close>

theorem redaction_masks_and_preserves:
  assumes "i < length (ac_events c)" "ev_id (sg_event (ac_events c ! i)) = eid" "keys \<noteq> {}"
    and "redact_pii sha sign now eid keys actor c = (r, c')"
  shows "prefix (chain_export False c) (chain_export False c') \<and>
    map ev_hash (chain_export True c') = map ev_hash (chain_export False c') \<and>
    map ev_id (chain_export True c') = map ev_id (chain_export False c') \<and>
    ev_payload (chain_export True c' ! i) = masked keys (ev_payload (sg_event (ac_events c ! i)))"
proof -
  have "map ev_hash (chain_export True c') = map ev_hash (chain_export False c')"
    "map ev_id (chain_export True c') = map ev_id (chain_export False c')"
    by (auto simp: chain_export_def Let_def split: option.split)
  then show ?thesis
    using redact_pii_event [OF assms(4,1-3)] redact_pii_frame(2) [OF assms(4)]
    by (simp add: chain_export_def map_mono_prefix)
qed

theorem redaction_masks_and_preserves_witness:
  "let sha = (\<lambda>_. replicate 64 (CHR ''1'')); c = chain_run sha id
         [OpRecord 0 None \<lparr>c_actor = ''a'', c_action = ''x'', c_resource_type = ''r'', c_resource_id = ''1'',
            c_payload = [(''email'', VStr ''me''), (''n'', VInt 1)]\<rparr>];
       c' = snd (redact_pii sha id 1 ''evt-1'' {''email''} ''dpo'' c) in
     prefix (chain_export False c) (chain_export False c') \<and>
     map ev_hash (chain_export True c') = map ev_hash (chain_export False c') \<and>
     map ev_id (chain_export True c') = map ev_id (chain_export False c') \<and>
     ev_payload (chain_export True c' ! 0) = masked {''email''} (ev_payload (sg_event (ac_events c ! 0)))"
  unfolding Let_def
  by (rule redaction_masks_and_preserves [where eid = "''evt-1''" and sha = "\<lambda>_. replicate 64 (CHR ''1'')" and sign = id and now = 1 and actor = "''dpo''",
        OF _ _ _ prod.collapse [symmetric]]) (code_simp | simp)+

text \<open>
  A second redaction of the same event replaces the first: a key of the first redaction
  that the second does not name is exported in clear again.
\<close>

theorem second_redaction_replaces_first:
  assumes "i < length (ac_events c)" "ev_id (sg_event (ac_events c ! i)) = eid"
    and "k \<in> keys1" "k \<notin> keys2" "keys2 \<noteq> {}"
    and "redact_pii sha sign t1 eid keys1 actor1 c = (r1, c1)"
    and "redact_pii sha sign t2 eid keys2 actor2 c1 = (r2, c2)"
  shows "dict_get (ev_payload (chain_export True c2 ! i)) k =
         dict_get (ev_payload (sg_event (ac_events c ! i))) k"
proof -
  have "i < length (ac_events c1)" "ac_events c1 ! i = ac_events c ! i"
    using redact_pii_event(1,2) [OF assms(6,1,2)] assms(3) by auto
  then show ?thesis
    using redact_pii_event(3) [OF assms(7)] assms by (simp add: dict_get_masked)
qed

theorem second_redaction_replaces_first_witness:
  "let sha = (\<lambda>_. replicate 64 (CHR ''1'')); c = chain_run sha id
         [OpRecord 0 None \<lparr>c_actor = ''a'', c_action = ''x'', c_resource_type = ''r'', c_resource_id = ''1'',
            c_payload = [(''email'', VStr ''me''), (''n'', VInt 1)]\<rparr>];
       c1 = snd (redact_pii sha id 1 ''evt-1'' {''email''} ''dpo'' c);
       c2 = snd (redact_pii sha id 2 ''evt-1'' {''n''} ''dpo'' c1) in
     dict_get (ev_payload (chain_export True c2 ! 0)) ''email'' =
     dict_get (ev_payload (sg_event (ac_events c ! 0))) ''email''"
  unfolding Let_def
  by (rule second_redaction_replaces_first [OF _ _ _ _ _ prod.collapse [symmetric] prod.collapse [symmetric],
        where eid = "''evt-1''" and ?keys1.0 = "{''email''}"]) (code_simp | simp)+

text \<open>
  A refused recording still advances the in-memory counter, which a restart resets to the number of
  stored events: the next recording then repeats an event id that is already in the chain.
\<close>

theorem event_ids_repeat_after_refused_record:
  "map (ev_id \<circ> sg_event) (ac_events (chain_run (\<lambda>_. replicate 64 (CHR ''1'')) id
      [OpRecord 0 None \<lparr>c_actor = [], c_action = ''x'', c_resource_type = ''r'', c_resource_id = ''1'', c_payload = []\<rparr>,
       OpRotate 1 ''ops'', OpRestart, OpRotate 2 ''ops''])) = [''evt-2'', ''evt-2'']"
  by code_simp

end
