(* ===== verification/Verification.thy ===== *)
theory Verification
  imports Audit_Trail
begin

text \<open>
  The verification oracle: the curated methods and the N-of-N decision rule
  (\<^verbatim>\<open>domain/verification/\<close>), single-use canary tokens (\<^verbatim>\<open>application/canary.py\<close>), the engine that
  runs the reproductions (\<^verbatim>\<open>application/oracle.py\<close>), and the differential and rescan verifiers with
  their factory (\<^verbatim>\<open>infrastructure/oracle/\<close>).

  The engine and the verifiers run over a world that holds the canary manager, the audit calls,
  the outputs of \<^verbatim>\<open>secrets.token_urlsafe\<close> still to be drawn and the outside \<^typ>\<open>'w\<close> (the scanned
  target and the callback server), which the transports read and change.
\<close>

section \<open>Methods and decisions\<close>

datatype vuln_type = SQLI | RCE | SSRF | XXE | XSS | DESERIALIZATION | FILE_READ | AUTH_BYPASS
  | PATH_TRAVERSAL | IDOR | PARAM_TAMPERING | MFA_BYPASS | WEAK_CREDENTIALS | PRIVILEGE_ESCALATION

fun vuln_value :: "vuln_type \<Rightarrow> string" where
  "vuln_value SQLI = ''sqli''"
| "vuln_value RCE = ''rce''"
| "vuln_value SSRF = ''ssrf''"
| "vuln_value XXE = ''xxe''"
| "vuln_value XSS = ''xss''"
| "vuln_value DESERIALIZATION = ''deserialization''"
| "vuln_value FILE_READ = ''file_read''"
| "vuln_value AUTH_BYPASS = ''auth_bypass''"
| "vuln_value PATH_TRAVERSAL = ''path_traversal''"
| "vuln_value IDOR = ''idor''"
| "vuln_value PARAM_TAMPERING = ''param_tampering''"
| "vuln_value MFA_BYPASS = ''mfa_bypass''"
| "vuln_value WEAK_CREDENTIALS = ''weak_credentials''"
| "vuln_value PRIVILEGE_ESCALATION = ''privilege_escalation''"

datatype retry_strategy = CROSS_WORKER | SAME_WORKER

datatype verification_status = VPENDING | CONFIRMED | REFUTED | INCONCLUSIVE

fun status_value :: "verification_status \<Rightarrow> string" where
  "status_value VPENDING = ''pending''"
| "status_value CONFIRMED = ''confirmed''"
| "status_value REFUTED = ''refuted''"
| "status_value INCONCLUSIVE = ''inconclusive''"

datatype reproduction_status = SUCCESS | FAILURE | SERVER_ERROR

record verification_method =
  vm_vuln_type :: vuln_type
  default_n :: int
  vm_retry_strategy :: retry_strategy
  vm_cross_worker :: bool
  server_error_threshold :: int
  oob_window_seconds :: int
  echo_enabled :: bool
  diff_semantic :: bool

text \<open>\<^verbatim>\<open>VerificationMethod.__post_init__\<close>.\<close>

definition VerificationMethod_check :: "verification_method \<Rightarrow> verification_method result" where
  "VerificationMethod_check m =
     (if default_n m < 1 then Inl (DomainValidationError ''VerificationMethod.default_n must be >= 1'')
      else if server_error_threshold m < 1 then
        Inl (DomainValidationError ''VerificationMethod.server_error_threshold must be >= 1'')
      else if oob_window_seconds m < 0 then
        Inl (DomainValidationError ''VerificationMethod.oob_window_seconds must be >= 0'')
      else if echo_enabled m \<and> diff_semantic m then
        Inl (DomainValidationError ''VerificationMethod cannot be both echo_enabled and diff_semantic'')
      else Inr m)"

datatype expectation = DENY | SINGLE_SPEND | STATE_REJECT | STATE_CHANGE

record diff_payload =
  dp_candidate_id :: string
  baseline_request :: pydict
  assertion_request :: pydict
  dp_expectation :: expectation
  state_readback :: "string option"

definition DiffSemanticPayload_check :: "diff_payload \<Rightarrow> diff_payload result" where
  "DiffSemanticPayload_check d =
     (if dp_candidate_id d = [] then Inl (DomainValidationError ''DiffSemanticPayload.candidate_id required'')
      else if baseline_request d = [] then
        Inl (DomainValidationError ''baseline_request must be a non-empty dict'')
      else if assertion_request d = [] then
        Inl (DomainValidationError ''assertion_request must be a non-empty dict'')
      else Inr d)"

text \<open>The \<^verbatim>\<open>object\<close> a candidate may carry: a diff payload, or something else.\<close>

datatype diff_object = DiffPayload diff_payload | OtherObject

record candidate_finding =
  cf_id :: string
  cf_observation_id :: string
  cf_vuln_type :: vuln_type
  cf_target :: string
  cf_status :: verification_status
  cf_diff :: "diff_object option"

definition CandidateFinding_check :: "candidate_finding \<Rightarrow> candidate_finding result" where
  "CandidateFinding_check c =
     (if cf_id c = [] then Inl (DomainValidationError ''CandidateFinding.id must be non-empty'')
      else if cf_observation_id c = [] then
        Inl (DomainValidationError ''CandidateFinding.observation_id must be non-empty'')
      else if cf_target c = [] then
        Inl (DomainValidationError ''CandidateFinding.target must be non-empty'')
      else Inr c)"

record confirmed_finding =
  cnf_candidate_id :: string
  cnf_vuln_type :: vuln_type
  cnf_evidence_ids :: "string list"
  cnf_verified_at :: datetime
  cnf_successes :: int
  cnf_attempts :: int

definition ConfirmedFinding_check :: "confirmed_finding \<Rightarrow> confirmed_finding result" where
  "ConfirmedFinding_check c =
     (if cnf_candidate_id c = [] then
        Inl (DomainValidationError ''ConfirmedFinding.candidate_id must be non-empty'')
      else if cnf_successes c < 1 then
        Inl (DomainValidationError ''ConfirmedFinding.successes must be >= 1'')
      else if cnf_attempts c < cnf_successes c then
        Inl (DomainValidationError ''ConfirmedFinding.attempts must be >= successes'')
      else Inr c)"

record verification_result =
  vr_status :: verification_status
  vr_successes :: int
  vr_attempts :: int
  vr_reason :: string

definition VerificationResult_check :: "verification_result \<Rightarrow> verification_result result" where
  "VerificationResult_check r =
     (if vr_successes r < 0 \<or> vr_attempts r < 0 then
        Inl (DomainValidationError ''VerificationResult counts must be >= 0'')
      else if vr_successes r > vr_attempts r then
        Inl (DomainValidationError ''VerificationResult.successes cannot exceed attempts'')
      else Inr r)"

definition decide_outcome :: "verification_method \<Rightarrow> int \<Rightarrow> int \<Rightarrow> int \<Rightarrow> verification_status" where
  "decide_outcome m successes attempts inconclusive_count =
     (if successes \<ge> default_n m then CONFIRMED
      else if attempts \<ge> default_n m then
        (if inconclusive_count \<ge> server_error_threshold m then INCONCLUSIVE else REFUTED)
      else VPENDING)"

section \<open>The method registry\<close>

type_synonym method_registry = "(vuln_type \<times> verification_method) list"

fun registry_add :: "method_registry \<Rightarrow> verification_method list \<Rightarrow> method_registry result" where
  "registry_add by_type [] = Inr by_type"
| "registry_add by_type (m # ms) =
     (if vm_vuln_type m \<in> set (dict_keys by_type) then
        Inl (DomainValidationError (''duplicate verification method for vuln_type='' @ vuln_value (vm_vuln_type m)))
      else registry_add (dict_set (vm_vuln_type m) m by_type) ms)"

definition VerificationMethodRegistry :: "verification_method list \<Rightarrow> method_registry result" where
  "VerificationMethodRegistry ms = registry_add [] ms"

definition method_for :: "method_registry \<Rightarrow> vuln_type \<Rightarrow> verification_method option" where
  "method_for reg vt = dict_get reg vt"

definition require_method :: "method_registry \<Rightarrow> vuln_type \<Rightarrow> verification_method result" where
  "require_method reg vt =
     (case dict_get reg vt of
        None \<Rightarrow> Inl (DomainValidationError (''no verification method curated for vuln_type='' @ vuln_value vt))
      | Some m \<Rightarrow> Inr m)"

definition vuln_types :: "method_registry \<Rightarrow> vuln_type list" where
  "vuln_types reg = sort_key vuln_value (dict_keys reg)"

definition plain_method :: "vuln_type \<Rightarrow> int \<Rightarrow> verification_method" where
  "plain_method vt n = \<lparr>vm_vuln_type = vt, default_n = n, vm_retry_strategy = CROSS_WORKER,
     vm_cross_worker = True, server_error_threshold = 2, oob_window_seconds = 0,
     echo_enabled = False, diff_semantic = False\<rparr>"

definition default_methods :: "verification_method list" where
  "default_methods =
     [plain_method SQLI 5,
      plain_method RCE 3,
      (plain_method SSRF 3)\<lparr>oob_window_seconds := 30\<rparr>,
      (plain_method XXE 3)\<lparr>oob_window_seconds := 30\<rparr>,
      (plain_method XSS 3)\<lparr>echo_enabled := True\<rparr>,
      (plain_method DESERIALIZATION 3)\<lparr>oob_window_seconds := 30\<rparr>,
      plain_method FILE_READ 3,
      (plain_method AUTH_BYPASS 3)\<lparr>diff_semantic := True\<rparr>,
      plain_method PATH_TRAVERSAL 3,
      (plain_method IDOR 3)\<lparr>diff_semantic := True\<rparr>,
      plain_method PARAM_TAMPERING 3,
      (plain_method MFA_BYPASS 3)\<lparr>diff_semantic := True\<rparr>,
      plain_method WEAK_CREDENTIALS 3,
      (plain_method PRIVILEGE_ESCALATION 3)\<lparr>diff_semantic := True\<rparr>]"

definition default_registry :: "method_registry result" where
  "default_registry = VerificationMethodRegistry default_methods"

definition CWE_TO_VULN :: "(string \<times> vuln_type) list" where
  "CWE_TO_VULN =
     [(''CWE-89'', SQLI), (''CWE-77'', RCE), (''CWE-78'', RCE), (''CWE-918'', SSRF), (''CWE-611'', XXE),
      (''CWE-79'', XSS), (''CWE-502'', DESERIALIZATION), (''CWE-22'', PATH_TRAVERSAL),
      (''CWE-23'', PATH_TRAVERSAL), (''CWE-35'', PATH_TRAVERSAL), (''CWE-639'', IDOR),
      (''CWE-287'', AUTH_BYPASS), (''CWE-306'', AUTH_BYPASS), (''CWE-269'', PRIVILEGE_ESCALATION),
      (''CWE-521'', WEAK_CREDENTIALS)]"

definition vuln_type_for_cwe :: "string \<Rightarrow> vuln_type option" where
  "vuln_type_for_cwe cwe = dict_get CWE_TO_VULN cwe"

fun vuln_type_for_cwes :: "string list \<Rightarrow> vuln_type option" where
  "vuln_type_for_cwes [] = None"
| "vuln_type_for_cwes (cwe # cwes) =
     (case vuln_type_for_cwe cwe of Some vt \<Rightarrow> Some vt | None \<Rightarrow> vuln_type_for_cwes cwes)"

section \<open>Differential semantics\<close>

record diff_response =
  dr_status :: int
  dr_body :: "pydict option"

record assertion_result =
  ar_expectation :: expectation
  ar_base :: diff_response
  ar_assertion :: diff_response
  refused :: bool
  structure_same :: bool
  state_ok :: "bool option"

definition decide_diff_outcome :: "assertion_result \<Rightarrow> reproduction_status" where
  "decide_diff_outcome r =
     (case ar_expectation r of
        DENY \<Rightarrow>
          (if \<not> refused r \<and> structure_same r then SUCCESS
           else if refused r then FAILURE
           else SERVER_ERROR)
      | SINGLE_SPEND \<Rightarrow>
          (if state_ok r = Some False then FAILURE
           else if \<not> refused r \<and> structure_same r then SUCCESS
           else if refused r then FAILURE
           else SERVER_ERROR)
      | STATE_REJECT \<Rightarrow> (if \<not> refused r then SUCCESS else FAILURE)
      | STATE_CHANGE \<Rightarrow> (if \<not> refused r then SUCCESS else FAILURE))"

text \<open>\<^verbatim>\<open>type(a) is type(b)\<close> for two values that are neither both dicts nor both lists.\<close>

fun same_type :: "pyval \<Rightarrow> pyval \<Rightarrow> bool" where
  "same_type VNone VNone = True"
| "same_type (VBool _) (VBool _) = True"
| "same_type (VInt _) (VInt _) = True"
| "same_type (VFloat _) (VFloat _) = True"
| "same_type (VStr _) (VStr _) = True"
| "same_type (VList _) (VList _) = True"
| "same_type (VDict _) (VDict _) = True"
| "same_type _ _ = False"

lemma size_dict_elem: "(k, v) \<in> set d \<Longrightarrow> size v < Suc (size_list (size_prod (\<lambda>x. 0) size) d)"
  by (induction d) auto

function structure_compatible :: "pyval \<Rightarrow> pyval \<Rightarrow> bool" where
  "structure_compatible a b =
     (case (a, b) of
        (VDict d, VDict e) \<Rightarrow>
          set (dict_keys d) = set (dict_keys e) \<and>
          (\<forall>(k, v) \<in> set d. case dict_get e k of None \<Rightarrow> False | Some w \<Rightarrow> structure_compatible v w)
      | (VList xs, VList ys) \<Rightarrow>
          length xs = length ys \<and> (\<forall>(x, y) \<in> set (zip xs ys). structure_compatible x y)
      | _ \<Rightarrow> same_type a b)"
  by pat_completeness auto
termination
  by (relation "measure (\<lambda>(a, b). size a)")
     (auto simp: less_Suc_eq_le size_list_estimation' [OF set_zip_leftD] dest: size_dict_elem)

declare structure_compatible.simps [simp del]

section \<open>The world and canary tokens\<close>

record 'w oracle_world =
  issued :: "string set"
  consumed :: "string set"
  draws :: "string list"
  audited :: "audit_call list"
  outside :: 'w

definition audit_step :: "audit_call \<Rightarrow> ('w oracle_world, unit) cmd" where
  "audit_step c w = (case log_record c (audited w) of (r, log) \<Rightarrow> (r, w\<lparr>audited := log\<rparr>))"

definition audit_id :: "(string \<Rightarrow> string) \<Rightarrow> string \<Rightarrow> string" where
  "audit_id sha token = ''canary:'' @ take 8 token @ '':'' @ take 12 (sha token)"

text \<open>The draw loop of \<^verbatim>\<open>generate\<close>: the first drawn token that was not issued before.\<close>

fun draw_fresh :: "string set \<Rightarrow> string list \<Rightarrow> (string \<times> string list) option" where
  "draw_fresh seen [] = None"
| "draw_fresh seen (t # ts) = (if t \<in> seen then draw_fresh seen ts else Some (t, ts))"

definition generate :: "(string \<Rightarrow> string) \<Rightarrow> string \<Rightarrow> string \<Rightarrow> ('w oracle_world, string) cmd" where
  "generate sha actor candidate_id w =
     (case draw_fresh (issued w) (draws w) of
        None \<Rightarrow> (Inl DrawsExhausted, w\<lparr>draws := []\<rparr>)
      | Some (token, rest) \<Rightarrow>
          bindC (audit_step \<lparr>c_actor = actor, c_action = ''canary.generated'',
                   c_resource_type = ''canary_token'', c_resource_id = audit_id sha token,
                   c_payload = [(''candidate_id'', VStr candidate_id)]\<rparr>)
            (\<lambda>_. returnC token)
            (w\<lparr>draws := rest, issued := insert token (issued w)\<rparr>))"

definition CANARY_PLACEHOLDER :: string where
  "CANARY_PLACEHOLDER = ''{{canary_token}}''"

definition require_issued :: "string \<Rightarrow> ('w oracle_world, unit) cmd" where
  "require_issued token w =
     (if token \<notin> issued w then (Inl (TokenNotIssuedError ''canary token was never issued''), w)
      else (Inr (), w))"

definition require_not_consumed :: "string \<Rightarrow> ('w oracle_world, unit) cmd" where
  "require_not_consumed token w =
     (if token \<in> consumed w
      then (Inl (TokenReuseError ''canary token is single-use and already consumed''), w)
      else (Inr (), w))"

definition embed :: "string \<Rightarrow> string \<Rightarrow> ('w oracle_world, string) cmd" where
  "embed template token =
     bindC (require_issued token) (\<lambda>_. returnC (replace_str template CANARY_PLACEHOLDER token))"

definition oob_subdomain :: "string \<Rightarrow> string \<Rightarrow> ('w oracle_world, string) cmd" where
  "oob_subdomain oob_domain token =
     bindC (require_issued token) (\<lambda>_. returnC (token @ ''.'' @ oob_domain))"

definition verify_echo :: "(string \<Rightarrow> string) \<Rightarrow> string \<Rightarrow> string \<Rightarrow> string \<Rightarrow> ('w oracle_world, bool) cmd" where
  "verify_echo sha response token actor =
     bindC (require_issued token) (\<lambda>_. bindC (require_not_consumed token) (\<lambda>_ w.
       let hit = contains_str response token in
       bindC (audit_step \<lparr>c_actor = actor, c_action = ''canary.verified'',
                c_resource_type = ''canary_token'', c_resource_id = audit_id sha token,
                c_payload = [(''hit'', VBool hit)]\<rparr>)
         (\<lambda>_. returnC hit) (w\<lparr>consumed := insert token (consumed w)\<rparr>)))"

section \<open>The engine\<close>

type_synonym 'w verifier =
  "candidate_finding \<Rightarrow> verification_method \<Rightarrow> string \<Rightarrow> ('w oracle_world, reproduction_status) cmd"

text \<open>The loop of \<^verbatim>\<open>OracleEngine.verify\<close> with its three counters.\<close>

fun verify_loop ::
  "(string \<Rightarrow> string) \<Rightarrow> 'w verifier \<Rightarrow> string \<Rightarrow> candidate_finding \<Rightarrow> verification_method \<Rightarrow> nat \<Rightarrow>
   int \<Rightarrow> int \<Rightarrow> int \<Rightarrow> ('w oracle_world, int \<times> int \<times> int) cmd" where
  "verify_loop sha reproduce actor cand m 0 successes inconclusive attempts =
     returnC (successes, inconclusive, attempts)"
| "verify_loop sha reproduce actor cand m (Suc n) successes inconclusive attempts =
     bindC (generate sha actor (cf_id cand)) (\<lambda>token.
     bindC (reproduce cand m token) (\<lambda>status.
       verify_loop sha reproduce actor cand m n
         (if status = SUCCESS then successes + 1 else successes)
         (if status = SERVER_ERROR then inconclusive + 1 else inconclusive)
         (attempts + 1)))"

definition verify_reason :: "verification_status \<Rightarrow> int \<Rightarrow> int \<Rightarrow> int \<Rightarrow> string" where
  "verify_reason outcome successes attempts inconclusive =
     status_value outcome @ '': '' @ int_repr successes @ ''/'' @ int_repr attempts @
     '' reproductions ('' @ int_repr inconclusive @ '' server errors)''"

definition engine_verify ::
  "(string \<Rightarrow> string) \<Rightarrow> method_registry \<Rightarrow> 'w verifier \<Rightarrow> string \<Rightarrow> candidate_finding \<Rightarrow>
   ('w oracle_world, verification_result) cmd" where
  "engine_verify sha reg reproduce actor cand =
     bindC (liftC (require_method reg (cf_vuln_type cand))) (\<lambda>m.
     bindC (verify_loop sha reproduce actor cand m (nat (default_n m)) 0 0 0)
       (\<lambda>(successes, inconclusive, attempts).
          let outcome = decide_outcome m successes attempts inconclusive in
          liftC (VerificationResult_check
            \<lparr>vr_status = outcome, vr_successes = successes, vr_attempts = attempts,
             vr_reason = verify_reason outcome successes attempts inconclusive\<rparr>)))"

definition engine_confirm ::
  "candidate_finding \<Rightarrow> verification_result \<Rightarrow> string list \<Rightarrow> datetime \<Rightarrow> confirmed_finding result" where
  "engine_confirm cand r evidence_ids verified_at =
     (if vr_status r \<noteq> CONFIRMED then
        Inl (DomainValidationError
          (''only a CONFIRMED oracle result can become a ConfirmedFinding (got '' @
           status_value (vr_status r) @ '')''))
      else ConfirmedFinding_check
        \<lparr>cnf_candidate_id = cf_id cand, cnf_vuln_type = cf_vuln_type cand,
         cnf_evidence_ids = evidence_ids, cnf_verified_at = verified_at,
         cnf_successes = vr_successes r, cnf_attempts = vr_attempts r\<rparr>)"

section \<open>Verifiers\<close>

text \<open>
  The diff transport executes one request on the outside; it reports a transport failure as
  status 0 and does not raise (\<^verbatim>\<open>HttpDiffSemanticRunner.execute\<close> catches).
\<close>

type_synonym 'w diff_runner = "pydict \<Rightarrow> 'w \<Rightarrow> diff_response \<times> 'w"

definition run_request :: "'w diff_runner \<Rightarrow> pydict \<Rightarrow> ('w oracle_world, diff_response) cmd" where
  "run_request runner req w = (case runner req (outside w) of (r, o') \<Rightarrow> (Inr r, w\<lparr>outside := o'\<rparr>))"

definition body_value :: "diff_response \<Rightarrow> pyval" where
  "body_value r = (case dr_body r of None \<Rightarrow> VNone | Some d \<Rightarrow> VDict d)"

definition readback_ok :: "diff_response \<Rightarrow> bool" where
  "readback_ok state \<longleftrightarrow> dr_body state \<in> {None, Some []}"

definition diff_reproduce :: "'w diff_runner \<Rightarrow> 'w verifier" where
  "diff_reproduce runner cand m canary_token =
     (case cf_diff cand of
        Some (DiffPayload diff) \<Rightarrow>
          bindC (run_request runner (baseline_request diff)) (\<lambda>base.
          bindC (run_request runner (assertion_request diff)) (\<lambda>assertion.
            if dr_status base = 0 \<or> dr_status assertion = 0 then returnC SERVER_ERROR
            else
              let r = \<lparr>ar_expectation = dp_expectation diff, ar_base = base, ar_assertion = assertion,
                       refused = dr_status assertion \<in> {400, 401, 403},
                       structure_same = structure_compatible (body_value base) (body_value assertion),
                       state_ok = None\<rparr> in
              (case state_readback diff of
                 Some (c # url) \<Rightarrow>
                   bindC (run_request runner [(''method'', VStr ''GET''), (''url'', VStr (c # url))]) (\<lambda>state.
                     if dr_status state = 0 then returnC SERVER_ERROR
                     else returnC (decide_diff_outcome (r\<lparr>state_ok := Some (readback_ok state)\<rparr>)))
               | _ \<Rightarrow> returnC (decide_diff_outcome r))))
      | _ \<Rightarrow> returnC FAILURE)"

fun contains_val :: "pyval \<Rightarrow> string \<Rightarrow> bool" where
  "contains_val (VStr s) marker = contains_str s marker"
| "contains_val (VDict d) marker = (\<exists>v \<in> set (map snd d). contains_val v marker)"
| "contains_val (VList vs) marker = (\<exists>v \<in> set vs. contains_val v marker)"
| "contains_val _ marker = False"

fun replace_val :: "pyval \<Rightarrow> string \<Rightarrow> string \<Rightarrow> pyval" where
  "replace_val (VStr s) marker r = VStr (if contains_str s marker then replace_str s marker r else s)"
| "replace_val (VDict d) marker r = VDict (map (\<lambda>(k, v). (k, replace_val v marker r)) d)"
| "replace_val (VList vs) marker r = VList (map (\<lambda>v. replace_val v marker r) vs)"
| "replace_val v marker r = v"

definition OOB_PLACEHOLDER :: string where
  "OOB_PLACEHOLDER = ''{{canary_oob_subdomain}}''"

text \<open>The scanner (a container run) and the callback server, as the rescan verifier uses them.\<close>

record scan_result =
  sr_stdout :: string
  sr_assets :: "string list"

type_synonym 'w scan_runner = "pyval \<Rightarrow> 'w \<Rightarrow> scan_result result \<times> 'w"

record 'w interactsh_transport =
  it_register :: "'w \<Rightarrow> string result \<times> 'w"
  it_poll :: "string \<Rightarrow> 'w \<Rightarrow> pydict list result \<times> 'w"

definition outsideC :: "('w \<Rightarrow> 'a result \<times> 'w) \<Rightarrow> ('w oracle_world, 'a) cmd" where
  "outsideC f w = (case f (outside w) of (r, o') \<Rightarrow> (r, w\<lparr>outside := o'\<rparr>))"

definition allocate_correlated :: "'w interactsh_transport \<Rightarrow> string \<Rightarrow> ('w oracle_world, string \<times> string) cmd" where
  "allocate_correlated it canary =
     bindC (outsideC (it_register it)) (\<lambda>domain. returnC (canary @ ''.'' @ domain, domain))"

record oob_interaction =
  oob_protocol :: string
  oob_unique_id :: string
  oob_raw :: string

definition str_field :: "pydict \<Rightarrow> string \<Rightarrow> string" where
  "str_field d k = (case dict_get d k of None \<Rightarrow> [] | Some v \<Rightarrow> py_str v)"

definition collect :: "'w interactsh_transport \<Rightarrow> string \<Rightarrow> string \<Rightarrow> ('w oracle_world, oob_interaction list) cmd" where
  "collect it canary domain =
     bindC (outsideC (it_poll it domain)) (\<lambda>records.
       returnC (map (\<lambda>d. \<lparr>oob_protocol = str_field d ''protocol'', oob_unique_id = str_field d ''unique_id'',
                         oob_raw = str_field d ''raw''\<rparr>)
                 (filter (\<lambda>d. str_field d ''unique_id'' = canary) records)))"

definition has_callback :: "'w interactsh_transport \<Rightarrow> string \<Rightarrow> string \<Rightarrow> ('w oracle_world, bool) cmd" where
  "has_callback it canary domain =
     bindC (collect it canary domain) (\<lambda>xs. returnC (length xs > 0))"

definition rescan_reproduce ::
  "(string \<Rightarrow> string) \<Rightarrow> 'w scan_runner \<Rightarrow> pyval \<Rightarrow> bool \<Rightarrow> 'w interactsh_transport option \<Rightarrow> 'w verifier" where
  "rescan_reproduce sha scan kwargs has_canary interactsh cand m token =
     (if interactsh \<noteq> None \<and> oob_window_seconds m > 0 \<and> token \<noteq> [] \<and> contains_val kwargs OOB_PLACEHOLDER then
        bindC (allocate_correlated (the interactsh) token) (\<lambda>(subdomain, correlation).
        bindC (outsideC (scan (replace_val kwargs OOB_PLACEHOLDER subdomain))) (\<lambda>_.
        bindC (has_callback (the interactsh) token correlation) (\<lambda>hit.
          returnC (if hit then SUCCESS else FAILURE))))
      else if has_canary \<and> token \<noteq> [] \<and> contains_val kwargs CANARY_PLACEHOLDER then
        bindC (outsideC (scan (replace_val kwargs CANARY_PLACEHOLDER token))) (\<lambda>result.
        bindC (verify_echo sha (sr_stdout result) token ''oracle'') (\<lambda>echoed.
          returnC (if echoed then SUCCESS else FAILURE)))
      else
        bindC (outsideC (scan kwargs)) (\<lambda>result.
          returnC (if \<exists>a \<in> set (sr_assets result). cf_target cand = a \<or> contains_str a (cf_target cand) \<or>
                        contains_str (cf_target cand) a
                   then SUCCESS else FAILURE)))"

text \<open>\<^verbatim>\<open>RescanVerifierFactory.for_finding\<close> for a finding with an asset; \<open>reg\<close> is the optional
  registry and \<open>vt\<close> the vulnerability type every caller passes.\<close>

definition nuclei_kwargs :: "string \<Rightarrow> string option \<Rightarrow> pyval" where
  "nuclei_kwargs url template_dir = VDict
     ([(''adapter_key'', VStr ''nuclei''),
       (''args'', VStrs [''-t'', ''/templates/'', ''-u'', url, ''-jsonl'', ''-silent'', ''-duc''])] @
      (case template_dir of
         Some (c # d) \<Rightarrow> [(''mounts'', VDict [(''/templates'', VStr (c # d))])]
       | _ \<Rightarrow> []))"

definition for_finding ::
  "(string \<Rightarrow> string) \<Rightarrow> 'w scan_runner \<Rightarrow> string option \<Rightarrow> bool \<Rightarrow> 'w interactsh_transport option \<Rightarrow>
   method_registry option \<Rightarrow> 'w diff_runner \<Rightarrow> string \<Rightarrow> vuln_type option \<Rightarrow> 'w verifier" where
  "for_finding sha scan template_dir has_canary interactsh reg diff_runner asset vt =
     (let method = (case (reg, vt) of (Some g, Some t) \<Rightarrow> method_for g t | _ \<Rightarrow> None);
          url = asset @ (if contains_str asset ''?'' then ''&'' else ''?'') @ ''cb='' @ OOB_PLACEHOLDER in
      if (case method of Some m \<Rightarrow> diff_semantic m | None \<Rightarrow> False) then diff_reproduce diff_runner
      else
        let url' = (case method of Some m \<Rightarrow> if echo_enabled m then url @ ''&echo='' @ CANARY_PLACEHOLDER else url
                    | None \<Rightarrow> url) in
        rescan_reproduce sha scan (nuclei_kwargs url' template_dir) has_canary interactsh)"

section \<open>Lemmas: canary tokens\<close>

lemma draw_fresh_Some:
  "draw_fresh seen ts = Some (t, rest) \<Longrightarrow> t \<notin> seen \<and> suffix rest ts \<and> t \<in> set ts"
  by (induction ts) (auto simp: suffix_Cons split: if_splits)

lemma audit_step_frame [simp, frame_simps]:
  "issued (snd (audit_step c w)) = issued w" "consumed (snd (audit_step c w)) = consumed w"
  "draws (snd (audit_step c w)) = draws w" "outside (snd (audit_step c w)) = outside w"
  by (simp_all add: audit_step_def split: prod.split)

lemma generate_cases:
  obtains (exhausted) "draw_fresh (issued w) (draws w) = None" "generate sha actor cid w = (Inl DrawsExhausted, w\<lparr>draws := []\<rparr>)"
  | (drawn) t rest r w' where "draw_fresh (issued w) (draws w) = Some (t, rest)"
      "generate sha actor cid w = (r, w')" "r = Inr t \<or> (\<exists>e. r = Inl e)"
      "issued w' = insert t (issued w)" "consumed w' = consumed w" "draws w' = rest" "outside w' = outside w"
proof (cases "draw_fresh (issued w) (draws w)")
  case None
  then show thesis
    using exhausted by (simp add: generate_def)
next
  case (Some p)
  obtain t rest where p: "p = (t, rest)" by fastforce
  define w1 where "w1 = w\<lparr>draws := rest, issued := insert t (issued w)\<rparr>"
  define c where "c = \<lparr>c_actor = actor, c_action = ''canary.generated'', c_resource_type = ''canary_token'',
    c_resource_id = audit_id sha t, c_payload = [(''candidate_id'', VStr cid)]\<rparr>"
  have g: "generate sha actor cid w = bindC (audit_step c) (\<lambda>_. returnC t) w1"
    by (simp add: generate_def Some p w1_def c_def)
  show thesis
  proof (rule drawn)
    show "generate sha actor cid w = (fst (bindC (audit_step c) (\<lambda>_. returnC t) w1), snd (audit_step c w1))"
      unfolding g by (simp add: bindC_def split: prod.split sum.split)
    show "fst (bindC (audit_step c) (\<lambda>_. returnC t) w1) = Inr t \<or> (\<exists>e. fst (bindC (audit_step c) (\<lambda>_. returnC t) w1) = Inl e)"
      by (simp add: bindC_def split: prod.split sum.split)
  qed (simp_all add: Some p w1_def)
qed

lemma verify_echo_cases:
  obtains (refused) e where "verify_echo sha resp t actor w = (Inl e, w)" "t \<notin> issued w \<or> t \<in> consumed w"
  | (judged) r w' where "t \<in> issued w" "t \<notin> consumed w" "verify_echo sha resp t actor w = (r, w')"
      "r = Inr (contains_str resp t) \<or> (\<exists>e. r = Inl e)"
      "issued w' = issued w" "consumed w' = insert t (consumed w)"
proof (cases "t \<in> issued w \<and> t \<notin> consumed w")
  case False
  then have "\<exists>e. verify_echo sha resp t actor w = (Inl e, w)"
    by (cases "t \<in> issued w") (simp_all add: verify_echo_def bindC_def require_issued_def require_not_consumed_def)
  then show thesis
    using refused False by blast
next
  case True
  define w1 where "w1 = w\<lparr>consumed := insert t (consumed w)\<rparr>"
  define c where "c = \<lparr>c_actor = actor, c_action = ''canary.verified'', c_resource_type = ''canary_token'',
    c_resource_id = audit_id sha t, c_payload = [(''hit'', VBool (contains_str resp t))]\<rparr>"
  have v: "verify_echo sha resp t actor w = bindC (audit_step c) (\<lambda>_. returnC (contains_str resp t)) w1"
    using True by (simp add: verify_echo_def bindC_def require_issued_def require_not_consumed_def w1_def c_def Let_def)
  show thesis
  proof (rule judged)
    show "verify_echo sha resp t actor w =
      (fst (bindC (audit_step c) (\<lambda>_. returnC (contains_str resp t)) w1), snd (audit_step c w1))"
      unfolding v by (simp add: bindC_def split: prod.split sum.split)
    show "fst (bindC (audit_step c) (\<lambda>_. returnC (contains_str resp t)) w1) = Inr (contains_str resp t) \<or>
      (\<exists>e. fst (bindC (audit_step c) (\<lambda>_. returnC (contains_str resp t)) w1) = Inl e)"
      by (simp add: bindC_def split: prod.split sum.split)
  qed (use True in \<open>simp_all add: w1_def\<close>)
qed

text \<open>A history of canary operations: the tokens handed out and the tokens judged, in order.\<close>

datatype canary_op = CGenerate string string | CVerify string string string

fun canary_run ::
  "(string \<Rightarrow> string) \<Rightarrow> canary_op list \<Rightarrow> 'w oracle_world \<Rightarrow> string list \<times> (string \<times> bool) list \<times> 'w oracle_world" where
  "canary_run sha [] w = ([], [], w)"
| "canary_run sha (CGenerate actor cid # ops) w =
     (case generate sha actor cid w of
        (Inl e, w') \<Rightarrow> canary_run sha ops w'
      | (Inr t, w') \<Rightarrow> (case canary_run sha ops w' of (minted, judged, v) \<Rightarrow> (t # minted, judged, v)))"
| "canary_run sha (CVerify resp t actor # ops) w =
     (case verify_echo sha resp t actor w of
        (Inl e, w') \<Rightarrow> canary_run sha ops w'
      | (Inr hit, w') \<Rightarrow> (case canary_run sha ops w' of (minted, judged, v) \<Rightarrow> (minted, (t, hit) # judged, v)))"

lemma canary_run_single_use:
  assumes "canary_run sha ops w = (minted, judged, w')"
  shows "distinct minted \<and> set minted \<inter> issued w = {} \<and> issued w \<union> set minted \<subseteq> issued w' \<and>
    distinct (map fst judged) \<and> set (map fst judged) \<inter> consumed w = {} \<and>
    consumed w \<union> set (map fst judged) \<subseteq> consumed w'"
  using assms
proof (induction sha ops w arbitrary: minted judged rule: canary_run.induct)
  case (2 sha actor cid ops w)
  show ?case
  proof (cases rule: generate_cases [of w sha actor cid])
    case exhausted
    then show ?thesis
      using 2 by auto
  next
    case (drawn t rest r v)
    show ?thesis
    proof (cases r)
      case (Inl e)
      then show ?thesis
        using drawn "2.IH"(1) [of r v e] "2.prems" by auto
    next
      case (Inr x)
      then obtain m j where r: "canary_run sha ops v = (m, j, w')" "minted = x # m" "judged = j"
        using drawn "2.prems" by (auto split: prod.splits)
      have "x = t" "x \<notin> issued w"
        using Inr drawn draw_fresh_Some by auto
      then show ?thesis
        using "2.IH"(2) [of r v x m j] drawn Inr r by auto
    qed
  qed
next
  case (3 sha resp t actor ops w)
  show ?case
  proof (cases rule: verify_echo_cases [of sha resp t actor w])
    case (refused e)
    then show ?thesis
      using 3 by auto
  next
    case (judged r v)
    show ?thesis
    proof (cases r)
      case (Inl e)
      then show ?thesis
        using judged "3.IH"(1) [of r v e] "3.prems" by auto
    next
      case (Inr x)
      then obtain m j where r: "canary_run sha ops v = (m, j, w')" "minted = m" "judged = (t, x) # j"
        using judged "3.prems" by (auto split: prod.splits)
      then show ?thesis
        using "3.IH"(2) [of r v x m j] judged Inr r by auto
    qed
  qed
qed simp

section \<open>Lemmas: the engine\<close>

text \<open>The reproductions the engine asks for, each with a fresh token, as a list of outcomes.\<close>

fun reproductions ::
  "(string \<Rightarrow> string) \<Rightarrow> 'w verifier \<Rightarrow> string \<Rightarrow> candidate_finding \<Rightarrow> verification_method \<Rightarrow> nat \<Rightarrow>
   ('w oracle_world, reproduction_status list) cmd" where
  "reproductions sha rep actor cand m 0 = returnC []"
| "reproductions sha rep actor cand m (Suc n) =
     bindC (generate sha actor (cf_id cand)) (\<lambda>token.
     bindC (rep cand m token) (\<lambda>st.
     bindC (reproductions sha rep actor cand m n) (\<lambda>sts. returnC (st # sts))))"

definition tally :: "reproduction_status \<Rightarrow> reproduction_status list \<Rightarrow> int" where
  "tally st sts = int (count_list sts st)"

lemma tally_simps [simp]:
  "tally st [] = 0" "tally st (x # xs) = (if x = st then 1 else 0) + tally st xs" "0 \<le> tally st xs"
  "\<not> tally st xs < 0"
  by (simp_all add: tally_def)

lemma tally_length: "tally st xs \<le> int (length xs)"
  by (simp add: tally_def count_le_length)

lemma tally_all: "tally st xs = int (length xs) \<longleftrightarrow> (\<forall>x \<in> set xs. x = st)"
proof (induction xs)
  case (Cons x xs)
  then show ?case
    using tally_length [of st xs] by auto
qed simp

lemma verify_loop_tally:
  "verify_loop sha rep actor cand m n s i a =
   bindC (reproductions sha rep actor cand m n)
     (\<lambda>sts. returnC (s + tally SUCCESS sts, i + tally SERVER_ERROR sts, a + int (length sts)))"
proof (induction n arbitrary: s i a)
  case (Suc n)
  have "bindC (rep cand m token) (\<lambda>st. verify_loop sha rep actor cand m n
           (if st = SUCCESS then s + 1 else s) (if st = SERVER_ERROR then i + 1 else i) (a + 1)) =
        bindC (bindC (rep cand m token) (\<lambda>st.
           bindC (reproductions sha rep actor cand m n) (\<lambda>sts. returnC (st # sts))))
          (\<lambda>sts. returnC (s + tally SUCCESS sts, i + tally SERVER_ERROR sts, a + int (length sts)))" for token
    unfolding bindC_assoc Suc.IH
    by (intro bindC_cong) (auto intro!: bindC_cong)
  then show ?case
    by (simp add: bindC_assoc)
qed (simp add: fun_eq_iff)

lemma length_reproductions:
  "reproductions sha rep actor cand m n w = (Inr sts, w') \<Longrightarrow> length sts = n"
  by (induction n arbitrary: w sts) (auto simp: bindC_Inr)

definition oracle_rule :: "verification_method \<Rightarrow> reproduction_status list \<Rightarrow> verification_status" where
  "oracle_rule m sts =
     (if \<forall>st \<in> set sts. st = SUCCESS then CONFIRMED
      else if tally SERVER_ERROR sts \<ge> server_error_threshold m then INCONCLUSIVE
      else REFUTED)"

lemma engine_verify_Inr:
  assumes "require_method reg (cf_vuln_type cand) = Inr m" "1 \<le> default_n m"
  shows "engine_verify sha reg rep actor cand w = (Inr r, w') \<longleftrightarrow>
    (\<exists>sts. reproductions sha rep actor cand m (nat (default_n m)) w = (Inr sts, w') \<and>
       r = \<lparr>vr_status = oracle_rule m sts, vr_successes = tally SUCCESS sts, vr_attempts = default_n m,
            vr_reason = verify_reason (oracle_rule m sts) (tally SUCCESS sts) (default_n m) (tally SERVER_ERROR sts)\<rparr>)"
proof -
  have rule: "decide_outcome m (tally SUCCESS sts) (default_n m) (tally SERVER_ERROR sts) = oracle_rule m sts"
    and ok: "tally SUCCESS sts \<le> default_n m"
    if "length sts = nat (default_n m)" for sts
    using that assms(2) tally_all [of SUCCESS sts] tally_length [of SUCCESS sts]
    by (auto simp: decide_outcome_def oracle_rule_def)
  obtain a v where run: "reproductions sha rep actor cand m (nat (default_n m)) w = (a, v)"
    by fastforce
  show ?thesis
  proof (cases a)
    case (Inl e)
    then show ?thesis
      using run assms(1) by (simp add: engine_verify_def verify_loop_tally bindC_def liftC_def)
  next
    case (Inr sts)
    then have len: "length sts = nat (default_n m)"
      using length_reproductions run by blast
    then show ?thesis
      using run Inr assms rule [OF len] ok [OF len]
      by (auto simp: engine_verify_def verify_loop_tally bindC_def liftC_def Let_def VerificationResult_check_def)
  qed
qed

text \<open>
  C26. The oracle confirms a candidate exactly when every one of the method's N reproductions succeeds. A verification
  that returns has run exactly N reproductions and is never left pending; when they did not all succeed it is inconclusive once the server
  errors reach the method's threshold, and refuted where there was no server error at all.
\<close>

theorem oracle_confirms_iff_all_reproduce:
  assumes "require_method reg (cf_vuln_type cand) = Inr m" "VerificationMethod_check m = Inr m"
    and "engine_verify sha reg rep actor cand w = (Inr r, w')"
  shows "\<exists>sts. reproductions sha rep actor cand m (nat (default_n m)) w = (Inr sts, w') \<and>
    int (length sts) = default_n m \<and> vr_attempts r = default_n m \<and> vr_successes r = tally SUCCESS sts \<and> vr_status r \<noteq> VPENDING \<and>
    (vr_status r = CONFIRMED \<longleftrightarrow> (\<forall>st \<in> set sts. st = SUCCESS)) \<and>
    ((\<exists>st \<in> set sts. st \<noteq> SUCCESS) \<and> server_error_threshold m \<le> tally SERVER_ERROR sts \<longrightarrow> vr_status r = INCONCLUSIVE) \<and>
    ((\<exists>st \<in> set sts. st \<noteq> SUCCESS) \<and> SERVER_ERROR \<notin> set sts \<longrightarrow> vr_status r = REFUTED)"
proof -
  have m: "1 \<le> default_n m" "1 \<le> server_error_threshold m" using assms(2) by (auto simp: VerificationMethod_check_def split: if_splits)
  obtain sts where sts: "reproductions sha rep actor cand m (nat (default_n m)) w = (Inr sts, w')"
    "vr_status r = oracle_rule m sts" "vr_successes r = tally SUCCESS sts" "vr_attempts r = default_n m"
    using assms(3) unfolding engine_verify_Inr [OF assms(1) m(1)] by auto
  moreover have "SERVER_ERROR \<notin> set sts \<Longrightarrow> tally SERVER_ERROR sts = 0" by (simp add: tally_def count_notin)
  ultimately show ?thesis
    using length_reproductions [OF sts(1)] m by (intro exI [of _ sts]) (auto simp: oracle_rule_def)
qed

definition demo_world :: "unit oracle_world" where
  "demo_world = \<lparr>issued = {}, consumed = {}, draws = [''t1'', ''t2'', ''t3'', ''t4''], audited = [], outside = ()\<rparr>"

definition demo_candidate :: candidate_finding where
  "demo_candidate = \<lparr>cf_id = ''c'', cf_observation_id = ''o'', cf_vuln_type = RCE, cf_target = ''h'',
     cf_status = VPENDING, cf_diff = None\<rparr>"

theorem oracle_confirms_iff_all_reproduce_witness:
  "\<exists>r w' sts. engine_verify id [(RCE, plain_method RCE 3)] (\<lambda>_ _ _. returnC SUCCESS) ''a'' demo_candidate demo_world = (Inr r, w') \<and>
     reproductions id (\<lambda>_ _ _. returnC SUCCESS) ''a'' demo_candidate (plain_method RCE 3) 3 demo_world = (Inr sts, w') \<and>
     vr_status r = CONFIRMED"
proof -
  let ?rep = "\<lambda>_ _ _. returnC SUCCESS" and ?m = "plain_method RCE 3"
  have m: "require_method [(RCE, ?m)] (cf_vuln_type demo_candidate) = Inr ?m" "VerificationMethod_check ?m = Inr ?m"
    by (simp_all add: require_method_def demo_candidate_def plain_method_def VerificationMethod_check_def)
  have "fst (engine_verify id [(RCE, ?m)] ?rep ''a'' demo_candidate demo_world) =
    Inr \<lparr>vr_status = CONFIRMED, vr_successes = 3, vr_attempts = 3, vr_reason = ''confirmed: 3/3 reproductions (0 server errors)''\<rparr>"
    by code_simp
  then obtain r w' where r: "engine_verify id [(RCE, ?m)] ?rep ''a'' demo_candidate demo_world = (Inr r, w')" "vr_status r = CONFIRMED"
    by (metis (no_types, lifting) prod.collapse verification_result.select_convs(1))
  show ?thesis
    using oracle_confirms_iff_all_reproduce [OF m r(1)] r by (auto simp: plain_method_def)
qed

text \<open>
  A canary token is single use: over every history of generations and verifications no token is handed out
  twice and no token is judged twice, and a token judged before the history is never judged again.
\<close>

theorem canary_tokens_single_use:
  assumes "canary_run sha ops w = (minted, judged, w')"
  shows "distinct minted \<and> set minted \<inter> issued w = {} \<and> distinct (map fst judged) \<and>
    set (map fst judged) \<inter> consumed w = {}"
  using canary_run_single_use [OF assms] by blast

theorem canary_tokens_single_use_witness:
  "case canary_run id [CGenerate ''a'' ''c'', CVerify ''xt1'' ''t1'' ''a'', CVerify ''xt1'' ''t1'' ''a''] demo_world of
     (minted, judged, w') \<Rightarrow> distinct minted \<and> set minted \<inter> issued demo_world = {} \<and>
       distinct (map fst judged) \<and> set (map fst judged) \<inter> consumed demo_world = {}"
  using canary_tokens_single_use
    [of id "[CGenerate ''a'' ''c'', CVerify ''xt1'' ''t1'' ''a'', CVerify ''xt1'' ''t1'' ''a'']" demo_world]
  by (auto split: prod.split)

text \<open>A verifier that returns and leaves the canary manager's issued tokens and draws alone.\<close>

definition total_verifier :: "'w verifier \<Rightarrow> bool" where
  "total_verifier rep \<longleftrightarrow> (\<forall>cand m t w. \<exists>st w'. rep cand m t w = (Inr st, w') \<and> issued w' = issued w \<and> draws w' = draws w)"

lemma generate_returns:
  assumes "draws w = t # ts" "t \<notin> issued w" "actor \<noteq> []"
  shows "\<exists>w'. generate sha actor cid w = (Inr t, w') \<and> issued w' = insert t (issued w) \<and> draws w' = ts"
proof -
  have "call_ok \<lparr>c_actor = actor, c_action = ''canary.generated'', c_resource_type = ''canary_token'',
      c_resource_id = audit_id sha t, c_payload = [(''candidate_id'', VStr cid)]\<rparr>"
  proof -
    have "py_lower ''candidate_id'' \<notin> set SECRET_KEYS"
      by code_simp
    then show ?thesis
      using assms(3) by (simp add: call_ok_def audit_id_def)
  qed
  then show ?thesis
    using assms by (simp add: generate_def audit_step_def log_record_def bindC_def)
qed

lemma reproductions_return:
  assumes "total_verifier rep" "actor \<noteq> []"
  shows "distinct (draws w) \<Longrightarrow> set (draws w) \<inter> issued w = {} \<Longrightarrow> n \<le> length (draws w) \<Longrightarrow>
    \<exists>sts w'. reproductions sha rep actor cand m n w = (Inr sts, w')"
proof (induction n arbitrary: w)
  case (Suc n)
  then obtain t ts where t: "draws w = t # ts"
    by (cases "draws w") auto
  then obtain w1 where g: "generate sha actor (cf_id cand) w = (Inr t, w1)" "issued w1 = insert t (issued w)" "draws w1 = ts"
    using generate_returns [OF t _ assms(2), of sha "cf_id cand"] Suc.prems by auto
  obtain st w2 where v: "rep cand m t w1 = (Inr st, w2)" "issued w2 = issued w1" "draws w2 = draws w1"
    using assms(1) unfolding total_verifier_def by metis
  obtain sts w3 where "reproductions sha rep actor cand m n w2 = (Inr sts, w3)"
    using Suc.IH [of w2] Suc.prems t g v by auto
  then show ?case
    using g v by (simp add: bindC_def)
qed simp

text \<open>
  Verification returns: with a curated method, a named actor, a verifier that returns on every
  reproduction and as many distinct, not yet issued random draws as the method has reproductions, the
  engine returns a verdict of confirmed, refuted or inconclusive.
\<close>

theorem oracle_verification_returns:
  assumes "require_method reg (cf_vuln_type cand) = Inr m" "1 \<le> default_n m" "total_verifier rep" "actor \<noteq> []"
    and "distinct (draws w)" "set (draws w) \<inter> issued w = {}" "default_n m \<le> int (length (draws w))"
  shows "\<exists>r w'. engine_verify sha reg rep actor cand w = (Inr r, w') \<and> vr_status r \<in> {CONFIRMED, REFUTED, INCONCLUSIVE}"
proof -
  obtain sts w' where "reproductions sha rep actor cand m (nat (default_n m)) w = (Inr sts, w')"
    using reproductions_return [OF assms(3,4,5,6)] assms(7) by (metis nat_le_iff)
  then obtain r where "engine_verify sha reg rep actor cand w = (Inr r, w')" "vr_status r = oracle_rule m sts"
    using engine_verify_Inr [OF assms(1,2), of sha rep actor w _ w'] by auto
  then show ?thesis
    by (auto simp: oracle_rule_def)
qed

theorem oracle_verification_returns_witness:
  "\<exists>r w'. engine_verify id [(RCE, plain_method RCE 3)] (\<lambda>_ _ _. returnC FAILURE) ''a'' demo_candidate demo_world = (Inr r, w') \<and>
     vr_status r \<in> {CONFIRMED, REFUTED, INCONCLUSIVE}"
  by (rule oracle_verification_returns [where m = "plain_method RCE 3"])
     (simp_all add: require_method_def demo_candidate_def plain_method_def total_verifier_def demo_world_def)

text \<open>
  A single server error among otherwise successful reproductions refutes the candidate under
  every method of the default registry, whose threshold is two.
\<close>

theorem one_server_error_refutes:
  assumes "m \<in> set default_methods"
  shows "decide_outcome m (default_n m - 1) (default_n m) 1 = REFUTED"
  using assms by (auto simp: default_methods_def plain_method_def decide_outcome_def)

theorem one_server_error_refutes_witness: "decide_outcome (plain_method SQLI 5) 4 5 1 = REFUTED"
  using one_server_error_refutes [of "plain_method SQLI 5"]
  by (simp add: default_methods_def plain_method_def)

end
