(* ===== verification/Oracle_Service.thy ===== *)
theory Oracle_Service
  imports Verification
begin

text \<open>
  The two clients of the oracle engine: the loop's coordinator
  (\<^verbatim>\<open>application/reasoning_loop/loop_oracle.py\<close>) and the batch service over correlated findings
  (\<^verbatim>\<open>application/oracle_service.py\<close>).
\<close>

section \<open>LoopOracleVerifier\<close>

record oracle_outcome =
  oo_status :: verification_status
  oo_successes :: int
  oo_attempts :: int
  oo_reason :: string

definition resolved :: "oracle_outcome \<Rightarrow> bool" where
  "resolved o1 \<longleftrightarrow> oo_status o1 \<in> {CONFIRMED, REFUTED}"

definition inconclusive :: "string \<Rightarrow> oracle_outcome" where
  "inconclusive reason = \<lparr>oo_status = INCONCLUSIVE, oo_successes = 0, oo_attempts = 0, oo_reason = reason\<rparr>"

definition loop_oracle_verify ::
  "(string \<Rightarrow> string) \<Rightarrow> method_registry \<Rightarrow> (string \<Rightarrow> vuln_type \<Rightarrow> 'w verifier) \<Rightarrow>
   (string \<Rightarrow> candidate_finding option) \<Rightarrow> string \<Rightarrow> string \<Rightarrow> ('w oracle_world, oracle_outcome) cmd" where
  "loop_oracle_verify sha reg factory provider actor candidate_id =
     (if candidate_id = [] then returnC (inconclusive ''no candidate_id in request_oracle payload'')
      else case provider candidate_id of
        None \<Rightarrow> returnC (inconclusive (''candidate '' @ repr_str candidate_id @ '' not found''))
      | Some cand \<Rightarrow>
          bindC (liftC (require_method reg (cf_vuln_type cand))) (\<lambda>m.
            if diff_semantic m \<and> cf_diff cand = None then
              returnC (inconclusive (''logic candidate '' @ repr_str candidate_id @
                '' has no diff spec (refusing to REFUTE)''))
            else
              bindC (engine_verify sha reg (factory (cf_target cand) (cf_vuln_type cand)) actor cand)
                (\<lambda>r. returnC \<lparr>oo_status = vr_status r, oo_successes = vr_successes r,
                              oo_attempts = vr_attempts r, oo_reason = vr_reason r\<rparr>)))"

section \<open>OracleService\<close>

datatype severity = INFO | LOW | MEDIUM | HIGH | CRITICAL

datatype finding_status = DRAFT | CANDIDATE | VALIDATED | REPORTED | CLOSED | FALSE_POSITIVE

record finding =
  fi_id :: string
  fi_fingerprint :: string
  fi_title :: string
  fi_asset :: string
  fi_severity :: severity
  fi_cwe :: "string list"
  fi_cve :: "string list"
  fi_owasp :: "string list"
  fi_observation_ids :: "string list"
  fi_evidence_ids :: "string list"
  fi_status :: finding_status
  fi_assessment_id :: string
  fi_oracle_verdict :: verification_status

record oracle_summary =
  os_confirmed :: nat
  os_refuted :: nat
  os_inconclusive :: nat
  os_skipped :: nat
  os_failed :: nat

text \<open>
  The state of a batch: the engine's world, the repositories by id (\<^verbatim>\<open>add\<close> merges), the calls of
  \<^verbatim>\<open>AuditService\<close> and, when it is wired, those of the signed chain.
\<close>

record 'w service_state =
  sv_world :: "'w oracle_world"
  sv_findings :: "(string \<times> finding) list"
  sv_confirmed :: "(string \<times> confirmed_finding) list"
  sv_audit :: "audit_call list"
  sv_chain :: "audit_call list option"

definition worldC :: "('w oracle_world, 'a) cmd \<Rightarrow> ('w service_state, 'a) cmd" where
  "worldC c s = (case c (sv_world s) of (r, w) \<Rightarrow> (r, s\<lparr>sv_world := w\<rparr>))"

definition service_audit :: "string \<Rightarrow> string \<Rightarrow> string \<Rightarrow> pydict \<Rightarrow> ('w service_state, unit) cmd" where
  "service_audit actor finding_id action p =
     (let c = \<lparr>c_actor = actor, c_action = action, c_resource_type = ''finding'',
               c_resource_id = finding_id, c_payload = p\<rparr> in
      bindC (\<lambda>s. case log_record c (sv_audit s) of (r, log) \<Rightarrow> (r, s\<lparr>sv_audit := log\<rparr>)) (\<lambda>_ s.
        case sv_chain s of
          None \<Rightarrow> (Inr (), s)
        | Some log \<Rightarrow> (case log_record c log of (r, log') \<Rightarrow> (r, s\<lparr>sv_chain := Some log'\<rparr>))))"

definition candidate_of :: "finding \<Rightarrow> vuln_type \<Rightarrow> candidate_finding" where
  "candidate_of f vt = \<lparr>cf_id = fi_id f,
     cf_observation_id = (case fi_observation_ids f of [] \<Rightarrow> fi_id f | i # _ \<Rightarrow> i),
     cf_vuln_type = vt, cf_target = fi_asset f, cf_status = VPENDING, cf_diff = None\<rparr>"

definition verify_one ::
  "(string \<Rightarrow> string) \<Rightarrow> method_registry \<Rightarrow> (finding \<Rightarrow> vuln_type \<Rightarrow> 'w verifier) \<Rightarrow> string \<Rightarrow> datetime \<Rightarrow>
   finding \<Rightarrow> vuln_type \<Rightarrow> ('w service_state, verification_status) cmd" where
  "verify_one sha reg factory actor verified_at f vt =
     bindC (liftC (CandidateFinding_check (candidate_of f vt))) (\<lambda>cand.
     bindC (worldC (engine_verify sha reg (factory f vt) actor cand)) (\<lambda>r.
     bindC (if vr_status r = CONFIRMED then
              bindC (liftC (engine_confirm cand r (fi_evidence_ids f) verified_at)) (\<lambda>cnf s.
                (Inr (), s\<lparr>sv_confirmed := dict_set (cnf_candidate_id cnf) cnf (sv_confirmed s)\<rparr>))
            else returnC ()) (\<lambda>_.
     bindC (\<lambda>s. (Inr (), s\<lparr>sv_findings := dict_set (fi_id f) (f\<lparr>fi_oracle_verdict := vr_status r\<rparr>) (sv_findings s)\<rparr>)) (\<lambda>_.
     bindC (service_audit actor (fi_id f) ''oracle.verified''
              [(''vuln_type'', VStr (vuln_value vt)), (''status'', VStr (status_value (vr_status r))),
               (''successes'', VInt (vr_successes r)), (''attempts'', VInt (vr_attempts r)),
               (''reason'', VStr (vr_reason r))]) (\<lambda>_.
     returnC (vr_status r))))))"

definition count_status :: "verification_status \<Rightarrow> oracle_summary \<Rightarrow> oracle_summary" where
  "count_status st s =
     (case st of CONFIRMED \<Rightarrow> s\<lparr>os_confirmed := os_confirmed s + 1\<rparr>
      | REFUTED \<Rightarrow> s\<lparr>os_refuted := os_refuted s + 1\<rparr>
      | INCONCLUSIVE \<Rightarrow> s\<lparr>os_inconclusive := os_inconclusive s + 1\<rparr>
      | VPENDING \<Rightarrow> s)"

text \<open>\<open>err_text\<close> is \<^verbatim>\<open>str(exc)\<close>.\<close>

fun verify_findings_loop ::
  "(string \<Rightarrow> string) \<Rightarrow> (exn \<Rightarrow> string) \<Rightarrow> method_registry \<Rightarrow> (finding \<Rightarrow> vuln_type \<Rightarrow> 'w verifier) \<Rightarrow> string \<Rightarrow> datetime \<Rightarrow>
   oracle_summary \<Rightarrow> finding list \<Rightarrow> ('w service_state, oracle_summary) cmd" where
  "verify_findings_loop sha err_text reg factory actor t acc [] = returnC acc"
| "verify_findings_loop sha err_text reg factory actor t acc (f # fs) =
     (case vuln_type_for_cwes (fi_cwe f) of
        None \<Rightarrow> verify_findings_loop sha err_text reg factory actor t (acc\<lparr>os_skipped := os_skipped acc + 1\<rparr>) fs
      | Some vt \<Rightarrow> (\<lambda>s.
          case verify_one sha reg factory actor t f vt s of
            (Inl e, s') \<Rightarrow>
              bindC (service_audit actor (fi_id f) ''oracle.verification_failed'' [(''reason'', VStr (err_text e))])
                (\<lambda>_. verify_findings_loop sha err_text reg factory actor t (acc\<lparr>os_failed := os_failed acc + 1\<rparr>) fs) s'
          | (Inr st, s') \<Rightarrow> verify_findings_loop sha err_text reg factory actor t (count_status st acc) fs s'))"

definition verify_findings ::
  "(string \<Rightarrow> string) \<Rightarrow> (exn \<Rightarrow> string) \<Rightarrow> method_registry \<Rightarrow> (finding \<Rightarrow> vuln_type \<Rightarrow> 'w verifier) \<Rightarrow> string \<Rightarrow> datetime \<Rightarrow>
   finding list \<Rightarrow> ('w service_state, oracle_summary) cmd" where
  "verify_findings sha err_text reg factory actor t fs =
     verify_findings_loop sha err_text reg factory actor t
       \<lparr>os_confirmed = 0, os_refuted = 0, os_inconclusive = 0, os_skipped = 0, os_failed = 0\<rparr> fs"

section \<open>Properties\<close>

lemma loop_oracle_guard:
  assumes "provider i = Some cand" "i \<noteq> []" "require_method reg (cf_vuln_type cand) = Inr m"
    "diff_semantic m" "cf_diff cand = None"
  shows "loop_oracle_verify sha reg factory provider actor i w =
    (Inr (inconclusive (''logic candidate '' @ repr_str i @ '' has no diff spec (refusing to REFUTE)'')), w)"
  using assms by (simp add: loop_oracle_verify_def bindC_def liftC_def)

text \<open>
  The loop never refutes a logic candidate that carries no diff specification: whenever the loop's
  oracle returns a verdict for a candidate whose method is differential and whose diff is missing, the
  verdict is inconclusive and not resolved, for every verifier factory.
\<close>

theorem loop_never_refutes_without_evidence:
  assumes "provider i = Some cand" "require_method reg (cf_vuln_type cand) = Inr m"
    "diff_semantic m" "cf_diff cand = None"
    and "loop_oracle_verify sha reg factory provider actor i w = (Inr res, w')"
  shows "oo_status res = INCONCLUSIVE \<and> \<not> resolved res \<and> w' = w"
proof (cases "i = []")
  case True
  then show ?thesis
    using assms(5) by (auto simp: loop_oracle_verify_def inconclusive_def resolved_def)
next
  case False
  then show ?thesis
    using loop_oracle_guard [of provider i cand reg m sha factory actor w, OF assms(1) False assms(2-4)] assms(5)
    by (auto simp: inconclusive_def resolved_def)
qed

theorem loop_never_refutes_without_evidence_witness:
  "\<exists>res w'. loop_oracle_verify id [(RCE, (plain_method RCE 3)\<lparr>diff_semantic := True\<rparr>)] (\<lambda>_ _ _ _ _. returnC FAILURE)
       (\<lambda>_. Some demo_candidate) ''a'' ''c'' demo_world = (Inr res, w') \<and>
     oo_status res = INCONCLUSIVE \<and> \<not> resolved res \<and> w' = demo_world"
proof -
  let ?m = "(plain_method RCE 3)\<lparr>diff_semantic := True\<rparr>"
  have m: "require_method [(RCE, ?m)] (cf_vuln_type demo_candidate) = Inr ?m" "cf_diff demo_candidate = None"
    by (simp_all add: require_method_def demo_candidate_def)
  obtain res w' where run: "loop_oracle_verify id [(RCE, ?m)] (\<lambda>_ _ _ _ _. returnC FAILURE) (\<lambda>_. Some demo_candidate) ''a'' ''c'' demo_world = (Inr res, w')"
    using m by (simp add: loop_oracle_verify_def bindC_def liftC_def)
  show ?thesis
    using loop_never_refutes_without_evidence [OF _ m(1) _ m(2) run] run by simp
qed

lemma diff_reproduce_without_spec: "cf_diff cand = None \<Longrightarrow> diff_reproduce runner cand m t = returnC FAILURE"
  by (simp add: diff_reproduce_def)

lemma reproductions_all_failure:
  assumes "reproductions sha (diff_reproduce runner) actor cand m n w = (Inr sts, w')" "cf_diff cand = None"
  shows "\<forall>st \<in> set sts. st = FAILURE"
  using assms(1)
  by (induction n arbitrary: w sts) (auto simp: bindC_Inr diff_reproduce_without_spec [OF assms(2)])

lemma tally_all_failure: "\<forall>st \<in> set sts. st = FAILURE \<Longrightarrow> tally SERVER_ERROR sts = 0"
  by (induction sts) auto

text \<open>
  The batch service, unlike the loop, always refutes findings of logic type: it builds the
  candidate without a diff specification, so with the production factory every returned verdict
  for a differential method is refuted, whatever the target answers.
\<close>

theorem service_refutes_every_logic_finding:
  assumes "require_method reg vt = Inr m" "diff_semantic m" "1 \<le> default_n m" "1 \<le> server_error_threshold m"
    and "verify_one sha reg (\<lambda>f vt. for_finding sha scan tdir hc ish (Some reg) runner (fi_asset f) (Some vt))
           actor t f vt s = (Inr st, s')"
  shows "st = REFUTED"
proof -
  let ?rep = "for_finding sha scan tdir hc ish (Some reg) runner (fi_asset f) (Some vt)"
  have rep: "?rep = diff_reproduce runner"
  proof -
    have "dict_get reg vt = Some m"
      using assms(1) by (simp add: require_method_def split: option.splits)
    then show ?thesis
      using assms(2) by (simp add: for_finding_def method_for_def Let_def)
  qed
  have m: "require_method reg (cf_vuln_type (candidate_of f vt)) = Inr m"
    using assms(1) by (simp add: candidate_of_def)
  obtain r v w1 where r: "engine_verify sha reg ?rep actor (candidate_of f vt) v = (Inr r, w1)" "st = vr_status r"
    using assms(5) unfolding verify_one_def
    by (auto simp: bindC_Inr liftC_def worldC_def CandidateFinding_check_def split: if_splits prod.splits)
  then obtain sts where sts: "reproductions sha (diff_reproduce runner) actor (candidate_of f vt) m (nat (default_n m)) v = (Inr sts, w1)"
    "st = oracle_rule m sts"
    unfolding rep engine_verify_Inr [OF m assms(3)] by auto
  have "\<forall>st \<in> set sts. st = FAILURE"
    using reproductions_all_failure [OF sts(1)] by (simp add: candidate_of_def)
  moreover have "sts \<noteq> []"
    using length_reproductions [OF sts(1)] assms(3) by auto
  ultimately show ?thesis
    using sts(2) assms(4) tally_all_failure [of sts] by (cases sts) (auto simp: oracle_rule_def)
qed

definition summary_total :: "oracle_summary \<Rightarrow> nat" where
  "summary_total s = os_confirmed s + os_refuted s + os_inconclusive s + os_skipped s + os_failed s"

definition demo_finding :: finding where
  "demo_finding = \<lparr>fi_id = ''f1'', fi_fingerprint = ''fp'', fi_title = ''t'', fi_asset = ''http://h/'',
     fi_severity = HIGH, fi_cwe = [''CWE-639''], fi_cve = [], fi_owasp = [], fi_observation_ids = [],
     fi_evidence_ids = [], fi_status = DRAFT, fi_assessment_id = [], fi_oracle_verdict = VPENDING\<rparr>"

definition demo_state :: "unit service_state" where
  "demo_state = \<lparr>sv_world = demo_world, sv_findings = [], sv_confirmed = [], sv_audit = [], sv_chain = None\<rparr>"

theorem service_refutes_every_logic_finding_witness:
  "\<exists>st s'. verify_one id [(IDOR, (plain_method IDOR 3)\<lparr>diff_semantic := True\<rparr>)]
      (\<lambda>f vt. for_finding id (\<lambda>_ w. (Inl (RunnerError []), w)) None False None
        (Some [(IDOR, (plain_method IDOR 3)\<lparr>diff_semantic := True\<rparr>)])
        (\<lambda>_ w. (\<lparr>dr_status = 200, dr_body = None\<rparr>, w)) (fi_asset f) (Some vt)) ''a'' 0 demo_finding IDOR demo_state =
      (Inr st, s') \<and> st = REFUTED"
proof -
  let ?m = "(plain_method IDOR 3)\<lparr>diff_semantic := True\<rparr>"
  let ?f = "\<lambda>f vt. for_finding id (\<lambda>_ w. (Inl (RunnerError []), w)) None False None (Some [(IDOR, ?m)])
        (\<lambda>_ w. (\<lparr>dr_status = 200, dr_body = None\<rparr>, w)) (fi_asset f) (Some vt)"
  have "case fst (verify_one id [(IDOR, ?m)] ?f ''a'' 0 demo_finding IDOR demo_state) of Inl _ \<Rightarrow> False | Inr _ \<Rightarrow> True"
    by code_simp
  then obtain st s' where r: "verify_one id [(IDOR, ?m)] ?f ''a'' 0 demo_finding IDOR demo_state = (Inr st, s')"
    by (cases "verify_one id [(IDOR, ?m)] ?f ''a'' 0 demo_finding IDOR demo_state") (auto split: sum.splits)
  have "st = REFUTED"
    by (rule service_refutes_every_logic_finding [where m = ?m, OF _ _ _ _ r]) (simp_all add: require_method_def plain_method_def)
  then show ?thesis
    using r by blast
qed

lemma summary_count:
  "st \<noteq> VPENDING \<Longrightarrow> summary_total (count_status st s) = Suc (summary_total s)"
  by (cases st) (simp_all add: count_status_def summary_total_def)

lemma verify_one_not_pending:
  assumes "verify_one sha reg factory actor t f vt s = (Inr st, s')"
    and "\<forall>m \<in> set (map snd reg). 1 \<le> default_n m"
  shows "st \<noteq> VPENDING"
proof -
  obtain m where m: "require_method reg vt = Inr m"
    using assms(1) unfolding verify_one_def engine_verify_def
    by (cases "require_method reg vt")
      (auto simp: bindC_Inr liftC_def worldC_def CandidateFinding_check_def candidate_of_def bindC_def split: if_splits prod.splits)
  then have n: "1 \<le> default_n m"
    using assms(2) by (force simp: require_method_def dest: dict_get_value split: option.splits)
  have m': "require_method reg (cf_vuln_type (candidate_of f vt)) = Inr m"
    using m by (simp add: candidate_of_def)
  obtain r v w1 where "engine_verify sha reg (factory f vt) actor (candidate_of f vt) v = (Inr r, w1)" "st = vr_status r"
    using assms(1) unfolding verify_one_def
    by (auto simp: bindC_Inr liftC_def worldC_def CandidateFinding_check_def split: if_splits prod.splits)
  then show ?thesis
    unfolding engine_verify_Inr [OF m' n] by (auto simp: oracle_rule_def split: if_splits)
qed

lemma verify_findings_loop_total:
  assumes "\<forall>m \<in> set (map snd reg). 1 \<le> default_n m"
  shows "verify_findings_loop sha err_text reg factory actor t acc fs s = (Inr res, s') \<Longrightarrow>
    summary_total res = summary_total acc + length fs"
proof (induction fs arbitrary: acc s)
  case (Cons f fs)
  show ?case
  proof (cases "vuln_type_for_cwes (fi_cwe f)")
    case None
    then show ?thesis
      using Cons by (fastforce simp: summary_total_def)
  next
    case (Some vt)
    obtain a s1 where run: "verify_one sha reg factory actor t f vt s = (a, s1)"
      by fastforce
    show ?thesis
    proof (cases a)
      case (Inl e)
      then show ?thesis
        using Cons Some run by (fastforce simp: bindC_Inr summary_total_def)
    next
      case (Inr st)
      then show ?thesis
        using Cons Some run summary_count verify_one_not_pending [of sha reg factory actor t f vt s st s1] assms
        by fastforce
    qed
  qed
qed simp

text \<open>
  The batch summary accounts for every finding exactly once: confirmed, refuted, inconclusive,
  skipped and failed add up to the number of findings, also when single verifications raise.
\<close>

theorem oracle_summary_accounts_for_all:
  assumes "\<forall>m \<in> set (map snd reg). 1 \<le> default_n m"
    and "verify_findings sha err_text reg factory actor t fs s = (Inr res, s')"
  shows "os_confirmed res + os_refuted res + os_inconclusive res + os_skipped res + os_failed res = length fs"
  using verify_findings_loop_total [OF assms(1) assms(2) [unfolded verify_findings_def]]
  by (simp add: summary_total_def)

theorem oracle_summary_accounts_for_all_witness:
  "\<exists>res s'. verify_findings id (\<lambda>_. []) [(IDOR, plain_method IDOR 3)] (\<lambda>_ _ _ _ _. raiseC (RunnerError [])) ''a'' 0
      [demo_finding, demo_finding\<lparr>fi_cwe := []\<rparr>] demo_state = (Inr res, s') \<and>
    os_confirmed res + os_refuted res + os_inconclusive res + os_skipped res + os_failed res = 2"
proof -
  let ?run = "verify_findings id (\<lambda>_. []) [(IDOR, plain_method IDOR 3)] (\<lambda>_ _ _ _ _. raiseC (RunnerError [])) ''a'' 0
      [demo_finding, demo_finding\<lparr>fi_cwe := []\<rparr>] demo_state"
  have "case fst ?run of Inl _ \<Rightarrow> False | Inr _ \<Rightarrow> True"
    by code_simp
  then obtain res s' where r: "?run = (Inr res, s')"
    by (cases ?run) (auto split: sum.splits)
  then show ?thesis
    using oracle_summary_accounts_for_all [OF _ r] by (auto simp: plain_method_def)
qed

section \<open>What the service stores\<close>

lemma keeps_findings_audit: "keeps sv_findings (service_audit actor j action p)"
  unfolding keeps_def service_audit_def by (auto simp: Let_def bindC_def split: option.split prod.split sum.split)

lemma verify_one_stores:
  assumes "verify_one sha reg factory actor t f vt s = (Inr st, s')"
  shows "dict_get (sv_findings s') (fi_id f) = Some (f\<lparr>fi_oracle_verdict := st\<rparr>)"
  using assms by (auto simp: verify_one_def bindC_Inr dest!: keepsD [OF keeps_findings_audit])

end
