(* ===== verification/Findings.thy ===== *)
theory Findings
  imports Complex_Main Oracle_Service Policy
begin

text \<open>
  Observations and what is made of them: the unified observation record (\<^verbatim>\<open>domain/adapters/contracts.py\<close>),
  the deterministic fingerprint (\<^verbatim>\<open>domain/findings/fingerprint.py\<close>), the correlation of observations into
  findings (\<^verbatim>\<open>application/finding_correlation.py\<close>) and the coverage report with its gate
  (\<^verbatim>\<open>domain/catalog\<close>, \<^verbatim>\<open>application/coverage.py\<close>).
\<close>

section \<open>Observations\<close>

datatype coverage_domain = ASSET | WEB | NETWORK | CLOUD

fun severity_value :: "severity \<Rightarrow> string" where
  "severity_value INFO = ''info''"
| "severity_value severity.LOW = ''low''"
| "severity_value MEDIUM = ''medium''"
| "severity_value HIGH = ''high''"
| "severity_value CRITICAL = ''critical''"

fun domain_value :: "coverage_domain \<Rightarrow> string" where
  "domain_value ASSET = ''asset''"
| "domain_value WEB = ''web''"
| "domain_value NETWORK = ''network''"
| "domain_value CLOUD = ''cloud''"

record adapter_source =
  as_name :: string
  as_version :: string
  as_template_version :: string

record observation =
  ob_external_id :: string
  ob_asset_identity :: string
  ob_source :: adapter_source
  ob_rule_id :: string
  ob_rule_version :: string
  ob_coverage_domain :: coverage_domain
  ob_title :: string
  ob_severity :: severity
  ob_confidence :: rat
  ob_cwe :: "string list"
  ob_cve :: "string list"
  ob_owasp :: "string list"
  ob_evidence_artifact_ids :: "string list"
  ob_raw :: pydict

definition AdapterSource_check :: "adapter_source \<Rightarrow> adapter_source result" where
  "AdapterSource_check s =
     (if as_name s = [] then Inl (DomainValidationError ''AdapterSource.name must be non-empty'')
      else if as_version s = [] then Inl (DomainValidationError ''AdapterSource.version must be non-empty'')
      else if as_template_version s = [] then
        Inl (DomainValidationError ''AdapterSource.template_version must be non-empty'')
      else Inr s)"

definition Observation_check :: "observation \<Rightarrow> observation result" where
  "Observation_check x =
     (if ob_external_id x = [] then Inl (DomainValidationError ''Observation.external_id must be non-empty'')
      else if ob_asset_identity x = [] then Inl (DomainValidationError ''Observation.asset_identity must be non-empty'')
      else if ob_rule_id x = [] then Inl (DomainValidationError ''Observation.rule_id must be non-empty'')
      else if ob_rule_version x = [] then Inl (DomainValidationError ''Observation.rule_version must be non-empty'')
      else if ob_title x = [] then Inl (DomainValidationError ''Observation.title must be non-empty'')
      else if \<not> (0 \<le> ob_confidence x \<and> ob_confidence x \<le> 1) then
        Inl (DomainValidationError ''Observation.confidence must be in [0.0, 1.0]'')
      else Inr x)"

section \<open>Correlation\<close>

definition observation_fingerprint :: "(string \<Rightarrow> string) \<Rightarrow> observation \<Rightarrow> string" where
  "observation_fingerprint sha x = canonical_digest sha (VDict
     [(''asset'', VStr (ob_asset_identity x)), (''cwe'', VStrs (sort (ob_cwe x))), (''cve'', VStrs (sort (ob_cve x)))])"

fun severity_rank :: "severity \<Rightarrow> nat" where
  "severity_rank INFO = 0"
| "severity_rank severity.LOW = 1"
| "severity_rank MEDIUM = 2"
| "severity_rank HIGH = 3"
| "severity_rank CRITICAL = 4"

text \<open>\<^verbatim>\<open>max(xs, key=f)\<close> of a non-empty list: the first of the greatest elements.\<close>

fun max_by :: "('a \<Rightarrow> nat) \<Rightarrow> 'a \<Rightarrow> 'a list \<Rightarrow> 'a" where
  "max_by f best [] = best"
| "max_by f best (x # xs) = max_by f (if f x > f best then x else best) xs"

definition max_severity :: "observation list \<Rightarrow> severity" where
  "max_severity xs = ob_severity (max_by (\<lambda>x. severity_rank (ob_severity x)) (hd xs) (tl xs))"

definition add_to_group :: "(observation \<Rightarrow> string) \<Rightarrow> (string \<times> observation list) list \<Rightarrow> observation \<Rightarrow> (string \<times> observation list) list" where
  "add_to_group fp g x = dict_set (fp x) ((case dict_get g (fp x) of None \<Rightarrow> [] | Some xs \<Rightarrow> xs) @ [x]) g"

definition groups :: "(observation \<Rightarrow> string) \<Rightarrow> observation list \<Rightarrow> (string \<times> observation list) list" where
  "groups fp xs = foldl (add_to_group fp) [] xs"

definition union_sorted :: "(observation \<Rightarrow> string list) \<Rightarrow> observation list \<Rightarrow> string list" where
  "union_sorted f xs = sort (remdups (concat (map f xs)))"

definition Finding_check :: "finding \<Rightarrow> finding result" where
  "Finding_check f =
     (if fi_id f = [] then Inl (DomainValidationError ''Finding.id must be non-empty'')
      else if fi_fingerprint f = [] then Inl (DomainValidationError ''Finding.fingerprint must be non-empty'')
      else if fi_title f = [] then Inl (DomainValidationError ''Finding.title must be non-empty'')
      else if fi_asset f = [] then Inl (DomainValidationError ''Finding.asset must be non-empty'')
      else Inr f)"

definition merge_group :: "string \<times> observation list \<Rightarrow> finding" where
  "merge_group = (\<lambda>(fingerprint, xs).
     \<lparr>fi_id = ''finding:'' @ take 16 (removeprefix fingerprint ''sha256:''), fi_fingerprint = fingerprint,
      fi_title = ob_title (hd xs), fi_asset = ob_asset_identity (hd xs), fi_severity = max_severity xs,
      fi_cwe = union_sorted ob_cwe xs, fi_cve = union_sorted ob_cve xs, fi_owasp = union_sorted ob_owasp xs,
      fi_observation_ids = map ob_external_id xs, fi_evidence_ids = [], fi_status = CANDIDATE,
      fi_assessment_id = [], fi_oracle_verdict = VPENDING\<rparr>)"

definition correlate :: "(string \<Rightarrow> string) \<Rightarrow> observation list \<Rightarrow> finding list result" where
  "correlate sha xs =
     map_res (\<lambda>g. Finding_check (merge_group g)) (groups (observation_fingerprint sha) xs)"

section \<open>Coverage\<close>

datatype asset_type = WEB_APP | API | IP_PORT | CLOUD_ACCOUNT | CONTAINER_K8S

fun asset_value :: "asset_type \<Rightarrow> string" where
  "asset_value WEB_APP = ''web_app''"
| "asset_value API = ''api''"
| "asset_value IP_PORT = ''ip_port''"
| "asset_value CLOUD_ACCOUNT = ''cloud_account''"
| "asset_value CONTAINER_K8S = ''container_k8s''"

record required_test_class =
  rt_id :: string
  rt_cwe :: "string list"
  rt_owasp :: "string list"
  rt_risk :: risk_class

definition RequiredTestClass_check :: "required_test_class \<Rightarrow> required_test_class result" where
  "RequiredTestClass_check c =
     (if rt_id c = [] then Inl (DomainValidationError ''RequiredTestClass.id must be non-empty'') else Inr c)"

record test_catalog =
  tc_version :: string
  tc_mappings :: "(asset_type \<times> required_test_class list) list"

definition required_for :: "test_catalog \<Rightarrow> asset_type \<Rightarrow> required_test_class list" where
  "required_for c t = (case dict_get (tc_mappings c) t of None \<Rightarrow> [] | Some xs \<Rightarrow> xs)"

record coverage_report =
  cr_asset_type :: asset_type
  cr_required :: "string list"
  cr_covered :: "string list"
  cr_uncovered :: "string list"
  cr_rate :: rat

definition CoverageReport_check :: "coverage_report \<Rightarrow> coverage_report result" where
  "CoverageReport_check r =
     (if 0 \<le> cr_rate r \<and> cr_rate r \<le> 1 then Inr r
      else Inl (DomainValidationError ''CoverageReport.coverage_rate must be in [0.0, 1.0]''))"

definition class_covered :: "required_test_class \<Rightarrow> observation list \<Rightarrow> bool" where
  "class_covered c xs \<longleftrightarrow>
     list_ex (\<lambda>x. set (rt_cwe c) \<inter> set (ob_cwe x) \<noteq> {} \<or> set (rt_owasp c) \<inter> set (ob_owasp x) \<noteq> {}) xs"

fun split_classes :: "observation list \<Rightarrow> required_test_class list \<Rightarrow> string list \<times> string list" where
  "split_classes xs [] = ([], [])"
| "split_classes xs (c # cs) =
     (let (cov, unc) = split_classes xs cs in
      if class_covered c xs then (rt_id c # cov, unc) else (cov, rt_id c # unc))"

definition compute_coverage :: "asset_type \<Rightarrow> required_test_class list \<Rightarrow> observation list \<Rightarrow> coverage_report result" where
  "compute_coverage t required xs =
     (let (covered, uncovered) = split_classes xs required in
      CoverageReport_check
        \<lparr>cr_asset_type = t, cr_required = map rt_id required, cr_covered = covered, cr_uncovered = uncovered,
         cr_rate = (if required \<noteq> [] then of_nat (length covered) / of_nat (length required) else 1)\<rparr>)"

definition coverage_compute :: "asset_type \<Rightarrow> observation list \<Rightarrow> test_catalog \<Rightarrow> coverage_report result" where
  "coverage_compute t xs c = compute_coverage t (required_for c t) xs"

definition enforce_gate :: "coverage_report \<Rightarrow> unit result" where
  "enforce_gate r = guard (cr_uncovered r = [])
     (DomainError (''coverage gate failed for '' @ asset_value (cr_asset_type r) @
        '': uncovered required classes: '' @ join '', '' (cr_uncovered r)))"

section \<open>Correlation is grouping\<close>

lemma groups_snoc: "groups fp (xs @ [x]) = add_to_group fp (groups fp xs) x"
  by (simp add: groups_def)

text \<open>The keys in order of first occurrence.\<close>

fun first_keys :: "'k list \<Rightarrow> 'k list \<Rightarrow> 'k list" where
  "first_keys seen [] = []"
| "first_keys seen (k # ks) = (if k \<in> set seen then first_keys seen ks else k # first_keys (k # seen) ks)"

lemma set_first_keys: "set (first_keys seen ks) = set ks - set seen"
  by (induction ks arbitrary: seen) auto

lemma distinct_first_keys: "distinct (first_keys seen ks)"
  by (induction ks arbitrary: seen) (auto simp: set_first_keys)

lemma first_keys_snoc:
  "first_keys seen (ks @ [k]) = first_keys seen ks @ (if k \<in> set seen \<union> set ks then [] else [k])"
  by (induction ks arbitrary: seen) auto

lemma groups_eq:
  "groups fp xs = map (\<lambda>k. (k, filter (\<lambda>x. fp x = k) xs)) (first_keys [] (map fp xs))"
proof (induction xs rule: rev_induct)
  case Nil
  show ?case by (simp add: groups_def)
next
  case (snoc x xs)
  let ?f = "\<lambda>k. (k, filter (\<lambda>x. fp x = k) xs)"
  let ?ks = "first_keys [] (map fp xs)"
  have get: "dict_get (map ?f ?ks) k = (if k \<in> fp ` set xs then Some (filter (\<lambda>x. fp x = k) xs) else None)" for k
    using set_first_keys [of "[]" "map fp xs"] by (auto simp: map_of_map_restrict restrict_map_def)
  show ?case
  proof (cases "fp x \<in> fp ` set xs")
    case True
    have upd: "dict_set k v (map ?f ks) = map (\<lambda>j. if j = k then (k, v) else ?f j) ks" if "k \<in> set ks" "distinct ks" for k v ks
      using that by (induction ks) auto
    show ?thesis
      using True snoc set_first_keys [of "[]" "map fp xs"] distinct_first_keys [of "[]" "map fp xs"]
      by (auto simp: groups_snoc add_to_group_def get first_keys_snoc upd)
  next
    case False
    then have "filter (\<lambda>y. fp y = fp x) xs = []" by (metis (mono_tags, lifting) filter_False image_eqI)
    moreover have "dict_keys (map ?f ?ks) = ?ks" by (simp add: comp_def)
    ultimately show ?thesis
      using False snoc set_first_keys [of "[]" "map fp xs"]
      by (auto simp: groups_snoc add_to_group_def get first_keys_snoc dict_keys_set_new)
  qed
qed


lemma max_by_ge: "f best \<le> f (max_by f best xs) \<and> (\<forall>x \<in> set xs. f x \<le> f (max_by f best xs))"
proof (induction xs arbitrary: best)
  case (Cons y ys)
  show ?case
  proof (cases "f y > f best")
    case True
    then show ?thesis using Cons.IH [of y] by (simp add: less_imp_le order.strict_trans1)
  next
    case False
    then show ?thesis using Cons.IH [of best] by (simp add: not_less)
  qed
qed simp

lemma max_by_mem: "max_by f best xs \<in> insert best (set xs)"
proof (induction xs arbitrary: best)
  case (Cons y ys)
  show ?case using Cons.IH [of y] Cons.IH [of best] by auto
qed simp

lemma max_severity_greatest:
  assumes "x \<in> set xs"
  shows "severity_rank (ob_severity x) \<le> severity_rank (max_severity xs)"
  using max_by_ge [of "\<lambda>x. severity_rank (ob_severity x)" "hd xs" "tl xs"] assms
  by (cases xs) (auto simp: max_severity_def)

lemma max_severity_attained: "xs \<noteq> [] \<Longrightarrow> \<exists>x \<in> set xs. ob_severity x = max_severity xs"
  using max_by_mem [of "\<lambda>x. severity_rank (ob_severity x)" "hd xs" "tl xs"]
  by (cases xs) (auto simp: max_severity_def)

lemma merge_group_simps [simp]:
  "fi_fingerprint (merge_group (k, xs)) = k"
  "fi_observation_ids (merge_group (k, xs)) = map ob_external_id xs"
  "fi_severity (merge_group (k, xs)) = max_severity xs"
  "set (fi_cwe (merge_group (k, xs))) = (\<Union>x \<in> set xs. set (ob_cwe x))"
  "set (fi_cve (merge_group (k, xs))) = (\<Union>x \<in> set xs. set (ob_cve x))"
  "fi_evidence_ids (merge_group (k, xs)) = []"
  by (simp_all add: merge_group_def union_sorted_def)

lemma Observation_check_Inr: "Observation_check x = Inr y \<Longrightarrow> y = x \<and> ob_title x \<noteq> [] \<and> ob_asset_identity x \<noteq> []"
  by (auto simp: Observation_check_def split: if_splits)

lemma merge_group_valid:
  assumes "xs \<noteq> []" "\<forall>x \<in> set xs. Observation_check x = Inr x" "k \<noteq> []"
  shows "Finding_check (merge_group (k, xs)) = Inr (merge_group (k, xs))"
proof -
  have "Observation_check (hd xs) = Inr (hd xs)" using assms(1,2) by simp
  from Observation_check_Inr [OF this] show ?thesis
    using assms(3) by (simp add: Finding_check_def merge_group_def)
qed

lemma correlate_eq:
  assumes "\<forall>x \<in> set xs. Observation_check x = Inr x"
  shows "correlate sha xs = Inr (map merge_group (groups (observation_fingerprint sha) xs))"
  unfolding correlate_def
proof (rule map_res_map, rule ballI)
  let ?fp = "observation_fingerprint sha"
  fix g assume "g \<in> set (groups ?fp xs)"
  then obtain k where k: "g = (k, filter (\<lambda>x. ?fp x = k) xs)" "k \<in> ?fp ` set xs"
    by (auto simp: groups_eq set_first_keys)
  moreover have "k \<noteq> []" using k(2) by (auto simp: observation_fingerprint_def canonical_digest_def)
  ultimately show "Finding_check (merge_group g) = Inr (merge_group g)"
    using assms by (auto intro!: merge_group_valid simp: filter_empty_conv)
qed

text \<open>
  Correlation partitions the observations by fingerprint: it returns one finding per fingerprint, in order
  of first occurrence; each finding lists exactly the observations with its fingerprint, in their order,
  carries the greatest of their severities and the union of their weakness and vulnerability ids.
\<close>

theorem correlate_partitions:
  assumes "\<forall>x \<in> set xs. Observation_check x = Inr x"
  shows "\<exists>fs. correlate sha xs = Inr fs \<and>
    map fi_fingerprint fs = first_keys [] (map (observation_fingerprint sha) xs) \<and> distinct (map fi_fingerprint fs) \<and>
    (\<forall>f \<in> set fs. let members = filter (\<lambda>x. observation_fingerprint sha x = fi_fingerprint f) xs in
       members \<noteq> [] \<and> fi_observation_ids f = map ob_external_id members \<and>
       (\<forall>x \<in> set members. severity_rank (ob_severity x) \<le> severity_rank (fi_severity f)) \<and>
       (\<exists>x \<in> set members. ob_severity x = fi_severity f) \<and>
       set (fi_cwe f) = (\<Union>x \<in> set members. set (ob_cwe x)) \<and> set (fi_cve f) = (\<Union>x \<in> set members. set (ob_cve x)))"
proof (intro exI conjI)
  let ?fp = "observation_fingerprint sha"
  let ?fs = "map merge_group (groups ?fp xs)"
  show "correlate sha xs = Inr ?fs" using assms by (rule correlate_eq)
  show keys: "map fi_fingerprint ?fs = first_keys [] (map ?fp xs)"
    by (simp add: groups_eq comp_def)
  show "distinct (map fi_fingerprint ?fs)" unfolding keys by (rule distinct_first_keys)
  show "\<forall>f \<in> set ?fs. let members = filter (\<lambda>x. ?fp x = fi_fingerprint f) xs in
       members \<noteq> [] \<and> fi_observation_ids f = map ob_external_id members \<and>
       (\<forall>x \<in> set members. severity_rank (ob_severity x) \<le> severity_rank (fi_severity f)) \<and>
       (\<exists>x \<in> set members. ob_severity x = fi_severity f) \<and>
       set (fi_cwe f) = (\<Union>x \<in> set members. set (ob_cwe x)) \<and> set (fi_cve f) = (\<Union>x \<in> set members. set (ob_cve x))"
  proof
    fix f assume "f \<in> set ?fs"
    then obtain k where f: "f = merge_group (k, filter (\<lambda>x. ?fp x = k) xs)" "k \<in> ?fp ` set xs"
      by (auto simp: groups_eq set_first_keys)
    moreover have "filter (\<lambda>x. ?fp x = k) xs \<noteq> []" using f(2) by (auto simp: filter_empty_conv)
    ultimately show "let members = filter (\<lambda>x. ?fp x = fi_fingerprint f) xs in
       members \<noteq> [] \<and> fi_observation_ids f = map ob_external_id members \<and>
       (\<forall>x \<in> set members. severity_rank (ob_severity x) \<le> severity_rank (fi_severity f)) \<and>
       (\<exists>x \<in> set members. ob_severity x = fi_severity f) \<and>
       set (fi_cwe f) = (\<Union>x \<in> set members. set (ob_cwe x)) \<and> set (fi_cve f) = (\<Union>x \<in> set members. set (ob_cve x))"
      using max_severity_greatest max_severity_attained [of "filter (\<lambda>x. ?fp x = k) xs"] by (simp add: Let_def)
  qed
qed

text \<open>The findings carry no evidence ids, although observations name their evidence artifacts.\<close>

lemma correlated_findings_have_no_evidence: "correlate sha xs = Inr fs \<Longrightarrow> f \<in> set fs \<Longrightarrow> fi_evidence_ids f = []"
  using map_res_Inr [of "\<lambda>g. Finding_check (merge_group g)" "groups (observation_fingerprint sha) xs" fs]
  by (auto simp: correlate_def Finding_check_def split: if_splits)

definition sample_observation :: "string \<Rightarrow> severity \<Rightarrow> string list \<Rightarrow> observation" where
  "sample_observation i sev cwe = \<lparr>ob_external_id = i, ob_asset_identity = ''http://h/'',
     ob_source = \<lparr>as_name = ''nuclei'', as_version = ''3'', as_template_version = ''1''\<rparr>, ob_rule_id = ''r'',
     ob_rule_version = ''1'', ob_coverage_domain = WEB, ob_title = ''xss'', ob_severity = sev, ob_confidence = 1,
     ob_cwe = cwe, ob_cve = [], ob_owasp = [], ob_evidence_artifact_ids = [''e1''], ob_raw = []\<rparr>"

theorem correlate_partitions_witness:
  "let xs = [sample_observation ''o1'' severity.LOW [''CWE-79''], sample_observation ''o2'' HIGH [''CWE-79'']] in
   \<exists>fs. correlate (\<lambda>s. s) xs = Inr fs \<and> map fi_fingerprint fs = first_keys [] (map (observation_fingerprint (\<lambda>s. s)) xs)"
  unfolding Let_def
  using correlate_partitions [of "[sample_observation ''o1'' severity.LOW [''CWE-79''], sample_observation ''o2'' HIGH [''CWE-79'']]" "\<lambda>s. s"]
  by (auto simp: sample_observation_def Observation_check_def)

section \<open>The coverage gate\<close>

lemma split_classes_eq:
  "split_classes xs cs = (map rt_id (filter (\<lambda>c. class_covered c xs) cs), map rt_id (filter (\<lambda>c. \<not> class_covered c xs) cs))"
  by (induction cs) auto

lemma filter_length_ratio:
  fixes P :: "'a \<Rightarrow> bool"
  assumes "cs \<noteq> []"
  defines "q \<equiv> (of_nat (length (filter P cs)) :: rat) / of_nat (length cs)"
  shows "0 \<le> q \<and> q \<le> 1 \<and> (q = 1 \<longleftrightarrow> (\<forall>c \<in> set cs. P c))"
proof -
  have "length (filter P cs) \<le> length cs" "length cs > 0" using assms(1) by simp_all
  moreover have "length cs = length (filter P cs) \<longleftrightarrow> (\<forall>c \<in> set cs. P c)"
    by (metis filter_True length_filter_less nat_neq_iff)
  ultimately show ?thesis by (simp add: q_def)
qed

text \<open>
  The coverage report is always produced (its rate is in range) and the gate is exact: the required
  classes are split, in order, into those some observation attributes a common weakness or category to and
  the others; the rate is 1 and the gate passes exactly when no required class is left uncovered.
\<close>

theorem coverage_gate_exact:
  "\<exists>r. coverage_compute t xs catalog = Inr r \<and> 0 \<le> cr_rate r \<and> cr_rate r \<le> 1 \<and>
     cr_covered r = map rt_id (filter (\<lambda>c. class_covered c xs) (required_for catalog t)) \<and>
     cr_uncovered r = map rt_id (filter (\<lambda>c. \<not> class_covered c xs) (required_for catalog t)) \<and>
     (enforce_gate r = Inr () \<longleftrightarrow> (\<forall>c \<in> set (required_for catalog t). class_covered c xs)) \<and>
     (cr_rate r = 1 \<longleftrightarrow> (\<forall>c \<in> set (required_for catalog t). class_covered c xs))"
proof (cases "required_for catalog t = []")
  case False
  from filter_length_ratio [OF False, of "\<lambda>c. class_covered c xs"] False show ?thesis
    by (simp add: coverage_compute_def compute_coverage_def CoverageReport_check_def split_classes_eq enforce_gate_def
        filter_empty_conv)
qed (simp add: coverage_compute_def compute_coverage_def CoverageReport_check_def enforce_gate_def)

theorem coverage_gate_exact_witness:
  "\<exists>r. coverage_compute WEB_APP [sample_observation ''o1'' HIGH [''CWE-79'']]
        \<lparr>tc_version = ''1'', tc_mappings = [(WEB_APP, [\<lparr>rt_id = ''xss'', rt_cwe = [''CWE-79''], rt_owasp = [], rt_risk = ACTIVE\<rparr>])]\<rparr> = Inr r \<and>
     enforce_gate r = Inr ()"
  using coverage_gate_exact [of WEB_APP "[sample_observation ''o1'' HIGH [''CWE-79'']]"
      "\<lparr>tc_version = ''1'', tc_mappings = [(WEB_APP, [\<lparr>rt_id = ''xss'', rt_cwe = [''CWE-79''], rt_owasp = [], rt_risk = ACTIVE\<rparr>])]\<rparr>"]
  by (auto simp: required_for_def class_covered_def sample_observation_def)

end
