(* ===== verification/Permits.thy ===== *)
theory Permits
  imports Complex_Main Audit_Trail
begin

text \<open>
  Execution permits (\<^verbatim>\<open>domain/permits/models.py\<close>, \<^verbatim>\<open>infrastructure/permits/permit_signer.py\<close>), the registry of
  issued nonces (\<^verbatim>\<open>infrastructure/safety/permit_revoker.py\<close>) and the global emergency stop
  (\<^verbatim>\<open>application/emergency_stop.py\<close>). Ed25519 is a parameter: \<open>sign\<close> gives the hexadecimal signature of a
  text, \<open>check\<close> says whether a hexadecimal signature verifies for a text (false also for text that is no
  hexadecimal numeral). \<open>fr\<close> is the numeral of a float.
\<close>

section \<open>Permits\<close>

record execution_permit =
  pe_job_id :: string
  pe_worker_id :: string
  pe_scope_digest :: string
  pe_plan_digest :: string
  pe_capabilities :: "string list"
  pe_budget :: rat
  pe_issued_at :: datetime
  pe_expires_at :: datetime
  pe_nonce :: string
  pe_signature :: string

definition DEFAULT_PERMIT_TTL_SECONDS :: int where
  "DEFAULT_PERMIT_TTL_SECONDS = 15 * 60"

definition ExecutionPermit_check :: "execution_permit \<Rightarrow> execution_permit result" where
  "ExecutionPermit_check p =
     (if pe_job_id p = [] then Inl (DomainValidationError ''ExecutionPermit.job_id must be non-empty'')
      else if pe_worker_id p = [] then Inl (DomainValidationError ''ExecutionPermit.worker_id must be non-empty'')
      else if pe_nonce p = [] then Inl (DomainValidationError ''ExecutionPermit.nonce must be non-empty'')
      else if pe_budget p < 0 then Inl (DomainValidationError ''ExecutionPermit.budget must be >= 0'')
      else if pe_expires_at p \<le> pe_issued_at p then
        Inl (DomainValidationError ''ExecutionPermit.expires_at must be after issued_at'')
      else Inr p)"

definition is_expired :: "execution_permit \<Rightarrow> datetime \<Rightarrow> bool" where
  "is_expired p now \<longleftrightarrow> now \<ge> pe_expires_at p"

definition permit_body :: "(rat \<Rightarrow> string) \<Rightarrow> execution_permit \<Rightarrow> pyval" where
  "permit_body fr p = VDict
     [(''job_id'', VStr (pe_job_id p)), (''worker_id'', VStr (pe_worker_id p)),
      (''scope_digest'', VStr (pe_scope_digest p)), (''plan_digest'', VStr (pe_plan_digest p)),
      (''capabilities'', VStrs (pe_capabilities p)), (''budget'', VFloat (fr (pe_budget p))),
      (''issued_at'', VStr (iso_utc (pe_issued_at p))), (''expires_at'', VStr (iso_utc (pe_expires_at p))),
      (''nonce'', VStr (pe_nonce p))]"

definition signing_payload :: "(rat \<Rightarrow> string) \<Rightarrow> execution_permit \<Rightarrow> string" where
  "signing_payload fr p = canonical_json (permit_body fr p)"

definition permit_issue :: "(string \<Rightarrow> string) \<Rightarrow> (rat \<Rightarrow> string) \<Rightarrow> execution_permit \<Rightarrow> execution_permit result" where
  "permit_issue sign fr p = ExecutionPermit_check (p\<lparr>pe_signature := sign (signing_payload fr p)\<rparr>)"

definition permit_verify ::
  "(string \<Rightarrow> string \<Rightarrow> bool) \<Rightarrow> (rat \<Rightarrow> string) \<Rightarrow> execution_permit \<Rightarrow> datetime \<Rightarrow> string set \<Rightarrow> string option \<Rightarrow> unit result" where
  "permit_verify check fr p now used_nonces expected_worker =
     (if \<not> check (pe_signature p) (signing_payload fr p) then
        Inl (PermitSignatureInvalid ''permit signature does not verify'')
      else if now \<ge> pe_expires_at p then Inl (PermitExpired ''permit has expired'')
      else if pe_nonce p \<in> used_nonces then Inl (PermitReplayed ''permit nonce already used'')
      else case expected_worker of
        None \<Rightarrow> Inr ()
      | Some w \<Rightarrow> guard (pe_worker_id p = w) (PermitWorkerMismatch (''permit bound to '' @ pe_worker_id p @ '', not '' @ w)))"

section \<open>The registry of nonces\<close>

record permit_registry =
  rg_issued :: "(string \<times> bool) list"
  rg_revoked :: "string set"

definition empty_registry :: permit_registry where
  "empty_registry = \<lparr>rg_issued = [], rg_revoked = {}\<rparr>"

definition record_issued :: "string \<Rightarrow> bool \<Rightarrow> permit_registry \<Rightarrow> permit_registry" where
  "record_issued n used r =
     (if n \<notin> rg_revoked r then r\<lparr>rg_issued := dict_set n used (rg_issued r)\<rparr> else r)"

definition record_used :: "string \<Rightarrow> permit_registry \<Rightarrow> permit_registry" where
  "record_used n r =
     (if n \<in> set (dict_keys (rg_issued r)) then r\<lparr>rg_issued := dict_set n True (rg_issued r)\<rparr> else r)"

definition is_revoked :: "string \<Rightarrow> permit_registry \<Rightarrow> bool" where
  "is_revoked n r \<longleftrightarrow> n \<in> rg_revoked r"

definition revoke_unused :: "permit_registry \<Rightarrow> nat \<times> permit_registry" where
  "revoke_unused r =
     (let pending = map fst (filter (\<lambda>(n, used). \<not> used) (rg_issued r)) in
      (length pending,
       r\<lparr>rg_revoked := rg_revoked r \<union> set pending,
         rg_issued := filter (\<lambda>(n, _). n \<notin> set pending) (rg_issued r)\<rparr>))"

section \<open>The emergency stop\<close>

record emergency_report =
  er_triggered :: bool
  er_revoked_permits :: nat
  er_terminated_containers :: int
  er_evidence_preserved :: bool
  er_actor :: string
  er_reason :: string

record emergency_stop_state =
  em_triggered :: bool
  em_registry :: permit_registry
  em_audit :: "audit_call list"

definition permits_allowed :: "emergency_stop_state \<Rightarrow> bool" where
  "permits_allowed s \<longleftrightarrow> \<not> em_triggered s"

text \<open>\<open>terminate\<close> is what the container terminator answers or raises.\<close>

definition stop_trigger :: "int result \<Rightarrow> string \<Rightarrow> string \<Rightarrow> (emergency_stop_state, emergency_report) cmd" where
  "stop_trigger terminate actor why s =
     (let (revoked, rg) = revoke_unused (em_registry s);
          s1 = s\<lparr>em_triggered := True, em_registry := rg\<rparr>;
          terminated = (case terminate of Inl _ \<Rightarrow> - 1 | Inr n \<Rightarrow> n) in
      case log_record \<lparr>c_actor = actor, c_action = ''emergency_stop.triggered'', c_resource_type = ''emergency_stop'',
             c_resource_id = ''global'',
             c_payload = [(''priority'', VStr ''high''), (''reason'', VStr why), (''revoked_permits'', VInt (int revoked)),
               (''terminated_containers'', VInt terminated), (''evidence_preserved'', VBool True)]\<rparr> (em_audit s1) of
        (Inl e, lg) \<Rightarrow> (Inl e, s1\<lparr>em_audit := lg\<rparr>)
      | (Inr _, lg) \<Rightarrow>
          (Inr \<lparr>er_triggered = True, er_revoked_permits = revoked, er_terminated_containers = terminated,
                er_evidence_preserved = True, er_actor = actor, er_reason = why\<rparr>, s1\<lparr>em_audit := lg\<rparr>))"

section \<open>What a permit binds\<close>

lemma permit_verify_Inr:
  "permit_verify check fr p now used w = Inr () \<longleftrightarrow>
     check (pe_signature p) (signing_payload fr p) \<and> now < pe_expires_at p \<and> pe_nonce p \<notin> used \<and>
     (\<forall>x. w = Some x \<longrightarrow> pe_worker_id p = x)"
  by (auto simp: permit_verify_def split: option.splits)

lemma permit_body_wf: "(\<And>b. float_text (fr b)) \<Longrightarrow> wf_json (permit_body fr p)"
  by (simp add: permit_body_def list_all_iff)

text \<open>The signed text determines the content: every field by itself, the two times by their text.\<close>

definition same_permit :: "execution_permit \<Rightarrow> execution_permit \<Rightarrow> bool" where
  "same_permit p q \<longleftrightarrow>
     pe_job_id p = pe_job_id q \<and> pe_worker_id p = pe_worker_id q \<and> pe_scope_digest p = pe_scope_digest q \<and>
     pe_plan_digest p = pe_plan_digest q \<and> pe_capabilities p = pe_capabilities q \<and> pe_budget p = pe_budget q \<and>
     iso_utc (pe_issued_at p) = iso_utc (pe_issued_at q) \<and> iso_utc (pe_expires_at p) = iso_utc (pe_expires_at q) \<and>
     pe_nonce p = pe_nonce q"

lemma norm_json_VStrs [simp]: "norm_json (VStrs xs) = VStrs xs"
  by simp

lemma map_VStr_inject [simp]: "map VStr xs = map VStr ys \<longleftrightarrow> xs = ys"
  by (simp add: inj_map_eq_map inj_def)

lemma signing_payload_inject:
  assumes "signing_payload fr p = signing_payload fr q" "\<And>b. float_text (fr b)" "inj fr"
  shows "same_permit p q"
proof -
  have "norm_json (permit_body fr p) = norm_json (permit_body fr q)"
    using canonical_json_inject_gen [OF permit_body_wf [of fr p] permit_body_wf [of fr q], of "[]" "[]"] assms(1,2)
    by (simp add: signing_payload_def)
  then show ?thesis
    using injD [OF assms(3)] unfolding same_permit_def permit_body_def by (auto simp: comp_def)
qed

text \<open>
  C31. A permit cannot be altered or reused: if a permit that carries the signature issued for \<open>p\<close> passes
  verification, it is \<open>p\<close> in every field (job, worker, scope and plan digest, capabilities, budget, nonce and
  the text of both times), it has not expired, its nonce is not among the used ones and it is held by the
  expected worker. Conversely a freshly issued permit passes exactly under these conditions. The
  hypotheses on Ed25519 are that a signature verifies for the signed text and for no other text.
\<close>

theorem permit_binds_content:
  assumes "\<And>m. check (sign m) m" "\<And>m m'. check (sign m) m' \<Longrightarrow> m' = m" "\<And>b. float_text (fr b)" "inj fr"
    and "permit_issue sign fr p = Inr p1"
  shows "(permit_verify check fr p1 now used (Some w) = Inr () \<longleftrightarrow>
            now < pe_expires_at p \<and> pe_nonce p \<notin> used \<and> pe_worker_id p = w) \<and>
         (\<forall>q. pe_signature q = pe_signature p1 \<and> permit_verify check fr q now used (Some w) = Inr () \<longrightarrow>
            same_permit q p \<and> now < pe_expires_at q \<and> pe_nonce q \<notin> used \<and> pe_worker_id q = w)"
proof -
  have p1: "p1 = p\<lparr>pe_signature := sign (signing_payload fr p)\<rparr>"
    using assms(5) by (auto simp: permit_issue_def ExecutionPermit_check_def split: if_splits)
  have body: "signing_payload fr p1 = signing_payload fr p"
    by (simp add: p1 signing_payload_def permit_body_def)
  have "same_permit q p" if "pe_signature q = pe_signature p1" "permit_verify check fr q now used (Some w) = Inr ()" for q
    using assms(2) [of "signing_payload fr p" "signing_payload fr q"] that signing_payload_inject [of fr q p] assms(3,4)
    by (simp add: permit_verify_Inr p1)
  then show ?thesis
    using assms(1) body by (auto simp: permit_verify_Inr p1)
qed

definition sample_permit :: execution_permit where
  "sample_permit = \<lparr>pe_job_id = ''asm-1'', pe_worker_id = ''adapter-executor'', pe_scope_digest = ''sd'', pe_plan_digest = ''pd'',
     pe_capabilities = [], pe_budget = 0, pe_issued_at = 0, pe_expires_at = 900000000, pe_nonce = ''n1'', pe_signature = []\<rparr>"

text \<open>A numeral for rationals that satisfies the two hypotheses on \<open>fr\<close>: numerator and denominator in decimals.\<close>

definition rat_numeral :: "rat \<Rightarrow> string" where
  "rat_numeral q = (case quotient_of q of (a, b) \<Rightarrow> int_repr a @ ''e'' @ int_repr b)"

lemma split_at_e:
  assumes "CHR ''e'' \<notin> set a" "CHR ''e'' \<notin> set c" "a @ CHR ''e'' # b = c @ CHR ''e'' # d"
  shows "a = c \<and> b = d"
  using assms
proof (induction a arbitrary: c)
  case Nil
  then show ?case by (cases c) auto
next
  case (Cons x a)
  then show ?case by (cases c) auto
qed

lemma rat_numeral_ok: "float_text (rat_numeral q)" "inj rat_numeral"
proof -
  have no_e: "CHR ''e'' \<notin> set (int_repr i)" for i
    using int_repr_chars [of i] digit_chars_number(5) by auto
  have "CHR ''e'' \<in> number_chars"
    unfolding number_chars_def by code_simp
  then show "float_text (rat_numeral q)"
    using int_repr_number(1) by (cases "quotient_of q") (auto simp: rat_numeral_def float_text_def dest: subsetD)
  show "inj rat_numeral"
  proof (rule injI)
    fix x y assume "rat_numeral x = rat_numeral y"
    then have "quotient_of x = quotient_of y"
      using split_at_e [OF no_e no_e] int_repr_inject
      by (cases "quotient_of x"; cases "quotient_of y") (auto simp: rat_numeral_def)
    then show "x = y" by (metis quotient_of_inject)
  qed
qed

theorem permit_binds_content_witness:
  "\<exists>p1. permit_issue (\<lambda>m. m) rat_numeral sample_permit = Inr p1 \<and>
     permit_verify (\<lambda>s m. s = m) rat_numeral p1 5 {} (Some ''adapter-executor'') = Inr ()"
proof -
  have "permit_issue (\<lambda>m. m) rat_numeral sample_permit =
      Inr (sample_permit\<lparr>pe_signature := signing_payload rat_numeral sample_permit\<rparr>)"
    by (simp add: permit_issue_def ExecutionPermit_check_def sample_permit_def)
  from permit_binds_content [where check = "\<lambda>s m. s = m", OF _ _ rat_numeral_ok this, of 5 "{}" "''adapter-executor''"] this
  show ?thesis by (simp add: sample_permit_def)
qed

section \<open>Emergency stop\<close>

lemma pending_nonces: "set (map fst (filter (\<lambda>(n, used). \<not> used) xs)) = {n. (n, False) \<in> set xs}"
  by force

lemma revoke_unused_facts:
  assumes "distinct (dict_keys (rg_issued r))"
  shows "set (rg_issued (snd (revoke_unused r))) = {e \<in> set (rg_issued r). snd e}"
    and "rg_revoked (snd (revoke_unused r)) = rg_revoked r \<union> {n. (n, False) \<in> set (rg_issued r)}"
proof -
  have "b" if "(n, b) \<in> set (rg_issued r)" "(n, False) \<notin> set (rg_issued r)" for n b
    using that by (cases b) auto
  moreover have False if "(n, True) \<in> set (rg_issued r)" "(n, False) \<in> set (rg_issued r)" for n
    using eq_key_imp_eq_value [OF assms that] by simp
  ultimately show "set (rg_issued (snd (revoke_unused r))) = {e \<in> set (rg_issued r). snd e}"
    by (auto simp: revoke_unused_def Let_def pending_nonces simp del: set_map)
  show "rg_revoked (snd (revoke_unused r)) = rg_revoked r \<union> {n. (n, False) \<in> set (rg_issued r)}"
    by (simp add: revoke_unused_def Let_def pending_nonces del: set_map)
qed

lemma trigger_keys_not_secret:
  "\<forall>k \<in> {''priority'', ''reason'', ''revoked_permits'', ''terminated_containers'', ''evidence_preserved''}.
     py_lower k \<notin> set SECRET_KEYS"
  by code_simp

text \<open>
  C32. The emergency stop fails safe: whatever the container terminator answers or raises and even when the
  audit record is refused, after \<^verbatim>\<open>trigger\<close> the switch is on and no unused permit is left in the registry:
  every unused nonce is revoked and the used ones are kept. A refused audit record is the only way to raise.
\<close>

theorem emergency_stop_fails_safe:
  assumes "distinct (dict_keys (rg_issued (em_registry s)))"
  shows "\<exists>r s'. stop_trigger terminate actor why s = (r, s') \<and> em_triggered s' \<and> \<not> permits_allowed s' \<and>
    set (rg_issued (em_registry s')) = {e \<in> set (rg_issued (em_registry s)). snd e} \<and>
    (\<forall>n. (n, False) \<in> set (rg_issued (em_registry s)) \<longrightarrow> is_revoked n (em_registry s')) \<and>
    (isl r \<longleftrightarrow> actor = [])"
proof -
  obtain k rg where rg: "revoke_unused (em_registry s) = (k, rg)" by fastforce
  show ?thesis
    using revoke_unused_facts [OF assms] trigger_keys_not_secret
    by (auto simp: stop_trigger_def rg log_record_def call_ok_def permits_allowed_def is_revoked_def Let_def)
qed

theorem emergency_stop_fails_safe_witness:
  "let s = \<lparr>em_triggered = False, em_registry = record_issued ''n1'' False empty_registry, em_audit = []\<rparr> in
   \<exists>r s'. stop_trigger (Inl (DomainError ''docker'')) ''ops'' ''breach'' s = (r, s') \<and> em_triggered s' \<and> is_revoked ''n1'' (em_registry s')"
  using emergency_stop_fails_safe [of "\<lparr>em_triggered = False, em_registry = record_issued ''n1'' False empty_registry, em_audit = []\<rparr>"
      "Inl (DomainError ''docker'')" "''ops''" "''breach''"]
  by (auto simp: Let_def record_issued_def empty_registry_def)

text \<open>
  The verifier does not look at the registry: a permit whose nonce the emergency stop has revoked still
  passes verification, until it expires.
\<close>

lemma revoked_permit_still_verifies:
  "let p = sample_permit\<lparr>pe_signature := signing_payload (\<lambda>_. ''0.0'') sample_permit\<rparr>;
       r = record_issued (pe_nonce p) False empty_registry;
       s = snd (stop_trigger (Inr 0) ''ops'' ''breach'' \<lparr>em_triggered = False, em_registry = r, em_audit = []\<rparr>)
   in is_revoked (pe_nonce p) (em_registry s) \<and>
      permit_verify (\<lambda>s m. s = m) (\<lambda>_. ''0.0'') p 5 {} (Some ''adapter-executor'') = Inr ()"
  by code_simp

end
