(* ===== verification/Execution.thy ===== *)
theory Execution
  imports Orchestration Assessments Oracle_Service Findings Permits
begin

text \<open>
  The execution of one assessment (\<^verbatim>\<open>application/execution.py\<close>): the bridge from the service to the
  orchestrator. It composes the models of the assessment service, the permits, the scope chain, the egress
  guard (\<^verbatim>\<open>infrastructure/egress/egress_guard.py\<close>), the orchestrator, correlation, coverage and the batch
  oracle. The step runner works on the whole state, so that it may stand for a step during which other
  callers pause, resume or cancel the assessment. Optional collaborators are options. Logging and commits
  at phase boundaries have no effect on the modelled state. The model is the serial executor: the parallel
  one (\<^verbatim>\<open>max_workers > 1\<close>) is not modelled.
\<close>

section \<open>The egress guard\<close>

definition DEFAULT_BLOCKED_CIDRS :: "string list" where
  "DEFAULT_BLOCKED_CIDRS = [''169.254.0.0/16'', ''127.0.0.0/8'']"

definition is_blocked_destination :: "ip_net list \<Rightarrow> string \<Rightarrow> bool" where
  "is_blocked_destination blocked ip =
     (case ip_address ip of None \<Rightarrow> True | Some a \<Rightarrow> list_ex (in_network a) blocked)"

fun egress_recheck ::
  "(string \<Rightarrow> string option) \<Rightarrow> ip_net list \<Rightarrow> scope_snapshot \<Rightarrow> string list \<Rightarrow> policy_decision option result" where
  "egress_recheck idna blocked sc [] = Inr None"
| "egress_recheck idna blocked sc (ip # ips) =
     (if is_blocked_destination blocked ip then Inr (Some (deny ''BLOCKED_DESTINATION''))
      else bind_res (includes_ip idna sc ip) (\<lambda>inside.
        if \<not> inside then Inr (Some (deny ''OUT_OF_SCOPE'')) else egress_recheck idna blocked sc ips))"

definition egress_check ::
  "(string \<Rightarrow> string option) \<Rightarrow> (string \<Rightarrow> string list result) \<Rightarrow> ip_net list \<Rightarrow> string \<Rightarrow> scope_snapshot \<Rightarrow> policy_decision result" where
  "egress_check idna resolve blocked target sc =
     bind_res (split_target target) (\<lambda>(host, port).
       if host = [] then Inr (deny ''INVALID_TARGET'')
       else bind_res (if ip_address host \<noteq> None then Inr [host] else resolve host) (\<lambda>resolved.
         if resolved = [] then Inr (deny ''DNS_RESOLUTION_FAILED'')
         else bind_res (egress_recheck idna blocked sc resolved) (\<lambda>verdict.
           case verdict of
             Some d \<Rightarrow> Inr d
           | None \<Rightarrow>
               bind_res (case port of None \<Rightarrow> Inr True | Some p \<Rightarrow> includes_port sc p) (\<lambda>ok.
                 if ok then Inr \<lparr>allowed = True, reason = ''ALLOWED''\<rparr> else Inr (deny ''PORT_NOT_ALLOWED'')))))"

section \<open>State and collaborators\<close>

record ('o, 'w) exec_world = asm_db +
  ex_audit :: "audit_call list"
  ex_chain :: "audit_call list option"
  ex_outbox :: "audit_call list option"
  ex_registry :: "permit_registry option"
  ex_stop :: "bool option"
  ex_jobs :: mem_store
  ex_findings :: "(string \<times> finding) list"
  ex_confirmed :: "(string \<times> confirmed_finding) list"
  ex_oracle :: "'o oracle_world"
  ex_run :: 'w

record ('o, 'w) exec_ports =
  xp_sha :: "string \<Rightarrow> string"
  xp_idna :: "string \<Rightarrow> string option"
  xp_float :: "rat \<Rightarrow> string"
  xp_err :: "exn \<Rightarrow> string" \<comment> \<open>\<^verbatim>\<open>str(exc)\<close>\<close>
  xp_clock :: "nat \<Rightarrow> datetime" \<comment> \<open>the successive readings of the clock\<close>
  xp_signer :: "(string \<Rightarrow> string) option"
  xp_verifier :: "(string \<Rightarrow> string \<Rightarrow> bool) option"
  xp_enforcer :: "(string \<Rightarrow> string list result) option" \<comment> \<open>the scope enforcer, by its resolver\<close>
  xp_egress :: "((string \<Rightarrow> string list result) \<times> ip_net list) option"
  xp_nft :: "(scope_snapshot \<Rightarrow> unit result) option"
  xp_runner :: "scope_snapshot \<Rightarrow> ('o, 'w) exec_world step_runner"
  xp_observations :: "scope_snapshot \<Rightarrow> ('o, 'w) exec_world \<Rightarrow> observation list"
  xp_catalog :: "test_catalog option"
  xp_asset_types :: "asset_type list"
  xp_oracle :: "(method_registry \<times> (finding \<Rightarrow> vuln_type \<Rightarrow> 'o verifier)) option"
  xp_shared_jobs :: bool \<comment> \<open>\<^verbatim>\<open>jobs_store\<close> is given\<close>
  xp_terminator :: "(string \<Rightarrow> int result) option"

type_synonym ('o, 'w, 'a) exec_cmd = "(('o, 'w) exec_world, 'a) cmd"

section \<open>Auditing\<close>

definition outbox_record :: "audit_call \<Rightarrow> ('o, 'w, unit) exec_cmd" where
  "outbox_record c w = (Inr (), w\<lparr>ex_outbox := map_option (\<lambda>l. l @ [c]) (ex_outbox w)\<rparr>)"

definition service_record :: "audit_call \<Rightarrow> ('o, 'w, unit) exec_cmd" where
  "service_record c w = (case log_record c (ex_audit w) of (r, l) \<Rightarrow> (r, w\<lparr>ex_audit := l\<rparr>))"

definition signed_record :: "string option \<Rightarrow> audit_call \<Rightarrow> ('o, 'w, unit) exec_cmd" where
  "signed_record nonce c w =
     (case ex_chain w of
        None \<Rightarrow> (Inr (), w)
      | Some lg \<Rightarrow>
          (case log_record (case nonce of None \<Rightarrow> c | Some n \<Rightarrow> c\<lparr>c_payload := dict_set ''permit_nonce'' (VStr n) (c_payload c)\<rparr>) lg of
             (r, l) \<Rightarrow> (r, w\<lparr>ex_chain := Some l\<rparr>)))"

definition asm_audit :: "string \<Rightarrow> string \<Rightarrow> pydict \<Rightarrow> ('o, 'w, unit) exec_cmd" where
  "asm_audit i action payload w =
     (let c = \<lparr>c_actor = ''system'', c_action = action, c_resource_type = ''assessment'', c_resource_id = i, c_payload = payload\<rparr> in
      if ex_outbox w \<noteq> None then outbox_record c w
      else bindC (service_record c) (\<lambda>_. signed_record None c) w)"

definition chain_nonces :: "('o, 'w) exec_world \<Rightarrow> string set" where
  "chain_nonces w =
     (case ex_chain w of
        None \<Rightarrow> {}
      | Some lg \<Rightarrow> set (map py_str (List.map_filter (\<lambda>c. dict_get (c_payload c) ''permit_nonce'') lg)))"

section \<open>Permit\<close>

definition new_permit :: "('o, 'w) exec_ports \<Rightarrow> string \<Rightarrow> string \<Rightarrow> string \<Rightarrow> string \<Rightarrow> execution_permit" where
  "new_permit P nonce i scope_digest plan_dg =
     (let now = xp_clock P 0 in
      \<lparr>pe_job_id = i, pe_worker_id = ''adapter-executor'', pe_scope_digest = scope_digest, pe_plan_digest = plan_dg,
       pe_capabilities = [], pe_budget = 0, pe_issued_at = now,
       pe_expires_at = now + seconds DEFAULT_PERMIT_TTL_SECONDS, pe_nonce = nonce, pe_signature = []\<rparr>)"

definition issue_permit ::
  "('o, 'w) exec_ports \<Rightarrow> string \<Rightarrow> string \<Rightarrow> string \<Rightarrow> string \<Rightarrow> ('o, 'w, execution_permit option) exec_cmd" where
  "issue_permit P nonce i scope_digest plan_dg =
     (case xp_signer P of
        None \<Rightarrow> returnC None
      | Some sign \<Rightarrow>
          bindC (liftC (bind_res (ExecutionPermit_check (new_permit P nonce i scope_digest plan_dg))
                          (permit_issue sign (xp_float P)))) (\<lambda>p w.
            (Inr (Some p), w\<lparr>ex_registry := map_option (record_issued (pe_nonce p) False) (ex_registry w)\<rparr>)))"

text \<open>The result \<^term>\<open>False\<close> stands for \<^verbatim>\<open>None\<close>: the permit was refused, the assessment failed and was audited.\<close>

definition verify_permit :: "('o, 'w) exec_ports \<Rightarrow> string \<Rightarrow> execution_permit option \<Rightarrow> ('o, 'w, bool) exec_cmd" where
  "verify_permit P i permit w =
     (case (xp_verifier P, permit) of
        (Some check, Some p) \<Rightarrow>
          (case permit_verify check (xp_float P) p (xp_clock P 1) (chain_nonces w) (Some ''adapter-executor'') of
             Inl e \<Rightarrow>
               bindC (asm_fail i (''PERMIT_INVALID:'' @ xp_err P e)) (\<lambda>_.
               bindC (asm_audit i ''assessment.blocked.permit_invalid'' [(''reason'', VStr (xp_err P e))]) (\<lambda>_.
                 returnC False)) w
           | Inr _ \<Rightarrow> (Inr True, w\<lparr>ex_registry := map_option (record_used (pe_nonce p)) (ex_registry w)\<rparr>))
      | _ \<Rightarrow> (Inr True, w))"

section \<open>Targets\<close>

definition step_target :: "plan_step \<Rightarrow> pyval list" where
  "step_target s = (case dict_get (parameters s) ''target'' of None \<Rightarrow> [] | Some v \<Rightarrow> if truthy v then [v] else [])"

definition is_cidr_rule :: "string \<Rightarrow> bool" where
  "is_cidr_rule t \<longleftrightarrow> CHR ''/'' \<in> set t \<and> \<not> is_http t"

definition scan_targets :: "execution_plan \<Rightarrow> scope_snapshot \<Rightarrow> pyval list" where
  "scan_targets plan sc =
     foldl (\<lambda>acc t. if is_cidr_rule t \<or> VStr t \<in> set acc then acc else acc @ [VStr t])
       (concat (map step_target (plan_steps plan))) (sc_include sc)"

definition precheck_context :: enforcement_context where
  "precheck_context = \<lparr>ec_risk = PASSIVE, ec_approved_risks = {PASSIVE}, ec_approved = True, ec_budget_remaining = 1,
     ec_hour = 0, ec_time_window = None, ec_permit_valid = True\<rparr>"

text \<open>One target: the first denial of the egress guard or of the enforcer, with its audit action.\<close>

definition target_denial ::
  "('o, 'w) exec_ports \<Rightarrow> scope_snapshot \<Rightarrow> pyval \<Rightarrow> (string \<times> string \<times> string) option result" where
  "target_denial P sc v =
     (case v of
        VStr t \<Rightarrow>
          bind_res (case xp_egress P of
              None \<Rightarrow> Inr None
            | Some (resolve, blocked) \<Rightarrow>
                bind_res (egress_check (xp_idna P) resolve blocked t sc) (\<lambda>d.
                  Inr (if allowed d then None
                       else Some (''EGRESS_DENIED:'', ''assessment.blocked.egress_denied'', reason d)))) (\<lambda>denial.
            if denial \<noteq> None then Inr denial
            else case xp_enforcer P of
              None \<Rightarrow> Inr None
            | Some resolve \<Rightarrow>
                bind_res (scope_check (xp_idna P) resolve t sc precheck_context) (\<lambda>d.
                  Inr (if allowed d then None
                       else Some (''SCOPE_VIOLATION:'', ''assessment.blocked.scope_violation'', reason d))))
      | _ \<Rightarrow> Inl (AttributeError ''startswith''))"

fun check_targets :: "('o, 'w) exec_ports \<Rightarrow> string \<Rightarrow> scope_snapshot \<Rightarrow> pyval list \<Rightarrow> ('o, 'w, bool) exec_cmd" where
  "check_targets P i sc [] = returnC True"
| "check_targets P i sc (v # vs) =
     bindC (liftC (target_denial P sc v)) (\<lambda>denial.
       case denial of
         None \<Rightarrow> check_targets P i sc vs
       | Some (tag, action, why) \<Rightarrow>
           bindC (asm_fail i (tag @ why)) (\<lambda>_.
           bindC (asm_audit i action [(''target'', v), (''reason'', VStr why)]) (\<lambda>_. returnC False)))"

definition check_plan_scope ::
  "('o, 'w) exec_ports \<Rightarrow> string \<Rightarrow> execution_plan \<Rightarrow> scope_snapshot \<Rightarrow> ('o, 'w, bool) exec_cmd" where
  "check_plan_scope P i plan sc =
     (if xp_enforcer P = None \<and> xp_egress P = None then returnC True
      else check_targets P i sc (scan_targets plan sc))"

section \<open>Running the plan\<close>

definition control_gate :: "string \<Rightarrow> ('o, 'w) exec_world \<Rightarrow> string option \<times> ('o, 'w) exec_world" where
  "control_gate i w =
     (case dict_get (asm_rows w) i of
        None \<Rightarrow> (Some ''cancelled'', w)
      | Some a \<Rightarrow>
          if asm_control a = CNONE then (None, w)
          else ((case asm_control a of
                   PAUSE_REQUESTED \<Rightarrow> Some ''paused''
                 | CANCEL_REQUESTED \<Rightarrow> Some ''cancelled''
                 | _ \<Rightarrow> None),
                snd (asm_add (a\<lparr>asm_control := CNONE\<rparr>) w)))"

definition run_plan ::
  "('o, 'w) exec_ports \<Rightarrow> string \<Rightarrow> execution_plan \<Rightarrow> scope_snapshot \<Rightarrow> ('o, 'w, string) exec_cmd" where
  "run_plan P i plan sc w =
     (let st = (if xp_shared_jobs P then ex_jobs w else \<lparr>jobs = [], ttl = 300\<rparr>);
          orc = snd (dispatch plan \<lparr>store = st, known_steps = [], world = w\<rparr>)
      in case run_to_completion (xp_runner P sc) (Some (control_gate i)) ''system'' (xp_clock P 2) 100 orc of
           (r, orc') \<Rightarrow> (r, (world orc')\<lparr>ex_jobs := store orc'\<rparr>))"

definition open_job :: "job \<Rightarrow> bool" where
  "open_job j \<longleftrightarrow> status j \<in> {READY, BLOCKED, PENDING, LEASED}"

fun skip_jobs :: "job list \<Rightarrow> mem_store \<Rightarrow> mem_store result" where
  "skip_jobs [] st = Inr st"
| "skip_jobs (j # js) st =
     (if open_job j then bind_res (skip (job_id j) st) (\<lambda>(_, st'). skip_jobs js st') else skip_jobs js st)"

definition handle_cancelled :: "('o, 'w) exec_ports \<Rightarrow> string \<Rightarrow> ('o, 'w, unit) exec_cmd" where
  "handle_cancelled P i =
     bindC (\<lambda>w. case skip_jobs (store_all (ex_jobs w)) (ex_jobs w) of
                  Inl e \<Rightarrow> (Inl e, w)
                | Inr st \<Rightarrow> (Inr (), w\<lparr>ex_jobs := st\<rparr>)) (\<lambda>_.
     bindC (case xp_terminator P of
              None \<Rightarrow> returnC 0
            | Some kill \<Rightarrow>
                (case kill i of
                   Inr n \<Rightarrow> returnC n
                 | Inl e \<Rightarrow> bindC (asm_audit i ''assessment.cancel.termination_failed'' [(''reason'', VStr (xp_err P e))])
                              (\<lambda>_. returnC 0))) (\<lambda>terminated.
       asm_audit i ''assessment.cancelled'' [(''actual'', VBool True), (''terminated_containers'', VInt terminated)]))"

section \<open>Finishing\<close>

definition exec_coverage :: "('o, 'w) exec_ports \<Rightarrow> observation list \<Rightarrow> rat \<times> string list" where
  "exec_coverage P xs =
     (case (xp_catalog P, xp_asset_types P) of
        (Some c, t # _) \<Rightarrow>
          if xs = [] then (0, [])
          else (case coverage_compute t xs c of Inl _ \<Rightarrow> (0, []) | Inr r \<Rightarrow> (cr_rate r, cr_uncovered r))
      | _ \<Rightarrow> (0, []))"

definition store_finding :: "finding \<Rightarrow> ('o, 'w) exec_world \<Rightarrow> ('o, 'w) exec_world" where
  "store_finding f w = w\<lparr>ex_findings := dict_set (fi_id f) f (ex_findings w)\<rparr>"

text \<open>The batch oracle works on its part of the state.\<close>

definition oracle_batch ::
  "('o, 'w) exec_ports \<Rightarrow> method_registry \<times> (finding \<Rightarrow> vuln_type \<Rightarrow> 'o verifier) \<Rightarrow> finding list \<Rightarrow>
   ('o, 'w, oracle_summary) exec_cmd" where
  "oracle_batch P oracle fs w =
     (case verify_findings (xp_sha P) (xp_err P) (fst oracle) (snd oracle) ''system'' (xp_clock P 3) fs
             \<lparr>sv_world = ex_oracle w, sv_findings = ex_findings w, sv_confirmed = ex_confirmed w,
              sv_audit = ex_audit w, sv_chain = ex_chain w\<rparr> of
        (r, s) \<Rightarrow> (r, w\<lparr>ex_oracle := sv_world s, ex_findings := sv_findings s, ex_confirmed := sv_confirmed s,
                      ex_audit := sv_audit s, ex_chain := sv_chain s\<rparr>))"

definition oracle_phase :: "('o, 'w) exec_ports \<Rightarrow> string \<Rightarrow> finding list \<Rightarrow> ('o, 'w, unit) exec_cmd" where
  "oracle_phase P i fs w =
     (case xp_oracle P of
        Some oracle \<Rightarrow>
          if fs = [] then (Inr (), w)
          else (case bindC (oracle_batch P oracle fs) (\<lambda>s.
                       asm_audit i ''oracle.batch_verified''
                         [(''confirmed'', VInt (int (os_confirmed s))), (''refuted'', VInt (int (os_refuted s))),
                          (''inconclusive'', VInt (int (os_inconclusive s))), (''skipped'', VInt (int (os_skipped s))),
                          (''failed'', VInt (int (os_failed s)))]) w of
                  (Inr _, w') \<Rightarrow> (Inr (), w')
                | (Inl e, w') \<Rightarrow> asm_audit i ''oracle.batch_failed'' [(''reason'', VStr (xp_err P e))] w')
      | None \<Rightarrow> (Inr (), w))"

definition empty_execution :: "finding list \<Rightarrow> mem_store \<Rightarrow> bool" where
  "empty_execution fs st \<longleftrightarrow> fs = [] \<and> length (filter (\<lambda>j. status j = SUCCEEDED) (store_all st)) = 0"

definition finalize_execution :: "('o, 'w) exec_ports \<Rightarrow> string \<Rightarrow> scope_snapshot \<Rightarrow> ('o, 'w, unit) exec_cmd" where
  "finalize_execution P i sc w =
     (let xs = xp_observations P sc w in
      bindC (liftC (correlate (xp_sha P) xs)) (\<lambda>fs.
        if empty_execution fs (ex_jobs w) then
          bindC (asm_fail i ''EMPTY_EXECUTION:no plan step succeeded, 0 findings'') (\<lambda>_.
            asm_audit i ''assessment.completed.empty_execution''
              [(''coverage_rate'', VFloat (xp_float P 0)), (''reason'', VStr ''zero successful plan steps, zero findings'')])
        else
          bindC (\<lambda>w. (Inr (), foldl (\<lambda>w f. store_finding (f\<lparr>fi_assessment_id := i\<rparr>) w) w fs)) (\<lambda>_.
          bindC (oracle_phase P i fs) (\<lambda>_.
          bindC (asm_complete i) (\<lambda>_.
            let (rate, uncovered) = exec_coverage P xs in
            asm_audit i ''assessment.completed''
              [(''findings'', VInt (int (length fs))), (''coverage_rate'', VFloat (xp_float P rate)),
               (''uncovered_classes'', VStrs uncovered),
               (''no_observations'', if xs = [] then VBool True else VNone)])))) w)"

section \<open>Executing and resuming\<close>

definition apply_nft :: "('o, 'w) exec_ports \<Rightarrow> string \<Rightarrow> scope_snapshot \<Rightarrow> ('o, 'w, unit) exec_cmd" where
  "apply_nft P i sc =
     (case xp_nft P of
        None \<Rightarrow> returnC ()
      | Some apply \<Rightarrow>
          (case apply sc of
             Inr _ \<Rightarrow> returnC ()
           | Inl e \<Rightarrow> asm_audit i ''egress.hardening_unavailable'' [(''reason'', VStr (xp_err P e))]))"

definition run_and_finish :: "('o, 'w) exec_ports \<Rightarrow> string \<Rightarrow> execution_plan \<Rightarrow> scope_snapshot \<Rightarrow> ('o, 'w, unit) exec_cmd \<Rightarrow> ('o, 'w, unit) exec_cmd" where
  "run_and_finish P i plan sc before_finish =
     bindC (run_plan P i plan sc) (\<lambda>run_status.
       if run_status = ''cancelled'' then handle_cancelled P i
       else if run_status = ''paused'' then asm_audit i ''assessment.paused'' [(''actual'', VBool True)]
       else bindC before_finish (\<lambda>_. finalize_execution P i sc))"

text \<open>\<^verbatim>\<open>assessment_repo.get\<close>, \<^verbatim>\<open>get_plan\<close> and \<^verbatim>\<open>get_snapshot\<close> with their errors.\<close>

definition load_execution :: "string \<Rightarrow> ('o, 'w, execution_plan \<times> scope_snapshot) exec_cmd" where
  "load_execution i w =
     (case dict_get (asm_rows w) i of
        None \<Rightarrow> (Inl (ExecutionStateError (''assessment missing or has no active plan: '' @ i)), w)
      | Some a \<Rightarrow>
          (case asm_active_plan_id a of
             None \<Rightarrow> (Inl (ExecutionStateError (''assessment missing or has no active plan: '' @ i)), w)
           | Some pid \<Rightarrow>
               (case dict_get (plan_rows w) pid of
                  None \<Rightarrow> (Inl (ExecutionStateError (''plan not found: '' @ pid)), w)
                | Some plan \<Rightarrow>
                    bindC (get_snapshot (asm_scope_snapshot_id a)) (\<lambda>sc0.
                      case sc0 of
                        None \<Rightarrow> raiseC (ExecutionStateError (''scope snapshot not found: '' @ asm_scope_snapshot_id a))
                      | Some sc \<Rightarrow> returnC (plan, sc)) w)))"

text \<open>
  The body of \<^verbatim>\<open>execute_assessment\<close> in three parts: what runs once the permit is verified, what runs once
  the rows are loaded, and the whole.
\<close>

definition run_permitted :: "('o, 'w) exec_ports \<Rightarrow> string \<Rightarrow> execution_plan \<Rightarrow> scope_snapshot \<Rightarrow> execution_permit option \<Rightarrow> ('o, 'w, unit) exec_cmd" where
  "run_permitted P i plan sc permit =
     bindC (case permit of
              None \<Rightarrow> returnC ()
            | Some p \<Rightarrow> signed_record (Some (pe_nonce p))
                \<lparr>c_actor = ''system'', c_action = ''permit.used'', c_resource_type = ''permit'', c_resource_id = i,
                 c_payload = [(''job_id'', VStr i)]\<rparr>) (\<lambda>_.
     bindC (asm_audit i ''assessment.started''
              (case permit of None \<Rightarrow> [] | Some p \<Rightarrow> [(''permit_nonce'', VStr (pe_nonce p))])) (\<lambda>_.
     bindC (check_plan_scope P i plan sc) (\<lambda>inside.
       if \<not> inside then returnC ()
       else bindC (apply_nft P i sc) (\<lambda>_. run_and_finish P i plan sc (returnC ())))))"

definition run_loaded :: "('o, 'w) exec_ports \<Rightarrow> string \<Rightarrow> string \<Rightarrow> execution_plan \<Rightarrow> scope_snapshot \<Rightarrow> ('o, 'w, unit) exec_cmd" where
  "run_loaded P nonce i plan sc =
     bindC (issue_permit P nonce i (sc_digest sc) (plan_digest plan)) (\<lambda>permit.
     bindC (verify_permit P i permit) (\<lambda>valid.
       if \<not> valid then returnC () else run_permitted P i plan sc permit))"

definition execute_body :: "('o, 'w) exec_ports \<Rightarrow> string \<Rightarrow> string \<Rightarrow> ('o, 'w, unit) exec_cmd" where
  "execute_body P nonce i =
     bindC (mark_running i) (\<lambda>_ w0.
       if ex_stop w0 = Some True then
         bindC (asm_fail i ''EMERGENCY_STOP_TRIGGERED'') (\<lambda>_.
           asm_audit i ''assessment.blocked.emergency_stop'' [(''reason'', VStr ''emergency_stop_triggered'')]) w0
       else bindC (load_execution i) (\<lambda>(plan, sc). run_loaded P nonce i plan sc) w0)"

text \<open>
  The \<^verbatim>\<open>except\<close> clause: the failure is recorded. The \<^verbatim>\<open>finally\<close> clause flushes the nft sets of the kernel,
  which are outside the modelled state, and ignores its failures.
\<close>

definition on_failure :: "('o, 'w) exec_ports \<Rightarrow> string \<Rightarrow> exn \<Rightarrow> ('o, 'w, unit) exec_cmd" where
  "on_failure P i e w =
     asm_audit i ''assessment.failed'' [(''reason'', VStr (xp_err P e))] (snd (asm_fail i (xp_err P e) w))"

definition execute_assessment :: "('o, 'w) exec_ports \<Rightarrow> string \<Rightarrow> string \<Rightarrow> ('o, 'w, unit) exec_cmd" where
  "execute_assessment P nonce i w =
     (case execute_body P nonce i w of (Inr u, w') \<Rightarrow> (Inr u, w') | (Inl e, w') \<Rightarrow> on_failure P i e w')"

definition resume_assessment :: "('o, 'w) exec_ports \<Rightarrow> string \<Rightarrow> ('o, 'w, unit) exec_cmd" where
  "resume_assessment P i =
     bindC (load_execution i) (\<lambda>(plan, sc).
       run_and_finish P i plan sc (asm_audit i ''assessment.resumed'' [(''actual'', VBool True)]))"

end
