(* ===== verification/Assessment_Safety.thy ===== *)
theory Assessment_Safety
  imports Assessments
begin

text \<open>
  What the assessment service guarantees over every history of its calls and of the grant service's calls:
  an abstract machine (\<open>asm_effect\<close>) that every operation refines, the invariant that whatever executes is
  pinned to an approved plan, the bound a grant puts on non-human approvals, and the finality of revocation.
\<close>

section \<open>What the operations do to the database\<close>

text \<open>
  The abstract machine the service implements: rows are created as drafts, a plan is attached, an approval
  is recorded against the stored plan, or a row moves along the table; grants and scopes are administered
  without touching assessments.
\<close>

inductive asm_effect :: "asm_db \<Rightarrow> asm_db \<Rightarrow> bool" where
  keep: "asm_effect db db"
| created: "dict_get (asm_rows db) (asm_id a) = None \<Longrightarrow> asm_status a = DRAFT \<Longrightarrow> asm_active_plan_id a = None \<Longrightarrow>
    asm_effect db (db\<lparr>asm_rows := dict_set (asm_id a) a (asm_rows db)\<rparr>)"
| planned: "dict_get (asm_rows db) i = Some a \<Longrightarrow> AWAITING_APPROVAL \<in> ALLOWED_TRANSITIONS (asm_status a) \<Longrightarrow>
    dict_get (plan_rows db) (plan_id pl) = None \<Longrightarrow> plan_assessment_id pl = i \<Longrightarrow> plan_id pl \<noteq> [] \<Longrightarrow>
    a' = a\<lparr>asm_status := AWAITING_APPROVAL, asm_active_plan_id := Some (plan_id pl)\<rparr> \<Longrightarrow>
    asm_effect db (db\<lparr>plan_rows := dict_set (plan_id pl) pl (plan_rows db), asm_rows := dict_set (asm_id a) a' (asm_rows db)\<rparr>)"
| approved: "dict_get (asm_rows db) i = Some a \<Longrightarrow> APPROVED \<in> ALLOWED_TRANSITIONS (asm_status a) \<Longrightarrow>
    asm_active_plan_id a = Some p \<Longrightarrow> dict_get (plan_rows db) p = Some pl \<Longrightarrow>
    dict_get (approval_rows db) (apr_id ap) = None \<Longrightarrow> apr_assessment_id ap = i \<Longrightarrow>
    apr_plan_digest ap = plan_digest pl \<Longrightarrow> apr_mode ap = asm_mode a \<Longrightarrow>
    a' = a\<lparr>asm_status := APPROVED, asm_approval_id := Some (apr_id ap)\<rparr> \<Longrightarrow>
    asm_effect db (db\<lparr>approval_rows := dict_set (apr_id ap) ap (approval_rows db), asm_rows := dict_set (asm_id a) a' (asm_rows db)\<rparr>)"
| moved: "dict_get (asm_rows db) i = Some a \<Longrightarrow> t \<in> ALLOWED_TRANSITIONS (asm_status a) \<Longrightarrow>
    t \<notin> {DRAFT, PLANNED, AWAITING_APPROVAL, APPROVED} \<Longrightarrow> a' = a\<lparr>asm_status := t, asm_control := c\<rparr> \<Longrightarrow>
    asm_effect db (db\<lparr>asm_rows := dict_set (asm_id a) a' (asm_rows db)\<rparr>)"
| administered: "asm_rows db' = asm_rows db \<Longrightarrow> plan_rows db' = plan_rows db \<Longrightarrow> approval_rows db' = approval_rows db \<Longrightarrow>
    asm_effect db db'"

datatype asm_call =
    Create string string string execution_mode
  | AttachPlan string string "plan_step list"
  | Approve datetime string string string "risk_class set" "string set" string string "string option"
  | Reject string string string
  | Start datetime string string "string option"
  | MarkRunning string
  | Complete string
  | Fail string string
  | Pause string
  | Resume string
  | Cancel string
  | AddSnapshot scope_snapshot
  | CreateGrant datetime string string string scope_snapshot "risk_class set" datetime datetime string
  | RevokeGrant string string

fun perform :: "asm_ports \<Rightarrow> asm_call \<Rightarrow> asm_db \<Rightarrow> asm_db" where
  "perform P (Create uid project scope mode) db = snd (asm_create uid project scope mode db)"
| "perform P (AttachPlan uid i steps) db = snd (attach_plan P uid i steps db)"
| "perform P (Approve now uid i by0 risks caps sd role g) db = snd (approve P now uid i by0 risks caps sd role g db)"
| "perform P (Reject i why role) db = snd (reject i why role db)"
| "perform P (Start now i role g) db = snd (asm_start P now i role g db)"
| "perform P (MarkRunning i) db = snd (mark_running i db)"
| "perform P (Complete i) db = snd (asm_complete i db)"
| "perform P (Fail i why) db = snd (asm_fail i why db)"
| "perform P (Pause i) db = snd (asm_pause i db)"
| "perform P (Resume i) db = snd (asm_resume i db)"
| "perform P (Cancel i) db = snd (asm_cancel i db)"
| "perform P (AddSnapshot s) db = snd (add_snapshot s db)"
| "perform P (CreateGrant now uid project name scope caps f t role) db =
     snd (create_human (ap_sha P) now uid project name scope caps f t role db)"
| "perform P (RevokeGrant i role) db = snd (revoke_grant i role db)"

text \<open>\<^verbatim>\<open>uuid4\<close> gives a suffix that is not in use: the only two operations that merge a row under a drawn key.\<close>

fun fresh_call :: "asm_call \<Rightarrow> asm_db \<Rightarrow> bool" where
  "fresh_call (Create uid _ _ _) db \<longleftrightarrow> dict_get (asm_rows db) (''asm-'' @ uid) = None"
| "fresh_call (CreateGrant _ uid _ _ _ _ _ _ _) db \<longleftrightarrow> dict_get (grant_rows db) (''grant-'' @ uid) = None"
| "fresh_call _ db \<longleftrightarrow> True"

lemma asm_require_cases:
  obtains (missing) e where "asm_require i db = (Inl e, db)" "dict_get (asm_rows db) i = None"
  | (found) a where "asm_require i db = (Inr a, db)" "dict_get (asm_rows db) i = Some a"
  by (cases "dict_get (asm_rows db) i") (auto simp: asm_require_def)

lemma readonly_asm_require [intro, simp]: "readonly (asm_require i)"
  by (simp add: readonly_def asm_require_def split: option.split)

lemma readonly_authorize_via_grant [intro, simp]: "readonly (authorize_via_grant P now g i)"
  unfolding authorize_via_grant_def by (intro readonly_bindC readonly_case_option readonly_if) simp_all

lemma readonly_gatekeep [intro, simp]: "readonly (gatekeep P now role g i)"
  unfolding gatekeep_def by (intro readonly_case_option) simp_all

interpretation approving: gated_operation "\<lambda>(now, role, g, i). gatekeep P now role g i"
  "\<lambda>(now, role, g, i). record_approval P uid i by0 risks caps sd g"
  "\<lambda>(now, role, g, i). approve P now uid i by0 risks caps sd role g" for P uid by0 risks caps sd
  by unfold_locales (auto simp: approve_def)

interpretation starting: gated_operation "\<lambda>(now, role, g, i). gatekeep P now role g i"
  "\<lambda>(now, role, g, i). queue_assessment i" "\<lambda>(now, role, g, i). asm_start P now i role g" for P
  by unfold_locales (auto simp: asm_start_def)

lemma assert_transition_simps [simp]:
  "assert_transition s t = Inr u \<longleftrightarrow> t \<in> ALLOWED_TRANSITIONS s"
  "t \<in> ALLOWED_TRANSITIONS s \<Longrightarrow> assert_transition s t = Inr ()"
  by (simp_all add: assert_transition_def guard_def)

lemma assert_transition_Inl: "t \<notin> ALLOWED_TRANSITIONS s \<Longrightarrow> \<exists>e. assert_transition s t = Inl e"
  by (simp add: assert_transition_def)

lemma effect_asm_create:
  assumes "dict_get (asm_rows db) (''asm-'' @ uid) = None"
  shows "asm_effect db (snd (asm_create uid project scope mode db))"
proof (cases "Assessment_create (''asm-'' @ uid) project scope mode")
  case (Inr a)
  then have "asm_id a = ''asm-'' @ uid" "asm_status a = DRAFT" "asm_active_plan_id a = None"
    by (auto simp: Assessment_create_def split: if_splits)
  then show ?thesis
    using asm_effect.created [of db a] assms Inr by (simp add: asm_create_def bindC_def liftC_def asm_add_def)
qed (simp add: asm_create_def bindC_def liftC_def asm_effect.keep)

lemma created_plan_ids:
  "ExecutionPlan_create sha pid asm ver steps = Inr pl \<Longrightarrow> plan_id pl = pid \<and> plan_assessment_id pl = asm \<and> plan_steps pl = steps"
  by (auto simp: ExecutionPlan_create_def bind_res_Inr_iff split: if_splits)

lemma attach_plan_cases:
  obtains (raised) e where "attach_plan P uid i steps db = (Inl e, db)"
  | (returned) a pl where "dict_get (asm_rows db) i = Some a" "AWAITING_APPROVAL \<in> ALLOWED_TRANSITIONS (asm_status a)"
      "dict_get (plan_rows db) (plan_id pl) = None" "plan_assessment_id pl = i" "plan_id pl \<noteq> []"
      "snd (attach_plan P uid i steps db) =
         db\<lparr>plan_rows := dict_set (plan_id pl) pl (plan_rows db),
            asm_rows := dict_set (asm_id a) (a\<lparr>asm_status := AWAITING_APPROVAL, asm_active_plan_id := Some (plan_id pl)\<rparr>) (asm_rows db)\<rparr>"
proof (cases rule: asm_require_cases [of i db])
  case (found a)
  show thesis
  proof (cases "AWAITING_APPROVAL \<in> ALLOWED_TRANSITIONS (asm_status a)")
    case True
    show thesis
    proof (cases "ExecutionPlan_create (ap_sha P) (''plan-'' @ uid) i 1 steps")
      case (Inr pl)
      then show thesis
        using raised returned [of a pl] found True created_plan_ids [OF Inr]
        by (cases "dict_get (plan_rows db) (plan_id pl)")
           (simp_all add: attach_plan_def bindC_def liftC_def asm_add_def save_plan_def Let_def)
    qed (use raised found True in \<open>simp add: attach_plan_def bindC_def liftC_def\<close>)
  qed (use raised found assert_transition_Inl in \<open>fastforce simp: attach_plan_def bindC_def liftC_def\<close>)
qed (use raised in \<open>simp add: attach_plan_def bindC_def\<close>)

lemma effect_attach_plan: "asm_effect db (snd (attach_plan P uid i steps db))"
  by (cases rule: attach_plan_cases [of P uid i steps db]) (simp_all add: asm_effect.keep asm_effect.planned)

lemma Approval_create_Inr:
  "Approval_create sha i asm pd sd mode risks caps by0 = Inr ap \<Longrightarrow>
     apr_id ap = i \<and> apr_assessment_id ap = asm \<and> apr_plan_digest ap = pd \<and> apr_scope_digest ap = sd \<and> apr_mode ap = mode \<and>
     apr_risks ap = risks \<and> apr_by ap = by0"
  by (auto simp: Approval_create_def split: if_splits)

lemma approve_cases:
  obtains (raised) e where "approve P now uid i by0 risks caps sd role g db = (Inl e, db)"
  | (returned) a p pl ap where "dict_get (asm_rows db) i = Some a" "APPROVED \<in> ALLOWED_TRANSITIONS (asm_status a)"
      "asm_active_plan_id a = Some p" "dict_get (plan_rows db) p = Some pl"
      "dict_get (approval_rows db) (apr_id ap) = None" "gatekeep P now role g i db = (Inr (), db)"
      "Approval_create (ap_sha P) (''apr-'' @ uid) i (plan_digest pl) sd (asm_mode a) risks caps
         (case g of Some j \<Rightarrow> ''grant:'' @ j | None \<Rightarrow> by0) = Inr ap"
      "approve P now uid i by0 risks caps sd role g db =
         (Inr ap, db\<lparr>approval_rows := dict_set (apr_id ap) ap (approval_rows db),
            asm_rows := dict_set (asm_id a) (a\<lparr>asm_status := APPROVED, asm_approval_id := Some (apr_id ap)\<rparr>) (asm_rows db)\<rparr>)"
proof -
  obtain r where gate: "gatekeep P now role g i db = (r, db)"
    using readonlyD [OF readonly_gatekeep] by (metis surj_pair)
  show thesis
  proof (cases r)
    case (Inl e)
    then show thesis using raised gate by (simp add: approve_def record_approval_def bindC_def)
  next
    case (Inr u)
    note gate = gate [unfolded Inr]
    show thesis
    proof (cases rule: asm_require_cases [of i db])
      case (found a)
      show thesis
      proof (cases "asm_active_plan_id a = None \<or> APPROVED \<notin> ALLOWED_TRANSITIONS (asm_status a)")
        case True
        then show thesis
          using raised gate found assert_transition_Inl
          by (cases "asm_active_plan_id a") (fastforce simp: approve_def record_approval_def bindC_def liftC_def Let_def)+
      next
        case False
        then obtain p where p: "asm_active_plan_id a = Some p" by auto
        note facts = gate found False p
        show thesis
        proof (cases "dict_get (plan_rows db) p")
          case (Some pl)
          show thesis
          proof (cases "Approval_create (ap_sha P) (''apr-'' @ uid) i (plan_digest pl) sd (asm_mode a) risks caps
              (case g of Some j \<Rightarrow> ''grant:'' @ j | None \<Rightarrow> by0)")
            case (Inr ap)
            then show thesis
              using raised returned [of a p pl ap] facts Some
              by (cases "dict_get (approval_rows db) (apr_id ap)")
                 (simp_all add: approve_def record_approval_def bindC_def liftC_def Let_def save_approval_def asm_add_def)
          qed (use raised facts Some in \<open>simp add: approve_def record_approval_def bindC_def liftC_def Let_def\<close>)
        qed (use raised facts in \<open>simp add: approve_def record_approval_def bindC_def liftC_def Let_def\<close>)
      qed
    qed (use raised gate in \<open>simp add: approve_def record_approval_def bindC_def Let_def\<close>)
  qed
qed

lemma effect_approve: "asm_effect db (snd (approve P now uid i by0 risks caps sd role g db))"
proof (cases rule: approve_cases [of P now uid i by0 risks caps sd role g db])
  case (returned a p pl ap)
  then show ?thesis
    using Approval_create_Inr [OF returned(7)] asm_effect.approved [of db i a p pl ap] by simp
qed (simp add: asm_effect.keep)


lemma effect_move:
  assumes "dict_get (asm_rows db) i = Some a" "t \<in> ALLOWED_TRANSITIONS (asm_status a)" "t \<notin> {DRAFT, PLANNED, AWAITING_APPROVAL, APPROVED}"
  shows "asm_effect db (db\<lparr>asm_rows := dict_set (asm_id a) (a\<lparr>asm_status := t\<rparr>) (asm_rows db)\<rparr>)"
  using asm_effect.moved [OF assms, of "a\<lparr>asm_status := t\<rparr>" "asm_control a"] by simp

lemma effect_reject: "asm_effect db (snd (reject i why role db))"
proof (cases rule: asm_require_cases [of i db])
  case (found a)
  then show ?thesis
    using effect_move [of db i a REJECTED]
    by (cases "REJECTED \<in> ALLOWED_TRANSITIONS (asm_status a)")
       (auto simp: reject_def bindC_def liftC_def asm_add_def asm_effect.keep dest: assert_transition_Inl split: sum.splits)
qed (auto simp: reject_def bindC_def liftC_def asm_effect.keep split: sum.splits)

lemma effect_move_to:
  assumes "t \<notin> {DRAFT, PLANNED, AWAITING_APPROVAL, APPROVED}"
  shows "asm_effect db (snd (move_to t i db))"
proof (cases rule: asm_require_cases [of i db])
  case (found a)
  then show ?thesis
    using effect_move [of db i a t] assms
    by (auto simp: move_to_def bindC_def liftC_def asm_add_def asm_effect.keep split: sum.splits)
qed (auto simp: move_to_def bindC_def asm_effect.keep)

lemma effect_control_op:
  assumes "t \<notin> {DRAFT, PLANNED, AWAITING_APPROVAL, APPROVED}"
  shows "asm_effect db (snd (control_op t signal i db))"
proof (cases rule: asm_require_cases [of i db])
  case (found a)
  then show ?thesis
    using asm_effect.moved [of db i a t _ signal] assms
    by (auto simp: control_op_def set_control_def bindC_def bind_res_def liftC_def asm_add_def asm_effect.keep split: sum.splits)
qed (auto simp: control_op_def bindC_def asm_effect.keep)

lemma asm_start_cases:
  obtains (raised) e where "asm_start P now i role g db = (Inl e, db)"
  | (returned) a where "dict_get (asm_rows db) i = Some a" "QUEUED \<in> ALLOWED_TRANSITIONS (asm_status a)"
      "gatekeep P now role g i db = (Inr (), db)" "given (asm_active_plan_id a)" "given (asm_approval_id a)"
      "asm_start P now i role g db =
         (Inr (a\<lparr>asm_status := QUEUED\<rparr>), db\<lparr>asm_rows := dict_set (asm_id a) (a\<lparr>asm_status := QUEUED\<rparr>) (asm_rows db)\<rparr>)"
proof -
  obtain r where gate: "gatekeep P now role g i db = (r, db)"
    using readonlyD [OF readonly_gatekeep] by (metis surj_pair)
  show thesis
  proof (cases "r = Inr () \<and> dict_get (asm_rows db) i \<noteq> None")
    case True
    then obtain a where a: "dict_get (asm_rows db) i = Some a" by blast
    note facts = gate a True
    show thesis
    proof (cases "QUEUED \<in> ALLOWED_TRANSITIONS (asm_status a)")
      case True
      then have "asm_status a = APPROVED" by (cases "asm_status a") auto
      then show thesis
        using raised returned [of a] facts True
        by (cases "given (asm_active_plan_id a)"; cases "given (asm_approval_id a)")
           (auto simp: asm_start_def queue_assessment_def bindC_def liftC_def asm_require_def asm_add_def Assessment_start_def)
    qed (use raised facts assert_transition_Inl in \<open>fastforce simp: asm_start_def queue_assessment_def bindC_def liftC_def asm_require_def\<close>)
  qed (use raised gate in \<open>cases r; simp add: asm_start_def queue_assessment_def bindC_def asm_require_def\<close>)
qed

lemma effect_asm_start: "asm_effect db (snd (asm_start P now i role g db))"
  by (cases rule: asm_start_cases [of P now i role g db]) (simp_all add: asm_effect.keep effect_move)

lemma grant_frames:
  "asm_rows (snd (add_snapshot s db)) = asm_rows db" "plan_rows (snd (add_snapshot s db)) = plan_rows db"
  "approval_rows (snd (add_snapshot s db)) = approval_rows db"
  "asm_rows (snd (grant_add g db)) = asm_rows db" "plan_rows (snd (grant_add g db)) = plan_rows db"
  "approval_rows (snd (grant_add g db)) = approval_rows db"
  for db :: asm_db
  by (auto simp: add_snapshot_def grant_add_def bindC_def split: option.splits)

lemma effect_create_human: "asm_effect db (snd (create_human sha now uid project name scope caps f t role db))"
  by (cases rule: create_human_cases [of sha now uid project name scope caps f t role db])
     (auto intro!: asm_effect.administered simp: grant_frames)

lemma effect_revoke_grant: "asm_effect db (snd (revoke_grant i role db))"
  by (cases rule: revoke_grant_cases [of i role db]) (auto intro!: asm_effect.administered simp: grant_frames)

lemma effect_add_snapshot: "asm_effect db (snd (add_snapshot s db))"
  by (rule asm_effect.administered) (simp_all add: grant_frames)

lemma perform_effect: "fresh_call c db \<Longrightarrow> asm_effect db (perform P c db)"
  by (cases c)
     (simp_all add: effect_asm_create effect_attach_plan effect_approve effect_reject effect_asm_start effect_move_to
       effect_control_op effect_add_snapshot effect_create_human effect_revoke_grant mark_running_def asm_complete_def
       asm_fail_def asm_pause_def asm_resume_def asm_cancel_def)

section \<open>Histories\<close>

definition empty_db :: asm_db where
  "empty_db = \<lparr>scope_rows = [], grant_rows = [], asm_rows = [], plan_rows = [], approval_rows = []\<rparr>"

text \<open>The databases some history of service calls leads to; a call that raises keeps what it had written.\<close>

inductive asm_reachable :: "asm_ports \<Rightarrow> asm_db \<Rightarrow> bool" for P where
  start: "asm_reachable P empty_db"
| step: "asm_reachable P db \<Longrightarrow> fresh_call c db \<Longrightarrow> asm_reachable P (perform P c db)"

text \<open>
  An assessment is pinned when its row names a stored plan and a stored approval of that plan: the approval
  is for this assessment and carries the digest of exactly that plan.
\<close>

definition pinned :: "asm_db \<Rightarrow> assessment \<Rightarrow> bool" where
  "pinned db a \<longleftrightarrow>
     (\<exists>p pl k ap. asm_active_plan_id a = Some p \<and> dict_get (plan_rows db) p = Some pl \<and> plan_assessment_id pl = asm_id a \<and>
        asm_approval_id a = Some k \<and> dict_get (approval_rows db) k = Some ap \<and> apr_assessment_id ap = asm_id a \<and>
        apr_plan_digest ap = plan_digest pl \<and> apr_mode ap = asm_mode a)"

definition needs_approval :: "assessment_status \<Rightarrow> bool" where
  "needs_approval s \<longleftrightarrow> s \<notin> {DRAFT, PLANNED, AWAITING_APPROVAL, REJECTED}"

definition row_ok :: "asm_db \<Rightarrow> assessment \<Rightarrow> bool" where
  "row_ok db a \<longleftrightarrow>
     (\<forall>p. asm_active_plan_id a = Some p \<longrightarrow> (\<exists>pl. dict_get (plan_rows db) p = Some pl \<and> plan_assessment_id pl = asm_id a)) \<and>
     (needs_approval (asm_status a) \<longrightarrow> pinned db a)"

definition asm_inv :: "asm_db \<Rightarrow> bool" where
  "asm_inv db \<longleftrightarrow> dict_get (plan_rows db) [] = None \<and>
     (\<forall>i a. dict_get (asm_rows db) i = Some a \<longrightarrow> asm_id a = i \<and> row_ok db a)"

lemma asm_inv_no_empty_key: "asm_inv db \<Longrightarrow> dict_get (plan_rows db) [] = None"
  by (simp add: asm_inv_def)

lemma needs_approval_before:
  "t \<in> ALLOWED_TRANSITIONS s \<Longrightarrow> t \<notin> {DRAFT, PLANNED, AWAITING_APPROVAL, APPROVED} \<Longrightarrow> needs_approval t \<Longrightarrow> needs_approval s"
  by (cases s) (auto simp: needs_approval_def)

text \<open>Plans and approvals are only ever added.\<close>

definition grows :: "asm_db \<Rightarrow> asm_db \<Rightarrow> bool" where
  "grows db db' \<longleftrightarrow> map_of (plan_rows db) \<subseteq>\<^sub>m map_of (plan_rows db') \<and> map_of (approval_rows db) \<subseteq>\<^sub>m map_of (approval_rows db')"

lemma map_le_dict_set: "dict_get d k = None \<Longrightarrow> map_of d \<subseteq>\<^sub>m map_of (dict_set k v d)"
  by (auto simp: map_le_def)

lemma asm_effect_grows: "asm_effect db db' \<Longrightarrow> grows db db'"
  by (induction rule: asm_effect.induct) (simp_all add: grows_def map_le_dict_set)

lemma map_le_get: "map_of d \<subseteq>\<^sub>m map_of d' \<Longrightarrow> dict_get d k = Some v \<Longrightarrow> dict_get d' k = Some v"
  by (metis domI map_le_def)

lemma row_ok_grows: "row_ok db a \<Longrightarrow> grows db db' \<Longrightarrow> row_ok db' a"
  unfolding row_ok_def pinned_def grows_def by (meson map_le_get)

text \<open>An operation that leaves all rows but one alone keeps the invariant if it keeps it for that row.\<close>

lemma asm_inv_update:
  assumes "asm_inv db" "grows db db'" "asm_rows db' = dict_set i a' (asm_rows db)" "asm_id a' = i" "row_ok db' a'"
    and "dict_get (plan_rows db') [] = None"
  shows "asm_inv db'"
  using assms by (auto simp: asm_inv_def intro: row_ok_grows)

lemma asm_effect_inv: "asm_effect db db' \<Longrightarrow> asm_inv db \<Longrightarrow> asm_inv db'"
proof -
  assume "asm_effect db db'" and inv: "asm_inv db"
  moreover have g: "grows db db'" using \<open>asm_effect db db'\<close> by (rule asm_effect_grows)
  ultimately show ?thesis
  proof (induction rule: asm_effect.cases)
    case (created db a)
    then show ?case by (auto intro!: asm_inv_update [of db] simp: asm_inv_no_empty_key row_ok_def needs_approval_def)
  next
    case (planned db i a pl a')
    then have "asm_id a = i" by (simp add: asm_inv_def)
    with planned show ?case by (auto intro!: asm_inv_update [of db] simp: asm_inv_no_empty_key row_ok_def needs_approval_def)
  next
    case (approved db i a p pl ap a')
    then have "asm_id a = i \<and> row_ok db a" by (simp add: asm_inv_def)
    with approved show ?case by (auto intro!: asm_inv_update [of db] simp: asm_inv_no_empty_key row_ok_def pinned_def)
  next
    case (moved db i a t a' c)
    then have "asm_id a = i \<and> row_ok db a" by (simp add: asm_inv_def)
    with moved show ?case
      using needs_approval_before [of t "asm_status a"]
      by (auto intro!: asm_inv_update [of db] simp: asm_inv_no_empty_key row_ok_def pinned_def)
  next
    case (administered db' db)
    then show ?case by (auto simp: asm_inv_def intro: row_ok_grows)
  qed simp
qed

lemma empty_db_inv: "asm_inv empty_db" "grants_ok empty_db"
  by (simp_all add: asm_inv_def grants_ok_def empty_db_def)

lemma asm_reachable_inv: "asm_reachable P db \<Longrightarrow> asm_inv db"
  by (induction rule: asm_reachable.induct) (auto intro: asm_effect_inv perform_effect empty_db_inv)

text \<open>Assessment operations leave the grants alone.\<close>

lemma asm_ops_frame:
  "grant_rows (snd (asm_create uid project scope mode db)) = grant_rows db"
  "grant_rows (snd (attach_plan P uid i steps db)) = grant_rows db"
  "grant_rows (snd (approve P now uid i by0 risks caps sd role g db)) = grant_rows db"
  "grant_rows (snd (reject i why role db)) = grant_rows db"
  "grant_rows (snd (asm_start P now i role g db)) = grant_rows db"
  "grant_rows (snd (move_to t i db)) = grant_rows db"
  "grant_rows (snd (control_op t signal i db)) = grant_rows db"
  "grant_rows (snd (add_snapshot s db)) = grant_rows db"
proof -
  show "grant_rows (snd (attach_plan P uid i steps db)) = grant_rows db"
    by (cases rule: attach_plan_cases [of P uid i steps db]) simp_all
  show "grant_rows (snd (approve P now uid i by0 risks caps sd role g db)) = grant_rows db"
    by (cases rule: approve_cases [of P now uid i by0 risks caps sd role g db]) simp_all
  show "grant_rows (snd (asm_start P now i role g db)) = grant_rows db"
    by (cases rule: asm_start_cases [of P now i role g db]) simp_all
qed (auto simp: asm_create_def reject_def move_to_def control_op_def add_snapshot_def asm_require_def bindC_def liftC_def
    asm_add_def split: sum.splits option.splits)

lemma grants_ok_cong: "grant_rows db' = grant_rows db \<Longrightarrow> grants_ok db' = grants_ok db"
  by (simp add: grants_ok_def)

lemma perform_grants_ok: "grants_ok db \<Longrightarrow> grants_ok (perform P c db)"
  by (cases c)
     (simp_all add: create_human_ok revoke_grant_ok asm_ops_frame [THEN grants_ok_cong] mark_running_def asm_complete_def
       asm_fail_def asm_pause_def asm_resume_def asm_cancel_def)

lemma asm_reachable_grants_ok: "asm_reachable P db \<Longrightarrow> grants_ok db"
  by (induction rule: asm_reachable.induct) (auto intro: perform_grants_ok empty_db_inv)

text \<open>
  C3. Whatever executes was approved as it is: in every database a history of service calls leads to, an
  assessment that is approved, queued, running, paused or finished names a stored plan of its own and a
  stored approval made for this assessment, in its mode, with the digest of exactly that plan.
\<close>

theorem executions_are_pinned:
  assumes "asm_reachable P db" "dict_get (asm_rows db) i = Some a"
    and "asm_status a \<notin> {DRAFT, PLANNED, AWAITING_APPROVAL, REJECTED}"
  shows "\<exists>p pl k ap. asm_active_plan_id a = Some p \<and> dict_get (plan_rows db) p = Some pl \<and> plan_assessment_id pl = i \<and>
    asm_approval_id a = Some k \<and> dict_get (approval_rows db) k = Some ap \<and> apr_assessment_id ap = i \<and>
    apr_plan_digest ap = plan_digest pl \<and> apr_mode ap = asm_mode a"
  using asm_reachable_inv [OF assms(1)] assms(2,3)
  by (auto simp: asm_inv_def row_ok_def needs_approval_def pinned_def)

lemma asm_effect_row:
  assumes "asm_effect db db'" "asm_inv db" "dict_get (asm_rows db) i = Some a"
  shows "\<exists>a'. dict_get (asm_rows db') i = Some a' \<and>
    (asm_status a' = asm_status a \<or> asm_status a' \<in> ALLOWED_TRANSITIONS (asm_status a)) \<and>
    asm_project_id a' = asm_project_id a \<and> asm_scope_snapshot_id a' = asm_scope_snapshot_id a \<and> asm_mode a' = asm_mode a"
proof -
  have "asm_id b = j" if "dict_get (asm_rows db) j = Some b" for j b
    using assms(2) that by (simp add: asm_inv_def)
  with assms(1,3) show ?thesis
    by (induction rule: asm_effect.cases) auto
qed

text \<open>
  C4. The service implements the transition table: one call, whatever it is and whether it returns or raises,
  keeps every assessment row, changes its status only along the table, and never changes the project, scope
  or mode it was created with. So a rejected, completed, failed or cancelled assessment keeps its status.
\<close>

theorem statuses_follow_table:
  assumes "asm_reachable P db" "fresh_call c db" "dict_get (asm_rows db) i = Some a"
  shows "\<exists>a'. dict_get (asm_rows (perform P c db)) i = Some a' \<and>
    (asm_status a' = asm_status a \<or> asm_status a' \<in> ALLOWED_TRANSITIONS (asm_status a)) \<and>
    asm_project_id a' = asm_project_id a \<and> asm_scope_snapshot_id a' = asm_scope_snapshot_id a \<and> asm_mode a' = asm_mode a"
  by (rule asm_effect_row [OF perform_effect [OF assms(2)] asm_reachable_inv [OF assms(1)] assms(3)])


section \<open>The human gate\<close>

lemma gatekeep_human: "gatekeep P now role None i db = (Inr (), db) \<longleftrightarrow> role = ''human''"
  by (auto simp: gatekeep_def liftC_def require_human_def guard_def split: if_splits)

lemma authorize_via_grant_Inr:
  assumes "authorize_via_grant P now g i db = (Inr (), db')"
  shows "\<exists>a sc gr. ap_grant_service P \<and> ap_scope_repo P \<and> dict_get (asm_rows db) i = Some a \<and>
    get_snapshot (asm_scope_snapshot_id a) db = (Inr (Some sc), db) \<and> grant_get g db = (Inr (Some gr), db) \<and>
    is_active_at gr now \<and> covers_scope (ap_idna P) gr sc = Inr True \<and>
    (\<forall>p pl. asm_active_plan_id a = Some p \<and> p \<noteq> [] \<and> dict_get (plan_rows db) p = Some pl \<longrightarrow> covers_risks gr (plan_steps pl))"
proof -
  have wired: "ap_grant_service P" "ap_scope_repo P"
    using assms by (auto simp: authorize_via_grant_def split: if_splits)
  show ?thesis
  proof (cases rule: asm_require_cases [of i db])
    case (found a)
    obtain r where sc: "get_snapshot (asm_scope_snapshot_id a) db = (r, db)"
      using readonlyD [OF readonly_get_snapshot] by (metis surj_pair)
    define steps where "steps = (case asm_active_plan_id a of None \<Rightarrow> []
        | Some p \<Rightarrow> if p = [] then [] else (case dict_get (plan_rows db) p of None \<Rightarrow> [] | Some pl \<Rightarrow> plan_steps pl))"
    obtain sc' where sc': "r = Inr (Some sc')"
      using assms wired found sc
      by (auto simp: authorize_via_grant_def bindC_def split: sum.splits option.splits)
    have "\<exists>d db'. authorize (ap_idna P) now g sc' steps db = (Inr d, db') \<and> allowed d"
      using assms wired found sc sc'
      by (auto simp: authorize_via_grant_def bindC_def steps_def split: sum.splits prod.splits if_splits)
    then show ?thesis
      using wired found(2) sc sc' unfolding authorize_allows by (auto simp: steps_def)
  qed (use assms wired in \<open>simp add: authorize_via_grant_def bindC_def\<close>)
qed

text \<open>
  C5. An approval by anyone but a human is bounded by a grant: if \<^verbatim>\<open>approve\<close> returns for another actor role,
  the caller named a stored grant that is active at that moment, whose scope covers every target and port of
  the assessment's scope and whose caps cover every step of the approved plan; none of these steps is
  destructive, and the approval is signed with the grant, not with the name the caller gave.
\<close>

theorem agent_approval_bounded:
  assumes "asm_reachable P db" "role \<noteq> ''human''"
    and "approve P now uid i by0 risks caps sd role grant db = (Inr ap, db')"
  shows "\<exists>g gr a sc p pl. grant = Some g \<and> grant_get g db = (Inr (Some gr), db) \<and> is_active_at gr now \<and>
    dict_get (asm_rows db) i = Some a \<and> get_snapshot (asm_scope_snapshot_id a) db = (Inr (Some sc), db) \<and>
    set (sc_ports sc) \<subseteq> set (sc_ports (gr_scope gr)) \<and>
    (\<forall>t \<in> set (sc_include sc). matches_boundary (ap_idna P) (gr_scope gr) t = Inr True) \<and>
    asm_active_plan_id a = Some p \<and> dict_get (plan_rows db) p = Some pl \<and> apr_plan_digest ap = plan_digest pl \<and>
    (\<forall>s \<in> set (plan_steps pl). risk s \<in> gr_risk_caps gr \<and> risk s \<noteq> DESTRUCTIVE) \<and> apr_by ap = ''grant:'' @ g"
proof (cases rule: approve_cases [of P now uid i by0 risks caps sd role grant db])
  case (returned a p pl ap')
  obtain g where g: "grant = Some g"
    using returned(6) assms(2) gatekeep_human [of P now role i db] by (cases grant) auto
  have ap: "ap' = ap" using returned(8) assms(3) by simp
  have "authorize_via_grant P now g i db = (Inr (), db)"
    using returned(6) g by (simp add: gatekeep_def)
  then obtain sc gr where gr: "get_snapshot (asm_scope_snapshot_id a) db = (Inr (Some sc), db)"
    "grant_get g db = (Inr (Some gr), db)" "is_active_at gr now" "covers_scope (ap_idna P) gr sc = Inr True"
    "p \<noteq> [] \<longrightarrow> covers_risks gr (plan_steps pl)"
    using authorize_via_grant_Inr [of P now g i db db] returned(1,3,4) by auto
  have "DESTRUCTIVE \<notin> gr_risk_caps gr"
    using grant_get_ok [OF asm_reachable_grants_ok [OF assms(1)] gr(2)] by blast
  moreover have "p \<noteq> []"
    using asm_reachable_inv [OF assms(1)] returned(4) by (auto simp: asm_inv_def)
  ultimately have "(\<forall>s \<in> set (plan_steps pl). risk s \<in> gr_risk_caps gr \<and> risk s \<noteq> DESTRUCTIVE)"
    using gr(5) by (auto simp: covers_risks_def list_all_iff)
  then show ?thesis
    using g gr returned(1,3,4) Approval_create_Inr [OF returned(7)] ap by (auto simp: covers_scope_True)
qed (use assms(3) in simp)


section \<open>Revocation\<close>

inductive asm_history :: "asm_ports \<Rightarrow> asm_db \<Rightarrow> asm_db \<Rightarrow> bool" for P where
  refl: "asm_history P db db"
| step: "asm_history P db db' \<Longrightarrow> fresh_call c db' \<Longrightarrow> asm_history P db (perform P c db')"

definition revoked :: "'a grant_db_scheme \<Rightarrow> string \<Rightarrow> bool" where
  "revoked db g \<longleftrightarrow> (\<exists>w. dict_get (grant_rows db) g = Some w \<and> gw_status w = GREVOKED)"

lemma revoked_cong: "grant_rows db' = grant_rows db \<Longrightarrow> revoked db' g = revoked db g"
  by (simp add: revoked_def)

lemma revoked_grant_add:
  "revoked db g \<Longrightarrow> gr_id x \<noteq> g \<or> gr_status x = GREVOKED \<Longrightarrow> revoked (snd (grant_add x db)) g"
  by (auto simp: revoked_def grant_add_rows grant_to_row_def)

lemma perform_revoked:
  assumes "revoked db g" "fresh_call c db"
  shows "revoked (perform P c db) g"
proof (cases c)
  case (CreateGrant now uid project name scope caps f t role)
  then have "''grant-'' @ uid \<noteq> g" using assms by (auto simp: revoked_def)
  then show ?thesis
    using assms(1) CreateGrant
    by (cases rule: create_human_cases [of "ap_sha P" now uid project name scope caps f t role db])
       (simp_all add: revoked_grant_add)
next
  case (RevokeGrant i role)
  then show ?thesis
    using assms(1) by (cases rule: revoke_grant_cases [of i role db]) (simp_all add: revoked_grant_add grant_revoke_def)
qed (use assms(1) in \<open>simp_all add: asm_ops_frame [THEN revoked_cong] mark_running_def asm_complete_def
       asm_fail_def asm_pause_def asm_resume_def asm_cancel_def\<close>)

lemma revoked_inactive: "revoked db g \<Longrightarrow> grant_get g db = (Inr (Some x), db') \<Longrightarrow> \<not> is_active_at x now"
  using grant_get_Some(2) [of g db x db'] by (auto simp: revoked_def is_active_at_def dest: grant_from_row_Inr(3))

lemma revoked_gatekeep: "revoked db g \<Longrightarrow> \<exists>e. gatekeep P now role (Some g) i db = (Inl e, db)"
  using authorize_via_grant_Inr [of P now g i db] revoked_inactive [of db g _ _ now]
    readonlyD [OF readonly_authorize_via_grant, of P now g i db]
  by (cases "authorize_via_grant P now g i db"; cases "fst (authorize_via_grant P now g i db)") (fastforce simp: gatekeep_def)+

text \<open>
  Revocation is final: once a grant has been revoked, no later history of calls lets it approve or start an
  assessment, whoever asks, at whatever time and for whatever assessment; both calls raise and write nothing.
\<close>

theorem revoked_grant_stays_inert:
  assumes "asm_reachable P db0" "revoke_grant g human db0 = (Inr x, db1)" "asm_history P db1 db"
  shows "(\<exists>e. approve P now uid i by0 risks caps sd role (Some g) db = (Inl e, db)) \<and>
         (\<exists>e. asm_start P now i role (Some g) db = (Inl e, db))"
proof -
  have "revoked db1 g"
  proof (cases rule: revoke_grant_cases [of g human db0])
    case (added y)
    then have "gr_id y = g"
      using grant_get_ok [OF asm_reachable_grants_ok [OF assms(1)]] by blast
    then show ?thesis
      using added(1) assms(2) by (auto simp: revoked_def grant_add_rows grant_revoke_def grant_to_row_def)
  qed (use assms(2) in simp)
  with assms(3) have "revoked db g"
    by (induction rule: asm_history.induct) (auto intro: perform_revoked)
  then obtain e where "gatekeep P now role (Some g) i db = (Inl e, db)"
    using revoked_gatekeep by blast
  then show ?thesis
    using approving.refused [where k = "(now, role, Some g, i)"] starting.refused [where k = "(now, role, Some g, i)"] by fast
qed

section \<open>A concrete engagement\<close>

fun run_calls :: "asm_ports \<Rightarrow> asm_call list \<Rightarrow> asm_db \<Rightarrow> asm_db option" where
  "run_calls P [] db = Some db"
| "run_calls P (c # cs) db = (if fresh_call c db then run_calls P cs (perform P c db) else None)"

lemma run_calls_reachable: "asm_reachable P db \<Longrightarrow> run_calls P cs db = Some db' \<Longrightarrow> asm_reachable P db'"
  by (induction cs arbitrary: db) (auto intro: asm_reachable.step split: if_splits)

lemma run_calls_history_append: "asm_history P db0 db \<Longrightarrow> run_calls P cs db = Some db' \<Longrightarrow> asm_history P db0 db'"
  by (induction cs arbitrary: db) (auto intro: asm_history.step split: if_splits)

definition sample_ports :: asm_ports where
  "sample_ports = \<lparr>ap_sha = (\<lambda>_. ''h''), ap_idna = (\<lambda>_. None), ap_scope_repo = True, ap_grant_service = True\<rparr>"

definition sample_plan :: "plan_step list" where
  "sample_plan = [\<lparr>step_key = ''probe'', runner = ''httpx'', risk = PASSIVE, parameters = [], dependencies = []\<rparr>]"

definition sample_calls :: "asm_call list" where
  "sample_calls =
     [AddSnapshot (sample_scope\<lparr>sc_id := ''s2'', sc_include := [''app.example''], sc_ports := [443]\<rparr>),
      CreateGrant 5 ''g1'' ''p1'' ''night run'' sample_scope {PASSIVE} 0 100 ''human'',
      Create ''a1'' ''p1'' ''s2'' APPROVAL,
      AttachPlan ''p1'' ''asm-a1'' sample_plan]"

definition sample_db :: asm_db where
  "sample_db = the (run_calls sample_ports sample_calls empty_db)"

lemma sample_db_run: "run_calls sample_ports sample_calls empty_db = Some sample_db"
proof -
  have "run_calls sample_ports sample_calls empty_db \<noteq> None" by code_simp
  then show ?thesis by (simp add: sample_db_def)
qed

lemma sample_db_reachable: "asm_reachable sample_ports sample_db"
  using run_calls_reachable [OF asm_reachable.start sample_db_run] .

text \<open>
  The risks of an approval are not compared with the caps of the grant that signs it: under a grant capped at
  passive risk an agent records an approval of intrusive risk.
\<close>

lemma grant_approval_risks_unchecked:
  "(case approve sample_ports 10 ''x1'' ''asm-a1'' ''mallory'' {INTRUSIVE} {} ''sd'' ''agent'' (Some ''grant-g1'') sample_db of
      (Inl _, _) \<Rightarrow> False
    | (Inr ap, db) \<Rightarrow> apr_by ap = ''grant:grant-g1'' \<and> apr_risks ap = {INTRUSIVE} \<and>
        map_option asm_status (dict_get (asm_rows db) ''asm-a1'') = Some APPROVED)"
  unfolding sample_db_def by code_simp

definition approved_db :: asm_db where
  "approved_db = perform sample_ports
     (Approve 10 ''x1'' ''asm-a1'' ''mallory'' {PASSIVE} {} ''sd'' ''agent'' (Some ''grant-g1'')) sample_db"

lemma approved_db_reachable: "asm_reachable sample_ports approved_db"
  unfolding approved_db_def by (rule asm_reachable.step [OF sample_db_reachable]) simp

lemma approved_db_row: "\<exists>a. dict_get (asm_rows approved_db) ''asm-a1'' = Some a \<and> asm_status a = APPROVED"
proof -
  have "map_option asm_status (dict_get (asm_rows approved_db) ''asm-a1'') = Some APPROVED"
    unfolding approved_db_def sample_db_def by code_simp
  then show ?thesis by auto
qed

theorem executions_are_pinned_witness:
  "\<exists>a p pl k ap. dict_get (asm_rows approved_db) ''asm-a1'' = Some a \<and> asm_active_plan_id a = Some p \<and>
     dict_get (plan_rows approved_db) p = Some pl \<and> asm_approval_id a = Some k \<and>
     dict_get (approval_rows approved_db) k = Some ap \<and> apr_plan_digest ap = plan_digest pl"
proof -
  obtain a where a: "dict_get (asm_rows approved_db) ''asm-a1'' = Some a" "asm_status a = APPROVED"
    using approved_db_row by blast
  then show ?thesis
    using executions_are_pinned [OF approved_db_reachable a(1)] by auto
qed

theorem statuses_follow_table_witness:
  "\<exists>a'. dict_get (asm_rows (perform sample_ports (Start 20 ''asm-a1'' ''human'' None) approved_db)) ''asm-a1'' = Some a' \<and>
     (asm_status a' = APPROVED \<or> asm_status a' \<in> ALLOWED_TRANSITIONS APPROVED)"
proof -
  obtain a where a: "dict_get (asm_rows approved_db) ''asm-a1'' = Some a" "asm_status a = APPROVED"
    using approved_db_row by blast
  then show ?thesis
    using statuses_follow_table [OF approved_db_reachable _ a(1), of "Start 20 ''asm-a1'' ''human'' None"] by auto
qed

theorem agent_approval_bounded_witness:
  "\<exists>gr. grant_get ''grant-g1'' sample_db = (Inr (Some gr), sample_db) \<and> is_active_at gr 10"
proof -
  obtain ap db' where "approve sample_ports 10 ''x1'' ''asm-a1'' ''mallory'' {INTRUSIVE} {} ''sd'' ''agent''
      (Some ''grant-g1'') sample_db = (Inr ap, db')"
    using grant_approval_risks_unchecked by (auto split: prod.splits sum.splits)
  from agent_approval_bounded [OF sample_db_reachable _ this] show ?thesis by auto
qed

theorem revoked_grant_stays_inert_witness:
  "\<exists>db1. snd (revoke_grant ''grant-g1'' ''human'' sample_db) = db1 \<and>
     (\<exists>e. approve sample_ports 10 ''x1'' ''asm-a1'' ''mallory'' {PASSIVE} {} ''sd'' ''agent'' (Some ''grant-g1'') db1 = (Inl e, db1))"
proof -
  have "\<not> isl (fst (revoke_grant ''grant-g1'' ''human'' sample_db))"
    unfolding sample_db_def by code_simp
  then obtain x db1 where r: "revoke_grant ''grant-g1'' ''human'' sample_db = (Inr x, db1)"
    by (cases "revoke_grant ''grant-g1'' ''human'' sample_db"; cases "fst (revoke_grant ''grant-g1'' ''human'' sample_db)") auto
  from revoked_grant_stays_inert [OF sample_db_reachable r asm_history.refl] show ?thesis
    using r by simp
qed

section \<open>Where a grant is wider or narrower than its documentation\<close>

text \<open>
  A grant is compared with the include rules of the assessment only, and a wildcard rule is matched as if it
  were a host name: an assessment of a wildcard is covered although it re-admits a host the grant excludes.
\<close>

lemma wildcard_bypasses_grant_exclusion:
  "let grant_scope = sample_scope\<lparr>sc_include := [''*.corp.example''], sc_exclude := [''admin.corp.example'']\<rparr>;
       asm_scope = sample_scope\<lparr>sc_include := [''*.corp.example''], sc_exclude := []\<rparr>;
       g = \<lparr>gr_id = ''g'', gr_project_id = ''p'', gr_name = ''n'', gr_scope = grant_scope, gr_risk_caps = {PASSIVE},
            gr_valid_from = 0, gr_valid_to = 1, gr_created_by = ''human'', gr_created_at = 0, gr_status = GACTIVE, gr_digest = []\<rparr>
   in covers_scope (\<lambda>_. None) g asm_scope = Inr True \<and>
      includes_domain (\<lambda>_. None) grant_scope ''admin.corp.example'' = Inr False \<and>
      includes_domain (\<lambda>_. None) asm_scope ''admin.corp.example'' = Inr True"
  by code_simp

text \<open>A range is never inside a boundary, not even inside the boundary that lists the same range.\<close>

lemma range_never_covered:
  "matches_boundary (\<lambda>_. None) (sample_scope\<lparr>sc_include := [''10.0.0.0/24''], sc_exclude := []\<rparr>) ''10.0.0.0/24'' = Inr False"
  by code_simp

end
