(* ===== verification/Execution_Safety.thy ===== *)
theory Execution_Safety
  imports Execution Assessment_Safety
begin

text \<open>
  What the execution of an assessment guarantees: no step runs before the emergency switch, the status, the
  permit and every target have been checked, and the outcome of a run decides the final status.
\<close>

section \<open>Frames\<close>

text \<open>Everything but the run of the plan leaves the runner's own state alone.\<close>

lemma keeps_pure [simp, intro]: "keeps f (returnC x)" "keeps f (raiseC e)" "keeps f (liftC r)"
  by (simp_all add: keeps_readonly)

lemma keeps_move_to:
  assumes "\<And>w g. f (asm_rows_update g w) = f w"
  shows "keeps f (move_to t i)"
  unfolding keeps_def move_to_def
  by (auto simp: bindC_def liftC_def asm_require_def asm_add_def assms split: option.splits sum.splits)

lemma keeps_asm_fail: "(\<And>w g. f (asm_rows_update g w) = f w) \<Longrightarrow> keeps f (asm_fail i why)"
  by (simp add: asm_fail_def keeps_move_to)

lemma keeps_asm_audit:
  assumes "\<And>w g. f (ex_audit_update g w) = f w" "\<And>w g. f (ex_chain_update g w) = f w" "\<And>w g. f (ex_outbox_update g w) = f w"
  shows "keeps f (asm_audit i action payload)"
  unfolding keeps_def asm_audit_def
  by (auto simp: Let_def bindC_def outbox_record_def service_record_def signed_record_def assms split: option.splits sum.splits prod.splits)

lemma keeps_signed_record: "(\<And>w g. f (ex_chain_update g w) = f w) \<Longrightarrow> keeps f (signed_record n c)"
  unfolding keeps_def by (auto simp: signed_record_def split: option.splits prod.splits)

lemma readonly_load_execution [simp, intro]: "readonly (load_execution i)"
proof -
  have r: "readonly (bindC (get_snapshot j) (\<lambda>sc0. case sc0 of None \<Rightarrow> raiseC e | Some sc \<Rightarrow> returnC (pl, sc)))" for j e pl
    by (intro readonly_bindC readonly_case_option) simp_all
  show ?thesis
    unfolding readonly_def load_execution_def
    by (auto split: option.split simp: r [unfolded readonly_def, rule_format])
qed

lemma keeps_Pair [simp, intro]: "keeps f (Pair r)"
  by (simp add: keeps_def)

lemma keeps_run_issue [simp]: "keeps ex_run (issue_permit P n i sd pd)"
  unfolding issue_permit_def
  by (intro keeps_case_option keeps_bindC keeps_pure) (simp add: keeps_def)

lemma keeps_chain_issue [simp]: "keeps ex_chain (issue_permit P n i sd pd)"
  unfolding issue_permit_def
  by (intro keeps_case_option keeps_bindC keeps_pure) (simp add: keeps_def)

lemma keeps_run_fail_audit:
  "keeps ex_run (bindC (asm_fail i why) (\<lambda>_. bindC (asm_audit i action payload) (\<lambda>_. returnC b)))"
  by (intro keeps_bindC) (simp_all add: keeps_asm_fail keeps_asm_audit)

lemma keeps_run_verify [simp]: "keeps ex_run (verify_permit P i p)"
  unfolding keeps_def verify_permit_def
  by (auto split: option.split sum.split simp: keeps_run_fail_audit [unfolded keeps_def, rule_format])

lemma keeps_run_check_targets [simp]: "keeps ex_run (check_targets P i sc vs)"
proof (induction vs)
  case (Cons v vs)
  then show ?case
    unfolding check_targets.simps
    by (intro keeps_bindC keeps_pure keeps_case_option) (auto simp: keeps_run_fail_audit split: prod.split)
qed simp

lemma keeps_run_apply_nft [simp]: "keeps ex_run (apply_nft P i sc)"
  unfolding apply_nft_def by (intro keeps_case_option keeps_case_sum) (simp_all add: keeps_asm_audit)

lemma check_targets_True:
  "check_targets P i sc vs w = (Inr True, w') \<Longrightarrow> \<forall>v \<in> set vs. target_denial P sc v = Inr None"
proof (induction vs arbitrary: w)
  case (Cons v vs)
  then show ?case
    by (auto simp: bindC_Inr liftC_def returnC_def split: option.splits prod.splits) (metis option.exhaust prod_cases3)
qed simp

lemma target_denial_None:
  assumes "target_denial P sc v = Inr None"
  obtains t where "v = VStr t"
    "\<And>resolve blocked. xp_egress P = Some (resolve, blocked) \<Longrightarrow> \<exists>d. egress_check (xp_idna P) resolve blocked t sc = Inr d \<and> allowed d"
    "\<And>resolve. xp_enforcer P = Some resolve \<Longrightarrow> \<exists>d. scope_check (xp_idna P) resolve t sc precheck_context = Inr d \<and> allowed d"
proof -
  obtain t where t: "v = VStr t" using assms by (auto simp: target_denial_def split: pyval.splits)
  show thesis
  proof (rule that [OF t])
    show "\<exists>d. egress_check (xp_idna P) resolve blocked t sc = Inr d \<and> allowed d" if "xp_egress P = Some (resolve, blocked)" for resolve blocked
      using assms that by (auto simp: target_denial_def t bind_res_Inr_iff split: if_splits)
    show "\<exists>d. scope_check (xp_idna P) resolve t sc precheck_context = Inr d \<and> allowed d" if "xp_enforcer P = Some resolve" for resolve
      using assms that by (auto simp: target_denial_def t bind_res_Inr_iff split: if_splits)
  qed
qed

lemma move_to_Inr:
  assumes "move_to t i w = (Inr x, w')"
  shows "\<exists>a. dict_get (asm_rows w) i = Some a \<and> t \<in> ALLOWED_TRANSITIONS (asm_status a) \<and>
    w' = w\<lparr>asm_rows := dict_set (asm_id a) (a\<lparr>asm_status := t\<rparr>) (asm_rows w)\<rparr>"
  using assms by (auto simp: move_to_def bindC_Inr liftC_def asm_require_def asm_add_def assert_transition_def split: option.splits)

lemma load_execution_Inr:
  assumes "load_execution i w = (Inr (plan, sc), w')"
  shows "w' = w \<and> (\<exists>a pid. dict_get (asm_rows w) i = Some a \<and> asm_active_plan_id a = Some pid \<and>
    dict_get (plan_rows w) pid = Some plan \<and> get_snapshot (asm_scope_snapshot_id a) w = (Inr (Some sc), w))"
  using assms readonlyD [OF readonly_load_execution assms] readonlyD [OF readonly_get_snapshot]
  by (fastforce simp: load_execution_def bindC_Inr split: option.splits)

text \<open>What the stored rows of an assessment say, before the run changes its status.\<close>

definition execution_inputs :: "string \<Rightarrow> ('o, 'w) exec_world \<Rightarrow> execution_plan \<Rightarrow> scope_snapshot \<Rightarrow> bool" where
  "execution_inputs i w plan sc \<longleftrightarrow> (\<exists>a pid. dict_get (asm_rows w) i = Some a \<and> asm_active_plan_id a = Some pid \<and>
     dict_get (plan_rows w) pid = Some plan \<and> get_snapshot (asm_scope_snapshot_id a) w = (Inr (Some sc), w))"

lemma inputs_before_move:
  assumes "dict_get (asm_rows w) i = Some a" and "w' = w\<lparr>asm_rows := dict_set (asm_id a) (a\<lparr>asm_status := t\<rparr>) (asm_rows w)\<rparr>"
    and "execution_inputs i w' plan sc"
  shows "execution_inputs i w plan sc"
  using assms by (auto simp: execution_inputs_def get_snapshot_def split: option.splits if_splits)

lemma issue_permit_Inr:
  assumes "issue_permit P nonce i sd pd w = (Inr permit, w')"
  shows "ex_chain w' = ex_chain w \<and>
    (xp_signer P \<noteq> None \<longrightarrow> (\<exists>p. permit = Some p \<and> pe_nonce p = nonce \<and> pe_expires_at p = xp_clock P 0 + seconds 900))"
  using assms
  by (auto simp: issue_permit_def bindC_Inr liftC_def bind_res_Inr_iff ExecutionPermit_check_def permit_issue_def
      new_permit_def Let_def DEFAULT_PERMIT_TTL_SECONDS_def split: option.splits if_splits)

lemma verify_permit_True:
  assumes "verify_permit P i (Some p) w = (Inr True, w')" and "xp_verifier P \<noteq> None"
  shows "pe_nonce p \<notin> chain_nonces w \<and> xp_clock P 1 < pe_expires_at p"
  using assms by (auto simp: verify_permit_def permit_verify_Inr bindC_Inr split: sum.splits option.splits)

lemma keeps_run_asm [simp]:
  "keeps ex_run (mark_running i)" "keeps ex_run (asm_audit i action payload)" "keeps ex_run (signed_record n c)"
  "keeps ex_run (load_execution i)" "keeps ex_run (asm_fail i why)"
  by (simp_all add: mark_running_def keeps_move_to keeps_asm_audit keeps_signed_record keeps_readonly keeps_asm_fail)

lemma keeps_run_check_plan_scope [simp]: "keeps ex_run (check_plan_scope P i plan sc)"
  by (simp add: check_plan_scope_def)

lemma on_failure_run: "ex_run (snd (on_failure P i e w)) = ex_run w"
proof -
  have "ex_run (snd (asm_fail i why w)) = ex_run w" for why
    using keeps_run_asm(5) unfolding keeps_def by blast
  then show ?thesis
    using keeps_run_asm(2) unfolding keeps_def on_failure_def by metis
qed

definition admitted :: "('o, 'w) exec_ports \<Rightarrow> scope_snapshot \<Rightarrow> pyval \<Rightarrow> bool" where
  "admitted P sc v \<longleftrightarrow> (xp_egress P = None \<and> xp_enforcer P = None) \<or> (\<exists>t. v = VStr t \<and>
     (\<forall>resolve blocked. xp_egress P = Some (resolve, blocked) \<longrightarrow>
        (\<exists>d. egress_check (xp_idna P) resolve blocked t sc = Inr d \<and> allowed d)) \<and>
     (\<forall>resolve. xp_enforcer P = Some resolve \<longrightarrow>
        (\<exists>d. scope_check (xp_idna P) resolve t sc precheck_context = Inr d \<and> allowed d)))"

lemma check_plan_scope_True:
  assumes "check_plan_scope P i plan sc w = (Inr True, w')"
  shows "\<forall>v \<in> set (scan_targets plan sc). admitted P sc v"
proof (cases "xp_enforcer P = None \<and> xp_egress P = None")
  case False
  then have "\<forall>v \<in> set (scan_targets plan sc). target_denial P sc v = Inr None"
    using assms check_targets_True by (fastforce simp: check_plan_scope_def)
  then show ?thesis
    unfolding admitted_def by (metis target_denial_None)
qed (simp add: admitted_def)

lemma run_permitted_changed:
  assumes "ex_run (snd (run_permitted P i plan sc permit w)) \<noteq> ex_run w"
  shows "\<forall>v \<in> set (scan_targets plan sc). admitted P sc v"
proof -
  have "keeps ex_run (case permit of None \<Rightarrow> returnC () | Some p \<Rightarrow> signed_record (n p) (c p))" for n c
    by (intro keeps_case_option) simp_all
  then show ?thesis
    using assms unfolding run_permitted_def
    by (auto elim!: bindC_changed dest!: check_plan_scope_True split: if_splits)
qed

lemma run_loaded_changed:
  assumes "ex_run (snd (run_loaded P nonce i plan sc w)) \<noteq> ex_run w"
  shows "(\<forall>v \<in> set (scan_targets plan sc). admitted P sc v) \<and>
    (xp_signer P \<noteq> None \<and> xp_verifier P \<noteq> None \<longrightarrow> nonce \<notin> chain_nonces w \<and> xp_clock P 1 < xp_clock P 0 + seconds 900)"
proof -
  obtain permit w1 where w1: "issue_permit P nonce i (sc_digest sc) (plan_digest plan) w = (Inr permit, w1)"
    "ex_run (snd (bindC (verify_permit P i permit) (\<lambda>valid. if \<not> valid then returnC () else run_permitted P i plan sc permit) w1)) \<noteq> ex_run w1"
    by (rule bindC_changed [OF assms [unfolded run_loaded_def] keeps_run_issue])
  obtain w2 where "verify_permit P i permit w1 = (Inr True, w2)" "ex_run (snd (run_permitted P i plan sc permit w2)) \<noteq> ex_run w2"
    by (rule bindC_changed [OF w1(2) keeps_run_verify]) (auto split: if_splits)
  then show ?thesis
    using issue_permit_Inr [OF w1(1)] run_permitted_changed verify_permit_True by (fastforce simp: chain_nonces_def)
qed

lemma emergency_run: "ex_run (snd (bindC (asm_fail i why) (\<lambda>_. asm_audit i action payload) w)) = ex_run w"
proof -
  have "keeps ex_run (bindC (asm_fail i why) (\<lambda>_. asm_audit i action payload))"
    by (intro keeps_bindC) simp_all
  then show ?thesis unfolding keeps_def by blast
qed

lemma run_needs_checks:
  assumes "ex_run (snd (execute_assessment P nonce i w)) \<noteq> ex_run w"
  shows "ex_stop w \<noteq> Some True \<and>
    (\<exists>a. dict_get (asm_rows w) i = Some a \<and> asm_status a \<in> {QUEUED, PAUSED}) \<and>
    (xp_signer P \<noteq> None \<and> xp_verifier P \<noteq> None \<longrightarrow> nonce \<notin> chain_nonces w \<and> xp_clock P 1 < xp_clock P 0 + seconds 900) \<and>
    (\<exists>plan sc. execution_inputs i w plan sc \<and> (\<forall>v \<in> set (scan_targets plan sc). admitted P sc v))"
proof -
  have "ex_run (snd (execute_body P nonce i w)) \<noteq> ex_run w"
    using assms by (auto simp: execute_assessment_def on_failure_run split: prod.splits sum.splits)
  then obtain x w0 where w0: "mark_running i w = (Inr x, w0)" and go: "ex_stop w0 \<noteq> Some True"
    and run: "ex_run (snd (bindC (load_execution i) (\<lambda>(plan, sc). run_loaded P nonce i plan sc) w0)) \<noteq> ex_run w0"
    unfolding execute_body_def
    by (elim bindC_changed) (auto split: if_splits simp: emergency_run)
  obtain plan sc where ld: "load_execution i w0 = (Inr (plan, sc), w0)" "ex_run (snd (run_loaded P nonce i plan sc w0)) \<noteq> ex_run w0"
    by (rule bindC_changed [OF run]) (auto dest: load_execution_Inr)
  obtain a where a: "dict_get (asm_rows w) i = Some a" "RUNNING \<in> ALLOWED_TRANSITIONS (asm_status a)"
    "w0 = w\<lparr>asm_rows := dict_set (asm_id a) (a\<lparr>asm_status := RUNNING\<rparr>) (asm_rows w)\<rparr>"
    using move_to_Inr [OF w0 [unfolded mark_running_def]] by blast
  have "asm_status a \<in> {QUEUED, PAUSED}"
    using a(2) by (cases "asm_status a") simp_all
  moreover have "execution_inputs i w plan sc"
    using load_execution_Inr [OF ld(1)] inputs_before_move [OF a(1,3)] by (simp add: execution_inputs_def)
  ultimately show ?thesis
    using go a run_loaded_changed [OF ld(2)] by (auto simp: chain_nonces_def)
qed

text \<open>
  C2. No step of a plan runs before the checks: when executing an assessment changes the state the step
  runner works on, the emergency switch was off, the assessment was queued or paused, its plan and scope were
  stored, with a signer and a verifier the permit's nonce was new and the permit not expired, and every scan
  target was admitted by the egress guard and by the scope enforcer that are wired.
\<close>

theorem no_step_before_checks:
  assumes "ex_run (snd (execute_assessment P nonce i w)) \<noteq> ex_run w"
  shows "ex_stop w \<noteq> Some True \<and>
    (\<exists>a. dict_get (asm_rows w) i = Some a \<and> asm_status a \<in> {QUEUED, PAUSED}) \<and>
    (xp_signer P \<noteq> None \<and> xp_verifier P \<noteq> None \<longrightarrow> nonce \<notin> chain_nonces w \<and> xp_clock P 1 < xp_clock P 0 + seconds 900) \<and>
    (\<exists>plan sc. execution_inputs i w plan sc \<and> (\<forall>v \<in> set (scan_targets plan sc). admitted P sc v))"
  by (rule run_needs_checks [OF assms])

definition audit_payload_ok :: "string list \<Rightarrow> bool" where
  "audit_payload_ok ks \<longleftrightarrow> list_all (\<lambda>k. py_lower k \<notin> set SECRET_KEYS) ks"

lemma execution_payload_keys:
  "audit_payload_ok [''confirmed'', ''refuted'', ''inconclusive'', ''skipped'', ''failed'']"
  "audit_payload_ok [''reason'']" "audit_payload_ok [''coverage_rate'', ''reason'']"
  "audit_payload_ok [''findings'', ''coverage_rate'', ''uncovered_classes'', ''no_observations'']"
  by code_simp+

lemma asm_audit_returns:
  assumes "i \<noteq> []" "action \<noteq> []" "audit_payload_ok (map fst payload)"
  shows "\<exists>w'. asm_audit i action payload w = (Inr (), w') \<and> asm_rows w' = asm_rows w"
proof -
  have "call_ok \<lparr>c_actor = ''system'', c_action = action, c_resource_type = ''assessment'', c_resource_id = i, c_payload = payload\<rparr>"
    using assms by (auto simp: call_ok_def audit_payload_ok_def list_all_iff)
  then show ?thesis
    by (auto simp: asm_audit_def Let_def outbox_record_def service_record_def signed_record_def bindC_def log_record_def split: option.split)
qed

section \<open>How a run ends\<close>

lemma oracle_phase_returns:
  assumes "i \<noteq> []"
  shows "\<exists>w'. oracle_phase P i fs w = (Inr (), w') \<and> asm_rows w' = asm_rows w"
proof -
  have rows: "keeps asm_rows (oracle_batch P oc fs)" for oc
    unfolding keeps_def oracle_batch_def by (auto split: prod.split)
  have audit: "keeps asm_rows (asm_audit i action payload)" for action payload
    by (rule keeps_asm_audit) simp_all
  show ?thesis
  proof (cases "xp_oracle P = None \<or> fs = []")
    case False
    then obtain oc where oc: "xp_oracle P = Some oc" "fs \<noteq> []" by auto
    let ?m = "bindC (oracle_batch P oc fs) (\<lambda>s.
      asm_audit i ''oracle.batch_verified''
        [(''confirmed'', VInt (int (os_confirmed s))), (''refuted'', VInt (int (os_refuted s))),
         (''inconclusive'', VInt (int (os_inconclusive s))), (''skipped'', VInt (int (os_skipped s))),
         (''failed'', VInt (int (os_failed s)))])"
    obtain r w1 where m: "?m w = (r, w1)" by fastforce
    have "asm_rows w1 = asm_rows w"
      using keepsD [of asm_rows ?m w r w1] m by (blast intro: rows audit)
    moreover have "\<exists>w'. asm_audit i ''oracle.batch_failed'' [(''reason'', VStr e)] w1 = (Inr (), w') \<and> asm_rows w' = asm_rows w1" for e
      using asm_audit_returns [OF assms, of "''oracle.batch_failed''" "[(''reason'', VStr e)]"] execution_payload_keys(2) by simp
    ultimately show ?thesis
      using m oc by (cases r) (simp_all add: oracle_phase_def)
  qed (auto simp: oracle_phase_def split: option.split)
qed

lemma store_all_findings:
  "asm_rows (foldl (\<lambda>w f. store_finding (g f) w) w fs) = asm_rows w"
  by (induction fs arbitrary: w) (simp_all add: store_finding_def)

lemma move_to_returns:
  assumes "dict_get (asm_rows w) i = Some a" "asm_id a = i" "t \<in> ALLOWED_TRANSITIONS (asm_status a)"
  shows "\<exists>x w'. move_to t i w = (Inr x, w') \<and> dict_get (asm_rows w') i = Some (a\<lparr>asm_status := t\<rparr>)"
  using assms by (simp add: move_to_def bindC_def liftC_def asm_require_def asm_add_def assert_transition_def guard_def)

text \<open>
  C6. The end of a run decides the status, whatever the oracle does: a running assessment whose observations
  correlate ends \<open>COMPLETED\<close> when a finding was produced or a step succeeded, and \<open>FAILED\<close> otherwise. An
  execution in which nothing worked never looks like a clean scan, and a failing oracle pass never keeps the
  assessment from its final status.
\<close>

theorem finalize_decides_status:
  assumes "dict_get (asm_rows w) i = Some a" "asm_id a = i" "asm_status a = RUNNING" "i \<noteq> []"
    and "correlate (xp_sha P) (xp_observations P sc w) = Inr fs"
  shows "\<exists>w'. finalize_execution P i sc w = (Inr (), w') \<and>
    dict_get (asm_rows w') i = Some (a\<lparr>asm_status := if empty_execution fs (ex_jobs w) then FAILED else COMPLETED\<rparr>)"
proof (cases "empty_execution fs (ex_jobs w)")
  case True
  obtain x w1 where w1: "asm_fail i ''EMPTY_EXECUTION:no plan step succeeded, 0 findings'' w = (Inr x, w1)"
    "dict_get (asm_rows w1) i = Some (a\<lparr>asm_status := FAILED\<rparr>)"
    using move_to_returns [OF assms(1,2), of FAILED] assms(3) by (auto simp: asm_fail_def)
  show ?thesis
    using True w1 assms(4,5) execution_payload_keys(3)
      asm_audit_returns [OF assms(4), of "''assessment.completed.empty_execution''"
        "[(''coverage_rate'', VFloat (xp_float P 0)), (''reason'', VStr ''zero successful plan steps, zero findings'')]" w1]
    by (auto simp: finalize_execution_def Let_def bindC_def liftC_def)
next
  case False
  let ?w1 = "foldl (\<lambda>w f. store_finding (f\<lparr>fi_assessment_id := i\<rparr>) w) w fs"
  obtain w2 where w2: "oracle_phase P i fs ?w1 = (Inr (), w2)" "asm_rows w2 = asm_rows w"
    using oracle_phase_returns [OF assms(4), of P fs ?w1] store_all_findings by metis
  obtain x w3 where w3: "asm_complete i w2 = (Inr x, w3)" "dict_get (asm_rows w3) i = Some (a\<lparr>asm_status := COMPLETED\<rparr>)"
    using move_to_returns [of w2 i a COMPLETED] assms w2(2) by (auto simp: asm_complete_def)
  obtain rate unc where cov: "exec_coverage P (xp_observations P sc w) = (rate, unc)" by fastforce
  show ?thesis
    using False w2 w3 cov assms(5) execution_payload_keys(4)
      asm_audit_returns [OF assms(4), of "''assessment.completed''"
        "[(''findings'', VInt (int (length fs))), (''coverage_rate'', VFloat (xp_float P rate)),
          (''uncovered_classes'', VStrs unc),
          (''no_observations'', if xp_observations P sc w = [] then VBool True else VNone)]" w3]
    by (auto simp: finalize_execution_def Let_def bindC_def liftC_def split del: if_split)
qed

text \<open>
  The oracle pass is given the findings before they were tagged with the assessment, and writes them back:
  each finding it verifies is stored without its assessment.
\<close>

lemma oracle_pass_unlinks_finding:
  assumes "correlate sha xs = Inr fs" "f \<in> set fs"
    and "verify_one sha reg factory actor t f vt s = (Inr st, s')"
  shows "\<exists>g. dict_get (sv_findings s') (fi_id f) = Some g \<and> fi_assessment_id g = []"
proof -
  have "fi_assessment_id (merge_group g) = []" for g
    by (cases g) (simp add: merge_group_def)
  then have "fi_assessment_id f = []"
    using assms(1,2) map_res_Inr [of "\<lambda>g. Finding_check (merge_group g)" "groups (observation_fingerprint sha) xs" fs]
    by (auto simp: correlate_def Finding_check_def split: if_splits)
  then show ?thesis
    using verify_one_stores [OF assms(3)] by simp
qed

definition demo_scope :: scope_snapshot where
  "demo_scope = sample_scope\<lparr>sc_id := ''s2'', sc_include := [''192.0.2.7''], sc_exclude := [], sc_ports := [443]\<rparr>"

definition demo_exec_calls :: "asm_call list" where
  "demo_exec_calls =
     [AddSnapshot demo_scope, Create ''a1'' ''p1'' ''s2'' APPROVAL,
      AttachPlan ''p1'' ''asm-a1'' [\<lparr>step_key = ''probe'', runner = ''httpx'', risk = PASSIVE,
        parameters = [(''target'', VStr ''192.0.2.7'')], dependencies = []\<rparr>],
      Approve 10 ''x1'' ''asm-a1'' ''alice'' {PASSIVE} {} ''sd'' ''human'' None, Start 20 ''asm-a1'' ''human'' None]"

definition queued_db :: asm_db where
  "queued_db = the (run_calls sample_ports demo_exec_calls empty_db)"

lemma queued_db_reachable: "asm_reachable sample_ports queued_db"
proof -
  have "run_calls sample_ports demo_exec_calls empty_db \<noteq> None" by code_simp
  then have "run_calls sample_ports demo_exec_calls empty_db = Some queued_db" by (simp add: queued_db_def)
  then show ?thesis using run_calls_reachable [OF asm_reachable.start] by blast
qed

definition demo_exec_world :: "(unit, nat) exec_world" where
  "demo_exec_world = \<lparr>scope_rows = scope_rows queued_db, grant_rows = grant_rows queued_db,
     asm_rows = asm_rows queued_db, plan_rows = plan_rows queued_db, approval_rows = approval_rows queued_db,
     ex_audit = [], ex_chain = Some [], ex_outbox = None, ex_registry = Some empty_registry, ex_stop = Some False,
     ex_jobs = \<lparr>jobs = [], ttl = 300\<rparr>, ex_findings = [], ex_confirmed = [],
     ex_oracle = \<lparr>issued = {}, consumed = {}, draws = [], audited = [], outside = ()\<rparr>, ex_run = 0\<rparr>"

lemma demo_exec_world_db: "asm_db.truncate demo_exec_world = queued_db"
  by (simp add: demo_exec_world_def asm_db.defs)

definition demo_exec_ports :: "(unit, nat) exec_ports" where
  "demo_exec_ports = \<lparr>xp_sha = (\<lambda>_. ''sha256:h''), xp_idna = (\<lambda>_. None), xp_float = (\<lambda>_. ''0.0''), xp_err = (\<lambda>_. ''e''),
     xp_clock = int, xp_signer = Some (\<lambda>m. ''k'' @ m), xp_verifier = Some (\<lambda>s m. s = ''k'' @ m),
     xp_enforcer = Some (\<lambda>_. Inr []), xp_egress = Some ((\<lambda>_. Inr []), []), xp_nft = None,
     xp_runner = (\<lambda>_ w s. (RunOk ''done'', w\<lparr>ex_run := ex_run w + 1\<rparr>)), xp_observations = (\<lambda>_ _. []), xp_catalog = None,
     xp_asset_types = [], xp_oracle = None, xp_shared_jobs = False, xp_terminator = None\<rparr>"

lemma demo_run: "ex_run (snd (execute_assessment demo_exec_ports ''n1'' ''asm-a1'' demo_exec_world)) = 1"
  unfolding demo_exec_world_def queued_db_def by code_simp

theorem no_step_before_checks_witness:
  "\<exists>plan sc. execution_inputs ''asm-a1'' demo_exec_world plan sc \<and>
     (\<forall>v \<in> set (scan_targets plan sc). admitted demo_exec_ports sc v)"
  using no_step_before_checks [of demo_exec_ports "''n1''" "''asm-a1''" demo_exec_world] demo_run
  by (simp add: demo_exec_world_def)

theorem finalize_decides_status_witness:
  "\<exists>w w' a. finalize_execution demo_exec_ports ''asm-a1'' demo_scope w = (Inr (), w') \<and>
     dict_get (asm_rows w') ''asm-a1'' = Some a \<and> asm_status a = FAILED"
proof -
  let ?a = "\<lparr>asm_id = ''asm-a1'', asm_project_id = ''p1'', asm_scope_snapshot_id = ''s2'', asm_mode = APPROVAL,
    asm_status = RUNNING, asm_active_plan_id = None, asm_approval_id = None, asm_control = CNONE\<rparr>"
  let ?w = "demo_exec_world\<lparr>asm_rows := [(''asm-a1'', ?a)]\<rparr>"
  have "correlate (xp_sha demo_exec_ports) (xp_observations demo_exec_ports demo_scope ?w) = Inr []"
    by (simp add: demo_exec_ports_def correlate_def groups_def)
  moreover have "empty_execution [] (ex_jobs ?w)"
    by (simp add: empty_execution_def demo_exec_world_def store_all_def)
  ultimately obtain w' where "finalize_execution demo_exec_ports ''asm-a1'' demo_scope ?w = (Inr (), w')"
    "dict_get (asm_rows w') ''asm-a1'' = Some (?a\<lparr>asm_status := FAILED\<rparr>)"
    using finalize_decides_status [of ?w "''asm-a1''" ?a demo_exec_ports demo_scope "[]"] by auto
  then show ?thesis
    by (intro exI conjI) (assumption, assumption, simp)
qed

end
