(* ===== verification/Loop_Model.thy ===== *)
theory Loop_Model
  imports Complex_Main Canonical
begin

text \<open>
  The data of the reasoning loop (\<^verbatim>\<open>domain/reasoning_loop/models.py\<close>), the deterministic
  termination evaluator (\<^verbatim>\<open>domain/reasoning_loop/policies.py\<close>) and the state delta after a step
  (\<^verbatim>\<open>application/reasoning_loop/feedback.py\<close>). A float is a rational number; where one is
  serialised, the numeral Python prints for it is the parameter \<open>float_repr\<close>.
\<close>

section \<open>Identifiers and phases\<close>

text \<open>\<^verbatim>\<open>LoopId\<close>: eight lower-case hexadecimal characters (\<^verbatim>\<open>^[0-9a-f]{8}$\<close>, full match).\<close>

definition LoopId_check :: "string \<Rightarrow> string result" where
  "LoopId_check v =
     (if length v = 8 \<and> set v \<subseteq> set ''0123456789abcdef'' then Inr v
      else Inl (ValueError (''LoopId must be 8 lowercase hex chars, got: '' @ v)))"

datatype loop_phase = INITIALIZING | RUNNING | CONVERGED | CATALOG_FLOOR_DONE | PAUSED | RESUMED
  | BUDGET_EXHAUSTED | POLICY_BLOCKED | EMERGENCY_STOPPED | COMPLETED

fun phase_value :: "loop_phase \<Rightarrow> string" where
  "phase_value INITIALIZING = ''initializing''"
| "phase_value RUNNING = ''running''"
| "phase_value CONVERGED = ''converged''"
| "phase_value CATALOG_FLOOR_DONE = ''catalog_floor_done''"
| "phase_value PAUSED = ''paused''"
| "phase_value RESUMED = ''resumed''"
| "phase_value BUDGET_EXHAUSTED = ''budget_exhausted''"
| "phase_value POLICY_BLOCKED = ''policy_blocked''"
| "phase_value EMERGENCY_STOPPED = ''emergency_stopped''"
| "phase_value COMPLETED = ''completed''"

section \<open>Budgets\<close>

record loop_budget =
  max_steps :: int
  max_total_tokens :: int
  max_wall_seconds :: int
  steps_used :: int
  tokens_used :: int
  wall_seconds_used :: int

record loop_budget_snapshot =
  steps_remaining :: int
  tokens_remaining :: int
  wall_seconds_remaining :: int

definition LoopBudget_default :: loop_budget where
  "LoopBudget_default = \<lparr>max_steps = 50, max_total_tokens = 200000, max_wall_seconds = 1800,
     steps_used = 0, tokens_used = 0, wall_seconds_used = 0\<rparr>"

definition consume :: "loop_budget \<Rightarrow> int \<Rightarrow> int \<Rightarrow> int \<Rightarrow> loop_budget" where
  "consume b steps tokens wall =
     b\<lparr>steps_used := steps_used b + steps, tokens_used := tokens_used b + tokens,
       wall_seconds_used := wall_seconds_used b + wall\<rparr>"

definition snapshot :: "loop_budget \<Rightarrow> loop_budget_snapshot" where
  "snapshot b = \<lparr>steps_remaining = max 0 (max_steps b - steps_used b),
     tokens_remaining = max 0 (max_total_tokens b - tokens_used b),
     wall_seconds_remaining = max 0 (max_wall_seconds b - wall_seconds_used b)\<rparr>"

definition exhausted :: "loop_budget \<Rightarrow> bool" where
  "exhausted b \<longleftrightarrow> steps_used b \<ge> max_steps b \<or> tokens_used b \<ge> max_total_tokens b \<or>
     wall_seconds_used b \<ge> max_wall_seconds b"

text \<open>\<^verbatim>\<open>credit_budget\<close> of \<^verbatim>\<open>pause_control.py\<close>: the paused time in microseconds, floored to seconds.\<close>

definition credit_budget :: "loop_budget \<Rightarrow> int \<Rightarrow> loop_budget" where
  "credit_budget b paused_micros =
     b\<lparr>wall_seconds_used := max 0 (wall_seconds_used b - paused_micros div 1000000)\<rparr>"

section \<open>Actions and context\<close>

datatype loop_action_type = RUN_TOOL | RUN_CASE | REQUEST_PEER | REQUEST_ORACLE | REQUEST_CHAIN
  | ABORT_STEP

fun action_value :: "loop_action_type \<Rightarrow> string" where
  "action_value RUN_TOOL = ''run_tool''"
| "action_value RUN_CASE = ''run_case''"
| "action_value REQUEST_PEER = ''request_peer''"
| "action_value REQUEST_ORACLE = ''request_oracle''"
| "action_value REQUEST_CHAIN = ''request_chain''"
| "action_value ABORT_STEP = ''abort_step''"

record propose_action =
  action_type :: loop_action_type
  payload :: pydict
  rationale :: string
  confidence :: rat
  pa_hypothesis_id :: "string option"
  catalog_class_targeted :: "string option"

record observation_summary =
  observation_id :: string
  obs_tool_or_case_id :: string
  target_digest :: string
  key_signals :: "string list"
  obs_confidence :: rat
  has_full_text :: bool
  full_text_ref :: "string option"
  token_estimate :: int

record available_capability =
  capability_id :: string
  cap_kind :: string
  cap_summary :: string
  cap_risk_class :: string
  cap_cwe :: "string list"

record pending_hypothesis =
  hyp_id :: string
  hyp_description :: string
  needed_cwe :: "string list"

record handbook_summary =
  hb_id :: string
  hb_title :: string
  attack_surface :: "string list"
  recon_endpoints :: "string list"
  payload_classes :: "string list"
  verification_hint :: string

record loop_context =
  asset_subgraph :: "string list"
  recent_observations :: "observation_summary list"
  observation_token_count :: int
  catalog_already_executed :: "string set"
  catalog_still_required :: "string set"
  catalog_floor_progress :: rat
  unconfirmed_candidates :: "string list"
  confirmed_findings_recent :: "string list"
  chain_hypotheses_pending :: "pending_hypothesis list"
  available_tools :: "available_capability list"
  available_cases :: "available_capability list"
  available_peers :: "string list"
  budget_remaining :: loop_budget_snapshot
  loop_step_no :: int
  ctx_max_steps :: int
  elapsed_seconds :: int
  handbook_hints :: "handbook_summary list"

definition observation_body :: "(rat \<Rightarrow> string) \<Rightarrow> observation_summary \<Rightarrow> pyval" where
  "observation_body fr ob = VDict
     [(''observation_id'', VStr (observation_id ob)),
      (''tool_or_case_id'', VStr (obs_tool_or_case_id ob)),
      (''target_digest'', VStr (target_digest ob)),
      (''key_signals'', VStrs (key_signals ob)),
      (''confidence'', VFloat (fr (obs_confidence ob))),
      (''has_full_text'', VBool (has_full_text ob)),
      (''full_text_ref'', VOptStr (full_text_ref ob)),
      (''token_estimate'', VInt (token_estimate ob))]"

definition capability_body :: "available_capability \<Rightarrow> pyval" where
  "capability_body c = VDict
     [(''capability_id'', VStr (capability_id c)), (''kind'', VStr (cap_kind c)),
      (''summary'', VStr (cap_summary c)), (''risk_class'', VStr (cap_risk_class c)),
      (''cwe'', VStrs (cap_cwe c))]"

definition hypothesis_body :: "pending_hypothesis \<Rightarrow> pyval" where
  "hypothesis_body h = VDict
     [(''hypothesis_id'', VStr (hyp_id h)), (''description'', VStr (hyp_description h)),
      (''needed_cwe'', VStrs (needed_cwe h))]"

definition handbook_body :: "handbook_summary \<Rightarrow> pyval" where
  "handbook_body h = VDict
     [(''id'', VStr (hb_id h)), (''title'', VStr (hb_title h)),
      (''attack_surface'', VStrs (attack_surface h)),
      (''recon_endpoints'', VStrs (recon_endpoints h)),
      (''payload_classes'', VStrs (payload_classes h)),
      (''verification_hint'', VStr (verification_hint h))]"

definition context_body :: "(rat \<Rightarrow> string) \<Rightarrow> loop_context \<Rightarrow> pyval" where
  "context_body fr c = VDict
     [(''asset_subgraph'', VStrs (asset_subgraph c)),
      (''recent_observations'', VList (map (observation_body fr) (recent_observations c))),
      (''observation_token_count'', VInt (observation_token_count c)),
      (''catalog_already_executed'', VStrs (sorted_list_of_set (catalog_already_executed c))),
      (''catalog_still_required'', VStrs (sorted_list_of_set (catalog_still_required c))),
      (''catalog_floor_progress'', VFloat (fr (catalog_floor_progress c))),
      (''unconfirmed_candidates'', VStrs (unconfirmed_candidates c)),
      (''confirmed_findings_recent'', VStrs (confirmed_findings_recent c)),
      (''chain_hypotheses_pending'', VList (map hypothesis_body (chain_hypotheses_pending c))),
      (''available_tools'', VList (map capability_body (available_tools c))),
      (''available_cases'', VList (map capability_body (available_cases c))),
      (''available_peers'', VStrs (available_peers c)),
      (''handbook_hints'', VList (map handbook_body (handbook_hints c))),
      (''budget_remaining'', VDict
         [(''steps_remaining'', VInt (steps_remaining (budget_remaining c))),
          (''tokens_remaining'', VInt (tokens_remaining (budget_remaining c))),
          (''wall_seconds_remaining'', VInt (wall_seconds_remaining (budget_remaining c)))]),
      (''loop_step'', VInt (loop_step_no c)),
      (''max_steps'', VInt (ctx_max_steps c)),
      (''elapsed_seconds'', VInt (elapsed_seconds c))]"

definition context_hash :: "(string \<Rightarrow> string) \<Rightarrow> (rat \<Rightarrow> string) \<Rightarrow> loop_context \<Rightarrow> string" where
  "context_hash sha fr c = sha (canonical_json (context_body fr c))"

section \<open>Verdicts, states, steps\<close>

record gate_verdict =
  passed :: bool
  verdict_reason :: string
  deny_code :: "string option"
  permit_id :: "string option"
  permit_ttl_seconds :: "int option"

record loop_policy_decision =
  verdict :: string
  decision_reason :: string
  decision_deny_code :: "string option"

record loop_state =
  loop_id :: string
  assessment_id :: string
  phase :: loop_phase
  policy_snapshot :: string
  budget :: loop_budget
  state_context_hash :: string
  catalog_required_remaining :: "string set"
  catalog_required_executed :: "string set"
  consecutive_no_signal :: int
  consecutive_policy_rejected :: int
  started_at :: datetime
  last_step_at :: "datetime option"
  pause_attempts :: int
  paused_at :: "datetime option"
  resumed_at :: "datetime option"

record loop_step =
  step_id :: string
  step_loop_id :: string
  step_number :: int
  timestamp :: datetime
  context_hash_before :: string
  proposed_action :: propose_action
  propose_tokens_used :: int
  propose_latency_ms :: int
  propose_rationale :: string
  schema_check_passed :: bool
  step_policy_decision :: loop_policy_decision
  step_permit_id :: "string option"
  tool_or_case_id :: "pyval option"
  execution_result_digest :: string
  evidence_refs :: "string list"
  observation_signals :: "string list"
  catalog_class_matched :: "string set"
  oracle_progressed :: bool
  correlation_id :: string

record loop_termination_policy =
  pol_max_steps :: int
  max_wall_clock_seconds :: int
  pol_max_total_tokens :: int
  no_signal_streak_to_converge :: int
  policy_rejected_streak_to_stop :: int
  require_min_confirmed :: int
  max_pauses :: int

definition LoopTerminationPolicy_default :: loop_termination_policy where
  "LoopTerminationPolicy_default = \<lparr>pol_max_steps = 50, max_wall_clock_seconds = 1800,
     pol_max_total_tokens = 200000, no_signal_streak_to_converge = 5,
     policy_rejected_streak_to_stop = 3, require_min_confirmed = 0, max_pauses = 3\<rparr>"

definition pause_budget_exceeded :: "loop_termination_policy \<Rightarrow> int \<Rightarrow> bool" where
  "pause_budget_exceeded p attempts \<longleftrightarrow> attempts \<ge> max_pauses p"

record loop_plan =
  lp_plan_id :: string
  lp_loop_id :: string
  lp_assessment_id :: string
  lp_termination_policy :: loop_termination_policy
  lp_policy_snapshot :: string
  lp_created_at :: datetime

section \<open>Termination and feedback\<close>

definition evaluate_termination :: "loop_state \<Rightarrow> loop_termination_policy \<Rightarrow> loop_phase" where
  "evaluate_termination s p =
     (if phase s = EMERGENCY_STOPPED then EMERGENCY_STOPPED
      else if phase s = PAUSED then PAUSED
      else if exhausted (budget s) then BUDGET_EXHAUSTED
      else if consecutive_policy_rejected s \<ge> policy_rejected_streak_to_stop p then POLICY_BLOCKED
      else if consecutive_no_signal s \<ge> no_signal_streak_to_converge p then CONVERGED
      else RUNNING)"

definition feedback_apply :: "loop_state \<Rightarrow> loop_step \<Rightarrow> bool \<Rightarrow> int \<Rightarrow> datetime \<Rightarrow> loop_state" where
  "feedback_apply s step policy_decision_passed signal_count now =
     s\<lparr>budget := consume (budget s) 1 (propose_tokens_used step) 0,
       catalog_required_remaining := catalog_required_remaining s - catalog_class_matched step,
       catalog_required_executed := catalog_required_executed s \<union> catalog_class_matched step,
       consecutive_no_signal := (if signal_count > 0 then 0 else consecutive_no_signal s + 1),
       consecutive_policy_rejected :=
         (if policy_decision_passed then 0 else consecutive_policy_rejected s + 1),
       last_step_at := Some now\<rparr>"

section \<open>Lemmas\<close>

lemma exhausted_snapshot:
  "exhausted b \<longleftrightarrow> steps_remaining (snapshot b) = 0 \<or> tokens_remaining (snapshot b) = 0 \<or>
     wall_seconds_remaining (snapshot b) = 0"
  by (auto simp: exhausted_def snapshot_def)

lemma exhausted_consume:
  "0 \<le> n \<Longrightarrow> 0 \<le> t \<Longrightarrow> 0 \<le> w \<Longrightarrow> exhausted b \<Longrightarrow> exhausted (consume b n t w)"
  by (auto simp: exhausted_def consume_def)

lemma consume_consume: "consume (consume b n t w) n' t' w' = consume b (n + n') (t + t') (w + w')"
  by (simp add: consume_def)

lemma feedback_frame [simp, frame_simps]:
  "phase (feedback_apply s step ok n now) = phase s"
  "loop_id (feedback_apply s step ok n now) = loop_id s"
  "pause_attempts (feedback_apply s step ok n now) = pause_attempts s"
  "catalog_required_remaining (feedback_apply s step ok n now) \<union>
     catalog_required_executed (feedback_apply s step ok n now) =
     catalog_required_remaining s \<union> catalog_required_executed s \<union> catalog_class_matched step"
  by (auto simp: feedback_apply_def)

end
