(* ===== verification/Loop_Orchestrator.thy ===== *)
theory Loop_Orchestrator
  imports Loop_Model Oracle_Service
begin

text \<open>
  The reasoning loop driver (\<^verbatim>\<open>application/reasoning_loop/orchestrator.py\<close>), the budget gate
  (\<^verbatim>\<open>budget_gate.py\<close>), the in-memory repositories (\<^verbatim>\<open>in_memory_state.py\<close>), and the human control plane:
  pause, resume and emergency stop (\<^verbatim>\<open>pause_control.py\<close>, \<^verbatim>\<open>ports/loop_approval.py\<close>,
  \<^verbatim>\<open>infrastructure/reasoning_loop/loop_approval.py\<close>).

  The ports of the orchestrator (context builder, proposer, schema, policy and permit gates, the
  loop oracle) are the record \<open>loop_ports\<close>: commands over the outside \<^typ>\<open>'w\<close> that may raise. What a
  step draws from \<^verbatim>\<open>secrets\<close>, \<^verbatim>\<open>uuid\<close> and the clock is the record \<open>step_env\<close>.
\<close>

section \<open>State and ports\<close>

record 'w loop_world =
  lw_states :: "(string \<times> loop_state) list"
  lw_steps :: "loop_step list"
  lw_audit :: "audit_call list"
  lw_out :: 'w

record 'w loop_ports =
  lp_sha :: "string \<Rightarrow> string"
  lp_float :: "rat \<Rightarrow> string"
  lp_build :: "string \<Rightarrow> ('w, loop_context) cmd"
  lp_propose :: "loop_context \<Rightarrow> ('w, propose_action option) cmd"
  lp_schema :: "propose_action \<Rightarrow> loop_context \<Rightarrow> ('w, gate_verdict) cmd"
  lp_policy :: "propose_action \<Rightarrow> loop_context \<Rightarrow> ('w, gate_verdict) cmd"
  lp_permit :: "propose_action \<Rightarrow> loop_context \<Rightarrow> ('w, gate_verdict) cmd"
  lp_budget_gate :: bool
  lp_oracle :: "(string \<Rightarrow> ('w, oracle_outcome) cmd) option"

record step_env =
  e_step_token :: string
  e_step_number :: int
  e_corr_token :: string
  e_step_time :: datetime
  e_now :: datetime

record step_result =
  sr_loop_id :: string
  sr_phase :: loop_phase
  sr_step_recorded :: "loop_step option"
  sr_signals_count :: int

definition outC :: "('w, 'a) cmd \<Rightarrow> ('w loop_world, 'a) cmd" where
  "outC c s = (case c (lw_out s) of (r, w) \<Rightarrow> (r, s\<lparr>lw_out := w\<rparr>))"

definition get_state :: "string \<Rightarrow> 'w loop_world \<Rightarrow> loop_state option" where
  "get_state i s = dict_get (lw_states s) i"

definition save_state :: "loop_state \<Rightarrow> ('w loop_world, unit) cmd" where
  "save_state st s = (Inr (), s\<lparr>lw_states := dict_set (loop_id st) st (lw_states s)\<rparr>)"

definition add_step :: "loop_step \<Rightarrow> ('w loop_world, unit) cmd" where
  "add_step x s = (Inr (), s\<lparr>lw_steps := lw_steps s @ [x]\<rparr>)"

definition list_for_loop :: "string \<Rightarrow> 'w loop_world \<Rightarrow> loop_step list" where
  "list_for_loop i s = filter (\<lambda>x. step_loop_id x = i) (lw_steps s)"

definition loop_call :: "string \<Rightarrow> string \<Rightarrow> string \<Rightarrow> pydict \<Rightarrow> audit_call" where
  "loop_call actor action i p = \<lparr>c_actor = actor, c_action = action, c_resource_type = ''reasoning_loop'',
     c_resource_id = i, c_payload = p\<rparr>"

definition audit_loop :: "string \<Rightarrow> string \<Rightarrow> string \<Rightarrow> pydict \<Rightarrow> ('w loop_world, unit) cmd" where
  "audit_loop actor action i p s =
     (case log_record (loop_call actor action i p) (lw_audit s) of (r, l) \<Rightarrow> (r, s\<lparr>lw_audit := l\<rparr>))"

definition TERMINAL_PHASES :: "loop_phase set" where
  "TERMINAL_PHASES = {COMPLETED, BUDGET_EXHAUSTED, POLICY_BLOCKED, CONVERGED, EMERGENCY_STOPPED}"

definition NON_AUTO_STEP_PHASES :: "loop_phase set" where
  "NON_AUTO_STEP_PHASES = {PAUSED, CATALOG_FLOOR_DONE}"

definition MOCK_STEP_TOKENS :: int where
  "MOCK_STEP_TOKENS = 100"

section \<open>The budget gate\<close>

definition STEP_TOKEN_LIMIT :: int where
  "STEP_TOKEN_LIMIT = 8000"

definition budget_reason :: "loop_budget \<Rightarrow> string" where
  "budget_reason b = ''budget exhausted: steps='' @ int_repr (steps_used b) @ ''/'' @ int_repr (max_steps b) @
     '', tokens='' @ int_repr (tokens_used b) @ ''/'' @ int_repr (max_total_tokens b) @
     '', wall='' @ int_repr (wall_seconds_used b) @ ''s/'' @ int_repr (max_wall_seconds b) @ ''s''"

definition budget_check :: "loop_budget \<Rightarrow> int \<Rightarrow> gate_verdict" where
  "budget_check b proposed_tokens =
     (if proposed_tokens > STEP_TOKEN_LIMIT then
        \<lparr>passed = False, verdict_reason = ''proposed step allocates '' @ int_repr proposed_tokens @
           '' tokens, over the '' @ int_repr STEP_TOKEN_LIMIT @ '' per-step limit'',
         deny_code = Some ''BUDGET_STEP_TOKEN_LIMIT'', permit_id = None, permit_ttl_seconds = None\<rparr>
      else
        let post = consume b 0 proposed_tokens 0 in
        if exhausted post then
          \<lparr>passed = False, verdict_reason = budget_reason post, deny_code = Some ''BUDGET_EXHAUSTED'',
           permit_id = None, permit_ttl_seconds = None\<rparr>
        else \<lparr>passed = True, verdict_reason = ''budget_ok'', deny_code = None, permit_id = None,
              permit_ttl_seconds = None\<rparr>)"

section \<open>Steps\<close>

definition abort_action :: "string \<Rightarrow> propose_action" where
  "abort_action r = \<lparr>action_type = ABORT_STEP, payload = [], rationale = r, confidence = 0,
     pa_hypothesis_id = None, catalog_class_targeted = None\<rparr>"

definition budget_rejected_action :: propose_action where
  "budget_rejected_action =
     abort_action (''(budget gate rejected before proposal)'' @ replicate 50 (CHR '' ''))"

definition placeholder_step ::
  "'w loop_ports \<Rightarrow> step_env \<Rightarrow> string \<Rightarrow> loop_context \<Rightarrow> propose_action option \<Rightarrow> bool \<Rightarrow> bool \<Rightarrow> int \<Rightarrow> loop_step" where
  "placeholder_step P E i ctx action schema_passed policy_passed tokens =
     (let a = (case action of Some a \<Rightarrow> a
               | None \<Rightarrow> abort_action (''(no proposer output)'' @ replicate 60 (CHR '' '')))
      in \<lparr>step_id = ''step-'' @ e_step_token E, step_loop_id = i, step_number = e_step_number E,
          timestamp = e_step_time E, context_hash_before = context_hash (lp_sha P) (lp_float P) ctx,
          proposed_action = a, propose_tokens_used = tokens, propose_latency_ms = 0,
          propose_rationale = rationale a, schema_check_passed = schema_passed,
          step_policy_decision = \<lparr>verdict = (if policy_passed then ''allow'' else ''deny''),
            decision_reason = ''mock'', decision_deny_code = (if policy_passed then None else Some ''MOCK_DENIED'')\<rparr>,
          step_permit_id = None, tool_or_case_id = None, execution_result_digest = [],
          evidence_refs = [], observation_signals = [], catalog_class_matched = {},
          oracle_progressed = False, correlation_id = ''corr-'' @ e_corr_token E\<rparr>)"

text \<open>\<^verbatim>\<open>payload.get(k) or d\<close> for a default value.\<close>

definition get_or :: "pydict \<Rightarrow> string \<Rightarrow> pyval \<Rightarrow> pyval" where
  "get_or p k d = (case dict_get p k of Some v \<Rightarrow> if truthy v then v else d | None \<Rightarrow> d)"

definition opt_value :: "pyval \<Rightarrow> pyval option" where
  "opt_value v = (if v = VNone then None else Some v)"

definition executed_step ::
  "'w loop_ports \<Rightarrow> step_env \<Rightarrow> string \<Rightarrow> loop_context \<Rightarrow> propose_action \<Rightarrow> string \<Rightarrow> pyval option \<Rightarrow> string \<Rightarrow> bool \<Rightarrow> loop_step" where
  "executed_step P E i ctx a permit target digest progressed =
     \<lparr>step_id = ''step-'' @ e_step_token E, step_loop_id = i, step_number = e_step_number E,
      timestamp = e_step_time E, context_hash_before = context_hash (lp_sha P) (lp_float P) ctx,
      proposed_action = a, propose_tokens_used = MOCK_STEP_TOKENS, propose_latency_ms = 50,
      propose_rationale = rationale a, schema_check_passed = True,
      step_policy_decision = \<lparr>verdict = ''allow'', decision_reason = ''ok'', decision_deny_code = None\<rparr>,
      step_permit_id = Some permit, tool_or_case_id = target, execution_result_digest = digest,
      evidence_refs = [], observation_signals = [], catalog_class_matched = {},
      oracle_progressed = progressed, correlation_id = ''corr-'' @ e_corr_token E\<rparr>"

definition mock_execute ::
  "'w loop_ports \<Rightarrow> step_env \<Rightarrow> string \<Rightarrow> loop_context \<Rightarrow> propose_action \<Rightarrow> string \<Rightarrow> ('w loop_world, loop_step) cmd" where
  "mock_execute P E i ctx a permit =
     returnC (executed_step P E i ctx a permit
       (opt_value (get_or (payload a) ''tool_id''
          (case dict_get (payload a) ''case_id'' of None \<Rightarrow> VNone | Some v \<Rightarrow> v)))
       (''sha256:'' @ lp_sha P (canonical_json (VDict [(''mock'', VBool True), (''loop_id'', VStr i)])))
       False)"

definition execute_oracle_step ::
  "'w loop_ports \<Rightarrow> step_env \<Rightarrow> (string \<Rightarrow> ('w, oracle_outcome) cmd) \<Rightarrow> string \<Rightarrow> loop_context \<Rightarrow> propose_action \<Rightarrow>
   string \<Rightarrow> ('w loop_world, loop_step) cmd" where
  "execute_oracle_step P E oracle i ctx a permit =
     (let candidate_id = py_str (get_or (payload a) ''candidate_id'' (VStr [])) in
      bindC (outC (oracle candidate_id)) (\<lambda>oc.
        returnC (executed_step P E i ctx a permit (Some (VStr candidate_id))
          (''oracle:'' @ status_value (oo_status oc) @ ''('' @ int_repr (oo_successes oc) @ ''/'' @
             int_repr (oo_attempts oc) @ '')'')
          (resolved oc))))"

section \<open>Recording outcomes\<close>

text \<open>Feedback, termination check, save, and the audit of a terminal phase.\<close>

definition settle ::
  "step_env \<Rightarrow> string \<Rightarrow> loop_state \<Rightarrow> loop_step \<Rightarrow> bool \<Rightarrow> (string \<times> pyval) \<Rightarrow> ('w loop_world, loop_phase) cmd" where
  "settle E i st step policy_ok via =
     (let ns = feedback_apply st step policy_ok (int (length (observation_signals step))) (e_now E);
          new_phase = evaluate_termination ns LoopTerminationPolicy_default in
      bindC (save_state (ns\<lparr>phase := new_phase\<rparr>)) (\<lambda>_.
      bindC (if new_phase \<in> TERMINAL_PHASES
             then audit_loop ''reasoning_loop'' ''loop.terminated'' i
                    [(''final_phase'', VStr (phase_value new_phase)), via]
             else returnC ()) (\<lambda>_.
      returnC new_phase)))"

definition record_backend_unavailable ::
  "'w loop_ports \<Rightarrow> step_env \<Rightarrow> string \<Rightarrow> loop_state \<Rightarrow> loop_context \<Rightarrow> ('w loop_world, step_result) cmd" where
  "record_backend_unavailable P E i st ctx =
     bindC (audit_loop ''reasoning_loop'' ''loop.backend_unavailable'' i
              [(''context_hash'', VStr (context_hash (lp_sha P) (lp_float P) ctx))]) (\<lambda>_.
     bindC (settle E i st (placeholder_step P E i ctx None False True 0) True
              (''via'', VStr ''backend_unavailable'')) (\<lambda>ph.
     returnC \<lparr>sr_loop_id = i, sr_phase = ph, sr_step_recorded = None, sr_signals_count = 0\<rparr>))"

definition record_gate_rejected ::
  "'w loop_ports \<Rightarrow> step_env \<Rightarrow> string \<Rightarrow> loop_state \<Rightarrow> loop_context \<Rightarrow> propose_action \<Rightarrow> string \<Rightarrow> string \<Rightarrow> string \<Rightarrow>
   ('w loop_world, step_result) cmd" where
  "record_gate_rejected P E i st ctx proposed gate_name code reason =
     bindC (audit_loop ''reasoning_loop'' ''loop.gate_rejected'' i
              [(''gate'', VStr gate_name), (''deny_code'', VStr code), (''reason'', VStr reason),
               (''action_type'', VStr (action_value (action_type proposed)))]) (\<lambda>_.
     bindC (settle E i st
              (placeholder_step P E i ctx (Some proposed) (gate_name \<noteq> ''schema'') (gate_name = ''permit'') 0)
              (gate_name \<noteq> ''policy'') (''via'', VStr ''gate_rejected'')) (\<lambda>ph.
     returnC \<lparr>sr_loop_id = i, sr_phase = ph, sr_step_recorded = None, sr_signals_count = 0\<rparr>))"

section \<open>Create and run\<close>

definition create_loop :: "loop_plan \<Rightarrow> string set \<Rightarrow> datetime \<Rightarrow> ('w loop_world, loop_state) cmd" where
  "create_loop plan required now =
     (let st = \<lparr>loop_id = lp_loop_id plan, assessment_id = lp_assessment_id plan, phase = INITIALIZING,
                policy_snapshot = lp_policy_snapshot plan, budget = LoopBudget_default,
                state_context_hash = replicate 64 (CHR ''0''), catalog_required_remaining = required,
                catalog_required_executed = {}, consecutive_no_signal = 0, consecutive_policy_rejected = 0,
                started_at = now, last_step_at = None, pause_attempts = 0, paused_at = None,
                resumed_at = None\<rparr> in
      bindC (save_state st) (\<lambda>_.
      bindC (audit_loop ''reasoning_loop'' ''loop.created'' (lp_loop_id plan)
               [(''assessment_id'', VStr (lp_assessment_id plan)), (''policy_snapshot'', VStr (lp_policy_snapshot plan)),
                (''catalog_required_remaining'', VStrs (sorted_list_of_set required))]) (\<lambda>_.
      returnC st)))"

definition or_default :: "string option \<Rightarrow> string \<Rightarrow> string" where
  "or_default x d = (case x of Some (c # s) \<Rightarrow> c # s | _ \<Rightarrow> d)"

text \<open>Steps 7 and 8 of \<^verbatim>\<open>run_step\<close>: execute, record, audit twice, settle.\<close>

definition execute_and_settle ::
  "'w loop_ports \<Rightarrow> step_env \<Rightarrow> string \<Rightarrow> loop_state \<Rightarrow> loop_context \<Rightarrow> propose_action \<Rightarrow> string \<Rightarrow>
   ('w loop_world, step_result) cmd" where
  "execute_and_settle P E i st ctx proposed permit =
     bindC (case lp_oracle P of
              Some oracle \<Rightarrow>
                (if action_type proposed = REQUEST_ORACLE
                 then execute_oracle_step P E oracle i ctx proposed permit
                 else mock_execute P E i ctx proposed permit)
            | None \<Rightarrow> mock_execute P E i ctx proposed permit) (\<lambda>step.
     bindC (add_step step) (\<lambda>_.
     bindC (audit_loop ''reasoning_loop'' ''loop.step_proposed'' i
              [(''step_id'', VStr (step_id step)),
               (''action_type'', VStr (action_value (action_type (proposed_action step)))),
               (''permit_id'', VOptStr (step_permit_id step)),
               (''tokens_used'', VInt (propose_tokens_used step))]) (\<lambda>_.
     bindC (audit_loop ''reasoning_loop'' ''loop.step_executed'' i
              ([(''step_id'', VStr (step_id step)),
                (''tool_or_case_id'', case tool_or_case_id step of None \<Rightarrow> VNone | Some v \<Rightarrow> v),
                (''result_digest'', VStr (execution_result_digest step)),
                (''signals'', VStrs (observation_signals step))] @
               (if action_type proposed = REQUEST_ORACLE
                then [(''oracle_progressed'', VBool (oracle_progressed step))] else []))) (\<lambda>_.
     bindC (settle E i st step True (''step_id'', VStr (step_id step))) (\<lambda>ph.
     returnC \<lparr>sr_loop_id = i, sr_phase = ph, sr_step_recorded = Some step,
              sr_signals_count = int (length (observation_signals step))\<rparr>)))))"

text \<open>Steps 3 to 6: propose, then the schema, policy and permit gates in this order.\<close>

definition propose_and_gate ::
  "'w loop_ports \<Rightarrow> step_env \<Rightarrow> string \<Rightarrow> loop_state \<Rightarrow> loop_context \<Rightarrow> ('w loop_world, step_result) cmd" where
  "propose_and_gate P E i st ctx =
     bindC (outC (lp_propose P ctx)) (\<lambda>po. case po of
       None \<Rightarrow> record_backend_unavailable P E i st ctx
     | Some proposed \<Rightarrow>
         bindC (outC (lp_schema P proposed ctx)) (\<lambda>sv.
         if \<not> passed sv then
           record_gate_rejected P E i st ctx proposed ''schema'' (or_default (deny_code sv) ''SCHEMA_DENIED'') (verdict_reason sv)
         else
         bindC (outC (lp_policy P proposed ctx)) (\<lambda>pv.
         if \<not> passed pv then
           record_gate_rejected P E i st ctx proposed ''policy'' (or_default (deny_code pv) ''POLICY_DENIED'') (verdict_reason pv)
         else
         bindC (outC (lp_permit P proposed ctx)) (\<lambda>permit_v.
         if \<not> passed permit_v then
           record_gate_rejected P E i st ctx proposed ''permit'' (or_default (deny_code permit_v) ''PERMIT_DENIED'') (verdict_reason permit_v)
         else
           execute_and_settle P E i st ctx proposed (or_default (permit_id permit_v) [])))))"

definition run_step :: "'w loop_ports \<Rightarrow> step_env \<Rightarrow> string \<Rightarrow> ('w loop_world, step_result) cmd" where
  "run_step P E i s =
     (case get_state i s of
        None \<Rightarrow> (Inl (LoopNotFoundError (''loop_id '' @ repr_str i @ '' not found'')), s)
      | Some st \<Rightarrow>
          if phase st \<in> TERMINAL_PHASES then
            (Inl (LoopAlreadyTerminalError
               (''loop_id '' @ repr_str i @ '' already terminal in phase '' @ phase_value (phase st))), s)
          else if phase st \<in> NON_AUTO_STEP_PHASES then
            (Inr \<lparr>sr_loop_id = i, sr_phase = phase st, sr_step_recorded = None, sr_signals_count = 0\<rparr>, s)
          else
            bindC (outC (lp_build P i)) (\<lambda>ctx.
              let bvd = budget_check (budget st) MOCK_STEP_TOKENS in
              if lp_budget_gate P \<and> \<not> passed bvd then
                record_gate_rejected P E i st ctx budget_rejected_action ''budget''
                  (or_default (deny_code bvd) ''BUDGET_DENIED'') (verdict_reason bvd)
              else propose_and_gate P E i st ctx) s)"

section \<open>The human control plane\<close>

definition emergency_stop :: "string \<Rightarrow> string \<Rightarrow> string \<Rightarrow> datetime \<Rightarrow> ('w loop_world, loop_state) cmd" where
  "emergency_stop i actor reason now s =
     (case get_state i s of
        None \<Rightarrow> (Inl (LoopNotFoundError (''loop_id '' @ repr_str i @ '' not found'')), s)
      | Some st \<Rightarrow>
          if phase st = EMERGENCY_STOPPED then (Inr st, s)
          else
            let ns = st\<lparr>phase := EMERGENCY_STOPPED, last_step_at := Some now\<rparr> in
            bindC (save_state ns) (\<lambda>_.
            bindC (audit_loop actor ''loop.terminated'' i
                     [(''final_phase'', VStr (phase_value EMERGENCY_STOPPED)), (''reason'', VStr ''emergency_stop''),
                      (''human_reason'', VStr reason), (''from_phase'', VStr (phase_value (phase st)))]) (\<lambda>_.
            returnC ns)) s)"

text \<open>\<^verbatim>\<open>_TERMINAL_PHASES\<close> and \<^verbatim>\<open>_RESUME_BLOCKED_PHASES\<close> of \<^verbatim>\<open>pause_control.py\<close> (the same four phases).\<close>

definition PAUSE_TERMINAL_PHASES :: "loop_phase set" where
  "PAUSE_TERMINAL_PHASES = {BUDGET_EXHAUSTED, POLICY_BLOCKED, EMERGENCY_STOPPED, COMPLETED}"

definition RESUME_BLOCKED_PHASES :: "loop_phase set" where
  "RESUME_BLOCKED_PHASES = {BUDGET_EXHAUSTED, POLICY_BLOCKED, EMERGENCY_STOPPED, COMPLETED}"

definition validate_loop_approval_params :: "string \<Rightarrow> string option \<Rightarrow> string option \<Rightarrow> unit result" where
  "validate_loop_approval_params actor_role approved_by signature =
     (if actor_role = ''agent'' then
        Inl (ApprovalRejected ''pause/resume is human-only (403): agents are rejected'')
      else if approved_by \<in> {None, Some []} \<or> signature \<in> {None, Some []} then
        Inl (ApprovalRequired ''a human approval requires approved_by and signature'')
      else Inr ())"

definition require_resume_approval :: "string \<Rightarrow> string option \<Rightarrow> string option \<Rightarrow> unit result" where
  "require_resume_approval actor_role approved_by signature =
     validate_loop_approval_params actor_role approved_by signature"

definition pause :: "string \<Rightarrow> string \<Rightarrow> string \<Rightarrow> string \<Rightarrow> datetime \<Rightarrow> ('w loop_world, loop_state) cmd" where
  "pause i actor reason actor_role now s =
     (if actor_role = ''agent'' then
        (Inl (ApprovalRejected ''pause is human-only (403): agents are rejected''), s)
      else case get_state i s of
        None \<Rightarrow> (Inl (LookupError (''no loop state for '' @ i)), s)
      | Some st \<Rightarrow>
          if phase st = PAUSED then (Inr st, s)
          else if phase st \<in> PAUSE_TERMINAL_PHASES then
            (Inl (DomainError (''cannot pause a dead loop: phase='' @ phase_value (phase st) @ '' (loop '' @ i @ '')'')), s)
          else
            let ns = st\<lparr>phase := PAUSED, paused_at := Some now\<rparr> in
            bindC (save_state ns) (\<lambda>_.
            bindC (audit_loop actor ''loop.paused'' i
                     [(''reason'', VStr reason), (''phase'', VStr ''PAUSED''),
                      (''context_hash'', VStr (state_context_hash st))]) (\<lambda>_.
            returnC ns)) s)"

record resume_request =
  rq_actor :: string
  rq_actor_role :: string
  rq_approved_by :: "string option"
  rq_signature :: "string option"
  rq_modified_context :: "pyval option"

text \<open>\<^verbatim>\<open>int(x)\<close> of a number of seconds given in microseconds: towards zero.\<close>

definition trunc_seconds :: "int \<Rightarrow> int" where
  "trunc_seconds us = (if us \<ge> 0 then us div 1000000 else - ((- us) div 1000000))"

definition resume :: "loop_termination_policy \<Rightarrow> string \<Rightarrow> resume_request \<Rightarrow> datetime \<Rightarrow> ('w loop_world, loop_state) cmd" where
  "resume pol i rq now s =
     (if rq_actor_role rq = ''agent'' then
        (Inl (ApprovalRejected ''resume is human-only (403): agents are rejected''), s)
      else case get_state i s of
        None \<Rightarrow> (Inl (LookupError (''no loop state for '' @ i)), s)
      | Some st \<Rightarrow>
          if phase st \<in> RESUME_BLOCKED_PHASES then
            (Inl (DomainError (''cannot resume a stopped loop: phase='' @ phase_value (phase st) @ '' (loop '' @ i @ '')'')), s)
          else if pause_budget_exceeded pol (pause_attempts st + 1) then
            (Inl (PauseBudgetExceeded (''loop '' @ i @ '' exceeds max_pauses='' @ int_repr (max_pauses pol) @
               '' (attempts='' @ int_repr (pause_attempts st + 1) @ '')'')), s)
          else
            bindC (liftC (require_resume_approval (rq_actor_role rq) (rq_approved_by rq) (rq_signature rq))) (\<lambda>_.
              let credit = (case paused_at st of Some t \<Rightarrow> now - t | None \<Rightarrow> 0);
                  ns = st\<lparr>phase := RESUMED, pause_attempts := pause_attempts st + 1, paused_at := None,
                          resumed_at := Some now, budget := credit_budget (budget st) credit\<rparr> in
              bindC (save_state ns) (\<lambda>_.
              bindC (audit_loop (rq_actor rq) ''loop.resumed'' i
                       ([(''approved_by'', VOptStr (rq_approved_by rq)), (''phase'', VStr ''RESUMED''),
                         (''pause_attempts'', VInt (pause_attempts st + 1)),
                         (''wall_credit_seconds'', VInt (trunc_seconds credit))] @
                        (case rq_modified_context rq of None \<Rightarrow> [] | Some v \<Rightarrow> [(''modified_context'', v)]))) (\<lambda>_.
              returnC ns))) s)"

definition force_pause_budget_termination ::
  "string \<Rightarrow> string \<Rightarrow> string \<Rightarrow> datetime \<Rightarrow> ('w loop_world, loop_state) cmd" where
  "force_pause_budget_termination i detail actor now s =
     (case get_state i s of
        None \<Rightarrow> (Inl (LoopNotFoundError (''loop_id '' @ repr_str i @ '' not found'')), s)
      | Some st \<Rightarrow>
          let ns = st\<lparr>phase := POLICY_BLOCKED, last_step_at := Some now\<rparr> in
          bindC (save_state ns) (\<lambda>_.
          bindC (audit_loop actor ''loop.terminated'' i
                   [(''final_phase'', VStr (phase_value POLICY_BLOCKED)), (''reason'', VStr ''pause_budget''),
                    (''detail'', VStr detail)]) (\<lambda>_.
          returnC ns)) s)"

text \<open>\<open>control\<close> is the policy of the wired \<^verbatim>\<open>PauseControlService\<close>, or \<^term>\<open>None\<close> when none is wired.\<close>

definition resume_loop ::
  "loop_termination_policy option \<Rightarrow> string \<Rightarrow> resume_request \<Rightarrow> datetime \<Rightarrow> datetime \<Rightarrow> ('w loop_world, loop_state) cmd" where
  "resume_loop control i rq now now' s =
     (case control of
        None \<Rightarrow> (Inl (DomainError
          ''resume_loop() requires the orchestrator to be composed with a PauseControlService (pause_control=...)''), s)
      | Some pol \<Rightarrow>
          (case resume pol i rq now s of
             (Inl (PauseBudgetExceeded detail), s') \<Rightarrow> force_pause_budget_termination i detail (rq_actor rq) now' s'
           | r \<Rightarrow> r))"

end
