(* ===== verification/Loop_Gates.thy ===== *)
theory Loop_Gates
  imports Loop_Orchestrator Scope Permits Jobs
begin

text \<open>
  The gates the reasoning loop runs a proposal through (\<^verbatim>\<open>schema_gate.py\<close>, \<^verbatim>\<open>policy_gate.py\<close>, \<^verbatim>\<open>permit_gate.py\<close> of
  \<^verbatim>\<open>application/reasoning_loop\<close>) and the way a permitted step becomes a job (\<^verbatim>\<open>job_builder.py\<close>,
  \<^verbatim>\<open>loop_scheduler.py\<close>). Parameters: \<open>validate\<close>, the strict re-validation by pydantic, gives the type, the
  location and the message of its first error; \<open>sha\<close>, \<open>fr\<close>, \<open>idna\<close>, \<open>sign\<close> and \<open>check\<close> as before; the clock
  and the drawn nonce are arguments. The schema gate is modelled for proposals that are \<^verbatim>\<open>ProposeAction\<close>
  instances, which is what the proposer port returns.
\<close>

section \<open>Verdicts\<close>

definition gate_pass :: "string \<Rightarrow> gate_verdict" where
  "gate_pass why = \<lparr>passed = True, verdict_reason = why, deny_code = None, permit_id = None, permit_ttl_seconds = None\<rparr>"

definition gate_deny :: "string \<Rightarrow> string \<Rightarrow> gate_verdict" where
  "gate_deny code why = \<lparr>passed = False, verdict_reason = why, deny_code = Some code, permit_id = None, permit_ttl_seconds = None\<rparr>"

section \<open>The schema gate\<close>

fun REQUIRED_PAYLOAD_KEYS :: "loop_action_type \<Rightarrow> string list" where
  "REQUIRED_PAYLOAD_KEYS RUN_TOOL = [''tool_id'', ''parameters'']"
| "REQUIRED_PAYLOAD_KEYS RUN_CASE = [''case_id'', ''parameters'']"
| "REQUIRED_PAYLOAD_KEYS REQUEST_PEER = [''peer_name'', ''instruction'']"
| "REQUIRED_PAYLOAD_KEYS REQUEST_ORACLE = [''candidate_id'']"
| "REQUIRED_PAYLOAD_KEYS REQUEST_CHAIN = [''hypothesis_id'']"
| "REQUIRED_PAYLOAD_KEYS ABORT_STEP = []"

fun action_member :: "loop_action_type \<Rightarrow> string" where
  "action_member RUN_TOOL = ''RUN_TOOL''"
| "action_member RUN_CASE = ''RUN_CASE''"
| "action_member REQUEST_PEER = ''REQUEST_PEER''"
| "action_member REQUEST_ORACLE = ''REQUEST_ORACLE''"
| "action_member REQUEST_CHAIN = ''REQUEST_CHAIN''"
| "action_member ABORT_STEP = ''ABORT_STEP''"

text \<open>\<^verbatim>\<open>repr\<close> of a member of the enumeration.\<close>

definition action_repr :: "loop_action_type \<Rightarrow> string" where
  "action_repr t = ''<LoopActionType.'' @ action_member t @ '': '' @ repr_str (action_value t) @ ''>''"

definition payload_get :: "pydict \<Rightarrow> string \<Rightarrow> pyval" where
  "payload_get d k = (case dict_get d k of None \<Rightarrow> VNone | Some v \<Rightarrow> v)"

text \<open>Membership of a value in a set of strings: a list or a dictionary is not hashable and raises.\<close>

definition in_strings :: "pyval \<Rightarrow> string list \<Rightarrow> bool result" where
  "in_strings v xs =
     (case v of
        VList _ \<Rightarrow> Inl (TypeError (''unhashable type: '' @ repr_str ''list''))
      | VDict _ \<Rightarrow> Inl (TypeError (''unhashable type: '' @ repr_str ''dict''))
      | VStr s \<Rightarrow> Inr (s \<in> set xs)
      | _ \<Rightarrow> Inr False)"

definition schema_refs :: "propose_action \<Rightarrow> loop_context \<Rightarrow> gate_verdict result" where
  "schema_refs a ctx =
     bind_res (if action_type a = RUN_TOOL
               then bind_res (in_strings (payload_get (payload a) ''tool_id'') (map capability_id (available_tools ctx))) (\<lambda>known.
                      Inr (if known then None else Some (gate_deny ''SCHEMA_UNKNOWN_TOOL''
                        (''tool_id '' @ py_repr (payload_get (payload a) ''tool_id'') @ '' not in available_tools''))))
               else Inr None) (\<lambda>denied.
       case denied of
         Some v \<Rightarrow> Inr v
       | None \<Rightarrow>
           if action_type a = REQUEST_CHAIN
           then bind_res (in_strings (payload_get (payload a) ''hypothesis_id'') (map hyp_id (chain_hypotheses_pending ctx))) (\<lambda>known.
                  Inr (if known then gate_pass ''schema_ok'' else gate_deny ''SCHEMA_UNKNOWN_HYPOTHESIS''
                    (''hypothesis_id '' @ py_repr (payload_get (payload a) ''hypothesis_id'') @ '' not pending'')))
           else Inr (gate_pass ''schema_ok''))"

definition validation_denial :: "propose_action \<Rightarrow> string \<times> string \<times> string \<Rightarrow> gate_verdict" where
  "validation_denial a = (\<lambda>(err_type, loc, msg).
     if err_type \<in> {''literal_error'', ''enum''} \<and> contains_str loc ''action_type''
     then gate_deny ''SCHEMA_INVALID_ACTION_TYPE'' (''action_type '' @ action_repr (action_type a) @ '' not allowed'')
     else if err_type = ''extra_forbidden'' then gate_deny ''SCHEMA_EXTRA_FIELDS'' (''extra field not permitted at '' @ loc)
     else if contains_str loc ''rationale'' then gate_deny ''SCHEMA_RATIONALE_TOO_SHORT'' ''rationale length out of range''
     else gate_deny ''SCHEMA_VALIDATION_FAILED'' msg)"

text \<open>\<open>exn_repr\<close> is \<^verbatim>\<open>repr(exc)\<close>.\<close>

definition schema_check ::
  "(propose_action \<Rightarrow> (string \<times> string \<times> string) option) \<Rightarrow> (exn \<Rightarrow> string) \<Rightarrow> propose_action \<Rightarrow> loop_context \<Rightarrow> gate_verdict" where
  "schema_check validate exn_repr a ctx =
     (let missing = filter (\<lambda>k. k \<notin> set (dict_keys (payload a))) (REQUIRED_PAYLOAD_KEYS (action_type a)) in
      if missing \<noteq> [] then
        gate_deny ''SCHEMA_MISSING_PAYLOAD_KEYS''
          (''action_type='' @ action_repr (action_type a) @ '' missing payload keys '' @ py_repr (VStrs (sort missing)))
      else case validate a of
        Some err \<Rightarrow> validation_denial a err
      | None \<Rightarrow>
          (case schema_refs a ctx of
             Inr v \<Rightarrow> v
           | Inl e \<Rightarrow> gate_deny ''SCHEMA_INTERNAL_ERROR'' (''schema gate crashed: '' @ exn_repr e)))"

section \<open>The policy gate\<close>

text \<open>\<^verbatim>\<open>x or y\<close>\<close>

definition py_or :: "pyval \<Rightarrow> pyval \<Rightarrow> pyval" where
  "py_or x y = (if truthy x then x else y)"

definition capability_of :: "propose_action \<Rightarrow> string" where
  "capability_of a =
     py_str (py_or (payload_get (payload a) ''tool_id'') (py_or (payload_get (payload a) ''case_id'') (VStr ''<unknown>'')))"

text \<open>
  \<^verbatim>\<open>bool\<close> is a subclass of \<^verbatim>\<open>int\<close>: a boolean port is passed on and refused by \<^verbatim>\<open>normalize_port\<close>, as every port
  outside the range is; it is the port 0 here.
\<close>

definition action_to_request :: "propose_action \<Rightarrow> action_request result" where
  "action_to_request a =
     (case py_or (payload_get (payload a) ''parameters'') (VDict []) of
        VDict params \<Rightarrow>
          Inr \<lparr>ar_target = py_str (py_or (payload_get params ''host'') (py_or (payload_get params ''url'') (VStr ''<unknown>''))),
               ar_port = (case payload_get params ''port'' of VInt p \<Rightarrow> p | VBool _ \<Rightarrow> 0 | _ \<Rightarrow> 443),
               ar_risk = (case payload_get params ''risk'' of
                            VStr r \<Rightarrow> (case risk_of_value r of Some k \<Rightarrow> k | None \<Rightarrow> ACTIVE)
                          | _ \<Rightarrow> ACTIVE),
               ar_capability = capability_of a\<rparr>
      | _ \<Rightarrow> Inl (AttributeError ''get''))"

record policy_gate =
  pg_scope :: scope_snapshot
  pg_mode :: execution_mode
  pg_approved_risks :: "risk_class set"
  pg_approved_capabilities :: "string set"

definition policy_check :: "(string \<Rightarrow> string option) \<Rightarrow> policy_gate \<Rightarrow> propose_action \<Rightarrow> gate_verdict result" where
  "policy_check idna g a =
     bind_res (action_to_request a) (\<lambda>rq.
     bind_res (evaluate idna rq (pg_scope g) (pg_mode g) (pg_approved_risks g) (pg_approved_capabilities g)) (\<lambda>d.
       Inr (if allowed d then gate_pass (reason d) else gate_deny (reason d) (reason d))))"

section \<open>The permit gate\<close>

definition action_body :: "(rat \<Rightarrow> string) \<Rightarrow> propose_action \<Rightarrow> pyval" where
  "action_body fr a = VDict
     [(''action_type'', VStr (action_value (action_type a))), (''payload'', VDict (payload a)),
      (''rationale'', VStr (rationale a)), (''confidence'', VFloat (fr (confidence a))),
      (''hypothesis_id'', VOptStr (pa_hypothesis_id a)), (''catalog_class_targeted'', VOptStr (catalog_class_targeted a))]"

definition request_text :: "(string \<Rightarrow> string) \<Rightarrow> (rat \<Rightarrow> string) \<Rightarrow> propose_action \<Rightarrow> loop_context \<Rightarrow> string" where
  "request_text sha fr a ctx =
     canonical_json (VDict [(''action'', action_body fr a), (''context_hash'', VStr (context_hash sha fr ctx))])"

definition request_digest :: "(string \<Rightarrow> string) \<Rightarrow> (rat \<Rightarrow> string) \<Rightarrow> propose_action \<Rightarrow> loop_context \<Rightarrow> string" where
  "request_digest sha fr a ctx = ''sha256:'' @ sha (request_text sha fr a ctx)"

definition loop_job_id :: "(string \<Rightarrow> string) \<Rightarrow> (rat \<Rightarrow> string) \<Rightarrow> loop_context \<Rightarrow> string" where
  "loop_job_id sha fr ctx = ''loop-'' @ take 12 (context_hash sha fr ctx)"

record permit_gate =
  pt_sha :: "string \<Rightarrow> string"
  pt_float :: "rat \<Rightarrow> string"
  pt_ttl :: int
  pt_sign :: "string \<Rightarrow> string"
  pt_check :: "string \<Rightarrow> string \<Rightarrow> bool"

definition loop_permit :: "permit_gate \<Rightarrow> datetime \<Rightarrow> string \<Rightarrow> propose_action \<Rightarrow> loop_context \<Rightarrow> execution_permit" where
  "loop_permit g now nonce a ctx =
     \<lparr>pe_job_id = loop_job_id (pt_sha g) (pt_float g) ctx, pe_worker_id = ''reasoning-loop'',
      pe_scope_digest = request_digest (pt_sha g) (pt_float g) a ctx,
      pe_plan_digest = ''sha256:'' @ context_hash (pt_sha g) (pt_float g) ctx, pe_capabilities = [capability_of a],
      pe_budget = 0, pe_issued_at = now, pe_expires_at = now + seconds (pt_ttl g), pe_nonce = nonce, pe_signature = []\<rparr>"

definition permit_gate_check ::
  "permit_gate \<Rightarrow> datetime \<Rightarrow> string \<Rightarrow> propose_action \<Rightarrow> loop_context \<Rightarrow> ((string \<times> execution_permit) list, gate_verdict) cmd" where
  "permit_gate_check g now nonce a ctx permits =
     (case bind_res (ExecutionPermit_check (loop_permit g now nonce a ctx)) (permit_issue (pt_sign g) (pt_float g)) of
        Inl e \<Rightarrow> (Inl e, permits)
      | Inr signed \<Rightarrow>
          let i = ''permit-'' @ take 8 nonce in
          (Inr \<lparr>passed = True, verdict_reason = ''permit_signed'', deny_code = None, permit_id = Some i,
                permit_ttl_seconds = Some (pt_ttl g)\<rparr>, dict_set i signed permits))"

definition permit_gate_verify ::
  "permit_gate \<Rightarrow> datetime \<Rightarrow> string \<Rightarrow> propose_action \<Rightarrow> loop_context \<Rightarrow> (string \<times> execution_permit) list \<Rightarrow> bool" where
  "permit_gate_verify g now i a ctx permits =
     (case dict_get permits i of
        None \<Rightarrow> False
      | Some p \<Rightarrow>
          if request_digest (pt_sha g) (pt_float g) a ctx \<noteq> pe_scope_digest p then False
          else (case permit_verify (pt_check g) (pt_float g) p now {} None of Inr _ \<Rightarrow> True | Inl _ \<Rightarrow> False))"

section \<open>From a permitted step to a job\<close>

definition build_job :: "string \<Rightarrow> int \<Rightarrow> execution_permit \<Rightarrow> string \<Rightarrow> pydict \<Rightarrow> job" where
  "build_job i n permit tool params =
     (new_job (''job:loop:'' @ i @ '':'' @ int_repr n) (''loop:'' @ i @ '':'' @ int_repr n) (i @ '':'' @ int_repr n))
       \<lparr>status := READY,
        job_parameters := [(''loop_id'', VStr i), (''step_id'', VStr (int_repr n)), (''step_number'', VInt n),
          (''proposed_action_digest'', VStr (pe_scope_digest permit)), (''permit_id'', VStr (pe_job_id permit)),
          (''tool_or_case_id'', VStr tool), (''parameters'', VDict params)]\<rparr>"

definition already_scheduled :: "string \<Rightarrow> string \<Rightarrow> mem_store \<Rightarrow> bool" where
  "already_scheduled i step st = list_ex (\<lambda>j. idempotency_key j = i @ '':'' @ step) (store_all st)"

definition schedule ::
  "(string \<Rightarrow> string \<Rightarrow> bool) \<Rightarrow> (rat \<Rightarrow> string) \<Rightarrow> datetime \<Rightarrow> string \<Rightarrow> string \<Rightarrow> string \<Rightarrow> pydict \<Rightarrow> execution_permit \<Rightarrow> string \<Rightarrow>
   (mem_store, bool) cmd" where
  "schedule check fr now i step tool params permit worker st =
     (case permit_verify check fr permit now {} (Some worker) of
        Inl _ \<Rightarrow> (Inr False, st)
      | Inr _ \<Rightarrow>
          if already_scheduled i step st then (Inr False, st)
          else case py_int step of
            None \<Rightarrow> (Inl (ValueError (''invalid literal for int() with base 10: '' @ repr_str step)), st)
          | Some n \<Rightarrow> (Inr True, snd (store_add (build_job i n permit tool params) st)))"

end
