(* ===== verification/Loop_Safety.thy ===== *)
theory Loop_Safety
  imports Loop_Orchestrator
begin

text \<open>
  What the reasoning loop guarantees: which calls record a step, what one call may do to a loop's state,
  and, over all histories of calls, that dead loops stay dead, that emergency stop is final and that a loop
  ends; with the properties of pause and resume.
\<close>

section \<open>Rules for the loop's commands\<close>

lemma ensures_save [simp]:
  "ensures (save_state st) s Q \<longleftrightarrow> Q (Inr ()) (s\<lparr>lw_states := dict_set (loop_id st) st (lw_states s)\<rparr>)"
  by (simp add: ensures_def save_state_def)

lemma ensures_add_step [simp]:
  "ensures (add_step x) s Q \<longleftrightarrow> Q (Inr ()) (s\<lparr>lw_steps := lw_steps s @ [x]\<rparr>)"
  by (simp add: ensures_def add_step_def)

lemma ensures_audit_loop:
  "ensures (audit_loop actor action i p) s Q \<longleftrightarrow>
     (let c = loop_call actor action i p in
      if call_ok c then Q (Inr ()) (s\<lparr>lw_audit := lw_audit s @ [c]\<rparr>) else Q (Inl (call_error c)) s)"
  by (simp add: ensures_def audit_loop_def log_record_def Let_def)

lemma ensures_outC: "ensures (outC c) s Q \<longleftrightarrow> (\<forall>r w. c (lw_out s) = (r, w) \<longrightarrow> Q r (s\<lparr>lw_out := w\<rparr>))"
  by (auto simp: ensures_def outC_def split: prod.split)

lemma ensures_ask:
  assumes "\<And>e w. c (lw_out s) = (Inl e, w) \<Longrightarrow> Q (Inl e) (s\<lparr>lw_out := w\<rparr>)"
    and "\<And>x w. c (lw_out s) = (Inr x, w) \<Longrightarrow> ensures (f x) (s\<lparr>lw_out := w\<rparr>) Q"
  shows "ensures (bindC (outC c) f) s Q"
  using assms unfolding ensures_bindC ensures_outC by (auto split: sum.split)

lemma ensures_gate:
  assumes "\<And>e w. c (lw_out s) = (Inl e, w) \<Longrightarrow> Q (Inl e) (s\<lparr>lw_out := w\<rparr>)"
    and "\<And>v w. ensures (rej v) (s\<lparr>lw_out := w\<rparr>) Q"
    and "\<And>v w. c (lw_out s) = (Inr v, w) \<Longrightarrow> passed v \<Longrightarrow> ensures (f v) (s\<lparr>lw_out := w\<rparr>) Q"
  shows "ensures (bindC (outC c) (\<lambda>v. if \<not> passed v then rej v else f v)) s Q"
  by (rule ensures_ask) (use assms in auto)

lemma ensures_cong: "m s = m' s \<Longrightarrow> ensures m' s Q \<Longrightarrow> ensures m s Q"
  by (simp add: ensures_def)

lemma ensures_liftC [simp]: "ensures (liftC r) s Q \<longleftrightarrow> Q r s"
  by (simp add: ensures_def liftC_def)

lemmas loop_rules = ensures_bindC ensures_audit_loop Let_def

section \<open>How a loop advances\<close>

definition advanced :: "loop_state \<Rightarrow> loop_step \<Rightarrow> bool \<Rightarrow> datetime \<Rightarrow> loop_state" where
  "advanced st step ok now =
     (let ns = feedback_apply st step ok 0 now
      in ns\<lparr>phase := evaluate_termination ns LoopTerminationPolicy_default\<rparr>)"

definition world_inv :: "'w loop_world \<Rightarrow> bool" where
  "world_inv s \<longleftrightarrow> (\<forall>i st. get_state i s = Some st \<longrightarrow> loop_id st = i)"

text \<open>Whatever a step does to the stored states: nothing, or one advance of the loop it was called for.\<close>

definition silent_step :: "loop_step \<Rightarrow> bool" where
  "silent_step x \<longleftrightarrow> observation_signals x = [] \<and> catalog_class_matched x = {} \<and>
     propose_tokens_used x \<in> {0, MOCK_STEP_TOKENS}"

definition steppable :: "loop_state \<Rightarrow> bool" where
  "steppable st \<longleftrightarrow> phase st \<notin> TERMINAL_PHASES \<union> NON_AUTO_STEP_PHASES"

definition advances :: "string \<Rightarrow> loop_state \<Rightarrow> 'w loop_world \<Rightarrow> 'w loop_world \<Rightarrow> bool" where
  "advances i st s s' \<longleftrightarrow>
     (\<exists>x ok t. silent_step x \<and> lw_states s' = dict_set i (advanced st x ok t) (lw_states s))"

lemma silent_placeholder [simp]: "silent_step (placeholder_step P E i ctx a b c 0)"
  by (simp add: silent_step_def placeholder_step_def Let_def)

lemma silent_executed [simp]: "silent_step (executed_step P E i ctx a p t d g)"
  by (simp add: silent_step_def executed_step_def)

lemma advanced_loop_id [simp]: "loop_id (advanced st x ok t) = loop_id st"
  by (simp add: advanced_def Let_def)

lemma settle_advances:
  assumes "silent_step x" "loop_id st = i" "lw_states s = lw_states s0"
  shows "ensures (settle E i st x ok via) s (\<lambda>r s'. lw_steps s' = lw_steps s \<and>
    lw_states s' = dict_set i (advanced st x ok (e_now E)) (lw_states s0) \<and>
    (\<forall>ph. r = Inr ph \<longrightarrow> ph = phase (advanced st x ok (e_now E))))"
  using assms
  by (simp add: settle_def loop_rules advanced_def silent_step_def if_distrib [of "\<lambda>m. ensures m _ _"])

definition step_outcome :: "string \<Rightarrow> loop_state \<Rightarrow> 'w loop_world \<Rightarrow> step_result result \<Rightarrow> 'w loop_world \<Rightarrow> bool" where
  "step_outcome i st s r s' \<longleftrightarrow>
     (lw_states s' = lw_states s \<and> (\<exists>e. r = Inl e)) \<or>
     (\<exists>x ok t. silent_step x \<and> lw_states s' = dict_set i (advanced st x ok t) (lw_states s) \<and>
        (\<forall>v. r = Inr v \<longrightarrow> sr_phase v = phase (advanced st x ok t)))"

lemma settle_outcome:
  assumes "silent_step x" "loop_id st = i" "lw_states s = lw_states s0" "\<And>ph. sr_phase (f ph) = ph"
  shows "ensures (bindC (settle E i st x ok via) (\<lambda>ph. returnC (f ph))) s
    (\<lambda>r s'. step_outcome i st s0 r s' \<and> lw_steps s' = lw_steps s)"
  unfolding ensures_bindC
proof (rule ensures_weaken [OF settle_advances [OF assms(1-3)]], goal_cases)
  case (1 r s')
  then show ?case
    unfolding step_outcome_def using assms(1,4)
    by (cases r; simp) (intro disjI2 exI [of _ x] exI [of _ ok] exI [of _ "e_now E"], simp)+
qed

lemma audit_then_settle:
  assumes "silent_step x" "loop_id st = i" "lw_states s = lw_states s0" "\<And>ph. sr_phase (f ph) = ph"
  shows "ensures (bindC (audit_loop actor action i p) (\<lambda>_. bindC (settle E i st x ok via) (\<lambda>ph. returnC (f ph)))) s
    (\<lambda>r s'. step_outcome i st s0 r s' \<and> lw_steps s' = lw_steps s)"
proof -
  have "ensures (bindC (settle E i st x ok via) (\<lambda>ph. returnC (f ph))) (s\<lparr>lw_audit := l\<rparr>)
      (\<lambda>r s'. step_outcome i st s0 r s' \<and> lw_steps s' = lw_steps s)" for l
    using settle_outcome [OF assms(1,2) _ assms(4), of "s\<lparr>lw_audit := l\<rparr>" s0 E ok via] assms(3) by simp
  then show ?thesis
    using assms(3) by (subst ensures_bindC) (auto simp: ensures_audit_loop Let_def step_outcome_def)
qed

lemma gate_rejected_post:
  assumes "loop_id st = i" "lw_states s = lw_states s0"
  shows "ensures (record_gate_rejected P E i st ctx a g c reason) s
    (\<lambda>r s'. step_outcome i st s0 r s' \<and> lw_steps s' = lw_steps s)"
  unfolding record_gate_rejected_def by (rule audit_then_settle) (use assms in simp_all)

lemma backend_unavailable_post:
  assumes "loop_id st = i" "lw_states s = lw_states s0"
  shows "ensures (record_backend_unavailable P E i st ctx) s
    (\<lambda>r s'. step_outcome i st s0 r s' \<and> lw_steps s' = lw_steps s)"
  unfolding record_backend_unavailable_def by (rule audit_then_settle) (use assms in simp_all)

definition execution :: "'w loop_ports \<Rightarrow> step_env \<Rightarrow> string \<Rightarrow> loop_context \<Rightarrow> propose_action \<Rightarrow> string \<Rightarrow> ('w loop_world, loop_step) cmd" where
  "execution P E i ctx proposed permit =
     (case lp_oracle P of
        Some oracle \<Rightarrow>
          (if action_type proposed = REQUEST_ORACLE
           then execute_oracle_step P E oracle i ctx proposed permit
           else mock_execute P E i ctx proposed permit)
      | None \<Rightarrow> mock_execute P E i ctx proposed permit)"

lemma execution_post:
  "ensures (execution P E i ctx a permit) s (\<lambda>r s'. lw_states s' = lw_states s \<and> lw_steps s' = lw_steps s \<and>
     lw_audit s' = lw_audit s \<and>
     (\<forall>x. r = Inr x \<longrightarrow> silent_step x \<and> step_loop_id x = i \<and> proposed_action x = a \<and> step_permit_id x = Some permit))"
  by (auto simp: execution_def mock_execute_def execute_oracle_step_def ensures_bindC ensures_outC
      Let_def executed_step_def silent_step_def split: option.split sum.split)

lemma record_executed_post:
  assumes "loop_id st = i" "lw_states s = lw_states s0" "silent_step x" "\<And>ph. sr_phase (f ph) = ph"
  shows "ensures (bindC (add_step x) (\<lambda>_. bindC (audit_loop ac an i p) (\<lambda>_. bindC (audit_loop ac' an' i p') (\<lambda>_.
       bindC (settle E i st x True via) (\<lambda>ph. returnC (f ph)))))) s
    (\<lambda>r s'. step_outcome i st s0 r s' \<and> lw_steps s' = lw_steps s @ [x])"
proof -
  define s2 where "s2 = s\<lparr>lw_steps := lw_steps s @ [x]\<rparr>"
  have s2: "lw_states s2 = lw_states s0" "lw_steps s2 = lw_steps s @ [x]"
    using assms(2) by (simp_all add: s2_def)
  have tail: "ensures (bindC (audit_loop ac' an' i p') (\<lambda>_. bindC (settle E i st x True via) (\<lambda>ph. returnC (f ph))))
       (s2\<lparr>lw_audit := l\<rparr>) (\<lambda>r s'. step_outcome i st s0 r s' \<and> lw_steps s' = lw_steps s @ [x])" for l
    using audit_then_settle [OF assms(3,1) _ assms(4), of "s2\<lparr>lw_audit := l\<rparr>" s0] s2 by simp
  show ?thesis
    unfolding ensures_bindC [of "add_step x"] ensures_add_step s2_def [symmetric] sum.case
      ensures_bindC [of "audit_loop ac an i p"] ensures_audit_loop
    using s2 tail by (simp add: Let_def step_outcome_def)
qed

lemma execute_and_settle_post:
  assumes "loop_id st = i" "lw_states s = lw_states s0"
  shows "ensures (execute_and_settle P E i st ctx a permit) s
    (\<lambda>r s'. step_outcome i st s0 r s' \<and> (lw_steps s' = lw_steps s \<or>
       (\<exists>x. lw_steps s' = lw_steps s @ [x] \<and> step_loop_id x = i \<and> proposed_action x = a \<and> step_permit_id x = Some permit)))"
  unfolding execute_and_settle_def execution_def [symmetric] ensures_bindC [of "execution P E i ctx a permit"]
proof (rule ensures_weaken [OF execution_post], goal_cases)
  case (1 r s1)
  show ?case
  proof (cases r)
    case (Inl e)
    then show ?thesis
      using 1 assms(2) by (simp add: step_outcome_def)
  next
    case (Inr x)
    then have x: "silent_step x" "proposed_action x = a" "step_permit_id x = Some permit" "step_loop_id x = i"
      "lw_states s1 = lw_states s0" "lw_steps s1 = lw_steps s"
      using 1 assms(2) by auto
    show ?thesis
      unfolding Inr sum.case
      by (rule ensures_weaken [OF record_executed_post [OF assms(1) x(5) x(1)]]) (use x in auto)
  qed
qed

text \<open>The gates a step has to pass, in the order and the outside states in which they are asked.\<close>

definition gates_passed ::
  "'w loop_ports \<Rightarrow> string \<Rightarrow> loop_state \<Rightarrow> 'w \<Rightarrow> propose_action \<Rightarrow> string \<Rightarrow> bool" where
  "gates_passed P i st w0 a permit \<longleftrightarrow>
     (\<exists>ctx w1 w2 sv w3 pv w4 v w5.
        lp_build P i w0 = (Inr ctx, w1) \<and>
        (lp_budget_gate P \<longrightarrow> passed (budget_check (budget st) MOCK_STEP_TOKENS)) \<and>
        lp_propose P ctx w1 = (Inr (Some a), w2) \<and>
        lp_schema P a ctx w2 = (Inr sv, w3) \<and> passed sv \<and>
        lp_policy P a ctx w3 = (Inr pv, w4) \<and> passed pv \<and>
        lp_permit P a ctx w4 = (Inr v, w5) \<and> passed v \<and> permit = or_default (permit_id v) [])"

definition step_recorded :: "'w loop_ports \<Rightarrow> string \<Rightarrow> loop_state \<Rightarrow> 'w loop_world \<Rightarrow> 'w loop_world \<Rightarrow> bool" where
  "step_recorded P i st s s' \<longleftrightarrow>
     (\<exists>x permit. lw_steps s' = lw_steps s @ [x] \<and> step_loop_id x = i \<and> step_permit_id x = Some permit \<and>
        gates_passed P i st (lw_out s) (proposed_action x) permit)"

lemma propose_and_gate_post:
  assumes "loop_id st = i" "lw_states s = lw_states s0"
  shows "ensures (propose_and_gate P E i st ctx) s
    (\<lambda>r s'. step_outcome i st s0 r s' \<and> (lw_steps s' = lw_steps s \<or>
       (\<exists>x w2 sv w3 pv w4 v w5. lw_steps s' = lw_steps s @ [x] \<and> step_loop_id x = i \<and> step_permit_id x = Some (or_default (permit_id v) []) \<and>
        lp_propose P ctx (lw_out s) = (Inr (Some (proposed_action x)), w2) \<and>
        lp_schema P (proposed_action x) ctx w2 = (Inr sv, w3) \<and> passed sv \<and>
        lp_policy P (proposed_action x) ctx w3 = (Inr pv, w4) \<and> passed pv \<and>
        lp_permit P (proposed_action x) ctx w4 = (Inr v, w5) \<and> passed v)))"
    (is "ensures _ _ ?Q")
  unfolding propose_and_gate_def
proof (rule ensures_ask, goal_cases)
  case (1 e w)
  then show ?case
    using assms(2) by (simp add: step_outcome_def)
next
  case propose: (2 po w2)
  show ?case
  proof (cases po)
    case None
    show ?thesis
      unfolding None option.case
      by (rule ensures_weaken [OF backend_unavailable_post [of st i "s\<lparr>lw_out := w2\<rparr>" s0]]) (use assms in simp_all)
  next
    case (Some a)
    have rejected: "ensures (record_gate_rejected P E i st ctx a g c reason) (s\<lparr>lw_out := w\<rparr>) ?Q" for g c reason w
      by (rule ensures_weaken [OF gate_rejected_post [of st i "s\<lparr>lw_out := w\<rparr>" s0]]) (use assms in simp_all)
    show ?thesis
      unfolding Some option.case
    proof (rule ensures_gate, goal_cases)
      case schema: (3 sv w3)
      show ?case
      proof (rule ensures_gate, goal_cases)
        case policy: (3 pv w4)
        show ?case
        proof (rule ensures_gate, goal_cases)
          case permit: (3 v w5)
          have asked: "lp_propose P ctx (lw_out s) = (Inr (Some a), w2)" "lp_schema P a ctx w2 = (Inr sv, w3)"
            "lp_policy P a ctx w3 = (Inr pv, w4)" "lp_permit P a ctx w4 = (Inr v, w5)"
            "passed sv" "passed pv" "passed v"
            using propose schema policy permit Some by simp_all
          show ?case
          proof (rule ensures_weaken [OF execute_and_settle_post [of st i _ s0]], goal_cases)
            case (3 r s')
            then show ?case
              using asked by simp blast
          qed (use assms in simp_all)
        qed (use assms(2) rejected in \<open>simp_all add: step_outcome_def\<close>)
      qed (use assms(2) rejected in \<open>simp_all add: step_outcome_def\<close>)
    qed (use assms(2) rejected in \<open>simp_all add: step_outcome_def\<close>)
  qed
qed

lemma run_step_post:
  assumes "get_state i s = Some st" "loop_id st = i" "steppable st"
  shows "ensures (run_step P E i) s
    (\<lambda>r s'. step_outcome i st s r s' \<and> (lw_steps s' = lw_steps s \<or> step_recorded P i st s s'))"
proof -
  let ?m = "bindC (outC (lp_build P i)) (\<lambda>ctx.
      let bvd = budget_check (budget st) MOCK_STEP_TOKENS in
      if lp_budget_gate P \<and> \<not> passed bvd then
        record_gate_rejected P E i st ctx budget_rejected_action ''budget''
          (or_default (deny_code bvd) ''BUDGET_DENIED'') (verdict_reason bvd)
      else propose_and_gate P E i st ctx)"
  have run: "run_step P E i s = ?m s"
    using assms(1,3) by (simp add: run_step_def steppable_def)
  show ?thesis
  proof (rule ensures_cong [of "run_step P E i" s ?m, OF run], rule ensures_ask, goal_cases)
    case (1 e w1)
    then show ?case
      by (simp add: step_outcome_def)
  next
    case build: (2 ctx w1)
    show ?case
    proof -
      note b = gate_rejected_post [OF assms(2), of "s\<lparr>lw_out := w1\<rparr>" s]
      note g = propose_and_gate_post [OF assms(2), of "s\<lparr>lw_out := w1\<rparr>" s P E ctx]
      show ?thesis
      proof (cases "lp_budget_gate P \<and> \<not> passed (budget_check (budget st) MOCK_STEP_TOKENS)")
        case True
        then show ?thesis
          unfolding Let_def if_P [OF True] by (intro ensures_weaken [OF b]) auto
      next
        case False
        show ?thesis
          unfolding Let_def if_not_P [OF False]
        proof (rule ensures_weaken [OF g], goal_cases)
          case (2 r s')
          then show ?case
            using build False unfolding step_recorded_def gates_passed_def by simp blast
        qed simp
      qed
    qed
  qed
qed

lemma run_step_not_steppable:
  assumes "\<And>st. get_state i s = Some st \<Longrightarrow> \<not> steppable st"
  shows "snd (run_step P E i s) = s"
  using assms by (auto simp: run_step_def steppable_def split: option.split)

text \<open>
  C24. Nothing is executed without approval: whenever a call of run_step records a step, whether it returns or
  raises, the loop was in a steppable phase, exactly one step was appended, and that step's action
  is the one the proposer returned, passed the budget pre-check when that gate is wired, and then
  the schema, the policy and the permit gate in this order; the step carries the permit the permit gate issued.
\<close>

theorem executed_steps_passed_every_gate:
  assumes "world_inv s" "run_step P E i s = (r, s')" "lw_steps s' \<noteq> lw_steps s"
  shows "\<exists>st. get_state i s = Some st \<and> steppable st \<and> step_recorded P i st s s'"
proof -
  obtain st where st: "get_state i s = Some st" "steppable st"
    using run_step_not_steppable [of i s P E] assms(2,3) by auto
  then have "loop_id st = i"
    using assms(1) by (simp add: world_inv_def)
  then show ?thesis
    using ensuresD [OF run_step_post [OF st(1) _ st(2)] assms(2)] assms(3) st by auto
qed

section \<open>Histories\<close>

inductive loop_trans :: "'w loop_world \<Rightarrow> 'w loop_world \<Rightarrow> bool" where
  created: "get_state (lp_loop_id plan) s = None \<Longrightarrow> create_loop plan req now s = (r, s') \<Longrightarrow> loop_trans s s'"
| stepped: "run_step P E i s = (r, s') \<Longrightarrow> loop_trans s s'"
| stopped: "emergency_stop i actor reason now s = (r, s') \<Longrightarrow> loop_trans s s'"
| paused: "pause i actor reason role now s = (r, s') \<Longrightarrow> loop_trans s s'"
| resumed: "resume_loop control i rq now now' s = (r, s') \<Longrightarrow> loop_trans s s'"
| outside: "loop_trans s (s\<lparr>lw_out := w\<rparr>)"

inductive_cases loop_transE: "loop_trans s s'"

text \<open>What one transition may do to the state of a loop.\<close>

definition resumed_state :: "loop_state \<Rightarrow> datetime \<Rightarrow> loop_state" where
  "resumed_state st now = st\<lparr>phase := RESUMED, pause_attempts := pause_attempts st + 1, paused_at := None,
     resumed_at := Some now,
     budget := credit_budget (budget st) (case paused_at st of Some t \<Rightarrow> now - t | None \<Rightarrow> 0)\<rparr>"

inductive state_trans :: "loop_state \<Rightarrow> loop_state \<Rightarrow> bool" where
  same: "state_trans st st"
| advance: "steppable st \<Longrightarrow> silent_step x \<Longrightarrow> state_trans st (advanced st x ok t)"
| stop: "state_trans st (st\<lparr>phase := EMERGENCY_STOPPED, last_step_at := Some now\<rparr>)"
| pause_it: "phase st \<notin> PAUSE_TERMINAL_PHASES \<Longrightarrow> state_trans st (st\<lparr>phase := PAUSED, paused_at := Some now\<rparr>)"
| resume_it: "phase st \<notin> RESUME_BLOCKED_PHASES \<Longrightarrow> state_trans st (resumed_state st now)"
| block: "phase st \<notin> RESUME_BLOCKED_PHASES \<Longrightarrow>
    state_trans st (st\<lparr>phase := POLICY_BLOCKED, last_step_at := Some now\<rparr>)"

lemma call_error_validation: "\<exists>m. call_error c = DomainValidationError m"
  by (auto simp: call_error_def check_no_secret_def split: option.split)

lemma save_audit_return:
  assumes "bindC (save_state ns) (\<lambda>_. bindC (audit_loop a b i p) (\<lambda>_. returnC ns)) s = (r, s')"
  shows "lw_states s' = dict_set (loop_id ns) ns (lw_states s)" "lw_steps s' = lw_steps s" "lw_out s' = lw_out s"
    "r = Inr x \<Longrightarrow> x = ns" "call_ok (loop_call a b i p) \<Longrightarrow> r = Inr ns" "r = Inl e \<Longrightarrow> \<exists>m. e = DomainValidationError m"
proof -
  have run: "(r, s') = (let s1 = s\<lparr>lw_states := dict_set (loop_id ns) ns (lw_states s)\<rparr>; c = loop_call a b i p in
      if call_ok c then (Inr ns, s1\<lparr>lw_audit := lw_audit s1 @ [c]\<rparr>) else (Inl (call_error c), s1))"
    using assms by (auto simp: bindC_def save_state_def audit_loop_def log_record_def Let_def)
  then show "lw_states s' = dict_set (loop_id ns) ns (lw_states s)" "lw_steps s' = lw_steps s" "lw_out s' = lw_out s"
    "r = Inr x \<Longrightarrow> x = ns" "call_ok (loop_call a b i p) \<Longrightarrow> r = Inr ns"
    by (auto simp: Let_def split: if_splits)
  show "r = Inl e \<Longrightarrow> \<exists>m. e = DomainValidationError m"
    using run call_error_validation [of "loop_call a b i p"] by (simp add: Let_def split: if_splits)
qed

definition touches :: "string \<Rightarrow> 'w loop_world \<Rightarrow> 'w loop_world \<Rightarrow> bool" where
  "touches j s s' \<longleftrightarrow>
     (lw_states s' = lw_states s \<or>
      (\<exists>st st'. get_state j s = Some st \<and> state_trans st st' \<and> loop_id st' = j \<and>
         lw_states s' = dict_set j st' (lw_states s))) \<and>
     (lw_steps s' = lw_steps s \<or>
      (\<exists>x st. get_state j s = Some st \<and> steppable st \<and> lw_steps s' = lw_steps s @ [x] \<and> step_loop_id x = j))"

lemma touches_same [simp]: "touches j s s"
  by (simp add: touches_def)

lemma touches_saved:
  assumes "get_state j s = Some st" "state_trans st st'" "loop_id st' = j"
    "lw_states s' = dict_set j st' (lw_states s)" "lw_steps s' = lw_steps s"
  shows "touches j s s'"
  using assms unfolding touches_def by blast

lemma touches_run_step:
  assumes "world_inv s" "run_step P E i s = (r, s')"
  shows "touches i s s'"
proof (cases "\<exists>st. get_state i s = Some st \<and> steppable st")
  case False
  then have "s' = s"
    using run_step_not_steppable [of i s P E] assms(2) by auto
  then show ?thesis
    by simp
next
  case True
  then obtain st where st: "get_state i s = Some st" "steppable st" "loop_id st = i"
    using assms(1) by (auto simp: world_inv_def)
  note post = ensuresD [OF run_step_post [OF st(1,3,2)] assms(2)]
  have "lw_states s' = lw_states s \<or> (\<exists>x ok t. silent_step x \<and> lw_states s' = dict_set i (advanced st x ok t) (lw_states s))"
    using post unfolding step_outcome_def by blast
  then have states: "lw_states s' = lw_states s \<or> (\<exists>st'. state_trans st st' \<and> loop_id st' = i \<and> lw_states s' = dict_set i st' (lw_states s))"
    using advance [OF st(2)] st(3) by fastforce
  show ?thesis
    unfolding touches_def using states post st unfolding step_recorded_def by blast
qed

lemma touches_emergency_stop:
  assumes "world_inv s" "emergency_stop i actor reason now s = (r, s')"
  shows "touches i s s'"
proof (cases "get_state i s")
  case (Some st)
  then have i: "loop_id st = i"
    using assms(1) by (simp add: world_inv_def)
  show ?thesis
  proof (cases "phase st = EMERGENCY_STOPPED")
    case False
    note sa = save_audit_return [OF assms(2) [unfolded emergency_stop_def Some option.case if_not_P [OF False] Let_def]]
    show ?thesis
      by (rule touches_saved [OF Some state_trans.stop]) (use sa i in simp_all)
  qed (use Some assms(2) in \<open>simp add: emergency_stop_def\<close>)
qed (use assms(2) in \<open>simp add: emergency_stop_def\<close>)

lemma touches_pause:
  assumes "world_inv s" "pause i actor reason role now s = (r, s')"
  shows "touches i s s'"
proof (cases "get_state i s")
  case (Some st)
  then have i: "loop_id st = i"
    using assms(1) by (simp add: world_inv_def)
  show ?thesis
  proof (cases "role = ''agent'' \<or> phase st = PAUSED \<or> phase st \<in> PAUSE_TERMINAL_PHASES")
    case False
    then have n: "role \<noteq> ''agent''" "phase st \<noteq> PAUSED" "phase st \<notin> PAUSE_TERMINAL_PHASES"
      by auto
    note sa = save_audit_return [OF assms(2) [unfolded pause_def Some option.case if_not_P [OF n(1)] if_not_P [OF n(2)] if_not_P [OF n(3)] Let_def]]
    show ?thesis
      by (rule touches_saved [OF Some pause_it [OF n(3)]]) (use sa i in simp_all)
  qed (use Some assms(2) in \<open>auto simp: pause_def split: if_splits\<close>)
qed (use assms(2) in \<open>simp add: pause_def split: if_splits\<close>)

lemma resume_cases:
  assumes "world_inv s" "resume pol i rq now s = (r, s')"
  obtains (refused) e where "r = Inl e" "s' = s" "\<And>d. e \<noteq> PauseBudgetExceeded d"
  | (over_budget) d st where "r = Inl (PauseBudgetExceeded d)" "s' = s" "get_state i s = Some st"
      "phase st \<notin> RESUME_BLOCKED_PHASES" "max_pauses pol \<le> pause_attempts st + 1"
  | (resumes) st where "get_state i s = Some st" "phase st \<notin> RESUME_BLOCKED_PHASES" "loop_id st = i"
      "pause_attempts st + 1 < max_pauses pol" "rq_actor_role rq \<noteq> ''agent''"
      "rq_approved_by rq \<notin> {None, Some []}" "rq_signature rq \<notin> {None, Some []}"
      "lw_states s' = dict_set i (resumed_state st now) (lw_states s)" "lw_steps s' = lw_steps s"
      "\<And>x. r = Inr x \<Longrightarrow> x = resumed_state st now" "\<And>e. r = Inl e \<Longrightarrow> \<exists>m. e = DomainValidationError m"
proof (cases "rq_actor_role rq = ''agent''")
  case True
  then show thesis
    using refused assms(2) by (auto simp: resume_def)
next
  case human: False
  show thesis
  proof (cases "get_state i s")
    case None
    then show thesis
      using refused human assms(2) by (auto simp: resume_def)
  next
    case (Some st)
    have i: "loop_id st = i"
      using Some assms(1) by (simp add: world_inv_def)
    consider (blocked) "phase st \<in> RESUME_BLOCKED_PHASES"
      | (over) "phase st \<notin> RESUME_BLOCKED_PHASES" "max_pauses pol \<le> pause_attempts st + 1"
      | (unsigned) "phase st \<notin> RESUME_BLOCKED_PHASES" "pause_attempts st + 1 < max_pauses pol"
          "rq_approved_by rq \<in> {None, Some []} \<or> rq_signature rq \<in> {None, Some []}"
      | (ok) "phase st \<notin> RESUME_BLOCKED_PHASES" "pause_attempts st + 1 < max_pauses pol"
          "rq_approved_by rq \<notin> {None, Some []}" "rq_signature rq \<notin> {None, Some []}"
      by linarith
    then show thesis
    proof cases
      case ok
      then have "require_resume_approval (rq_actor_role rq) (rq_approved_by rq) (rq_signature rq) = Inr ()"
        using human by (simp add: require_resume_approval_def validate_loop_approval_params_def)
      then obtain p where "bindC (save_state (resumed_state st now)) (\<lambda>_. bindC (audit_loop (rq_actor rq) ''loop.resumed'' i p)
          (\<lambda>_. returnC (resumed_state st now))) s = (r, s')"
        using assms(2) human Some ok
        by (auto simp: resume_def resumed_state_def pause_budget_exceeded_def bindC_def [of "liftC _"] liftC_def Let_def)
      from save_audit_return [OF this] show thesis
        using resumes [OF Some ok(1) i ok(2) human ok(3,4)] i by (simp add: resumed_state_def)
    qed (use assms(2) human Some refused over_budget in
        \<open>auto simp: resume_def pause_budget_exceeded_def bindC_def liftC_def require_resume_approval_def validate_loop_approval_params_def\<close>)
  qed
qed

lemma touches_resume_loop:
  assumes "world_inv s" "resume_loop control i rq now now' s = (r, s')"
  shows "touches i s s'"
proof (cases control)
  case None
  then show ?thesis
    using assms(2) by (simp add: resume_loop_def)
next
  case (Some pol)
  obtain r1 s1 where run: "resume pol i rq now s = (r1, s1)"
    by fastforce
  from assms(1) run show ?thesis
  proof (cases rule: resume_cases)
    case (refused e)
    then show ?thesis
      using assms(2) run Some by (cases e) (auto simp: resume_loop_def)
  next
    case (over_budget d st)
    then have "force_pause_budget_termination i d (rq_actor rq) now' s = (r, s')"
      using assms(2) run Some by (simp add: resume_loop_def)
    note sa = save_audit_return [OF this [unfolded force_pause_budget_termination_def over_budget(3) option.case Let_def]]
    show ?thesis
      by (rule touches_saved [OF over_budget(3) block [OF over_budget(4)]])
         (use sa over_budget assms(1) in \<open>auto simp: world_inv_def\<close>)
  next
    case (resumes st)
    have "s' = s1"
      using assms(2) run Some resumes(11) by (cases r1) (auto simp: resume_loop_def)
    then show ?thesis
      using touches_saved [OF resumes(1) resume_it [OF resumes(2)]] resumes
      by (simp add: resumed_state_def)
  qed
qed

lemma touches_world_inv: "world_inv s \<Longrightarrow> touches j s s' \<Longrightarrow> world_inv s'"
  by (auto simp: world_inv_def touches_def get_state_def split: if_splits)

lemma state_trans_dead:
  assumes "state_trans st st'" "phase st \<in> PAUSE_TERMINAL_PHASES"
  shows "phase st' \<in> {phase st, EMERGENCY_STOPPED}"
  using assms by cases (auto simp: PAUSE_TERMINAL_PHASES_def RESUME_BLOCKED_PHASES_def steppable_def TERMINAL_PHASES_def)

lemma touches_dead:
  assumes "touches j s s'" "get_state i s = Some st" "phase st \<in> PAUSE_TERMINAL_PHASES"
  shows "\<exists>st'. get_state i s' = Some st' \<and> phase st' \<in> {phase st, EMERGENCY_STOPPED} \<and> list_for_loop i s' = list_for_loop i s"
proof -
  have "list_for_loop i s' = list_for_loop i s"
    using assms by (auto simp: touches_def list_for_loop_def steppable_def TERMINAL_PHASES_def PAUSE_TERMINAL_PHASES_def)
  moreover have "\<exists>st'. get_state i s' = Some st' \<and> phase st' \<in> {phase st, EMERGENCY_STOPPED}"
    using assms state_trans_dead [OF _ assms(3)] unfolding touches_def get_state_def by (cases "i = j") auto
  ultimately show ?thesis
    by blast
qed

lemma loop_trans_touches:
  assumes "loop_trans s s'" "world_inv s"
  shows "(\<exists>j. touches j s s') \<or> (\<exists>st. get_state (loop_id st) s = None \<and>
    lw_states s' = dict_set (loop_id st) st (lw_states s) \<and> lw_steps s' = lw_steps s)"
  using assms(1)
proof cases
  case (created plan req now r)
  from save_audit_return(1,2) [OF created(2) [unfolded create_loop_def Let_def]] created(1) show ?thesis
    by (metis loop_state.select_convs(1))
next
  case (outside w)
  then show ?thesis
    by (intro disjI1 exI [of _ "[]"]) (simp add: touches_def)
next
  case stepped
  then show ?thesis
    using touches_run_step [OF assms(2)] by blast
next
  case stopped
  then show ?thesis
    using touches_emergency_stop [OF assms(2)] by blast
next
  case paused
  then show ?thesis
    using touches_pause [OF assms(2)] by blast
next
  case resumed
  then show ?thesis
    using touches_resume_loop [OF assms(2)] by blast
qed

lemma loop_trans_dead:
  assumes "loop_trans s s'" "world_inv s" "get_state i s = Some st" "phase st \<in> PAUSE_TERMINAL_PHASES"
  shows "world_inv s' \<and> (\<exists>st'. get_state i s' = Some st' \<and> phase st' \<in> {phase st, EMERGENCY_STOPPED} \<and>
    list_for_loop i s' = list_for_loop i s)"
  using loop_trans_touches [OF assms(1,2)]
proof
  assume "\<exists>j. touches j s s'"
  then show ?thesis
    using touches_world_inv [OF assms(2)] touches_dead [OF _ assms(3,4)] by blast
next
  assume "\<exists>st. get_state (loop_id st) s = None \<and>
    lw_states s' = dict_set (loop_id st) st (lw_states s) \<and> lw_steps s' = lw_steps s"
  then show ?thesis
    using assms(2,3) by (auto simp: world_inv_def get_state_def list_for_loop_def split: if_splits)
qed

lemma dead_history:
  assumes "loop_trans\<^sup>*\<^sup>* s s'" "world_inv s" "get_state i s = Some st" "phase st \<in> PAUSE_TERMINAL_PHASES"
  shows "\<exists>st'. get_state i s' = Some st' \<and> phase st' \<in> {phase st, EMERGENCY_STOPPED} \<and>
    list_for_loop i s' = list_for_loop i s"
proof -
  from assms(1) have "world_inv s' \<and> (\<exists>st'. get_state i s' = Some st' \<and> phase st' \<in> {phase st, EMERGENCY_STOPPED} \<and>
    list_for_loop i s' = list_for_loop i s)"
  proof induction
    case base
    then show ?case
      using assms(2,3) by simp
  next
    case (step s1 s2)
    then obtain st1 where st1: "world_inv s1" "get_state i s1 = Some st1" "phase st1 \<in> {phase st, EMERGENCY_STOPPED}"
      "list_for_loop i s1 = list_for_loop i s"
      by blast
    then have "phase st1 \<in> PAUSE_TERMINAL_PHASES"
      using assms(4) by (auto simp: PAUSE_TERMINAL_PHASES_def)
    from loop_trans_dead [OF step(2) st1(1,2) this] st1 show ?case
      by auto
  qed
  then show ?thesis
    by blast
qed

text \<open>
  Dead loops stay dead: once a loop is completed, out of budget, blocked by policy or emergency
  stopped, no history of step, stop, pause and resume calls, with any ports, actors and clocks,
  gives it another phase than its own or emergency stopped, and no step is recorded for it.
\<close>

theorem dead_loops_stay_dead:
  assumes "loop_trans\<^sup>*\<^sup>* s s'" "world_inv s" "get_state i s = Some st"
    "phase st \<in> {COMPLETED, BUDGET_EXHAUSTED, POLICY_BLOCKED, EMERGENCY_STOPPED}"
  shows "\<exists>st'. get_state i s' = Some st' \<and> phase st' \<in> {phase st, EMERGENCY_STOPPED} \<and>
    list_for_loop i s' = list_for_loop i s"
  by (rule dead_history [OF assms(1-3)]) (use assms(4) in \<open>auto simp: PAUSE_TERMINAL_PHASES_def\<close>)

section \<open>A small loop to evaluate\<close>

definition demo_context :: loop_context where
  "demo_context = \<lparr>asset_subgraph = [], recent_observations = [], observation_token_count = 0,
     catalog_already_executed = {}, catalog_still_required = {}, catalog_floor_progress = 0,
     unconfirmed_candidates = [], confirmed_findings_recent = [], chain_hypotheses_pending = [],
     available_tools = [], available_cases = [], available_peers = [],
     budget_remaining = snapshot LoopBudget_default, loop_step_no = 0, ctx_max_steps = 50,
     elapsed_seconds = 0, handbook_hints = []\<rparr>"

definition demo_ports :: "unit loop_ports" where
  "demo_ports = \<lparr>lp_sha = (\<lambda>_. ''h''), lp_float = (\<lambda>_. ''0.0''), lp_build = (\<lambda>_. returnC demo_context),
     lp_propose = (\<lambda>_. returnC (Some (abort_action ''r''))),
     lp_schema = (\<lambda>_ _. returnC \<lparr>passed = True, verdict_reason = [], deny_code = None, permit_id = None, permit_ttl_seconds = None\<rparr>),
     lp_policy = (\<lambda>_ _. returnC \<lparr>passed = True, verdict_reason = [], deny_code = None, permit_id = None, permit_ttl_seconds = None\<rparr>),
     lp_permit = (\<lambda>_ _. returnC \<lparr>passed = True, verdict_reason = [], deny_code = None, permit_id = Some ''p1'', permit_ttl_seconds = None\<rparr>),
     lp_budget_gate = True, lp_oracle = None\<rparr>"

definition demo_env :: step_env where
  "demo_env = \<lparr>e_step_token = ''s'', e_step_number = 1, e_corr_token = ''c'', e_step_time = 5, e_now = 6\<rparr>"

definition demo_loop :: loop_state where
  "demo_loop = \<lparr>loop_id = ''0000000a'', assessment_id = ''a'', phase = INITIALIZING, policy_snapshot = [],
     budget = LoopBudget_default, state_context_hash = [], catalog_required_remaining = {},
     catalog_required_executed = {}, consecutive_no_signal = 0, consecutive_policy_rejected = 0,
     started_at = 0, last_step_at = None, pause_attempts = 0, paused_at = None, resumed_at = None\<rparr>"

definition demo_loop_world :: "loop_phase \<Rightarrow> unit loop_world" where
  "demo_loop_world ph = \<lparr>lw_states = [(''0000000a'', demo_loop\<lparr>phase := ph\<rparr>)], lw_steps = [], lw_audit = [], lw_out = ()\<rparr>"

lemma demo_world_inv: "world_inv (demo_loop_world ph)"
  by (auto simp: world_inv_def demo_loop_world_def get_state_def demo_loop_def split: if_splits)

theorem executed_steps_passed_every_gate_witness:
  "\<exists>st. get_state ''0000000a'' (demo_loop_world INITIALIZING) = Some st \<and> steppable st \<and>
     step_recorded demo_ports ''0000000a'' st (demo_loop_world INITIALIZING)
       (snd (run_step demo_ports demo_env ''0000000a'' (demo_loop_world INITIALIZING)))"
proof (rule executed_steps_passed_every_gate [OF demo_world_inv prod.collapse [symmetric]])
  have "lw_steps (snd (run_step demo_ports demo_env ''0000000a'' (demo_loop_world INITIALIZING))) \<noteq> []"
    by code_simp
  then show "lw_steps (snd (run_step demo_ports demo_env ''0000000a'' (demo_loop_world INITIALIZING))) \<noteq>
      lw_steps (demo_loop_world INITIALIZING)"
    by (simp add: demo_loop_world_def)
qed

theorem dead_loops_stay_dead_witness:
  "\<exists>st'. get_state ''0000000a'' (snd (pause ''0000000a'' ''op'' [] ''human'' 9 (demo_loop_world COMPLETED))) = Some st' \<and>
     phase st' \<in> {COMPLETED, EMERGENCY_STOPPED} \<and>
     list_for_loop ''0000000a'' (snd (pause ''0000000a'' ''op'' [] ''human'' 9 (demo_loop_world COMPLETED))) =
     list_for_loop ''0000000a'' (demo_loop_world COMPLETED)"
proof -
  have "loop_trans\<^sup>*\<^sup>* (demo_loop_world COMPLETED) (snd (pause ''0000000a'' ''op'' [] ''human'' 9 (demo_loop_world COMPLETED)))"
    by (rule r_into_rtranclp) (rule loop_trans.paused [OF prod.collapse [symmetric]])
  from dead_loops_stay_dead [OF this demo_world_inv, of "''0000000a''" "demo_loop\<lparr>phase := COMPLETED\<rparr>"]
  show ?thesis
    by (simp add: demo_loop_world_def get_state_def)
qed

section \<open>Emergency stop, convergence, resume\<close>

lemma call_ok_emergency:
  "i \<noteq> [] \<Longrightarrow> actor \<noteq> [] \<Longrightarrow> call_ok (loop_call actor ''loop.terminated'' i
     [(''final_phase'', a), (''reason'', b), (''human_reason'', c), (''from_phase'', d)])"
proof -
  have "\<forall>k \<in> set [''final_phase'', ''reason'', ''human_reason'', ''from_phase'']. py_lower k \<notin> set SECRET_KEYS"
    by code_simp
  then show "i \<noteq> [] \<Longrightarrow> actor \<noteq> [] \<Longrightarrow> call_ok (loop_call actor ''loop.terminated'' i
     [(''final_phase'', a), (''reason'', b), (''human_reason'', c), (''from_phase'', d)])"
    by (simp add: call_ok_def loop_call_def)
qed

text \<open>
  Emergency stop works from every phase, a paused one included, and is final: for a stored loop and a named
  actor it returns, and after it no history of calls records a step for the loop or
  takes it out of the emergency-stopped phase.
\<close>

theorem emergency_stop_is_final:
  assumes "world_inv s" "get_state i s = Some st" "i \<noteq> []" "actor \<noteq> []"
    and "emergency_stop i actor reason now s = (r, s')" "loop_trans\<^sup>*\<^sup>* s' s''"
  shows "\<exists>st' st''. r = Inr st' \<and> phase st' = EMERGENCY_STOPPED \<and> get_state i s' = Some st' \<and>
    get_state i s'' = Some st'' \<and> phase st'' = EMERGENCY_STOPPED \<and> list_for_loop i s'' = list_for_loop i s"
proof -
  have i: "loop_id st = i"
    using assms(1,2) by (simp add: world_inv_def)
  have stop: "\<exists>st'. r = Inr st' \<and> phase st' = EMERGENCY_STOPPED \<and> get_state i s' = Some st' \<and> lw_steps s' = lw_steps s"
  proof (cases "phase st = EMERGENCY_STOPPED")
    case True
    then show ?thesis
      using assms(2,5) by (simp add: emergency_stop_def)
  next
    case False
    note sa = save_audit_return [OF assms(5) [unfolded emergency_stop_def assms(2) option.case if_not_P [OF False] Let_def]]
    show ?thesis
      using sa(1,2) sa(5) [OF call_ok_emergency [OF assms(3,4)]] i by (simp add: get_state_def)
  qed
  then obtain st' where st': "r = Inr st'" "phase st' = EMERGENCY_STOPPED" "get_state i s' = Some st'" "lw_steps s' = lw_steps s"
    by blast
  have inv: "world_inv s'"
    using touches_world_inv [OF assms(1) touches_emergency_stop [OF assms(1,5)]] .
  show ?thesis
    using dead_history [OF assms(6) inv st'(3)] st' by (auto simp: list_for_loop_def PAUSE_TERMINAL_PHASES_def)
qed

theorem emergency_stop_is_final_witness:
  "\<exists>st' st''. fst (emergency_stop ''0000000a'' ''op'' ''x'' 9 (demo_loop_world PAUSED)) = Inr st' \<and>
     phase st' = EMERGENCY_STOPPED \<and>
     get_state ''0000000a'' (snd (emergency_stop ''0000000a'' ''op'' ''x'' 9 (demo_loop_world PAUSED))) = Some st'' \<and>
     phase st'' = EMERGENCY_STOPPED"
proof -
  let ?s = "demo_loop_world PAUSED" and ?run = "emergency_stop ''0000000a'' ''op'' ''x'' 9 (demo_loop_world PAUSED)"
  have st: "get_state ''0000000a'' ?s = Some (demo_loop\<lparr>phase := PAUSED\<rparr>)"
    by (simp add: demo_loop_world_def get_state_def)
  have "\<exists>st' st''. fst ?run = Inr st' \<and> phase st' = EMERGENCY_STOPPED \<and> get_state ''0000000a'' (snd ?run) = Some st' \<and>
    get_state ''0000000a'' (snd ?run) = Some st'' \<and> phase st'' = EMERGENCY_STOPPED \<and>
    list_for_loop ''0000000a'' (snd ?run) = list_for_loop ''0000000a'' ?s"
    by (rule emergency_stop_is_final [OF demo_world_inv st]) simp_all
  then show ?thesis
    by blast
qed

text \<open>A run of consecutive \<^verbatim>\<open>run_step\<close> calls on one loop that all return.\<close>

fun run_steps :: "('w loop_ports \<times> step_env) list \<Rightarrow> string \<Rightarrow> ('w loop_world, step_result list) cmd" where
  "run_steps [] i = returnC []"
| "run_steps ((P, E) # pes) i = bindC (run_step P E i) (\<lambda>v. bindC (run_steps pes i) (\<lambda>vs. returnC (v # vs)))"

lemma advanced_phase:
  assumes "steppable st"
  shows "phase (advanced st x ok t) = RUNNING \<or> phase (advanced st x ok t) \<in> TERMINAL_PHASES"
  using assms by (auto simp: advanced_def Let_def evaluate_termination_def steppable_def TERMINAL_PHASES_def NON_AUTO_STEP_PHASES_def)

lemma advanced_no_signal:
  "consecutive_no_signal (advanced st x ok t) = consecutive_no_signal st + 1"
  "phase (advanced st x ok t) = RUNNING \<Longrightarrow> consecutive_no_signal st + 1 < 5"
  by (auto simp: advanced_def Let_def feedback_apply_def evaluate_termination_def LoopTerminationPolicy_default_def split: if_splits)

lemma run_step_returns:
  assumes "world_inv s" "get_state i s = Some st" "steppable st" "run_step P E i s = (Inr v, s')"
  shows "\<exists>x ok t. silent_step x \<and> get_state i s' = Some (advanced st x ok t) \<and> sr_phase v = phase (advanced st x ok t) \<and> world_inv s'"
proof -
  have i: "loop_id st = i"
    using assms(1,2) by (simp add: world_inv_def)
  note post = ensuresD [OF run_step_post [OF assms(2) i assms(3)] assms(4)]
  then show ?thesis
    using touches_world_inv [OF assms(1) touches_run_step [OF assms(1,4)]]
    unfolding step_outcome_def get_state_def by fastforce
qed

lemma run_steps_terminal:
  assumes "get_state i s = Some st" "phase st \<in> TERMINAL_PHASES" "run_steps pes i s = (Inr vs, s')"
  shows "pes = []"
  using assms by (cases "(pes, i)" rule: run_steps.cases) (auto simp: bindC_Inr run_step_def)

lemma run_steps_bound:
  "world_inv s \<Longrightarrow> get_state i s = Some st \<Longrightarrow> steppable st \<Longrightarrow> run_steps pes i s = (Inr vs, s') \<Longrightarrow>
   consecutive_no_signal st = int k \<Longrightarrow> k < 5 \<Longrightarrow>
   k + length pes \<le> 5 \<and> (\<exists>st'. get_state i s' = Some st' \<and>
     (phase st' \<in> TERMINAL_PHASES \<or> (steppable st' \<and> k + length pes < 5)))"
proof (induction pes arbitrary: s st k vs)
  case (Cons pe pes)
  obtain P E where pe: "pe = (P, E)"
    by fastforce
  then obtain v s1 vs1 where run: "run_step P E i s = (Inr v, s1)" "run_steps pes i s1 = (Inr vs1, s')"
    using Cons.prems(4) by (auto simp: bindC_Inr)
  obtain x ok t where adv: "get_state i s1 = Some (advanced st x ok t)" "world_inv s1"
    using run_step_returns [OF Cons.prems(1,2,3) run(1)] by blast
  let ?st = "advanced st x ok t"
  show ?case
  proof (cases "phase ?st \<in> TERMINAL_PHASES")
    case True
    then have "pes = []"
      using run_steps_terminal [OF adv(1) _ run(2)] by simp
    then show ?thesis
      using run(2) adv True Cons.prems(6) by simp
  next
    case False
    then have r: "phase ?st = RUNNING"
      using advanced_phase [OF Cons.prems(3)] by blast
    then have "steppable ?st" "consecutive_no_signal ?st = int (Suc k)" "Suc k < 5"
      using advanced_no_signal [of st x ok t] Cons.prems(5)
      by (auto simp: steppable_def TERMINAL_PHASES_def NON_AUTO_STEP_PHASES_def)
    then show ?thesis
      using Cons.IH [OF adv(2,1) _ run(2), of "Suc k"] by simp
  qed
qed auto

text \<open>
  C25. Every loop ends after at most five steps: on a loop with no signal-free streak, any number of consecutive
  run_step calls that all return is at most five, and after five the loop is in a
  terminal phase, for all ports, gates, oracle verdicts, environments and budgets.
\<close>

theorem loop_ends_within_five_steps:
  assumes "world_inv s" "get_state i s = Some st" "steppable st" "consecutive_no_signal st = 0"
    and "run_steps pes i s = (Inr vs, s')"
  shows "length pes \<le> 5 \<and>
    (length pes = 5 \<longrightarrow> (\<exists>st'. get_state i s' = Some st' \<and> phase st' \<in> TERMINAL_PHASES))"
  using run_steps_bound [OF assms(1-3,5), of 0] assms(4) by auto

theorem loop_ends_within_five_steps_witness:
  "\<exists>vs s' st'. run_steps (replicate 5 (demo_ports, demo_env)) ''0000000a'' (demo_loop_world INITIALIZING) = (Inr vs, s') \<and>
     get_state ''0000000a'' s' = Some st' \<and> phase st' \<in> TERMINAL_PHASES"
proof -
  let ?run = "run_steps (replicate 5 (demo_ports, demo_env)) ''0000000a'' (demo_loop_world INITIALIZING)"
  have "case fst ?run of Inl _ \<Rightarrow> False | Inr _ \<Rightarrow> True"
    by code_simp
  then obtain vs s' where r: "?run = (Inr vs, s')"
    by (cases ?run) (auto split: sum.splits)
  have st: "get_state ''0000000a'' (demo_loop_world INITIALIZING) = Some (demo_loop\<lparr>phase := INITIALIZING\<rparr>)"
    by (simp add: demo_loop_world_def get_state_def)
  show ?thesis
    using loop_ends_within_five_steps [OF demo_world_inv st _ _ r] r
    by (auto simp: demo_loop_def steppable_def TERMINAL_PHASES_def NON_AUTO_STEP_PHASES_def)
qed

text \<open>
  Only a human with an approval resumes a loop, within the pause budget: when resume returns, the actor is not an
  agent, approver and signature are present, the loop was not stopped, its pause count grew by one and
  stays below the policy's maximum, and the time spent paused is credited to the wall-clock budget.
\<close>

theorem resume_requires_human_approval:
  assumes "world_inv s" "resume pol i rq now s = (Inr st', s')"
  shows "rq_actor_role rq \<noteq> ''agent'' \<and> rq_approved_by rq \<notin> {None, Some []} \<and> rq_signature rq \<notin> {None, Some []} \<and>
    (\<exists>st. get_state i s = Some st \<and> phase st \<notin> {BUDGET_EXHAUSTED, POLICY_BLOCKED, EMERGENCY_STOPPED, COMPLETED} \<and>
       phase st' = RESUMED \<and> get_state i s' = Some st' \<and>
       pause_attempts st' = pause_attempts st + 1 \<and> pause_attempts st' < max_pauses pol \<and>
       (\<forall>t. paused_at st = Some t \<longrightarrow>
          wall_seconds_used (budget st') = max 0 (wall_seconds_used (budget st) - (now - t) div 1000000)))"
  using assms
proof (cases rule: resume_cases)
  case (resumes st)
  then show ?thesis
    by (simp add: resumed_state_def credit_budget_def RESUME_BLOCKED_PHASES_def get_state_def)
qed simp_all

definition demo_request :: resume_request where
  "demo_request = \<lparr>rq_actor = ''op'', rq_actor_role = ''human'', rq_approved_by = Some ''lead'',
     rq_signature = Some ''sig'', rq_modified_context = None\<rparr>"

theorem resume_requires_human_approval_witness:
  "\<exists>st' s'. resume LoopTerminationPolicy_default ''0000000a'' demo_request 9 (demo_loop_world PAUSED) = (Inr st', s') \<and>
     rq_actor_role demo_request \<noteq> ''agent'' \<and> pause_attempts st' < max_pauses LoopTerminationPolicy_default"
proof -
  let ?run = "resume LoopTerminationPolicy_default ''0000000a'' demo_request 9 (demo_loop_world PAUSED)"
  have "case fst ?run of Inl _ \<Rightarrow> False | Inr _ \<Rightarrow> True"
    by code_simp
  then obtain st' s' where r: "?run = (Inr st', s')"
    by (cases ?run) (auto split: sum.splits)
  show ?thesis
    using resume_requires_human_approval [OF demo_world_inv r] r by auto
qed

lemma call_ok_resumed:
  assumes "i \<noteq> []" "actor \<noteq> []"
  shows "call_ok (loop_call actor ''loop.resumed'' i
     ([(''approved_by'', a), (''phase'', b), (''pause_attempts'', c), (''wall_credit_seconds'', d)] @
      (case m of None \<Rightarrow> [] | Some v \<Rightarrow> [(''modified_context'', v)])))"
proof -
  have "\<forall>k \<in> set [''approved_by'', ''phase'', ''pause_attempts'', ''wall_credit_seconds'', ''modified_context''].
      py_lower k \<notin> set SECRET_KEYS"
    by code_simp
  then show ?thesis
    using assms by (auto simp: call_ok_def loop_call_def split: option.splits)
qed

text \<open>
  A converged loop is terminal for run_step and yet can be resumed: run_step raises
  on it, but a human resume within the pause budget returns a loop that run_step accepts again.
\<close>

theorem converged_loop_can_be_revived:
  assumes "world_inv s" "get_state i s = Some st" "phase st = CONVERGED" "i \<noteq> []"
    and "pause_attempts st + 1 < max_pauses pol" "rq_actor_role rq \<noteq> ''agent''" "rq_actor rq \<noteq> []"
    and "rq_approved_by rq \<notin> {None, Some []}" "rq_signature rq \<notin> {None, Some []}"
  shows "(\<exists>e. run_step P E i s = (Inl (LoopAlreadyTerminalError e), s)) \<and>
    (\<exists>st' s'. resume pol i rq now s = (Inr st', s') \<and> get_state i s' = Some st' \<and> steppable st')"
proof
  show "\<exists>e. run_step P E i s = (Inl (LoopAlreadyTerminalError e), s)"
    using assms(2,3) by (simp add: run_step_def TERMINAL_PHASES_def)
  let ?ns = "resumed_state st now"
  have appr: "require_resume_approval (rq_actor_role rq) (rq_approved_by rq) (rq_signature rq) = Inr ()"
    using assms(6,8,9) by (simp add: require_resume_approval_def validate_loop_approval_params_def)
  obtain r s' where run: "resume pol i rq now s = (r, s')"
    by fastforce
  then have "bindC (save_state ?ns) (\<lambda>_. bindC (audit_loop (rq_actor rq) ''loop.resumed'' i
       ([(''approved_by'', VOptStr (rq_approved_by rq)), (''phase'', VStr ''RESUMED''),
         (''pause_attempts'', VInt (pause_attempts st + 1)),
         (''wall_credit_seconds'', VInt (trunc_seconds (case paused_at st of Some t \<Rightarrow> now - t | None \<Rightarrow> 0)))] @
        (case rq_modified_context rq of None \<Rightarrow> [] | Some v \<Rightarrow> [(''modified_context'', v)]))) (\<lambda>_. returnC ?ns)) s = (r, s')"
    using assms(2,3,5,6) appr
    by (simp add: resume_def resumed_state_def RESUME_BLOCKED_PHASES_def pause_budget_exceeded_def
        bindC_def [of "liftC _"] liftC_def Let_def)
  note sa = save_audit_return [OF this]
  have i: "loop_id st = i"
    using assms(1,2) by (simp add: world_inv_def)
  show "\<exists>st' s'. resume pol i rq now s = (Inr st', s') \<and> get_state i s' = Some st' \<and> steppable st'"
    using run sa(1) sa(5) [OF call_ok_resumed [OF assms(4,7)]] i
    by (simp add: get_state_def resumed_state_def steppable_def TERMINAL_PHASES_def NON_AUTO_STEP_PHASES_def)
qed

theorem converged_loop_can_be_revived_witness:
  "(\<exists>e. run_step demo_ports demo_env ''0000000a'' (demo_loop_world CONVERGED) =
      (Inl (LoopAlreadyTerminalError e), demo_loop_world CONVERGED)) \<and>
   (\<exists>st' s'. resume LoopTerminationPolicy_default ''0000000a'' demo_request 9 (demo_loop_world CONVERGED) = (Inr st', s') \<and>
      get_state ''0000000a'' s' = Some st' \<and> steppable st')"
proof -
  have st: "get_state ''0000000a'' (demo_loop_world CONVERGED) = Some (demo_loop\<lparr>phase := CONVERGED\<rparr>)"
    by (simp add: demo_loop_world_def get_state_def)
  show ?thesis
    by (rule converged_loop_can_be_revived [OF demo_world_inv st])
       (simp_all add: demo_loop_def demo_request_def LoopTerminationPolicy_default_def)
qed

text \<open>
  The third resume under the default policy, whose maximum is three pauses, is refused and ends the
  loop: with two pauses counted, resume_loop turns the request into a terminal policy block.
\<close>

theorem third_resume_blocks_loop:
  assumes "world_inv s" "get_state i s = Some st" "phase st \<notin> RESUME_BLOCKED_PHASES" "pause_attempts st = 2"
    and "rq_actor_role rq \<noteq> ''agent''"
    and "resume_loop (Some LoopTerminationPolicy_default) i rq now now' s = (r, s')"
  shows "\<exists>st'. get_state i s' = Some st' \<and> phase st' = POLICY_BLOCKED"
proof -
  have "\<exists>d. resume LoopTerminationPolicy_default i rq now s = (Inl (PauseBudgetExceeded d), s)"
    using assms(2-5) by (simp add: resume_def pause_budget_exceeded_def LoopTerminationPolicy_default_def)
  then obtain d where "force_pause_budget_termination i d (rq_actor rq) now' s = (r, s')"
    using assms(6) by (auto simp: resume_loop_def)
  from save_audit_return(1) [OF this [unfolded force_pause_budget_termination_def assms(2) option.case Let_def]]
  show ?thesis
    using assms(1,2) by (simp add: get_state_def world_inv_def)
qed

theorem third_resume_blocks_loop_witness:
  "\<exists>st'. get_state ''0000000a'' (snd (resume_loop (Some LoopTerminationPolicy_default) ''0000000a'' demo_request 9 9
       \<lparr>lw_states = [(''0000000a'', demo_loop\<lparr>phase := PAUSED, pause_attempts := 2\<rparr>)], lw_steps = [], lw_audit = [], lw_out = ()\<rparr>)) = Some st' \<and>
     phase st' = POLICY_BLOCKED"
  by (rule third_resume_blocks_loop [OF _ _ _ _ _ prod.collapse [symmetric], where st = "demo_loop\<lparr>phase := PAUSED, pause_attempts := 2\<rparr>"])
     (auto simp: world_inv_def get_state_def demo_loop_def demo_request_def RESUME_BLOCKED_PHASES_def split: if_splits)

text \<open>
  Steps never consume wall-clock budget: whatever run_step does, the loop's recorded wall-clock
  use is the same before and after, so only the step and token limits can exhaust a budget.
\<close>

theorem run_step_never_consumes_wall_clock:
  assumes "world_inv s" "get_state i s = Some st" "run_step P E i s = (r, s')"
  shows "\<exists>st'. get_state i s' = Some st' \<and> wall_seconds_used (budget st') = wall_seconds_used (budget st)"
proof (cases "steppable st")
  case False
  then show ?thesis
    using run_step_not_steppable [of i s P E] assms(2,3) by auto
next
  case True
  have "wall_seconds_used (budget (advanced st x ok t)) = wall_seconds_used (budget st)" for x ok t
    by (simp add: advanced_def Let_def feedback_apply_def consume_def)
  moreover have "loop_id st = i"
    using assms(1,2) by (simp add: world_inv_def)
  ultimately show ?thesis
    using ensuresD [OF run_step_post [OF assms(2) _ True] assms(3)] assms(2)
    unfolding step_outcome_def get_state_def by auto
qed

theorem run_step_never_consumes_wall_clock_witness:
  "\<exists>st'. get_state ''0000000a'' (snd (run_step demo_ports demo_env ''0000000a'' (demo_loop_world INITIALIZING))) = Some st' \<and>
     wall_seconds_used (budget st') = 0"
proof -
  have st: "get_state ''0000000a'' (demo_loop_world INITIALIZING) = Some (demo_loop\<lparr>phase := INITIALIZING\<rparr>)"
    by (simp add: demo_loop_world_def get_state_def)
  show ?thesis
    using run_step_never_consumes_wall_clock [OF demo_world_inv st prod.collapse [symmetric]]
    by (simp add: demo_loop_def LoopBudget_default_def)
qed

end
