(* ===== verification/Gate_Safety.thy ===== *)
theory Gate_Safety
  imports Loop_Gates Loop_Safety
begin

text \<open>
  What the gates of the reasoning loop guarantee: which proposals the schema gate lets through, that a recorded
  step lies inside the policy, what a loop permit binds, and that a permitted step is enqueued once.
\<close>

section \<open>The schema gate\<close>

lemma gate_verdict_passed [simp]: "passed (gate_pass r)" "\<not> passed (gate_deny c r)"
  by (simp_all add: gate_pass_def gate_deny_def)

lemma validation_denial_denies [simp]: "\<not> passed (validation_denial a e)"
  by (cases e) (simp add: validation_denial_def)

lemma in_strings_True [simp]: "in_strings v xs = Inr True \<longleftrightarrow> (\<exists>s. v = VStr s \<and> s \<in> set xs)"
  by (cases v) (auto simp: in_strings_def)

lemma payload_get_VStr [simp]: "payload_get d k = VStr s \<longleftrightarrow> dict_get d k = Some (VStr s)"
  by (auto simp: payload_get_def split: option.splits)

lemma schema_refs_passed:
  "(\<exists>v. schema_refs a ctx = Inr v \<and> passed v) \<longleftrightarrow>
     (action_type a = RUN_TOOL \<longrightarrow> in_strings (payload_get (payload a) ''tool_id'') (map capability_id (available_tools ctx)) = Inr True) \<and>
     (action_type a = REQUEST_CHAIN \<longrightarrow> in_strings (payload_get (payload a) ''hypothesis_id'') (map hyp_id (chain_hypotheses_pending ctx)) = Inr True)"
  by (cases "action_type a") (auto simp: schema_refs_def bind_res_def simp del: in_strings_True split: sum.splits)

lemma schema_check_passed:
  "passed (schema_check validate exn_repr a ctx) \<longleftrightarrow>
     set (REQUIRED_PAYLOAD_KEYS (action_type a)) \<subseteq> set (dict_keys (payload a)) \<and> validate a = None \<and>
     (\<exists>v. schema_refs a ctx = Inr v \<and> passed v)"
  by (auto simp: schema_check_def filter_empty_conv Let_def split: option.splits sum.splits)

text \<open>
  The schema gate lets a proposal through exactly when the payload has every key its action type
  needs, the strict validation has no objection, a tool to run is one of the tools offered in the context and a chain
  to request is one of the pending hypotheses; it answers every proposal, so a malformed reference such as a
  list for a tool id is a denial and not a crash.
\<close>

theorem schema_gate_passes_iff:
  "passed (schema_check validate exn_repr a ctx) \<longleftrightarrow>
     set (REQUIRED_PAYLOAD_KEYS (action_type a)) \<subseteq> set (dict_keys (payload a)) \<and> validate a = None \<and>
     (action_type a = RUN_TOOL \<longrightarrow>
        (\<exists>t. dict_get (payload a) ''tool_id'' = Some (VStr t) \<and> t \<in> capability_id ` set (available_tools ctx))) \<and>
     (action_type a = REQUEST_CHAIN \<longrightarrow>
        (\<exists>h. dict_get (payload a) ''hypothesis_id'' = Some (VStr h) \<and> h \<in> hyp_id ` set (chain_hypotheses_pending ctx)))"
  by (auto simp: schema_check_passed schema_refs_passed)

section \<open>The policy gate\<close>

lemma policy_check_passed:
  "(\<exists>v. policy_check idna g a = Inr v \<and> passed v) \<longleftrightarrow>
     (\<exists>rq d. action_to_request a = Inr rq \<and>
        evaluate idna rq (pg_scope g) (pg_mode g) (pg_approved_risks g) (pg_approved_capabilities g) = Inr d \<and> allowed d)"
  by (auto simp: policy_check_def bind_res_def split: sum.splits if_splits)

definition inside_policy :: "(string \<Rightarrow> string option) \<Rightarrow> policy_gate \<Rightarrow> action_request \<Rightarrow> bool" where
  "inside_policy idna g rq \<longleftrightarrow>
     ar_risk rq \<noteq> DESTRUCTIVE \<and> ar_port rq \<in> set (sc_ports (pg_scope g)) \<and> 1 \<le> ar_port rq \<and> ar_port rq \<le> 65535 \<and>
     includes_url idna (pg_scope g) (ar_target rq) = Inr True \<and> ar_risk rq \<in> pg_approved_risks g \<and>
     (ar_risk rq \<in> {PASSIVE, LOW} \<or> ar_capability rq \<in> pg_approved_capabilities g)"

lemma policy_check_inside:
  "(\<exists>v. policy_check idna g a = Inr v \<and> passed v) \<longleftrightarrow> (\<exists>rq. action_to_request a = Inr rq \<and> inside_policy idna g rq)"
  unfolding policy_check_passed inside_policy_def using evaluate_allows by auto

text \<open>
  C11. With the schema gate and the policy gate wired, nothing the loop records leaves the policy: whenever a call
  of run_step records a step, the request read from the proposed action has a port and a URL inside the scope,
  a risk that is approved and not destructive, and, when that risk is active or intrusive (passive and low actions need none), an
  approved capability; and a tool it runs was on offer in the context built for this step.
\<close>

theorem loop_steps_inside_policy:
  assumes "world_inv s" "run_step P E i s = (r, s')" "lw_steps s' \<noteq> lw_steps s"
    and "lp_schema P = (\<lambda>a ctx w. (Inr (schema_check validate exn_repr a ctx), w))"
    and "lp_policy P = (\<lambda>a ctx w. (policy_check idna g a, w))"
  shows "\<exists>x rq ctx w. lw_steps s' = lw_steps s @ [x] \<and> action_to_request (proposed_action x) = Inr rq \<and> inside_policy idna g rq \<and>
     lp_build P i (lw_out s) = (Inr ctx, w) \<and>
     (action_type (proposed_action x) = RUN_TOOL \<longrightarrow> (\<exists>t. dict_get (payload (proposed_action x)) ''tool_id'' = Some (VStr t) \<and>
        t \<in> capability_id ` set (available_tools ctx)))"
proof -
  obtain st where st: "get_state i s = Some st" "steppable st"
    using run_step_not_steppable [of i s P E] assms(2,3) by auto
  then have "loop_id st = i" using assms(1) by (simp add: world_inv_def)
  then have "step_recorded P i st s s'"
    using ensuresD [OF run_step_post [OF st(1) _ st(2)] assms(2)] assms(3) by auto
  then obtain x ctx w w2 w3 pv w4 where x: "lw_steps s' = lw_steps s @ [x]" "lp_build P i (lw_out s) = (Inr ctx, w)"
    "passed (schema_check validate exn_repr (proposed_action x) ctx)"
    "lp_policy P (proposed_action x) ctx w3 = (Inr pv, w4)" "passed pv"
    unfolding step_recorded_def gates_passed_def by (auto simp: assms(4))
  then have "\<exists>v. policy_check idna g (proposed_action x) = Inr v \<and> passed v" by (auto simp: assms(5))
  with x(1-3) show ?thesis
    unfolding policy_check_inside schema_check_passed schema_refs_passed by (auto simp: image_iff)
qed


section \<open>The permit gate\<close>

definition same_action :: "propose_action \<Rightarrow> propose_action \<Rightarrow> bool" where
  "same_action a b \<longleftrightarrow> action_type a = action_type b \<and> norm_json (VDict (payload a)) = norm_json (VDict (payload b)) \<and>
     rationale a = rationale b \<and> confidence a = confidence b \<and> pa_hypothesis_id a = pa_hypothesis_id b \<and>
     catalog_class_targeted a = catalog_class_targeted b"

lemma action_value_inject [simp]: "action_value a = action_value b \<longleftrightarrow> a = b"
  by (cases a; cases b; simp)

lemma VOptStr_inject [simp]: "VOptStr x = VOptStr y \<longleftrightarrow> x = y"
  by (auto split: option.splits)

lemma request_text_inject:
  assumes "request_text sha fr a ctx = request_text sha fr b ctx'" "\<And>q. float_text (fr q)" "inj fr"
    and "wf_json (VDict (payload a))" "wf_json (VDict (payload b))"
  shows "same_action a b \<and> context_hash sha fr ctx = context_hash sha fr ctx'"
proof -
  let ?body = "\<lambda>a ctx. VDict [(''action'', action_body fr a), (''context_hash'', VStr (context_hash sha fr ctx))]"
  have wf: "wf_json (?body a ctx)" if "wf_json (VDict (payload a))" for a ctx
    using that assms(2) by (simp add: action_body_def split: option.split)
  have "norm_json (?body a ctx) = norm_json (?body b ctx')"
    using canonical_json_inject_gen [OF wf [OF assms(4)] wf [OF assms(5)], of ctx "[]" ctx' "[]"] assms(1)
    by (simp add: request_text_def)
  then have "norm_json (action_body fr a) = norm_json (action_body fr b)" "context_hash sha fr ctx = context_hash sha fr ctx'"
    by (simp_all add: action_body_def)
  then show ?thesis
    using injD [OF assms(3)] by (auto simp: same_action_def action_body_def split: option.splits)
qed

lemma loop_permit_fields [simp]:
  "pe_scope_digest (loop_permit g now nonce a ctx) = request_digest (pt_sha g) (pt_float g) a ctx"
  "pe_expires_at (loop_permit g now nonce a ctx) = now + seconds (pt_ttl g)"
  by (simp_all add: loop_permit_def)

lemma permit_gate_check_Inr:
  assumes "permit_gate_check g now nonce a ctx permits = (Inr v, permits')"
  shows "passed v \<and> permit_id v = Some (''permit-'' @ take 8 nonce) \<and>
     dict_get permits' (''permit-'' @ take 8 nonce) =
       Some ((loop_permit g now nonce a ctx)\<lparr>pe_signature := pt_sign g (signing_payload (pt_float g) (loop_permit g now nonce a ctx))\<rparr>)"
  using assms
  by (auto simp: permit_gate_check_def bind_res_def permit_issue_def ExecutionPermit_check_def Let_def split: sum.splits if_splits)

text \<open>
  A loop permit is good for one action in one context and for its lifetime only. After the gate has issued a permit
  for an action, verifying that permit for a possibly different action and context succeeds exactly when the
  digests of the two requests agree and the permit has not expired; and if the digests agree, then, unless the
  two request texts are a collision of the hash, the actions agree in type, payload (up to the order
  of keys), rationale, confidence, hypothesis and catalogue class, and the contexts have the same hash.
\<close>

theorem loop_permit_exact:
  assumes "\<And>m. pt_check g (pt_sign g m) m" "\<And>q. float_text (pt_float g q)" "inj (pt_float g)"
    and "permit_gate_check g now nonce a ctx permits = (Inr v, permits')" "permit_id v = Some i"
  shows "(permit_gate_verify g now' i b ctx' permits' \<longleftrightarrow>
            request_digest (pt_sha g) (pt_float g) b ctx' = request_digest (pt_sha g) (pt_float g) a ctx \<and> now' < now + seconds (pt_ttl g)) \<and>
         (permit_gate_verify g now' i b ctx' permits' \<longrightarrow> wf_json (VDict (payload a)) \<longrightarrow> wf_json (VDict (payload b)) \<longrightarrow>
            (same_action a b \<and> context_hash (pt_sha g) (pt_float g) ctx = context_hash (pt_sha g) (pt_float g) ctx') \<or>
            (request_text (pt_sha g) (pt_float g) a ctx \<noteq> request_text (pt_sha g) (pt_float g) b ctx' \<and>
             pt_sha g (request_text (pt_sha g) (pt_float g) a ctx) = pt_sha g (request_text (pt_sha g) (pt_float g) b ctx')))"
proof -
  let ?p = "loop_permit g now nonce a ctx"
  have i: "i = ''permit-'' @ take 8 nonce" "dict_get permits' i = Some (?p\<lparr>pe_signature := pt_sign g (signing_payload (pt_float g) ?p)\<rparr>)"
    using permit_gate_check_Inr [OF assms(4)] assms(5) by auto
  have "signing_payload (pt_float g) (?p\<lparr>pe_signature := x\<rparr>) = signing_payload (pt_float g) ?p" for x
    by (simp add: signing_payload_def permit_body_def)
  then have verify: "permit_gate_verify g now' i b ctx' permits' \<longleftrightarrow>
      request_digest (pt_sha g) (pt_float g) b ctx' = request_digest (pt_sha g) (pt_float g) a ctx \<and> now' < now + seconds (pt_ttl g)"
    using i(2) assms(1) by (auto simp: permit_gate_verify_def permit_verify_def)
  moreover have "request_digest (pt_sha g) (pt_float g) b ctx' = request_digest (pt_sha g) (pt_float g) a ctx \<longleftrightarrow>
      pt_sha g (request_text (pt_sha g) (pt_float g) a ctx) = pt_sha g (request_text (pt_sha g) (pt_float g) b ctx')"
    by (auto simp: request_digest_def)
  ultimately show ?thesis
    using request_text_inject [OF _ assms(2,3)] by blast
qed

section \<open>Scheduling\<close>

lemma already_scheduled_iff: "already_scheduled i step st \<longleftrightarrow> (\<exists>j \<in> set (store_all st). idempotency_key j = i @ '':'' @ step)"
  by (simp add: already_scheduled_def list_ex_iff)

lemma store_add_fresh:
  "\<forall>j' \<in> set (store_all st). idempotency_key j' \<noteq> idempotency_key j \<Longrightarrow>
     store_add j st = (j, st\<lparr>jobs := dict_set (job_id j) j (jobs st)\<rparr>)"
  by (simp add: store_add_def store_all_def find_None_iff [THEN iffD2])

text \<open>
  A permitted step becomes one job. For a step number written in decimal, scheduling returns True exactly when the
  permit verifies for the worker and the step was not scheduled before. It then stores the job, ready and under
  the step's own keys, the invariant of the store holds, and scheduling the step again, with whatever
  permit, tool, parameters and worker, adds nothing and returns False; when it returns False it has changed nothing.
\<close>

theorem schedule_enqueues_once:
  assumes "store_inv st" "py_int step = Some n" "int_repr n = step"
    and "schedule check fr now i step tool params permit worker st = (r, st')"
  shows "(r = Inr True \<longleftrightarrow> permit_verify check fr permit now {} (Some worker) = Inr () \<and> \<not> already_scheduled i step st) \<and>
     (r = Inr True \<longrightarrow> store_inv st' \<and> store_get st' (''job:loop:'' @ i @ '':'' @ step) = Some (build_job i n permit tool params) \<and>
        (\<forall>check' fr' now' tool' params' permit' worker'.
           schedule check' fr' now' i step tool' params' permit' worker' st' = (Inr False, st'))) \<and>
     (r \<noteq> Inr True \<longrightarrow> r = Inr False \<and> st' = st)"
proof (cases "permit_verify check fr permit now {} (Some worker) = Inr () \<and> \<not> already_scheduled i step st")
  case True
  let ?j = "build_job i n permit tool params"
  have key: "idempotency_key ?j = i @ '':'' @ step" "job_id ?j = ''job:loop:'' @ i @ '':'' @ step"
    using assms(3) by (simp_all add: build_job_def new_job_def)
  have add: "store_add ?j st = (?j, st\<lparr>jobs := dict_set (job_id ?j) ?j (jobs st)\<rparr>)"
    using True by (intro store_add_fresh) (auto simp: already_scheduled_iff key)
  then have out: "r = Inr True" "st' = st\<lparr>jobs := dict_set (job_id ?j) ?j (jobs st)\<rparr>"
    using True assms(2,4) by (auto simp: schedule_def)
  have inv: "store_inv st'" using store_inv_add [OF assms(1), of ?j] add out(2) by simp
  have get: "store_get st' (job_id ?j) = Some ?j" using out(2) by simp
  have "already_scheduled i step st'"
    using get dict_get_value unfolding already_scheduled_iff store_all_def store_get_def by (metis key(1))
  then have "schedule check' fr' now' i step tool' params' permit' worker' st' = (Inr False, st')"
    for check' fr' now' tool' params' permit' worker'
    by (simp add: schedule_def split: sum.split)
  then show ?thesis using True out(1) inv get key(2) by simp
next
  case False
  then have "r = Inr False \<and> st' = st"
    using assms(4) by (cases "permit_verify check fr permit now {} (Some worker)") (auto simp: schedule_def)
  then show ?thesis using False by auto
qed

text \<open>A step number with a leading zero is another key for the pre-check and the same key for the job.\<close>

lemma schedule_reports_work_it_did_not_add:
  assumes "permit_verify check fr permit now {} (Some worker) = Inr ()" "store_all st = [build_job i 7 permit tool params]"
  shows "schedule check fr now i ''07'' tool params permit worker st = (Inr True, st)"
proof -
  have "py_int ''07'' = Some 7" "int_repr 7 = ''7''" by code_simp+
  moreover from this have "\<not> already_scheduled i ''07'' st"
    using assms(2) by (simp add: already_scheduled_iff build_job_def new_job_def)
  moreover have "store_add (build_job i 7 permit tool params) st = (build_job i 7 permit tool params, st)"
    using assms(2) by (simp add: store_add_def store_all_def)
  ultimately show ?thesis using assms(1) by (simp add: schedule_def)
qed


text \<open>An action that names no target makes the policy gate raise instead of denying it.\<close>

lemma policy_gate_raises_without_target:
  assumes "dict_get (payload a) ''parameters'' = None" "443 \<in> set (sc_ports (pg_scope g))"
  shows "\<exists>e. policy_check idna g a = Inl e"
proof -
  have "isl (normalize_url idna ''<unknown>'')" by code_simp
  then have "\<exists>e. normalize_url idna ''<unknown>'' = Inl e" by (simp add: isl_def)
  then have "\<exists>e. includes_url idna (pg_scope g) ''<unknown>'' = Inl e" by (auto simp: includes_url_def)
  moreover have "includes_port (pg_scope g) 443 = Inr True" using assms(2) by simp
  moreover have "\<exists>rq. action_to_request a = Inr rq \<and> ar_risk rq = ACTIVE \<and> ar_port rq = 443 \<and> ar_target rq = ''<unknown>''"
    using assms(1) by (simp add: action_to_request_def py_or_def payload_get_def py_str_def)
  ultimately show ?thesis by (auto simp: policy_check_def evaluate_def simp del: includes_port_True)
qed

section \<open>Witnesses\<close>

definition sample_action :: propose_action where
  "sample_action = \<lparr>action_type = RUN_TOOL,
     payload = [(''tool_id'', VStr ''nuclei''), (''parameters'', VDict [(''url'', VStr ''https://app.example/x''), (''risk'', VStr ''active'')])],
     rationale = ''r'', confidence = 1, pa_hypothesis_id = None, catalog_class_targeted = None\<rparr>"

definition sample_loop_context :: loop_context where
  "sample_loop_context = demo_context\<lparr>available_tools :=
     [\<lparr>capability_id = ''nuclei'', cap_kind = ''tool'', cap_summary = [], cap_risk_class = ''active'', cap_cwe = []\<rparr>]\<rparr>"

definition sample_gate :: policy_gate where
  "sample_gate = \<lparr>pg_scope = sample_scope, pg_mode = APPROVAL, pg_approved_risks = {PASSIVE, ACTIVE}, pg_approved_capabilities = {''nuclei''}\<rparr>"

definition gated_ports :: "unit loop_ports" where
  "gated_ports = demo_ports\<lparr>lp_build := (\<lambda>_. returnC sample_loop_context), lp_propose := (\<lambda>_. returnC (Some sample_action)),
     lp_schema := (\<lambda>a ctx w. (Inr (schema_check (\<lambda>_. None) (\<lambda>_. []) a ctx), w)),
     lp_policy := (\<lambda>a ctx w. (policy_check (\<lambda>_. None) sample_gate a, w))\<rparr>"

theorem schema_gate_passes_iff_witness:
  "passed (schema_check (\<lambda>_. None) (\<lambda>_. []) sample_action sample_loop_context)"
  by (subst schema_gate_passes_iff) (simp add: sample_action_def sample_loop_context_def)

theorem loop_steps_inside_policy_witness:
  "\<exists>x rq. lw_steps (snd (run_step gated_ports demo_env ''0000000a'' (demo_loop_world INITIALIZING))) = [x] \<and>
     action_to_request (proposed_action x) = Inr rq \<and> inside_policy (\<lambda>_. None) sample_gate rq \<and>
     (ar_risk rq \<in> {PASSIVE, LOW} \<or> ar_capability rq = ''nuclei'')"
proof -
  let ?s' = "snd (run_step gated_ports demo_env ''0000000a'' (demo_loop_world INITIALIZING))"
  have "lw_steps ?s' \<noteq> []" by code_simp
  then have "lw_steps ?s' \<noteq> lw_steps (demo_loop_world INITIALIZING)" by (simp add: demo_loop_world_def)
  from loop_steps_inside_policy [OF demo_world_inv prod.collapse [symmetric] this,
      of "\<lambda>_. None" "\<lambda>_. []" "\<lambda>_. None" sample_gate]
  show ?thesis by (auto simp: gated_ports_def demo_loop_world_def) (auto simp: inside_policy_def sample_gate_def)
qed

definition sample_permit_gate :: permit_gate where
  "sample_permit_gate = \<lparr>pt_sha = id, pt_float = rat_numeral, pt_ttl = 900, pt_sign = id, pt_check = (=)\<rparr>"

theorem loop_permit_exact_witness:
  "\<exists>v permits. permit_gate_check sample_permit_gate 0 ''abcdefgh1'' sample_action sample_loop_context [] = (Inr v, permits) \<and>
     permit_id v = Some ''permit-abcdefgh'' \<and>
     permit_gate_verify sample_permit_gate 1 ''permit-abcdefgh'' sample_action sample_loop_context permits \<and>
     \<not> permit_gate_verify sample_permit_gate 900000000 ''permit-abcdefgh'' sample_action sample_loop_context permits"
proof -
  obtain v permits where v: "permit_gate_check sample_permit_gate 0 ''abcdefgh1'' sample_action sample_loop_context [] = (Inr v, permits)"
    "permit_id v = Some ''permit-abcdefgh''"
    by (simp add: permit_gate_check_def permit_issue_def ExecutionPermit_check_def loop_permit_def loop_job_id_def
        sample_permit_gate_def seconds_def Let_def)
  from loop_permit_exact [OF _ _ _ v] show ?thesis
    using v rat_numeral_ok by (simp add: sample_permit_gate_def seconds_def)
qed

theorem schedule_enqueues_once_witness:
  "\<exists>st'. schedule (=) rat_numeral 0 ''l1'' ''7'' ''nuclei'' [] (sample_permit\<lparr>pe_signature := signing_payload rat_numeral sample_permit\<rparr>)
           ''adapter-executor'' \<lparr>jobs = [], ttl = 300\<rparr> = (Inr True, st') \<and> store_inv st' \<and>
     store_get st' ''job:loop:l1:7'' \<noteq> None"
proof -
  let ?p = "sample_permit\<lparr>pe_signature := signing_payload rat_numeral sample_permit\<rparr>"
  have n: "py_int ''7'' = Some 7" "int_repr 7 = ''7''" by code_simp+
  obtain r st' where s: "schedule (=) rat_numeral 0 ''l1'' ''7'' ''nuclei'' [] ?p ''adapter-executor'' \<lparr>jobs = [], ttl = 300\<rparr> = (r, st')"
    by fastforce
  have "permit_verify (=) rat_numeral ?p 0 {} (Some ''adapter-executor'') = Inr ()"
    by (simp add: permit_verify_Inr signing_payload_def permit_body_def sample_permit_def)
  with schedule_enqueues_once [OF _ n s] s show ?thesis
    by (simp add: store_inv_def already_scheduled_def store_all_def)
qed

end
