(* ===== verification/Chains.thy ===== *)
theory Chains
  imports Loop_Model Findings "HOL-Library.Product_Lexorder"
begin

text \<open>
  Attack chains: ordered templates of weaknesses (\<^verbatim>\<open>domain/findings/chain_templates.py\<close>), chains of links that
  are confirmed findings or pending verifications (\<^verbatim>\<open>attack_chain.py\<close>), the engine that forms them from
  templates and from proposals (\<^verbatim>\<open>application/chain_engine.py\<close>), and the bridge that hands the pending links to
  the reasoning loop under stable ids (\<^verbatim>\<open>application/reasoning_loop/chain_bridge.py\<close>). The successive results
  of \<^verbatim>\<open>uuid4().hex\<close> are \<open>uid 0\<close>, \<open>uid 1\<close>, \<dots>, counted by an argument; \<open>sha\<close> is the hexadecimal SHA-256.
\<close>

section \<open>Templates\<close>

record chain_link_spec =
  cwe_any :: "string list"
  asset_pattern :: string

record chain_template =
  tpl_id :: string
  tpl_name :: string
  tpl_links :: "chain_link_spec list"
  tpl_tactic :: string

definition AttackChainTemplate_check :: "chain_template \<Rightarrow> chain_template result" where
  "AttackChainTemplate_check t =
     (if tpl_id t = [] then Inl (DomainValidationError ''AttackChainTemplate.id must be non-empty'')
      else if length (tpl_links t) < 2 then Inl (DomainValidationError ''AttackChainTemplate needs at least 2 links'')
      else Inr t)"

definition link_matches :: "chain_link_spec \<Rightarrow> string list \<Rightarrow> string \<Rightarrow> bool" where
  "link_matches l cwes asset \<longleftrightarrow>
     set (cwe_any l) \<inter> set cwes \<noteq> {} \<and> \<not> (asset_pattern l \<noteq> [] \<and> \<not> contains_str asset (asset_pattern l))"

text \<open>The inner loop: the first index from \<open>position\<close> on whose element matches.\<close>

definition first_match :: "('f \<Rightarrow> bool) \<Rightarrow> 'f list \<Rightarrow> nat \<Rightarrow> nat option" where
  "first_match p fs position = List.find (\<lambda>i. p (fs ! i)) [position..<length fs]"

fun match_links :: "chain_link_spec list \<Rightarrow> (string list \<times> string) list \<Rightarrow> nat \<Rightarrow> bool" where
  "match_links [] fs position = True"
| "match_links (l # ls) fs position =
     (case first_match (\<lambda>(cwes, asset). link_matches l cwes asset) fs position of
        None \<Rightarrow> False
      | Some i \<Rightarrow> match_links ls fs (i + 1))"

definition match_template :: "chain_template \<Rightarrow> (string list \<times> string) list \<Rightarrow> bool" where
  "match_template t fs = match_links (tpl_links t) fs 0"

definition any_link :: "string list \<Rightarrow> chain_link_spec" where
  "any_link cwes = \<lparr>cwe_any = cwes, asset_pattern = []\<rparr>"

definition default_chain_templates :: "chain_template list" where
  "default_chain_templates =
     [\<lparr>tpl_id = ''ssrf-to-cloud-creds'', tpl_name = ''SSRF -> cloud metadata -> credential leak'',
       tpl_links = [any_link [''CWE-918''], \<lparr>cwe_any = [''CWE-918'', ''CWE-200''], asset_pattern = ''169.254.169.254''\<rparr>,
         any_link [''CWE-522'', ''CWE-312'', ''CWE-200'']], tpl_tactic = ''credential-access''\<rparr>,
      \<lparr>tpl_id = ''auth-bypass-plus-idor'', tpl_name = ''Authentication bypass -> IDOR horizontal escalation'',
       tpl_links = [any_link [''CWE-287'', ''CWE-288''], any_link [''CWE-639'', ''CWE-284'']], tpl_tactic = ''privilege-escalation''\<rparr>,
      \<lparr>tpl_id = ''sqli-to-credential-theft'', tpl_name = ''SQL injection -> credential dump -> credential stuffing'',
       tpl_links = [any_link [''CWE-89''], any_link [''CWE-256'', ''CWE-312'', ''CWE-200''], any_link [''CWE-798'', ''CWE-640'']],
       tpl_tactic = ''credential-access''\<rparr>,
      \<lparr>tpl_id = ''xss-to-session-theft'', tpl_name = ''Stored XSS -> session token theft -> account takeover'',
       tpl_links = [any_link [''CWE-79''], any_link [''CWE-384'', ''CWE-614''], any_link [''CWE-287'']], tpl_tactic = ''collection''\<rparr>,
      \<lparr>tpl_id = ''weak-creds-to-admin-takeover'', tpl_name = ''Weak credentials -> admin panel -> privilege abuse'',
       tpl_links = [any_link [''CWE-521'', ''CWE-798''], any_link [''CWE-269'', ''CWE-285'']], tpl_tactic = ''privilege-escalation''\<rparr>]"

section \<open>Chains\<close>

datatype chain_status = HYPOTHESIS | PARTIALLY_VERIFIED | CHAIN_CONFIRMED | CHAIN_REFUTED

record chain_link =
  confirmed_finding_id :: string
  pending_verification_key :: string
  link_note :: string

definition ChainLink_check :: "chain_link \<Rightarrow> chain_link result" where
  "ChainLink_check l =
     (if confirmed_finding_id l = [] \<and> pending_verification_key l = []
      then Inl (DomainValidationError ''ChainLink needs confirmed_finding_id or pending_verification_key'') else Inr l)"

definition is_confirmed :: "chain_link \<Rightarrow> bool" where
  "is_confirmed l \<longleftrightarrow> confirmed_finding_id l \<noteq> []"

record attack_chain =
  ac_id :: string
  ac_template_id :: string
  ac_source :: string
  ac_links :: "chain_link list"
  ac_status :: chain_status
  ac_severity :: severity

definition AttackChain_check :: "attack_chain \<Rightarrow> attack_chain result" where
  "AttackChain_check c =
     (if ac_id c = [] then Inl (DomainValidationError ''AttackChain.id must be non-empty'')
      else if length (ac_links c) < 2 then Inl (DomainValidationError ''AttackChain needs at least 2 links'')
      else Inr c)"

definition all_links_confirmed :: "attack_chain \<Rightarrow> bool" where
  "all_links_confirmed c = list_all is_confirmed (ac_links c)"

definition SEVERITY_ORDER :: "severity list" where
  "SEVERITY_ORDER = [INFO, severity.LOW, MEDIUM, HIGH, CRITICAL]"

definition severity_index :: "severity \<Rightarrow> nat" where
  "severity_index s = length (takeWhile (\<lambda>x. x \<noteq> s) SEVERITY_ORDER)"

definition composite_severity :: "severity list \<Rightarrow> bool \<Rightarrow> severity" where
  "composite_severity ss asset_critical =
     (case ss of
        [] \<Rightarrow> INFO
      | s # rest \<Rightarrow>
          let top = max_by severity_index s rest in
          if asset_critical then SEVERITY_ORDER ! min (severity_index top + 1) (length SEVERITY_ORDER - 1) else top)"

section \<open>The engine\<close>

text \<open>\<^verbatim>\<open>repr\<close> of a tuple of strings.\<close>

definition tuple_repr :: "string list \<Rightarrow> string" where
  "tuple_repr xs = (case xs of [x] \<Rightarrow> ''('' @ repr_str x @ '',)'' | _ \<Rightarrow> ''('' @ join '', '' (map repr_str xs) @ '')'')"

definition link_status :: "chain_link list \<Rightarrow> chain_status" where
  "link_status links =
     (if list_all is_confirmed links then CHAIN_CONFIRMED
      else if links \<noteq> [] \<and> is_confirmed (hd links) then PARTIALLY_VERIFIED else HYPOTHESIS)"

definition pending_link :: "(nat \<Rightarrow> string) \<Rightarrow> nat \<Rightarrow> string \<Rightarrow> chain_link" where
  "pending_link uid n note = \<lparr>confirmed_finding_id = [], pending_verification_key = ''pv-'' @ take 10 (uid n), link_note = note\<rparr>"

definition confirmed_link :: "string \<Rightarrow> chain_link" where
  "confirmed_link i = \<lparr>confirmed_finding_id = i, pending_verification_key = [], link_note = []\<rparr>"

definition spec_matches :: "chain_link_spec \<Rightarrow> finding \<Rightarrow> bool" where
  "spec_matches l f = link_matches l (fi_cwe f) (fi_asset f)"

fun bind_links ::
  "(nat \<Rightarrow> string) \<Rightarrow> nat \<Rightarrow> finding list \<Rightarrow> nat \<Rightarrow> chain_link_spec list \<Rightarrow> (chain_link list \<times> nat) result" where
  "bind_links uid n fs position [] = Inr ([], n)"
| "bind_links uid n fs position (l # ls) =
     (case first_match (spec_matches l) fs position of
        Some i \<Rightarrow>
          bind_res (ChainLink_check (confirmed_link (fi_id (fs ! i)))) (\<lambda>lk.
          bind_res (bind_links uid n fs (i + 1) ls) (\<lambda>(lks, n'). Inr (lk # lks, n')))
      | None \<Rightarrow>
          bind_res (ChainLink_check (pending_link uid n (''requires CWE any of '' @ tuple_repr (cwe_any l)))) (\<lambda>lk.
          bind_res (bind_links uid (n + 1) fs position ls) (\<lambda>(lks, n'). Inr (lk # lks, n'))))"

text \<open>The dictionary of the findings by id: a later finding replaces an earlier one with the same id.\<close>

definition by_id :: "finding list \<Rightarrow> (string \<times> finding) list" where
  "by_id fs = foldl (\<lambda>d f. dict_set (fi_id f) f d) [] fs"

definition confirmed_severities :: "chain_link list \<Rightarrow> finding list \<Rightarrow> severity list" where
  "confirmed_severities links fs =
     List.map_filter (\<lambda>l. if is_confirmed l then map_option fi_severity (dict_get (by_id fs) (confirmed_finding_id l)) else None) links"

definition engine_match_template ::
  "(nat \<Rightarrow> string) \<Rightarrow> nat \<Rightarrow> finding list \<Rightarrow> chain_template \<Rightarrow> (attack_chain option \<times> nat) result" where
  "engine_match_template uid n fs t =
     bind_res (bind_links uid n fs 0 (tpl_links t)) (\<lambda>(links, n1).
       if \<not> list_ex is_confirmed links then Inr (None, n1)
       else bind_res (AttackChain_check
              \<lparr>ac_id = ''chain-'' @ tpl_id t @ ''-'' @ take 8 (uid n1), ac_template_id = tpl_id t, ac_source = ''template'',
               ac_links = links, ac_status = link_status links,
               ac_severity = composite_severity (confirmed_severities links fs) False\<rparr>) (\<lambda>c. Inr (Some c, n1 + 1)))"

fun hypothesize_templates ::
  "(nat \<Rightarrow> string) \<Rightarrow> nat \<Rightarrow> finding list \<Rightarrow> chain_template list \<Rightarrow> (attack_chain list \<times> nat) result" where
  "hypothesize_templates uid n fs [] = Inr ([], n)"
| "hypothesize_templates uid n fs (t # ts) =
     bind_res (engine_match_template uid n fs t) (\<lambda>(oc, n1).
     bind_res (hypothesize_templates uid n1 fs ts) (\<lambda>(cs, n2).
       Inr (case oc of None \<Rightarrow> cs | Some c \<Rightarrow> c # cs, n2)))"

definition validated :: "finding list \<Rightarrow> finding list" where
  "validated fs = filter (\<lambda>f. fi_status f = VALIDATED) fs"

definition hypothesize_from_findings ::
  "(nat \<Rightarrow> string) \<Rightarrow> nat \<Rightarrow> chain_template list \<Rightarrow> finding list \<Rightarrow> (attack_chain list \<times> nat) result" where
  "hypothesize_from_findings uid n templates fs = hypothesize_templates uid n (validated fs) templates"

record pending_task =
  pt_key :: string
  pt_chain_id :: string
  pt_required_cwe :: "string list"
  pt_asset_hint :: string

text \<open>\<^verbatim>\<open>zip(..., strict=True)\<close> raises when the lengths differ.\<close>

definition tasks_for :: "chain_template list \<Rightarrow> attack_chain \<Rightarrow> pending_task list result" where
  "tasks_for templates c =
     (case List.find (\<lambda>t. tpl_id t = ac_template_id c) templates of
        None \<Rightarrow> Inr []
      | Some t \<Rightarrow>
          if length (ac_links c) \<noteq> length (tpl_links t) then Inl (ValueError ''zip() arguments have different lengths'')
          else Inr (map (\<lambda>(l, s). \<lparr>pt_key = pending_verification_key l, pt_chain_id = ac_id c, pt_required_cwe = cwe_any s,
                                  pt_asset_hint = asset_pattern s\<rparr>)
                      (filter (\<lambda>(l, s). \<not> is_confirmed l) (zip (ac_links c) (tpl_links t)))))"

definition pending_verification_tasks :: "chain_template list \<Rightarrow> attack_chain list \<Rightarrow> pending_task list result" where
  "pending_verification_tasks templates cs = bind_res (map_res (tasks_for templates) cs) (\<lambda>tss. Inr (concat tss))"

record chain_proposal =
  pr_proposer :: string
  pr_template_hint :: string
  pr_finding_ids :: "string list"

fun proposal_links ::
  "(nat \<Rightarrow> string) \<Rightarrow> nat \<Rightarrow> (string \<times> finding) list \<Rightarrow> string \<Rightarrow> string list \<Rightarrow> (chain_link list \<times> nat) result" where
  "proposal_links uid n known proposer [] = Inr ([], n)"
| "proposal_links uid n known proposer (i # is) =
     (if dict_get known i \<noteq> None then
        bind_res (ChainLink_check (confirmed_link i)) (\<lambda>lk.
        bind_res (proposal_links uid n known proposer is) (\<lambda>(lks, n'). Inr (lk # lks, n')))
      else
        bind_res (ChainLink_check (pending_link uid n (''proposed by '' @ proposer))) (\<lambda>lk.
        bind_res (proposal_links uid (n + 1) known proposer is) (\<lambda>(lks, n'). Inr (lk # lks, n'))))"

text \<open>\<^verbatim>\<open>validated_by_id[...]\<close> of a confirmed link: the key is present, since only known ids were bound.\<close>

definition proposal_severities :: "(string \<times> finding) list \<Rightarrow> chain_link list \<Rightarrow> severity list result" where
  "proposal_severities known links =
     map_res (\<lambda>l. case dict_get known (confirmed_finding_id l) of None \<Rightarrow> Inl (KeyError (confirmed_finding_id l)) | Some f \<Rightarrow> Inr (fi_severity f))
       (filter is_confirmed links)"

definition proposal_chain ::
  "(nat \<Rightarrow> string) \<Rightarrow> nat \<Rightarrow> (string \<times> finding) list \<Rightarrow> chain_proposal \<Rightarrow> (attack_chain option \<times> nat) result" where
  "proposal_chain uid n known p =
     bind_res (proposal_links uid n known (pr_proposer p) (pr_finding_ids p)) (\<lambda>(links, n1).
       if length links < 2 then Inr (None, n1)
       else bind_res (proposal_severities known links) (\<lambda>ss.
            bind_res (AttackChain_check
              \<lparr>ac_id = ''chain-'' @ take 12 (uid n1), ac_template_id = pr_template_hint p,
               ac_source = (if starts_with (pr_proposer p) ''peer:'' then ''peer_claim'' else ''llm_proposal''),
               ac_links = links, ac_status = link_status links, ac_severity = composite_severity ss False\<rparr>) (\<lambda>c. Inr (Some c, n1 + 1))))"

fun hypothesize_proposals ::
  "(nat \<Rightarrow> string) \<Rightarrow> nat \<Rightarrow> (string \<times> finding) list \<Rightarrow> chain_proposal list \<Rightarrow> (attack_chain list \<times> nat) result" where
  "hypothesize_proposals uid n known [] = Inr ([], n)"
| "hypothesize_proposals uid n known (p # ps) =
     bind_res (proposal_chain uid n known p) (\<lambda>(oc, n1).
     bind_res (hypothesize_proposals uid n1 known ps) (\<lambda>(cs, n2).
       Inr (case oc of None \<Rightarrow> cs | Some c \<Rightarrow> c # cs, n2)))"

definition hypothesize_from_proposals ::
  "(nat \<Rightarrow> string) \<Rightarrow> nat \<Rightarrow> chain_proposal list \<Rightarrow> finding list \<Rightarrow> (attack_chain list \<times> nat) result" where
  "hypothesize_from_proposals uid n ps fs = hypothesize_proposals uid n (by_id (validated fs)) ps"

section \<open>The bridge\<close>

record hypothesis_record =
  hr_id :: string
  hr_chain_id :: string
  hr_link_index :: nat
  hr_required_cwe :: "string list"
  hr_progressed :: bool

type_synonym hypotheses_store = "(string \<times> hypothesis_record) list"

definition store_hypothesis :: "string \<Rightarrow> string \<Rightarrow> nat \<Rightarrow> string list \<Rightarrow> hypotheses_store \<Rightarrow> hypotheses_store" where
  "store_hypothesis i chain_id k cwes st =
     (case dict_get st i of
        None \<Rightarrow> dict_set i \<lparr>hr_id = i, hr_chain_id = chain_id, hr_link_index = k, hr_required_cwe = cwes, hr_progressed = False\<rparr> st
      | Some _ \<Rightarrow> st)"

definition mark_progress :: "string \<Rightarrow> hypotheses_store \<Rightarrow> hypotheses_store" where
  "mark_progress i st =
     (case dict_get st i of
        Some r \<Rightarrow> if hr_progressed r then st else dict_set i (r\<lparr>hr_progressed := True\<rparr>) st
      | None \<Rightarrow> st)"

text \<open>\<^verbatim>\<open>record is not None and record.progressed\<close>\<close>

definition progressed :: "hypotheses_store \<Rightarrow> string \<Rightarrow> bool" where
  "progressed st i \<longleftrightarrow> (case dict_get st i of Some r \<Rightarrow> hr_progressed r | None \<Rightarrow> False)"

record chain_bridge =
  br_store :: hypotheses_store
  br_last_chains :: "attack_chain list"

definition canonical_id :: "(string \<Rightarrow> string) \<Rightarrow> string \<Rightarrow> nat \<Rightarrow> string list \<Rightarrow> string" where
  "canonical_id sha template_id k cwes =
     ''hyp-'' @ take 12 (sha (template_id @ '':'' @ nat_repr k @ '':'' @ join '','' (sort cwes)))"

definition to_hypothesis :: "string \<Rightarrow> pending_task \<Rightarrow> pending_hypothesis" where
  "to_hypothesis i task =
     (let cwe_label = (if pt_required_cwe task = [] then ''evidence'' else join ''/'' (pt_required_cwe task));
          asset_hint = (if pt_asset_hint task = [] then ''the target asset'' else pt_asset_hint task) in
      \<lparr>hyp_id = i, hyp_description = ''confirm '' @ [CHR 0x27] @ cwe_label @ [CHR 0x27] @ '' evidence on '' @ asset_hint,
       needed_cwe = pt_required_cwe task\<rparr>)"

text \<open>
  The loop over the enumerated links of one chain, with the iterator over the tasks: it ends early when the
  tasks are used up.
\<close>

fun sync_links ::
  "(string \<Rightarrow> string) \<Rightarrow> attack_chain \<Rightarrow> (nat \<times> chain_link) list \<Rightarrow> pending_task list \<Rightarrow> hypotheses_store \<Rightarrow>
   pending_hypothesis list \<times> pending_task list \<times> hypotheses_store" where
  "sync_links sha c [] tasks st = ([], tasks, st)"
| "sync_links sha c ((k, l) # ls) tasks st =
     (if is_confirmed l then sync_links sha c ls tasks st
      else case tasks of
        [] \<Rightarrow> ([], [], st)
      | task # rest \<Rightarrow>
          let i = canonical_id sha (ac_template_id c) k (pt_required_cwe task) in
          if progressed st i then sync_links sha c ls rest st
          else case sync_links sha c ls rest (store_hypothesis i (ac_id c) k (pt_required_cwe task) st) of
                 (hs, rest', st') \<Rightarrow> (to_hypothesis i task # hs, rest', st'))"

fun sync_chains ::
  "(string \<Rightarrow> string) \<Rightarrow> attack_chain list \<Rightarrow> pending_task list \<Rightarrow> hypotheses_store \<Rightarrow> pending_hypothesis list \<times> hypotheses_store" where
  "sync_chains sha [] tasks st = ([], st)"
| "sync_chains sha (c # cs) tasks st =
     (case sync_links sha c (enumerate 0 (ac_links c)) tasks st of
        (hs, tasks', st') \<Rightarrow> (case sync_chains sha cs tasks' st' of (hs', st'') \<Rightarrow> (hs @ hs', st'')))"

definition bridge_sync ::
  "(string \<Rightarrow> string) \<Rightarrow> chain_template list \<Rightarrow> (nat \<Rightarrow> string) \<Rightarrow> finding list \<Rightarrow> (chain_bridge, pending_hypothesis list) cmd" where
  "bridge_sync sha templates uid fs b =
     (case hypothesize_from_findings uid 0 templates fs of
        Inl e \<Rightarrow> (Inl e, b)
      | Inr (cs, _) \<Rightarrow>
          (case pending_verification_tasks templates cs of
             Inl e \<Rightarrow> (Inl e, b\<lparr>br_last_chains := cs\<rparr>)
           | Inr tasks \<Rightarrow>
               (case sync_chains sha cs tasks (br_store b) of
                  (hs, st) \<Rightarrow> (Inr hs, \<lparr>br_store = st, br_last_chains = cs\<rparr>))))"

definition concluded_chains :: "chain_bridge \<Rightarrow> string list" where
  "concluded_chains b = sort (map ac_template_id (filter (\<lambda>c. ac_status c = CHAIN_CONFIRMED) (br_last_chains b)))"

definition valid_hypothesis :: "string \<Rightarrow> pending_hypothesis list \<Rightarrow> bool" where
  "valid_hypothesis i pending = list_ex (\<lambda>h. hyp_id h = i) pending"

definition mark_pending_progress :: "string \<Rightarrow> chain_bridge \<Rightarrow> chain_bridge" where
  "mark_pending_progress i b = b\<lparr>br_store := mark_progress i (br_store b)\<rparr>"

record pending_priority =
  pp_hypothesis_id :: string
  pp_score :: int
  pp_chain_id :: "string option"

definition next_priorities :: "pending_hypothesis list \<Rightarrow> chain_bridge \<Rightarrow> pending_priority list" where
  "next_priorities pending b =
     sort_key (\<lambda>p. (- pp_score p, pp_hypothesis_id p))
       (map (\<lambda>h. let r = dict_get (br_store b) (hyp_id h) in
                 \<lparr>pp_hypothesis_id = hyp_id h,
                  pp_score = - int (case r of None \<Rightarrow> 0 | Some r \<Rightarrow> hr_link_index r) * 10 - int (length (needed_cwe h)),
                  pp_chain_id = map_option hr_chain_id r\<rparr>) pending)"

end
