(* ===== verification/Chain_Safety.thy ===== *)
theory Chain_Safety
  imports Chains
begin

text \<open>
  What the chain engine and its bridge guarantee: greedy matching finds a match whenever there is one, chains
  rest on validated findings only, and the pending hypotheses have stable ids and a final progress mark.
\<close>

section \<open>Greedy matching\<close>

lemma first_match_Some:
  "first_match p fs k = Some i \<longleftrightarrow> k \<le> i \<and> i < length fs \<and> p (fs ! i) \<and> (\<forall>j. k \<le> j \<and> j < i \<longrightarrow> \<not> p (fs ! j))"
  unfolding first_match_def find_Some_iff
proof safe
  fix m assume m: "m < length [k..<length fs]" "p (fs ! ([k..<length fs] ! m))" "i = [k..<length fs] ! m"
    "\<forall>j<m. \<not> p (fs ! ([k..<length fs] ! j))"
  then show "k \<le> [k..<length fs] ! m" "[k..<length fs] ! m < length fs" by simp_all
  fix j assume "k \<le> j" "j < [k..<length fs] ! m" "p (fs ! j)"
  with m show False by (auto dest!: spec [of _ "j - k"])
next
  assume "k \<le> i" "i < length fs" "p (fs ! i)" "\<forall>j. k \<le> j \<and> j < i \<longrightarrow> \<not> p (fs ! j)"
  then show "\<exists>m<length [k..<length fs]. p (fs ! ([k..<length fs] ! m)) \<and> i = [k..<length fs] ! m \<and>
      (\<forall>j<m. \<not> p (fs ! ([k..<length fs] ! j)))"
    by (intro exI [of _ "i - k"]) auto
qed

lemma first_match_None: "first_match p fs k = None \<longleftrightarrow> (\<forall>x \<in> set (drop k fs). \<not> p x)"
proof -
  have "set (drop k fs) = (\<lambda>i. fs ! i) ` set [k..<length fs]"
    by (metis map_nth drop_map drop_upt list.set_map add_0)
  then show ?thesis
    by (auto simp: first_match_def find_None_iff)
qed

lemma first_match_map: "first_match p (map g fs) k = first_match (\<lambda>x. p (g x)) fs k"
  unfolding first_match_def length_map by (rule find_cong) simp_all

text \<open>The specification: some subsequence of the findings matches the links one by one.\<close>

definition matched_in_order :: "('a \<Rightarrow> 'b \<Rightarrow> bool) \<Rightarrow> 'a list \<Rightarrow> 'b list \<Rightarrow> bool" where
  "matched_in_order R ls fs \<longleftrightarrow> (\<exists>gs. subseq gs fs \<and> list_all2 R ls gs)"

lemma matched_in_order_simps [simp]:
  "matched_in_order R [] fs" "\<not> matched_in_order R (l # ls) []"
  by (auto simp: matched_in_order_def list_all2_Cons1 intro: exI [of _ "[]"])

lemma matched_skip: "\<not> R l f \<Longrightarrow> matched_in_order R (l # ls) (f # fs) \<longleftrightarrow> matched_in_order R (l # ls) fs"
  by (auto simp: matched_in_order_def list_all2_Cons1 subseq_Cons2_iff split: if_splits intro: subseq_Cons')

lemma matched_skip_all: "\<forall>u \<in> set us. \<not> R l u \<Longrightarrow> matched_in_order R (l # ls) (us @ fs) \<longleftrightarrow> matched_in_order R (l # ls) fs"
  by (induction us) (simp_all add: matched_skip)

lemma matched_first:
  assumes "R l f"
  shows "matched_in_order R (l # ls) (f # fs) \<longleftrightarrow> matched_in_order R ls fs"
proof
  assume "matched_in_order R (l # ls) (f # fs)"
  then obtain g gs where "subseq (g # gs) (f # fs)" "list_all2 R ls gs"
    by (auto simp: matched_in_order_def list_all2_Cons1)
  then show "matched_in_order R ls fs"
    by (auto simp: matched_in_order_def subseq_Cons2_iff split: if_splits intro: subseq_Cons')
next
  assume "matched_in_order R ls fs"
  then show "matched_in_order R (l # ls) (f # fs)"
    using assms by (auto simp: matched_in_order_def list_all2_Cons1 intro: subseq_Cons2 dest: subseq_Cons2)
qed

lemma matched_map: "matched_in_order R ls (map g fs) \<longleftrightarrow> matched_in_order (\<lambda>l f. R l (g f)) ls fs"
proof (induction fs arbitrary: ls)
  case Nil then show ?case by (cases ls) simp_all
next
  case (Cons f fs)
  show ?case
  proof (cases ls)
    case (Cons l ls')
    with Cons.IH show ?thesis
      by (cases "R l (g f)") (simp_all add: matched_skip matched_first)
  qed simp
qed

lemma match_links_matched: "match_links ls fs k \<longleftrightarrow> matched_in_order (\<lambda>l f. link_matches l (fst f) (snd f)) ls (drop k fs)"
proof (induction ls arbitrary: k)
  case (Cons l ls)
  let ?p = "\<lambda>(cwes, asset). link_matches l cwes asset"
  show ?case
  proof (cases "first_match ?p fs k")
    case None
    then have "\<forall>u \<in> set (drop k fs). \<not> link_matches l (fst u) (snd u)"
      by (simp add: first_match_None case_prod_unfold)
    with None show ?thesis
      using matched_skip_all [of "drop k fs" "\<lambda>l f. link_matches l (fst f) (snd f)" l ls "[]"] by simp
  next
    case (Some i)
    then have i: "k \<le> i" "i < length fs" "?p (fs ! i)" "\<forall>j. k \<le> j \<and> j < i \<longrightarrow> \<not> ?p (fs ! j)"
      by (simp_all add: first_match_Some)
    define us where "us = take (i - k) (drop k fs)"
    have split: "drop k fs = us @ fs ! i # drop (Suc i) fs"
      unfolding us_def using i(1,2) by (metis append_take_drop_id drop_drop le_add_diff_inverse2 Cons_nth_drop_Suc)
    have us: "\<forall>u \<in> set us. \<not> link_matches l (fst u) (snd u)"
    proof
      fix u assume "u \<in> set us"
      then obtain m where "m < i - k" "u = fs ! (k + m)" using i(2) by (auto simp: us_def in_set_conv_nth)
      then show "\<not> link_matches l (fst u) (snd u)" using i(4) [rule_format, of "k + m"] by (simp add: case_prod_unfold)
    qed
    have "match_links (l # ls) fs k = match_links ls fs (Suc i)"
      using Some by simp
    also have "\<dots> = matched_in_order (\<lambda>l f. link_matches l (fst f) (snd f)) (l # ls) (fs ! i # drop (Suc i) fs)"
      using i(3) by (simp add: Cons.IH matched_first case_prod_unfold)
    finally show ?thesis
      unfolding split using matched_skip_all [where R = "\<lambda>l f. link_matches l (fst f) (snd f)", OF us] by simp
  qed
qed simp

text \<open>
  The greedy matcher decides the specification: a template matches a list of findings exactly when some
  subsequence of the findings matches its links one by one, although the code never reconsiders a choice.
\<close>

lemma match_template_decides_subsequence:
  "match_template t fs \<longleftrightarrow> matched_in_order (\<lambda>l f. link_matches l (fst f) (snd f)) (tpl_links t) fs"
  by (simp add: match_template_def match_links_matched)

section \<open>Chains from templates\<close>

lemma link_checks [simp]:
  "i \<noteq> [] \<Longrightarrow> ChainLink_check (confirmed_link i) = Inr (confirmed_link i)"
  "ChainLink_check (pending_link uid n note) = Inr (pending_link uid n note)"
  "is_confirmed (confirmed_link i) \<longleftrightarrow> i \<noteq> []" "\<not> is_confirmed (pending_link uid n note)"
  "confirmed_finding_id (confirmed_link i) = i" "confirmed_finding_id (pending_link uid n note) = []"
  "pending_verification_key (confirmed_link i) = []" "pending_verification_key (pending_link uid n note) \<noteq> []"
  by (simp_all add: ChainLink_check_def confirmed_link_def pending_link_def is_confirmed_def)

lemma ChainLink_check_Inr [simp]: "ChainLink_check l = Inr l' \<longleftrightarrow> l' = l \<and> (is_confirmed l \<or> pending_verification_key l \<noteq> [])"
  by (auto simp: ChainLink_check_def is_confirmed_def)

lemma bind_links_total:
  assumes "\<forall>f \<in> set fs. fi_id f \<noteq> []"
  shows "\<exists>lks n'. bind_links uid n fs k ls = Inr (lks, n') \<and>
    (list_all is_confirmed lks \<longleftrightarrow> match_links ls (map (\<lambda>f. (fi_cwe f, fi_asset f)) fs) k)"
proof (induction ls arbitrary: n k)
  case (Cons l ls)
  have fm: "first_match (\<lambda>(cwes, asset). link_matches l cwes asset) (map (\<lambda>f. (fi_cwe f, fi_asset f)) fs) k =
      first_match (spec_matches l) fs k"
    by (simp add: first_match_map spec_matches_def [abs_def])
  show ?case
  proof (cases "first_match (spec_matches l) fs k")
    case None
    then show ?thesis using Cons.IH [of "n + 1" k] fm by auto
  next
    case (Some i)
    then have "fi_id (fs ! i) \<noteq> []" using assms by (simp add: first_match_Some)
    then show ?thesis using Some Cons.IH [of n "i + 1"] fm by auto
  qed
qed simp

lemma bind_links_bound:
  "bind_links uid n fs k ls = Inr (lks, n') \<Longrightarrow>
     length lks = length ls \<and> (\<forall>l \<in> set lks. is_confirmed l \<longrightarrow> (\<exists>f \<in> set fs. fi_id f = confirmed_finding_id l))"
proof (induction ls arbitrary: n k lks n')
  case (Cons l ls)
  then show ?case
    by (fastforce simp: bind_res_Inr_iff first_match_Some split: option.splits)
qed simp

lemma link_status_simps:
  "link_status lks = CHAIN_CONFIRMED \<longleftrightarrow> list_all is_confirmed lks" "link_status lks \<noteq> CHAIN_REFUTED"
  by (simp_all add: link_status_def)

lemma engine_match_Some:
  assumes "engine_match_template uid n fs t = Inr (Some c, n')"
  shows "\<exists>m. bind_links uid n fs 0 (tpl_links t) = Inr (ac_links c, m) \<and> ac_template_id c = tpl_id t \<and>
    ac_status c = link_status (ac_links c) \<and> list_ex is_confirmed (ac_links c) \<and> 2 \<le> length (ac_links c)"
  using assms by (auto simp: engine_match_template_def AttackChain_check_def bind_res_Inr_iff split: if_splits prod.splits)

lemma engine_match_None:
  "engine_match_template uid n fs t = Inr (None, n') \<longleftrightarrow>
     (\<exists>lks. bind_links uid n fs 0 (tpl_links t) = Inr (lks, n') \<and> \<not> list_ex is_confirmed lks)"
  by (auto simp: engine_match_template_def bind_res_Inr_iff split: if_splits prod.splits)

text \<open>
  C33. The engine confirms a template chain exactly when it should: it returns for every template and findings
  with ids, and the chain is confirmed if and only if some subsequence of the validated findings matches the
  links of the template one by one, in order.
\<close>

theorem template_chain_confirmed_iff:
  assumes "AttackChainTemplate_check t = Inr t" and "\<forall>f \<in> set fs. fi_id f \<noteq> []"
  shows "\<exists>oc n'. engine_match_template uid n (validated fs) t = Inr (oc, n') \<and>
    ((\<exists>c. oc = Some c \<and> ac_status c = CHAIN_CONFIRMED) \<longleftrightarrow> matched_in_order spec_matches (tpl_links t) (validated fs))"
proof -
  have len: "2 \<le> length (tpl_links t)"
    using assms(1) by (auto simp: AttackChainTemplate_check_def split: if_splits)
  have ids: "\<forall>f \<in> set (validated fs). fi_id f \<noteq> []"
    using assms(2) by (simp add: validated_def)
  obtain lks n1 where b: "bind_links uid n (validated fs) 0 (tpl_links t) = Inr (lks, n1)"
    "list_all is_confirmed lks \<longleftrightarrow> match_links (tpl_links t) (map (\<lambda>f. (fi_cwe f, fi_asset f)) (validated fs)) 0"
    using bind_links_total [OF ids] by blast
  have ll: "length lks = length (tpl_links t)" using bind_links_bound [OF b(1)] by simp
  then have ne: "list_ex is_confirmed lks" if "list_all is_confirmed lks"
    using that len by (cases lks) auto
  have "list_all is_confirmed lks \<longleftrightarrow> matched_in_order spec_matches (tpl_links t) (validated fs)"
    unfolding b(2) match_links_matched by (simp add: matched_map spec_matches_def [abs_def])
  with ne show ?thesis
    using b(1) len ll by (auto simp: engine_match_template_def AttackChain_check_def link_status_simps)
qed

section \<open>What a chain rests on\<close>

definition rests_on :: "finding list \<Rightarrow> attack_chain \<Rightarrow> bool" where
  "rests_on fs c \<longleftrightarrow> 2 \<le> length (ac_links c) \<and> ac_status c = link_status (ac_links c) \<and>
     (\<forall>l \<in> set (ac_links c). is_confirmed l \<longrightarrow> (\<exists>f \<in> set fs. fi_id f = confirmed_finding_id l))"

lemma hypothesize_templates_rest:
  "hypothesize_templates uid n fs ts = Inr (cs, n') \<Longrightarrow> \<forall>c \<in> set cs. rests_on fs c"
proof (induction ts arbitrary: n cs)
  case (Cons t ts)
  then obtain oc n1 cs1 where t: "engine_match_template uid n fs t = Inr (oc, n1)"
    "hypothesize_templates uid n1 fs ts = Inr (cs1, n')" "cs = (case oc of None \<Rightarrow> cs1 | Some c \<Rightarrow> c # cs1)"
    by (auto simp: bind_res_Inr_iff)
  have "rests_on fs c" if c: "oc = Some c" for c
    using engine_match_Some [of uid n fs t c n1] t(1) c bind_links_bound by (fastforce simp: rests_on_def)
  then show ?case
    using t(3) Cons.IH [OF t(2)] by (auto split: option.splits)
qed simp

lemma dict_get_by_id: "dict_get (by_id fs) i = Some f \<Longrightarrow> f \<in> set fs \<and> fi_id f = i"
proof -
  have "dict_get (foldl (\<lambda>d f. dict_set (fi_id f) f d) d fs) i = Some f \<Longrightarrow>
      f \<in> set fs \<and> fi_id f = i \<or> dict_get d i = Some f" for d
    by (induction fs arbitrary: d) (force split: if_splits)+
  then show "dict_get (by_id fs) i = Some f \<Longrightarrow> f \<in> set fs \<and> fi_id f = i"
    by (force simp: by_id_def)
qed

lemma proposal_links_bound:
  "proposal_links uid n known who ids = Inr (lks, n') \<Longrightarrow>
     \<forall>l \<in> set lks. is_confirmed l \<longrightarrow> dict_get known (confirmed_finding_id l) \<noteq> None"
  by (induction ids arbitrary: n lks n') (fastforce simp: bind_res_Inr_iff split: if_splits)+

lemma proposal_chain_rests:
  assumes "proposal_chain uid n (by_id fs) p = Inr (Some c, n')"
  shows "rests_on fs c"
proof -
  obtain m where "proposal_links uid n (by_id fs) (pr_proposer p) (pr_finding_ids p) = Inr (ac_links c, m)"
    "2 \<le> length (ac_links c)" "ac_status c = link_status (ac_links c)"
    using assms by (auto simp: proposal_chain_def bind_res_Inr_iff AttackChain_check_def split: if_splits prod.splits)
  then show ?thesis
    using proposal_links_bound dict_get_by_id by (fastforce simp: rests_on_def)
qed

lemma hypothesize_proposals_rest:
  "hypothesize_proposals uid n (by_id fs) ps = Inr (cs, n') \<Longrightarrow> \<forall>c \<in> set cs. rests_on fs c"
proof (induction ps arbitrary: n cs)
  case (Cons p ps)
  then obtain oc n1 cs1 where t: "proposal_chain uid n (by_id fs) p = Inr (oc, n1)"
    "hypothesize_proposals uid n1 (by_id fs) ps = Inr (cs1, n')" "cs = (case oc of None \<Rightarrow> cs1 | Some c \<Rightarrow> c # cs1)"
    by (auto simp: bind_res_Inr_iff)
  then show ?case
    using Cons.IH [OF t(2)] proposal_chain_rests by (auto split: option.splits)
qed simp

text \<open>
  Claims never confirm: whatever chain the engine forms, from templates or from proposals of a language
  model or a peer agent, every confirmed link is a validated finding of the input, and the chain is confirmed
  exactly when all its links are.
\<close>

theorem chains_rest_on_validated_findings:
  assumes "hypothesize_from_findings uid n ts fs = Inr (cs, n') \<or> hypothesize_from_proposals uid n ps fs = Inr (cs, n')"
    and "c \<in> set cs"
  shows "(\<forall>l \<in> set (ac_links c). is_confirmed l \<longrightarrow>
            (\<exists>f \<in> set fs. fi_status f = VALIDATED \<and> fi_id f = confirmed_finding_id l)) \<and>
         (ac_status c = CHAIN_CONFIRMED \<longleftrightarrow> all_links_confirmed c) \<and> 2 \<le> length (ac_links c)"
proof -
  have "rests_on (validated fs) c"
    using assms hypothesize_templates_rest hypothesize_proposals_rest
    unfolding hypothesize_from_findings_def hypothesize_from_proposals_def by blast
  then show ?thesis
    by (auto simp: rests_on_def validated_def link_status_simps all_links_confirmed_def)
qed

text \<open>
  Nothing but \<open>VALIDATED\<close> findings is ever bound, and no operation gives a finding that status: correlation
  makes candidates, and the oracle records its verdict without touching the status. So no stored finding of
  an execution ever reaches a chain, confirmed or not.
\<close>

lemma bind_links_no_findings: "\<exists>lks n'. bind_links uid n [] k ls = Inr (lks, n') \<and> \<not> list_ex is_confirmed lks"
proof (induction ls arbitrary: n)
  case (Cons l ls)
  have "first_match (spec_matches l) [] k = None" by (simp add: first_match_None)
  then show ?case using Cons.IH [of "n + 1"] by auto
qed simp

lemma no_validated_no_chains:
  assumes "\<forall>f \<in> set fs. fi_status f \<noteq> VALIDATED"
  shows "\<exists>n'. hypothesize_from_findings uid n ts fs = Inr ([], n')"
proof -
  have "validated fs = []" using assms by (simp add: validated_def)
  moreover have "\<exists>n'. hypothesize_templates uid n [] ts = Inr ([], n')" for n
  proof (induction ts arbitrary: n)
    case (Cons t ts)
    obtain lks n1 where "bind_links uid n [] 0 (tpl_links t) = Inr (lks, n1)" "\<not> list_ex is_confirmed lks"
      using bind_links_no_findings by blast
    then show ?case using Cons.IH [of n1] by (auto simp: engine_match_template_def)
  qed simp
  ultimately show ?thesis by (simp add: hypothesize_from_findings_def)
qed

lemma oracle_never_validates:
  assumes "correlate sha xs = Inr fs" "f \<in> set fs" and "verify_one sha reg factory actor t f vt s = (Inr st, s')"
  shows "\<exists>g. dict_get (sv_findings s') (fi_id f) = Some g \<and> fi_status g = CANDIDATE"
proof -
  have "fi_status (merge_group g) = CANDIDATE" for g
    by (cases g) (simp add: merge_group_def)
  then have "fi_status f = CANDIDATE"
    using assms(1,2) map_res_Inr [of "\<lambda>g. Finding_check (merge_group g)" "groups (observation_fingerprint sha) xs" fs]
    by (auto simp: correlate_def Finding_check_def split: if_splits)
  then show ?thesis using verify_one_stores [OF assms(3)] by simp
qed

section \<open>The bridge\<close>

definition recorded :: "hypotheses_store \<Rightarrow> string \<Rightarrow> bool" where
  "recorded st i \<longleftrightarrow> dict_get st i \<noteq> None"

lemma store_hypothesis_facts [simp]:
  "progressed (store_hypothesis i c k cwes st) = progressed st"
  "recorded (store_hypothesis i c k cwes st) j \<longleftrightarrow> j = i \<or> recorded st j"
  by (auto simp: progressed_def recorded_def fun_eq_iff store_hypothesis_def split: option.split)

lemma mark_progress_facts [simp]:
  "progressed (mark_progress i st) j \<longleftrightarrow> progressed st j \<or> j = i \<and> recorded st i"
  "recorded (mark_progress i st) j \<longleftrightarrow> recorded st j"
  by (auto simp: progressed_def recorded_def mark_progress_def split: option.split)

lemma to_hypothesis_id [simp]: "hyp_id (to_hypothesis i task) = i"
  by (simp add: to_hypothesis_def Let_def)

lemma sync_links_facts:
  assumes "sync_links sha c ls tasks st = (hs, tasks', st')"
  shows "progressed st' = progressed st \<and>
    (\<forall>j. recorded st j \<longrightarrow> recorded st' j) \<and>
    (\<forall>h \<in> set hs. \<not> progressed st (hyp_id h) \<and> recorded st' (hyp_id h))"
  using assms
proof (induction sha c ls tasks st arbitrary: hs tasks' st' rule: sync_links.induct)
  case (2 sha c k l ls tasks st)
  show ?case
  proof (cases "is_confirmed l")
    case True
    then show ?thesis using 2(1) [OF True] 2(4) by simp
  next
    case open_link: False
    show ?thesis
    proof (cases tasks)
      case Nil
      then show ?thesis using 2(4) open_link by simp
    next
      case (Cons task rest)
      note task = Cons open_link
      let ?i = "canonical_id sha (ac_template_id c) k (pt_required_cwe task)"
      show ?thesis
      proof (cases "progressed st ?i")
        case True
        then show ?thesis using 2(2) [OF task(2,1) refl True] 2(4) task by (simp add: Let_def)
      next
        case new: False
        let ?st = "store_hypothesis ?i (ac_id c) k (pt_required_cwe task) st"
        obtain hs1 where "sync_links sha c ls rest ?st = (hs1, tasks', st')" "hs = to_hypothesis ?i task # hs1"
          using 2(4) task new by (auto simp: Let_def split: prod.splits)
        then show ?thesis
          using 2(3) [OF task(2,1) refl new] new by auto
      qed
    qed
  qed
qed auto


lemma sync_chains_facts:
  "sync_chains sha cs tasks st = (hs, st') \<Longrightarrow> progressed st' = progressed st \<and>
    (\<forall>j. recorded st j \<longrightarrow> recorded st' j) \<and> (\<forall>h \<in> set hs. \<not> progressed st (hyp_id h) \<and> recorded st' (hyp_id h))"
proof (induction sha cs tasks st arbitrary: hs rule: sync_chains.induct)
  case (2 sha c cs tasks st)
  obtain hs1 tasks1 st1 where l: "sync_links sha c (enumerate 0 (ac_links c)) tasks st = (hs1, tasks1, st1)"
    by (metis surj_pair)
  obtain hs2 where "sync_chains sha cs tasks1 st1 = (hs2, st')" "hs = hs1 @ hs2"
    using 2(2) l by (auto split: prod.splits)
  then show ?case
    using sync_links_facts [OF l] 2(1) [OF l [symmetric] refl] by auto
qed simp

lemma bridge_sync_facts:
  assumes "bridge_sync sha ts uid fs b = (r, b')"
  shows "progressed (br_store b') = progressed (br_store b) \<and> (\<forall>j. recorded (br_store b) j \<longrightarrow> recorded (br_store b') j) \<and>
    (\<forall>hs. r = Inr hs \<longrightarrow> (\<forall>h \<in> set hs. \<not> progressed (br_store b) (hyp_id h) \<and> recorded (br_store b') (hyp_id h)))"
  using assms sync_chains_facts by (fastforce simp: bridge_sync_def split: sum.splits prod.splits)

text \<open>The histories of a bridge: syncs over whatever findings there are, and progress marks.\<close>

inductive bridge_history :: "(string \<Rightarrow> string) \<Rightarrow> chain_template list \<Rightarrow> chain_bridge \<Rightarrow> chain_bridge \<Rightarrow> bool" for sha ts where
  refl: "bridge_history sha ts b b"
| synced: "bridge_history sha ts b b1 \<Longrightarrow> bridge_history sha ts b (snd (bridge_sync sha ts uid fs b1))"
| marked: "bridge_history sha ts b b1 \<Longrightarrow> bridge_history sha ts b (mark_pending_progress i b1)"

lemma bridge_history_progressed:
  "bridge_history sha ts b b' \<Longrightarrow> progressed (br_store b) i \<Longrightarrow> progressed (br_store b') i"
proof (induction rule: bridge_history.induct)
  case (synced b b1 uid fs)
  then show ?case using bridge_sync_facts [OF surjective_pairing, of sha ts uid fs b1] by simp
qed (simp_all add: mark_pending_progress_def)

text \<open>
  A hypothesis that was handed out and then marked as evidenced is never handed out again: no later
  history of syncs, over any findings and drawn ids, and of marks brings it back.
\<close>

theorem progressed_hypotheses_stay_dropped:
  assumes "bridge_sync sha ts uid fs b = (Inr hs, b1)" "h \<in> set hs"
    and "bridge_history sha ts (mark_pending_progress (hyp_id h) b1) b2"
    and "bridge_sync sha ts uid' fs' b2 = (Inr hs', b3)"
  shows "\<not> valid_hypothesis (hyp_id h) hs'"
proof -
  have "progressed (br_store (mark_pending_progress (hyp_id h) b1)) (hyp_id h)"
    using bridge_sync_facts [OF assms(1)] assms(2) by (simp add: mark_pending_progress_def)
  then have "progressed (br_store b2) (hyp_id h)"
    using bridge_history_progressed [OF assms(3)] by blast
  then show ?thesis
    using bridge_sync_facts [OF assms(4)] by (fastforce simp: valid_hypothesis_def list_ex_iff)
qed

section \<open>Stable ids\<close>

text \<open>Two runs of the engine over the same findings differ only in the drawn ids.\<close>

definition same_chain :: "attack_chain \<Rightarrow> attack_chain \<Rightarrow> bool" where
  "same_chain c c' \<longleftrightarrow> ac_template_id c = ac_template_id c' \<and>
     map confirmed_finding_id (ac_links c) = map confirmed_finding_id (ac_links c')"

lemma bind_links_same:
  "bind_links uid n fs k ls = Inr (lks, m) \<Longrightarrow>
     \<exists>lks' m'. bind_links uid' n' fs k ls = Inr (lks', m') \<and> map confirmed_finding_id lks = map confirmed_finding_id lks'"
proof (induction ls arbitrary: n n' k lks m)
  case (Cons l ls)
  show ?case
  proof (cases "first_match (spec_matches l) fs k")
    case None
    then obtain lks1 where "bind_links uid (n + 1) fs k ls = Inr (lks1, m)"
      "lks = pending_link uid n (''requires CWE any of '' @ tuple_repr (cwe_any l)) # lks1"
      using Cons.prems by (auto simp: bind_res_Inr_iff)
    then show ?thesis using Cons.IH [of "n + 1" k lks1 m "n' + 1"] None by auto
  next
    case (Some i)
    then obtain lks1 where "bind_links uid n fs (i + 1) ls = Inr (lks1, m)" "lks = confirmed_link (fi_id (fs ! i)) # lks1"
      "ChainLink_check (confirmed_link (fi_id (fs ! i))) = Inr (confirmed_link (fi_id (fs ! i)))"
      using Cons.prems by (auto simp: bind_res_Inr_iff)
    then show ?thesis using Cons.IH [of n "i + 1" lks1 m n'] Some by auto
  qed
qed simp

lemma confirmed_via_ids: "is_confirmed = (\<lambda>i. i \<noteq> []) \<circ> confirmed_finding_id"
  by (simp add: is_confirmed_def fun_eq_iff)

lemma list_ex_confirmed_same:
  "map confirmed_finding_id lks = map confirmed_finding_id lks' \<Longrightarrow> list_ex is_confirmed lks = list_ex is_confirmed lks'"
  unfolding confirmed_via_ids list_ex_iff by (metis (mono_tags, lifting) comp_apply imageE image_eqI list.set_map)

lemma engine_match_same:
  assumes "engine_match_template uid n fs t = Inr (oc, m)"
  shows "\<exists>oc' m'. engine_match_template uid' n' fs t = Inr (oc', m') \<and> rel_option same_chain oc oc'"
proof -
  obtain lks m1 where b: "bind_links uid n fs 0 (tpl_links t) = Inr (lks, m1)"
    using assms by (auto simp: engine_match_template_def bind_res_Inr_iff)
  obtain lks' m1' where b': "bind_links uid' n' fs 0 (tpl_links t) = Inr (lks', m1')"
    "map confirmed_finding_id lks = map confirmed_finding_id lks'"
    using bind_links_same [OF b] by blast
  have "list_ex is_confirmed lks = list_ex is_confirmed lks'" "length lks = length lks'"
    using list_ex_confirmed_same [OF b'(2)] b'(2) map_eq_imp_length_eq by blast+
  then show ?thesis
    using assms b b' by (auto simp: engine_match_template_def AttackChain_check_def same_chain_def split: if_splits)
qed

lemma hypothesize_same:
  "hypothesize_templates uid n fs ts = Inr (cs, m) \<Longrightarrow>
     \<exists>cs' m'. hypothesize_templates uid' n' fs ts = Inr (cs', m') \<and> list_all2 same_chain cs cs'"
proof (induction ts arbitrary: n n' cs)
  case (Cons t ts)
  then obtain oc n1 cs1 where t: "engine_match_template uid n fs t = Inr (oc, n1)"
    "hypothesize_templates uid n1 fs ts = Inr (cs1, m)" "cs = (case oc of None \<Rightarrow> cs1 | Some c \<Rightarrow> c # cs1)"
    by (auto simp: bind_res_Inr_iff)
  obtain oc' n2 where t': "engine_match_template uid' n' fs t = Inr (oc', n2)" "rel_option same_chain oc oc'"
    using engine_match_same [OF t(1)] by blast
  obtain cs2 m' where "hypothesize_templates uid' n2 fs ts = Inr (cs2, m')" "list_all2 same_chain cs1 cs2"
    using Cons.IH [OF t(2)] by blast
  then show ?case using t(3) t' by (cases oc; cases oc') auto
qed simp


definition same_task :: "pending_task \<Rightarrow> pending_task \<Rightarrow> bool" where
  "same_task t t' \<longleftrightarrow> pt_required_cwe t = pt_required_cwe t' \<and> pt_asset_hint t = pt_asset_hint t'"

lemma same_task_hypothesis: "same_task t t' \<Longrightarrow> to_hypothesis i t = to_hypothesis i t'"
  by (simp add: same_task_def to_hypothesis_def)

lemma open_specs_same:
  "map confirmed_finding_id lks = map confirmed_finding_id lks' \<Longrightarrow>
     map snd (filter (\<lambda>(l, s). \<not> is_confirmed l) (zip lks ss)) = map snd (filter (\<lambda>(l, s). \<not> is_confirmed l) (zip lks' ss))"
proof (induction lks lks' arbitrary: ss rule: list_induct2')
  case (4 l lks l' lks')
  then show ?case by (cases ss) (auto simp: is_confirmed_def)
qed simp_all

lemma tasks_for_same:
  assumes "same_chain c c'" "tasks_for ts c = Inr tasks"
  shows "\<exists>tasks'. tasks_for ts c' = Inr tasks' \<and> list_all2 same_task tasks tasks'"
proof (cases "List.find (\<lambda>t. tpl_id t = ac_template_id c) ts")
  case (Some t)
  have l: "length (ac_links c) = length (ac_links c')"
    using assms(1) unfolding same_chain_def by (metis map_eq_imp_length_eq)
  have e: "map snd (filter (\<lambda>(l, s). \<not> is_confirmed l) (zip (ac_links c) (tpl_links t))) =
      map snd (filter (\<lambda>(l, s). \<not> is_confirmed l) (zip (ac_links c') (tpl_links t)))"
    by (rule open_specs_same) (use assms(1) in \<open>simp add: same_chain_def\<close>)
  have "list_all2 same_task (map (\<lambda>(l, s). \<lparr>pt_key = k l, pt_chain_id = i, pt_required_cwe = cwe_any s, pt_asset_hint = asset_pattern s\<rparr>) xs)
      (map (\<lambda>(l, s). \<lparr>pt_key = k' l, pt_chain_id = i', pt_required_cwe = cwe_any s, pt_asset_hint = asset_pattern s\<rparr>) ys)"
    if "map snd xs = map snd ys" for xs ys k k' i i'
    using that by (induction xs ys rule: list_induct2') (auto simp: same_task_def split: prod.splits)
  then show ?thesis
    using assms Some l e by (auto simp: tasks_for_def same_chain_def split: if_splits)
qed (use assms in \<open>simp add: tasks_for_def same_chain_def\<close>)

lemma pending_tasks_same:
  assumes "list_all2 same_chain cs cs'"
  shows "pending_verification_tasks ts cs = Inr tasks \<Longrightarrow>
     \<exists>tasks'. pending_verification_tasks ts cs' = Inr tasks' \<and> list_all2 same_task tasks tasks'"
  using assms
proof (induction arbitrary: tasks rule: list_all2_induct)
  case (Cons c cs c' cs')
  then obtain tc rest where t: "tasks_for ts c = Inr tc" "pending_verification_tasks ts cs = Inr rest" "tasks = tc @ rest"
    by (auto simp: pending_verification_tasks_def bind_res_Inr_iff)
  then show ?case
    using tasks_for_same [OF Cons(1) t(1)] Cons(3) [OF t(2)]
    by (auto simp: pending_verification_tasks_def bind_res_Inr_iff list_all2_appendI)
qed (simp add: pending_verification_tasks_def)


lemma sync_links_same:
  assumes "sync_links sha c (enumerate k lks) tasks st = (hs, rest, st1)"
    and "map confirmed_finding_id lks = map confirmed_finding_id lks'" "list_all2 same_task tasks tasks'"
    and "ac_template_id c = ac_template_id c'" "progressed st = progressed st'"
  shows "\<exists>rest' st1'. sync_links sha c' (enumerate k lks') tasks' st' = (hs, rest', st1') \<and> list_all2 same_task rest rest'"
  using assms(2,1,3,5)
proof (induction lks lks' arbitrary: k tasks tasks' st st' hs rest st1 rule: list_induct2')
  case (4 l lks l' lks')
  have l: "is_confirmed l = is_confirmed l'" "map confirmed_finding_id lks = map confirmed_finding_id lks'"
    using 4(2) by (simp_all add: is_confirmed_def)
  show ?case
  proof (cases "is_confirmed l")
    case True
    then show ?thesis using 4(1) [OF l(2) _ 4(4,5), of "Suc k"] 4(3) l(1) by simp
  next
    case op: False
    show ?thesis
    proof (cases tasks)
      case Nil
      then show ?thesis using 4(3,4) op l(1) by simp
    next
      case (Cons task ts)
      then obtain task' ts' where t': "tasks' = task' # ts'" "same_task task task'" "list_all2 same_task ts ts'"
        using 4(4) by (auto simp: list_all2_Cons1)
      then have cwe: "pt_required_cwe task' = pt_required_cwe task" by (simp add: same_task_def)
      let ?i = "canonical_id sha (ac_template_id c') k (pt_required_cwe task)"
      show ?thesis
      proof (cases "progressed st' ?i")
        case True
        then have "sync_links sha c (enumerate (Suc k) lks) ts st = (hs, rest, st1)"
          using 4(3,5) op Cons assms(4) by (simp add: Let_def)
        then show ?thesis
          using 4(1) [OF l(2) _ t'(3) 4(5)] True op l(1) t'(1) cwe by (fastforce simp: Let_def)
      next
        case False
        then obtain hs1 where r: "sync_links sha c (enumerate (Suc k) lks) ts (store_hypothesis ?i (ac_id c) k (pt_required_cwe task) st) = (hs1, rest, st1)"
          "hs = to_hypothesis ?i task # hs1"
          using 4(3,5) op Cons assms(4) by (auto simp: Let_def split: prod.splits)
        obtain rest' st1' where "sync_links sha c' (enumerate (Suc k) lks') ts' (store_hypothesis ?i (ac_id c') k (pt_required_cwe task) st') = (hs1, rest', st1')"
          "list_all2 same_task rest rest'"
          using 4(1) [OF l(2) r(1) t'(3)] 4(5) by (metis store_hypothesis_facts(1))
        then show ?thesis
          using False op l(1) t'(1,2) cwe r(2) by (simp add: Let_def same_task_hypothesis)
      qed
    qed
  qed
qed simp_all

lemma sync_chains_same:
  assumes "list_all2 same_chain cs cs'"
  shows "sync_chains sha cs tasks st = (hs, st1) \<Longrightarrow> list_all2 same_task tasks tasks' \<Longrightarrow> progressed st = progressed st' \<Longrightarrow>
    fst (sync_chains sha cs' tasks' st') = hs"
  using assms
proof (induction arbitrary: tasks tasks' st st' hs rule: list_all2_induct)
  case (Cons c cs c' cs')
  obtain hs1 rest st2 where l: "sync_links sha c (enumerate 0 (ac_links c)) tasks st = (hs1, rest, st2)"
    by (metis surj_pair)
  obtain hs2 where r: "sync_chains sha cs rest st2 = (hs2, st1)" "hs = hs1 @ hs2"
    using Cons(4) l by (auto split: prod.splits)
  obtain rest' st2' where l': "sync_links sha c' (enumerate 0 (ac_links c')) tasks' st' = (hs1, rest', st2')" "list_all2 same_task rest rest'"
    using sync_links_same [OF l _ Cons(5) _ Cons(6), of "ac_links c'" c'] Cons(1) by (auto simp: same_chain_def)
  have "progressed st2 = progressed st2'"
    using sync_links_facts [OF l] sync_links_facts [OF l'(1)] Cons(6) by simp
  then show ?case
    using Cons(3) [OF r(1) l'(2)] l'(1) r(2) by (simp split: prod.splits) (metis fst_conv)
qed simp

text \<open>
  Hypothesis ids are stable: syncing again over the same findings hands out the same hypotheses, ids
  included, although the engine draws new ids for chains and links every time.
\<close>

theorem hypothesis_ids_are_stable:
  assumes "bridge_sync sha ts uid fs b = (Inr hs, b1)"
  shows "\<exists>b2. bridge_sync sha ts uid' fs b1 = (Inr hs, b2)"
proof -
  obtain cs m tasks where h: "hypothesize_from_findings uid 0 ts fs = Inr (cs, m)"
    "pending_verification_tasks ts cs = Inr tasks" "sync_chains sha cs tasks (br_store b) = (hs, br_store b1)"
    using assms by (auto simp: bridge_sync_def split: sum.splits prod.splits)
  obtain cs' m' where h': "hypothesize_from_findings uid' 0 ts fs = Inr (cs', m')" "list_all2 same_chain cs cs'"
    using hypothesize_same [OF h(1) [unfolded hypothesize_from_findings_def], where uid' = uid' and n' = 0]
    by (auto simp: hypothesize_from_findings_def)
  obtain tasks' where t': "pending_verification_tasks ts cs' = Inr tasks'" "list_all2 same_task tasks tasks'"
    using pending_tasks_same [OF h'(2) h(2)] by blast
  have "fst (sync_chains sha cs' tasks' (br_store b1)) = hs"
    using sync_chains_same [OF h'(2) h(3) t'(2)] bridge_sync_facts [OF assms] by metis
  then show ?thesis
    using h'(1) t'(1) by (auto simp: bridge_sync_def split: prod.splits)
qed


section \<open>Concrete chains\<close>

definition demo_validated :: "string \<Rightarrow> string \<Rightarrow> finding" where
  "demo_validated i cwe = \<lparr>fi_id = i, fi_fingerprint = ''fp'', fi_title = ''t'', fi_asset = ''app.example'', fi_severity = HIGH,
     fi_cwe = [cwe], fi_cve = [], fi_owasp = [], fi_observation_ids = [], fi_evidence_ids = [], fi_status = VALIDATED,
     fi_assessment_id = [], fi_oracle_verdict = CONFIRMED\<rparr>"

definition idor_template :: chain_template where
  "idor_template = default_chain_templates ! 1"

definition fresh_bridge :: chain_bridge where
  "fresh_bridge = \<lparr>br_store = [], br_last_chains = []\<rparr>"

lemma demo_hypotheses:
  "map_sum id fst (hypothesize_from_findings (\<lambda>_. ''0123456789ab'') 0 [idor_template]
       [demo_validated ''f1'' ''CWE-287'', demo_validated ''f2'' ''CWE-639'']) =
     Inr [\<lparr>ac_id = ''chain-auth-bypass-plus-idor-01234567'', ac_template_id = ''auth-bypass-plus-idor'', ac_source = ''template'',
           ac_links = [confirmed_link ''f1'', confirmed_link ''f2''], ac_status = CHAIN_CONFIRMED, ac_severity = HIGH\<rparr>]"
  by code_simp

lemma demo_sync:
  "map_sum id (map hyp_id) (fst (bridge_sync (\<lambda>_. ''abcdef'') [idor_template] (\<lambda>_. ''0123456789ab'')
       [demo_validated ''f1'' ''CWE-287''] fresh_bridge)) = Inr [''hyp-abcdef'']"
  by code_simp

text \<open>
  A proposal may name a template whose number of links differs from its own: then listing the pending tasks
  raises for all chains, since the links are zipped strictly.
\<close>

lemma proposal_breaks_task_list:
  "(case hypothesize_from_proposals (\<lambda>_. ''0123456789ab'') 0
      [\<lparr>pr_proposer = ''llm:m'', pr_template_hint = ''auth-bypass-plus-idor'', pr_finding_ids = [''a'', ''b'', ''c'']\<rparr>] [] of
      Inl _ \<Rightarrow> False
    | Inr (cs, _) \<Rightarrow> isl (pending_verification_tasks [idor_template] cs))"
  by code_simp

theorem template_chain_confirmed_iff_witness:
  "\<exists>oc n'. engine_match_template (\<lambda>_. ''0123456789ab'') 0 (validated [demo_validated ''f1'' ''CWE-287'']) idor_template = Inr (oc, n') \<and>
     \<not> (\<exists>c. oc = Some c \<and> ac_status c = CHAIN_CONFIRMED)"
proof -
  have "AttackChainTemplate_check idor_template = Inr idor_template"
    by code_simp
  moreover have "\<not> matched_in_order spec_matches (tpl_links idor_template) (validated [demo_validated ''f1'' ''CWE-287''])"
    by (auto simp: matched_in_order_def idor_template_def default_chain_templates_def validated_def list_all2_Cons1 demo_validated_def
        dest!: list_emb_length)
  ultimately show ?thesis
    using template_chain_confirmed_iff [of idor_template "[demo_validated ''f1'' ''CWE-287'']" "\<lambda>_. ''0123456789ab''" 0]
    by (auto simp: demo_validated_def)
qed

theorem chains_rest_on_validated_findings_witness:
  "\<exists>c n'. hypothesize_from_findings (\<lambda>_. ''0123456789ab'') 0 [idor_template]
       [demo_validated ''f1'' ''CWE-287'', demo_validated ''f2'' ''CWE-639''] = Inr ([c], n') \<and> all_links_confirmed c"
proof -
  obtain c n' where c: "hypothesize_from_findings (\<lambda>_. ''0123456789ab'') 0 [idor_template]
       [demo_validated ''f1'' ''CWE-287'', demo_validated ''f2'' ''CWE-639''] = Inr ([c], n')" "ac_status c = CHAIN_CONFIRMED"
    using demo_hypotheses by (cases "hypothesize_from_findings (\<lambda>_. ''0123456789ab'') 0 [idor_template]
       [demo_validated ''f1'' ''CWE-287'', demo_validated ''f2'' ''CWE-639'']") auto
  then show ?thesis
    using chains_rest_on_validated_findings [OF disjI1 [OF c(1)], of c] by auto
qed

lemma demo_sync_pair:
  obtains h b1 where "bridge_sync (\<lambda>_. ''abcdef'') [idor_template] (\<lambda>_. ''0123456789ab'') [demo_validated ''f1'' ''CWE-287''] fresh_bridge =
    (Inr [h], b1)" "hyp_id h = ''hyp-abcdef''"
  using demo_sync by (cases "bridge_sync (\<lambda>_. ''abcdef'') [idor_template] (\<lambda>_. ''0123456789ab'') [demo_validated ''f1'' ''CWE-287''] fresh_bridge";
      cases "fst (bridge_sync (\<lambda>_. ''abcdef'') [idor_template] (\<lambda>_. ''0123456789ab'') [demo_validated ''f1'' ''CWE-287''] fresh_bridge)") auto

theorem progressed_hypotheses_stay_dropped_witness:
  "\<exists>h b1 hs' b3. bridge_sync (\<lambda>_. ''abcdef'') [idor_template] (\<lambda>_. ''0123456789ab'') [demo_validated ''f1'' ''CWE-287''] fresh_bridge = (Inr [h], b1) \<and>
     bridge_sync (\<lambda>_. ''abcdef'') [idor_template] (\<lambda>_. ''77'') [] (mark_pending_progress (hyp_id h) b1) = (Inr hs', b3) \<and>
     \<not> valid_hypothesis (hyp_id h) hs'"
proof (rule demo_sync_pair)
  fix h b1
  assume h: "bridge_sync (\<lambda>_. ''abcdef'') [idor_template] (\<lambda>_. ''0123456789ab'') [demo_validated ''f1'' ''CWE-287''] fresh_bridge = (Inr [h], b1)"
  obtain n' where "hypothesize_from_findings (\<lambda>_. ''77'') 0 [idor_template] [] = Inr ([], n')"
    using no_validated_no_chains [of "[]" "\<lambda>_. ''77''" 0 "[idor_template]"] by auto
  then obtain hs' b3 where s: "bridge_sync (\<lambda>_. ''abcdef'') [idor_template] (\<lambda>_. ''77'') [] (mark_pending_progress (hyp_id h) b1) = (Inr hs', b3)"
    by (auto simp: bridge_sync_def pending_verification_tasks_def)
  show ?thesis
    using h s progressed_hypotheses_stay_dropped [OF h _ bridge_history.refl s] by auto
qed

theorem hypothesis_ids_are_stable_witness:
  "\<exists>h b1 b2. hyp_id h = ''hyp-abcdef'' \<and>
     bridge_sync (\<lambda>_. ''abcdef'') [idor_template] (\<lambda>_. ''77'') [demo_validated ''f1'' ''CWE-287''] b1 = (Inr [h], b2)"
proof (rule demo_sync_pair)
  fix h b1
  assume "bridge_sync (\<lambda>_. ''abcdef'') [idor_template] (\<lambda>_. ''0123456789ab'') [demo_validated ''f1'' ''CWE-287''] fresh_bridge = (Inr [h], b1)"
    "hyp_id h = ''hyp-abcdef''"
  then show ?thesis
    using hypothesis_ids_are_stable [of "\<lambda>_. ''abcdef''" "[idor_template]" _ _ fresh_bridge "[h]" b1 "\<lambda>_. ''77''"] by blast
qed

end
