(* ===== verification/Sql_Jobs.thy ===== *)
theory Sql_Jobs
  imports Jobs Canonical "HOL-Library.Multiset"
begin

text \<open>
  The durable job store (\<^verbatim>\<open>infrastructure/repositories/sqlalchemy_jobs.py\<close> over the table of
  \<^verbatim>\<open>infrastructure/db/job_models.py\<close>): rows with the status as text and without the job parameters, changed
  by conditional \<^verbatim>\<open>UPDATE\<close> statements whose row count decides the outcome. The theory relates it, operation by
  operation, to the in-memory store. A query without \<^verbatim>\<open>ORDER BY\<close> gives the rows in an order the database
  chooses: the parameter \<open>scan\<close>. Naive UTC columns hold the same instant as the aware values.
\<close>

section \<open>Rows\<close>

record core_job =
  cj_id :: string
  cj_plan_step_key :: string
  cj_idempotency_key :: string
  cj_status :: string
  cj_attempt :: int
  cj_max_attempts :: int
  cj_lease_owner :: "string option"
  cj_lease_expires_at :: "datetime option"
  cj_result_digest :: string
  cj_failure_class :: string
  cj_dependencies :: "string list"

definition all_statuses :: "job_status list" where
  "all_statuses = [PENDING, BLOCKED, READY, LEASED, RUNNING, SUCCEEDED, FAILED, SKIPPED, POLICY_DENIED]"

text \<open>\<^verbatim>\<open>JobStatus(text)\<close>\<close>

definition job_status_of :: "string \<Rightarrow> job_status result" where
  "job_status_of s =
     (case List.find (\<lambda>t. job_status_value t = s) all_statuses of
        Some t \<Rightarrow> Inr t | None \<Rightarrow> Inl (ValueError (repr_str s @ '' is not a valid JobStatus'')))"

definition to_job :: "core_job \<Rightarrow> job result" where
  "to_job r = bind_res (job_status_of (cj_status r)) (\<lambda>st.
     Inr \<lparr>job_id = cj_id r, plan_step_key = cj_plan_step_key r, idempotency_key = cj_idempotency_key r, status = st,
          attempt = cj_attempt r, max_attempts = cj_max_attempts r, lease_owner = cj_lease_owner r,
          lease_expires_at = cj_lease_expires_at r, result_digest = cj_result_digest r, job_failure = cj_failure_class r,
          job_dependencies = cj_dependencies r, job_parameters = []\<rparr>)"

definition from_job :: "job \<Rightarrow> core_job" where
  "from_job j = \<lparr>cj_id = job_id j, cj_plan_step_key = plan_step_key j, cj_idempotency_key = idempotency_key j,
     cj_status = job_status_value (status j), cj_attempt = attempt j, cj_max_attempts = max_attempts j,
     cj_lease_owner = lease_owner j, cj_lease_expires_at = lease_expires_at j, cj_result_digest = result_digest j,
     cj_failure_class = job_failure j, cj_dependencies = job_dependencies j\<rparr>"

record job_db =
  jd_rows :: "(string \<times> core_job) list" \<comment> \<open>by primary key\<close>
  jd_ttl :: int

section \<open>Statements\<close>

text \<open>\<^verbatim>\<open>UPDATE core_jobs SET ... WHERE ...\<close> with its row count.\<close>

definition sql_update :: "(core_job \<Rightarrow> bool) \<Rightarrow> (core_job \<Rightarrow> core_job) \<Rightarrow> job_db \<Rightarrow> nat \<times> job_db" where
  "sql_update cond assign db =
     (length (filter cond (dict_values (jd_rows db))),
      db\<lparr>jd_rows := map (\<lambda>(i, r). (i, if cond r then assign r else r)) (jd_rows db)\<rparr>)"

definition sql_get :: "string \<Rightarrow> (job_db, job option) cmd" where
  "sql_get i db = ((case dict_get (jd_rows db) i of None \<Rightarrow> Inr None | Some r \<Rightarrow> map_sum id Some (to_job r)), db)"

definition sql_require :: "string \<Rightarrow> (job_db, job) cmd" where
  "sql_require i = bindC (sql_get i) (\<lambda>oj. case oj of
     None \<Rightarrow> raiseC (JobNotFoundError (''job not found: '' @ i)) | Some j \<Rightarrow> returnC j)"

definition sql_all :: "(core_job list \<Rightarrow> core_job list) \<Rightarrow> job_db \<Rightarrow> job list result" where
  "sql_all scan db = map_res to_job (scan (dict_values (jd_rows db)))"

definition sql_leaseable :: "(core_job list \<Rightarrow> core_job list) \<Rightarrow> datetime \<Rightarrow> job_db \<Rightarrow> job list result" where
  "sql_leaseable scan now db =
     bind_res (sql_all scan db) (\<lambda>js. Inr (leaseable_loop now js [] []))"

definition sql_add :: "job \<Rightarrow> (job_db, job) cmd" where
  "sql_add j db =
     (case List.find (\<lambda>r. cj_idempotency_key r = idempotency_key j) (dict_values (jd_rows db)) of
        Some r \<Rightarrow> (to_job r, db)
      | None \<Rightarrow> (Inr j, db\<lparr>jd_rows := dict_set (job_id j) (from_job j) (jd_rows db)\<rparr>))"

definition sql_change :: "(core_job \<Rightarrow> core_job) \<Rightarrow> string \<Rightarrow> (job_db, job) cmd" where
  "sql_change assign i =
     bindC (\<lambda>db. case sql_update (\<lambda>r. cj_id r = i) assign db of
                   (n, db') \<Rightarrow> if n \<noteq> 1 then (Inl (JobNotFoundError (''job not found: '' @ i)), db') else (Inr (), db'))
       (\<lambda>_. sql_require i)"

definition sql_mark_ready :: "string \<Rightarrow> (job_db, job) cmd" where
  "sql_mark_ready = sql_change (\<lambda>r. r\<lparr>cj_status := job_status_value READY, cj_lease_owner := None, cj_lease_expires_at := None\<rparr>)"

definition lease_condition :: "string \<Rightarrow> datetime \<Rightarrow> core_job \<Rightarrow> bool" where
  "lease_condition i now r \<longleftrightarrow> cj_id r = i \<and>
     (cj_status r = job_status_value READY \<or>
      cj_status r = job_status_value LEASED \<and> (case cj_lease_expires_at r of None \<Rightarrow> False | Some t \<Rightarrow> t \<le> now))"

definition sql_lease :: "string \<Rightarrow> string \<Rightarrow> datetime \<Rightarrow> (job_db, job) cmd" where
  "sql_lease i owner now db =
     (case sql_update (lease_condition i now)
             (\<lambda>r. r\<lparr>cj_status := job_status_value LEASED, cj_lease_owner := Some owner,
                    cj_lease_expires_at := Some (now + seconds (jd_ttl db)), cj_attempt := cj_attempt r + 1\<rparr>) db of
        (n, db') \<Rightarrow>
          if n = 1 then sql_require i db'
          else bindC (sql_get i) (\<lambda>oj. case oj of
                 None \<Rightarrow> raiseC (JobNotFoundError (''job not found: '' @ i))
               | Some j \<Rightarrow> raiseC (JobLeaseError (''cannot lease job in status '' @ job_status_value (status j)))) db')"

definition sql_renew :: "string \<Rightarrow> string \<Rightarrow> datetime \<Rightarrow> (job_db, job) cmd" where
  "sql_renew i owner now db =
     (case sql_update (\<lambda>r. cj_id r = i \<and> cj_lease_owner r = Some owner)
             (\<lambda>r. r\<lparr>cj_lease_expires_at := Some (now + seconds (jd_ttl db))\<rparr>) db of
        (n, db') \<Rightarrow> if n \<noteq> 1 then (Inl (JobLeaseError ''only the lease owner may renew''), db') else sql_require i db')"

definition sql_complete :: "string \<Rightarrow> string \<Rightarrow> (job_db, job) cmd" where
  "sql_complete i digest = sql_change (\<lambda>r. r\<lparr>cj_status := job_status_value SUCCEEDED, cj_result_digest := digest\<rparr>) i"

definition sql_fail :: "string \<Rightarrow> failure_class \<Rightarrow> (job_db, job) cmd" where
  "sql_fail i fc = sql_change (\<lambda>r. r\<lparr>cj_status := job_status_value (if fc \<in> POLICY_FAILURES then POLICY_DENIED else FAILED),
     cj_failure_class := failure_value fc\<rparr>) i"

definition sql_requeue :: "string \<Rightarrow> (job_db, job) cmd" where
  "sql_requeue = sql_change (\<lambda>r. r\<lparr>cj_status := job_status_value READY, cj_lease_owner := None, cj_lease_expires_at := None,
     cj_failure_class := []\<rparr>)"

definition sql_skip :: "string \<Rightarrow> (job_db, job) cmd" where
  "sql_skip = sql_change (\<lambda>r. r\<lparr>cj_status := job_status_value SKIPPED, cj_lease_owner := None, cj_lease_expires_at := None\<rparr>)"

section \<open>Simulation\<close>

text \<open>A table holds the jobs of an in-memory store, without their parameters.\<close>

definition represents :: "job_db \<Rightarrow> mem_store \<Rightarrow> bool" where
  "represents db st \<longleftrightarrow> jd_ttl db = ttl st \<and> store_inv st \<and>
     jd_rows db = map (\<lambda>(i, j). (i, from_job j)) (jobs st) \<and> (\<forall>j \<in> set (store_all st). job_parameters j = [])"

text \<open>The outcome of an operation of the in-memory store: an operation that raises leaves the store alone.\<close>

definition outcome :: "(mem_store \<Rightarrow> (job \<times> mem_store) result) \<Rightarrow> (mem_store, job) cmd" where
  "outcome f st = (case f st of Inr (j, st') \<Rightarrow> (Inr j, st') | Inl e \<Rightarrow> (Inl e, st))"

definition simulates :: "job result \<times> job_db \<Rightarrow> job result \<times> mem_store \<Rightarrow> bool" where
  "simulates s m \<longleftrightarrow> fst s = fst m \<and> represents (snd s) (snd m)"

lemma outcome_simps [simp]:
  "f st = Inr (j, st') \<Longrightarrow> outcome f st = (Inr j, st')"
  "f st = Inl e \<Longrightarrow> outcome f st = (Inl e, st)"
  by (simp_all add: outcome_def)

lemma job_status_of_value [simp]: "job_status_of (job_status_value s) = Inr s"
  by (cases s) (simp_all add: job_status_of_def all_statuses_def)

lemma to_from_job [simp]: "to_job (from_job j) = Inr (j\<lparr>job_parameters := []\<rparr>)"
  by (simp add: to_job_def from_job_def)

lemma row_status [simp]: "job_status_value s = job_status_value t \<longleftrightarrow> s = t"
  by (cases s; cases t; simp)

lemma from_job_simps [simp]:
  "cj_id (from_job j) = job_id j" "cj_status (from_job j) = job_status_value (status j)"
  "cj_idempotency_key (from_job j) = idempotency_key j" "cj_lease_owner (from_job j) = lease_owner j"
  "cj_lease_expires_at (from_job j) = lease_expires_at j"
  by (simp_all add: from_job_def)

lemma no_parameters [simp]: "job_parameters j = [] \<Longrightarrow> j\<lparr>job_parameters := []\<rparr> = j"
  by simp

lemma represents_get: "represents db st \<Longrightarrow> dict_get (jd_rows db) i = map_option from_job (store_get st i)"
  by (simp add: represents_def store_get_def map_of_map)

lemma represents_entry: "represents db st \<Longrightarrow> (k, j) \<in> set (jobs st) \<Longrightarrow> job_id j = k \<and> job_parameters j = []"
  by (force simp: represents_def store_inv_def store_all_def)

lemma represents_job:
  "represents db st \<Longrightarrow> store_get st i = Some j \<Longrightarrow> job_id j = i \<and> job_parameters j = []"
  unfolding store_get_def by (drule map_of_SomeD) (rule represents_entry)

lemma sql_require_represents:
  "represents db st \<Longrightarrow> sql_require i db =
     (case store_get st i of None \<Rightarrow> Inl (JobNotFoundError (''job not found: '' @ i)) | Some j \<Rightarrow> Inr j, db)"
  using represents_job [of db st i]
  by (cases "store_get st i") (simp_all add: sql_require_def sql_get_def bindC_def represents_get)

text \<open>Updating one row by a condition that implies its key is updating that job.\<close>

lemma only_key:
  assumes "distinct (dict_keys d)" "dict_get d i = Some v" "c v"
    and "\<forall>(k, x) \<in> set d. c x \<longrightarrow> k = i"
  shows "\<exists>d1 d2. d = d1 @ (i, v) # d2 \<and> i \<notin> set (dict_keys d1) \<and>
           (\<forall>p \<in> set d1 \<union> set d2. \<not> c (snd p))"
proof -
  obtain d1 d2 where d: "d = d1 @ (i, v) # d2"
    using assms(2) by (meson map_of_SomeD split_list)
  then have fresh: "i \<notin> set (dict_keys d1) \<union> set (dict_keys d2)" using assms(1) by auto
  have "\<not> c (snd p)" if "p \<in> set d1 \<union> set d2" for p
    using that fresh assms(4) d by (cases p) force
  with d fresh show ?thesis by blast
qed

lemma map_unchanged:
  "\<forall>p \<in> set d. \<not> c (snd p) \<Longrightarrow> map (\<lambda>(k, x). (k, if c x then f x else x)) d = d"
  by (induction d) auto

lemma filter_unchanged: "\<forall>p \<in> set d. \<not> c (snd p) \<Longrightarrow> filter c (dict_values d) = []"
  by (induction d) auto

lemma dict_set_middle: "i \<notin> set (dict_keys d1) \<Longrightarrow> dict_set i w (d1 @ (i, v) # d2) = d1 @ (i, w) # d2"
  by (induction d1) auto

lemma update_only_key:
  assumes "distinct (dict_keys d)" "dict_get d i = Some v" "c v"
    and "\<forall>(k, x) \<in> set d. c x \<longrightarrow> k = i"
  shows "map (\<lambda>(k, x). (k, if c x then f x else x)) d = dict_set i (f v) d"
    and "length (filter c (dict_values d)) = 1"
proof -
  from only_key [of d i v c, OF assms] obtain d1 d2 where d: "d = d1 @ (i, v) # d2" "i \<notin> set (dict_keys d1)"
    "\<forall>p \<in> set d1. \<not> c (snd p)" "\<forall>p \<in> set d2. \<not> c (snd p)" by blast
  then show "map (\<lambda>(k, x). (k, if c x then f x else x)) d = dict_set i (f v) d"
    using assms(3) by (simp add: map_unchanged dict_set_middle)
  show "length (filter c (dict_values d)) = 1"
    using d assms(3) by (simp add: filter_unchanged)
qed

lemma dict_set_map: "map (\<lambda>(k, x). (k, g x)) (dict_set i v d) = dict_set i (g v) (map (\<lambda>(k, x). (k, g x)) d)"
  by (induction d) auto

lemma sql_update_one:
  assumes "represents db st" "store_get st i = Some j" "\<forall>r. c r \<longrightarrow> cj_id r = i" "c (from_job j)"
    and "from_job (f j) = assign (from_job j)" "job_id (f j) = job_id j" "idempotency_key (f j) = idempotency_key j" "job_parameters (f j) = []"
  shows "\<exists>db'. sql_update c assign db = (1, db') \<and> represents db' (st\<lparr>jobs := dict_set i (f j) (jobs st)\<rparr>)"
proof -
  note rep = assms(1) [unfolded represents_def]
  have d: "distinct (dict_keys (jd_rows db))"
    using rep by (simp add: store_inv_def comp_def case_prod_unfold)
  have k: "\<forall>(k, r) \<in> set (jd_rows db). c r \<longrightarrow> k = i"
    using rep represents_entry [OF assms(1)] assms(3) by fastforce
  have g: "dict_get (jd_rows db) i = Some (from_job j)"
    using represents_get [OF assms(1)] assms(2) by simp
  note upd = update_only_key [of "jd_rows db" i "from_job j" c, OF d g assms(4) k]
  have rows: "map (\<lambda>(k, r). (k, if c r then assign r else r)) (jd_rows db) = map (\<lambda>(i, j). (i, from_job j)) (dict_set i (f j) (jobs st))"
    using upd(1) rep assms(5) by (simp add: dict_set_map)
  have inv: "store_inv (st\<lparr>jobs := dict_set i (f j) (jobs st)\<rparr>)"
    using store_inv_update [of st i j "f j"] rep assms(2,6,7) by simp
  have par: "\<forall>x \<in> set (store_all (st\<lparr>jobs := dict_set i (f j) (jobs st)\<rparr>)). job_parameters x = []"
    using rep assms(8) represents_entry [OF assms(1)]
    by (fastforce simp: store_all_def set_dict_set store_inv_def)
  show ?thesis
    using rows upd(2) inv par rep by (simp add: sql_update_def represents_def)
qed


lemma sql_update_none:
  assumes "represents db st" "\<forall>r. c r \<longrightarrow> cj_id r = i" "\<And>j. store_get st i = Some j \<Longrightarrow> \<not> c (from_job j)"
  shows "sql_update c assign db = (0, db)"
proof -
  have "\<not> c r" if row: "(k, r) \<in> set (jd_rows db)" for k r
  proof
    assume "c r"
    obtain j where j: "(k, j) \<in> set (jobs st)" "r = from_job j"
      using row assms(1) by (force simp: represents_def)
    have "k = i" using represents_entry [OF assms(1) j(1)] assms(2) \<open>c r\<close> j(2) by auto
    then have "store_get st i = Some j" using j(1) assms(1) by (simp add: store_get_def represents_def store_inv_def)
    with assms(3) j(2) \<open>c r\<close> show False by simp
  qed
  then have "\<forall>p \<in> set (jd_rows db). \<not> c (snd p)" by (metis prod.collapse)
  then show ?thesis by (simp add: sql_update_def map_unchanged filter_unchanged)
qed

lemma simulates_found:
  assumes "represents db st" "store_get st i = Some j" "\<forall>r. c r \<longrightarrow> cj_id r = i" "c (from_job j)"
    and "from_job (f j) = assign (from_job j)" "job_id (f j) = job_id j" "idempotency_key (f j) = idempotency_key j" "job_parameters (f j) = []"
  shows "\<exists>db'. sql_update c assign db = (1, db') \<and> simulates (sql_require i db') (outcome (store_set f i) st)"
proof -
  from sql_update_one [of db st i j c f assign, OF assms] obtain db' where db': "sql_update c assign db = (1, db')"
    "represents db' (st\<lparr>jobs := dict_set i (f j) (jobs st)\<rparr>)" by blast
  have "store_set f i st = Inr (f j, st\<lparr>jobs := dict_set i (f j) (jobs st)\<rparr>)"
    using assms(2) by (simp add: store_set_Inr)
  with db' show ?thesis
    by (simp add: simulates_def sql_require_represents [OF db'(2)])
qed

lemma sql_change_simulates:
  assumes "represents db st"
    and "\<And>j. store_get st i = Some j \<Longrightarrow> from_job (f j) = assign (from_job j) \<and> job_id (f j) = job_id j \<and>
           idempotency_key (f j) = idempotency_key j \<and> job_parameters (f j) = job_parameters j"
  shows "simulates (sql_change assign i db) (outcome (store_set f i) st)"
proof (cases "store_get st i")
  case None
  then show ?thesis
    using assms(1) sql_update_none [OF assms(1), of "\<lambda>r. cj_id r = i" i assign]
    by (simp add: sql_change_def bindC_def simulates_def outcome_def store_set_def store_require_def)
next
  case (Some j)
  then show ?thesis
    using simulates_found [OF assms(1) Some, of "\<lambda>r. cj_id r = i" f assign] assms(2) [OF Some] represents_job [OF assms(1) Some]
    by (auto simp: sql_change_def bindC_def)
qed


section \<open>Operations\<close>

lemma lease_condition_from_job [simp]: "lease_condition i now (from_job j) \<longleftrightarrow> job_id j = i \<and> can_lease now j"
  by (simp add: lease_condition_def can_lease_def stale_lease_def del: job_status_value.simps split: option.splits)

lemma sql_lease_simulates:
  assumes "represents db st"
  shows "simulates (sql_lease i owner now db) (outcome (lease i owner now) st)"
proof (cases "\<exists>j. store_get st i = Some j \<and> can_lease now j")
  case True
  then obtain j where j: "store_get st i = Some j" "can_lease now j" by blast
  let ?f = "\<lambda>_. j\<lparr>status := LEASED, lease_owner := Some owner, lease_expires_at := Some (now + seconds (ttl st)), attempt := attempt j + 1\<rparr>"
  have "lease_condition i now (from_job j)"
    using j represents_job [OF assms j(1)] by simp
  moreover have "\<forall>r. lease_condition i now r \<longrightarrow> cj_id r = i" by (simp add: lease_condition_def)
  moreover have "jd_ttl db = ttl st" using assms by (simp add: represents_def)
  moreover have "outcome (lease i owner now) st = outcome (store_set ?f i) st"
    using j by (auto simp: outcome_def lease_def store_require_def can_lease_def)
  ultimately show ?thesis
    using simulates_found [OF assms j(1), of "lease_condition i now" ?f
        "\<lambda>r. r\<lparr>cj_status := job_status_value LEASED, cj_lease_owner := Some owner,
           cj_lease_expires_at := Some (now + seconds (jd_ttl db)), cj_attempt := cj_attempt r + 1\<rparr>"] represents_job [OF assms j(1)]
    by (auto simp: sql_lease_def from_job_def)
next
  case False
  then have "sql_update (lease_condition i now) a db = (0, db)" for a
    by (intro sql_update_none [OF assms, of _ i]) (auto simp: lease_condition_def [of i now r for r])
  with False assms show ?thesis
    by (cases "store_get st i") (auto simp: sql_lease_def simulates_def outcome_def lease_def store_require_def can_lease_def
        sql_get_def represents_get bindC_def)
qed

lemma sql_renew_simulates:
  assumes "represents db st" "store_get st i = Some j"
  shows "simulates (sql_renew i owner now db) (outcome (renew i owner now) st)"
proof (cases "lease_owner j = Some owner")
  case True
  moreover have "jd_ttl db = ttl st" using assms by (simp add: represents_def)
  ultimately show ?thesis
    using simulates_found [OF assms, of "\<lambda>r. cj_id r = i \<and> cj_lease_owner r = Some owner" "\<lambda>j. j\<lparr>lease_expires_at := Some (now + seconds (ttl st))\<rparr>"
        "\<lambda>r. r\<lparr>cj_lease_expires_at := Some (now + seconds (jd_ttl db))\<rparr>"] represents_job [OF assms] assms(2)
    by (auto simp: sql_renew_def outcome_def renew_def store_require_def from_job_def)
next
  case False
  then show ?thesis
    using sql_update_none [OF assms(1), of "\<lambda>r. cj_id r = i \<and> cj_lease_owner r = Some owner" i] assms
    by (simp add: sql_renew_def simulates_def outcome_def renew_def store_require_def)
qed

lemma sql_mark_ready_simulates:
  assumes "represents db st" "\<And>j. store_get st i = Some j \<Longrightarrow> lease_owner j = None \<and> lease_expires_at j = None"
  shows "simulates (sql_mark_ready i db) (outcome (mark_ready i) st)"
  unfolding sql_mark_ready_def mark_ready_def
  by (rule sql_change_simulates [OF assms(1)]) (simp add: from_job_def assms(2))

lemma sql_complete_simulates: "represents db st \<Longrightarrow> simulates (sql_complete i d db) (outcome (complete i d) st)"
  unfolding sql_complete_def complete_def by (rule sql_change_simulates) (simp_all add: from_job_def)

lemma sql_fail_simulates: "represents db st \<Longrightarrow> simulates (sql_fail i fc db) (outcome (fail i fc) st)"
  unfolding sql_fail_def fail_def by (rule sql_change_simulates) (simp_all add: from_job_def)

lemma sql_requeue_simulates: "represents db st \<Longrightarrow> simulates (sql_requeue i db) (outcome (requeue i) st)"
  unfolding sql_requeue_def requeue_def by (rule sql_change_simulates) (simp_all add: from_job_def)

lemma sql_skip_simulates: "represents db st \<Longrightarrow> simulates (sql_skip i db) (outcome (skip i) st)"
  unfolding sql_skip_def skip_def by (rule sql_change_simulates) (simp_all add: from_job_def)

lemma find_map_value:
  "List.find P (dict_values (map (\<lambda>(k, x). (k, g x)) d)) = map_option g (List.find (\<lambda>x. P (g x)) (dict_values d))"
  by (induction d) auto

lemma represents_find:
  "represents db st \<Longrightarrow> List.find (\<lambda>r. cj_idempotency_key r = ik) (dict_values (jd_rows db)) =
     map_option from_job (List.find (\<lambda>j. idempotency_key j = ik) (dict_values (jobs st)))"
  unfolding represents_def by (simp add: find_map_value del: map_map)

lemma sql_add_simulates:
  assumes "represents db st" "job_parameters j = []"
  shows "simulates (sql_add j db) (outcome (\<lambda>st. Inr (store_add j st)) st)"
proof (cases "List.find (\<lambda>e. idempotency_key e = idempotency_key j) (dict_values (jobs st))")
  case None
  then have "snd (store_add j st) = st\<lparr>jobs := dict_set (job_id j) j (jobs st)\<rparr>" by (simp add: store_add_def)
  moreover have "store_inv (snd (store_add j st))" using assms(1) store_inv_add by (simp add: represents_def)
  moreover have "\<forall>x \<in> set (store_all (snd (store_add j st))). job_parameters x = []"
    using calculation assms set_values_dict_set [of job_parameters "job_id j" j "jobs st"]
    by (fastforce simp: represents_def store_all_def)
  ultimately show ?thesis
    using None represents_find [OF assms(1), of "idempotency_key j"] assms
    by (simp add: sql_add_def simulates_def outcome_def store_add_def)
      (simp add: represents_def dict_set_map)
next
  case (Some e)
  then have "e \<in> set (store_all st)" by (auto simp: store_all_def find_Some_iff)
  then have "job_parameters e = []" using assms(1) by (simp add: represents_def)
  with Some assms show ?thesis
    by (simp add: sql_add_def represents_find simulates_def outcome_def store_add_def)
qed


section \<open>Whole histories\<close>

datatype store_op = Add job | Mark_ready string | Lease string string datetime | Renew string string datetime
  | Complete string string | Fail string failure_class | Requeue string | Skip string

fun mem_apply :: "store_op \<Rightarrow> (mem_store, job) cmd" where
  "mem_apply (Add j) = outcome (\<lambda>st. Inr (store_add j st))"
| "mem_apply (Mark_ready i) = outcome (mark_ready i)"
| "mem_apply (Lease i owner now) = outcome (lease i owner now)"
| "mem_apply (Renew i owner now) = outcome (renew i owner now)"
| "mem_apply (Complete i digest) = outcome (complete i digest)"
| "mem_apply (Fail i fc) = outcome (fail i fc)"
| "mem_apply (Requeue i) = outcome (requeue i)"
| "mem_apply (Skip i) = outcome (skip i)"

fun sql_apply :: "store_op \<Rightarrow> (job_db, job) cmd" where
  "sql_apply (Add j) = sql_add j"
| "sql_apply (Mark_ready i) = sql_mark_ready i"
| "sql_apply (Lease i owner now) = sql_lease i owner now"
| "sql_apply (Renew i owner now) = sql_renew i owner now"
| "sql_apply (Complete i digest) = sql_complete i digest"
| "sql_apply (Fail i fc) = sql_fail i fc"
| "sql_apply (Requeue i) = sql_requeue i"
| "sql_apply (Skip i) = sql_skip i"

text \<open>
  Where the two stores agree: added jobs carry no parameters, a lease is renewed on a job that exists, and a job
  is marked ready while nobody holds a lease on it.
\<close>

fun agreed_op :: "mem_store \<Rightarrow> store_op \<Rightarrow> bool" where
  "agreed_op st (Add j) \<longleftrightarrow> job_parameters j = []"
| "agreed_op st (Renew i owner now) \<longleftrightarrow> store_get st i \<noteq> None"
| "agreed_op st (Mark_ready i) \<longleftrightarrow>
     (case store_get st i of None \<Rightarrow> True | Some j \<Rightarrow> lease_owner j = None \<and> lease_expires_at j = None)"
| "agreed_op st _ \<longleftrightarrow> True"

fun agreed :: "mem_store \<Rightarrow> store_op list \<Rightarrow> bool" where
  "agreed st [] \<longleftrightarrow> True"
| "agreed st (p # ps) \<longleftrightarrow> agreed_op st p \<and> agreed (snd (mem_apply p st)) ps"

fun run_ops :: "(store_op \<Rightarrow> ('s, job) cmd) \<Rightarrow> store_op list \<Rightarrow> 's \<Rightarrow> job result list \<times> 's" where
  "run_ops f [] s = ([], s)"
| "run_ops f (p # ps) s = (fst (f p s) # fst (run_ops f ps (snd (f p s))), snd (run_ops f ps (snd (f p s))))"

lemma op_simulates: "represents db st \<Longrightarrow> agreed_op st p \<Longrightarrow> simulates (sql_apply p db) (mem_apply p st)"
  by (cases p) (auto intro: sql_add_simulates sql_mark_ready_simulates sql_lease_simulates sql_renew_simulates
      sql_complete_simulates sql_fail_simulates sql_requeue_simulates sql_skip_simulates split: option.splits)

lemma runs_agree:
  "represents db st \<Longrightarrow> agreed st ps \<Longrightarrow>
     fst (run_ops sql_apply ps db) = fst (run_ops mem_apply ps st) \<and>
     represents (snd (run_ops sql_apply ps db)) (snd (run_ops mem_apply ps st))"
proof (induction ps arbitrary: db st)
  case (Cons p ps)
  then have "simulates (sql_apply p db) (mem_apply p st)" using op_simulates by simp
  then show ?case using Cons by (simp add: simulates_def)
qed simp

lemma represents_leaseable:
  assumes "represents db st" "\<forall>xs. mset (scan xs) = mset xs"
  shows "\<exists>js. sql_leaseable scan now db = Inr js \<and> mset js = mset (leaseable st now)"
proof -
  let ?rows = "scan (dict_values (jd_rows db))"
  have "dict_values (jd_rows db) = map from_job (store_all st)"
    using assms(1) by (simp add: represents_def store_all_def comp_def case_prod_beta)
  moreover have "set ?rows = set (dict_values (jd_rows db))" using assms(2) by (metis set_mset_mset)
  ultimately have rows: "set ?rows = from_job ` set (store_all st)" by simp
  obtain js where js: "sql_all scan db = Inr js" "mset js = mset (store_all st)"
  proof -
    let ?g = "\<lambda>r. case to_job r of Inr j \<Rightarrow> j | Inl _ \<Rightarrow> undefined"
    have "\<forall>r \<in> set ?rows. to_job r = Inr (?g r)" using rows assms(1) by (auto simp: represents_def)
    then have "sql_all scan db = Inr (map ?g ?rows)" unfolding sql_all_def by (rule map_res_map)
    moreover have "mset (map ?g ?rows) = mset (map ?g (dict_values (jd_rows db)))"
      using assms(2) by (metis mset_map)
    moreover have "map ?g (dict_values (jd_rows db)) = store_all st"
      using assms(1) by (auto simp: represents_def store_all_def intro!: map_cong)
    ultimately show ?thesis using that by metis
  qed
  then show ?thesis
    by (simp add: sql_leaseable_def leaseable_def store_all_def leaseable_loop_eq)
qed


text \<open>
  C12. The durable job store refines the in-memory one. Whatever sequence of additions, leases, renewals, completions,
  failures, retries and skips is run on both, starting from a table that holds the jobs of the store, the results
  and the exceptions are the same one by one, the table then holds the jobs of the resulting store, and the jobs
  offered for leasing are the same, up to the order in which the database scans them. The sequence avoids the three
  cases in which the stores differ: jobs with parameters, renewing an unknown job, and marking ready a leased job.
\<close>

theorem sql_store_refines_memory:
  assumes "represents db st" "agreed st ps" "\<forall>xs. mset (scan xs) = mset xs"
  shows "fst (run_ops sql_apply ps db) = fst (run_ops mem_apply ps st) \<and>
     represents (snd (run_ops sql_apply ps db)) (snd (run_ops mem_apply ps st)) \<and>
     (\<exists>js. sql_leaseable scan now (snd (run_ops sql_apply ps db)) = Inr js \<and>
        mset js = mset (leaseable (snd (run_ops mem_apply ps st)) now))"
  using runs_agree [OF assms(1,2)] represents_leaseable [OF _ assms(3)] by auto

theorem sql_store_refines_memory_witness:
  "fst (run_ops sql_apply [Add (new_job ''j1'' ''scan'' ''k1''), Mark_ready ''j1'', Lease ''j1'' ''w1'' 0, Lease ''j1'' ''w2'' 5,
          Renew ''j1'' ''w1'' 5] \<lparr>jd_rows = [], jd_ttl = 300\<rparr>) =
   fst (run_ops mem_apply [Add (new_job ''j1'' ''scan'' ''k1''), Mark_ready ''j1'', Lease ''j1'' ''w1'' 0, Lease ''j1'' ''w2'' 5,
          Renew ''j1'' ''w1'' 5] \<lparr>jobs = [], ttl = 300\<rparr>)"
  by (rule sql_store_refines_memory [where scan = rev, THEN conjunct1])
    (simp_all add: represents_def store_inv_def store_all_def new_job_def store_add_def outcome_def mark_ready_def lease_def
      store_set_def store_require_def store_get_def stale_lease_def)

text \<open>The three cases in which the stores differ.\<close>

lemma sql_renew_of_unknown_job:
  "\<exists>db st. represents db st \<and> fst (sql_renew i owner now db) = Inl (JobLeaseError ''only the lease owner may renew'') \<and>
     fst (outcome (renew i owner now) st) = Inl (JobNotFoundError (''job not found: '' @ i))"
  by (rule exI [of _ "\<lparr>jd_rows = [], jd_ttl = 300\<rparr>"], rule exI [of _ "\<lparr>jobs = [], ttl = 300\<rparr>"])
    (simp add: represents_def store_inv_def store_all_def sql_renew_def sql_update_def outcome_def renew_def store_require_def store_get_def)

lemma sql_mark_ready_drops_lease:
  assumes "represents db st" "store_get st i = Some j"
  shows "\<exists>db'. sql_mark_ready i db = (Inr (j\<lparr>status := READY, lease_owner := None, lease_expires_at := None\<rparr>), db')"
    and "fst (outcome (mark_ready i) st) = Inr (j\<lparr>status := READY\<rparr>)"
proof -
  let ?f = "\<lambda>j. j\<lparr>status := READY, lease_owner := None, lease_expires_at := None\<rparr>"
  have "simulates (sql_mark_ready i db) (outcome (store_set ?f i) st)"
    unfolding sql_mark_ready_def by (rule sql_change_simulates [OF assms(1)]) (simp add: from_job_def)
  moreover have "fst (outcome (store_set ?f i) st) = Inr (?f j)"
    using assms(2) by (simp add: outcome_def store_set_def store_require_def)
  ultimately show "\<exists>db'. sql_mark_ready i db = (Inr (?f j), db')"
    by (metis simulates_def prod.collapse)
  show "fst (outcome (mark_ready i) st) = Inr (j\<lparr>status := READY\<rparr>)"
    using assms(2) by (simp add: outcome_def mark_ready_def store_set_def store_require_def)
qed

lemma sql_add_forgets_parameters:
  assumes "\<forall>r \<in> set (dict_values (jd_rows db)). cj_idempotency_key r \<noteq> idempotency_key j"
  shows "fst (sql_get (job_id j) (snd (sql_add j db))) = Inr (Some (j\<lparr>job_parameters := []\<rparr>))"
proof -
  have "List.find (\<lambda>r. cj_idempotency_key r = idempotency_key j) (dict_values (jd_rows db)) = None"
    using assms by (auto simp: find_None_iff)
  then show ?thesis by (simp add: sql_add_def sql_get_def)
qed

end
