(* ===== verification/Cases.thy ===== *)
theory Cases
  imports Findings Net
begin

text \<open>
  Test cases (\<^verbatim>\<open>domain/cases\<close>): the definition of a case, its parsing from the mapping YAML gives
  (\<^verbatim>\<open>yaml_schema.py\<close>, \<^verbatim>\<open>case_engine/yaml_parser.py\<close>), its static risk (\<^verbatim>\<open>risk.py\<close>), the life cycle
  (\<^verbatim>\<open>application/cases.py\<close>) and the fixtures required before publishing (\<^verbatim>\<open>fixture_runner.py\<close>). Parameters: \<open>load\<close>
  is \<^verbatim>\<open>yaml.safe_load\<close> for documents without timestamps, binaries and keys that are not strings (\<^const>\<open>Inl\<close> is a
  YAML error with its text); \<open>signer\<close> signs the payload of a case or raises.
\<close>

section \<open>Definitions\<close>

datatype case_status = DRAFT | VALIDATED_CASE | REVIEWED | SIGNED | PUBLISHED | DISABLED | DEPRECATED

fun case_status_value :: "case_status \<Rightarrow> string" where
  "case_status_value DRAFT = ''draft''"
| "case_status_value VALIDATED_CASE = ''validated''"
| "case_status_value REVIEWED = ''reviewed''"
| "case_status_value SIGNED = ''signed''"
| "case_status_value PUBLISHED = ''published''"
| "case_status_value DISABLED = ''disabled''"
| "case_status_value DEPRECATED = ''deprecated''"

datatype case_origin = MANUAL | MODEL_GENERATED | COMMUNITY

fun origin_value :: "case_origin \<Rightarrow> string" where
  "origin_value MANUAL = ''manual''"
| "origin_value MODEL_GENERATED = ''model_generated''"
| "origin_value COMMUNITY = ''community''"

definition origin_of_value :: "string \<Rightarrow> case_origin option" where
  "origin_of_value s = List.find (\<lambda>r. origin_value r = s) [MANUAL, MODEL_GENERATED, COMMUNITY]"

record case_step =
  cs_id :: string
  cs_action :: string
  cs_spec :: pydict

definition CaseStep_check :: "case_step \<Rightarrow> case_step result" where
  "CaseStep_check s =
     (if cs_id s = [] then Inl (DomainValidationError ''CaseStep.id must be non-empty'')
      else if cs_action s = [] then Inl (DomainValidationError ''CaseStep.action must be non-empty'')
      else Inr s)"

record case_assertion =
  asr_id :: string
  asr_expression :: string

definition CaseAssertion_check :: "case_assertion \<Rightarrow> case_assertion result" where
  "CaseAssertion_check a =
     (if asr_id a = [] then Inl (DomainValidationError ''CaseAssertion.id must be non-empty'')
      else if asr_expression a = [] then Inl (DomainValidationError ''CaseAssertion.expression must be non-empty'')
      else Inr a)"

record case_verification =
  cv_method :: string
  cv_reproduce :: int

definition CaseVerification_check :: "case_verification \<Rightarrow> case_verification result" where
  "CaseVerification_check v =
     (if cv_method v = [] then Inl (DomainValidationError ''CaseVerification.method must be non-empty'')
      else if cv_reproduce v < 1 then Inl (DomainValidationError ''CaseVerification.reproduce must be >= 1'')
      else Inr v)"

record case_definition =
  cd_id :: string
  cd_version :: string
  cd_author :: string
  cd_risk :: risk_class
  cd_target_type :: string
  cd_schema :: string
  cd_steps :: "case_step list"
  cd_preconditions :: "string list"
  cd_assertions :: "case_assertion list"
  cd_evidence_req :: "string list"
  cd_cwe :: "string list"
  cd_cve :: "string list"
  cd_owasp :: "string list"
  cd_verification :: "case_verification option"
  cd_signature :: string
  cd_min_engine_version :: string
  cd_origin :: case_origin
  cd_status :: case_status
  cd_yaml :: string

definition CaseDefinition_check :: "case_definition \<Rightarrow> case_definition result" where
  "CaseDefinition_check c =
     (if cd_id c = [] then Inl (DomainValidationError ''CaseDefinition.id must be non-empty'')
      else if cd_version c = [] then Inl (DomainValidationError ''CaseDefinition.version must be non-empty'')
      else if cd_author c = [] then Inl (DomainValidationError ''CaseDefinition.author must be non-empty'')
      else if cd_target_type c = [] then Inl (DomainValidationError ''CaseDefinition.target_type must be non-empty'')
      else if cd_schema c = [] then Inl (DomainValidationError ''CaseDefinition.schema must be non-empty'')
      else if cd_steps c = [] then Inl (DomainValidationError ''CaseDefinition.steps must be non-empty'')
      else Inr c)"

section \<open>Parsing\<close>

definition opt_val :: "pyval option \<Rightarrow> pyval" where
  "opt_val x = (case x of None \<Rightarrow> VNone | Some v \<Rightarrow> v)"

definition require_mapping :: "pyval \<Rightarrow> string \<Rightarrow> pydict result" where
  "require_mapping v field =
     (case v of VDict d \<Rightarrow> Inr d
      | _ \<Rightarrow> Inl (DomainValidationError (''case field '' @ field @ '' must be a mapping'')))"

definition parse_str :: "pyval \<Rightarrow> string \<Rightarrow> string result" where
  "parse_str v field =
     (case v of VStr s \<Rightarrow> if py_strip s = [] then Inl (DomainValidationError (''case field '' @ field @ '' must be a non-empty string'')) else Inr s
      | _ \<Rightarrow> Inl (DomainValidationError (''case field '' @ field @ '' must be a non-empty string'')))"

definition opt_str :: "pyval \<Rightarrow> string \<Rightarrow> string" where
  "opt_str v dflt = (case v of VStr s \<Rightarrow> if py_strip s = [] then dflt else s | _ \<Rightarrow> dflt)"

definition str_tuple :: "pyval \<Rightarrow> string \<Rightarrow> string list result" where
  "str_tuple v field =
     (case v of VNone \<Rightarrow> Inr [] | VStr s \<Rightarrow> Inr [s] | VList vs \<Rightarrow> Inr (map py_str vs)
      | _ \<Rightarrow> Inl (DomainValidationError (''case field '' @ field @ '' must be a string list'')))"

text \<open>\<^verbatim>\<open>DomainValidationError\<close> is a \<^verbatim>\<open>ValueError\<close>: the one raised for a text that is missing is caught here too.\<close>

definition parse_risk :: "pyval \<Rightarrow> risk_class result" where
  "parse_risk v =
     (case parse_str v ''risk'' of
        Inl _ \<Rightarrow> Inl (DomainValidationError (''unknown case risk: '' @ py_repr v))
      | Inr s \<Rightarrow> (case risk_of_value s of
          None \<Rightarrow> Inl (DomainValidationError (''unknown case risk: '' @ py_repr v)) | Some r \<Rightarrow> Inr r))"

definition parse_origin :: "pyval \<Rightarrow> case_origin result" where
  "parse_origin v =
     (case v of VNone \<Rightarrow> Inr MANUAL
      | _ \<Rightarrow> (case origin_of_value (opt_str v (origin_value MANUAL)) of
          None \<Rightarrow> Inl (DomainValidationError (''unknown case origin: '' @ py_repr v)) | Some r \<Rightarrow> Inr r))"

definition indexed :: "string \<Rightarrow> nat \<Rightarrow> string" where
  "indexed name k = name @ ''['' @ nat_repr k @ '']''"

definition parse_step :: "nat \<Rightarrow> pyval \<Rightarrow> case_step result" where
  "parse_step k raw =
     bind_res (require_mapping raw (indexed ''steps'' k)) (\<lambda>m.
     bind_res (parse_str (opt_val (dict_get m ''id'')) (indexed ''steps'' k @ ''.id'')) (\<lambda>i.
     bind_res (parse_str (opt_val (dict_get m ''action'')) (indexed ''steps'' k @ ''.action'')) (\<lambda>a.
       CaseStep_check \<lparr>cs_id = i, cs_action = a,
         cs_spec = (case dict_get m ''spec'' of Some (VDict d) \<Rightarrow> d | _ \<Rightarrow> [])\<rparr>)))"

definition parse_assertion :: "nat \<Rightarrow> pyval \<Rightarrow> case_assertion result" where
  "parse_assertion k raw =
     bind_res (require_mapping raw (indexed ''assertions'' k)) (\<lambda>m.
     bind_res (parse_str (opt_val (dict_get m ''id'')) (indexed ''assertions'' k @ ''.id'')) (\<lambda>i.
     bind_res (parse_str (opt_val (dict_get m ''expression'')) (indexed ''assertions'' k @ ''.expression'')) (\<lambda>e.
       CaseAssertion_check \<lparr>asr_id = i, asr_expression = e\<rparr>)))"

text \<open>A string is a sequence too: its characters are the elements.\<close>

definition parse_sequence :: "string \<Rightarrow> (nat \<Rightarrow> pyval \<Rightarrow> 'a result) \<Rightarrow> pyval \<Rightarrow> 'a list result" where
  "parse_sequence name f v =
     (case v of
        VNone \<Rightarrow> Inr []
      | VList vs \<Rightarrow> map_res (\<lambda>(k, x). f k x) (enumerate 0 vs)
      | VStr s \<Rightarrow> map_res (\<lambda>(k, c). f k (VStr [c])) (enumerate 0 s)
      | _ \<Rightarrow> Inl (DomainValidationError (''case field '' @ name @ '' must be a list'')))"

definition parse_verification :: "pyval \<Rightarrow> case_verification option result" where
  "parse_verification v =
     (if v = VNone then Inr None
      else bind_res (require_mapping v ''verification'') (\<lambda>m.
        case (case dict_get m ''reproduce'' of None \<Rightarrow> VInt 1 | Some r \<Rightarrow> r) of
          VInt n \<Rightarrow> bind_res (parse_str (opt_val (dict_get m ''method'')) ''verification.method'') (\<lambda>method.
            bind_res (CaseVerification_check \<lparr>cv_method = method, cv_reproduce = n\<rparr>) (\<lambda>x. Inr (Some x)))
        | _ \<Rightarrow> Inl (DomainValidationError ''verification.reproduce must be an integer'')))"

definition first_truthy :: "pyval \<Rightarrow> pyval \<Rightarrow> pyval" where
  "first_truthy x y = (if truthy x then x else y)"

definition case_from_mapping :: "pydict \<Rightarrow> case_definition result" where
  "case_from_mapping d =
     (let field = (\<lambda>k. opt_val (dict_get d k));
          classification = (case dict_get d ''classification'' of Some (VDict c) \<Rightarrow> c | _ \<Rightarrow> []);
          class_of = (\<lambda>k. str_tuple (first_truthy (opt_val (dict_get classification k)) (field k)) k) in
      bind_res (parse_str (field ''id'') ''id'') (\<lambda>i.
      bind_res (parse_str (field ''version'') ''version'') (\<lambda>version.
      bind_res (parse_str (field ''author'') ''author'') (\<lambda>author.
      bind_res (parse_risk (field ''risk'')) (\<lambda>risk.
      bind_res (parse_str (field ''target_type'') ''target_type'') (\<lambda>target_type.
      bind_res (parse_sequence ''steps'' parse_step (field ''steps'')) (\<lambda>steps.
      bind_res (str_tuple (field ''preconditions'') ''preconditions'') (\<lambda>preconditions.
      bind_res (parse_sequence ''assertions'' parse_assertion (field ''assertions'')) (\<lambda>assertions.
      bind_res (str_tuple (field ''evidence_req'') ''evidence_req'') (\<lambda>evidence_req.
      bind_res (class_of ''cwe'') (\<lambda>cwe.
      bind_res (class_of ''cve'') (\<lambda>cve.
      bind_res (class_of ''owasp'') (\<lambda>owasp.
      bind_res (parse_verification (field ''verification'')) (\<lambda>verification.
      bind_res (parse_origin (field ''origin'')) (\<lambda>origin.
        CaseDefinition_check
          \<lparr>cd_id = i, cd_version = version, cd_author = author, cd_risk = risk, cd_target_type = target_type,
           cd_schema = opt_str (field ''schema'') ''nuclei+secopent/1'', cd_steps = steps, cd_preconditions = preconditions,
           cd_assertions = assertions, cd_evidence_req = evidence_req, cd_cwe = cwe, cd_cve = cve, cd_owasp = owasp,
           cd_verification = verification, cd_signature = opt_str (field ''signature'') [],
           cd_min_engine_version = opt_str (field ''min_engine_version'') ''1.0.0'', cd_origin = origin, cd_status = DRAFT,
           cd_yaml = []\<rparr>)))))))))))))))"

definition load_case_yaml :: "(string \<Rightarrow> string + pyval) \<Rightarrow> (exn \<Rightarrow> string) \<Rightarrow> string \<Rightarrow> case_definition result" where
  "load_case_yaml load exn_str text =
     (case load text of
        Inl e \<Rightarrow> Inl (CaseParseError (''invalid YAML: '' @ e))
      | Inr (VDict d) \<Rightarrow>
          (case case_from_mapping d of
             Inr c \<Rightarrow> Inr c
           | Inl (DomainValidationError m) \<Rightarrow> Inl (CaseParseError (''invalid case definition: '' @ exn_str (DomainValidationError m)))
           | Inl e \<Rightarrow> Inl e)
      | Inr _ \<Rightarrow> Inl (CaseParseError ''case YAML must be a mapping at the top level''))"

definition CASE_CANARY_PLACEHOLDER :: string where
  "CASE_CANARY_PLACEHOLDER = ''{{canary_token}}''"

fun contains_canary :: "pyval \<Rightarrow> bool" where
  "contains_canary (VStr s) = contains_str s CASE_CANARY_PLACEHOLDER"
| "contains_canary (VDict d) = list_ex contains_canary (dict_values d)"
| "contains_canary (VList vs) = list_ex contains_canary vs"
| "contains_canary _ = False"

definition uses_canary_token :: "case_definition \<Rightarrow> bool" where
  "uses_canary_token c = list_ex (\<lambda>s. contains_canary (VDict (cs_spec s))) (cd_steps c)"

section \<open>Static risk\<close>

text \<open>\<^verbatim>\<open>str.upper\<close> on code points below 256, of which only micro and y with diaeresis have an upper case above.\<close>

definition upper_char :: "char \<Rightarrow> string" where
  "upper_char c =
     (let n = (of_char c :: nat) in
      if 97 \<le> n \<and> n \<le> 122 \<or> 224 \<le> n \<and> n \<le> 254 \<and> n \<noteq> 247 then [char_of (n - 32)]
      else if n = 223 then ''SS'' else [c])"

definition py_upper :: "string \<Rightarrow> string" where
  "py_upper s = concat (map upper_char s)"

definition action_verb :: "string \<Rightarrow> string" where
  "action_verb a = py_lower (snd (snd (rpartition_on (CHR ''.'') a)))"

definition spec_flag :: "pydict \<Rightarrow> string \<Rightarrow> bool" where
  "spec_flag spec k = truthy (opt_val (dict_get spec k))"

definition has_bound :: "pydict \<Rightarrow> bool" where
  "has_bound spec = list_ex (spec_flag spec) [''limit'', ''max'', ''cap'', ''count'', ''window'']"

definition step_risk :: "case_step \<Rightarrow> risk_class option" where
  "step_risk s =
     (let action = py_lower (cs_action s); verb = action_verb (cs_action s); spec = cs_spec s in
      if contains_str action ''shell'' \<or> dict_get spec ''shell'' = Some (VBool True) then None
      else if verb \<in> {''exec'', ''eval'', ''import''} \<or> spec_flag spec ''dynamic_import'' then None
      else if verb \<in> {''foreach'', ''retry'', ''wait''} \<and> \<not> has_bound spec then None
      else if dict_get spec ''target_out_of_scope'' = Some (VBool True) then None
      else if starts_with action ''oast'' \<or> spec_flag spec ''oast'' then Some INTRUSIVE
      else if list_ex (spec_flag spec) [''credential'', ''upload'', ''time_based'', ''timing''] then Some INTRUSIVE
      else if verb \<in> {''crawl'', ''scan'', ''foreach''} \<or> spec_flag spec ''crawl'' then Some ACTIVE
      else if py_upper (case dict_get spec ''method'' of None \<Rightarrow> [] | Some v \<Rightarrow> py_str v) \<in> {''POST'', ''PUT'', ''DELETE'', ''PATCH''}
      then Some ACTIVE
      else Some risk_class.LOW)"

fun step_risks :: "case_step list \<Rightarrow> risk_class list option" where
  "step_risks [] = Some []"
| "step_risks (s # ss) =
     (case step_risk s of None \<Rightarrow> None | Some r \<Rightarrow> map_option ((#) r) (step_risks ss))"

definition compute_risk :: "case_definition \<Rightarrow> risk_class option" where
  "compute_risk c =
     (case step_risks (cd_steps c) of
        None \<Rightarrow> None
      | Some [] \<Rightarrow> Some risk_class.LOW
      | Some (r # rs) \<Rightarrow> Some (max_by risk_rank r rs))"

definition validate_declared_risk :: "case_definition \<Rightarrow> unit result" where
  "validate_declared_risk c =
     (case compute_risk c of
        None \<Rightarrow> Inl (RiskPublishDenied (''case '' @ cd_id c @
          '' uses a deny-listed pattern (Shell / unbounded loop / out-of-scope target) and cannot be published''))
      | Some computed \<Rightarrow>
          if risk_rank (cd_risk c) < risk_rank computed then
            Inl (RiskUndeclared (''case '' @ cd_id c @ '' declared risk '' @ risk_value (cd_risk c) @
              '' is below the computed risk '' @ risk_value computed))
          else Inr ())"

section \<open>The life cycle\<close>

type_synonym case_registry = "(string \<times> case_definition) list"

definition case_put :: "case_definition \<Rightarrow> case_registry \<Rightarrow> case_registry" where
  "case_put c reg = dict_set (cd_id c) c reg"

definition case_list :: "case_registry \<Rightarrow> case_definition list" where
  "case_list reg = map snd (sort_key fst reg)"

fun CASE_TRANSITIONS :: "case_status \<Rightarrow> case_status set" where
  "CASE_TRANSITIONS DRAFT = {VALIDATED_CASE}"
| "CASE_TRANSITIONS VALIDATED_CASE = {REVIEWED}"
| "CASE_TRANSITIONS REVIEWED = {SIGNED}"
| "CASE_TRANSITIONS SIGNED = {PUBLISHED}"
| "CASE_TRANSITIONS _ = {}"

definition case_signing_payload :: "case_definition \<Rightarrow> string" where
  "case_signing_payload c = join ''|'' [cd_id c, cd_version c, risk_value (cd_risk c), cd_target_type c, cd_schema c]"

definition create_draft :: "case_definition \<Rightarrow> (case_registry, case_definition) cmd" where
  "create_draft c reg = (Inr (c\<lparr>cd_status := DRAFT\<rparr>), case_put (c\<lparr>cd_status := DRAFT\<rparr>) reg)"

definition case_get :: "string \<Rightarrow> (case_registry, case_definition) cmd" where
  "case_get i reg =
     (case dict_get reg i of None \<Rightarrow> Inl (CaseNotFoundError (''case not found: '' @ i)) | Some c \<Rightarrow> Inr c, reg)"

definition case_check_transition :: "case_definition \<Rightarrow> case_status \<Rightarrow> unit result" where
  "case_check_transition c t =
     guard (t \<in> CASE_TRANSITIONS (cd_status c))
       (CaseTransitionError (''case '' @ cd_id c @ '': cannot transition '' @ case_status_value (cd_status c) @ '' -> '' @ case_status_value t))"

definition case_transition :: "case_definition \<Rightarrow> case_status \<Rightarrow> (case_registry, case_definition) cmd" where
  "case_transition c t =
     bindC (liftC (case_check_transition c t)) (\<lambda>_ reg. (Inr (c\<lparr>cd_status := t\<rparr>), case_put (c\<lparr>cd_status := t\<rparr>) reg))"

definition case_require_human :: "string \<Rightarrow> unit result" where
  "case_require_human role =
     (if role = ''agent'' then Inl (CasePermissionError ''agents cannot review, sign, or publish cases (human-only action)'')
      else guard (role = ''human'') (CasePermissionError (''unknown actor role: '' @ repr_str role)))"

definition validate_case :: "string \<Rightarrow> (case_registry, case_definition) cmd" where
  "validate_case i = bindC (case_get i) (\<lambda>c. bindC (liftC (validate_declared_risk c)) (\<lambda>_. case_transition c VALIDATED_CASE))"

definition review_case :: "string \<Rightarrow> string \<Rightarrow> (case_registry, case_definition) cmd" where
  "review_case i role = bindC (liftC (case_require_human role)) (\<lambda>_. bindC (case_get i) (\<lambda>c. case_transition c REVIEWED))"

definition sign_case :: "(string \<Rightarrow> string result) \<Rightarrow> string \<Rightarrow> string \<Rightarrow> (case_registry, case_definition) cmd" where
  "sign_case signer i role =
     bindC (liftC (case_require_human role)) (\<lambda>_.
     bindC (case_get i) (\<lambda>c.
     bindC (liftC (case_check_transition c SIGNED)) (\<lambda>_.
     bindC (liftC (signer (case_signing_payload c))) (\<lambda>sig reg.
       (Inr (c\<lparr>cd_status := SIGNED, cd_signature := sig\<rparr>), case_put (c\<lparr>cd_status := SIGNED, cd_signature := sig\<rparr>) reg)))))"

definition publish_case :: "string \<Rightarrow> string \<Rightarrow> (case_registry, case_definition) cmd" where
  "publish_case i role = bindC (liftC (case_require_human role)) (\<lambda>_. bindC (case_get i) (\<lambda>c. case_transition c PUBLISHED))"

definition fast_track_model_generated :: "string \<Rightarrow> (case_registry, case_definition) cmd" where
  "fast_track_model_generated i =
     bindC (case_get i) (\<lambda>c.
     bindC (liftC (guard (cd_origin c = MODEL_GENERATED)
       (CaseNotModelGeneratedError (''case '' @ i @ '' is not model-generated (origin='' @ origin_value (cd_origin c) @ '')'')))) (\<lambda>_.
     bindC (liftC (validate_declared_risk c)) (\<lambda>_.
     bindC (case_transition c VALIDATED_CASE) (\<lambda>validated.
       if cd_risk c \<in> {PASSIVE, risk_class.LOW} then case_transition validated REVIEWED else returnC validated))))"

section \<open>Fixtures\<close>

definition REQUIRED_FIXTURE_KINDS :: "string list" where
  "REQUIRED_FIXTURE_KINDS = [''positive'', ''negative'', ''timeout'', ''scope_deny'', ''malformed'']"

definition INTRUSIVE_EXTRA_KINDS :: "string list" where
  "INTRUSIVE_EXTRA_KINDS = [''range'', ''before_after'', ''cleanup'', ''max_impact'']"

definition EXPECTED_DETECTED :: "string \<Rightarrow> bool option" where
  "EXPECTED_DETECTED kind =
     map_of [(''positive'', True), (''negative'', False), (''timeout'', False), (''scope_deny'', False), (''malformed'', False)] kind"

record case_fixture =
  fx_kind :: string
  fx_detected :: bool

record fixture_result =
  fr_passed :: bool
  fr_missing_kinds :: "string list"
  fr_failures :: "string list"

definition fixture_failure :: "case_fixture \<Rightarrow> string option" where
  "fixture_failure f =
     (case EXPECTED_DETECTED (fx_kind f) of
        None \<Rightarrow> None
      | Some expected \<Rightarrow>
          if fx_detected f = expected then None
          else Some (fx_kind f @ '': expected detected='' @ py_repr (VBool expected) @ '', got detected='' @ py_repr (VBool (fx_detected f))))"

definition run_fixtures :: "case_definition \<Rightarrow> case_fixture list \<Rightarrow> fixture_result" where
  "run_fixtures c fs =
     (let required = REQUIRED_FIXTURE_KINDS @ (if cd_risk c = INTRUSIVE then INTRUSIVE_EXTRA_KINDS else []);
          missing = sort (filter (\<lambda>k. k \<notin> fx_kind ` set fs) required);
          failures = List.map_filter fixture_failure fs in
      \<lparr>fr_passed = (missing = [] \<and> failures = []), fr_missing_kinds = missing, fr_failures = failures\<rparr>)"

end
