(* ===== verification/Case_Engine.thy ===== *)
theory Case_Engine
  imports Cases
begin

text \<open>
  The interpreter of cases (\<^verbatim>\<open>infrastructure/case_engine\<close>): the evaluator of assertions, which walks the syntax
  tree of a Python expression without \<^verbatim>\<open>eval\<close> (\<^verbatim>\<open>ast_evaluator.py\<close>), and the execution of the steps of a case
  (\<^verbatim>\<open>interpreter.py\<close>). Parameters: \<open>parse\<close> is \<^verbatim>\<open>ast.parse\<close> in mode \<^verbatim>\<open>eval\<close> (\<^const>\<open>None\<close> is a syntax error);
  \<open>search\<close> is \<^verbatim>\<open>re.search\<close> (\<^const>\<open>None\<close> is a bad pattern, otherwise no match or the whole match and its groups);
  \<open>fr\<close> is the numeral of a float; \<open>http\<close> is the injected execution context. The wording of syntax, type and
  pattern errors of the language, which the messages of the program quote, is left out of them.
\<close>

section \<open>Values\<close>

text \<open>
  The values an expression can denote: constants, lists, dictionaries with string keys, and the response
  objects the interpreter stores. Floats are finite and exact, without a negative zero; bytes, complex numbers and the
  ellipsis are left out.
\<close>

datatype av =
    ANone
  | ABool bool
  | AInt int
  | AFloat rat
  | AStr string
  | AList "av list"
  | ADict "(string \<times> av) list"
  | AResponse int string "(string \<times> string) list"

fun av_truthy :: "av \<Rightarrow> bool" where
  "av_truthy ANone = False"
| "av_truthy (ABool b) = b"
| "av_truthy (AInt n) = (n \<noteq> 0)"
| "av_truthy (AFloat q) = (q \<noteq> 0)"
| "av_truthy (AStr s) = (s \<noteq> [])"
| "av_truthy (AList vs) = (vs \<noteq> [])"
| "av_truthy (ADict d) = (d \<noteq> [])"
| "av_truthy (AResponse _ _ _) = True"

text \<open>A bool is an int, and ints and floats compare by value.\<close>

fun av_number :: "av \<Rightarrow> rat option" where
  "av_number (ABool b) = Some (if b then 1 else 0)"
| "av_number (AInt n) = Some (of_int n)"
| "av_number (AFloat q) = Some q"
| "av_number _ = None"

definition same_dict :: "('v \<Rightarrow> 'v \<Rightarrow> bool) \<Rightarrow> (string \<times> 'v) list \<Rightarrow> (string \<times> 'v) list \<Rightarrow> bool" where
  "same_dict eq d e \<longleftrightarrow> length d = length e \<and>
     list_all (\<lambda>(k, v). case dict_get e k of None \<Rightarrow> False | Some w \<Rightarrow> eq v w) d"

lemma same_dict_cong [fundef_cong]:
  assumes "d = d'" "e = e'" "\<And>k v w. (k, v) \<in> set d' \<Longrightarrow> (k, w) \<in> set e' \<Longrightarrow> eq v w = eq' v w"
  shows "same_dict eq d e = same_dict eq' d' e'"
  unfolding same_dict_def assms(1,2)
  by (intro conj_cong refl list.pred_cong) (auto split: option.splits simp: assms(3) [OF _ map_of_SomeD])

fun av_eq :: "av \<Rightarrow> av \<Rightarrow> bool" where
  "av_eq (AList vs) (AList ws) = list_all2 av_eq vs ws"
| "av_eq (ADict d) (ADict e) = same_dict av_eq d e"
| "av_eq (AResponse s b h) (AResponse s' b' h') = (s = s' \<and> b = b' \<and> same_dict (=) h h')"
| "av_eq ANone ANone = True"
| "av_eq (AStr s) (AStr t) = (s = t)"
| "av_eq v w = (case (av_number v, av_number w) of (Some p, Some q) \<Rightarrow> p = q | _ \<Rightarrow> False)"

text \<open>
  The order relations: \<open>lt\<close> decides strictness. Lists compare at the first elements that differ, and
  by length when one is a prefix of the other. \<^const>\<open>None\<close> is a \<^verbatim>\<open>TypeError\<close>.
\<close>

datatype ord_op = LtOp | LeOp | GtOp | GeOp

fun ord_holds :: "ord_op \<Rightarrow> 'a :: linorder \<Rightarrow> 'a \<Rightarrow> bool" where
  "ord_holds LtOp x y = (x < y)"
| "ord_holds LeOp x y = (x \<le> y)"
| "ord_holds GtOp x y = (x > y)"
| "ord_holds GeOp x y = (x \<ge> y)"

fun av_ord :: "ord_op \<Rightarrow> av \<Rightarrow> av \<Rightarrow> bool option" where
  "av_ord r (AStr s) (AStr t) = Some (ord_holds r s t)"
| "av_ord r (AList (v # vs)) (AList (w # ws)) =
     (if av_eq v w then av_ord r (AList vs) (AList ws) else av_ord r v w)"
| "av_ord r (AList vs) (AList ws) = Some (ord_holds r (length vs) (length ws))"
| "av_ord r v w = (case (av_number v, av_number w) of (Some p, Some q) \<Rightarrow> Some (ord_holds r p q) | _ \<Rightarrow> None)"

text \<open>A list, a dictionary and a response, which has a dictionary inside, are not hashable.\<close>

fun av_in :: "av \<Rightarrow> av \<Rightarrow> bool option" where
  "av_in (AStr s) (AStr t) = Some (contains_str t s)"
| "av_in v (AList ws) = Some (list_ex (av_eq v) ws)"
| "av_in (AStr s) (ADict d) = Some (s \<in> set (dict_keys d))"
| "av_in (AList _) (ADict d) = None"
| "av_in (ADict _) (ADict d) = None"
| "av_in (AResponse _ _ _) (ADict d) = None"
| "av_in _ (ADict d) = Some False"
| "av_in _ _ = None"

fun av_repr :: "(rat \<Rightarrow> string) \<Rightarrow> av \<Rightarrow> string" where
  "av_repr fr ANone = ''None''"
| "av_repr fr (ABool b) = (if b then ''True'' else ''False'')"
| "av_repr fr (AInt i) = int_repr i"
| "av_repr fr (AFloat q) = fr q"
| "av_repr fr (AStr s) = repr_str s"
| "av_repr fr (AList vs) = ''['' @ join '', '' (map (av_repr fr) vs) @ '']''"
| "av_repr fr (ADict d) = ''{'' @ join '', '' (map (\<lambda>(k, v). repr_str k @ '': '' @ av_repr fr v) d) @ ''}''"
| "av_repr fr (AResponse s b h) =
     ''HttpResponse(status_code='' @ int_repr s @ '', body='' @ repr_str b @ '', headers='' @
     ''{'' @ join '', '' (map (\<lambda>(k, v). repr_str k @ '': '' @ repr_str v) h) @ ''})''"

definition av_str :: "(rat \<Rightarrow> string) \<Rightarrow> av \<Rightarrow> string" where
  "av_str fr v = (case v of AStr s \<Rightarrow> s | _ \<Rightarrow> av_repr fr v)"

section \<open>Syntax trees\<close>

datatype cmp_op = CEq | CNotEq | COrd ord_op | CIn | CNotIn | CIs | CIsNot

text \<open>
  \<open>Other\<close> stands for every other node of the grammar, by the name of its class; the two booleans are the
  operator (\<^verbatim>\<open>and\<close> is \<^const>\<open>True\<close>) and the presence of keyword arguments.
\<close>

datatype unary_op = UNot | USub | UOther

datatype node =
    Constant av
  | Sequence "node list" \<comment> \<open>a list or a tuple display\<close>
  | Name string
  | BoolOp bool "node list"
  | UnaryOp unary_op node
  | Compare node "(cmp_op \<times> node) list"
  | Call node "node list" bool
  | Other string

section \<open>The evaluator\<close>

type_synonym search = "string \<Rightarrow> string \<Rightarrow> (string \<times> string option list) option option"

fun compare_op :: "cmp_op \<Rightarrow> av \<Rightarrow> av \<Rightarrow> bool option" where
  "compare_op CEq v w = Some (av_eq v w)"
| "compare_op CNotEq v w = Some (\<not> av_eq v w)"
| "compare_op (COrd r) v w = av_ord r v w"
| "compare_op CIn v w = av_in v w"
| "compare_op CNotIn v w = map_option Not (av_in v w)"
| "compare_op _ v w = None"

fun op_name :: "cmp_op \<Rightarrow> string" where
  "op_name CIs = ''Is''" | "op_name CIsNot = ''IsNot''" | "op_name _ = []"

definition av_len :: "av \<Rightarrow> int option" where
  "av_len v = (case v of AStr s \<Rightarrow> Some (int (length s)) | AList vs \<Rightarrow> Some (int (length vs)) | ADict d \<Rightarrow> Some (int (length d)) | _ \<Rightarrow> None)"

definition call_failed :: "av result" where
  "call_failed = Inl (ExpressionError ''assertion function failed'')"

text \<open>The functions of \<^verbatim>\<open>_FUNCTIONS\<close>; \<^const>\<open>None\<close> is a name that is not in the table.\<close>

definition call_function :: "(rat \<Rightarrow> string) \<Rightarrow> search \<Rightarrow> string \<Rightarrow> (av list \<Rightarrow> av result) option" where
  "call_function fr search f = map_of
     [(''contains'', \<lambda>as. case as of [h, n] \<Rightarrow> (case av_in n h of Some b \<Rightarrow> Inr (ABool b)
                              | None \<Rightarrow> Inl (ExpressionError ''contains() unsupported operand'')) | _ \<Rightarrow> call_failed),
      (''len'', \<lambda>as. case as of [v] \<Rightarrow> (case av_len v of Some n \<Rightarrow> Inr (AInt n) | None \<Rightarrow> call_failed) | _ \<Rightarrow> call_failed),
      (''matches'', \<lambda>as. case as of [AStr p, t] \<Rightarrow> (case search p (av_str fr t) of
                              None \<Rightarrow> Inl (ExpressionError ''matches() invalid regex'') | Some m \<Rightarrow> Inr (ABool (m \<noteq> None)))
                            | [_, _] \<Rightarrow> Inl (ExpressionError ''matches() pattern must be a string'') | _ \<Rightarrow> call_failed),
      (''starts_with'', \<lambda>as. case as of [t, p] \<Rightarrow> Inr (ABool (starts_with (av_str fr t) (av_str fr p))) | _ \<Rightarrow> call_failed),
      (''ends_with'', \<lambda>as. case as of [t, p] \<Rightarrow> Inr (ABool (ends_with (av_str fr t) (av_str fr p))) | _ \<Rightarrow> call_failed),
      (''equals'', \<lambda>as. case as of [a, b] \<Rightarrow> Inr (ABool (av_eq a b)) | _ \<Rightarrow> call_failed),
      (''lower'', \<lambda>as. case as of [t] \<Rightarrow> Inr (AStr (py_lower (av_str fr t))) | _ \<Rightarrow> call_failed),
      (''upper'', \<lambda>as. case as of [t] \<Rightarrow> Inr (AStr (py_upper (av_str fr t))) | _ \<Rightarrow> call_failed)] f"

fun av_neg :: "av \<Rightarrow> av result" where
  "av_neg (ABool b) = Inr (AInt (if b then - 1 else 0))"
| "av_neg (AInt n) = Inr (AInt (- n))"
| "av_neg (AFloat q) = Inr (AFloat (- q))"
| "av_neg _ = Inl (TypeError ''bad operand type for unary -'')"

fun eval :: "(rat \<Rightarrow> string) \<Rightarrow> search \<Rightarrow> (string \<times> av) list \<Rightarrow> node \<Rightarrow> av result"
  and eval_all :: "(rat \<Rightarrow> string) \<Rightarrow> search \<Rightarrow> (string \<times> av) list \<Rightarrow> node list \<Rightarrow> av list result"
  and eval_bool :: "(rat \<Rightarrow> string) \<Rightarrow> search \<Rightarrow> (string \<times> av) list \<Rightarrow> bool \<Rightarrow> av \<Rightarrow> node list \<Rightarrow> av result"
  and eval_chain :: "(rat \<Rightarrow> string) \<Rightarrow> search \<Rightarrow> (string \<times> av) list \<Rightarrow> av \<Rightarrow> (cmp_op \<times> node) list \<Rightarrow> av result" where
  "eval fr search ctx (Constant v) = Inr v"
| "eval fr search ctx (Sequence ns) = bind_res (eval_all fr search ctx ns) (\<lambda>vs. Inr (AList vs))"
| "eval fr search ctx (Name x) =
     (case dict_get ctx x of Some v \<Rightarrow> Inr v | None \<Rightarrow> Inl (ExpressionError (''unknown name in expression: '' @ repr_str x)))"
| "eval fr search ctx (BoolOp isand ns) = eval_bool fr search ctx isand (ABool isand) ns"
| "eval fr search ctx (UnaryOp UNot n) = bind_res (eval fr search ctx n) (\<lambda>v. Inr (ABool (\<not> av_truthy v)))"
| "eval fr search ctx (UnaryOp USub n) = bind_res (eval fr search ctx n) av_neg"
| "eval fr search ctx (UnaryOp UOther n) = Inl (ExpressionError ''disallowed unary operator'')"
| "eval fr search ctx (Compare n cs) = bind_res (eval fr search ctx n) (\<lambda>v. eval_chain fr search ctx v cs)"
| "eval fr search ctx (Call f as keywords) =
     (if keywords then Inl (ExpressionError ''keyword arguments are not allowed in assertions'')
      else case f of
        Name x \<Rightarrow> (case call_function fr search x of
            None \<Rightarrow> Inl (ExpressionError (''function not allowed in assertions: '' @ repr_str x))
          | Some g \<Rightarrow> bind_res (eval_all fr search ctx as) g)
      | _ \<Rightarrow> Inl (ExpressionError ''only direct whitelisted function calls are allowed''))"
| "eval fr search ctx (Other cls) = Inl (ExpressionError (''disallowed expression construct: '' @ cls))"
| "eval_all fr search ctx [] = Inr []"
| "eval_all fr search ctx (n # ns) =
     bind_res (eval fr search ctx n) (\<lambda>v. bind_res (eval_all fr search ctx ns) (\<lambda>vs. Inr (v # vs)))"
| "eval_bool fr search ctx isand result [] = Inr result"
| "eval_bool fr search ctx isand result (n # ns) =
     bind_res (eval fr search ctx n) (\<lambda>v. if av_truthy v = isand then eval_bool fr search ctx isand v ns else Inr v)"
| "eval_chain fr search ctx left [] = Inr (ABool True)"
| "eval_chain fr search ctx left ((op, n) # cs) =
     (if op \<in> {CIs, CIsNot} then Inl (ExpressionError (''disallowed comparison: '' @ op_name op))
      else bind_res (eval fr search ctx n) (\<lambda>right.
        case compare_op op left right of
          None \<Rightarrow> Inl (ExpressionError ''invalid comparison'')
        | Some b \<Rightarrow> if b then eval_chain fr search ctx right cs else Inr (ABool False)))"

definition evaluate_expression ::
  "(string \<Rightarrow> node option) \<Rightarrow> (rat \<Rightarrow> string) \<Rightarrow> search \<Rightarrow> string \<Rightarrow> (string \<times> av) list \<Rightarrow> av result" where
  "evaluate_expression parse fr search text ctx =
     (case parse text of
        None \<Rightarrow> Inl (ExpressionError ''invalid expression syntax'')
      | Some n \<Rightarrow> eval fr search ctx n)"

section \<open>Running a case\<close>

record http_response =
  hr_status_code :: int
  hr_body :: string
  hr_headers :: "(string \<times> string) list"

record interpreter_result =
  ir_passed :: bool
  ir_assertions :: "(string \<times> bool) list"
  ir_context :: "(string \<times> av) list"

text \<open>
  The environment of a run: the outside \<^typ>\<open>'w\<close> answers requests or raises; the store of variables.
\<close>

record 'w case_run =
  cr_store :: "(string \<times> av) list"
  cr_out :: 'w

definition FOREACH_LIMIT_CAP :: int where "FOREACH_LIMIT_CAP = 100"
definition RETRY_LIMIT_CAP :: int where "RETRY_LIMIT_CAP = 10"
definition WAIT_SECONDS_CAP :: int where "WAIT_SECONDS_CAP = 300"

text \<open>\<^verbatim>\<open>isinstance(v, int) and v > cap\<close>; a bool is never above a cap.\<close>

definition above_cap :: "pyval \<Rightarrow> int \<Rightarrow> bool" where
  "above_cap v cap = (case v of VInt n \<Rightarrow> n > cap | _ \<Rightarrow> False)"

definition check_caps :: "case_step \<Rightarrow> unit result" where
  "check_caps s =
     (let verb = action_verb (cs_action s); spec = (\<lambda>k. opt_val (dict_get (cs_spec s) k)) in
      if verb = ''foreach'' then
        guard (\<not> above_cap (spec ''limit'') FOREACH_LIMIT_CAP)
          (InterpreterError (''foreach limit '' @ py_str (spec ''limit'') @ '' exceeds cap '' @ int_repr FOREACH_LIMIT_CAP))
      else if verb = ''retry'' then
        guard (\<not> above_cap (first_truthy (spec ''limit'') (spec ''max'')) RETRY_LIMIT_CAP)
          (InterpreterError (''retry count '' @ py_str (first_truthy (spec ''limit'') (spec ''max'')) @ '' exceeds cap '' @ int_repr RETRY_LIMIT_CAP))
      else if verb = ''wait'' then
        guard (\<not> above_cap (spec ''seconds'') WAIT_SECONDS_CAP)
          (InterpreterError (''wait '' @ py_str (spec ''seconds'') @ ''s exceeds cap '' @ int_repr WAIT_SECONDS_CAP @ ''s''))
      else Inr ())"

definition spec_text :: "pydict \<Rightarrow> string \<Rightarrow> string \<Rightarrow> string" where
  "spec_text spec k dflt = (case dict_get spec k of None \<Rightarrow> dflt | Some v \<Rightarrow> py_str v)"

definition request_url :: "pydict \<Rightarrow> string" where
  "request_url spec =
     (let url = (if spec_flag spec ''url'' then py_str (opt_val (dict_get spec ''url'')) else []) in
      if url = [] then spec_text spec ''base_url'' [] @ spec_text spec ''path'' [] else url)"

definition set_var :: "string \<Rightarrow> av \<Rightarrow> 'w case_run \<Rightarrow> 'w case_run" where
  "set_var x v r = r\<lparr>cr_store := dict_set x v (cr_store r)\<rparr>"

definition execute_http :: "(string \<Rightarrow> string \<Rightarrow> ('w, http_response) cmd) \<Rightarrow> case_step \<Rightarrow> ('w case_run, unit) cmd" where
  "execute_http http s r =
     (case http (py_upper (spec_text (cs_spec s) ''method'' ''GET'')) (request_url (cs_spec s)) (cr_out r) of
        (Inl e, w) \<Rightarrow> (Inl e, r\<lparr>cr_out := w\<rparr>)
      | (Inr p, w) \<Rightarrow>
          (Inr (),
           set_var (cs_id s) (AResponse (hr_status_code p) (hr_body p) (hr_headers p))
             (set_var ''headers'' (ADict (map (\<lambda>(k, v). (k, AStr v)) (hr_headers p)))
             (set_var ''body'' (AStr (hr_body p))
             (set_var ''status_code'' (AInt (hr_status_code p)) (r\<lparr>cr_out := w\<rparr>))))))"

definition match_value :: "(string \<times> string option list) option \<Rightarrow> av" where
  "match_value m =
     (case m of None \<Rightarrow> AStr []
      | Some (g0, []) \<Rightarrow> AStr g0
      | Some (g0, None # _) \<Rightarrow> ANone
      | Some (g0, Some g # _) \<Rightarrow> AStr g)"

definition execute_extract_regex :: "(rat \<Rightarrow> string) \<Rightarrow> search \<Rightarrow> case_step \<Rightarrow> ('w case_run, unit) cmd" where
  "execute_extract_regex fr search s r =
     (let source = (case dict_get (cr_store r) (spec_text (cs_spec s) ''source'' []) of None \<Rightarrow> AStr [] | Some v \<Rightarrow> v);
          x = spec_text (cs_spec s) ''var'' [] in
      if x = [] then (Inl (InterpreterError (''extract.regex requires a '' @ repr_str ''var'' @ '' to store the capture'')), r)
      else case search (spec_text (cs_spec s) ''pattern'' []) (av_str fr source) of
        None \<Rightarrow> (Inl (InterpreterError ''extract.regex invalid pattern''), r)
      | Some m \<Rightarrow> (Inr (), set_var x (match_value m) r))"

definition execute_case_step ::
  "(rat \<Rightarrow> string) \<Rightarrow> search \<Rightarrow> (string \<Rightarrow> string \<Rightarrow> ('w, http_response) cmd) \<Rightarrow> case_step \<Rightarrow> ('w case_run, unit) cmd" where
  "execute_case_step fr search http s =
     (let verb = action_verb (cs_action s); action = py_lower (cs_action s) in
      if verb = ''request'' \<and> starts_with action ''http'' then execute_http http s
      else if verb = ''regex'' \<and> starts_with action ''extract'' then execute_extract_regex fr search s
      else if verb \<in> {''foreach'', ''retry'', ''wait'', ''condition''} then returnC ()
      else raiseC (InterpreterError (''unsupported action in this interpreter: '' @ cs_action s)))"

fun run_case_steps ::
  "(rat \<Rightarrow> string) \<Rightarrow> search \<Rightarrow> (string \<Rightarrow> string \<Rightarrow> ('w, http_response) cmd) \<Rightarrow> case_step list \<Rightarrow> ('w case_run, unit) cmd" where
  "run_case_steps fr search http [] = returnC ()"
| "run_case_steps fr search http (s # ss) =
     bindC (liftC (check_caps s)) (\<lambda>_. bindC (execute_case_step fr search http s) (\<lambda>_. run_case_steps fr search http ss))"

text \<open>Only an \<^verbatim>\<open>ExpressionError\<close> counts as a failed assertion; what else an evaluation raises ends the run.\<close>

definition check_assertion ::
  "(string \<Rightarrow> node option) \<Rightarrow> (rat \<Rightarrow> string) \<Rightarrow> search \<Rightarrow> (string \<times> av) list \<Rightarrow> case_assertion \<Rightarrow> bool result" where
  "check_assertion parse fr search store a =
     (case evaluate_expression parse fr search (asr_expression a) store of
        Inr v \<Rightarrow> Inr (av_truthy v)
      | Inl (ExpressionError _) \<Rightarrow> Inr False
      | Inl e \<Rightarrow> Inl e)"

fun check_assertions ::
  "(string \<Rightarrow> node option) \<Rightarrow> (rat \<Rightarrow> string) \<Rightarrow> search \<Rightarrow> (string \<times> av) list \<Rightarrow> case_assertion list \<Rightarrow> (string \<times> bool) list \<Rightarrow>
   (string \<times> bool) list result" where
  "check_assertions parse fr search store [] acc = Inr acc"
| "check_assertions parse fr search store (a # as) acc =
     bind_res (check_assertion parse fr search store a) (\<lambda>b. check_assertions parse fr search store as (dict_set (asr_id a) b acc))"

definition run_case ::
  "(string \<Rightarrow> node option) \<Rightarrow> (rat \<Rightarrow> string) \<Rightarrow> search \<Rightarrow> (string \<Rightarrow> string \<Rightarrow> ('w, http_response) cmd) \<Rightarrow> case_definition \<Rightarrow>
   ('w, interpreter_result) cmd" where
  "run_case parse fr search http c w =
     (if compute_risk c = None then
        (Inl (InterpreterError (''case '' @ cd_id c @
           '' uses a deny-listed action (Shell / dynamic import / out-of-scope target / unbounded loop) and cannot run'')), w)
      else case run_case_steps fr search http (cd_steps c) \<lparr>cr_store = [], cr_out = w\<rparr> of
        (Inl e, r) \<Rightarrow> (Inl e, cr_out r)
      | (Inr _, r) \<Rightarrow>
          (bind_res (check_assertions parse fr search (cr_store r) (cd_assertions c) []) (\<lambda>results.
             Inr \<lparr>ir_passed = list_all id (dict_values results), ir_assertions = results, ir_context = cr_store r\<rparr>), cr_out r))"

end
