(* ===== verification/Provenance.thy ===== *)
theory Provenance
  imports Prelude
begin

text \<open>
  What a history of calls says about a stored value. Several services keep values under keys and move them through
  a life cycle by calls that name the key. The locale states what such a service promises of one call, and
  derives what holds after every history: a stored value is justified by the calls made since its key was last reset.
\<close>

definition since :: "('c \<Rightarrow> bool) \<Rightarrow> 'c list \<Rightarrow> 'c list" where
  "since resets calls = takeWhile (\<lambda>c. \<not> resets c) (rev calls)"

definition after :: "('c \<Rightarrow> 's \<Rightarrow> 's) \<Rightarrow> 's \<Rightarrow> 'c list \<Rightarrow> 's" where
  "after step start calls = foldl (\<lambda>s c. step c s) start calls"

lemma since_simps [simp]:
  "since resets [] = []" "since resets (calls @ [c]) = (if resets c then [] else c # since resets calls)"
  by (simp_all add: since_def)

lemma after_simps [simp]:
  "after step start [] = start" "after step start (calls @ [c]) = step c (after step start calls)"
  by (simp_all add: after_def)

lemma since_set: "c \<in> set (since resets calls) \<Longrightarrow> c \<in> set calls \<and> \<not> resets c"
  by (auto simp: since_def dest: set_takeWhileD)

locale provenance =
  fixes step :: "'c \<Rightarrow> 's \<Rightarrow> 's"
    and lookup :: "'s \<Rightarrow> 'k \<Rightarrow> 'v option"
    and start :: 's
    and legal :: "'c \<Rightarrow> bool"
    and resets :: "'k \<Rightarrow> 'c \<Rightarrow> bool"
    and justified :: "'k \<Rightarrow> 'c list \<Rightarrow> 'v \<Rightarrow> bool"
  assumes start_empty: "lookup start k = None"
    and justified_later: "justified k calls v \<Longrightarrow> justified k (c # calls) v"
    and step_justified:
      "legal c \<Longrightarrow> (\<And>k v. lookup s k = Some v \<Longrightarrow> justified k (past k) v) \<Longrightarrow> lookup (step c s) k = Some v \<Longrightarrow>
         justified k (if resets k c then [] else c # past k) v"
begin

lemma history:
  "list_all legal calls \<Longrightarrow> lookup (after step start calls) k = Some v \<Longrightarrow> justified k (since (resets k) calls) v"
proof (induction calls arbitrary: k v rule: rev_induct)
  case (snoc c calls)
  then show ?case
    using step_justified [of c "after step start calls" "\<lambda>k. since (resets k) calls" k v] by (auto split: if_splits)
qed (simp add: start_empty)

end

end
