(* ===== verification/Case_Safety.thy ===== *)
theory Case_Safety
  imports Case_Engine Provenance
begin

text \<open>
  What holds of cases: what parsing yields, what the publish gate decides, what every history of calls of the
  service guarantees for a published case, and what a run of a case may do and report.
\<close>

section \<open>Parsing\<close>

definition rejects_invalid :: "'a result \<Rightarrow> bool" where
  "rejects_invalid r \<longleftrightarrow> (\<forall>e. r = Inl e \<longrightarrow> (\<exists>m. e = DomainValidationError m))"

named_theorems parse_rules

lemma rejects_simps [simp]: "rejects_invalid (Inr x)" "rejects_invalid (Inl (DomainValidationError m))"
  by (simp_all add: rejects_invalid_def)

lemma rejects_bind [parse_rules]:
  "rejects_invalid r \<Longrightarrow> (\<And>x. rejects_invalid (f x)) \<Longrightarrow> rejects_invalid (bind_res r f)"
  by (cases r) (auto simp: rejects_invalid_def)

lemma rejects_map_res [parse_rules]: "(\<And>x. rejects_invalid (f x)) \<Longrightarrow> rejects_invalid (map_res f xs)"
  by (induction xs) (auto intro!: rejects_bind)

lemma rejects_fields [parse_rules]:
  "rejects_invalid (require_mapping v n)" "rejects_invalid (parse_str v n)" "rejects_invalid (str_tuple v n)"
  "rejects_invalid (parse_risk v)" "rejects_invalid (parse_origin v)"
  "rejects_invalid (CaseStep_check s)" "rejects_invalid (CaseAssertion_check a)"
  "rejects_invalid (CaseVerification_check x)" "rejects_invalid (CaseDefinition_check c)"
  by (simp_all add: require_mapping_def parse_str_def str_tuple_def parse_risk_def parse_origin_def CaseStep_check_def
      CaseAssertion_check_def CaseVerification_check_def CaseDefinition_check_def split: pyval.split option.split sum.split)

lemma rejects_parts [parse_rules]:
  "rejects_invalid (parse_step k raw)" "rejects_invalid (parse_assertion k raw)" "rejects_invalid (parse_verification v)"
  unfolding parse_step_def parse_assertion_def parse_verification_def
  by (auto intro!: parse_rules split: pyval.split option.split)

lemma rejects_sequence [parse_rules]: "(\<And>k x. rejects_invalid (f k x)) \<Longrightarrow> rejects_invalid (parse_sequence n f v)"
  unfolding parse_sequence_def by (cases v) (auto intro!: parse_rules split: prod.split)

lemma rejects_case: "rejects_invalid (case_from_mapping d)"
  unfolding case_from_mapping_def Let_def by (intro parse_rules)

definition well_formed_case :: "case_definition \<Rightarrow> bool" where
  "well_formed_case c \<longleftrightarrow>
     py_strip (cd_id c) \<noteq> [] \<and> py_strip (cd_version c) \<noteq> [] \<and> py_strip (cd_author c) \<noteq> [] \<and> py_strip (cd_target_type c) \<noteq> [] \<and>
     cd_schema c \<noteq> [] \<and> cd_steps c \<noteq> [] \<and> cd_status c = DRAFT \<and>
     (\<forall>s \<in> set (cd_steps c). py_strip (cs_id s) \<noteq> [] \<and> py_strip (cs_action s) \<noteq> []) \<and>
     (\<forall>a \<in> set (cd_assertions c). py_strip (asr_id a) \<noteq> [] \<and> py_strip (asr_expression a) \<noteq> []) \<and>
     (\<forall>v. cd_verification c = Some v \<longrightarrow> py_strip (cv_method v) \<noteq> [] \<and> 1 \<le> cv_reproduce v)"

lemma parse_str_Inr [simp]: "parse_str v n = Inr s \<longleftrightarrow> v = VStr s \<and> py_strip s \<noteq> []"
  by (cases v) (auto simp: parse_str_def)

lemma parse_step_Inr: "parse_step k raw = Inr s \<Longrightarrow> py_strip (cs_id s) \<noteq> [] \<and> py_strip (cs_action s) \<noteq> []"
  by (auto simp: parse_step_def bind_res_Inr_iff CaseStep_check_def split: if_splits)

lemma parse_assertion_Inr: "parse_assertion k raw = Inr a \<Longrightarrow> py_strip (asr_id a) \<noteq> [] \<and> py_strip (asr_expression a) \<noteq> []"
  by (auto simp: parse_assertion_def bind_res_Inr_iff CaseAssertion_check_def split: if_splits)

lemma parse_verification_Inr:
  assumes "parse_verification v = Inr (Some x)"
  shows "py_strip (cv_method x) \<noteq> [] \<and> 1 \<le> cv_reproduce x"
proof -
  obtain m where m: "(case (case dict_get m ''reproduce'' of None \<Rightarrow> VInt 1 | Some r \<Rightarrow> r) of
      VInt n \<Rightarrow> bind_res (parse_str (opt_val (dict_get m ''method'')) ''verification.method'') (\<lambda>method.
        bind_res (CaseVerification_check \<lparr>cv_method = method, cv_reproduce = n\<rparr>) (\<lambda>x. Inr (Some x)))
    | _ \<Rightarrow> Inl (DomainValidationError ''verification.reproduce must be an integer'')) = Inr (Some x)"
    using assms unfolding parse_verification_def by (auto simp: bind_res_Inr_iff split: if_splits)
  then show ?thesis
    by (cases "case dict_get m ''reproduce'' of None \<Rightarrow> VInt 1 | Some r \<Rightarrow> r")
      (auto simp: bind_res_Inr_iff CaseVerification_check_def split: if_splits)
qed

lemma parse_sequence_Inr:
  assumes "parse_sequence n f v = Inr xs" "\<And>k raw x. f k raw = Inr x \<Longrightarrow> P x"
  shows "\<forall>x \<in> set xs. P x"
  using assms(1) unfolding parse_sequence_def
  by (cases v) (auto dest!: map_res_Inr simp: assms(2) split: prod.splits)

text \<open>
  C34. Parsing is total and yields only well-formed cases: for every mapping \<^verbatim>\<open>case_from_mapping\<close> either raises a
  validation error and nothing else, or returns a draft whose identity fields are not blank, whose schema is set,
  which has at least one step, all of whose steps and assertions have an id and a text that are not blank, and whose
  verification block, if there is one, names a method and asks for at least one reproduction.
\<close>

theorem parsed_cases_well_formed:
  "case case_from_mapping d of Inr c \<Rightarrow> well_formed_case c | Inl e \<Rightarrow> (\<exists>m. e = DomainValidationError m)"
proof (cases "case_from_mapping d")
  case (Inl e)
  then show ?thesis using rejects_case [of d] by (simp add: rejects_invalid_def)
next
  case (Inr c)
  then obtain steps assertions v where
      parts: "parse_sequence ''steps'' parse_step (opt_val (dict_get d ''steps'')) = Inr steps"
      "parse_sequence ''assertions'' parse_assertion (opt_val (dict_get d ''assertions'')) = Inr assertions"
      "parse_verification (opt_val (dict_get d ''verification'')) = Inr v"
    and c: "cd_steps c = steps" "cd_assertions c = assertions" "cd_verification c = v"
      "py_strip (cd_id c) \<noteq> []" "py_strip (cd_version c) \<noteq> []" "py_strip (cd_author c) \<noteq> []" "py_strip (cd_target_type c) \<noteq> []"
      "cd_schema c \<noteq> []" "steps \<noteq> []" "cd_status c = DRAFT"
    by (auto simp: case_from_mapping_def Let_def bind_res_Inr_iff CaseDefinition_check_def split: if_splits)
  have "\<forall>s \<in> set steps. py_strip (cs_id s) \<noteq> [] \<and> py_strip (cs_action s) \<noteq> []"
    by (rule parse_sequence_Inr [OF parts(1)]) (rule parse_step_Inr)
  moreover have "\<forall>a \<in> set assertions. py_strip (asr_id a) \<noteq> [] \<and> py_strip (asr_expression a) \<noteq> []"
    by (rule parse_sequence_Inr [OF parts(2)]) (rule parse_assertion_Inr)
  ultimately show ?thesis
    using Inr c parts(3) parse_verification_Inr by (auto simp: well_formed_case_def)
qed

section \<open>The publish gate\<close>

lemma step_risks_None: "step_risks ss = None \<longleftrightarrow> (\<exists>s \<in> set ss. step_risk s = None)"
  by (induction ss) (auto split: option.splits)

lemma step_risks_Some: "step_risks ss = Some rs \<Longrightarrow> map step_risk ss = map Some rs"
  by (induction ss arbitrary: rs) (auto split: option.splits)

lemma all_mapped_Some: "map f ss = map Some rs \<Longrightarrow> (\<forall>r \<in> set rs. P r) \<longleftrightarrow> (\<forall>s \<in> set ss. \<exists>r. f s = Some r \<and> P r)"
  by (induction ss arbitrary: rs) (auto simp: Cons_eq_map_conv)

lemma compute_risk_le:
  assumes "cd_steps c \<noteq> []"
  shows "(\<exists>m. compute_risk c = Some m \<and> risk_rank m \<le> n) \<longleftrightarrow> (\<forall>s \<in> set (cd_steps c). \<exists>r. step_risk s = Some r \<and> risk_rank r \<le> n)"
proof (cases "step_risks (cd_steps c)")
  case None
  then show ?thesis using step_risks_None [of "cd_steps c"] by (fastforce simp: compute_risk_def)
next
  case (Some rs)
  note map = step_risks_Some [OF Some]
  then obtain r rs' where rs: "rs = r # rs'" using assms by (cases rs) auto
  have "risk_rank (max_by risk_rank r rs') \<le> n \<longleftrightarrow> (\<forall>x \<in> set rs. risk_rank x \<le> n)"
    using max_by_ge [of risk_rank r rs'] max_by_mem [of risk_rank r rs'] by (auto simp: rs)
  also have "\<dots> \<longleftrightarrow> (\<forall>s \<in> set (cd_steps c). \<exists>r. step_risk s = Some r \<and> risk_rank r \<le> n)"
    by (rule all_mapped_Some [OF map])
  finally show ?thesis by (simp add: compute_risk_def Some rs)
qed

text \<open>
  The publish gate is exact: a case with steps passes the static risk check if and only if no step uses a
  deny-listed pattern and the declared risk is at least the risk of every step. So raising the declared
  risk never closes the gate, and adding a step never opens it.
\<close>

theorem publish_gate_exact:
  assumes "cd_steps c \<noteq> []"
  shows "validate_declared_risk c = Inr () \<longleftrightarrow> (\<forall>s \<in> set (cd_steps c). \<exists>r. step_risk s = Some r \<and> r \<le> cd_risk c)"
proof -
  have "validate_declared_risk c = Inr () \<longleftrightarrow> (\<exists>m. compute_risk c = Some m \<and> risk_rank m \<le> risk_rank (cd_risk c))"
    by (auto simp: validate_declared_risk_def not_less split: option.splits)
  then show ?thesis using compute_risk_le [OF assms] by (simp add: risk_le_iff_rank)
qed

text \<open>The lowest risk of a step is low: a case that declares itself passive is refused.\<close>

lemma step_risk_at_least_low: "step_risk s = Some r \<Longrightarrow> risk_class.LOW \<le> r"
  by (auto simp: step_risk_def Let_def risk_le_iff_rank split: if_splits)

lemma passive_case_refused:
  assumes "cd_steps c \<noteq> []" "cd_risk c = PASSIVE"
  shows "validate_declared_risk c \<noteq> Inr ()"
proof -
  obtain s where "s \<in> set (cd_steps c)" using assms(1) by (cases "cd_steps c") auto
  then have "\<not> (\<forall>s \<in> set (cd_steps c). \<exists>r. step_risk s = Some r \<and> risk_rank r \<le> 0)"
    using step_risk_at_least_low by (fastforce simp: risk_le_iff_rank)
  then show ?thesis
    using compute_risk_le [OF assms(1), of 0] assms(2) by (auto simp: validate_declared_risk_def split: option.splits)
qed


section \<open>Histories of the service\<close>

datatype case_call = CreateDraft case_definition | Validate string | Review string string
  | Sign "string \<Rightarrow> string result" string string | Publish string string | FastTrack string

fun case_apply :: "case_call \<Rightarrow> (case_registry, case_definition) cmd" where
  "case_apply (CreateDraft c) = create_draft c"
| "case_apply (Validate i) = validate_case i"
| "case_apply (Review i role) = review_case i role"
| "case_apply (Sign signer i role) = sign_case signer i role"
| "case_apply (Publish i role) = publish_case i role"
| "case_apply (FastTrack i) = fast_track_model_generated i"

definition after_calls :: "case_call list \<Rightarrow> case_registry" where
  "after_calls = after (\<lambda>call reg. snd (case_apply call reg)) []"

text \<open>The calls since the case was last registered as a draft, latest first.\<close>

fun drafts :: "string \<Rightarrow> case_call \<Rightarrow> bool" where
  "drafts i (CreateDraft c) \<longleftrightarrow> cd_id c = i"
| "drafts i _ \<longleftrightarrow> False"

definition since_draft :: "string \<Rightarrow> case_call list \<Rightarrow> case_call list" where
  "since_draft i = since (drafts i)"

definition reviewed_in :: "case_call list \<Rightarrow> case_definition \<Rightarrow> bool" where
  "reviewed_in calls c \<longleftrightarrow>
     Review (cd_id c) ''human'' \<in> set calls \<or> cd_origin c = MODEL_GENERATED \<and> cd_risk c \<in> {PASSIVE, risk_class.LOW}"

definition signed_in :: "case_call list \<Rightarrow> case_definition \<Rightarrow> bool" where
  "signed_in calls c \<longleftrightarrow>
     (\<exists>signer. Sign signer (cd_id c) ''human'' \<in> set calls \<and> signer (case_signing_payload c) = Inr (cd_signature c))"

definition published_in :: "case_call list \<Rightarrow> case_definition \<Rightarrow> bool" where
  "published_in calls c \<longleftrightarrow> Publish (cd_id c) ''human'' \<in> set calls"

definition vetted :: "case_call list \<Rightarrow> case_definition \<Rightarrow> bool" where
  "vetted calls c \<longleftrightarrow>
     (case cd_status c of
        DRAFT \<Rightarrow> True
      | VALIDATED_CASE \<Rightarrow> validate_declared_risk c = Inr ()
      | REVIEWED \<Rightarrow> validate_declared_risk c = Inr () \<and> reviewed_in calls c
      | SIGNED \<Rightarrow> validate_declared_risk c = Inr () \<and> reviewed_in calls c \<and> signed_in calls c
      | PUBLISHED \<Rightarrow> validate_declared_risk c = Inr () \<and> reviewed_in calls c \<and> signed_in calls c \<and> published_in calls c
      | _ \<Rightarrow> False)"

definition registry_inv :: "(string \<Rightarrow> case_call list) \<Rightarrow> case_registry \<Rightarrow> bool" where
  "registry_inv past reg \<longleftrightarrow> (\<forall>i c. dict_get reg i = Some c \<longrightarrow> cd_id c = i \<and> vetted (past i) c)"

definition acted :: "case_call \<Rightarrow> (string \<Rightarrow> case_call list) \<Rightarrow> string \<Rightarrow> case_call list" where
  "acted call past i = (if drafts i call then [] else call # past i)"

lemma risk_check_status [simp]:
  "validate_declared_risk (c\<lparr>cd_status := t\<rparr>) = validate_declared_risk c"
  "validate_declared_risk (c\<lparr>cd_signature := s\<rparr>) = validate_declared_risk c"
  "case_signing_payload (c\<lparr>cd_status := t\<rparr>) = case_signing_payload c"
  "case_signing_payload (c\<lparr>cd_signature := s\<rparr>) = case_signing_payload c"
  by (simp_all add: validate_declared_risk_def compute_risk_def case_signing_payload_def split: option.split)

lemma acts_update [simp]:
  "reviewed_in calls (c\<lparr>cd_status := t\<rparr>) = reviewed_in calls c" "signed_in calls (c\<lparr>cd_status := t\<rparr>) = signed_in calls c"
  "published_in calls (c\<lparr>cd_status := t\<rparr>) = published_in calls c" "reviewed_in calls (c\<lparr>cd_signature := s\<rparr>) = reviewed_in calls c"
  by (simp_all add: reviewed_in_def signed_in_def published_in_def)

lemma acts_Cons [simp, intro]:
  "reviewed_in calls c \<Longrightarrow> reviewed_in (x # calls) c" "signed_in calls c \<Longrightarrow> signed_in (x # calls) c"
  "published_in calls c \<Longrightarrow> published_in (x # calls) c"
  by (auto simp: reviewed_in_def signed_in_def published_in_def)

lemma acts_now [simp]:
  "cd_id c = i \<Longrightarrow> reviewed_in (Review i ''human'' # calls) c" "cd_id c = i \<Longrightarrow> published_in (Publish i ''human'' # calls) c"
  "cd_id c = i \<Longrightarrow> signer (case_signing_payload c) = Inr s \<Longrightarrow> signed_in (Sign signer i ''human'' # calls) (c\<lparr>cd_signature := s\<rparr>)"
  by (auto simp: reviewed_in_def published_in_def signed_in_def)

lemma vetted_Cons: "vetted calls c \<Longrightarrow> vetted (x # calls) c"
  by (cases "cd_status c") (simp_all add: vetted_def)

lemma require_human_Inr [simp]: "case_require_human role = Inr u \<longleftrightarrow> role = ''human''"
  by (auto simp: case_require_human_def)

lemma inv_put:
  assumes "registry_inv past reg" "\<not> drafts (cd_id c) call" "vetted (call # past (cd_id c)) c"
    and "\<forall>i. i \<noteq> cd_id c \<longrightarrow> \<not> drafts i call"
  shows "registry_inv (acted (call) past) (case_put c reg)"
  using assms unfolding registry_inv_def case_put_def acted_def by (auto intro: vetted_Cons)

lemma inv_same:
  assumes "registry_inv past reg" "\<forall>i. \<not> drafts i call"
  shows "registry_inv (acted (call) past) reg"
  using assms unfolding registry_inv_def acted_def by (auto intro: vetted_Cons)

lemma case_transition_eq:
  "case_transition c t reg =
     (if t \<in> CASE_TRANSITIONS (cd_status c) then (Inr (c\<lparr>cd_status := t\<rparr>), case_put (c\<lparr>cd_status := t\<rparr>) reg)
      else (Inl (CaseTransitionError (''case '' @ cd_id c @ '': cannot transition '' @ case_status_value (cd_status c) @ '' -> '' @ case_status_value t)), reg))"
  by (simp add: case_transition_def bindC_def liftC_def case_check_transition_def guard_def)

lemma transition_step:
  assumes "registry_inv past reg" "dict_get reg i = Some c" "\<forall>i. \<not> drafts i call"
    and "t \<in> CASE_TRANSITIONS (cd_status c) \<Longrightarrow> vetted (call # past i) (c\<lparr>cd_status := t\<rparr>)"
  shows "registry_inv (acted (call) past) (snd (case_transition c t reg))"
proof (cases "t \<in> CASE_TRANSITIONS (cd_status c)")
  case True
  have "cd_id c = i" using assms(1,2) by (simp add: registry_inv_def)
  then have "registry_inv (acted (call) past) (case_put (c\<lparr>cd_status := t\<rparr>) reg)"
    using assms(3) assms(4) [OF True] by (intro inv_put [OF assms(1)]) simp_all
  then show ?thesis using True by (simp add: case_transition_eq)
next
  case False
  then show ?thesis using inv_same [OF assms(1,3)] by (simp add: case_transition_eq)
qed

lemma get_bind:
  "bindC (case_get i) f reg = (case dict_get reg i of None \<Rightarrow> (Inl (CaseNotFoundError (''case not found: '' @ i)), reg) | Some c \<Rightarrow> f c reg)"
  by (simp add: bindC_def case_get_def split: option.split)

lemma transition_bind:
  "bindC (case_transition c t) f reg =
     (if t \<in> CASE_TRANSITIONS (cd_status c) then f (c\<lparr>cd_status := t\<rparr>) (case_put (c\<lparr>cd_status := t\<rparr>) reg)
      else case_transition c t reg)"
  by (simp add: bindC_def case_transition_eq)

lemmas service_simps = get_bind lift_bindC transition_bind

lemma transitions_to [simp]:
  "VALIDATED_CASE \<in> CASE_TRANSITIONS s \<longleftrightarrow> s = DRAFT" "REVIEWED \<in> CASE_TRANSITIONS s \<longleftrightarrow> s = VALIDATED_CASE"
  "SIGNED \<in> CASE_TRANSITIONS s \<longleftrightarrow> s = REVIEWED" "PUBLISHED \<in> CASE_TRANSITIONS s \<longleftrightarrow> s = SIGNED"
  by (cases s; simp)+

lemma inv_vetted: "registry_inv past reg \<Longrightarrow> dict_get reg i = Some c \<Longrightarrow> cd_id c = i \<and> vetted (past i) c"
  by (simp add: registry_inv_def)

lemma fast_track_result:
  assumes "dict_get reg i = Some c" "cd_id c = i"
  shows "snd (fast_track_model_generated i reg) = reg \<or>
     (cd_origin c = MODEL_GENERATED \<and> validate_declared_risk c = Inr () \<and> cd_status c = DRAFT \<and>
      (\<exists>t. snd (fast_track_model_generated i reg) = case_put (c\<lparr>cd_status := t\<rparr>) reg \<and>
        (t = VALIDATED_CASE \<or> t = REVIEWED \<and> cd_risk c \<in> {PASSIVE, risk_class.LOW})))"
proof (cases "cd_origin c = MODEL_GENERATED \<and> validate_declared_risk c = Inr () \<and> cd_status c = DRAFT")
  case True
  let ?v = "c\<lparr>cd_status := VALIDATED_CASE\<rparr>"
  have put: "case_put (?v\<lparr>cd_status := REVIEWED\<rparr>) (case_put ?v reg) = case_put (c\<lparr>cd_status := REVIEWED\<rparr>) reg"
    by (simp add: case_put_def)
  have "fast_track_model_generated i reg =
      (if cd_risk c \<in> {PASSIVE, risk_class.LOW} then (Inr (c\<lparr>cd_status := REVIEWED\<rparr>), case_put (c\<lparr>cd_status := REVIEWED\<rparr>) reg)
       else (Inr ?v, case_put ?v reg))"
    using True assms put by (auto simp: fast_track_model_generated_def service_simps guard_def case_transition_eq)
  then show ?thesis using True by auto
next
  case False
  then show ?thesis
    using assms by (auto simp: fast_track_model_generated_def service_simps guard_def case_transition_eq split: sum.splits)
qed

lemma registry_inv_step:
  assumes "registry_inv past reg"
  shows "registry_inv (acted (call) past) (snd (case_apply call reg))"
proof (cases call)
  case (CreateDraft c)
  then show ?thesis
    using assms by (auto simp: create_draft_def registry_inv_def acted_def case_put_def vetted_def [of "[]"] intro: vetted_Cons)
next
  case (Validate i)
  note same = inv_same [OF assms, of call, unfolded Validate, simplified]
  have "registry_inv (acted (Validate i) past) (snd (case_transition c VALIDATED_CASE reg))"
    if "dict_get reg i = Some c" "validate_declared_risk c = Inr ()" for c
    using that by (intro transition_step [OF assms that(1)]) (simp_all add: vetted_def)
  then show ?thesis
    using Validate same by (simp add: validate_case_def service_simps split: option.split sum.split)
next
  case (Review i role)
  note same = inv_same [OF assms, of call, unfolded Review, simplified]
  have "registry_inv (acted (Review i ''human'') past) (snd (case_transition c REVIEWED reg))"
    if "dict_get reg i = Some c" for c
    using inv_vetted [OF assms that] by (intro transition_step [OF assms that]) (simp_all add: vetted_def)
  then show ?thesis
    using Review same by (auto simp: review_case_def service_simps split: option.split sum.split)
next
  case (Sign signer i role)
  note same = inv_same [OF assms, of call, unfolded Sign, simplified]
  have "registry_inv (acted (Sign signer i ''human'') past) (case_put (c\<lparr>cd_status := SIGNED, cd_signature := sig\<rparr>) reg)"
    if "dict_get reg i = Some c" "cd_status c = REVIEWED" "signer (case_signing_payload c) = Inr sig" for c sig
    using inv_vetted [OF assms that(1)] that
    by (intro inv_put [OF assms]) (simp_all add: vetted_def)
  then show ?thesis
    using Sign same by (auto simp: sign_case_def service_simps case_check_transition_def split: option.split sum.split)
next
  case (Publish i role)
  note same = inv_same [OF assms, of call, unfolded Publish, simplified]
  have "registry_inv (acted (Publish i ''human'') past) (snd (case_transition c PUBLISHED reg))"
    if "dict_get reg i = Some c" for c
    using inv_vetted [OF assms that] by (intro transition_step [OF assms that]) (simp_all add: vetted_def)
  then show ?thesis
    using Publish same by (auto simp: publish_case_def service_simps split: option.split sum.split)
next
  case (FastTrack i)
  note same = inv_same [OF assms, of call, unfolded FastTrack, simplified]
  show ?thesis
  proof (cases "dict_get reg i")
    case None
    then show ?thesis using same FastTrack by (simp add: fast_track_model_generated_def service_simps)
  next
    case (Some c)
    have i: "cd_id c = i" using inv_vetted [OF assms Some] by simp
    have "registry_inv (acted (FastTrack i) past) (case_put (c\<lparr>cd_status := t\<rparr>) reg)"
      if "validate_declared_risk c = Inr ()" "cd_origin c = MODEL_GENERATED"
        "t = VALIDATED_CASE \<or> t = REVIEWED \<and> cd_risk c \<in> {PASSIVE, risk_class.LOW}" for t
      using that by (intro inv_put [OF assms]) (auto simp: vetted_def reviewed_in_def)
    then show ?thesis
      using fast_track_result [OF Some i] same FastTrack by auto
  qed
qed

interpretation cases: provenance "\<lambda>call reg. snd (case_apply call reg)" map_of "[]" "\<lambda>_. True" drafts "\<lambda>i calls c. cd_id c = i \<and> vetted calls c"
proof unfold_locales
  fix call reg i c and past :: "string \<Rightarrow> case_call list"
  assume "\<And>i c. dict_get reg i = Some c \<Longrightarrow> cd_id c = i \<and> vetted (past i) c" "dict_get (snd (case_apply call reg)) i = Some c"
  then show "cd_id c = i \<and> vetted (if drafts i call then [] else call # past i) c"
    using registry_inv_step [of past reg call] by (simp add: registry_inv_def acted_def)
qed (auto intro: vetted_Cons)

text \<open>
  C13. A published case has been vetted. Over every history of calls by humans and agents, a case that is
  published passed the static risk gate with the steps and the risk it now has, was signed by a human, with the
  signature of its present payload, and was published by a human, and all of this happened after its
  content was last registered; it was also reviewed by a human, unless it is marked as generated from a model
  and declares at most low risk.
\<close>

theorem published_cases_are_vetted:
  assumes "dict_get (after_calls calls) i = Some c" "cd_status c = PUBLISHED"
  shows "validate_declared_risk c = Inr () \<and>
     (\<exists>signer. Sign signer i ''human'' \<in> set (since_draft i calls) \<and> signer (case_signing_payload c) = Inr (cd_signature c)) \<and>
     Publish i ''human'' \<in> set (since_draft i calls) \<and>
     (Review i ''human'' \<in> set (since_draft i calls) \<or> cd_origin c = MODEL_GENERATED \<and> cd_risk c \<in> {PASSIVE, risk_class.LOW})"
  using cases.history [of calls i c] assms
 
  by (auto simp: after_calls_def since_draft_def list_all_iff vetted_def reviewed_in_def signed_in_def published_in_def)

text \<open>The signature does not cover the steps: two cases that differ only in their steps have one payload.\<close>

lemma case_signature_ignores_steps:
  "case_signing_payload (c\<lparr>cd_steps := steps, cd_assertions := assertions\<rparr>) = case_signing_payload c"
  by (simp add: case_signing_payload_def)

text \<open>Any draft that calls itself model-generated is reviewed without a human; no model is looked at.\<close>

lemma self_declared_origin_skips_review:
  assumes "validate_declared_risk c = Inr ()" "cd_risk c = risk_class.LOW" "cd_origin c = MODEL_GENERATED"
  shows "fst (case_apply (FastTrack (cd_id c)) (snd (case_apply (CreateDraft c) reg))) = Inr (c\<lparr>cd_status := REVIEWED\<rparr>)"
  using assms by (simp add: create_draft_def case_put_def fast_track_model_generated_def service_simps guard_def case_transition_eq)

section \<open>Evaluating assertions\<close>



text \<open>The exceptions of an evaluation.\<close>

definition confined :: "bool \<Rightarrow> 'a result \<Rightarrow> bool" where
  "confined neg r \<longleftrightarrow> (\<forall>e. r = Inl e \<longrightarrow> (\<exists>m. e = ExpressionError m) \<or> neg \<and> (\<exists>m. e = TypeError m))"

lemma confined_simps [simp]: "confined b (Inr x)" "confined b (Inl (ExpressionError m))" "confined True (Inl (TypeError m))"
  by (simp_all add: confined_def)










section \<open>Runs\<close>

text \<open>The requests of a list of steps, in order.\<close>

definition http_step :: "case_step \<Rightarrow> bool" where
  "http_step s \<longleftrightarrow> action_verb (cs_action s) = ''request'' \<and> starts_with (py_lower (cs_action s)) ''http''"

definition requests_of :: "case_step list \<Rightarrow> (string \<times> string) list" where
  "requests_of ss = map (\<lambda>s. (py_upper (spec_text (cs_spec s) ''method'' ''GET''), request_url (cs_spec s))) (filter http_step ss)"

text \<open>An execution context that records the requests it is asked for.\<close>

definition logged :: "(string \<Rightarrow> string \<Rightarrow> ('w, http_response) cmd) \<Rightarrow> string \<Rightarrow> string \<Rightarrow> ((string \<times> string) list \<times> 'w, http_response) cmd" where
  "logged http m u = (\<lambda>(sent, w). case http m u w of (r, w') \<Rightarrow> (r, (sent @ [(m, u)], w')))"

lemma execute_step_log:
  assumes "execute_case_step fr search (logged http) s r = (res, r')"
  shows "fst (cr_out r') = fst (cr_out r) @ requests_of [s]"
proof (cases "http_step s")
  case True
  then show ?thesis
    using assms by (auto simp: execute_case_step_def http_step_def requests_of_def execute_http_def logged_def set_var_def
        split: prod.splits sum.splits)
next
  case False
  then show ?thesis
    using assms by (auto simp: execute_case_step_def http_step_def requests_of_def execute_extract_regex_def set_var_def Let_def
        split: if_splits option.splits)
qed

lemma run_steps_log:
  "run_case_steps fr search (logged http) ss r = (res, r') \<Longrightarrow>
     \<exists>ds. fst (cr_out r') = fst (cr_out r) @ ds \<and> prefix ds (requests_of ss) \<and> (res = Inr () \<longrightarrow> ds = requests_of ss)"
proof (induction ss arbitrary: r)
  case (Cons s ss)
  have req: "requests_of (s # ss) = requests_of [s] @ requests_of ss" by (simp add: requests_of_def)
  show ?case
  proof (cases "check_caps s")
    case (Inl e)
    then show ?thesis using Cons.prems by (auto simp: bindC_def liftC_def)
  next
    case (Inr u)
    obtain res1 r1 where s1: "execute_case_step fr search (logged http) s r = (res1, r1)" by fastforce
    note sent = execute_step_log [OF s1]
    show ?thesis
    proof (cases res1)
      case (Inl e)
      then show ?thesis using Cons.prems Inr s1 sent by (auto simp: bindC_def liftC_def req)
    next
      case (Inr u')
      then have "run_case_steps fr search (logged http) ss r1 = (res, r')"
        using Cons.prems \<open>check_caps s = Inr u\<close> s1 by (simp add: bindC_def liftC_def)
      from Cons.IH [OF this] sent show ?thesis by (auto simp: req)
    qed
  qed
qed (simp add: requests_of_def)

text \<open>
  C36. A run does what its steps say and no more: the requests it sends are, in order, those of its request steps,
  all of them if the run gets past the steps and otherwise an initial segment; a case with a
  deny-listed step sends none.
\<close>

theorem run_sends_declared_requests:
  assumes "run_case parse fr search (logged http) c (sent, w) = (res, (sent', w'))"
  shows "\<exists>ds. sent' = sent @ ds \<and> prefix ds (requests_of (cd_steps c)) \<and>
     ((\<exists>x. res = Inr x) \<longrightarrow> ds = requests_of (cd_steps c)) \<and> (compute_risk c = None \<longrightarrow> ds = [] \<and> (\<exists>m. res = Inl (InterpreterError m)))"
proof (cases "compute_risk c = None")
  case False
  obtain res1 r1 where r1: "run_case_steps fr search (logged http) (cd_steps c) \<lparr>cr_store = [], cr_out = (sent, w)\<rparr> = (res1, r1)"
    by fastforce
  then have "fst (cr_out r1) = sent' \<and> ((\<exists>x. res = Inr x) \<longrightarrow> res1 = Inr ())"
    using assms False by (auto simp: run_case_def split: sum.splits)
  then show ?thesis using run_steps_log [OF r1] False by auto
qed (use assms in \<open>auto simp: run_case_def\<close>)

text \<open>An assertion holds in a store when its evaluation returns a true value.\<close>

definition holds_in :: "(string \<Rightarrow> node option) \<Rightarrow> (rat \<Rightarrow> string) \<Rightarrow> search \<Rightarrow> (string \<times> av) list \<Rightarrow> case_assertion \<Rightarrow> bool" where
  "holds_in parse fr search store a \<longleftrightarrow> (\<exists>v. evaluate_expression parse fr search (asr_expression a) store = Inr v \<and> av_truthy v)"

lemma check_assertion_Inr: "check_assertion parse fr search store a = Inr b \<Longrightarrow> b = holds_in parse fr search store a"
  by (auto simp: check_assertion_def holds_in_def split: sum.splits exn.splits)

lemma find_append: "List.find P (xs @ ys) = (case List.find P xs of None \<Rightarrow> List.find P ys | Some x \<Rightarrow> Some x)"
  by (induction xs) auto

lemma check_assertions_get:
  "check_assertions parse fr search store as acc = Inr results \<Longrightarrow>
     dict_get results i = (case List.find (\<lambda>a. asr_id a = i) (rev as) of Some a \<Rightarrow> Some (holds_in parse fr search store a) | None \<Rightarrow> dict_get acc i)"
proof (induction as arbitrary: acc)
  case (Cons a as)
  from Cons.prems obtain b where "check_assertion parse fr search store a = Inr b"
    and rest: "check_assertions parse fr search store as (dict_set (asr_id a) b acc) = Inr results"
    by (auto simp: bind_res_Inr_iff)
  then show ?case
    using Cons.IH [OF rest] check_assertion_Inr by (auto simp: find_append split: option.split)
qed simp


lemma check_assertions_distinct:
  "check_assertions parse fr search store as acc = Inr results \<Longrightarrow> distinct (dict_keys acc) \<Longrightarrow> distinct (dict_keys results)"
  by (induction as arbitrary: acc) (auto simp: bind_res_Inr_iff distinct_update)

lemma find_mem: "List.find P xs = Some x \<Longrightarrow> x \<in> set xs"
  by (auto simp: find_Some_iff)

lemma find_last_distinct:
  "distinct (map f xs) \<Longrightarrow> x \<in> set xs \<Longrightarrow> List.find (\<lambda>y. f y = f x) (rev xs) = Some x"
  by (rule find_distinct_key) (simp_all add: rev_map [symmetric])

text \<open>
  The verdict of a run is the conjunction of its decisive assertions: when a run returns, it has passed if and
  only if every assertion that is the last one with its id evaluates to a true value in the final store; when the ids
  are distinct, this means every assertion. An assertion whose evaluation raises an expression error has failed.
\<close>

theorem run_passes_iff:
  assumes "run_case parse fr search http c w = (Inr x, w')"
  shows "(ir_passed x \<longleftrightarrow> (\<forall>i a. List.find (\<lambda>a. asr_id a = i) (rev (cd_assertions c)) = Some a \<longrightarrow> holds_in parse fr search (ir_context x) a)) \<and>
     (distinct (map asr_id (cd_assertions c)) \<longrightarrow>
        (ir_passed x \<longleftrightarrow> (\<forall>a \<in> set (cd_assertions c). holds_in parse fr search (ir_context x) a)))"
proof -
  obtain results where r: "check_assertions parse fr search (ir_context x) (cd_assertions c) [] = Inr results"
    and p: "ir_passed x = list_all id (dict_values results)"
    using assms by (auto simp: run_case_def bind_res_Inr_iff split: if_splits prod.splits sum.splits)
  have "ir_passed x \<longleftrightarrow> (\<forall>i b. dict_get results i = Some b \<longrightarrow> b)"
    using check_assertions_distinct [OF r] unfolding p
    by (simp add: list_all_iff map_of_eq_Some_iff) (metis prod.collapse snd_conv)
  also have "\<dots> \<longleftrightarrow> (\<forall>i a. List.find (\<lambda>a. asr_id a = i) (rev (cd_assertions c)) = Some a \<longrightarrow> holds_in parse fr search (ir_context x) a)"
    using check_assertions_get [OF r] by (auto split: option.splits)
  finally have iff: "ir_passed x \<longleftrightarrow> \<dots>" .
  moreover have "(\<forall>i a. List.find (\<lambda>a. asr_id a = i) (rev (cd_assertions c)) = Some a \<longrightarrow> holds_in parse fr search (ir_context x) a) \<longleftrightarrow>
      (\<forall>a \<in> set (cd_assertions c). holds_in parse fr search (ir_context x) a)" if "distinct (map asr_id (cd_assertions c))"
    using find_last_distinct [OF that] find_mem by (metis set_rev)
  ultimately show ?thesis by simp
qed

text \<open>Two assertions with one id: the later result replaces the earlier one, and a failure is hidden.\<close>

lemma repeated_id_hides_failure:
  assumes "check_assertion parse fr search store a = Inr False" "check_assertion parse fr search store b = Inr True" "asr_id b = asr_id a"
  shows "check_assertions parse fr search store [a, b] [] = Inr [(asr_id a, True)]"
  using assms by simp

text \<open>A unary minus on a text is not an expression error: it ends the run with a type error.\<close>

lemma minus_on_text_escapes:
  assumes "parse (asr_expression a) = Some (UnaryOp USub (Name ''body''))" "dict_get store ''body'' = Some (AStr s)"
  shows "\<exists>m. check_assertion parse fr search store a = Inl (TypeError m)"
  using assms by (simp add: check_assertion_def evaluate_expression_def)

text \<open>The cap on an iteration reads one of the five keys that count as its bound.\<close>

lemma foreach_cap_reads_limit_only:
  "\<exists>s. action_verb (cs_action s) = ''foreach'' \<and> has_bound (cs_spec s) \<and> dict_get (cs_spec s) ''max'' = Some (VInt 1000000) \<and> check_caps s = Inr ()"
  by (rule exI [of _ "\<lparr>cs_id = ''s'', cs_action = ''foreach'', cs_spec = [(''max'', VInt 1000000)]\<rparr>"]) code_simp

section \<open>Witnesses\<close>

definition sample_case :: case_definition where
  "sample_case = \<lparr>cd_id = ''c1'', cd_version = ''1'', cd_author = ''a'', cd_risk = risk_class.LOW, cd_target_type = ''web'', cd_schema = ''s'',
     cd_steps = [\<lparr>cs_id = ''r'', cs_action = ''http.request'', cs_spec = [(''url'', VStr ''http://h/'')]\<rparr>], cd_preconditions = [],
     cd_assertions = [\<lparr>asr_id = ''ok'', asr_expression = ''e''\<rparr>], cd_evidence_req = [], cd_cwe = [], cd_cve = [], cd_owasp = [],
     cd_verification = None, cd_signature = [], cd_min_engine_version = ''1.0.0'', cd_origin = MANUAL, cd_status = DRAFT, cd_yaml = []\<rparr>"

definition sample_calls :: "case_call list" where
  "sample_calls = [CreateDraft sample_case, Validate ''c1'', Review ''c1'' ''human'', Sign (\<lambda>p. Inr (''sig:'' @ p)) ''c1'' ''human'', Publish ''c1'' ''human'']"

theorem publish_gate_exact_witness:
  "cd_steps sample_case \<noteq> [] \<and> validate_declared_risk sample_case = Inr ()"
proof -
  have steps: "cd_steps sample_case \<noteq> []" by (simp add: sample_case_def)
  have "\<forall>s \<in> set (cd_steps sample_case). step_risk s = Some risk_class.LOW \<and> risk_class.LOW \<le> cd_risk sample_case"
    unfolding sample_case_def by code_simp
  then show ?thesis using steps publish_gate_exact [OF steps] by blast
qed

theorem published_cases_are_vetted_witness:
  "\<exists>c. dict_get (after_calls sample_calls) ''c1'' = Some c \<and> cd_status c = PUBLISHED \<and> validate_declared_risk c = Inr () \<and>
     Publish ''c1'' ''human'' \<in> set (since_draft ''c1'' sample_calls)"
proof -
  have "(case dict_get (after_calls sample_calls) ''c1'' of Some c \<Rightarrow> cd_status c = PUBLISHED | None \<Rightarrow> False)" by code_simp
  then obtain c where c: "dict_get (after_calls sample_calls) ''c1'' = Some c" "cd_status c = PUBLISHED"
    by (auto split: option.splits)
  then show ?thesis using published_cases_are_vetted [OF c] by blast
qed

definition sample_http :: "string \<Rightarrow> string \<Rightarrow> (unit, http_response) cmd" where
  "sample_http m u = returnC \<lparr>hr_status_code = 200, hr_body = ''ok'', hr_headers = []\<rparr>"

definition sample_parse :: "string \<Rightarrow> node option" where
  "sample_parse t = Some (Compare (Name ''status_code'') [(CEq, Constant (AInt 200))])"


theorem run_sends_declared_requests_witness:
  "\<exists>res sent' w'. run_case sample_parse (\<lambda>_. []) (\<lambda>_ _. Some None) (logged sample_http) sample_case ([], ()) = (Inr res, (sent', w')) \<and>
     sent' = requests_of (cd_steps sample_case)"
proof -
  let ?r = "run_case sample_parse (\<lambda>_. []) (\<lambda>_ _. Some None) (logged sample_http) sample_case ([], ())"
  have "\<not> isl (fst ?r)" by code_simp
  then obtain res sent' w' where r: "?r = (Inr res, (sent', w'))" by (metis isl_def old.sum.exhaust prod.collapse)
  then show ?thesis using run_sends_declared_requests [OF r] by auto
qed

theorem run_passes_iff_witness:
  "\<exists>x w'. run_case sample_parse (\<lambda>_. []) (\<lambda>_ _. Some None) sample_http sample_case () = (Inr x, w') \<and> ir_passed x \<and>
     (\<forall>a \<in> set (cd_assertions sample_case). holds_in sample_parse (\<lambda>_. []) (\<lambda>_ _. Some None) (ir_context x) a)"
proof -
  let ?r = "run_case sample_parse (\<lambda>_. []) (\<lambda>_ _. Some None) sample_http sample_case ()"
  have "case fst ?r of Inr x \<Rightarrow> ir_passed x | Inl _ \<Rightarrow> False" by code_simp
  then obtain x w' where r: "?r = (Inr x, w')" "ir_passed x" by (cases ?r; cases "fst ?r") simp_all
  have "distinct (map asr_id (cd_assertions sample_case))" by (simp add: sample_case_def)
  then show ?thesis using run_passes_iff [OF r(1)] r by blast
qed

end
