(* ===== verification/App_Models.thy ===== *)
theory App_Models
  imports Cases Scope_Text "HOL-Library.Product_Lexorder"
begin

text \<open>
  Application models (\<^verbatim>\<open>domain/appmodel\<close>): the signed description of an application's logic, its life cycle, the
  service over the in-memory registry (\<^verbatim>\<open>application/appmodels.py\<close>), the builder with its importers
  (\<^verbatim>\<open>application/model_builder.py\<close>, \<^verbatim>\<open>infrastructure/model_sources\<close>) and the registry of published versions
  (\<^verbatim>\<open>application/model_registry.py\<close>). Parameters: \<open>sha\<close> is the hexadecimal SHA-256, \<open>fr\<close> the numeral of a float, the signers
  sign or raise, and the gateway to a language model drafts states.
\<close>

section \<open>Models\<close>

datatype app_model_status = MODEL_DRAFT | LLM_PROPOSED | HUMAN_VALIDATED | MODEL_SIGNED | MODEL_PUBLISHED | SUPERSEDED

fun app_model_status_value :: "app_model_status \<Rightarrow> string" where
  "app_model_status_value MODEL_DRAFT = ''draft''"
| "app_model_status_value LLM_PROPOSED = ''llm_proposed''"
| "app_model_status_value HUMAN_VALIDATED = ''human_validated''"
| "app_model_status_value MODEL_SIGNED = ''signed''"
| "app_model_status_value MODEL_PUBLISHED = ''published''"
| "app_model_status_value SUPERSEDED = ''superseded''"

fun VALID_MODEL_TRANSITIONS :: "app_model_status \<Rightarrow> app_model_status set" where
  "VALID_MODEL_TRANSITIONS MODEL_DRAFT = {LLM_PROPOSED, HUMAN_VALIDATED}"
| "VALID_MODEL_TRANSITIONS LLM_PROPOSED = {HUMAN_VALIDATED, MODEL_DRAFT}"
| "VALID_MODEL_TRANSITIONS HUMAN_VALIDATED = {MODEL_SIGNED}"
| "VALID_MODEL_TRANSITIONS MODEL_SIGNED = {MODEL_PUBLISHED}"
| "VALID_MODEL_TRANSITIONS MODEL_PUBLISHED = {SUPERSEDED}"
| "VALID_MODEL_TRANSITIONS SUPERSEDED = {}"

definition can_model_transition :: "app_model_status \<Rightarrow> app_model_status \<Rightarrow> bool" where
  "can_model_transition s t \<longleftrightarrow> t \<in> VALID_MODEL_TRANSITIONS s"

record model_transition =
  tr_id :: string
  tr_from_state :: string
  tr_to_state :: string
  tr_endpoint :: string
  tr_params :: "string list"
  tr_idempotent :: bool

definition Transition_check :: "model_transition \<Rightarrow> model_transition result" where
  "Transition_check t =
     (if tr_id t = [] then Inl (DomainValidationError ''Transition.id must be non-empty'')
      else if tr_from_state t = [] then Inl (DomainValidationError ''Transition.from_state must be non-empty'')
      else if tr_to_state t = [] then Inl (DomainValidationError ''Transition.to_state must be non-empty'')
      else if tr_endpoint t = [] then Inl (DomainValidationError ''Transition.endpoint must be non-empty'')
      else Inr t)"

record model_invariant =
  inv_id :: string
  inv_expr :: string

definition Invariant_check :: "model_invariant \<Rightarrow> model_invariant result" where
  "Invariant_check i =
     (if inv_id i = [] then Inl (DomainValidationError ''Invariant.id must be non-empty'')
      else if inv_expr i = [] then Inl (DomainValidationError ''Invariant.expr must be non-empty'')
      else Inr i)"

text \<open>A value of a range or of a test input: an int, a finite float, or anything else (a bool, an infinity
  and NaN included).\<close>

datatype bound_value = BInt int | BFloat rat | BOther pyval

fun bound_json :: "(rat \<Rightarrow> string) \<Rightarrow> bound_value \<Rightarrow> pyval" where
  "bound_json fr (BInt n) = VInt n"
| "bound_json fr (BFloat q) = VFloat (fr q)"
| "bound_json fr (BOther v) = v"

record model_field =
  fd_name :: string
  fd_type :: string
  fd_range :: "bound_value list option"
  fd_trusted_source :: string

definition Field_check :: "model_field \<Rightarrow> model_field result" where
  "Field_check f =
     (if fd_name f = [] then Inl (DomainValidationError ''Field.name must be non-empty'')
      else if fd_type f = [] then Inl (DomainValidationError ''Field.type must be non-empty'')
      else if fd_trusted_source f \<notin> {''server'', ''client''} then
        Inl (DomainValidationError (''Field.trusted_source must be '' @ repr_str ''server'' @ '' or '' @ repr_str ''client''))
      else Inr f)"

record model_role =
  ro_id :: string
  ro_capabilities :: "string list"

definition Role_check :: "model_role \<Rightarrow> model_role result" where
  "Role_check r = (if ro_id r = [] then Inl (DomainValidationError ''Role.id must be non-empty'') else Inr r)"

record app_model =
  am_app_id :: string
  am_version :: string
  am_states :: "string list"
  am_transitions :: "model_transition list"
  am_invariants :: "model_invariant list"
  am_fields :: "model_field list"
  am_roles :: "model_role list"
  am_idempotency :: "(string \<times> bool) list"
  am_out_of_scope_rules :: "string list"
  am_status :: app_model_status
  am_digest :: string
  am_signature :: "string option"

definition transition_json :: "model_transition \<Rightarrow> pyval" where
  "transition_json t = VDict [(''id'', VStr (tr_id t)), (''from_state'', VStr (tr_from_state t)), (''to_state'', VStr (tr_to_state t)),
     (''endpoint'', VStr (tr_endpoint t)), (''params'', VStrs (tr_params t)), (''idempotent'', VBool (tr_idempotent t))]"

definition invariant_json :: "model_invariant \<Rightarrow> pyval" where
  "invariant_json i = VDict [(''id'', VStr (inv_id i)), (''expr'', VStr (inv_expr i))]"

definition field_json :: "(rat \<Rightarrow> string) \<Rightarrow> model_field \<Rightarrow> pyval" where
  "field_json fr f = VDict [(''name'', VStr (fd_name f)), (''type'', VStr (fd_type f)),
     (''range'', case fd_range f of None \<Rightarrow> VNone | Some vs \<Rightarrow> VList (map (bound_json fr) vs)),
     (''trusted_source'', VStr (fd_trusted_source f))]"

definition role_json :: "model_role \<Rightarrow> pyval" where
  "role_json r = VDict [(''id'', VStr (ro_id r)), (''capabilities'', VStrs (ro_capabilities r))]"

definition content_payload :: "(rat \<Rightarrow> string) \<Rightarrow> app_model \<Rightarrow> pyval" where
  "content_payload fr m = VDict
     [(''app_id'', VStr (am_app_id m)), (''version'', VStr (am_version m)), (''states'', VStrs (am_states m)),
      (''transitions'', VList (map transition_json (am_transitions m))),
      (''invariants'', VList (map invariant_json (am_invariants m))),
      (''fields'', VList (map (field_json fr) (am_fields m))), (''roles'', VList (map role_json (am_roles m))),
      (''idempotency'', VList (map (\<lambda>(k, b). VList [VStr k, VBool b]) (am_idempotency m))),
      (''out_of_scope_rules'', VStrs (am_out_of_scope_rules m))]"

definition content_digest :: "(string \<Rightarrow> string) \<Rightarrow> (rat \<Rightarrow> string) \<Rightarrow> app_model \<Rightarrow> string" where
  "content_digest sha fr m = canonical_digest sha (content_payload fr m)"

definition AppModel_check :: "(string \<Rightarrow> string) \<Rightarrow> (rat \<Rightarrow> string) \<Rightarrow> app_model \<Rightarrow> app_model result" where
  "AppModel_check sha fr m =
     (if am_app_id m = [] then Inl (DomainValidationError ''AppModel.app_id must be non-empty'')
      else if am_version m = [] then Inl (DomainValidationError ''AppModel.version must be non-empty'')
      else if am_states m = [] then Inl (DomainValidationError ''AppModel.states must be non-empty'')
      else Inr (if am_digest m = [] then m\<lparr>am_digest := content_digest sha fr m\<rparr> else m))"

section \<open>The service\<close>

type_synonym model_store = "((string \<times> string) \<times> app_model) list"

definition model_put :: "app_model \<Rightarrow> model_store \<Rightarrow> model_store" where
  "model_put m st = dict_set (am_app_id m, am_version m) m st"

definition model_list :: "model_store \<Rightarrow> app_model list" where
  "model_list st = map snd (sort_key fst st)"

definition store_model :: "app_model \<Rightarrow> (model_store, app_model) cmd" where
  "store_model m st = (Inr m, model_put m st)"

definition model_get :: "string \<Rightarrow> string \<Rightarrow> (model_store, app_model) cmd" where
  "model_get a v st =
     (case dict_get st (a, v) of None \<Rightarrow> Inl (AppModelNotFoundError (''app model not found: '' @ a @ ''@'' @ v)) | Some m \<Rightarrow> Inr m, st)"

text \<open>\<^verbatim>\<open>replace\<close> of the status runs the checks of the constructor again, which a constructed model passes.\<close>

definition create_model :: "app_model \<Rightarrow> bool \<Rightarrow> (model_store, app_model) cmd" where
  "create_model m proposed = store_model (m\<lparr>am_status := (if proposed then LLM_PROPOSED else MODEL_DRAFT)\<rparr>)"

definition create_proposed :: "app_model \<Rightarrow> (model_store, app_model) cmd" where
  "create_proposed m = store_model (m\<lparr>am_status := LLM_PROPOSED\<rparr>)"

definition update_model :: "(string \<Rightarrow> string) \<Rightarrow> (rat \<Rightarrow> string) \<Rightarrow> app_model \<Rightarrow> (model_store, app_model) cmd" where
  "update_model sha fr m =
     bindC (model_get (am_app_id m) (am_version m)) (\<lambda>existing.
     bindC (liftC (guard (am_status existing \<in> {MODEL_DRAFT, HUMAN_VALIDATED})
       (AppModelTransitionError (''cannot edit a '' @ app_model_status_value (am_status existing) @
          '' model in place; create a new version via revise'')))) (\<lambda>_.
     bindC (liftC (AppModel_check sha fr (m\<lparr>am_status := am_status existing, am_digest := [], am_signature := None\<rparr>))) store_model))"

text \<open>\<^verbatim>\<open>str.isdigit\<close> also holds of superscripts, which \<^verbatim>\<open>int\<close> refuses.\<close>

definition isdigit_text :: "string \<Rightarrow> bool" where
  "isdigit_text s \<longleftrightarrow> s \<noteq> [] \<and> list_all (\<lambda>c. is_digit c \<or> (of_char c :: nat) \<in> {178, 179, 185}) s"

definition int_of_text :: "string \<Rightarrow> int result" where
  "int_of_text s =
     (if s \<noteq> [] \<and> list_all is_digit s then Inr (number_of 10 s)
      else Inl (ValueError (''invalid literal for int() with base 10: '' @ repr_str s)))"

text \<open>The last segment of a candidate, which is a numeral in every call below, counted up.\<close>

definition bump_version :: "string \<Rightarrow> string result" where
  "bump_version s =
     (let parts = split_on (CHR ''.'') s in
      bind_res (int_of_text (last parts)) (\<lambda>n. Inr (join ''.'' (butlast parts @ [int_repr (n + 1)]))))"

definition last_number :: "string \<Rightarrow> int" where
  "last_number s = number_of 10 (last (split_on (CHR ''.'') s))"

lemma split_on_nonempty [simp]: "split_on c s \<noteq> []"
  by (induction s) (auto split: list.splits)

lemma split_on_no_sep: "p \<in> set (split_on c s) \<Longrightarrow> c \<notin> set p"
  by (induction s arbitrary: p) (fastforce split: if_splits list.splits)+

lemma split_on_join: "ps \<noteq> [] \<Longrightarrow> \<forall>p \<in> set ps. c \<notin> set p \<Longrightarrow> split_on c (join [c] ps) = ps"
  by (induction ps rule: induct_list012) (auto simp: split_on_absent split_on_append)

lemma digits_nonneg: "list_all is_digit w \<Longrightarrow> 0 \<le> n \<Longrightarrow> 0 \<le> foldl (\<lambda>n c. 10 * n + digit_value c) n w"
proof (induction w arbitrary: n)
  case (Cons c w)
  have "(of_char c :: int) = int (of_char c)" by (cases c) simp
  then have "0 \<le> digit_value c" using Cons.prems(1) by (auto simp: is_digit_def digit_value_def Let_def)
  then show ?case using Cons by simp
qed simp

lemma bump_version_number: "bump_version s = Inr t \<Longrightarrow> last_number t = last_number s + 1"
proof -
  let ?ps = "split_on (CHR ''.'') s"
  assume "bump_version s = Inr t"
  then have ds: "list_all is_digit (last ?ps)" and t: "t = join ''.'' (butlast ?ps @ [int_repr (last_number s + 1)])"
    by (auto simp: bump_version_def int_of_text_def last_number_def Let_def bind_res_Inr_iff split: if_splits)
  have n: "0 \<le> last_number s"
    using digits_nonneg [OF ds, of 0] by (simp add: last_number_def number_of_def)
  then have "CHR ''.'' \<notin> set (int_repr (last_number s + 1))"
    using nat_repr_is_digit [of "nat (last_number s + 1)"] by (auto simp: int_repr_def list_all_iff is_digit_def)
  then have "\<forall>p \<in> set (butlast ?ps @ [int_repr (last_number s + 1)]). CHR ''.'' \<notin> set p"
    using split_on_no_sep [of _ "CHR ''.''" s] by (auto dest: in_set_butlastD)
  from split_on_join [OF _ this] n show ?thesis
    by (simp add: t last_number_def [of "join _ _"] int_repr_def number_of_nat_repr)
qed

text \<open>The \<^verbatim>\<open>while\<close> loop: every round counts the last segment up, and only finitely many versions exist.\<close>

function next_free :: "string set \<Rightarrow> string \<Rightarrow> string result" where
  "next_free existing candidate =
     (if finite existing \<and> candidate \<in> existing then
        (case bump_version candidate of Inl e \<Rightarrow> Inl e | Inr bumped \<Rightarrow> next_free existing bumped)
      else Inr candidate)"
  by pat_completeness auto
termination
proof (relation "measure (\<lambda>(existing, candidate). card {v \<in> existing. last_number candidate \<le> last_number v})", goal_cases)
  case (2 existing candidate nxt)
  then have "last_number nxt = last_number candidate + 1"
    by (auto intro: bump_version_number)
  then have "{v \<in> existing. last_number nxt \<le> last_number v} \<subset> {v \<in> existing. last_number candidate \<le> last_number v}"
    using 2 by (intro psubsetI) (auto simp: set_eq_iff intro: exI [of _ candidate])
  then show ?case using 2 by (simp add: psubset_card_mono)
qed simp

definition next_version :: "string set \<Rightarrow> string \<Rightarrow> string result" where
  "next_version existing current =
     (let parts = split_on (CHR ''.'') current in
      if isdigit_text (last parts) then bind_res (bump_version current) (next_free existing)
      else next_free existing (current @ ''.1''))"

definition versions_of :: "string \<Rightarrow> model_store \<Rightarrow> string set" where
  "versions_of a st = am_version ` {m \<in> set (model_list st). am_app_id m = a}"

definition revise_model :: "(string \<Rightarrow> string) \<Rightarrow> (rat \<Rightarrow> string) \<Rightarrow> app_model \<Rightarrow> string option \<Rightarrow> (model_store, app_model) cmd" where
  "revise_model sha fr m new_version =
     bindC (model_get (am_app_id m) (am_version m)) (\<lambda>_ st.
       bindC (liftC (case new_version of
           Some v \<Rightarrow> if v = [] then next_version (versions_of (am_app_id m) st) (am_version m) else Inr v
         | None \<Rightarrow> next_version (versions_of (am_app_id m) st) (am_version m))) (\<lambda>target.
       bindC (liftC (guard (target \<notin> versions_of (am_app_id m) st)
         (AppModelTransitionError (''version '' @ target @ '' already exists for '' @ am_app_id m)))) (\<lambda>_.
       bindC (liftC (AppModel_check sha fr
         (m\<lparr>am_version := target, am_status := MODEL_DRAFT, am_digest := [], am_signature := None\<rparr>))) store_model)) st)"

definition model_require_human :: "string \<Rightarrow> unit result" where
  "model_require_human role =
     (if role = ''agent'' then Inl (AppModelPermissionError ''agents cannot validate or sign app models (human-only action)'')
      else guard (role = ''human'') (AppModelPermissionError (''unknown actor role: '' @ repr_str role)))"

definition model_check_transition :: "app_model \<Rightarrow> app_model_status \<Rightarrow> unit result" where
  "model_check_transition m t =
     guard (can_model_transition (am_status m) t)
       (AppModelTransitionError (''app model '' @ am_app_id m @ ''@'' @ am_version m @ '': cannot transition '' @
          app_model_status_value (am_status m) @ '' -> '' @ app_model_status_value t))"

definition model_transition_to :: "string \<Rightarrow> string \<Rightarrow> app_model_status \<Rightarrow> (model_store, app_model) cmd" where
  "model_transition_to a v t =
     bindC (model_get a v) (\<lambda>m. bindC (liftC (model_check_transition m t)) (\<lambda>_. store_model (m\<lparr>am_status := t\<rparr>)))"

definition validate_model :: "string \<Rightarrow> string \<Rightarrow> string \<Rightarrow> (model_store, app_model) cmd" where
  "validate_model a v role = bindC (liftC (model_require_human role)) (\<lambda>_. model_transition_to a v HUMAN_VALIDATED)"

definition sign_model :: "string \<Rightarrow> string \<Rightarrow> (string \<Rightarrow> string result) \<Rightarrow> string \<Rightarrow> (model_store, app_model) cmd" where
  "sign_model a v signer role =
     bindC (liftC (model_require_human role)) (\<lambda>_.
     bindC (model_get a v) (\<lambda>m.
     bindC (liftC (model_check_transition m MODEL_SIGNED)) (\<lambda>_.
     bindC (liftC (signer (am_digest m))) (\<lambda>sig. store_model (m\<lparr>am_status := MODEL_SIGNED, am_signature := Some sig\<rparr>)))))"

section \<open>The builder\<close>

type_synonym model_importer = "pydict \<Rightarrow> app_model result"

type_synonym builder = "(string \<times> app_model) list"

definition builder_keep :: "app_model \<Rightarrow> (builder, app_model) cmd" where
  "builder_keep m st = (Inr m, dict_set (am_app_id m) m st)"

definition import_model :: "(string \<times> model_importer) list \<Rightarrow> string \<Rightarrow> pydict \<Rightarrow> (builder, app_model) cmd" where
  "import_model importers source_type data =
     (case dict_get importers source_type of
        None \<Rightarrow> raiseC (DomainError (''no importer registered for source_type='' @ repr_str source_type))
      | Some to_draft \<Rightarrow> bindC (liftC (to_draft data)) builder_keep)"

definition register_proposed :: "app_model \<Rightarrow> (builder, app_model) cmd" where
  "register_proposed m = builder_keep (m\<lparr>am_status := LLM_PROPOSED\<rparr>)"

definition builder_get :: "string \<Rightarrow> (builder, app_model) cmd" where
  "builder_get a st =
     (case dict_get st a of None \<Rightarrow> Inl (ModelNotFoundError (''app model not found: '' @ a)) | Some m \<Rightarrow> Inr m, st)"

definition builder_require_human :: "string \<Rightarrow> unit result" where
  "builder_require_human role =
     (if role = ''agent'' then Inl (ModelPermissionError ''agents cannot validate or sign app models (human-only action)'')
      else guard (role = ''human'') (ModelPermissionError (''unknown actor role: '' @ repr_str role)))"

definition builder_check_transition :: "app_model_status \<Rightarrow> app_model_status \<Rightarrow> unit result" where
  "builder_check_transition s t =
     guard (can_model_transition s t)
       (ModelTransitionError (''cannot transition model '' @ app_model_status_value s @ '' -> '' @ app_model_status_value t))"

definition builder_validate :: "string \<Rightarrow> string \<Rightarrow> app_model option \<Rightarrow> (builder, app_model) cmd" where
  "builder_validate a role corrections =
     bindC (liftC (builder_require_human role)) (\<lambda>_.
     bindC (builder_get a) (\<lambda>current.
     bindC (liftC (builder_check_transition (am_status current) HUMAN_VALIDATED)) (\<lambda>_ st.
       let base = (case corrections of Some c \<Rightarrow> c | None \<Rightarrow> current);
           validated = base\<lparr>am_app_id := a, am_status := HUMAN_VALIDATED\<rparr> in
       (Inr validated, dict_set a validated st))))"

definition builder_sign :: "(string \<Rightarrow> string result) option \<Rightarrow> string \<Rightarrow> string \<Rightarrow> (builder, app_model) cmd" where
  "builder_sign signer a role =
     bindC (liftC (builder_require_human role)) (\<lambda>_.
     bindC (builder_get a) (\<lambda>current.
     bindC (liftC (builder_check_transition (am_status current) MODEL_SIGNED)) (\<lambda>_.
       case signer of
         None \<Rightarrow> raiseC (DomainError ''no signer configured for ModelBuilder'')
       | Some sign \<Rightarrow> bindC (liftC (sign (am_digest current))) (\<lambda>sig st.
           let signed = current\<lparr>am_status := MODEL_SIGNED, am_signature := Some sig\<rparr> in
           (Inr signed, dict_set a signed st)))))"

section \<open>Importers\<close>

fun slug_runs :: "bool \<Rightarrow> string \<Rightarrow> string" where
  "slug_runs in_run [] = []"
| "slug_runs in_run (c # cs) =
     (if is_digit c \<or> (97 \<le> (of_char c :: nat) \<and> (of_char c :: nat) \<le> 122) then c # slug_runs False cs
      else if in_run then slug_runs True cs else CHR ''-'' # slug_runs True cs)"

definition slug :: "string \<Rightarrow> string" where
  "slug s =
     (let text = rstrip_when (\<lambda>c. c = CHR ''-'') (dropWhile (\<lambda>c. c = CHR ''-'') (slug_runs False (py_lower (py_strip s)))) in
      if text = [] then ''app'' else text)"

definition HTTP_METHODS :: "string set" where
  "HTTP_METHODS = {''get'', ''post'', ''put'', ''delete'', ''patch'', ''head'', ''options''}"

definition TYPE_MAP :: "(string \<times> string) list" where
  "TYPE_MAP = [(''integer'', ''int''), (''number'', ''float''), (''string'', ''str''), (''boolean'', ''bool''),
     (''array'', ''list''), (''object'', ''dict'')]"

definition mapping_or_empty :: "pyval option \<Rightarrow> pydict" where
  "mapping_or_empty v = (case v of Some (VDict d) \<Rightarrow> d | _ \<Rightarrow> [])"

definition text_of :: "pydict \<Rightarrow> string \<Rightarrow> string \<Rightarrow> string" where
  "text_of d k dflt = (case dict_get d k of None \<Rightarrow> dflt | Some v \<Rightarrow> py_str v)"

definition param_type :: "pydict \<Rightarrow> string" where
  "param_type param =
     (let raw = (case dict_get param ''schema'' of Some (VDict schema) \<Rightarrow> text_of schema ''type'' [] | _ \<Rightarrow> []);
          raw' = (if raw = [] then text_of param ''type'' [] else raw) in
      case dict_get TYPE_MAP raw' of None \<Rightarrow> ''str'' | Some t \<Rightarrow> t)"

fun openapi_params :: "pyval list \<Rightarrow> string list \<Rightarrow> model_field list \<Rightarrow> (string list \<times> model_field list) result" where
  "openapi_params [] names fs = Inr (names, fs)"
| "openapi_params (VDict param # ps) names fs =
     (case dict_get param ''name'' of
        Some (VStr n) \<Rightarrow>
          if n = [] then openapi_params ps names fs
          else if n \<in> fd_name ` set fs then openapi_params ps (names @ [n]) fs
          else bind_res (Field_check \<lparr>fd_name = n, fd_type = param_type param, fd_range = None, fd_trusted_source = ''client''\<rparr>) (\<lambda>f.
            openapi_params ps (names @ [n]) (fs @ [f]))
      | _ \<Rightarrow> openapi_params ps names fs)"
| "openapi_params (_ # ps) names fs = openapi_params ps names fs"

definition openapi_operation ::
  "string \<Rightarrow> string \<Rightarrow> pyval \<Rightarrow> model_transition list \<times> model_field list \<Rightarrow> (model_transition list \<times> model_field list) result" where
  "openapi_operation path method operation acc =
     (if py_lower method \<notin> HTTP_METHODS then Inr acc
      else case operation of
        VDict op \<Rightarrow>
          (let op_id = (if spec_flag op ''operationId'' then py_str (opt_val (dict_get op ''operationId'')) else py_lower method @ path);
               params = (case dict_get op ''parameters'' of Some (VList ps) \<Rightarrow> ps | _ \<Rightarrow> []) in
           bind_res (openapi_params params [] (snd acc)) (\<lambda>(names, fs).
           bind_res (Transition_check \<lparr>tr_id = op_id, tr_from_state = ''default'', tr_to_state = ''default'',
               tr_endpoint = py_upper method @ '' '' @ path, tr_params = names, tr_idempotent = False\<rparr>) (\<lambda>t.
             Inr (fst acc @ [t], fs))))
      | _ \<Rightarrow> Inr acc)"

fun openapi_operations ::
  "(string \<times> string \<times> pyval) list \<Rightarrow> model_transition list \<times> model_field list \<Rightarrow> (model_transition list \<times> model_field list) result" where
  "openapi_operations [] acc = Inr acc"
| "openapi_operations ((path, method, operation) # ops) acc =
     bind_res (openapi_operation path method operation acc) (openapi_operations ops)"

definition fresh_model :: "string \<Rightarrow> string \<Rightarrow> string list \<Rightarrow> model_transition list \<Rightarrow> model_field list \<Rightarrow> app_model_status \<Rightarrow> app_model" where
  "fresh_model a v states ts fs s = \<lparr>am_app_id = a, am_version = v, am_states = states, am_transitions = ts, am_invariants = [], am_fields = fs,
     am_roles = [], am_idempotency = [], am_out_of_scope_rules = [], am_status = s, am_digest = [], am_signature = None\<rparr>"

definition openapi_to_draft :: "(string \<Rightarrow> string) \<Rightarrow> (rat \<Rightarrow> string) \<Rightarrow> model_importer" where
  "openapi_to_draft sha fr data =
     (let info = mapping_or_empty (dict_get data ''info'');
          ops = concat (map (\<lambda>(path, methods). case methods of VDict ms \<Rightarrow> map (\<lambda>(m, op). (path, m, op)) ms | _ \<Rightarrow> [])
            (mapping_or_empty (dict_get data ''paths''))) in
      bind_res (openapi_operations ops ([], [])) (\<lambda>(ts, fs).
        AppModel_check sha fr
          (fresh_model (slug (text_of info ''title'' ''app'')) (text_of info ''version'' ''0.0.0'') [''default''] ts fs MODEL_DRAFT)))"

definition path_from_url :: "pyval option \<Rightarrow> string" where
  "path_from_url url =
     (case url of
        Some (VStr s) \<Rightarrow> s
      | Some (VDict d) \<Rightarrow> (case dict_get d ''path'' of
          Some (VList segs) \<Rightarrow> ''/'' @ join ''/'' (map py_str segs)
        | _ \<Rightarrow> (case dict_get d ''raw'' of Some (VStr raw) \<Rightarrow> raw | _ \<Rightarrow> ''/''))
      | _ \<Rightarrow> ''/'')"

lemma size_in_dict: "(k, v) \<in> set d \<Longrightarrow> size v < size (VDict d)"
  by (induction d) auto

lemma size_in_list: "v \<in> set vs \<Longrightarrow> size v < size (VList vs)"
  by (induction vs) auto

text \<open>The generator \<^verbatim>\<open>_iter_requests\<close>, with folders searched in place.\<close>

function iter_requests :: "pyval list \<Rightarrow> pydict list" where
  "iter_requests items = concat (map (\<lambda>item.
     case item of
       VDict d \<Rightarrow> (case dict_get d ''item'' of
           Some (VList folder) \<Rightarrow> iter_requests folder
         | _ \<Rightarrow> (case dict_get d ''request'' of Some (VDict _) \<Rightarrow> [d] | _ \<Rightarrow> []))
     | _ \<Rightarrow> []) items)"
  by pat_completeness auto
termination
proof (relation "measure (\<lambda>items. size (VList items))", goal_cases)
  case (2 items item d v folder)
  then have "(''item'', VList folder) \<in> set d" "VDict d \<in> set items" by (auto dest: map_of_SomeD)
  then show ?case using size_in_dict size_in_list by (metis in_measure less_trans)
qed simp

declare iter_requests.simps [simp del]

definition postman_transition :: "nat \<Rightarrow> pydict \<Rightarrow> model_transition result" where
  "postman_transition idx item =
     (let request = mapping_or_empty (dict_get item ''request'');
          name = (if spec_flag item ''name'' then py_str (opt_val (dict_get item ''name'')) else ''request_'' @ nat_repr idx);
          op_id = (if slug name = [] then ''request_'' @ nat_repr idx else slug name) in
      Transition_check \<lparr>tr_id = op_id, tr_from_state = ''default'', tr_to_state = ''default'',
        tr_endpoint = py_upper (text_of request ''method'' ''GET'') @ '' '' @ path_from_url (dict_get request ''url''),
        tr_params = [], tr_idempotent = False\<rparr>)"

definition postman_to_draft :: "(string \<Rightarrow> string) \<Rightarrow> (rat \<Rightarrow> string) \<Rightarrow> model_importer" where
  "postman_to_draft sha fr data =
     (let info = mapping_or_empty (dict_get data ''info'');
          requests = (case dict_get data ''item'' of Some (VList items) \<Rightarrow> iter_requests items | _ \<Rightarrow> []) in
      bind_res (map_res (\<lambda>(i, item). postman_transition i item) (enumerate 0 requests)) (\<lambda>ts.
        AppModel_check sha fr
          (fresh_model (slug (text_of info ''name'' ''app'')) (text_of info ''version'' ''0.0.0'') [''default''] ts [] MODEL_DRAFT)))"

record recorded_request =
  rr_method :: string
  rr_path :: string

fun traffic_cluster :: "(string \<times> string) list \<Rightarrow> recorded_request list \<Rightarrow> model_transition list result" where
  "traffic_cluster seen [] = Inr []"
| "traffic_cluster seen (r # rs) =
     (let key = (py_upper (rr_method r), rr_path r) in
      if key \<in> set seen then traffic_cluster seen rs
      else bind_res (Transition_check \<lparr>tr_id = slug (fst key @ ''-'' @ snd key), tr_from_state = ''default'', tr_to_state = ''default'',
          tr_endpoint = fst key @ '' '' @ snd key, tr_params = [], tr_idempotent = False\<rparr>) (\<lambda>t.
        bind_res (traffic_cluster (key # seen) rs) (\<lambda>ts. Inr (t # ts))))"

definition traffic_to_draft ::
  "(string \<Rightarrow> string) \<Rightarrow> (rat \<Rightarrow> string) \<Rightarrow> (string list \<Rightarrow> string list result) option \<Rightarrow> string \<Rightarrow> recorded_request list \<Rightarrow> app_model result" where
  "traffic_to_draft sha fr llm app_name requests =
     bind_res (traffic_cluster [] requests) (\<lambda>ts.
     bind_res (case llm of
         Some draft_states \<Rightarrow> if ts = [] then Inr [''default'']
           else bind_res (draft_states (map tr_endpoint ts)) (\<lambda>states. Inr (if states = [] then [''default''] else states))
       | None \<Rightarrow> Inr [''default'']) (\<lambda>states.
       AppModel_check sha fr (fresh_model (slug app_name) ''0.0.1'' states ts [] LLM_PROPOSED)))"

section \<open>Published versions\<close>

record model_registry =
  mr_history :: "(string \<times> app_model list) list"
  mr_snapshots :: "(string \<times> app_model) list"

definition history_of :: "model_registry \<Rightarrow> string \<Rightarrow> app_model list" where
  "history_of r a = (case dict_get (mr_history r) a of None \<Rightarrow> [] | Some h \<Rightarrow> h)"

definition supersede :: "app_model \<Rightarrow> app_model" where
  "supersede m = (if am_status m = MODEL_PUBLISHED then m\<lparr>am_status := SUPERSEDED\<rparr> else m)"

definition publish_model :: "app_model \<Rightarrow> (model_registry, app_model) cmd" where
  "publish_model m r =
     (if am_status m \<noteq> MODEL_SIGNED then
        (Inl (ModelNotSignedError (''model '' @ am_app_id m @ '' must be SIGNED to publish (is '' @ app_model_status_value (am_status m) @ '')'')), r)
      else let published = m\<lparr>am_status := MODEL_PUBLISHED\<rparr> in
        (Inr published,
         r\<lparr>mr_history := dict_set (am_app_id m) (map supersede (history_of r (am_app_id m)) @ [published]) (mr_history r)\<rparr>))"

definition model_versions :: "string \<Rightarrow> (model_registry, app_model list) cmd" where
  "model_versions a r =
     (if history_of r a = [] then Inl (ModelNotFoundError (''no published model for app_id='' @ a)) else Inr (history_of r a), r)"

definition current_model :: "string \<Rightarrow> (model_registry, app_model) cmd" where
  "current_model a r =
     (case List.find (\<lambda>m. am_status m = MODEL_PUBLISHED) (rev (history_of r a)) of
        None \<Rightarrow> Inl (ModelNotFoundError (''no published model for app_id='' @ a)) | Some m \<Rightarrow> Inr m, r)"

definition snapshot_for_assessment :: "string \<Rightarrow> string \<Rightarrow> (model_registry, string) cmd" where
  "snapshot_for_assessment i a =
     bindC (current_model a) (\<lambda>m r.
       let snapshot_id = ''appmodel-snap:'' @ i @ '':'' @ a @ '':'' @ am_version m in
       (Inr snapshot_id, r\<lparr>mr_snapshots := dict_set snapshot_id m (mr_snapshots r)\<rparr>))"

definition get_model_snapshot :: "string \<Rightarrow> (model_registry, app_model) cmd" where
  "get_model_snapshot s r =
     (case dict_get (mr_snapshots r) s of None \<Rightarrow> Inl (ModelNotFoundError (''unknown snapshot: '' @ s)) | Some m \<Rightarrow> Inr m, r)"

end
