(* ===== verification/App_Model_Safety.thy ===== *)
theory App_Model_Safety
  imports App_Models Provenance
begin

text \<open>
  What holds of application models: who validated and signed a signed model and what the signature covers, over
  every history of the service and of the builder; that a revision finds a free version; and that the registry of
  published versions is the list of what was published.
\<close>

section \<open>The service\<close>

datatype model_call = CreateModel app_model bool | CreateProposed app_model | UpdateModel app_model
  | ReviseModel app_model "string option" | ValidateModel string string string
  | SignModel string string "string \<Rightarrow> string result" string

fun model_apply :: "(string \<Rightarrow> string) \<Rightarrow> (rat \<Rightarrow> string) \<Rightarrow> model_call \<Rightarrow> (model_store, app_model) cmd" where
  "model_apply sha fr (CreateModel m proposed) = create_model m proposed"
| "model_apply sha fr (CreateProposed m) = create_proposed m"
| "model_apply sha fr (UpdateModel m) = update_model sha fr m"
| "model_apply sha fr (ReviseModel m v) = revise_model sha fr m v"
| "model_apply sha fr (ValidateModel a v role) = validate_model a v role"
| "model_apply sha fr (SignModel a v signer role) = sign_model a v signer role"

definition models_after :: "(string \<Rightarrow> string) \<Rightarrow> (rat \<Rightarrow> string) \<Rightarrow> model_call list \<Rightarrow> model_store" where
  "models_after sha fr = after (\<lambda>c st. snd (model_apply sha fr c st)) []"

fun registered_model :: "model_call \<Rightarrow> app_model option" where
  "registered_model (CreateModel m proposed) = Some m"
| "registered_model (CreateProposed m) = Some m"
| "registered_model _ = None"

fun registers :: "string \<times> string \<Rightarrow> model_call \<Rightarrow> bool" where
  "registers k (CreateModel m proposed) \<longleftrightarrow> k = (am_app_id m, am_version m)"
| "registers k (CreateProposed m) \<longleftrightarrow> k = (am_app_id m, am_version m)"
| "registers k _ \<longleftrightarrow> False"

definition model_justified :: "string \<times> string \<Rightarrow> model_call list \<Rightarrow> app_model \<Rightarrow> bool" where
  "model_justified k calls m \<longleftrightarrow>
     k = (am_app_id m, am_version m) \<and>
     am_status m \<in> {MODEL_DRAFT, LLM_PROPOSED, HUMAN_VALIDATED, MODEL_SIGNED} \<and>
     (am_status m \<in> {HUMAN_VALIDATED, MODEL_SIGNED} \<longrightarrow> ValidateModel (fst k) (snd k) ''human'' \<in> set calls) \<and>
     (am_status m = MODEL_SIGNED \<longrightarrow> (\<exists>signer sig. SignModel (fst k) (snd k) signer ''human'' \<in> set calls \<and>
        signer (am_digest m) = Inr sig \<and> am_signature m = Some sig))"

lemma content_digest_update [simp]:
  "content_digest sha fr (m\<lparr>am_status := t\<rparr>) = content_digest sha fr m"
  "content_digest sha fr (m\<lparr>am_digest := d\<rparr>) = content_digest sha fr m"
  "content_digest sha fr (m\<lparr>am_signature := g\<rparr>) = content_digest sha fr m"
  by (simp_all add: content_digest_def content_payload_def)

lemma AppModel_check_fresh:
  "am_digest m = [] \<Longrightarrow> AppModel_check sha fr m = Inr m' \<Longrightarrow> m' = m\<lparr>am_digest := content_digest sha fr m\<rparr>"
  by (auto simp: AppModel_check_def split: if_splits)

lemma model_human_Inr [simp]: "model_require_human role = Inr u \<longleftrightarrow> role = ''human''"
  by (auto simp: model_require_human_def)

lemma model_check_Inr [simp]: "model_check_transition m t = Inr u \<longleftrightarrow> t \<in> VALID_MODEL_TRANSITIONS (am_status m)"
  by (auto simp: model_check_transition_def can_model_transition_def guard_def)

lemma valid_to [simp]:
  "HUMAN_VALIDATED \<in> VALID_MODEL_TRANSITIONS s \<longleftrightarrow> s \<in> {MODEL_DRAFT, LLM_PROPOSED}"
  "MODEL_SIGNED \<in> VALID_MODEL_TRANSITIONS s \<longleftrightarrow> s = HUMAN_VALIDATED"
  by (cases s; simp)+

lemma model_get_bind:
  "bindC (model_get a v) f st =
     (case dict_get st (a, v) of None \<Rightarrow> (Inl (AppModelNotFoundError (''app model not found: '' @ a @ ''@'' @ v)), st) | Some m \<Rightarrow> f m st)"
  by (simp add: bindC_def model_get_def split: option.split)

lemmas model_simps = model_get_bind lift_bindC store_model_def model_put_def

text \<open>The effect of each call: the store is unchanged, or one model is put.\<close>

lemma update_effect:
  "snd (update_model sha fr m st) = st \<or>
     (\<exists>e. dict_get st (am_app_id m, am_version m) = Some e \<and> am_status e \<in> {MODEL_DRAFT, HUMAN_VALIDATED} \<and>
        snd (update_model sha fr m st) = model_put (m\<lparr>am_status := am_status e, am_signature := None, am_digest := content_digest sha fr m\<rparr>) st)"
  by (auto simp: update_model_def model_simps guard_def split: option.splits sum.splits dest!: AppModel_check_fresh [rotated])

lemma revise_effect:
  "snd (revise_model sha fr m w st) = st \<or>
     (\<exists>v m'. v \<notin> versions_of (am_app_id m) st \<and> m' = m\<lparr>am_version := v, am_status := MODEL_DRAFT, am_digest := [], am_signature := None\<rparr> \<and>
        snd (revise_model sha fr m w st) = model_put (m'\<lparr>am_digest := content_digest sha fr m'\<rparr>) st)"
  by (auto simp: revise_model_def model_simps guard_def split: option.splits sum.splits if_splits dest!: AppModel_check_fresh [rotated])

lemma validate_effect:
  "snd (validate_model a v role st) = st \<or>
     (\<exists>m. role = ''human'' \<and> dict_get st (a, v) = Some m \<and> am_status m \<in> {MODEL_DRAFT, LLM_PROPOSED} \<and>
        snd (validate_model a v role st) = model_put (m\<lparr>am_status := HUMAN_VALIDATED\<rparr>) st)"
  by (auto simp: validate_model_def model_transition_to_def model_simps split: option.splits sum.splits)

lemma sign_effect:
  "snd (sign_model a v signer role st) = st \<or>
     (\<exists>m sig. role = ''human'' \<and> dict_get st (a, v) = Some m \<and> am_status m = HUMAN_VALIDATED \<and> signer (am_digest m) = Inr sig \<and>
        snd (sign_model a v signer role st) = model_put (m\<lparr>am_status := MODEL_SIGNED, am_signature := Some sig\<rparr>) st)"
  by (auto simp: sign_model_def model_simps split: option.splits sum.splits)

lemma justified_Cons: "model_justified k calls m \<Longrightarrow> model_justified k (c # calls) m"
  by (auto simp: model_justified_def)

lemma get_put: "dict_get (model_put m st) k = (if k = (am_app_id m, am_version m) then Some m else dict_get st k)"
  by (simp add: model_put_def)

lemma justified_put:
  assumes "dict_get (model_put m st) k = Some v" "\<And>v. dict_get st k = Some v \<Longrightarrow> model_justified k calls v"
    and "k = (am_app_id m, am_version m) \<Longrightarrow> model_justified k (c # calls) m"
  shows "model_justified k (c # calls) v"
  using assms justified_Cons by (auto simp: get_put split: if_splits)

lemma justified_create:
  assumes "dict_get (model_put (m\<lparr>am_status := s\<rparr>) st) k = Some v" "\<And>v. dict_get st k = Some v \<Longrightarrow> model_justified k calls v"
    and "s \<in> {MODEL_DRAFT, LLM_PROPOSED}"
  shows "model_justified k (if k = (am_app_id m, am_version m) then [] else c # calls) v"
proof (cases "k = (am_app_id m, am_version m)")
  case True
  then have "v = m\<lparr>am_status := s\<rparr>" using assms(1) by (simp add: get_put)
  then show ?thesis using True assms(3) by (auto simp: model_justified_def)
qed (use assms justified_Cons in \<open>auto simp: get_put\<close>)

lemma model_step_justified:
  assumes old: "\<And>k v. dict_get st k = Some v \<Longrightarrow> model_justified k (past k) v"
    and get: "dict_get (snd (model_apply sha fr c st)) k = Some v"
  shows "model_justified k (if registers k c then [] else c # past k) v"
proof (cases c)
  case (CreateModel m proposed)
  then show ?thesis
    using justified_create [OF get [unfolded CreateModel model_apply.simps create_model_def store_model_def snd_conv] old] by simp
next
  case (CreateProposed m)
  then show ?thesis
    using justified_create [OF get [unfolded CreateProposed model_apply.simps create_proposed_def store_model_def snd_conv] old] by simp
next
  case (UpdateModel m)
  from update_effect [of sha fr m st] show ?thesis
  proof (elim disjE exE conjE)
    fix e
    assume e: "dict_get st (am_app_id m, am_version m) = Some e" "am_status e \<in> {MODEL_DRAFT, HUMAN_VALIDATED}"
      and put: "snd (update_model sha fr m st) = model_put (m\<lparr>am_status := am_status e, am_signature := None, am_digest := content_digest sha fr m\<rparr>) st"
    have "model_justified k (c # past k) v"
      by (rule justified_put [OF get [unfolded UpdateModel model_apply.simps put] old]) (use old [OF e(1)] e(2) UpdateModel in \<open>auto simp: model_justified_def\<close>)
    then show ?thesis by (simp add: UpdateModel)
  qed (use get UpdateModel old justified_Cons in simp)
next
  case (ReviseModel m w)
  from revise_effect [of sha fr m w st] show ?thesis
  proof (elim disjE exE conjE)
    fix u m'
    assume m': "m' = m\<lparr>am_version := u, am_status := MODEL_DRAFT, am_digest := [], am_signature := None\<rparr>"
      and put: "snd (revise_model sha fr m w st) = model_put (m'\<lparr>am_digest := content_digest sha fr m'\<rparr>) st"
    have "model_justified k (c # past k) v"
      by (rule justified_put [OF get [unfolded ReviseModel model_apply.simps put] old]) (use m' ReviseModel in \<open>auto simp: model_justified_def\<close>)
    then show ?thesis by (simp add: ReviseModel)
  qed (use get ReviseModel old justified_Cons in simp)
next
  case (ValidateModel a u role)
  from validate_effect [of a u role st] show ?thesis
  proof (elim disjE exE conjE)
    fix m
    assume m: "role = ''human''" "dict_get st (a, u) = Some m"
      and put: "snd (validate_model a u role st) = model_put (m\<lparr>am_status := HUMAN_VALIDATED\<rparr>) st"
    have "model_justified k (c # past k) v"
      by (rule justified_put [OF get [unfolded ValidateModel model_apply.simps put] old]) (use old [OF m(2)] m(1) ValidateModel in \<open>auto simp: model_justified_def\<close>)
    then show ?thesis by (simp add: ValidateModel)
  qed (use get ValidateModel old justified_Cons in simp)
next
  case (SignModel a u signer role)
  from sign_effect [of a u signer role st] show ?thesis
  proof (elim disjE exE conjE)
    fix m sig
    assume m: "role = ''human''" "dict_get st (a, u) = Some m" "am_status m = HUMAN_VALIDATED" "signer (am_digest m) = Inr sig"
      and put: "snd (sign_model a u signer role st) = model_put (m\<lparr>am_status := MODEL_SIGNED, am_signature := Some sig\<rparr>) st"
    have "model_justified k (c # past k) v"
      by (rule justified_put [OF get [unfolded SignModel model_apply.simps put] old]) (use old [OF m(2)] m SignModel in \<open>auto simp: model_justified_def\<close>)
    then show ?thesis by (simp add: SignModel)
  qed (use get SignModel old justified_Cons in simp)
qed

interpretation service: provenance "\<lambda>c st. snd (model_apply sha fr c st)" map_of "[]" "\<lambda>c. True" registers model_justified for sha fr
proof unfold_locales
qed (simp, erule justified_Cons, rule model_step_justified)

text \<open>
  The digest of a stored model is the one of its content, or the model is, but for its life cycle, one that was registered with another
  digest.
\<close>

definition content_covered ::
  "(string \<Rightarrow> string) \<Rightarrow> (rat \<Rightarrow> string) \<Rightarrow> string \<times> string \<Rightarrow> model_call list \<Rightarrow> app_model \<Rightarrow> bool" where
  "content_covered sha fr k calls m \<longleftrightarrow> k = (am_app_id m, am_version m) \<and> (am_digest m = content_digest sha fr m \<or>
     (\<exists>c \<in> set calls. \<exists>m0. registered_model c = Some m0 \<and> k = (am_app_id m0, am_version m0) \<and>
        am_digest m0 \<noteq> content_digest sha fr m0 \<and> m = m0\<lparr>am_status := am_status m, am_signature := am_signature m\<rparr>))"

lemma covered_later: "content_covered sha fr k calls m \<Longrightarrow> content_covered sha fr k (c # calls) m"
  by (auto simp: content_covered_def)

lemma covered_moved:
  assumes "content_covered sha fr k calls m"
  shows "content_covered sha fr k calls (m\<lparr>am_status := s\<rparr>)" "content_covered sha fr k calls (m\<lparr>am_status := s, am_signature := g\<rparr>)"
proof -
  have "m\<lparr>am_status := s\<rparr> = m0\<lparr>am_status := s, am_signature := am_signature m\<rparr>" "m\<lparr>am_status := s, am_signature := g\<rparr> = m0\<lparr>am_status := s, am_signature := g\<rparr>"
    if "m = m0\<lparr>am_status := am_status m, am_signature := am_signature m\<rparr>" for m0
    by (subst that; simp)+
  with assms show "content_covered sha fr k calls (m\<lparr>am_status := s\<rparr>)" "content_covered sha fr k calls (m\<lparr>am_status := s, am_signature := g\<rparr>)"
    unfolding content_covered_def by force+
qed

lemma covered_registered:
  assumes "registered_model c = Some m" "k = (am_app_id m, am_version m)"
  shows "content_covered sha fr k (c # calls) (m\<lparr>am_status := s\<rparr>)"
proof (cases "am_digest m = content_digest sha fr m")
  case False
  with assms show ?thesis
    unfolding content_covered_def by (intro conjI disjI2 bexI [of _ c] exI [of _ m]) simp_all
qed (use assms in \<open>simp add: content_covered_def\<close>)

lemma model_step_covered:
  assumes old: "\<And>k v. dict_get st k = Some v \<Longrightarrow> content_covered sha fr k (past k) v"
    and get: "dict_get (snd (model_apply sha fr c st)) k = Some v"
  shows "content_covered sha fr k (c # past k) v"
proof -
  have put: "content_covered sha fr k (c # past k) v"
    if "snd (model_apply sha fr c st) = model_put m st" "k = (am_app_id m, am_version m) \<Longrightarrow> content_covered sha fr k (c # past k) m" for m
    using get old that covered_later by (auto simp: get_put split: if_splits)
  have kept: "content_covered sha fr k (c # past k) v" if "snd (model_apply sha fr c st) = st"
    using get old that covered_later by auto
  show ?thesis
  proof (cases c)
    case (CreateModel m proposed)
    then show ?thesis
      by (intro put [of "m\<lparr>am_status := (if proposed then LLM_PROPOSED else MODEL_DRAFT)\<rparr>"])
        (simp add: create_model_def store_model_def, rule covered_registered, simp_all)
  next
    case (CreateProposed m)
    then show ?thesis
      by (intro put [of "m\<lparr>am_status := LLM_PROPOSED\<rparr>"]) (simp add: create_proposed_def store_model_def, rule covered_registered, simp_all)
  next
    case (UpdateModel m)
    then show ?thesis using update_effect [of sha fr m st] put kept by (auto simp: content_covered_def)
  next
    case (ReviseModel m w)
    then show ?thesis using revise_effect [of sha fr m w st] put kept by (auto simp: content_covered_def)
  next
    case (ValidateModel a u role)
    from validate_effect [of a u role st] show ?thesis
    proof (elim disjE exE conjE)
      fix m
      assume m: "dict_get st (a, u) = Some m" and eff: "snd (validate_model a u role st) = model_put (m\<lparr>am_status := HUMAN_VALIDATED\<rparr>) st"
        and p: "role = ''human''" "am_status m \<in> {MODEL_DRAFT, LLM_PROPOSED}"
      have "(a, u) = (am_app_id m, am_version m)" using old [OF m] by (simp add: content_covered_def)
      then show ?thesis
        using covered_moved(1) [OF covered_later [OF old [OF m]]] eff ValidateModel by (intro put) auto
    qed (use kept ValidateModel in simp)
  next
    case (SignModel a u signer role)
    from sign_effect [of a u signer role st] show ?thesis
    proof (elim disjE exE conjE)
      fix m sig
      assume m: "dict_get st (a, u) = Some m" and eff: "snd (sign_model a u signer role st) = model_put (m\<lparr>am_status := MODEL_SIGNED, am_signature := Some sig\<rparr>) st"
      have "(a, u) = (am_app_id m, am_version m)" using old [OF m] by (simp add: content_covered_def)
      then show ?thesis
        using covered_moved(2) [OF covered_later [OF old [OF m]]] eff SignModel by (intro put) auto
    qed (use kept SignModel in simp)
  qed
qed

interpretation contents: provenance "\<lambda>c st. snd (model_apply sha fr c st)" map_of "[]" "\<lambda>c. True" "\<lambda>k c. False" "content_covered sha fr" for sha fr
proof unfold_locales
qed (simp, erule covered_later, simp only: if_False, rule model_step_covered)

text \<open>
  C18. Who stands behind a signed model, and for what. Over every history of calls by humans and agents, on models of any
  content and digest: a model that is signed was validated and signed by a human since it was registered under its id and
  version; its signature is the signer's for the digest it carries; and that digest is the one of the content it has now, unless the
  model was registered with a digest that was not its content's and has been neither edited nor revised since.
\<close>

theorem signed_models_are_validated:
  assumes "dict_get (models_after sha fr calls) (a, v) = Some m" "am_status m = MODEL_SIGNED"
  shows "ValidateModel a v ''human'' \<in> set (since (registers (a, v)) calls) \<and>
     (\<exists>signer sig. SignModel a v signer ''human'' \<in> set (since (registers (a, v)) calls) \<and>
        signer (am_digest m) = Inr sig \<and> am_signature m = Some sig) \<and>
     (am_digest m = content_digest sha fr m \<or>
      (\<exists>c \<in> set calls. \<exists>m0. registered_model c = Some m0 \<and> (am_app_id m0, am_version m0) = (a, v) \<and>
         am_digest m0 \<noteq> content_digest sha fr m0 \<and> m = m0\<lparr>am_status := MODEL_SIGNED, am_signature := am_signature m\<rparr>))"
proof -
  have all: "list_all (\<lambda>c. True) calls" by (simp add: list_all_iff)
  have "content_covered sha fr (a, v) (since (\<lambda>c. False) calls) m"
    using contents.history [OF all, of sha fr "(a, v)" m] assms(1) by (simp add: models_after_def)
  then have "am_digest m = content_digest sha fr m \<or>
      (\<exists>c \<in> set calls. \<exists>m0. registered_model c = Some m0 \<and> (am_app_id m0, am_version m0) = (a, v) \<and>
         am_digest m0 \<noteq> content_digest sha fr m0 \<and> m = m0\<lparr>am_status := MODEL_SIGNED, am_signature := am_signature m\<rparr>)"
    unfolding content_covered_def assms(2) using since_set by metis
  then show ?thesis
    using service.history [OF all, of sha fr "(a, v)" m] assms by (auto simp: models_after_def model_justified_def)
qed

text \<open>So where every registered model carries the digest of its content, the signature covers what the model says.\<close>

corollary signatures_cover_built_models:
  assumes "dict_get (models_after sha fr calls) (a, v) = Some m"
    and "\<forall>c \<in> set calls. \<forall>m0. registered_model c = Some m0 \<longrightarrow> am_digest m0 = content_digest sha fr m0"
  shows "am_digest m = content_digest sha fr m"
  using contents.history [of calls sha fr "(a, v)" m] assms since_set
  by (fastforce simp: models_after_def content_covered_def list_all_iff)

text \<open>An edit keeps the status: content that no human has seen is signed like content that was validated.\<close>

lemma update_keeps_validation:
  assumes "dict_get st (am_app_id m, am_version m) = Some e" "am_status e = HUMAN_VALIDATED" "am_app_id m \<noteq> []" "am_version m \<noteq> []" "am_states m \<noteq> []"
  shows "\<exists>m'. update_model sha fr m st = (Inr m', model_put m' st) \<and> am_status m' = HUMAN_VALIDATED \<and> am_transitions m' = am_transitions m"
  using assms by (auto simp: update_model_def model_simps AppModel_check_def guard_def)

section \<open>Revisions\<close>

declare next_free.simps [simp del]

definition numbered :: "string \<Rightarrow> bool" where
  "numbered s \<longleftrightarrow> (let w = last (split_on (CHR ''.'') s) in w \<noteq> [] \<and> list_all is_digit w)"

lemma join_nonempty: "p \<in> set ps \<Longrightarrow> p \<noteq> [] \<Longrightarrow> join sep ps \<noteq> []"
  by (induction ps rule: induct_list012) auto

lemma bump_numbered:
  assumes "numbered s"
  obtains t where "bump_version s = Inr t" "numbered t" "t \<noteq> []"
proof -
  let ?ps = "split_on (CHR ''.'') s"
  let ?w = "int_repr (last_number s + 1)"
  have b: "bump_version s = Inr (join ''.'' (butlast ?ps @ [?w]))"
    using assms by (simp add: bump_version_def int_of_text_def numbered_def last_number_def Let_def)
  have "0 \<le> last_number s"
    using assms digits_nonneg [of "last ?ps" 0] by (simp add: last_number_def number_of_def numbered_def Let_def)
  then have w: "list_all is_digit ?w" "?w \<noteq> []"
    using nat_repr_is_digit [of "nat (last_number s + 1)"] by (auto simp: int_repr_def)
  then have "CHR ''.'' \<notin> set ?w" by (auto simp: list_all_iff is_digit_def)
  then have "\<forall>p \<in> set (butlast ?ps @ [?w]). CHR ''.'' \<notin> set p"
    using split_on_no_sep [of _ "CHR ''.''" s] by (auto dest: in_set_butlastD)
  from split_on_join [OF _ this] have "numbered (join ''.'' (butlast ?ps @ [?w]))"
    using w by (simp add: numbered_def Let_def)
  with b join_nonempty [of ?w "butlast ?ps @ [?w]" "''.''"] w show thesis using that by auto
qed

lemma next_free_result:
  "finite existing \<Longrightarrow> numbered c \<Longrightarrow> c \<noteq> [] \<Longrightarrow> \<exists>v. next_free existing c = Inr v \<and> v \<notin> existing \<and> v \<noteq> []"
proof (induction existing c rule: next_free.induct)
  case (1 existing c)
  from bump_numbered [OF 1(3)] obtain t where t: "bump_version c = Inr t" "numbered t" "t \<noteq> []" .
  then show ?case
    using 1(1) [OF _ t(1)] 1(2,4) by (cases "c \<in> existing") (simp_all add: next_free.simps [of existing c])
qed

lemma numbered_suffix: "numbered (s @ ''.1'')"
proof -
  have "split_on c (s @ c # u) = split_on c s @ split_on c u" for c u
    by (induction s) (auto split: list.split)
  then show ?thesis by (simp add: numbered_def is_digit_def)
qed

lemma next_version_result:
  assumes "finite existing" "isdigit_text (last (split_on (CHR ''.'') current)) \<longrightarrow> numbered current"
  shows "\<exists>v. next_version existing current = Inr v \<and> v \<notin> existing \<and> v \<noteq> []"
proof (cases "isdigit_text (last (split_on (CHR ''.'') current))")
  case True
  with assms(2) have "numbered current" by simp
  from bump_numbered [OF this] obtain t where t: "bump_version current = Inr t" "numbered t" "t \<noteq> []" .
  then show ?thesis using True next_free_result [OF assms(1) t(2,3)] by (simp add: next_version_def)
next
  case False
  then show ?thesis
    using next_free_result [OF assms(1) numbered_suffix, of current] by (simp add: next_version_def)
qed

text \<open>
  A revision always finds a version. For a stored model, whatever versions of the application exist, the search
  for the next version ends, and the revision is stored as a draft under a version of the application that did not
  exist, with its own digest and no signature; every other model, the revised one included, is as before. The
  hypothesis on the version excludes superscript digits, which the code takes for numbers and fails to read.
\<close>

theorem revision_finds_a_version:
  assumes "dict_get st (am_app_id m, am_version m) = Some e" "am_app_id m \<noteq> []" "am_states m \<noteq> []"
    and "isdigit_text (last (split_on (CHR ''.'') (am_version m))) \<longrightarrow> numbered (am_version m)"
  shows "\<exists>m'. revise_model sha fr m None st = (Inr m', model_put m' st) \<and> am_version m' \<notin> versions_of (am_app_id m) st \<and>
     am_app_id m' = am_app_id m \<and> am_status m' = MODEL_DRAFT \<and> am_signature m' = None \<and> am_digest m' = content_digest sha fr m' \<and>
     am_transitions m' = am_transitions m \<and>
     (\<forall>k. k \<noteq> (am_app_id m, am_version m') \<longrightarrow> dict_get (model_put m' st) k = dict_get st k)"
proof -
  have "finite (versions_of (am_app_id m) st)" by (simp add: versions_of_def)
  from next_version_result [OF this assms(4)] obtain v where v: "next_version (versions_of (am_app_id m) st) (am_version m) = Inr v"
    "v \<notin> versions_of (am_app_id m) st" "v \<noteq> []" by blast
  let ?m = "m\<lparr>am_version := v, am_status := MODEL_DRAFT, am_signature := None\<rparr>"
  have "revise_model sha fr m None st = (Inr (?m\<lparr>am_digest := content_digest sha fr ?m\<rparr>), model_put (?m\<lparr>am_digest := content_digest sha fr ?m\<rparr>) st)"
    using assms(1-3) v by (simp add: revise_model_def model_simps guard_def AppModel_check_def content_digest_def content_payload_def)
  then show ?thesis using v by (auto simp: get_put)
qed

text \<open>A superscript digit at the end of a version makes a revision raise.\<close>

lemma superscript_version_raises: "\<exists>e. next_version {} [CHR 0xB2] = Inl (ValueError e)"
  by (simp add: next_version_def isdigit_text_def bump_version_def int_of_text_def is_digit_def)

section \<open>The builder\<close>

datatype builder_call = ImportModel "(string \<times> model_importer) list" string pydict | RegisterProposed app_model
  | BuilderValidate string string "app_model option" | BuilderSign "(string \<Rightarrow> string result) option" string string

fun builder_apply :: "builder_call \<Rightarrow> (builder, app_model) cmd" where
  "builder_apply (ImportModel importers source data) = import_model importers source data"
| "builder_apply (RegisterProposed m) = register_proposed m"
| "builder_apply (BuilderValidate a role corrections) = builder_validate a role corrections"
| "builder_apply (BuilderSign signer a role) = builder_sign signer a role"

definition imported :: "(string \<times> model_importer) list \<Rightarrow> string \<Rightarrow> pydict \<Rightarrow> app_model \<Rightarrow> bool" where
  "imported importers source data m \<longleftrightarrow> (\<exists>to_draft. dict_get importers source = Some to_draft \<and> to_draft data = Inr m)"

fun imports_drafts :: "builder_call \<Rightarrow> bool" where
  "imports_drafts (ImportModel importers source data) \<longleftrightarrow>
     (\<forall>m. imported importers source data m \<longrightarrow> am_status m \<in> {MODEL_DRAFT, LLM_PROPOSED})"
| "imports_drafts _ \<longleftrightarrow> True"

fun builder_registers :: "string \<Rightarrow> builder_call \<Rightarrow> bool" where
  "builder_registers a (ImportModel importers source data) \<longleftrightarrow> (\<exists>m. imported importers source data m \<and> am_app_id m = a)"
| "builder_registers a (RegisterProposed m) \<longleftrightarrow> am_app_id m = a"
| "builder_registers a _ \<longleftrightarrow> False"

definition builder_justified :: "string \<Rightarrow> builder_call list \<Rightarrow> app_model \<Rightarrow> bool" where
  "builder_justified a calls m \<longleftrightarrow> am_app_id m = a \<and>
     (am_status m \<in> {HUMAN_VALIDATED, MODEL_SIGNED} \<longrightarrow> (\<exists>corrections. BuilderValidate a ''human'' corrections \<in> set calls)) \<and>
     (am_status m = MODEL_SIGNED \<longrightarrow> (\<exists>signer sig. BuilderSign (Some signer) a ''human'' \<in> set calls \<and>
        signer (am_digest m) = Inr sig \<and> am_signature m = Some sig)) \<and>
     am_status m \<in> {MODEL_DRAFT, LLM_PROPOSED, HUMAN_VALIDATED, MODEL_SIGNED}"

lemma builder_human_Inr [simp]: "builder_require_human role = Inr u \<longleftrightarrow> role = ''human''"
  by (auto simp: builder_require_human_def)

lemma builder_check_Inr [simp]: "builder_check_transition s t = Inr u \<longleftrightarrow> t \<in> VALID_MODEL_TRANSITIONS s"
  by (auto simp: builder_check_transition_def can_model_transition_def guard_def)

lemma builder_get_bind:
  "bindC (builder_get a) f st =
     (case dict_get st a of None \<Rightarrow> (Inl (ModelNotFoundError (''app model not found: '' @ a)), st) | Some m \<Rightarrow> f m st)"
  by (simp add: bindC_def builder_get_def split: option.split)

lemmas builder_simps = builder_get_bind lift_bindC builder_keep_def Let_def

lemma builder_validate_effect:
  "snd (builder_validate a role corrections st) = st \<or>
     (\<exists>m. role = ''human'' \<and> dict_get st a = Some m \<and> am_status m \<in> {MODEL_DRAFT, LLM_PROPOSED} \<and>
        snd (builder_validate a role corrections st) =
          dict_set a ((case corrections of Some c \<Rightarrow> c | None \<Rightarrow> m)\<lparr>am_app_id := a, am_status := HUMAN_VALIDATED\<rparr>) st)"
  by (auto simp: builder_validate_def builder_simps split: option.splits sum.splits)

lemma builder_sign_effect:
  "snd (builder_sign signer a role st) = st \<or>
     (\<exists>m sign sig. role = ''human'' \<and> signer = Some sign \<and> dict_get st a = Some m \<and> am_status m = HUMAN_VALIDATED \<and>
        sign (am_digest m) = Inr sig \<and>
        snd (builder_sign signer a role st) = dict_set a (m\<lparr>am_status := MODEL_SIGNED, am_signature := Some sig\<rparr>) st)"
  by (auto simp: builder_sign_def builder_simps split: option.splits sum.splits)

lemma import_effect:
  "snd (import_model importers source data st) = st \<and> (\<nexists>m. imported importers source data m) \<or>
     (\<exists>m. imported importers source data m \<and> snd (import_model importers source data st) = dict_set (am_app_id m) m st)"
  by (auto simp: import_model_def imported_def builder_simps split: option.splits sum.splits)

lemma builder_later: "builder_justified a calls m \<Longrightarrow> builder_justified a (c # calls) m"
  by (auto simp: builder_justified_def)

lemma builder_put:
  assumes "dict_get (dict_set a m st) k = Some v" "\<And>v. dict_get st k = Some v \<Longrightarrow> builder_justified k calls v"
    and "k = a \<Longrightarrow> builder_justified k (c # calls) m"
  shows "builder_justified k (c # calls) v"
  using assms builder_later by (auto split: if_splits)

lemma builder_create:
  assumes "dict_get (dict_set (am_app_id m) m st) k = Some v" "\<And>v. dict_get st k = Some v \<Longrightarrow> builder_justified k calls v"
    and "am_status m \<in> {MODEL_DRAFT, LLM_PROPOSED}"
  shows "builder_justified k (if k = am_app_id m then [] else c # calls) v"
proof (cases "k = am_app_id m")
  case True
  then show ?thesis using assms(1,3) by (auto simp: builder_justified_def)
qed (use assms(1,2) builder_later in auto)

lemma builder_step_justified:
  assumes c: "imports_drafts c" and old: "\<And>k v. dict_get st k = Some v \<Longrightarrow> builder_justified k (past k) v"
    and get: "dict_get (snd (builder_apply c st)) k = Some v"
  shows "builder_justified k (if builder_registers k c then [] else c # past k) v"
proof (cases c)
  case (ImportModel importers source data)
  from import_effect [of importers source data st] show ?thesis
  proof (elim disjE exE conjE)
    fix m
    assume m: "imported importers source data m" and put: "snd (import_model importers source data st) = dict_set (am_app_id m) m st"
    then have "builder_registers k c \<longleftrightarrow> k = am_app_id m" by (auto simp: ImportModel imported_def)
    moreover have "am_status m \<in> {MODEL_DRAFT, LLM_PROPOSED}" using c m by (simp add: ImportModel)
    ultimately show ?thesis
      using builder_create [OF get [unfolded ImportModel builder_apply.simps put] old, of c] by simp
  qed (use get old builder_later in \<open>simp add: ImportModel\<close>)
next
  case (RegisterProposed m)
  then show ?thesis
    using builder_create [of "m\<lparr>am_status := LLM_PROPOSED\<rparr>" st k v "past k" c] get old
    by (simp add: register_proposed_def builder_keep_def eq_commute)
next
  case (BuilderValidate a role corrections)
  from builder_validate_effect [of a role corrections st] show ?thesis
  proof (elim disjE exE conjE)
    fix m
    assume m: "role = ''human''" "dict_get st a = Some m"
      and put: "snd (builder_validate a role corrections st) =
        dict_set a ((case corrections of Some c \<Rightarrow> c | None \<Rightarrow> m)\<lparr>am_app_id := a, am_status := HUMAN_VALIDATED\<rparr>) st"
    have "builder_justified k (c # past k) v"
      by (rule builder_put [OF get [unfolded BuilderValidate builder_apply.simps put] old])
        (use m(1) in \<open>auto simp: BuilderValidate builder_justified_def\<close>)
    then show ?thesis by (simp add: BuilderValidate)
  qed (use get old builder_later in \<open>simp add: BuilderValidate\<close>)
next
  case (BuilderSign signer a role)
  from builder_sign_effect [of signer a role st] show ?thesis
  proof (elim disjE exE conjE)
    fix m sign sig
    assume m: "role = ''human''" "signer = Some sign" "dict_get st a = Some m" "am_status m = HUMAN_VALIDATED" "sign (am_digest m) = Inr sig"
      and put: "snd (builder_sign signer a role st) = dict_set a (m\<lparr>am_status := MODEL_SIGNED, am_signature := Some sig\<rparr>) st"
    have "builder_justified k (c # past k) v"
      by (rule builder_put [OF get [unfolded BuilderSign builder_apply.simps put] old])
        (use m old [OF m(3)] in \<open>auto simp: BuilderSign builder_justified_def\<close>)
    then show ?thesis by (simp add: BuilderSign)
  qed (use get old builder_later in \<open>simp add: BuilderSign\<close>)
qed

interpretation builder: provenance "\<lambda>c st. snd (builder_apply c st)" map_of "[]" imports_drafts builder_registers builder_justified
proof unfold_locales
qed (simp, erule builder_later, rule builder_step_justified)

lemma builder_signatures_by_humans:
  assumes "list_all imports_drafts calls" "dict_get (after (\<lambda>c st. snd (builder_apply c st)) [] calls) a = Some m" "am_status m = MODEL_SIGNED"
  shows "\<exists>signer sig. BuilderSign (Some signer) a ''human'' \<in> set (since (builder_registers a) calls) \<and>
     signer (am_digest m) = Inr sig \<and> am_signature m = Some sig"
  using builder.history [OF assms(1,2)] assms(3) by (auto simp: builder_justified_def)

text \<open>The importers that are wired give drafts.\<close>

lemma importers_give_drafts:
  "imports_drafts (ImportModel [(''openapi'', openapi_to_draft sha fr), (''postman'', postman_to_draft sha fr)] source data)"
  by (auto simp: imported_def openapi_to_draft_def postman_to_draft_def fresh_model_def AppModel_check_def Let_def bind_res_Inr_iff
      split: if_splits prod.splits)

text \<open>Corrections written for another application keep the digest of that application's content, which is then signed.\<close>

lemma corrections_keep_stale_digest:
  assumes "dict_get st a = Some e" "am_status e = MODEL_DRAFT" "am_digest m = content_digest sha fr m"
  shows "\<exists>m'. fst (builder_validate a ''human'' (Some m) st) = Inr m' \<and> am_app_id m' = a \<and> am_digest m' = content_digest sha fr m"
  using assms by (simp add: builder_validate_def builder_simps builder_require_human_def builder_check_transition_def can_model_transition_def guard_def)

section \<open>Published versions\<close>

datatype registry_call = PublishModel app_model | SnapshotFor string string

fun registry_apply :: "registry_call \<Rightarrow> model_registry \<Rightarrow> model_registry" where
  "registry_apply (PublishModel m) r = snd (publish_model m r)"
| "registry_apply (SnapshotFor i a) r = snd (snapshot_for_assessment i a r)"

definition registry_after :: "registry_call list \<Rightarrow> model_registry" where
  "registry_after = after registry_apply \<lparr>mr_history = [], mr_snapshots = []\<rparr>"

text \<open>The specification: the signed models published for an application, in order.\<close>

definition published :: "string \<Rightarrow> registry_call list \<Rightarrow> app_model list" where
  "published a calls = List.map_filter (\<lambda>c. case c of
     PublishModel m \<Rightarrow> if am_app_id m = a \<and> am_status m = MODEL_SIGNED then Some m else None | _ \<Rightarrow> None) calls"

definition as_history :: "app_model list \<Rightarrow> app_model list" where
  "as_history ms = (if ms = [] then [] else
     map (\<lambda>m. m\<lparr>am_status := SUPERSEDED\<rparr>) (butlast ms) @ [(last ms)\<lparr>am_status := MODEL_PUBLISHED\<rparr>])"

lemma published_snoc:
  "published a (calls @ [c]) = published a calls @ (case c of
     PublishModel m \<Rightarrow> if am_app_id m = a \<and> am_status m = MODEL_SIGNED then [m] else [] | _ \<Rightarrow> [])"
  by (auto simp: published_def map_filter_def split: registry_call.split)

lemma supersede_history: "map supersede (as_history ms) = map (\<lambda>m. m\<lparr>am_status := SUPERSEDED\<rparr>) ms"
  by (cases ms rule: rev_cases) (simp_all add: as_history_def supersede_def)

lemma as_history_snoc: "as_history (ms @ [m]) = map supersede (as_history ms) @ [m\<lparr>am_status := MODEL_PUBLISHED\<rparr>]"
  by (simp add: supersede_history) (simp add: as_history_def)

lemma snapshot_history [simp]: "mr_history (snd (snapshot_for_assessment i a r)) = mr_history r"
  by (simp add: snapshot_for_assessment_def current_model_def bindC_def Let_def split: option.split)

lemma publish_history:
  "history_of (snd (publish_model m r)) a =
     (if am_status m = MODEL_SIGNED \<and> am_app_id m = a then map supersede (history_of r a) @ [m\<lparr>am_status := MODEL_PUBLISHED\<rparr>]
      else history_of r a)"
  by (auto simp: publish_model_def history_of_def Let_def)

lemma history_refines: "history_of (registry_after calls) a = as_history (published a calls)"
proof (induction calls rule: rev_induct)
  case (snoc c calls)
  then show ?case
  proof (cases c)
    case (PublishModel m)
    then show ?thesis
      using snoc by (simp add: registry_after_def published_snoc publish_history as_history_snoc)
  next
    case (SnapshotFor i b)
    then show ?thesis using snoc by (simp add: registry_after_def published_snoc history_of_def)
  qed
qed (simp add: registry_after_def published_def map_filter_def history_of_def as_history_def)

text \<open>
  The registry refines the list of what was published. After every history of publications and snapshots, the
  versions of an application are exactly the signed models that were published for it, in order and none
  missing, all superseded but the last, which is the current one; a model that is not signed leaves no trace.
\<close>

theorem registry_keeps_every_version:
  "history_of (registry_after calls) a = as_history (published a calls) \<and>
   fst (current_model a (registry_after calls)) =
     (if published a calls = [] then Inl (ModelNotFoundError (''no published model for app_id='' @ a))
      else Inr ((last (published a calls))\<lparr>am_status := MODEL_PUBLISHED\<rparr>))"
  by (simp add: current_model_def history_refines as_history_def)

text \<open>
  A version can be published twice with different content, and a snapshot taken again has the same name: the snapshot
  an assessment was pinned to changes.
\<close>

lemma snapshot_repinned:
  assumes "am_status m1 = MODEL_SIGNED" "am_status m2 = MODEL_SIGNED" "am_app_id m1 = a" "am_app_id m2 = a" "am_version m1 = am_version m2"
    and "s = ''appmodel-snap:'' @ i @ '':'' @ a @ '':'' @ am_version m1"
  shows "fst (get_model_snapshot s (registry_after [PublishModel m1, SnapshotFor i a])) = Inr (m1\<lparr>am_status := MODEL_PUBLISHED\<rparr>) \<and>
     fst (get_model_snapshot s (registry_after [PublishModel m1, SnapshotFor i a, PublishModel m2, SnapshotFor i a])) = Inr (m2\<lparr>am_status := MODEL_PUBLISHED\<rparr>)"
  using assms by (simp add: registry_after_def after_def publish_model_def snapshot_for_assessment_def current_model_def history_of_def
      get_model_snapshot_def bindC_def Let_def)

section \<open>Witnesses\<close>

definition sample_model :: app_model where
  "sample_model = (fresh_model ''shop'' ''1.0'' [''cart'', ''paid''] [] [] MODEL_DRAFT)
     \<lparr>am_digest := content_digest id (\<lambda>_. []) (fresh_model ''shop'' ''1.0'' [''cart'', ''paid''] [] [] MODEL_DRAFT)\<rparr>"

definition sample_model_calls :: "model_call list" where
  "sample_model_calls = [CreateModel sample_model True, ValidateModel ''shop'' ''1.0'' ''human'',
     SignModel ''shop'' ''1.0'' (\<lambda>d. Inr ''sig'') ''human'']"

lemma sample_model_facts [simp]:
  "am_app_id sample_model = ''shop''" "am_version sample_model = ''1.0''" "am_states sample_model = [''cart'', ''paid'']"
  "am_digest sample_model = content_digest id (\<lambda>_. []) sample_model"
  by (simp_all add: sample_model_def) (simp_all add: fresh_model_def)

lemma sample_model_signed:
  "dict_get (models_after id (\<lambda>_. []) sample_model_calls) (''shop'', ''1.0'') =
     Some (sample_model\<lparr>am_status := MODEL_SIGNED, am_signature := Some ''sig''\<rparr>)"
  by (simp add: models_after_def after_def sample_model_calls_def create_model_def validate_model_def model_transition_to_def
      sign_model_def model_simps model_require_human_def model_check_transition_def can_model_transition_def guard_def)

theorem signed_models_are_validated_witness:
  "ValidateModel ''shop'' ''1.0'' ''human'' \<in> set (since (registers (''shop'', ''1.0'')) sample_model_calls)"
  using signed_models_are_validated [OF sample_model_signed] by simp

theorem revision_finds_a_version_witness:
  "\<exists>m'. revise_model id (\<lambda>_. []) sample_model None [((''shop'', ''1.0''), sample_model)] =
     (Inr m', model_put m' [((''shop'', ''1.0''), sample_model)])"
  using revision_finds_a_version [of "[((''shop'', ''1.0''), sample_model)]" sample_model sample_model id "\<lambda>_. []"]
  by (auto simp: numbered_def is_digit_def)

end
