(* ===== verification/Floats.thy ===== *)
theory Floats
  imports Prelude "HOL-Library.Log_Nat"
begin

text \<open>
  The floats of Python: doubles, as the rationals they stand for. A real result is rounded to 53 bits, half to even, with
  gradual underflow; beyond the largest double it is an infinity. Zero has no sign here. In a decoded document a float is
  its numeral, and the three that are no numbers are \<^verbatim>\<open>inf\<close>, \<^verbatim>\<open>-inf\<close> and \<^verbatim>\<open>nan\<close>.
\<close>

section \<open>Rounding\<close>

definition pow2 :: "int \<Rightarrow> rat" where
  "pow2 k = (if 0 \<le> k then 2 ^ nat k else 1 / 2 ^ nat (- k))"

text \<open>The largest exponent whose power is not above a positive number.\<close>

definition log2_floor :: "rat \<Rightarrow> int" where
  "log2_floor x =
     (case quotient_of x of (n, d) \<Rightarrow> let k = bitlen n - bitlen d in if pow2 k \<le> x then k else k - 1)"

definition half_even :: "rat \<Rightarrow> int" where
  "half_even x =
     (let n = \<lfloor>x\<rfloor>; r = x - of_int n in if r < 1 / 2 then n else if 1 / 2 < r then n + 1 else if even n then n else n + 1)"

text \<open>The exponent of the last bit of the doubles around a number.\<close>

definition ulp_exp :: "rat \<Rightarrow> int" where
  "ulp_exp x = max (log2_floor \<bar>x\<bar> - 52) (- 1074)"

definition round_double :: "rat \<Rightarrow> rat" where
  "round_double x = (if x = 0 then 0 else of_int (half_even (x / pow2 (ulp_exp x))) * pow2 (ulp_exp x))"

definition DOUBLE_LIMIT :: rat where
  "DOUBLE_LIMIT = 2 ^ 1024"

lemma DOUBLE_LIMIT_code [code]: "DOUBLE_LIMIT = of_int ((2 ^ 32) ^ 32)"
  by (simp add: DOUBLE_LIMIT_def)

text \<open>\<^verbatim>\<open>int\<close> of a float truncates towards zero.\<close>

definition int_of_float :: "rat \<Rightarrow> int" where
  "int_of_float q = (if q < 0 then \<lceil>q\<rceil> else \<lfloor>q\<rfloor>)"

text \<open>\<^verbatim>\<open>int\<close> of a float given by its numeral; \<open>num\<close> reads the numeral of a number.\<close>

definition int_of_numeral :: "(string \<Rightarrow> rat) \<Rightarrow> string \<Rightarrow> int result" where
  "int_of_numeral num s =
     (if s \<in> {''inf'', ''-inf''} then Inl (OverflowError ''cannot convert float infinity to integer'')
      else if s = ''nan'' then Inl (ValueError ''cannot convert float NaN to integer'')
      else Inr (int_of_float (num s)))"

section \<open>Rounding is monotone and keeps integers\<close>

lemma pow2_pos [simp]: "0 < pow2 k" "pow2 k \<noteq> 0" "0 \<le> pow2 k"
  by (simp_all add: pow2_def)

lemma pow2_powi: "pow2 k = 2 powi k"
  by (simp add: pow2_def power_int_def field_simps)

lemma pow2_add: "pow2 (j + k) = pow2 j * pow2 k"
  by (simp add: pow2_powi power_int_add)

lemma pow2_mono: "j \<le> k \<Longrightarrow> pow2 j \<le> pow2 k"
  by (simp add: pow2_powi power_int_increasing)

lemma pow2_nat: "0 \<le> k \<Longrightarrow> pow2 k = of_int (2 ^ nat k)"
  by (simp add: pow2_def)

lemma log2_floor_bounds:
  assumes "0 < x"
  shows "pow2 (log2_floor x) \<le> x" "x < pow2 (log2_floor x + 1)"
proof -
  obtain n d where q: "quotient_of x = (n, d)" by (cases "quotient_of x")
  have d: "0 < d" and x: "x = of_int n / of_int d"
    using quotient_of_denom_pos [OF q] quotient_of_div [OF q] by simp_all
  with assms have n: "0 < n" by (simp add: zero_less_divide_iff)
  let ?k = "bitlen n - bitlen d"
  have b: "2 ^ nat (bitlen i - 1) \<le> i \<and> i < 2 ^ nat (bitlen i)" if "0 < i" for i :: int
    using bitlen_bounds [OF that] by simp
  have p: "1 \<le> bitlen i" if "0 < i" for i :: int using that bitlen_eq_zero_iff [of i] bitlen_nonneg [of i] by simp
  have lo: "pow2 (bitlen i - 1) \<le> of_int i" and hi: "of_int i < pow2 (bitlen i)" if "0 < i" for i :: int
  proof -
    have "(of_int (2 ^ nat (bitlen i - 1)) :: rat) \<le> of_int i" using b [OF that] by (simp only: of_int_le_iff)
    then show "pow2 (bitlen i - 1) \<le> of_int i" using p [OF that] by (simp only: pow2_nat)
    have "(of_int i :: rat) < of_int (2 ^ nat (bitlen i))" using b [OF that] by (simp only: of_int_less_iff)
    then show "of_int i < pow2 (bitlen i)" using p [OF that] by (simp only: pow2_nat)
  qed
  have "pow2 (?k - 1) * pow2 (bitlen d) \<le> of_int n"
    using lo [OF n] by (simp add: pow2_add [symmetric])
  moreover have "pow2 (?k - 1) * of_int d \<le> pow2 (?k - 1) * pow2 (bitlen d)"
    using hi [OF d] mult_left_mono [of "of_int d" "pow2 (bitlen d)" "pow2 (?k - 1)"] by simp
  ultimately have "pow2 (?k - 1) * of_int d \<le> of_int n" by (meson order.trans)
  then have l: "pow2 (?k - 1) \<le> x" using d by (simp add: x pos_le_divide_eq)
  have "of_int n < pow2 (?k + 1) * pow2 (bitlen d - 1)"
    using hi [OF n] by (simp add: pow2_add [symmetric])
  moreover have "pow2 (?k + 1) * pow2 (bitlen d - 1) \<le> pow2 (?k + 1) * of_int d"
    using lo [OF d] by (intro mult_left_mono) simp_all
  ultimately have "of_int n < pow2 (?k + 1) * of_int d" by (meson less_le_trans)
  then have h: "x < pow2 (?k + 1)" using d by (simp add: x pos_divide_less_eq)
  show "pow2 (log2_floor x) \<le> x" "x < pow2 (log2_floor x + 1)"
    using l h by (auto simp: log2_floor_def q Let_def)
qed

lemma log2_floor_mono:
  assumes "0 < x" "x \<le> y"
  shows "log2_floor x \<le> log2_floor y"
proof (rule ccontr)
  assume "\<not> ?thesis"
  then have "pow2 (log2_floor y + 1) \<le> pow2 (log2_floor x)" by (intro pow2_mono) simp
  then show False using log2_floor_bounds(1) [OF assms(1)] log2_floor_bounds(2) [of y] assms by linarith
qed

lemma half_even_int [simp]: "half_even (of_int n) = n"
  by (simp add: half_even_def)

lemma half_even_near: "of_int (half_even x) \<le> x + 1 / 2" "x - 1 / 2 \<le> of_int (half_even x)"
  by (simp_all add: half_even_def Let_def) linarith+

lemma half_even_mono:
  assumes "x \<le> y"
  shows "half_even x \<le> half_even y"
proof (cases "\<lfloor>x\<rfloor> = \<lfloor>y\<rfloor>")
  case False
  with assms have "\<lfloor>x\<rfloor> + 1 \<le> \<lfloor>y\<rfloor>" using floor_mono [OF assms] by simp
  moreover have "half_even x \<le> \<lfloor>x\<rfloor> + 1" "\<lfloor>y\<rfloor> \<le> half_even y" by (simp_all add: half_even_def Let_def)
  ultimately show ?thesis by simp
qed (use assms in \<open>auto simp: half_even_def Let_def\<close>)

lemma half_even_minus: "half_even (- x) = - half_even x"
proof (cases "x = of_int \<lfloor>x\<rfloor>")
  case True
  then have "half_even (- x) = half_even (of_int (- \<lfloor>x\<rfloor>))" by (metis of_int_minus)
  also have "\<dots> = - half_even x" using True half_even_int by metis
  finally show ?thesis .
next
  case False
  then have f: "\<lfloor>- x\<rfloor> = - \<lfloor>x\<rfloor> - 1" by (smt (verit, best) ceiling_altdef floor_minus)
  show ?thesis unfolding half_even_def f Let_def by (simp add: field_simps)
qed

lemma round_double_minus [simp]: "round_double (- x) = - round_double x"
  by (simp add: round_double_def ulp_exp_def half_even_minus)

lemma round_double_pos:
  assumes "0 < x" "x \<le> y"
  shows "round_double x \<le> round_double y"
proof (cases "ulp_exp x = ulp_exp y")
  case True
  have "x / pow2 (ulp_exp y) \<le> y / pow2 (ulp_exp y)" using assms by (simp add: divide_right_mono)
  from half_even_mono [OF this] show ?thesis using assms True by (simp add: round_double_def)
next
  case False
  let ?i = "ulp_exp x" and ?j = "ulp_exp y"
  have y: "0 < y" using assms by simp
  have ij: "?i < ?j" "?j = log2_floor y - 52" "log2_floor x - 52 \<le> ?i"
    using False log2_floor_mono [OF assms] assms y by (auto simp: ulp_exp_def)
  have "x \<le> pow2 (?i + 53)"
    using log2_floor_bounds(2) [OF assms(1)] pow2_mono [of "log2_floor x + 1" "?i + 53"] ij(3) by linarith
  then have "x / pow2 ?i \<le> of_int (2 ^ 53)" by (simp add: pow2_add pos_divide_le_eq mult.commute pow2_def [of 53])
  from half_even_mono [OF this] have "half_even (x / pow2 ?i) \<le> 2 ^ 53" by (simp only: half_even_int)
  then have "(of_int (half_even (x / pow2 ?i)) :: rat) \<le> 2 ^ 53" by (metis of_int_le_iff of_int_numeral of_int_power)
  then have "round_double x \<le> 2 ^ 53 * pow2 ?i" using assms(1) by (simp add: round_double_def)
  also have "\<dots> = pow2 (?i + 53)" by (simp add: pow2_add pow2_def [of 53])
  also have "\<dots> \<le> pow2 (?j + 52)" using ij(1) by (intro pow2_mono) simp
  also have "\<dots> \<le> round_double y"
  proof -
    have "pow2 (?j + 52) \<le> y" using log2_floor_bounds(1) [OF y] ij(2) by simp
    then have "of_int (2 ^ 52) \<le> y / pow2 ?j" by (simp add: pow2_add pos_le_divide_eq mult.commute pow2_def [of 52])
    from half_even_mono [OF this] have "2 ^ 52 \<le> half_even (y / pow2 ?j)" by (simp only: half_even_int)
    then have "2 ^ 52 \<le> (of_int (half_even (y / pow2 ?j)) :: rat)" by (metis of_int_le_iff of_int_numeral of_int_power)
    then show ?thesis using y by (simp add: round_double_def pow2_add pow2_def [of 52])
  qed
  finally show ?thesis .
qed

lemma round_double_nonneg: "0 \<le> x \<Longrightarrow> 0 \<le> round_double x"
proof -
  assume "0 \<le> x"
  then have "half_even (of_int 0) \<le> half_even (x / pow2 (ulp_exp x))" by (intro half_even_mono) simp
  then show ?thesis by (simp only: half_even_int) (simp add: round_double_def)
qed

lemma round_double_mono:
  assumes "x \<le> y"
  shows "round_double x \<le> round_double y"
proof (cases "0 < x")
  case False
  show ?thesis
  proof (cases "0 \<le> y")
    case True
    then show ?thesis using False round_double_nonneg [of y] round_double_nonneg [of "- x"] by simp
  next
    case neg: False
    have "round_double (- y) \<le> round_double (- x)" by (rule round_double_pos) (use neg assms in simp_all)
    then show ?thesis by simp
  qed
qed (use assms round_double_pos in blast)

lemma round_double_int:
  assumes "\<bar>n\<bar> \<le> 2 ^ 53"
  shows "round_double (of_int n) = of_int n"
proof -
  have pos: "round_double (of_int k) = of_int k" if k: "0 < k" "k \<le> 2 ^ 53" for k :: int
  proof -
    let ?e = "ulp_exp (of_int k)"
    have l: "log2_floor (of_int k) \<le> 53"
    proof (rule ccontr)
      assume "\<not> ?thesis"
      then have "pow2 54 \<le> pow2 (log2_floor (of_int k))" by (intro pow2_mono) simp
      also have "\<dots> \<le> of_int k" using log2_floor_bounds(1) [of "of_int k"] k by simp
      finally show False using k(2) by (simp add: pow2_nat)
    qed
    have "\<exists>m :: int. (of_int k :: rat) / pow2 ?e = of_int m"
    proof (cases "?e \<le> 0")
      case True
      then have "(of_int k :: rat) / pow2 ?e = of_int (k * 2 ^ nat (- ?e))"
        by (cases "?e = 0") (simp_all add: pow2_def)
      then show ?thesis ..
    next
      case False
      then have e: "?e = 1" "log2_floor (of_int k) = 53" using l k by (auto simp: ulp_exp_def)
      then have "k = 2 ^ 53" using log2_floor_bounds(1) [of "of_int k"] k by (simp add: pow2_nat)
      then have "(of_int k :: rat) / pow2 ?e = of_int (2 ^ 52)" using e(1) by (simp add: pow2_def)
      then show ?thesis ..
    qed
    then obtain m :: int where m: "(of_int k :: rat) / pow2 ?e = of_int m" ..
    then have "(of_int k :: rat) = of_int m * pow2 ?e" by (simp add: nonzero_divide_eq_eq)
    with m k show ?thesis by (simp add: round_double_def)
  qed
  consider "n = 0" | "0 < n" | "n < 0" by linarith
  then show ?thesis
  proof cases
    case 3
    then show ?thesis using pos [of "- n"] assms by simp
  qed (use pos [of n] assms in \<open>simp_all add: round_double_def\<close>)
qed

text \<open>One less and one more than a float below \<open>2\<^sup>5\<^sup>3\<close> in size are a float below and above it.\<close>

lemma round_double_below:
  assumes "\<bar>q\<bar> < 2 ^ 53"
  obtains n where "round_double (q - 1) \<le> of_int n" "of_int n < q" "\<bar>n\<bar> \<le> 2 ^ 53"
proof
  let ?n = "\<lceil>q\<rceil> - 1"
  show n: "of_int ?n < q" using ceiling_correct [of q] by simp
  show le: "\<bar>?n\<bar> \<le> 2 ^ 53" using assms by (simp add: abs_le_iff) linarith
  have "q - 1 \<le> of_int ?n" by simp
  from round_double_mono [OF this] show "round_double (q - 1) \<le> of_int ?n" by (simp only: round_double_int [OF le])
qed

lemma round_double_above:
  assumes "\<bar>q\<bar> < 2 ^ 53"
  obtains n where "of_int n \<le> round_double (q + 1)" "q < of_int n" "\<bar>n\<bar> \<le> 2 ^ 53"
proof -
  obtain n where n: "round_double (- q - 1) \<le> of_int n" "of_int n < - q" "\<bar>n\<bar> \<le> 2 ^ 53"
    using round_double_below [of "- q"] assms by auto
  have "round_double (- q - 1) = - round_double (q + 1)" using round_double_minus [of "q + 1"] by simp
  with n that [of "- n"] show thesis by simp
qed

lemma int_of_float_below: "q \<le> of_int n \<Longrightarrow> int_of_float q \<le> n"
  by (simp add: int_of_float_def) linarith

lemma int_of_float_above: "of_int n \<le> q \<Longrightarrow> n \<le> int_of_float q"
  by (simp add: int_of_float_def) linarith

end
