(* ===== verification/Logic_Tests.thy ===== *)
theory Logic_Tests
  imports App_Models Orchestration Floats
begin

text \<open>
  Logic tests derived from an application model (\<^verbatim>\<open>domain/appmodel/logic.py\<close>, \<^verbatim>\<open>infrastructure/logic_strategies\<close>,
  \<^verbatim>\<open>application/logic_generator.py\<close>) and the planner (\<^verbatim>\<open>application/planner.py\<close>), which makes a plan of the required test
  classes and these tests. Floats are doubles: the value of a numeral is rounded, and so is the result of an addition.
\<close>

section \<open>Test cases\<close>

datatype logic_test_class = SKIP_STEP | OUT_OF_ORDER | REPLAY | BOUNDARY | INVARIANT_VIOLATION

fun logic_class_value :: "logic_test_class \<Rightarrow> string" where
  "logic_class_value SKIP_STEP = ''skip_step''"
| "logic_class_value OUT_OF_ORDER = ''out_of_order''"
| "logic_class_value REPLAY = ''replay''"
| "logic_class_value BOUNDARY = ''boundary''"
| "logic_class_value INVARIANT_VIOLATION = ''invariant_violation''"

record logic_test_case =
  lt_class :: logic_test_class
  lt_app_model_digest :: string
  lt_target :: string
  lt_description :: string
  lt_inputs :: "(string \<times> bound_value) list"
  lt_signature :: string

definition LogicTestCase_check :: "logic_test_case \<Rightarrow> logic_test_case result" where
  "LogicTestCase_check c =
     (if lt_app_model_digest c = [] then Inl (DomainValidationError ''LogicTestCase.app_model_digest must be non-empty'')
      else if lt_target c = [] then Inl (DomainValidationError ''LogicTestCase.target must be non-empty'')
      else Inr c)"

definition signature_payload :: "string \<Rightarrow> logic_test_class \<Rightarrow> string \<Rightarrow> string \<Rightarrow> string" where
  "signature_payload digest cls strategy target = join ''|'' [digest, logic_class_value cls, strategy, target]"

definition compute_signature :: "(string \<Rightarrow> string) \<Rightarrow> string \<Rightarrow> logic_test_class \<Rightarrow> string \<Rightarrow> string \<Rightarrow> string" where
  "compute_signature sha digest cls strategy target = ''sha256:'' @ sha (signature_payload digest cls strategy target)"

definition STRATEGY_VERSION :: string where
  "STRATEGY_VERSION = ''1.0.0''"

definition logic_case ::
  "(string \<Rightarrow> string) \<Rightarrow> app_model \<Rightarrow> logic_test_class \<Rightarrow> string \<Rightarrow> string \<Rightarrow> (string \<times> bound_value) list \<Rightarrow> logic_test_case result" where
  "logic_case sha m cls target description inputs = LogicTestCase_check
     \<lparr>lt_class = cls, lt_app_model_digest = am_digest m, lt_target = target, lt_description = description, lt_inputs = inputs,
      lt_signature = compute_signature sha (am_digest m) cls STRATEGY_VERSION target\<rparr>"

section \<open>Sequences\<close>

definition replay_cases :: "(string \<Rightarrow> string) \<Rightarrow> app_model \<Rightarrow> logic_test_case list result" where
  "replay_cases sha m = map_res (\<lambda>t.
     logic_case sha m REPLAY (tr_id t) (''replay non-idempotent transition '' @ tr_endpoint t @ '' twice'')
       [(''repeat_endpoint'', BOther (VStr (tr_endpoint t))), (''times'', BInt 2)])
     (filter (\<lambda>t. \<not> tr_idempotent t) (am_transitions m))"

definition adjacent_pairs :: "app_model \<Rightarrow> (model_transition \<times> model_transition) list" where
  "adjacent_pairs m = filter (\<lambda>(t1, t2). tr_id t1 \<noteq> tr_id t2 \<and> tr_to_state t1 = tr_from_state t2)
     (List.product (am_transitions m) (am_transitions m))"

definition skip_step_cases :: "(string \<Rightarrow> string) \<Rightarrow> app_model \<Rightarrow> logic_test_case list result" where
  "skip_step_cases sha m = map_res (\<lambda>(t1, t2).
     logic_case sha m SKIP_STEP (tr_id t1 @ ''->'' @ tr_id t2) (''skip '' @ tr_endpoint t1 @ '': call '' @ tr_endpoint t2 @ '' directly'')
       [(''call'', BOther (VStr (tr_endpoint t2))), (''skip'', BOther (VStr (tr_endpoint t1)))])
     (adjacent_pairs m)"

definition out_of_order_cases :: "(string \<Rightarrow> string) \<Rightarrow> app_model \<Rightarrow> logic_test_case list result" where
  "out_of_order_cases sha m = map_res (\<lambda>(t1, t2).
     logic_case sha m OUT_OF_ORDER (tr_id t2 @ ''->'' @ tr_id t1) (''call '' @ tr_endpoint t2 @ '' before prerequisite '' @ tr_endpoint t1)
       [(''order'', BOther (VStrs [tr_endpoint t2, tr_endpoint t1]))])
     (adjacent_pairs m)"

definition restler_generate :: "(string \<Rightarrow> string) \<Rightarrow> app_model \<Rightarrow> logic_test_case list result" where
  "restler_generate sha m =
     bind_res (replay_cases sha m) (\<lambda>rs. bind_res (skip_step_cases sha m) (\<lambda>ss. bind_res (out_of_order_cases sha m) (\<lambda>os.
       Inr (rs @ ss @ os))))"

section \<open>Boundaries\<close>

fun bound_number :: "bound_value \<Rightarrow> rat option" where
  "bound_number (BInt n) = Some (of_int n)"
| "bound_number (BFloat q) = Some q"
| "bound_number (BOther v) = None"

text \<open>The float a real result is rounded to. An infinity is kept by its numeral; adding to it changes nothing.\<close>

definition double_value :: "rat \<Rightarrow> bound_value" where
  "double_value x =
     (let r = round_double x in
      if \<bar>r\<bar> < DOUBLE_LIMIT then BFloat r else BOther (VFloat (if x < 0 then ''-inf'' else ''inf'')))"

fun plus_int :: "int \<Rightarrow> bound_value \<Rightarrow> bound_value" where
  "plus_int d (BInt n) = BInt (n + d)"
| "plus_int d (BFloat q) = double_value (q + of_int d)"
| "plus_int d (BOther v) = BOther v"

text \<open>\<^verbatim>\<open>int\<close> of a number: an infinity and NaN raise.\<close>

fun int_of_bound :: "bound_value \<Rightarrow> bound_value result" where
  "int_of_bound (BFloat q) = Inr (BInt (int_of_float q))"
| "int_of_bound (BOther (VFloat s)) = map_sum id BInt (int_of_numeral (\<lambda>_. 0) s)"
| "int_of_bound v = Inr v"

fun is_number :: "bound_value \<Rightarrow> bool" where
  "is_number (BInt n) = True"
| "is_number (BFloat q) = True"
| "is_number (BOther v) = (case v of VFloat s \<Rightarrow> True | _ \<Rightarrow> False)"

definition shifted :: "bool \<Rightarrow> int \<Rightarrow> bound_value \<Rightarrow> bound_value result" where
  "shifted is_int d v = (if is_int then int_of_bound (plus_int d v) else Inr (plus_int d v))"

definition probe :: "bool \<Rightarrow> string \<Rightarrow> int \<Rightarrow> bound_value \<Rightarrow> (string \<times> bound_value) list result" where
  "probe is_int label d v = (if is_number v then map_sum id (\<lambda>w. [(label, w)]) (shifted is_int d v) else Inr [])"

definition boundary_values :: "model_field \<Rightarrow> (string \<times> bound_value) list result" where
  "boundary_values f =
     (case fd_range f of
        Some [low, high] \<Rightarrow>
          (let is_int = (py_lower (fd_type f) = ''int'') in
           bind_res (probe is_int ''below_low'' (- 1) low) (\<lambda>below.
           bind_res (probe is_int ''above_high'' 1 high) (\<lambda>above. Inr (below @ above))))
      | _ \<Rightarrow> Inr [])"

definition bound_str :: "(rat \<Rightarrow> string) \<Rightarrow> bound_value \<Rightarrow> string" where
  "bound_str fr v = py_str (bound_json fr v)"

definition range_str :: "(rat \<Rightarrow> string) \<Rightarrow> model_field \<Rightarrow> string" where
  "range_str fr f =
     (case fd_range f of None \<Rightarrow> ''None'' | Some vs \<Rightarrow> ''('' @ join '', '' (map (\<lambda>v. py_repr (bound_json fr v)) vs) @ '')'')"

definition boundary_case ::
  "(string \<Rightarrow> string) \<Rightarrow> (rat \<Rightarrow> string) \<Rightarrow> app_model \<Rightarrow> model_field \<Rightarrow> string \<times> bound_value \<Rightarrow> logic_test_case result" where
  "boundary_case sha fr m f = (\<lambda>(label, v).
     logic_case sha m BOUNDARY (fd_name f @ '':'' @ label)
       (''boundary probe '' @ fd_name f @ ''='' @ bound_str fr v @ '' ('' @ label @ '') outside range '' @ range_str fr f)
       [(fd_name f, v)])"

definition schemathesis_generate :: "(string \<Rightarrow> string) \<Rightarrow> (rat \<Rightarrow> string) \<Rightarrow> app_model \<Rightarrow> logic_test_case list result" where
  "schemathesis_generate sha fr m =
     bind_res (map_res (\<lambda>f. bind_res (boundary_values f) (map_res (boundary_case sha fr m f))) (am_fields m)) (\<lambda>css. Inr (concat css))"

section \<open>Invariants\<close>

text \<open>
  The match of \<^verbatim>\<open>_INVARIANT_RE\<close>. No alternative is open after a greedy choice: the classes of the parts are disjoint, and
  a comparison that could end earlier is followed by an equals sign.
\<close>

definition word_char :: "char \<Rightarrow> bool" where
  "word_char c \<longleftrightarrow> is_alnum c \<or> c = CHR ''_'' \<or> c = CHR ''.''"

definition split_op :: "string \<Rightarrow> (string \<times> string) option" where
  "split_op s =
     (case s of
        a # b # cs \<Rightarrow>
          if b = CHR ''='' \<and> a \<in> {CHR ''>'', CHR ''<'', CHR ''=''} then Some ([a, b], cs)
          else if a \<in> {CHR ''>'', CHR ''<''} then Some ([a], b # cs) else None
      | _ \<Rightarrow> None)"

definition decimal_value :: "bool \<Rightarrow> string \<Rightarrow> string \<Rightarrow> rat" where
  "decimal_value neg whole decimals =
     (let v = (of_int (number_of 10 (whole @ decimals)) :: rat) / 10 ^ length decimals in if neg then - v else v)"

text \<open>A numeral and what follows it: an optional sign, digits, and optionally a point with digits.\<close>

definition split_number :: "string \<Rightarrow> (rat \<times> string) option" where
  "split_number s =
     (let neg = starts_with s ''-'';
          body = (if neg then tl s else s);
          whole = takeWhile is_digit body;
          rest = dropWhile is_digit body in
      if whole = [] then None
      else case rest of
        c # cs \<Rightarrow>
          if c = CHR ''.'' \<and> takeWhile is_digit cs \<noteq> [] then
            Some (decimal_value neg whole (takeWhile is_digit cs), dropWhile is_digit cs)
          else Some (decimal_value neg whole [], rest)
      | [] \<Rightarrow> Some (decimal_value neg whole [], []))"

text \<open>The number is read by \<^verbatim>\<open>float\<close>.\<close>

definition match_invariant :: "string \<Rightarrow> (string \<times> string \<times> bound_value) option" where
  "match_invariant s =
     (let s1 = dropWhile is_space s;
          lhs = takeWhile word_char s1;
          s2 = dropWhile is_space (dropWhile word_char s1) in
      if lhs = [] then None
      else case split_op s2 of
        None \<Rightarrow> None
      | Some (op, s3) \<Rightarrow>
          (case split_number (dropWhile is_space s3) of
             None \<Rightarrow> None
           | Some (n, s4) \<Rightarrow> if list_all is_space s4 then Some (lhs, op, double_value n) else None))"

text \<open>The nested \<^verbatim>\<open>_num\<close>: an integral value of an int field is an int.\<close>

fun num_of :: "bool \<Rightarrow> bound_value \<Rightarrow> bound_value" where
  "num_of is_int (BFloat q) = (if is_int \<and> of_int \<lfloor>q\<rfloor> = q then BInt \<lfloor>q\<rfloor> else BFloat q)"
| "num_of is_int v = v"

definition violating_value :: "string \<Rightarrow> bound_value \<Rightarrow> model_field option \<Rightarrow> bound_value" where
  "violating_value op bound f =
     (let is_int = (case f of None \<Rightarrow> False | Some f \<Rightarrow> py_lower (fd_type f) = ''int'');
          num = num_of is_int in
      if op = ''>='' then num (plus_int (- 1) bound)
      else if op = ''>'' then num bound
      else if op = ''<='' then num (plus_int 1 bound)
      else if op = ''<'' then num bound
      else if op = ''=='' then num (plus_int 1 bound)
      else num bound)"

definition invariant_case ::
  "(string \<Rightarrow> string) \<Rightarrow> (rat \<Rightarrow> string) \<Rightarrow> app_model \<Rightarrow> model_invariant \<Rightarrow> string \<times> string \<times> bound_value \<Rightarrow> logic_test_case result" where
  "invariant_case sha fr m i = (\<lambda>(lhs, op, bound).
     let name = snd (snd (rpartition_on (CHR ''.'') lhs));
         f = List.find (\<lambda>f. fd_name f = name) (rev (am_fields m));
         v = violating_value op bound f in
     logic_case sha m INVARIANT_VIOLATION (inv_id i)
       (''violate invariant '' @ inv_id i @ '' ('' @ inv_expr i @ ''): set '' @ name @ ''='' @ bound_str fr v) [(name, v)])"

definition invariant_generate :: "(string \<Rightarrow> string) \<Rightarrow> (rat \<Rightarrow> string) \<Rightarrow> app_model \<Rightarrow> logic_test_case list result" where
  "invariant_generate sha fr m = map_res (\<lambda>(i, parsed). invariant_case sha fr m i parsed)
     (List.map_filter (\<lambda>i. map_option (Pair i) (match_invariant (inv_expr i))) (am_invariants m))"

section \<open>The generator\<close>

type_synonym logic_strategy = "app_model \<Rightarrow> logic_test_case list result"

fun generate_tests :: "logic_strategy list \<Rightarrow> app_model \<Rightarrow> logic_test_case list result" where
  "generate_tests [] m = Inr []"
| "generate_tests (s # ss) m = bind_res (s m) (\<lambda>cs. bind_res (generate_tests ss m) (\<lambda>ds. Inr (cs @ ds)))"

definition generate_incremental :: "logic_strategy list \<Rightarrow> app_model \<Rightarrow> string list \<Rightarrow> logic_test_case list result" where
  "generate_incremental ss m known =
     bind_res (generate_tests ss m) (\<lambda>cs. Inr (filter (\<lambda>c. lt_signature c \<notin> set known) cs))"

section \<open>The planner\<close>

definition DEFAULT_RUNNERS :: "(asset_type \<times> string) list" where
  "DEFAULT_RUNNERS = [(WEB_APP, ''nuclei''), (API, ''nuclei''), (IP_PORT, ''nmap''), (CLOUD_ACCOUNT, ''prowler''), (CONTAINER_K8S, ''trivy'')]"

record planner =
  pl_catalog :: test_catalog
  pl_runners :: "(asset_type \<times> string) list"

definition new_planner :: "test_catalog \<Rightarrow> (asset_type \<times> string) list \<Rightarrow> planner" where
  "new_planner catalog runner_map = \<lparr>pl_catalog = catalog, pl_runners = foldl (\<lambda>d (k, v). dict_set k v d) DEFAULT_RUNNERS runner_map\<rparr>"

type_synonym plan_item = "string \<times> string \<times> risk_class \<times> pydict"

definition required_item :: "planner \<Rightarrow> asset_type \<Rightarrow> required_test_class \<Rightarrow> plan_item" where
  "required_item p t c =
     (asset_value t @ '':'' @ rt_id c, case dict_get (pl_runners p) t of None \<Rightarrow> ''adapter'' | Some r \<Rightarrow> r, rt_risk c,
      [(''asset_type'', VStr (asset_value t)), (''test_class'', VStr (rt_id c)), (''cwe'', VStrs (rt_cwe c)), (''owasp'', VStrs (rt_owasp c))])"

definition logic_item :: "logic_test_case \<Rightarrow> plan_item" where
  "logic_item c =
     (''logic:'' @ logic_class_value (lt_class c) @ '':'' @ take 12 (removeprefix (lt_signature c) ''sha256:''), ''case-engine'', ACTIVE,
      [(''test_class'', VStr (logic_class_value (lt_class c))), (''case_signature'', VStr (lt_signature c)),
       (''app_model_digest'', VStr (lt_app_model_digest c))])"

definition collect_items :: "planner \<Rightarrow> asset_type list \<Rightarrow> logic_test_case list \<Rightarrow> plan_item list" where
  "collect_items p ts cs =
     concat (map (\<lambda>t. map (required_item p t) (required_for (pl_catalog p) t)) ts) @ map logic_item cs"

definition recon_risks :: "risk_class set" where
  "recon_risks = {PASSIVE, risk_class.LOW}"

definition tier_keys :: "risk_class set \<Rightarrow> plan_item list \<Rightarrow> string list" where
  "tier_keys rs items = map fst (filter (\<lambda>(_, _, risk, _). risk \<in> rs) items)"

definition item_step :: "plan_item list \<Rightarrow> plan_item \<Rightarrow> plan_step" where
  "item_step items = (\<lambda>(key, run, r, params).
     \<lparr>step_key = key, runner = run, risk = r, parameters = params,
      dependencies =
        (if r \<in> recon_risks then []
         else if r = ACTIVE then tier_keys recon_risks items
         else tier_keys recon_risks items @ tier_keys {ACTIVE} items)\<rparr>)"

definition plan_generate ::
  "(string \<Rightarrow> string) \<Rightarrow> planner \<Rightarrow> string \<Rightarrow> string \<Rightarrow> asset_type list \<Rightarrow> logic_test_case list \<Rightarrow> int \<Rightarrow> execution_plan result" where
  "plan_generate sha p pid i ts cs ver =
     (let items = collect_items p ts cs in ExecutionPlan_create sha pid i ver (map (item_step items) items))"

end
