(* ===== verification/Planner_Safety.thy ===== *)
theory Planner_Safety
  imports Logic_Tests
begin

text \<open>
  What holds of logic tests and of the plans made from them: every generated test breaks a rule of its model and every
  rule that can be broken has a test, within the numbers a double counts; a plan holds every required class, in tiers, and a run of it keeps the tiers.
\<close>

section \<open>Tests break what they test\<close>

fun compares :: "string \<Rightarrow> rat \<Rightarrow> rat \<Rightarrow> bool" where
  "compares op x b =
     (if op = ''>='' then x \<ge> b else if op = ''>'' then x > b else if op = ''<='' then x \<le> b else if op = ''<'' then x < b else x = b)"

definition outside :: "model_field \<Rightarrow> bound_value \<Rightarrow> bool" where
  "outside f v \<longleftrightarrow> (\<exists>low high x. fd_range f = Some [low, high] \<and> bound_number v = Some x \<and>
     ((\<exists>l. bound_number low = Some l \<and> x < l) \<or> (\<exists>h. bound_number high = Some h \<and> h < x)))"

text \<open>
  A number that can be counted on and down from: an int, or a float below \<open>2\<^sup>5\<^sup>3\<close> in size. From there on a float and its
  successor may be rounded to the same double.
\<close>

fun exact_number :: "bound_value \<Rightarrow> bool" where
  "exact_number (BInt n) \<longleftrightarrow> True"
| "exact_number (BFloat q) \<longleftrightarrow> \<bar>q\<bar> < 2 ^ 53"
| "exact_number (BOther v) \<longleftrightarrow> (case v of VFloat s \<Rightarrow> False | _ \<Rightarrow> True)"

definition exact_field :: "model_field \<Rightarrow> bool" where
  "exact_field f \<longleftrightarrow> (\<forall>vs. fd_range f = Some vs \<longrightarrow> list_all exact_number vs)"

definition exact_model :: "app_model \<Rightarrow> bool" where
  "exact_model m \<longleftrightarrow> (\<forall>f \<in> set (am_fields m). exact_field f) \<and>
     (\<forall>i \<in> set (am_invariants m). \<forall>lhs op b. match_invariant (inv_expr i) = Some (lhs, op, b) \<longrightarrow> exact_number b)"

lemma exact_double:
  assumes "\<bar>x\<bar> \<le> 2 ^ 54"
  shows "double_value x = BFloat (round_double x)"
proof -
  have p: "round_double (2 ^ 54) = 2 ^ 54" by code_simp
  have "round_double x \<le> 2 ^ 54" using round_double_mono [of x "2 ^ 54"] assms unfolding p by linarith
  moreover have "- (2 ^ 54) \<le> round_double x" using round_double_mono [of "- (2 ^ 54)" x] assms unfolding round_double_minus p by linarith
  ultimately have "\<bar>round_double x\<bar> \<le> 2 ^ 54" by linarith
  also have "\<dots> < DOUBLE_LIMIT" by (simp add: DOUBLE_LIMIT_def)
  finally show ?thesis by (simp add: double_value_def Let_def)
qed

lemma plus_int_below:
  assumes "\<bar>q\<bar> < 2 ^ 53"
  obtains r n where "plus_int (- 1) (BFloat q) = BFloat r" "r \<le> of_int n" "of_int n < q"
  using round_double_below [OF assms] exact_double [of "q - 1"] assms by force

lemma plus_int_above:
  assumes "\<bar>q\<bar> < 2 ^ 53"
  obtains r n where "plus_int 1 (BFloat q) = BFloat r" "of_int n \<le> r" "q < of_int n"
  using round_double_above [OF assms] exact_double [of "q + 1"] assms by force

lemma shifted_number:
  assumes "exact_number v" "bound_number v = Some l"
  shows "\<exists>w x. shifted is_int (- 1) v = Inr w \<and> bound_number w = Some x \<and> x < l"
    and "\<exists>w x. shifted is_int 1 v = Inr w \<and> bound_number w = Some x \<and> l < x"
proof -
  have "(\<exists>w x. shifted is_int (- 1) v = Inr w \<and> bound_number w = Some x \<and> x < l) \<and>
    (\<exists>w x. shifted is_int 1 v = Inr w \<and> bound_number w = Some x \<and> l < x)"
  proof (cases v)
    case (BFloat q)
    with assms have q: "\<bar>q\<bar> < 2 ^ 53" "l = q" by simp_all
    obtain r n where r: "plus_int (- 1) v = BFloat r" "r \<le> of_int n" "of_int n < q" using plus_int_below [OF q(1)] BFloat by metis
    obtain s k where s: "plus_int 1 v = BFloat s" "of_int k \<le> s" "q < of_int k" using plus_int_above [OF q(1)] BFloat by metis
    have "(of_int (int_of_float r) :: rat) < q" using int_of_float_below [OF r(2)] r(3) by (meson of_int_le_iff le_less_trans)
    moreover have "q < (of_int (int_of_float s) :: rat)" using int_of_float_above [OF s(2)] s(3) by (meson of_int_le_iff less_le_trans)
    ultimately show ?thesis using r s q(2) by (auto simp: shifted_def)
  qed (use assms in \<open>auto simp: shifted_def\<close>)
  then show "\<exists>w x. shifted is_int (- 1) v = Inr w \<and> bound_number w = Some x \<and> x < l"
    "\<exists>w x. shifted is_int 1 v = Inr w \<and> bound_number w = Some x \<and> l < x" by blast+
qed

text \<open>What a field is probed with.\<close>

definition probe_list :: "model_field \<Rightarrow> (string \<times> bound_value) list" where
  "probe_list f = (case boundary_values f of Inl _ \<Rightarrow> [] | Inr ps \<Rightarrow> ps)"

lemma probe_exact:
  assumes "exact_number v"
  shows "bound_number v = None \<Longrightarrow> probe is_int label d v = Inr []"
    and "bound_number v = Some l \<Longrightarrow> shifted is_int d v = Inr w \<Longrightarrow> probe is_int label d v = Inr [(label, w)]"
  using assms by (cases v; auto simp: probe_def split: pyval.splits)+

definition probed :: "string \<Rightarrow> (rat \<Rightarrow> rat \<Rightarrow> bool) \<Rightarrow> bound_value \<Rightarrow> (string \<times> bound_value) list \<Rightarrow> bool" where
  "probed label beyond v ps \<longleftrightarrow>
     (case bound_number v of None \<Rightarrow> ps = [] | Some l \<Rightarrow> \<exists>w x. ps = [(label, w)] \<and> bound_number w = Some x \<and> beyond x l)"

lemma probe_probed:
  assumes "exact_number v"
  shows "\<exists>ps. probe is_int label (- 1) v = Inr ps \<and> probed label (<) v ps"
    and "\<exists>ps. probe is_int label 1 v = Inr ps \<and> probed label (>) v ps"
proof -
  note none = probe_exact(1) [OF assms]
  note some = probe_exact(2) [OF assms]
  show "\<exists>ps. probe is_int label (- 1) v = Inr ps \<and> probed label (<) v ps"
  proof (cases "bound_number v")
    case (Some l)
    from shifted_number(1) [OF assms Some, of is_int] obtain w x where "shifted is_int (- 1) v = Inr w" "bound_number w = Some x" "x < l" by blast
    with some [OF Some this(1)] Some show ?thesis by (auto simp: probed_def)
  qed (use none in \<open>auto simp: probed_def\<close>)
  show "\<exists>ps. probe is_int label 1 v = Inr ps \<and> probed label (>) v ps"
  proof (cases "bound_number v")
    case (Some l)
    from shifted_number(2) [OF assms Some, of is_int] obtain w x where "shifted is_int 1 v = Inr w" "bound_number w = Some x" "l < x" by blast
    with some [OF Some this(1)] Some show ?thesis by (auto simp: probed_def)
  qed (use none in \<open>auto simp: probed_def\<close>)
qed

lemma ranged_probes:
  assumes "exact_field f" "fd_range f = Some [low, high]"
  obtains below above where "boundary_values f = Inr (below @ above)" "probed ''below_low'' (<) low below" "probed ''above_high'' (>) high above"
proof -
  let ?i = "py_lower (fd_type f) = ''int''"
  have e: "exact_number low" "exact_number high" using assms by (auto simp: exact_field_def)
  from probe_probed(1) [OF e(1)] obtain below where b: "probe ?i ''below_low'' (- 1) low = Inr below" "probed ''below_low'' (<) low below" by blast
  from probe_probed(2) [OF e(2)] obtain above where a: "probe ?i ''above_high'' 1 high = Inr above" "probed ''above_high'' (>) high above" by blast
  have "boundary_values f = Inr (below @ above)" by (simp add: boundary_values_def assms(2) Let_def a(1) b(1))
  then show thesis using a(2) b(2) that by blast
qed

lemma boundary_values_exact:
  assumes "exact_field f"
  shows "boundary_values f = Inr (probe_list f)"
proof (cases "\<exists>low high. fd_range f = Some [low, high]")
  case True
  then obtain low high where "fd_range f = Some [low, high]" by blast
  with ranged_probes [OF assms] obtain ps where "boundary_values f = Inr ps" by metis
  then show ?thesis by (simp add: probe_list_def)
qed (auto simp: probe_list_def boundary_values_def split: option.splits list.splits)

lemma boundary_outside:
  assumes "exact_field f" "(label, v) \<in> set (probe_list f)"
  shows "outside f v"
proof -
  from assms(2) obtain low high where r: "fd_range f = Some [low, high]"
    by (cases "fd_range f") (auto simp: probe_list_def boundary_values_def split: list.splits)
  from ranged_probes [OF assms(1) r] obtain below above
    where b: "boundary_values f = Inr (below @ above)" "probed ''below_low'' (<) low below" "probed ''above_high'' (>) high above" .
  from assms(2) b(1) have "(label, v) \<in> set below \<or> (label, v) \<in> set above" by (auto simp: probe_list_def)
  with b(2,3) r show ?thesis by (auto simp: outside_def probed_def split: option.splits)
qed

lemma num_of_number [simp]: "bound_number (num_of is_int v) = bound_number v"
  by (cases v) auto

lemma split_op_ops: "split_op s = Some (op, r) \<Longrightarrow> op \<in> {''>='', ''<='', ''=='', ''>'', ''<''}"
  by (auto simp: split_op_def split: list.splits if_splits)

lemma violates:
  assumes "match_invariant s = Some (lhs, op, b)" "exact_number b"
  shows "\<exists>x y. bound_number b = Some y \<and> bound_number (violating_value op b f) = Some x \<and> \<not> compares op x y"
proof -
  have op: "op \<in> {''>='', ''<='', ''=='', ''>'', ''<''}" and "\<exists>n. b = double_value n"
    using assms split_op_ops by (fastforce simp: match_invariant_def Let_def split: if_splits option.splits prod.splits)+
  then obtain q where b: "b = BFloat q" using assms(2) by (auto simp: double_value_def Let_def split: if_splits)
  with assms(2) have "\<bar>q\<bar> < 2 ^ 53" by simp
  from plus_int_below [OF this] plus_int_above [OF this]
  obtain r n s k where "plus_int (- 1) b = BFloat r" "r \<le> of_int n" "of_int n < q" "plus_int 1 b = BFloat s" "of_int k \<le> s" "q < of_int k"
    unfolding b by metis
  then have "\<exists>x. bound_number (plus_int (- 1) b) = Some x \<and> x < q" "\<exists>x. bound_number (plus_int 1 b) = Some x \<and> q < x"
    by (auto intro: le_less_trans less_le_trans)
  with op b show ?thesis by (auto simp: violating_value_def Let_def simp del: plus_int.simps)
qed

text \<open>What a test of each class is about.\<close>

definition breaks :: "app_model \<Rightarrow> logic_test_case \<Rightarrow> bool" where
  "breaks m c \<longleftrightarrow>
     (case lt_class c of
        REPLAY \<Rightarrow> \<exists>t \<in> set (am_transitions m). \<not> tr_idempotent t \<and> lt_target c = tr_id t
      | SKIP_STEP \<Rightarrow> \<exists>t1 \<in> set (am_transitions m). \<exists>t2 \<in> set (am_transitions m).
          tr_to_state t1 = tr_from_state t2 \<and> tr_id t1 \<noteq> tr_id t2 \<and> lt_target c = tr_id t1 @ ''->'' @ tr_id t2
      | OUT_OF_ORDER \<Rightarrow> \<exists>t1 \<in> set (am_transitions m). \<exists>t2 \<in> set (am_transitions m).
          tr_to_state t1 = tr_from_state t2 \<and> tr_id t1 \<noteq> tr_id t2 \<and> lt_target c = tr_id t2 @ ''->'' @ tr_id t1
      | BOUNDARY \<Rightarrow> \<exists>f \<in> set (am_fields m). \<exists>v. lt_inputs c = [(fd_name f, v)] \<and> outside f v
      | INVARIANT_VIOLATION \<Rightarrow> \<exists>i \<in> set (am_invariants m). \<exists>lhs op b v x y. match_invariant (inv_expr i) = Some (lhs, op, b) \<and>
          lt_target c = inv_id i \<and> lt_inputs c = [(snd (snd (rpartition_on (CHR ''.'') lhs)), v)] \<and> bound_number v = Some x \<and>
          bound_number b = Some y \<and> \<not> compares op x y)"

text \<open>The rules of a model that have a test.\<close>

definition tested :: "app_model \<Rightarrow> logic_test_case list \<Rightarrow> bool" where
  "tested m cs \<longleftrightarrow>
     (\<forall>t \<in> set (am_transitions m). \<not> tr_idempotent t \<longrightarrow> (\<exists>c \<in> set cs. lt_class c = REPLAY \<and> lt_target c = tr_id t)) \<and>
     (\<forall>t1 \<in> set (am_transitions m). \<forall>t2 \<in> set (am_transitions m). tr_to_state t1 = tr_from_state t2 \<and> tr_id t1 \<noteq> tr_id t2 \<longrightarrow>
        (\<exists>c \<in> set cs. lt_class c = SKIP_STEP \<and> lt_target c = tr_id t1 @ ''->'' @ tr_id t2) \<and>
        (\<exists>c \<in> set cs. lt_class c = OUT_OF_ORDER \<and> lt_target c = tr_id t2 @ ''->'' @ tr_id t1)) \<and>
     (\<forall>f \<in> set (am_fields m). \<forall>low high. fd_range f = Some [low, high] \<longrightarrow>
        (\<forall>l. bound_number low = Some l \<longrightarrow>
          (\<exists>c \<in> set cs. \<exists>v x. lt_class c = BOUNDARY \<and> lt_inputs c = [(fd_name f, v)] \<and> bound_number v = Some x \<and> x < l)) \<and>
        (\<forall>h. bound_number high = Some h \<longrightarrow>
          (\<exists>c \<in> set cs. \<exists>v x. lt_class c = BOUNDARY \<and> lt_inputs c = [(fd_name f, v)] \<and> bound_number v = Some x \<and> h < x))) \<and>
     (\<forall>i \<in> set (am_invariants m). match_invariant (inv_expr i) \<noteq> None \<longrightarrow> (\<exists>c \<in> set cs. lt_class c = INVARIANT_VIOLATION \<and> lt_target c = inv_id i))"

definition built_model :: "app_model \<Rightarrow> bool" where
  "built_model m \<longleftrightarrow> am_digest m \<noteq> [] \<and> (\<forall>t \<in> set (am_transitions m). tr_id t \<noteq> []) \<and> (\<forall>i \<in> set (am_invariants m). inv_id i \<noteq> [])"

definition plain_case :: "(string \<Rightarrow> string) \<Rightarrow> app_model \<Rightarrow> logic_test_class \<Rightarrow> string \<Rightarrow> string \<Rightarrow> (string \<times> bound_value) list \<Rightarrow> logic_test_case" where
  "plain_case sha m cls target description inputs =
     \<lparr>lt_class = cls, lt_app_model_digest = am_digest m, lt_target = target, lt_description = description, lt_inputs = inputs,
      lt_signature = compute_signature sha (am_digest m) cls STRATEGY_VERSION target\<rparr>"

lemma plain_case_simps [simp]:
  "lt_class (plain_case sha m cls target d ins) = cls" "lt_target (plain_case sha m cls target d ins) = target"
  "lt_inputs (plain_case sha m cls target d ins) = ins"
  "lt_signature (plain_case sha m cls target d ins) = compute_signature sha (am_digest m) cls STRATEGY_VERSION target"
  by (simp_all add: plain_case_def)

lemma logic_case_plain:
  "am_digest m \<noteq> [] \<Longrightarrow> target \<noteq> [] \<Longrightarrow> logic_case sha m cls target d ins = Inr (plain_case sha m cls target d ins)"
  by (simp add: logic_case_def plain_case_def LogicTestCase_check_def)

lemma set_adjacent:
  "(t1, t2) \<in> set (adjacent_pairs m) \<longleftrightarrow>
     t1 \<in> set (am_transitions m) \<and> t2 \<in> set (am_transitions m) \<and> tr_id t1 \<noteq> tr_id t2 \<and> tr_to_state t1 = tr_from_state t2"
  by (auto simp: adjacent_pairs_def)

lemma set_matched:
  "(i, p) \<in> set (List.map_filter (\<lambda>i. map_option (Pair i) (match_invariant (inv_expr i))) is) \<longleftrightarrow>
     i \<in> set is \<and> match_invariant (inv_expr i) = Some p"
  by (induction "is") (auto simp: map_filter_simps split: option.split)

text \<open>The generators on a built model are maps.\<close>

definition replay_plain :: "(string \<Rightarrow> string) \<Rightarrow> app_model \<Rightarrow> model_transition \<Rightarrow> logic_test_case" where
  "replay_plain sha m t = plain_case sha m REPLAY (tr_id t) (''replay non-idempotent transition '' @ tr_endpoint t @ '' twice'')
     [(''repeat_endpoint'', BOther (VStr (tr_endpoint t))), (''times'', BInt 2)]"

definition skip_plain :: "(string \<Rightarrow> string) \<Rightarrow> app_model \<Rightarrow> model_transition \<times> model_transition \<Rightarrow> logic_test_case" where
  "skip_plain sha m = (\<lambda>(t1, t2). plain_case sha m SKIP_STEP (tr_id t1 @ ''->'' @ tr_id t2)
     (''skip '' @ tr_endpoint t1 @ '': call '' @ tr_endpoint t2 @ '' directly'')
     [(''call'', BOther (VStr (tr_endpoint t2))), (''skip'', BOther (VStr (tr_endpoint t1)))])"

definition order_plain :: "(string \<Rightarrow> string) \<Rightarrow> app_model \<Rightarrow> model_transition \<times> model_transition \<Rightarrow> logic_test_case" where
  "order_plain sha m = (\<lambda>(t1, t2). plain_case sha m OUT_OF_ORDER (tr_id t2 @ ''->'' @ tr_id t1)
     (''call '' @ tr_endpoint t2 @ '' before prerequisite '' @ tr_endpoint t1)
     [(''order'', BOther (VStrs [tr_endpoint t2, tr_endpoint t1]))])"

definition boundary_plain :: "(string \<Rightarrow> string) \<Rightarrow> (rat \<Rightarrow> string) \<Rightarrow> app_model \<Rightarrow> model_field \<times> string \<times> bound_value \<Rightarrow> logic_test_case" where
  "boundary_plain sha fr m = (\<lambda>(f, label, v). plain_case sha m BOUNDARY (fd_name f @ '':'' @ label)
     (''boundary probe '' @ fd_name f @ ''='' @ bound_str fr v @ '' ('' @ label @ '') outside range '' @ range_str fr f) [(fd_name f, v)])"

definition invariant_plain :: "(string \<Rightarrow> string) \<Rightarrow> (rat \<Rightarrow> string) \<Rightarrow> app_model \<Rightarrow> model_invariant \<times> string \<times> string \<times> bound_value \<Rightarrow> logic_test_case" where
  "invariant_plain sha fr m = (\<lambda>(i, lhs, op, b).
     let name = snd (snd (rpartition_on (CHR ''.'') lhs));
         v = violating_value op b (List.find (\<lambda>f. fd_name f = name) (rev (am_fields m))) in
     plain_case sha m INVARIANT_VIOLATION (inv_id i)
       (''violate invariant '' @ inv_id i @ '' ('' @ inv_expr i @ ''): set '' @ name @ ''='' @ bound_str fr v) [(name, v)])"

lemmas plain_defs = replay_plain_def skip_plain_def order_plain_def boundary_plain_def invariant_plain_def

definition probes :: "app_model \<Rightarrow> (model_field \<times> string \<times> bound_value) list" where
  "probes m = concat (map (\<lambda>f. map (\<lambda>(label, v). (f, label, v)) (probe_list f)) (am_fields m))"

lemma set_probes: "(f, label, v) \<in> set (probes m) \<longleftrightarrow> f \<in> set (am_fields m) \<and> (label, v) \<in> set (probe_list f)"
  by (auto simp: probes_def)

definition matched :: "app_model \<Rightarrow> (model_invariant \<times> string \<times> string \<times> bound_value) list" where
  "matched m = List.map_filter (\<lambda>i. map_option (Pair i) (match_invariant (inv_expr i))) (am_invariants m)"

definition all_strategies :: "(string \<Rightarrow> string) \<Rightarrow> (rat \<Rightarrow> string) \<Rightarrow> logic_strategy list" where
  "all_strategies sha fr = [restler_generate sha, schemathesis_generate sha fr, invariant_generate sha fr]"

lemma generators_are_maps:
  assumes "built_model m"
  shows "replay_cases sha m = Inr (map (replay_plain sha m) (filter (\<lambda>t. \<not> tr_idempotent t) (am_transitions m)))"
    and "skip_step_cases sha m = Inr (map (skip_plain sha m) (adjacent_pairs m))"
    and "out_of_order_cases sha m = Inr (map (order_plain sha m) (adjacent_pairs m))"
    and "invariant_generate sha fr m = Inr (map (invariant_plain sha fr m) (matched m))"
  unfolding replay_cases_def skip_step_cases_def out_of_order_cases_def invariant_generate_def matched_def [symmetric] using assms
  by (auto intro!: map_res_map simp: plain_defs built_model_def logic_case_plain Let_def invariant_case_def matched_def set_matched)

lemma boundary_generator_is_map:
  assumes "built_model m" "exact_model m"
  shows "schemathesis_generate sha fr m = Inr (map (boundary_plain sha fr m) (probes m))"
proof -
  have "map_res (boundary_case sha fr m f) ps = Inr (map (\<lambda>(label, v). boundary_plain sha fr m (f, label, v)) ps)" for f ps
    using assms(1) by (intro map_res_map) (auto simp: boundary_case_def boundary_plain_def built_model_def logic_case_plain)
  then have "map_res (\<lambda>f. bind_res (boundary_values f) (map_res (boundary_case sha fr m f))) (am_fields m) =
      Inr (map (\<lambda>f. map (\<lambda>(label, v). boundary_plain sha fr m (f, label, v)) (probe_list f)) (am_fields m))"
    using assms(2) by (intro map_res_map) (simp add: exact_model_def boundary_values_exact)
  then show ?thesis by (simp add: schemathesis_generate_def probes_def map_concat comp_def case_prod_unfold)
qed

lemma all_tests:
  assumes "built_model m" "exact_model m"
  shows "generate_tests (all_strategies sha fr) m = Inr
     (map (replay_plain sha m) (filter (\<lambda>t. \<not> tr_idempotent t) (am_transitions m)) @
      map (skip_plain sha m) (adjacent_pairs m) @ map (order_plain sha m) (adjacent_pairs m) @
      map (boundary_plain sha fr m) (probes m) @ map (invariant_plain sha fr m) (matched m))"
  by (simp add: all_strategies_def restler_generate_def generators_are_maps [OF assms(1)] boundary_generator_is_map [OF assms])

lemma plain_breaks:
  "t \<in> set (am_transitions m) \<Longrightarrow> \<not> tr_idempotent t \<Longrightarrow> breaks m (replay_plain sha m t)"
  "x \<in> set (adjacent_pairs m) \<Longrightarrow> breaks m (skip_plain sha m x)"
  "x \<in> set (adjacent_pairs m) \<Longrightarrow> breaks m (order_plain sha m x)"
  by (cases x; fastforce simp: breaks_def plain_defs set_adjacent)+

lemma boundary_plain_breaks: "exact_model m \<Longrightarrow> y \<in> set (probes m) \<Longrightarrow> breaks m (boundary_plain sha fr m y)"
  by (cases y) (fastforce simp: breaks_def plain_defs set_probes exact_model_def intro: boundary_outside)

lemma invariant_plain_breaks:
  assumes "exact_model m" "z \<in> set (matched m)"
  shows "breaks m (invariant_plain sha fr m z)"
proof -
  obtain i lhs op b where z: "z = (i, lhs, op, b)" by (cases z)
  with assms(2) have i: "i \<in> set (am_invariants m)" "match_invariant (inv_expr i) = Some (lhs, op, b)"
    by (simp_all add: matched_def set_matched)
  then have "exact_number b" using assms(1) by (simp add: exact_model_def)
  define name where "name = snd (snd (rpartition_on (CHR ''.'') lhs))"
  define v where "v = violating_value op b (List.find (\<lambda>f. fd_name f = name) (rev (am_fields m)))"
  obtain x y where xy: "bound_number b = Some y" "bound_number v = Some x" "\<not> compares op x y"
    using violates [OF i(2) \<open>exact_number b\<close>] unfolding v_def by blast
  have "lt_class (invariant_plain sha fr m z) = INVARIANT_VIOLATION" "lt_target (invariant_plain sha fr m z) = inv_id i"
    "lt_inputs (invariant_plain sha fr m z) = [(name, v)]"
    by (simp_all add: z invariant_plain_def name_def v_def Let_def)
  with i xy show ?thesis unfolding breaks_def name_def by (simp del: compares.simps) blast
qed

text \<open>
  C38. Logic tests are sound and complete for their model, as far as doubles can count: on every model the constructors built whose
  range bounds and invariant numbers, where they are floats, are below \<open>2\<^sup>5\<^sup>3\<close> in size, generation returns, each test breaks a rule
  of the model (a replay repeats a transition that is not idempotent, a sequence test skips or swaps two transitions that feed
  each other, a boundary probe lies outside the range of its field, a violating value falsifies its invariant, whose number is read
  as the double the code reads), and every such rule has a test, each numeric end of a range one of its own.
\<close>

theorem logic_tests_break_the_model:
  assumes "built_model m" "exact_model m"
  shows "\<exists>cs. generate_tests (all_strategies sha fr) m = Inr cs \<and> (\<forall>c \<in> set cs. breaks m c) \<and> tested m cs"
proof -
  obtain cs where cs: "generate_tests (all_strategies sha fr) m = Inr cs"
    and set: "set cs = replay_plain sha m ` {t \<in> set (am_transitions m). \<not> tr_idempotent t} \<union> skip_plain sha m ` set (adjacent_pairs m) \<union>
      order_plain sha m ` set (adjacent_pairs m) \<union> boundary_plain sha fr m ` set (probes m) \<union> invariant_plain sha fr m ` set (matched m)"
    using all_tests [OF assms, of sha fr] by (simp add: Un_assoc)
  have "breaks m c" if "c \<in> set cs" for c
    using that plain_breaks boundary_plain_breaks [OF assms(2)] invariant_plain_breaks [OF assms(2)] unfolding set by blast
  moreover have "tested m cs"
    unfolding tested_def
  proof (intro conjI ballI impI allI)
    fix t1 t2
    assume "t1 \<in> set (am_transitions m)" "t2 \<in> set (am_transitions m)" "tr_to_state t1 = tr_from_state t2 \<and> tr_id t1 \<noteq> tr_id t2"
    then have "(t1, t2) \<in> set (adjacent_pairs m)" by (simp add: set_adjacent)
    then show "\<exists>c \<in> set cs. lt_class c = SKIP_STEP \<and> lt_target c = tr_id t1 @ ''->'' @ tr_id t2"
      "\<exists>c \<in> set cs. lt_class c = OUT_OF_ORDER \<and> lt_target c = tr_id t2 @ ''->'' @ tr_id t1"
      by (intro bexI [of _ "skip_plain sha m (t1, t2)"] bexI [of _ "order_plain sha m (t1, t2)"]; simp add: set; simp add: plain_defs)+
  next
    fix f low high l
    assume f: "f \<in> set (am_fields m)" and r: "fd_range f = Some [low, high]" and l: "bound_number low = Some l"
    have e: "exact_field f" using assms(2) f by (simp add: exact_model_def)
    from ranged_probes [OF e r] obtain below above
      where b: "boundary_values f = Inr (below @ above)" "probed ''below_low'' (<) low below" "probed ''above_high'' (>) high above" .
    obtain w x where w: "below = [(''below_low'', w)]" "bound_number w = Some x" "x < l"
      using b(2) l by (auto simp: probed_def)
    with b(1) have "(''below_low'', w) \<in> set (probe_list f)" by (simp add: probe_list_def)
    with f have "boundary_plain sha fr m (f, ''below_low'', w) \<in> set cs" by (auto simp: set set_probes)
    with w(2,3) show "\<exists>c \<in> set cs. \<exists>v x. lt_class c = BOUNDARY \<and> lt_inputs c = [(fd_name f, v)] \<and> bound_number v = Some x \<and> x < l"
      by (intro bexI [of _ "boundary_plain sha fr m (f, ''below_low'', w)"] exI [of _ w] exI [of _ x]) (simp_all add: boundary_plain_def)
  next
    fix f low high h
    assume f: "f \<in> set (am_fields m)" and r: "fd_range f = Some [low, high]" and h: "bound_number high = Some h"
    have e: "exact_field f" using assms(2) f by (simp add: exact_model_def)
    from ranged_probes [OF e r] obtain below above
      where b: "boundary_values f = Inr (below @ above)" "probed ''below_low'' (<) low below" "probed ''above_high'' (>) high above" .
    obtain w x where w: "above = [(''above_high'', w)]" "bound_number w = Some x" "h < x"
      using b(3) h by (auto simp: probed_def)
    with b(1) have "(''above_high'', w) \<in> set (probe_list f)" by (simp add: probe_list_def)
    with f have "boundary_plain sha fr m (f, ''above_high'', w) \<in> set cs" by (auto simp: set set_probes)
    with w(2,3) show "\<exists>c \<in> set cs. \<exists>v x. lt_class c = BOUNDARY \<and> lt_inputs c = [(fd_name f, v)] \<and> bound_number v = Some x \<and> h < x"
      by (intro bexI [of _ "boundary_plain sha fr m (f, ''above_high'', w)"] exI [of _ w] exI [of _ x]) (simp_all add: boundary_plain_def)
  next
    fix i
    assume "i \<in> set (am_invariants m)" "match_invariant (inv_expr i) \<noteq> None"
    then obtain p where "(i, p) \<in> set (matched m)" by (auto simp: matched_def set_matched)
    then show "\<exists>c \<in> set cs. lt_class c = INVARIANT_VIOLATION \<and> lt_target c = inv_id i"
      by (intro bexI [of _ "invariant_plain sha fr m (i, p)"]) (simp_all add: set, cases p, simp add: plain_defs Let_def)
  next
    fix t
    assume "t \<in> set (am_transitions m)" "\<not> tr_idempotent t"
    then show "\<exists>c \<in> set cs. lt_class c = REPLAY \<and> lt_target c = tr_id t"
      by (intro bexI [of _ "replay_plain sha m t"]) (simp_all add: set, simp add: plain_defs)
  qed
  ultimately show ?thesis using cs by blast
qed

text \<open>
  Above that bound the value may satisfy the rule it should break: the double below \<open>-2\<^sup>6\<^sup>3\<close> is not one less, and a number
  between two doubles is read as the one below it. A range whose ends are infinite cannot be probed at all when the field is an int.
\<close>

lemma large_numbers_satisfy_the_rule:
  "map_option (\<lambda>(lhs, op, b). (op, b, violating_value op b None)) (match_invariant ''x >= -9223372036854775808'') =
     Some (''>='', BFloat (- 9223372036854775808), BFloat (- 9223372036854775808))"
  "map_option (\<lambda>(lhs, op, b). (op, violating_value op b None)) (match_invariant ''x < 9007199254740993'') = Some (''<'', BFloat 9007199254740992)"
  "shifted False (- 1) (BFloat 100000000000000000) = Inr (BFloat 100000000000000000)"
  by code_simp+

lemma infinite_range_raises:
  assumes "py_lower (fd_type f) = ''int''" "fd_range f = Some [BOther (VFloat ''-inf''), high]"
  shows "boundary_values f = Inl (OverflowError ''cannot convert float infinity to integer'')"
  by (simp add: boundary_values_def assms Let_def probe_def shifted_def int_of_numeral_def)

section \<open>Signatures\<close>

text \<open>
  The digest of the model is part of every signature: after any change of the content no signature is the
  same, so that incremental generation skips nothing.
\<close>

lemma payload_digest:
  "CHR ''|'' \<notin> set d \<Longrightarrow> CHR ''|'' \<notin> set e \<Longrightarrow> signature_payload d cls s target = signature_payload e cls' s' target' \<Longrightarrow> d = e"
proof -
  assume "CHR ''|'' \<notin> set d" "CHR ''|'' \<notin> set e" "signature_payload d cls s target = signature_payload e cls' s' target'"
  then have "takeWhile (\<lambda>c. c \<noteq> CHR ''|'') (d @ CHR ''|'' # x) = d" "takeWhile (\<lambda>c. c \<noteq> CHR ''|'') (e @ CHR ''|'' # x) = e" for x
    by (auto simp: takeWhile_append)
  with \<open>signature_payload d cls s target = signature_payload e cls' s' target'\<close> show ?thesis
    unfolding signature_payload_def join.simps by (metis append_Cons append_Nil)
qed

lemma test_signatures:
  assumes "built_model m" "exact_model m" "generate_tests (all_strategies sha fr) m = Inr cs" "c \<in> set cs"
  shows "\<exists>cls target. lt_signature c = compute_signature sha (am_digest m) cls STRATEGY_VERSION target"
  using assms(4) assms(3) [unfolded all_tests [OF assms(1,2)]] by (auto simp: plain_defs Let_def split: prod.splits) blast+

lemma micro_change_regenerates_everything:
  assumes "built_model m" "exact_model m" "built_model m'" "exact_model m'"
    and "generate_tests (all_strategies sha fr) m = Inr cs" "generate_tests (all_strategies sha fr) m' = Inr cs'"
    and "am_digest m \<noteq> am_digest m'" "CHR ''|'' \<notin> set (am_digest m)" "CHR ''|'' \<notin> set (am_digest m')"
    and "\<And>x y. sha x = sha y \<Longrightarrow> x = y"
  shows "generate_incremental (all_strategies sha fr) m' (map lt_signature cs) = Inr cs'"
proof -
  have "lt_signature c' \<noteq> lt_signature c" if "c \<in> set cs" "c' \<in> set cs'" for c c'
    using test_signatures [OF assms(1,2,5) that(1)] test_signatures [OF assms(3,4,6) that(2)] payload_digest assms(7-10)
    by (metis compute_signature_def same_append_eq)
  then have "filter (\<lambda>c. lt_signature c \<notin> set (map lt_signature cs)) cs' = cs'" by (intro filter_True) auto
  then show ?thesis by (simp add: generate_incremental_def assms(6))
qed

section \<open>Plans\<close>

lemma item_step_simps [simp]:
  "step_key (item_step items x) = fst x" "risk (item_step items x) = fst (snd (snd x))"
  by (cases x; simp add: item_step_def)+

lemma set_tier: "k \<in> set (tier_keys rs items) \<longleftrightarrow> (\<exists>x \<in> set items. fst x = k \<and> fst (snd (snd x)) \<in> rs)"
  by (force simp: tier_keys_def)

lemma tier_memI: "x \<in> set items \<Longrightarrow> fst (snd (snd x)) \<in> rs \<Longrightarrow> fst x \<in> set (tier_keys rs items)"
  by (auto simp: set_tier)

lemma tier_subset: "set (tier_keys rs items) \<subseteq> fst ` set items"
  by (auto simp: set_tier)

lemma item_dependencies:
  "dependencies (item_step items x) =
     (let r = fst (snd (snd x)) in
      if r \<in> recon_risks then [] else if r = ACTIVE then tier_keys recon_risks items
      else tier_keys recon_risks items @ tier_keys {ACTIVE} items)"
  by (cases x) (simp add: item_step_def)

lemma set_item_dependencies:
  "set (dependencies (item_step items x)) =
     (let r = fst (snd (snd x)) in
      if r \<in> recon_risks then {} else set (tier_keys (if r = ACTIVE then recon_risks else insert ACTIVE recon_risks) items))"
  by (auto simp: item_dependencies set_tier Let_def)

definition tier :: "risk_class \<Rightarrow> nat" where
  "tier r = (if r \<in> recon_risks then 0 else if r = ACTIVE then 1 else 2)"

lemma items_plan_wf:
  assumes "distinct (map fst items)"
  shows "plan_wf (map (item_step items) items)"
  unfolding plan_wf_def
proof (intro conjI)
  have key: "x = y" if "x \<in> set items" "y \<in> set items" "fst x = fst y" for x y
    using assms that by (auto simp: distinct_map inj_on_def)
  define rank where "rank k = tier (fst (snd (snd (SOME x. x \<in> set items \<and> fst x = k))))" for k
  have rank: "rank (fst x) = tier (fst (snd (snd x)))" if "x \<in> set items" for x
  proof -
    have "(SOME y. y \<in> set items \<and> fst y = fst x) = x"
      by (rule some_equality) (use that key in auto)
    then show ?thesis by (simp add: rank_def)
  qed
  have "rank b < rank a" if "(a, b) \<in> depends_on (map (item_step items) items)" for a b
  proof -
    from that obtain x where x: "x \<in> set items" "a = fst x" "b \<in> set (dependencies (item_step items x))"
      by (auto simp: depends_on_def)
    then obtain y where y: "y \<in> set items" "b = fst y"
      "fst (snd (snd y)) \<in> (if fst (snd (snd x)) = ACTIVE then recon_risks else insert ACTIVE recon_risks)" "fst (snd (snd x)) \<notin> recon_risks"
      by (auto simp: set_item_dependencies set_tier Let_def split: if_splits)
    then show ?thesis using x by (auto simp: rank tier_def recon_risks_def split: if_splits)
  qed
  then show "acyclic (depends_on (map (item_step items) items))" by (rule acyclicI_order)
  show "\<forall>s \<in> set (map (item_step items) items). set (dependencies s) \<subseteq> set (map step_key (map (item_step items) items))"
    using tier_subset by (auto simp: set_item_dependencies Let_def image_image)
qed (use assms in \<open>simp add: comp_def\<close>)

text \<open>
  C37. The planner plans all of it or nothing: it returns a plan exactly when the version is positive and the keys
  are distinct, and then the steps are, in order, one for every required class of every asset type and one for every
  logic test; the tiers it builds never form a cycle and never name a missing step.
\<close>

theorem planner_plans_everything:
  "plan_generate sha p pid i ts cs ver =
     (let items = collect_items p ts cs; steps = map (item_step items) items in
      if ver < 1 then Inl (DomainValidationError ''plan version must be positive'')
      else if \<not> distinct (map fst items) then Inl (DomainValidationError ''plan step keys must be unique'')
      else Inr \<lparr>plan_id = pid, plan_assessment_id = i, version = ver, plan_steps = steps,
             plan_digest = canonical_digest sha (plan_payload i ver steps)\<rparr>) \<and>
   map fst (collect_items p ts cs) =
     concat (map (\<lambda>t. map (\<lambda>c. asset_value t @ '':'' @ rt_id c) (required_for (pl_catalog p) t)) ts) @
     map (\<lambda>c. ''logic:'' @ logic_class_value (lt_class c) @ '':'' @ take 12 (removeprefix (lt_signature c) ''sha256:'')) cs"
  (is "?plan \<and> ?keys")
proof
  let ?items = "collect_items p ts cs"
  have "distinct (map step_key (map (item_step ?items) ?items)) \<longleftrightarrow> distinct (map fst ?items)" by (simp add: comp_def)
  then show ?plan
    using items_plan_wf [of ?items] unfolding plan_generate_def ExecutionPlan_create_cases Let_def
    by (auto simp: plan_wf_def)
  show ?keys
    by (simp add: collect_items_def map_concat comp_def required_item_def logic_item_def)
qed

lemma deps_first_append: "deps_first (later @ (s, out) # earlier) \<Longrightarrow> set (dependencies s) \<subseteq> ok_keys earlier"
  by (induction later) auto

text \<open>
  C16. Reconnaissance first, at run time: in every run of a generated plan, when the runner is called with an active
  step, every passive and low step of the plan has already run successfully, and when it is called with an intrusive
  or destructive one, every active step as well. Planner, plan constructor, job store and orchestrator take part.
\<close>

theorem planned_runs_keep_tiers:
  assumes "plan_generate sha p pid i ts cs ver = Inr plan" "0 < lifetime"
    and "run_to_completion (logged run) (logged_gate gate) owner now rounds
        (snd (dispatch plan (fresh_orchestrator lifetime (w, [])))) = (r, orc')"
    and "snd (world orc') = later @ (s, out) # earlier" "s \<in> set (plan_steps plan)" "s' \<in> set (plan_steps plan)"
    and "risk s \<notin> recon_risks" "risk s' \<in> recon_risks \<or> risk s' = ACTIVE \<and> risk s \<noteq> ACTIVE"
  shows "step_key s' \<in> ok_keys earlier"
proof -
  let ?items = "collect_items p ts cs"
  have steps: "plan_steps plan = map (item_step ?items) ?items" and d: "distinct (map step_key (plan_steps plan))"
    using created_plan [OF assms(1) [unfolded plan_generate_def Let_def]] by simp_all
  from run_inv_run [OF run_inv_dispatch [OF d assms(2)] assms(3)] have "deps_first (snd (world orc'))"
    by (simp add: run_inv_def)
  then have "set (dependencies s) \<subseteq> ok_keys earlier" by (simp add: assms(4) deps_first_append)
  moreover obtain x y where "s = item_step ?items x" "y \<in> set ?items" "s' = item_step ?items y"
    using assms(5,6) unfolding steps set_map by blast
  then have "step_key s' \<in> set (dependencies s)"
    using assms(7,8) by (auto simp: set_item_dependencies Let_def intro!: tier_memI)
  ultimately show ?thesis by blast
qed

text \<open>
  Two logic tests of one class with one signature have one key: a model with two transitions of the same id cannot be
  planned, and the recorder of traffic gives the same id to different paths.
\<close>

lemma repeated_test_refuses_plan:
  assumes "lt_class c = lt_class d" "lt_signature c = lt_signature d"
  shows "plan_generate sha p pid i ts (as @ c # bs @ d # es) ver \<noteq> Inr plan"
proof -
  have "logic_item c = logic_item d \<or> fst (logic_item c) = fst (logic_item d)" using assms by (simp add: logic_item_def)
  then have "\<not> distinct (map fst (collect_items p ts (as @ c # bs @ d # es)))" by (auto simp: collect_items_def)
  then show ?thesis
    using created_plan [of sha pid i ver "map (item_step (collect_items p ts (as @ c # bs @ d # es))) (collect_items p ts (as @ c # bs @ d # es))" plan]
    by (auto simp: plan_generate_def Let_def comp_def)
qed

lemma traffic_ids_collide:
  "\<exists>t u. traffic_cluster [] [\<lparr>rr_method = ''GET'', rr_path = ''/a/b''\<rparr>, \<lparr>rr_method = ''GET'', rr_path = ''/a-b''\<rparr>] = Inr [t, u] \<and>
     tr_id t = tr_id u \<and> tr_endpoint t \<noteq> tr_endpoint u"
  by (simp add: Let_def Transition_check_def) code_simp

section \<open>Witnesses\<close>

definition shop_model :: app_model where
  "shop_model = (fresh_model ''shop'' ''1'' [''cart'', ''paid'', ''sent'']
     [\<lparr>tr_id = ''pay'', tr_from_state = ''cart'', tr_to_state = ''paid'', tr_endpoint = ''POST /pay'', tr_params = [], tr_idempotent = False\<rparr>,
      \<lparr>tr_id = ''send'', tr_from_state = ''paid'', tr_to_state = ''sent'', tr_endpoint = ''POST /send'', tr_params = [], tr_idempotent = True\<rparr>]
     [\<lparr>fd_name = ''qty'', fd_type = ''int'', fd_range = Some [BInt 0, BInt 100], fd_trusted_source = ''client''\<rparr>] MODEL_SIGNED)
     \<lparr>am_digest := ''sha256:d'', am_invariants := [\<lparr>inv_id = ''total'', inv_expr = ''cart.total >= 0''\<rparr>]\<rparr>"

theorem logic_tests_break_the_model_witness:
  "\<exists>cs. generate_tests (all_strategies id (\<lambda>_. ''0.0'')) shop_model = Inr cs \<and> (\<forall>c \<in> set cs. breaks shop_model c) \<and> tested shop_model cs"
proof (rule logic_tests_break_the_model)
  show "exact_model shop_model"
  proof -
    have "(case match_invariant ''cart.total >= 0'' of Some (lhs, op, b) \<Rightarrow> exact_number b | None \<Rightarrow> False)" by code_simp
    then show ?thesis by (auto simp: exact_model_def exact_field_def shop_model_def fresh_model_def)
  qed
qed (simp add: built_model_def shop_model_def fresh_model_def)

definition tiny_planner :: planner where
  "tiny_planner = new_planner \<lparr>tc_version = ''1'', tc_mappings = [(WEB_APP,
     [\<lparr>rt_id = ''sqli'', rt_cwe = [], rt_owasp = [], rt_risk = ACTIVE\<rparr>, \<lparr>rt_id = ''headers'', rt_cwe = [], rt_owasp = [], rt_risk = PASSIVE\<rparr>])]\<rparr> []"

definition tiny_plan :: execution_plan where
  "tiny_plan = (case plan_generate id tiny_planner ''p'' ''a'' [WEB_APP] [] 1 of Inr plan \<Rightarrow> plan)"

definition tiny_run :: "(exn + string) \<times> (unit \<times> call_log) orchestrator" where
  "tiny_run = run_to_completion (logged (\<lambda>w s. (RunOk ''d'', w))) (logged_gate None) ''w1'' 0 100
     (snd (dispatch tiny_plan (fresh_orchestrator 300 ((), []))))"

lemma tiny_plan_ok: "plan_generate id tiny_planner ''p'' ''a'' [WEB_APP] [] 1 = Inr tiny_plan"
  by code_simp

lemma tiny_run_log:
  "snd (world (snd tiny_run)) = [(plan_steps tiny_plan ! 0, RunOk ''d''), (plan_steps tiny_plan ! 1, RunOk ''d'')]"
  by code_simp

lemma tiny_plan_steps: "length (plan_steps tiny_plan) = 2" "risk (plan_steps tiny_plan ! 0) = ACTIVE" "risk (plan_steps tiny_plan ! 1) = PASSIVE"
  by code_simp+

theorem planned_runs_keep_tiers_witness:
  "step_key (plan_steps tiny_plan ! 1) \<in> ok_keys [(plan_steps tiny_plan ! 1, RunOk ''d'')]"
  using planned_runs_keep_tiers [OF tiny_plan_ok, of 300 "\<lambda>w s. (RunOk ''d'', w)" None "''w1''" 0 100 "()" "fst tiny_run" "snd tiny_run"
      "[]" "plan_steps tiny_plan ! 0" "RunOk ''d''" "[(plan_steps tiny_plan ! 1, RunOk ''d'')]" "plan_steps tiny_plan ! 1"]
  by (simp add: tiny_run_log tiny_plan_steps [unfolded One_nat_def] recon_risks_def) (simp add: tiny_run_def)

end
