(* ===== verification/Peer_Agents.thy ===== *)
theory Peer_Agents
  imports Cases Scope Audit_Trail
begin

text \<open>
  Peer agents (\<^verbatim>\<open>domain/peer_agents\<close>, \<^verbatim>\<open>application/peer_agents.py\<close>, \<^verbatim>\<open>application/peer_replan.py\<close>): external agents are
  launched behind a registry, a trust level and the scope, and what they report passes the scope and the catalog before it
  becomes an observation. Parameters: the harness that executes and terminates agents, the audit recorder (both act on
  an outside of type \<^typ>\<open>'w\<close>), the drawn run id, clock readings, \<open>idna\<close>, \<open>fr\<close> for float numerals and \<open>loads\<close> for
  \<^verbatim>\<open>json.loads\<close>.
\<close>

section \<open>Data\<close>

datatype peer_trust_level = ADOPTED_EXTERNAL | UNTRUSTED

fun trust_value :: "peer_trust_level \<Rightarrow> string" where
  "trust_value ADOPTED_EXTERNAL = ''adopted_external_agent''"
| "trust_value UNTRUSTED = ''untrusted''"

datatype peer_run_status = PEER_PENDING | PEER_RUNNING | PEER_COMPLETED | BUDGET_EXCEEDED | PEER_STOPPED | PEER_FAILED

datatype rejection_reason = OUT_OF_SCOPE | OUT_OF_CATALOG | PARSE_ERROR

fun rejection_value :: "rejection_reason \<Rightarrow> string" where
  "rejection_value OUT_OF_SCOPE = ''out_of_scope''"
| "rejection_value OUT_OF_CATALOG = ''out_of_catalog''"
| "rejection_value PARSE_ERROR = ''parse_error''"

record peer_budget =
  pb_max_wall_seconds :: int
  pb_max_cost_units :: rat

definition PeerAgentBudget_check :: "peer_budget \<Rightarrow> peer_budget result" where
  "PeerAgentBudget_check b =
     (if pb_max_wall_seconds b < 0 then Inl (DomainValidationError ''PeerAgentBudget.max_wall_seconds must be >= 0'')
      else if pb_max_cost_units b < 0 then Inl (DomainValidationError ''PeerAgentBudget.max_cost_units must be >= 0'')
      else Inr b)"

record peer_descriptor =
  pd_name :: string
  pd_version :: string
  pd_license :: string
  pd_trust_level :: peer_trust_level
  pd_capabilities :: "string list"
  pd_cost_class :: string
  pd_default_budget :: peer_budget
  pd_image_digest :: string

definition PeerAgentDescriptor_check :: "peer_descriptor \<Rightarrow> peer_descriptor result" where
  "PeerAgentDescriptor_check d =
     (if pd_name d = [] then Inl (DomainValidationError ''PeerAgentDescriptor.name must be non-empty'')
      else if pd_version d = [] then Inl (DomainValidationError ''PeerAgentDescriptor.version must be non-empty'')
      else Inr d)"

record peer_run =
  pr_id :: string
  pr_agent_name :: string
  pr_agent_version :: string
  pr_assessment_id :: string
  pr_targets :: "string list"
  pr_budget :: peer_budget
  pr_permit_id :: string
  pr_status :: peer_run_status
  pr_started_at :: "datetime option"
  pr_finished_at :: "datetime option"

definition PeerAgentRun_check :: "peer_run \<Rightarrow> peer_run result" where
  "PeerAgentRun_check r =
     (if pr_id r = [] then Inl (DomainValidationError ''PeerAgentRun.id must be non-empty'')
      else if pr_targets r = [] then Inl (DomainValidationError ''PeerAgentRun.targets must be non-empty'')
      else Inr r)"

record peer_finding =
  pf_id :: string
  pf_run_id :: string
  pf_agent_name :: string
  pf_title :: string
  pf_asset :: string
  pf_severity_hint :: string
  pf_cwe :: "string list"
  pf_cve :: "string list"
  pf_owasp :: "string list"
  pf_payload_summary :: string
  pf_raw_ref :: string

definition PeerAgentFinding_check :: "peer_finding \<Rightarrow> peer_finding result" where
  "PeerAgentFinding_check f =
     (if pf_id f = [] then Inl (DomainValidationError ''PeerAgentFinding.id must be non-empty'')
      else if pf_run_id f = [] then Inl (DomainValidationError ''PeerAgentFinding.run_id must be non-empty'')
      else if pf_title f = [] then Inl (DomainValidationError ''PeerAgentFinding.title must be non-empty'')
      else if pf_asset f = [] then Inl (DomainValidationError ''PeerAgentFinding.asset must be non-empty'')
      else Inr f)"

record rejected_finding =
  rj_finding :: peer_finding
  rj_reason :: rejection_reason
  rj_detail :: string

record peer_report =
  rp_run_id :: string
  rp_findings :: "peer_finding list"
  rp_wall_seconds :: rat
  rp_cost_units :: rat
  rp_exit_code :: int

section \<open>The registry\<close>

type_synonym peer_registry = "(string \<times> peer_descriptor) list"

definition register_peer :: "peer_descriptor \<Rightarrow> (peer_registry, unit) cmd" where
  "register_peer d reg =
     (if pd_name d \<in> set (dict_keys reg) then
        (Inl (PeerAgentAlreadyRegistered (''peer agent already registered: '' @ pd_name d)), reg)
      else (Inr (), dict_set (pd_name d) d reg))"

section \<open>Normalization\<close>

definition PEER_CONFIDENCE :: rat where "PEER_CONFIDENCE = 1 / 2"

definition finding_in_scope :: "(string \<Rightarrow> string option) \<Rightarrow> peer_finding \<Rightarrow> scope_snapshot \<Rightarrow> bool result" where
  "finding_in_scope idna f sc =
     (let asset = py_strip (pf_asset f) in
      if starts_with asset ''http://'' \<or> starts_with asset ''https://'' then includes_url idna sc asset else includes_domain idna sc asset)"

definition hits_required_catalog :: "peer_finding \<Rightarrow> test_catalog \<Rightarrow> asset_type \<Rightarrow> bool" where
  "hits_required_catalog f catalog t \<longleftrightarrow> list_ex (\<lambda>c.
     set (pf_cwe f) \<inter> set (rt_cwe c) \<noteq> {} \<or> set (pf_owasp f) \<inter> set (rt_owasp c) \<noteq> {}) (required_for catalog t)"

definition map_severity :: "string \<Rightarrow> severity \<times> bool" where
  "map_severity hint =
     (case List.find (\<lambda>s. severity_value s = py_lower (py_strip hint)) [INFO, severity.LOW, MEDIUM, HIGH, CRITICAL] of
        None \<Rightarrow> (INFO, False) | Some s \<Rightarrow> (s, True))"

definition normalize_finding :: "peer_finding \<Rightarrow> peer_run \<Rightarrow> observation result" where
  "normalize_finding f run =
     (let (sev, mapped) = map_severity (pf_severity_hint f) in
      bind_res (AdapterSource_check \<lparr>as_name = ''peer:'' @ pr_agent_name run, as_version = pr_agent_version run, as_template_version = ''na''\<rparr>)
        (\<lambda>src. Observation_check
          \<lparr>ob_external_id = pf_id f, ob_asset_identity = pf_asset f, ob_source = src, ob_rule_id = pf_id f,
           ob_rule_version = pr_agent_version run, ob_coverage_domain = WEB, ob_title = pf_title f, ob_severity = sev,
           ob_confidence = PEER_CONFIDENCE, ob_cwe = pf_cwe f, ob_cve = pf_cve f, ob_owasp = pf_owasp f, ob_evidence_artifact_ids = [],
           ob_raw = [(''peer_run_id'', VStr (pr_id run)), (''severity_hint'', VStr (pf_severity_hint f)),
             (''payload_summary'', VStr (pf_payload_summary f)), (''raw_ref'', VStr (pf_raw_ref f))] @
             (if mapped then [] else [(''severity_hint_unmapped'', VStr (pf_severity_hint f))])\<rparr>))"

section \<open>The service\<close>

record 'w peer_ports =
  pp_execute :: "peer_run \<Rightarrow> peer_descriptor \<Rightarrow> ('w, peer_report) cmd"
  pp_terminate :: "string \<Rightarrow> ('w, bool) cmd"
  pp_audit :: "audit_call \<Rightarrow> ('w, unit) cmd"

record 'w peer_world =
  pw_runs :: "(string \<times> peer_run) list"
  pw_out :: 'w

definition outP :: "('w, 'a) cmd \<Rightarrow> ('w peer_world, 'a) cmd" where
  "outP m w = (case m (pw_out w) of (r, out) \<Rightarrow> (r, w\<lparr>pw_out := out\<rparr>))"

definition put_run :: "peer_run \<Rightarrow> ('w peer_world, unit) cmd" where
  "put_run run w = (Inr (), w\<lparr>pw_runs := dict_set (pr_id run) run (pw_runs w)\<rparr>)"

definition peer_audit :: "'w peer_ports \<Rightarrow> string \<Rightarrow> string \<Rightarrow> string \<Rightarrow> pydict \<Rightarrow> ('w peer_world, unit) cmd" where
  "peer_audit P actor action rid payload =
     outP (pp_audit P \<lparr>c_actor = actor, c_action = action, c_resource_type = ''peer_agent_run'', c_resource_id = rid, c_payload = payload\<rparr>)"

definition list_runs :: "string \<Rightarrow> 'w peer_world \<Rightarrow> peer_run list" where
  "list_runs i w = filter (\<lambda>r. pr_assessment_id r = i) (dict_values (pw_runs w))"

definition finish :: "peer_run \<Rightarrow> peer_run_status \<Rightarrow> datetime \<Rightarrow> ('w peer_world, peer_run) cmd" where
  "finish run s now =
     bindC (liftC (PeerAgentRun_check (run\<lparr>pr_status := s, pr_finished_at := Some now\<rparr>))) (\<lambda>finished.
     bindC (put_run finished) (\<lambda>_. returnC finished))"

fun normalize_all ::
  "(string \<Rightarrow> string option) \<Rightarrow> peer_run \<Rightarrow> scope_snapshot \<Rightarrow> test_catalog \<Rightarrow> asset_type \<Rightarrow> peer_finding list \<Rightarrow>
   (observation list \<times> rejected_finding list) result" where
  "normalize_all idna run sc catalog t [] = Inr ([], [])"
| "normalize_all idna run sc catalog t (f # fs) =
     bind_res (finding_in_scope idna f sc) (\<lambda>inside.
       if \<not> inside then
         bind_res (normalize_all idna run sc catalog t fs) (\<lambda>(os, rs).
           Inr (os, \<lparr>rj_finding = f, rj_reason = OUT_OF_SCOPE, rj_detail = ''asset outside scope: '' @ pf_asset f\<rparr> # rs))
       else if \<not> hits_required_catalog f catalog t then
         bind_res (normalize_all idna run sc catalog t fs) (\<lambda>(os, rs).
           Inr (os, \<lparr>rj_finding = f, rj_reason = OUT_OF_CATALOG, rj_detail = ''CWE/OWASP intersects no required test class''\<rparr> # rs))
       else bind_res (normalize_finding f run) (\<lambda>x.
         bind_res (normalize_all idna run sc catalog t fs) (\<lambda>(os, rs). Inr (x # os, rs))))"

fun check_peer_targets :: "(string \<Rightarrow> string option) \<Rightarrow> scope_snapshot \<Rightarrow> string list \<Rightarrow> unit result" where
  "check_peer_targets idna sc [] = Inr ()"
| "check_peer_targets idna sc (v # vs) =
     bind_res (bind_res (includes_url idna sc v) (\<lambda>b. if b then Inr True else includes_domain idna sc v)) (\<lambda>inside.
       if inside then check_peer_targets idna sc vs
       else Inl (PeerRunScopeViolation (''peer launch target outside scope: '' @ v)))"

record peer_request =
  rq_assessment_id :: string
  rq_agent_name :: string
  rq_targets :: "string list"
  rq_scope :: scope_snapshot
  rq_catalog :: test_catalog
  rq_asset_type :: asset_type
  rq_actor :: string
  rq_permit_id :: string

record peer_outcome =
  po_run :: peer_run
  po_observations :: "observation list"
  po_rejected :: "rejected_finding list"

text \<open>The checks before anything is executed.\<close>

definition launch_checks :: "(string \<Rightarrow> string option) \<Rightarrow> peer_registry \<Rightarrow> string \<Rightarrow> datetime \<Rightarrow> peer_request \<Rightarrow> (peer_descriptor \<times> peer_run) result" where
  "launch_checks idna reg uid now rq =
     (case dict_get reg (rq_agent_name rq) of
        None \<Rightarrow> Inl (PeerAgentNotRegistered (''peer agent not registered: '' @ rq_agent_name rq))
      | Some d \<Rightarrow>
          if pd_trust_level d \<noteq> ADOPTED_EXTERNAL then
            Inl (PeerAgentTrustDenied (''peer agent trust level denies execution: '' @ rq_agent_name rq @
              '' ('' @ trust_value (pd_trust_level d) @ '')''))
          else bind_res (check_peer_targets idna (rq_scope rq) (rq_targets rq)) (\<lambda>_.
            bind_res (PeerAgentRun_check
              \<lparr>pr_id = ''peer-run-'' @ uid, pr_agent_name = pd_name d, pr_agent_version = pd_version d, pr_assessment_id = rq_assessment_id rq,
               pr_targets = rq_targets rq, pr_budget = pd_default_budget d, pr_permit_id = rq_permit_id rq, pr_status = PEER_RUNNING,
               pr_started_at = Some now, pr_finished_at = None\<rparr>) (\<lambda>run. Inr (d, run))))"

text \<open>What follows a report.\<close>

definition collect_report ::
  "(string \<Rightarrow> string option) \<Rightarrow> (rat \<Rightarrow> string) \<Rightarrow> 'w peer_ports \<Rightarrow> datetime \<Rightarrow> peer_request \<Rightarrow> peer_run \<Rightarrow> peer_report \<Rightarrow>
   ('w peer_world, peer_outcome) cmd" where
  "collect_report idna fr P now rq run report =
     (let over = rp_wall_seconds report > of_int (pb_max_wall_seconds (pr_budget run)) \<or> rp_cost_units report > pb_max_cost_units (pr_budget run) in
      bindC (if over then peer_audit P (rq_actor rq) ''peer_run.budget_exceeded'' (pr_id run)
          [(''wall_seconds'', VFloat (fr (rp_wall_seconds report))), (''cost_units'', VFloat (fr (rp_cost_units report)))]
        else returnC ()) (\<lambda>_.
      bindC (liftC (normalize_all idna run (rq_scope rq) (rq_catalog rq) (rq_asset_type rq) (rp_findings report))) (\<lambda>(os, rs).
      bindC (finish run (if over then BUDGET_EXCEEDED else PEER_COMPLETED) now) (\<lambda>finished.
      bindC (peer_audit P (rq_actor rq) ''peer_run.collect'' (pr_id run)
        [(''findings_total'', VInt (int (length (rp_findings report)))), (''observations_accepted'', VInt (int (length os))),
         (''findings_rejected'', VInt (int (length rs))), (''rejection_reasons'', VStrs (map (\<lambda>r. rejection_value (rj_reason r)) rs)),
         (''exit_code'', VInt (rp_exit_code report))]) (\<lambda>_.
      returnC \<lparr>po_run = finished, po_observations = os, po_rejected = rs\<rparr>)))))"

definition execute_peer :: "'w peer_ports \<Rightarrow> peer_run \<Rightarrow> peer_descriptor \<Rightarrow> datetime \<Rightarrow> ('w peer_world, peer_report) cmd" where
  "execute_peer P run d now w =
     (case outP (pp_execute P run d) w of
        (Inr report, w') \<Rightarrow> (Inr report, w')
      | (Inl e, w') \<Rightarrow> bindC (finish run PEER_FAILED now) (\<lambda>_. raiseC e) w')"

definition launch ::
  "(string \<Rightarrow> string option) \<Rightarrow> (rat \<Rightarrow> string) \<Rightarrow> 'w peer_ports \<Rightarrow> peer_registry \<Rightarrow> string \<Rightarrow> datetime \<Rightarrow> datetime \<Rightarrow> peer_request \<Rightarrow>
   ('w peer_world, peer_outcome) cmd" where
  "launch idna fr P reg uid t0 t1 rq =
     bindC (liftC (launch_checks idna reg uid t0 rq)) (\<lambda>(d, run).
     bindC (put_run run) (\<lambda>_.
     bindC (peer_audit P (rq_actor rq) ''peer_run.launch'' (pr_id run)
       [(''agent'', VStr (pd_name d)), (''targets'', VStrs (rq_targets rq)), (''permit_id'', VStr (rq_permit_id rq))]) (\<lambda>_.
     bindC (execute_peer P run d t1) (\<lambda>report. collect_report idna fr P t1 rq run report))))"

definition stop_peer :: "'w peer_ports \<Rightarrow> datetime \<Rightarrow> string \<Rightarrow> string \<Rightarrow> string \<Rightarrow> ('w peer_world, bool) cmd" where
  "stop_peer P now run_id actor why w =
     (case dict_get (pw_runs w) run_id of
        None \<Rightarrow> (Inr False, w)
      | Some run \<Rightarrow>
          bindC (outP (pp_terminate P run_id)) (\<lambda>terminated.
          bindC (finish run PEER_STOPPED now) (\<lambda>_.
          bindC (peer_audit P actor ''peer_run.stop'' run_id [(''reason'', VStr why), (''terminated'', VBool terminated)]) (\<lambda>_.
          returnC terminated))) w)"

section \<open>Proposals\<close>

record plan_version_proposal =
  pv_run_id :: string
  pv_reason :: string
  pv_subjects :: "string list"
  pv_approved :: bool

definition normalize_asset :: "string \<Rightarrow> string" where
  "normalize_asset a = rstrip_when (\<lambda>c. c = CHR ''/'') a"

definition propose_replan_from_outcome :: "peer_outcome \<Rightarrow> string list \<Rightarrow> plan_version_proposal list" where
  "propose_replan_from_outcome out planned =
     (let seen = map (\<lambda>x. normalize_asset (ob_asset_identity x)) (po_observations out);
          new = filter (\<lambda>a. a \<notin> normalize_asset ` set planned) seen in
      if new = [] then []
      else [\<lparr>pv_run_id = pr_id (po_run out), pv_reason = ''peer_discovered_asset'', pv_subjects = sorted_list_of_set (set new), pv_approved = False\<rparr>])"

section \<open>Reports of Strix\<close>

definition isdigit_char :: "char \<Rightarrow> bool" where
  "isdigit_char c \<longleftrightarrow> is_digit c \<or> (of_char c :: nat) \<in> {178, 179, 185}"

definition normalize_cwe :: "string \<Rightarrow> string result" where
  "normalize_cwe raw =
     (let digits = filter isdigit_char raw in
      if digits = [] then Inr []
      else if list_all is_digit digits then Inr (''CWE-'' @ int_repr (number_of 10 digits))
      else Inl (ValueError (''invalid literal for int() with base 10: '' @ repr_str digits)))"

definition entry_text :: "pydict \<Rightarrow> string \<Rightarrow> string \<Rightarrow> string" where
  "entry_text d k dflt = (if spec_flag d k then py_str (opt_val (dict_get d k)) else dflt)"

definition entry_to_finding :: "pydict \<Rightarrow> string \<Rightarrow> string \<Rightarrow> nat \<Rightarrow> peer_finding option result" where
  "entry_to_finding entry run_id agent index =
     (let target = py_strip (entry_text entry ''target'' []); title = py_strip (entry_text entry ''title'' []) in
      if target = [] \<or> title = [] then Inr None
      else bind_res (normalize_cwe (entry_text entry ''cwe'' [])) (\<lambda>cwe.
        bind_res (PeerAgentFinding_check
          \<lparr>pf_id = ''strix-'' @ run_id @ ''-'' @ nat_repr index, pf_run_id = run_id, pf_agent_name = agent, pf_title = title, pf_asset = target,
           pf_severity_hint = entry_text entry ''severity'' ''info'', pf_cwe = (if cwe = [] then [] else [cwe]),
           pf_cve = (if spec_flag entry ''cve'' then [py_str (opt_val (dict_get entry ''cve''))] else []), pf_owasp = [],
           pf_payload_summary = take 500 (py_strip (entry_text entry ''poc_description'' [])), pf_raw_ref = []\<rparr>) (\<lambda>f. Inr (Some f))))"

fun parse_entries :: "string \<Rightarrow> string \<Rightarrow> nat \<Rightarrow> pyval list \<Rightarrow> (peer_finding list \<times> nat) result" where
  "parse_entries run_id agent index [] = Inr ([], 0)"
| "parse_entries run_id agent index (VDict entry # es) =
     bind_res (entry_to_finding entry run_id agent index) (\<lambda>f.
     bind_res (parse_entries run_id agent (Suc index) es) (\<lambda>(fs, problems).
       Inr (case f of None \<Rightarrow> (fs, Suc problems) | Some x \<Rightarrow> (x # fs, problems))))"
| "parse_entries run_id agent index (_ # es) =
     bind_res (parse_entries run_id agent (Suc index) es) (\<lambda>(fs, problems). Inr (fs, Suc problems))"

definition parse_vulnerabilities_json :: "(string \<Rightarrow> pyval option) \<Rightarrow> string \<Rightarrow> string \<Rightarrow> string \<Rightarrow> (peer_finding list \<times> nat) result" where
  "parse_vulnerabilities_json loads content run_id agent =
     (case loads content of
        None \<Rightarrow> Inl (StrixReportParseError ''invalid JSON'')
      | Some (VList es) \<Rightarrow> parse_entries run_id agent 0 es
      | Some _ \<Rightarrow> Inl (StrixReportParseError ''vulnerabilities.json must be a list''))"

end
