(* ===== verification/Peer_Safety.thy ===== *)
theory Peer_Safety
  imports Peer_Agents
begin

text \<open>
  What holds of peer agents: nothing is executed before the registry, the trust level and the scope agreed; every reported finding
  is accounted for, and the observations are exactly the findings that pass both gates.
\<close>

section \<open>Before the run\<close>

definition target_ok :: "(string \<Rightarrow> string option) \<Rightarrow> scope_snapshot \<Rightarrow> string \<Rightarrow> bool" where
  "target_ok idna sc v \<longleftrightarrow> includes_url idna sc v = Inr True \<or> includes_url idna sc v = Inr False \<and> includes_domain idna sc v = Inr True"

lemma check_targets_Inr: "check_peer_targets idna sc vs = Inr () \<longleftrightarrow> (\<forall>v \<in> set vs. target_ok idna sc v)"
  by (induction vs) (auto simp: target_ok_def bind_res_def split: sum.splits if_splits)

definition launchable :: "(string \<Rightarrow> string option) \<Rightarrow> peer_registry \<Rightarrow> peer_request \<Rightarrow> bool" where
  "launchable idna reg rq \<longleftrightarrow> rq_targets rq \<noteq> [] \<and> (\<forall>v \<in> set (rq_targets rq). target_ok idna (rq_scope rq) v) \<and>
     (\<exists>d. dict_get reg (rq_agent_name rq) = Some d \<and> pd_trust_level d = ADOPTED_EXTERNAL)"

lemma launch_checks_iff: "(\<exists>x. launch_checks idna reg uid now rq = Inr x) \<longleftrightarrow> launchable idna reg rq"
proof -
  have "(\<exists>u. check_peer_targets idna (rq_scope rq) (rq_targets rq) = Inr u) \<longleftrightarrow> (\<forall>v \<in> set (rq_targets rq). target_ok idna (rq_scope rq) v)"
    using check_targets_Inr [of idna "rq_scope rq" "rq_targets rq"] by auto
  then show ?thesis
    by (auto simp: launch_checks_def launchable_def PeerAgentRun_check_def bind_res_Inr_iff split: option.splits if_splits)
qed

text \<open>
  C39. No peer agent runs unchecked: a launch that touches the outside in any way (executing an agent or auditing) or
  stores a run was for a registered agent that is adopted, with at least one target and every target admitted by the
  scope; in every other case it raises and changes nothing.
\<close>

theorem peer_launch_is_gated:
  "if launchable idna reg rq
   then \<exists>d run. launch_checks idna reg uid t0 rq = Inr (d, run) \<and> pr_targets run = rq_targets rq \<and> pr_budget run = pd_default_budget d \<and>
     dict_get reg (rq_agent_name rq) = Some d \<and>
     launch idna fr P reg uid t0 t1 rq w = bindC (put_run run) (\<lambda>_. bindC (peer_audit P (rq_actor rq) ''peer_run.launch'' (pr_id run)
       [(''agent'', VStr (pd_name d)), (''targets'', VStrs (rq_targets rq)), (''permit_id'', VStr (rq_permit_id rq))]) (\<lambda>_.
       bindC (execute_peer P run d t1) (collect_report idna fr P t1 rq run))) w
   else \<exists>e. launch idna fr P reg uid t0 t1 rq w = (Inl e, w)"
proof (cases "launch_checks idna reg uid t0 rq")
  case (Inl e)
  then have "\<not> launchable idna reg rq" using launch_checks_iff [of idna reg uid t0 rq] by auto
  then show ?thesis using Inl by (simp add: launch_def lift_bindC)
next
  case (Inr x)
  then have "launchable idna reg rq" using launch_checks_iff [of idna reg uid t0 rq] by auto
  moreover obtain d run where x: "x = (d, run)" by (cases x)
  moreover have "pr_targets run = rq_targets rq \<and> pr_budget run = pd_default_budget d \<and> dict_get reg (rq_agent_name rq) = Some d"
    using Inr x by (auto simp: launch_checks_def PeerAgentRun_check_def bind_res_Inr_iff split: option.splits if_splits)
  ultimately show ?thesis using Inr by (simp add: launch_def lift_bindC)
qed

section \<open>After the run\<close>

definition verdict :: "(string \<Rightarrow> string option) \<Rightarrow> peer_request \<Rightarrow> peer_finding \<Rightarrow> rejection_reason option" where
  "verdict idna rq f =
     (if finding_in_scope idna f (rq_scope rq) \<noteq> Inr True then Some OUT_OF_SCOPE
      else if \<not> hits_required_catalog f (rq_catalog rq) (rq_asset_type rq) then Some OUT_OF_CATALOG else None)"

lemma verdict_cases:
  "finding_in_scope idna f (rq_scope rq) = Inr False \<Longrightarrow> verdict idna rq f = Some OUT_OF_SCOPE"
  "finding_in_scope idna f (rq_scope rq) = Inr True \<Longrightarrow> \<not> hits_required_catalog f (rq_catalog rq) (rq_asset_type rq) \<Longrightarrow> verdict idna rq f = Some OUT_OF_CATALOG"
  "finding_in_scope idna f (rq_scope rq) = Inr True \<Longrightarrow> hits_required_catalog f (rq_catalog rq) (rq_asset_type rq) \<Longrightarrow> verdict idna rq f = None"
  by (simp_all add: verdict_def)

lemma normalize_all_exact:
  "normalize_all idna run (rq_scope rq) (rq_catalog rq) (rq_asset_type rq) fs = Inr (os, rs) \<Longrightarrow>
     map (\<lambda>f. normalize_finding f run) (filter (\<lambda>f. verdict idna rq f = None) fs) = map Inr os \<and>
     map (\<lambda>r. (rj_finding r, rj_reason r)) rs =
       map (\<lambda>f. (f, the (verdict idna rq f))) (filter (\<lambda>f. verdict idna rq f \<noteq> None) fs)"
  by (induction fs arbitrary: os rs) (auto simp: bind_res_Inr_iff verdict_cases split: if_splits)

lemma normalize_finding_Inr:
  "normalize_finding f run = Inr x \<Longrightarrow> ob_external_id x = pf_id f \<and> ob_asset_identity x = pf_asset f \<and> ob_confidence x = 1 / 2 \<and>
     as_name (ob_source x) = ''peer:'' @ pr_agent_name run"
  by (auto simp: normalize_finding_def AdapterSource_check_def Observation_check_def PEER_CONFIDENCE_def bind_res_Inr_iff split: prod.splits if_splits)

lemma collect_Inr:
  assumes "collect_report idna fr P now rq run report w = (Inr out, w')"
  shows "normalize_all idna run (rq_scope rq) (rq_catalog rq) (rq_asset_type rq) (rp_findings report) = Inr (po_observations out, po_rejected out) \<and>
     po_run out = run\<lparr>pr_status := (if rp_wall_seconds report > of_int (pb_max_wall_seconds (pr_budget run)) \<or>
       rp_cost_units report > pb_max_cost_units (pr_budget run) then BUDGET_EXCEEDED else PEER_COMPLETED), pr_finished_at := Some now\<rparr>"
  using assms
  by (auto simp: collect_report_def Let_def bindC_Inr liftC_def finish_def put_run_def PeerAgentRun_check_def split: if_splits prod.splits)

text \<open>
  Every finding of a peer agent is accounted for: when a run is collected, the observations are, in order, the
  normal forms of exactly the reported findings that lie inside the scope and hit a required class, each with
  confidence one half and the agent named as its source, and all the other findings are returned as
  rejected with the gate that refused them. A report over its budget changes the status, not the findings.
\<close>

theorem peer_findings_accounted:
  assumes "collect_report idna fr P now rq run report w = (Inr out, w')"
  shows "map ob_external_id (po_observations out) = map pf_id (filter (\<lambda>f. verdict idna rq f = None) (rp_findings report)) \<and>
     map (\<lambda>r. (rj_finding r, rj_reason r)) (po_rejected out) =
       map (\<lambda>f. (f, the (verdict idna rq f))) (filter (\<lambda>f. verdict idna rq f \<noteq> None) (rp_findings report)) \<and>
     length (po_observations out) + length (po_rejected out) = length (rp_findings report) \<and>
     (\<forall>x \<in> set (po_observations out). ob_confidence x = 1 / 2 \<and> as_name (ob_source x) = ''peer:'' @ pr_agent_name run) \<and>
     (pr_status (po_run out) = BUDGET_EXCEEDED \<longleftrightarrow> rp_wall_seconds report > of_int (pb_max_wall_seconds (pr_budget run)) \<or>
       rp_cost_units report > pb_max_cost_units (pr_budget run))"
proof -
  note c = collect_Inr [OF assms]
  note n = normalize_all_exact [OF conjunct1 [OF c]]
  have ids: "map pf_id fs = map ob_external_id xs \<and> (\<forall>x \<in> set xs. ob_confidence x = 1 / 2 \<and> as_name (ob_source x) = ''peer:'' @ pr_agent_name run)"
    if "map (\<lambda>f. normalize_finding f run) fs = map Inr xs" for fs xs
    using that
  proof (induction fs arbitrary: xs)
    case (Cons f fs)
    then show ?case using normalize_finding_Inr [of f run] by (cases xs) auto
  qed simp
  have "length (filter (\<lambda>f. verdict idna rq f = None) (rp_findings report)) = length (po_observations out)"
    "length (filter (\<lambda>f. verdict idna rq f \<noteq> None) (rp_findings report)) = length (po_rejected out)"
    using arg_cong [OF conjunct1 [OF n], of length] arg_cong [OF conjunct2 [OF n], of length] by (simp_all only: length_map)
  then have "length (po_observations out) + length (po_rejected out) = length (rp_findings report)"
    using sum_length_filter_compl [of "\<lambda>f. verdict idna rq f = None" "rp_findings report"] by simp
  moreover have "pr_status (po_run out) = BUDGET_EXCEEDED \<longleftrightarrow> rp_wall_seconds report > of_int (pb_max_wall_seconds (pr_budget run)) \<or>
       rp_cost_units report > pb_max_cost_units (pr_budget run)"
    using conjunct2 [OF c] by simp
  ultimately show ?thesis using conjunct2 [OF n] ids [OF conjunct1 [OF n]] by (intro conjI) simp_all
qed

section \<open>Limits of the gates\<close>

text \<open>A host without a scheme is refused with an error: the first query raises before the second is asked.\<close>

lemma bare_host_target_raises: "check_peer_targets idna sc [''app.example''] = Inl (DomainValidationError ''URL must use http or https'')"
proof -
  have "urlsplit (py_strip ''app.example'') = Inr \<lparr>u_scheme = [], u_netloc = [], u_path = ''app.example'', u_query = [], u_fragment = []\<rparr>"
    by code_simp
  then show ?thesis by (simp add: includes_url_def normalize_url_def Let_def py_lower_def)
qed

text \<open>
  A URL rule admits targets below its path; a target elsewhere on the host is refused by the first query and admitted
  by the second, which reads only the host of a URL rule.
\<close>

definition path_scope :: scope_snapshot where
  "path_scope = \<lparr>sc_id = ''s'', sc_project_id = ''p'', sc_include = [''https://app.example/shop/''], sc_exclude = [], sc_ports = [443],
     sc_limits = \<lparr>requests_per_second = 1, concurrency = 1, max_requests = 1\<rparr>, sc_approved_by = ''h'', sc_approved_at = 0, sc_digest = ''d'',
     sc_cloud_accounts = []\<rparr>"

lemma launch_ignores_url_path:
  "includes_url (\<lambda>_. None) path_scope ''https://app.example/admin'' = Inr False \<and>
   check_peer_targets (\<lambda>_. None) path_scope [''https://app.example/admin''] = Inr ()"
  by code_simp

text \<open>A finding whose asset does not parse makes the collection raise: the run is left running and every finding is lost.\<close>

lemma malformed_asset_strands_run:
  assumes "normalize_all idna run (rq_scope rq) (rq_catalog rq) (rq_asset_type rq) (rp_findings report) = Inl e"
    and "rp_wall_seconds report \<le> of_int (pb_max_wall_seconds (pr_budget run))" "rp_cost_units report \<le> pb_max_cost_units (pr_budget run)"
  shows "collect_report idna fr P now rq run report w = (Inl e, w)"
  using assms by (simp add: collect_report_def lift_bindC not_less [symmetric])

lemma malformed_asset_raises: "pf_asset f = ''a..b'' \<Longrightarrow> \<exists>e. finding_in_scope (\<lambda>_. None) f path_scope = Inl e"
proof -
  assume "pf_asset f = ''a..b''"
  moreover have "\<exists>e. (let asset = py_strip ''a..b'' in
      if starts_with asset ''http://'' \<or> starts_with asset ''https://'' then includes_url (\<lambda>_. None) path_scope asset
      else includes_domain (\<lambda>_. None) path_scope asset) = Inl e"
    by (rule exI [of _ "DomainValidationError ''invalid domain''"]) code_simp
  ultimately show ?thesis by (simp add: finding_in_scope_def)
qed

text \<open>Stopping a run that has finished rewrites its status.\<close>

lemma stop_rewrites_finished_run:
  assumes "dict_get (pw_runs w) i = Some run" "pr_id run = i" "i \<noteq> []" "pr_targets run \<noteq> []" "\<And>out. pp_terminate P i out = (Inr False, out)"
    "\<And>c out. pp_audit P c out = (Inr (), out)"
  shows "\<exists>run'. dict_get (pw_runs (snd (stop_peer P now i actor why w))) i = Some run' \<and> pr_status run' = PEER_STOPPED"
  using assms by (simp add: stop_peer_def outP_def bindC_def finish_def liftC_def PeerAgentRun_check_def put_run_def peer_audit_def)

section \<open>Witnesses\<close>

definition quiet_ports :: "unit peer_ports" where
  "quiet_ports = \<lparr>pp_execute = \<lambda>run d w. (Inl (RunnerError []), w), pp_terminate = \<lambda>i w. (Inr True, w), pp_audit = \<lambda>c w. (Inr (), w)\<rparr>"

definition sample_request :: peer_request where
  "sample_request = \<lparr>rq_assessment_id = ''a'', rq_agent_name = ''strix'', rq_targets = [''https://app.example/shop/x''], rq_scope = path_scope,
     rq_catalog = \<lparr>tc_version = ''1'', tc_mappings = [(WEB_APP, [\<lparr>rt_id = ''xss'', rt_cwe = [''CWE-79''], rt_owasp = [], rt_risk = ACTIVE\<rparr>])]\<rparr>,
     rq_asset_type = WEB_APP, rq_actor = ''h'', rq_permit_id = ''p''\<rparr>"

definition sample_peer_run :: peer_run where
  "sample_peer_run = \<lparr>pr_id = ''peer-run-1'', pr_agent_name = ''strix'', pr_agent_version = ''1'', pr_assessment_id = ''a'',
     pr_targets = [''https://app.example/shop/x''], pr_budget = \<lparr>pb_max_wall_seconds = 60, pb_max_cost_units = 1\<rparr>, pr_permit_id = ''p'',
     pr_status = PEER_RUNNING, pr_started_at = Some 0, pr_finished_at = None\<rparr>"

definition sample_peer_finding :: "string \<Rightarrow> string \<Rightarrow> peer_finding" where
  "sample_peer_finding i asset = \<lparr>pf_id = i, pf_run_id = ''peer-run-1'', pf_agent_name = ''strix'', pf_title = ''xss'', pf_asset = asset,
     pf_severity_hint = ''high'', pf_cwe = [''CWE-79''], pf_cve = [], pf_owasp = [], pf_payload_summary = [], pf_raw_ref = []\<rparr>"

definition sample_report :: peer_report where
  "sample_report = \<lparr>rp_run_id = ''peer-run-1'', rp_findings = [sample_peer_finding ''f1'' ''https://app.example/shop/x'',
     sample_peer_finding ''f2'' ''https://other.example/''], rp_wall_seconds = 90, rp_cost_units = 0, rp_exit_code = 0\<rparr>"

definition sample_collection :: "peer_outcome result \<times> unit peer_world" where
  "sample_collection = collect_report (\<lambda>_. None) (\<lambda>_. ''90.0'') quiet_ports 1 sample_request sample_peer_run sample_report \<lparr>pw_runs = [], pw_out = ()\<rparr>"

lemma sample_collection_ok: "case fst sample_collection of Inl e \<Rightarrow> False | Inr out \<Rightarrow> length (po_observations out) = 1"
  by code_simp

theorem peer_findings_accounted_witness:
  "\<exists>out. fst sample_collection = Inr out \<and> length (po_observations out) + length (po_rejected out) = 2 \<and> pr_status (po_run out) = BUDGET_EXCEEDED"
proof -
  obtain out w' where c: "collect_report (\<lambda>_. None) (\<lambda>_. ''90.0'') quiet_ports 1 sample_request sample_peer_run sample_report \<lparr>pw_runs = [], pw_out = ()\<rparr> = (Inr out, w')"
    using sample_collection_ok by (cases sample_collection) (auto simp: sample_collection_def split: sum.splits)
  have "length (po_observations out) + length (po_rejected out) = length (rp_findings sample_report) \<and>
      (pr_status (po_run out) = BUDGET_EXCEEDED \<longleftrightarrow> rp_wall_seconds sample_report > of_int (pb_max_wall_seconds (pr_budget sample_peer_run)) \<or>
       rp_cost_units sample_report > pb_max_cost_units (pr_budget sample_peer_run))"
    using peer_findings_accounted [OF c] by blast
  then have "length (po_observations out) + length (po_rejected out) = 2 \<and> pr_status (po_run out) = BUDGET_EXCEEDED"
    by (simp add: sample_report_def sample_peer_run_def)
  then show ?thesis using c by (simp add: sample_collection_def)
qed

end
