(* ===== verification/Nft_Scope.thy ===== *)
theory Nft_Scope
  imports Execution
begin

text \<open>
  Packet-level enforcement of a scope (\<^verbatim>\<open>infrastructure/egress/nft_scope.py\<close>): the include rules are resolved, classified and
  pushed into the allow and block sets of nftables. The resolver (asked twice for every name), the \<^verbatim>\<open>nft\<close> command and the audit
  sink act on an outside of type \<^typ>\<open>'w\<close>. The executor calls \<open>apply_scope\<close> through its port \<^const>\<open>xp_nft\<close>.
\<close>

section \<open>Model\<close>

record 'w nft_ports =
  np_resolve :: "string \<Rightarrow> ('w, string list) cmd"
  np_run :: "string list \<Rightarrow> ('w, unit) cmd"
  np_audit :: "(audit_call \<Rightarrow> ('w, unit) cmd) option"
  np_table :: string
  np_netns :: "string option"
  np_blocked :: "ip_net list"

record scope_enforcement =
  se_allowed :: "string list"
  se_blocked :: "string list"
  se_rejected :: "string list"

definition host_or_network :: "string \<Rightarrow> string result" where
  "host_or_network entry =
     (if starts_with entry ''http://'' \<or> starts_with entry ''https://'' then
        bind_res (urlsplit entry) (\<lambda>u. Inr (url_hostname u))
      else if CHR ''/'' \<notin> set entry \<and> count_list entry (CHR '':'') = 1 then
        (let (host, _, port) = rpartition_on (CHR '':'') entry in
         if port \<noteq> [] \<and> list_all (\<lambda>c. is_digit c \<or> (of_char c :: nat) \<in> {178, 179, 185}) port then Inr host else Inr entry)
      else Inr entry)"

definition nft_run :: "'w nft_ports \<Rightarrow> string list \<Rightarrow> ('w, unit) cmd" where
  "nft_run P args = np_run P (case np_netns P of None \<Rightarrow> args | Some ns \<Rightarrow> [''ip'', ''netns'', ''exec'', ns] @ args)"

definition nft_record :: "'w nft_ports \<Rightarrow> string \<Rightarrow> string \<Rightarrow> ('w, unit) cmd" where
  "nft_record P action rid =
     (case np_audit P of None \<Rightarrow> returnC ()
      | Some audit \<Rightarrow> audit \<lparr>c_actor = ''nft_scope'', c_action = action, c_resource_type = ''scope'', c_resource_id = rid, c_payload = []\<rparr>)"

text \<open>\<^verbatim>\<open>a.overlaps(b)\<close>: an end of one network lies in the other.\<close>

definition broadcast :: "ip_net \<Rightarrow> ip_addr" where
  "broadcast n =
     (case net_addr n of
        V4 v \<Rightarrow> V4 (v + 2 ^ nat (32 - net_prefix n) - 1)
      | V6 v sc \<Rightarrow> V6 (v + 2 ^ nat (128 - net_prefix n) - 1) None)"

definition overlaps :: "ip_net \<Rightarrow> ip_net \<Rightarrow> bool" where
  "overlaps a b \<longleftrightarrow> in_network (net_addr a) b \<or> in_network (broadcast a) b \<or> in_network (net_addr b) a \<or> in_network (broadcast b) a"

definition classify_network :: "'w nft_ports \<Rightarrow> string \<Rightarrow> string \<Rightarrow> scope_enforcement \<Rightarrow> ('w, scope_enforcement) cmd" where
  "classify_network P cidr entry acc =
     (case ip_network cidr of
        None \<Rightarrow> returnC (acc\<lparr>se_rejected := se_rejected acc @ [entry]\<rparr>)
      | Some n \<Rightarrow>
          if list_ex (overlaps n) (np_blocked P) then
            bindC (nft_record P ''egress.denied_blocked'' cidr) (\<lambda>_. returnC (acc\<lparr>se_rejected := se_rejected acc @ [entry]\<rparr>))
          else if cidr \<notin> set (se_allowed acc) then
            bindC (nft_record P ''egress.allowed'' cidr) (\<lambda>_. returnC (acc\<lparr>se_allowed := se_allowed acc @ [cidr]\<rparr>))
          else returnC acc)"

definition resolve_with_rebinding_check :: "'w nft_ports \<Rightarrow> string \<Rightarrow> ('w, string list) cmd" where
  "resolve_with_rebinding_check P host =
     (if ip_address host \<noteq> None then returnC [host]
      else bindC (np_resolve P host) (\<lambda>first.
        bindC (np_resolve P host) (\<lambda>second.
          if first = [] then raiseC (DnsRebindingError (host @ '': unresolvable''))
          else if set first \<noteq> set second then
            raiseC (DnsRebindingError (host @ '': resolution changed '' @ py_repr (VStrs (sorted_list_of_set (set first))) @ '' -> '' @
              py_repr (VStrs (sorted_list_of_set (set second)))))
          else returnC (sorted_list_of_set (set first)))))"

fun classify_ips :: "'w nft_ports \<Rightarrow> string \<Rightarrow> string list \<Rightarrow> scope_enforcement \<Rightarrow> ('w, scope_enforcement) cmd" where
  "classify_ips P entry [] acc = returnC acc"
| "classify_ips P entry (ip # ips) acc =
     (if is_blocked_destination (np_blocked P) ip then
        bindC (nft_record P ''egress.denied_blocked'' ip) (\<lambda>_.
          classify_ips P entry ips (acc\<lparr>se_blocked := (if ip \<in> set (se_blocked acc) then se_blocked acc else se_blocked acc @ [ip]),
            se_rejected := se_rejected acc @ [entry]\<rparr>))
      else if ip \<notin> set (se_allowed acc) then
        bindC (nft_record P ''egress.allowed'' ip) (\<lambda>_. classify_ips P entry ips (acc\<lparr>se_allowed := se_allowed acc @ [ip]\<rparr>))
      else classify_ips P entry ips acc)"

definition reject_rebinding :: "'w nft_ports \<Rightarrow> string \<Rightarrow> scope_enforcement \<Rightarrow> ('w, scope_enforcement) cmd" where
  "reject_rebinding P entry acc =
     bindC (nft_record P ''egress.rejected_rebinding'' entry) (\<lambda>_. returnC (acc\<lparr>se_rejected := se_rejected acc @ [entry]\<rparr>))"

definition classify_entry :: "'w nft_ports \<Rightarrow> string \<Rightarrow> scope_enforcement \<Rightarrow> ('w, scope_enforcement) cmd" where
  "classify_entry P entry acc =
     bindC (liftC (host_or_network entry)) (\<lambda>host.
       if host = [] then returnC (acc\<lparr>se_rejected := se_rejected acc @ [entry]\<rparr>)
       else if CHR ''/'' \<in> set host then classify_network P host entry acc
       else (\<lambda>w. case resolve_with_rebinding_check P host w of
               (Inl (DnsRebindingError m), w') \<Rightarrow> reject_rebinding P entry acc w'
             | (Inl e, w') \<Rightarrow> (Inl e, w')
             | (Inr ips, w') \<Rightarrow> classify_ips P entry ips acc w'))"

fun classify_entries :: "'w nft_ports \<Rightarrow> string list \<Rightarrow> scope_enforcement \<Rightarrow> ('w, scope_enforcement) cmd" where
  "classify_entries P [] acc = returnC acc"
| "classify_entries P (e # es) acc = bindC (classify_entry P e acc) (classify_entries P es)"

fun add_elements :: "'w nft_ports \<Rightarrow> string \<Rightarrow> string list \<Rightarrow> ('w, unit) cmd" where
  "add_elements P name [] = returnC ()"
| "add_elements P name (e # es) =
     bindC (nft_run P [''nft'', ''add'', ''element'', ''inet'', np_table P, name, ''{'', e, ''}'']) (\<lambda>_. add_elements P name es)"

definition apply_scope :: "'w nft_ports \<Rightarrow> scope_snapshot \<Rightarrow> ('w, scope_enforcement) cmd" where
  "apply_scope P sc =
     bindC (classify_entries P (sc_include sc) \<lparr>se_allowed = [], se_blocked = [], se_rejected = []\<rparr>) (\<lambda>acc.
     bindC (add_elements P ''blocked_targets'' (se_blocked acc)) (\<lambda>_.
     bindC (add_elements P ''allowed_targets'' (se_allowed acc)) (\<lambda>_. returnC acc)))"

definition revoke_scope :: "'w nft_ports \<Rightarrow> ('w, unit) cmd" where
  "revoke_scope P =
     bindC (nft_run P [''nft'', ''flush'', ''set'', ''inet'', np_table P, ''allowed_targets'']) (\<lambda>_.
       nft_run P [''nft'', ''flush'', ''set'', ''inet'', np_table P, ''blocked_targets''])"

section \<open>Networks are nested or disjoint\<close>

lemma mask_of_mask: "p \<le> q \<Longrightarrow> mask_bits width p (mask_bits width q x) = mask_bits width p x"
proof -
  assume "p \<le> q"
  then obtain c where c: "nat (width - p) = nat (width - q) + c"
    using le_Suc_ex [of "nat (width - q)" "nat (width - p)"] by (metis diff_left_mono nat_mono)
  have "x div 2 ^ a * 2 ^ a div (2 ^ a * 2 ^ c) = x div (2 ^ a * 2 ^ c)" for a :: nat
    by (simp add: zdiv_zmult2_eq)
  then show ?thesis by (simp add: mask_bits_def c power_add)
qed

lemma shared_address_overlaps:
  assumes "in_network x a" "in_network x b"
  shows "overlaps a b"
proof (cases "net_prefix b \<le> net_prefix a")
  case True
  then have "in_network (net_addr a) b"
    using assms mask_of_mask [OF True] by (cases x) (auto split: ip_addr.splits)
  then show ?thesis by (simp add: overlaps_def)
next
  case False
  then have "in_network (net_addr b) a"
    using assms mask_of_mask [of "net_prefix a" "net_prefix b"] by (cases x) (auto split: ip_addr.splits)
  then show ?thesis by (simp add: overlaps_def)
qed

section \<open>The allow set stays clear of the blocked ranges\<close>

definition clear_of :: "ip_net list \<Rightarrow> string \<Rightarrow> bool" where
  "clear_of blocked e \<longleftrightarrow>
     (\<exists>a. ip_address e = Some a \<and> (\<forall>b \<in> set blocked. \<not> in_network a b)) \<or>
     (\<exists>n. ip_network e = Some n \<and> (\<forall>x b. in_network x n \<and> b \<in> set blocked \<longrightarrow> \<not> in_network x b))"

lemma clear_network: "ip_network e = Some n \<Longrightarrow> \<not> list_ex (overlaps n) blocked \<Longrightarrow> clear_of blocked e"
  using shared_address_overlaps by (fastforce simp: clear_of_def list_ex_iff)

lemma clear_address: "\<not> is_blocked_destination blocked ip \<Longrightarrow> clear_of blocked ip"
  by (auto simp: is_blocked_destination_def clear_of_def list_ex_iff split: option.splits)

definition acc_ok :: "'w nft_ports \<Rightarrow> scope_enforcement \<Rightarrow> bool" where
  "acc_ok P acc \<longleftrightarrow> list_all (clear_of (np_blocked P)) (se_allowed acc) \<and> list_all (is_blocked_destination (np_blocked P)) (se_blocked acc)"

lemma acc_ok_reject [simp]: "acc_ok P (acc\<lparr>se_rejected := r\<rparr>) = acc_ok P acc"
  by (simp add: acc_ok_def)

lemma classify_ips_ok: "classify_ips P entry ips acc w = (Inr acc', w') \<Longrightarrow> acc_ok P acc \<Longrightarrow> acc_ok P acc'"
proof (induction ips arbitrary: acc w)
  case (Cons ip ips)
  let ?blocked = "acc\<lparr>se_blocked := (if ip \<in> set (se_blocked acc) then se_blocked acc else se_blocked acc @ [ip]), se_rejected := se_rejected acc @ [entry]\<rparr>"
  let ?allowed = "acc\<lparr>se_allowed := se_allowed acc @ [ip]\<rparr>"
  have b: "is_blocked_destination (np_blocked P) ip \<Longrightarrow> acc_ok P ?blocked" using Cons.prems(2) by (simp add: acc_ok_def)
  have a: "\<not> is_blocked_destination (np_blocked P) ip \<Longrightarrow> acc_ok P ?allowed"
    using Cons.prems(2) clear_address by (simp add: acc_ok_def)
  show ?case
    using Cons.prems Cons.IH [OF _ b] Cons.IH [OF _ a] Cons.IH [of acc]
    by (auto simp: bindC_Inr split: if_splits)
qed simp

lemma classify_network_ok: "classify_network P cidr entry acc w = (Inr acc', w') \<Longrightarrow> acc_ok P acc \<Longrightarrow> acc_ok P acc'"
  by (auto simp: classify_network_def bindC_Inr acc_ok_def dest: clear_network split: option.splits if_splits)

lemma classify_entry_ok: "classify_entry P e acc w = (Inr acc', w') \<Longrightarrow> acc_ok P acc \<Longrightarrow> acc_ok P acc'"
  by (auto simp: classify_entry_def reject_rebinding_def lift_bindC bindC_Inr split: sum.splits if_splits prod.splits exn.splits
      dest: classify_network_ok classify_ips_ok)

lemma classify_entries_ok: "classify_entries P es acc w = (Inr acc', w') \<Longrightarrow> acc_ok P acc \<Longrightarrow> acc_ok P acc'"
  by (induction es arbitrary: acc w) (auto simp: bindC_Inr dest: classify_entry_ok)

text \<open>The commands pushed, with an \<^verbatim>\<open>nft\<close> that records them.\<close>

definition pushes :: "'w nft_ports \<Rightarrow> string \<Rightarrow> string list \<Rightarrow> string list list" where
  "pushes P name es = map (\<lambda>e. (case np_netns P of None \<Rightarrow> [] | Some ns \<Rightarrow> [''ip'', ''netns'', ''exec'', ns]) @
     [''nft'', ''add'', ''element'', ''inet'', np_table P, name, ''{'', e, ''}'']) es"

definition logged_nft :: "'w nft_ports \<Rightarrow> ('w \<times> string list list) nft_ports" where
  "logged_nft P = \<lparr>np_resolve = \<lambda>h (w, sent). (case np_resolve P h w of (r, w') \<Rightarrow> (r, (w', sent))),
     np_run = \<lambda>args (w, sent). (case np_run P args w of (r, w') \<Rightarrow> (r, (w', sent @ [args]))),
     np_audit = map_option (\<lambda>audit c (w, sent). case audit c w of (r, w') \<Rightarrow> (r, (w', sent))) (np_audit P),
     np_table = np_table P, np_netns = np_netns P, np_blocked = np_blocked P\<rparr>"

lemma keeps_log_record: "keeps snd (nft_record (logged_nft P) action rid)"
  by (auto simp: keeps_def nft_record_def logged_nft_def split: option.splits prod.splits)

lemma keeps_log_resolve: "keeps snd (resolve_with_rebinding_check (logged_nft P) host)"
  unfolding resolve_with_rebinding_check_def
  by (intro keeps_if keeps_bindC) (auto simp: keeps_def logged_nft_def split: prod.splits)

lemma keeps_log_ips: "keeps snd (classify_ips (logged_nft P) entry ips acc)"
  by (induction ips arbitrary: acc) (auto intro!: keeps_bindC keeps_log_record simp: keeps_readonly)

lemma keeps_log_network: "keeps snd (classify_network (logged_nft P) cidr entry acc)"
  unfolding classify_network_def by (auto intro!: keeps_bindC keeps_log_record simp: keeps_readonly split: option.split)

lemma keeps_log_reject: "keeps snd (reject_rebinding (logged_nft P) e acc)"
  unfolding reject_rebinding_def by (intro keeps_bindC keeps_log_record) (simp add: keeps_readonly)

lemma keeps_log_entry: "keeps snd (classify_entry (logged_nft P) e acc)"
proof -
  have "keeps snd (\<lambda>w. case resolve_with_rebinding_check (logged_nft P) host w of
      (Inl (DnsRebindingError m), w') \<Rightarrow> reject_rebinding (logged_nft P) e acc w' | (Inl x, w') \<Rightarrow> (Inl x, w')
    | (Inr ips, w') \<Rightarrow> classify_ips (logged_nft P) e ips acc w')" for host
    unfolding keeps_def
  proof
    fix w
    obtain r w' where r: "resolve_with_rebinding_check (logged_nft P) host w = (r, w')" by (rule prod.exhaust)
    have "snd w' = snd w" using keepsD [OF keeps_log_resolve r] .
    moreover have "snd (snd (reject_rebinding (logged_nft P) e acc w')) = snd w'"
      "snd (snd (classify_ips (logged_nft P) e ips acc w')) = snd w'" for ips
      using keeps_log_reject [of P e acc] keeps_log_ips [of P e _ acc] unfolding keeps_def by blast+
    ultimately show "snd (snd (case resolve_with_rebinding_check (logged_nft P) host w of
        (Inl (DnsRebindingError m), w') \<Rightarrow> reject_rebinding (logged_nft P) e acc w' | (Inl x, w') \<Rightarrow> (Inl x, w')
      | (Inr ips, w') \<Rightarrow> classify_ips (logged_nft P) e ips acc w')) = snd w"
      unfolding r by (simp split: sum.split exn.split)
  qed
  then show ?thesis
    unfolding classify_entry_def by (auto intro!: keeps_bindC keeps_log_network simp: keeps_readonly)
qed

lemma keeps_log_entries: "keeps snd (classify_entries (logged_nft P) es acc)"
  by (induction es arbitrary: acc) (auto intro!: keeps_bindC keeps_log_entry simp: keeps_readonly)

lemma add_elements_log:
  "add_elements (logged_nft P) name es w = (Inr u, w') \<Longrightarrow> snd w' = snd w @ pushes P name es"
  by (induction es arbitrary: w) (auto simp: bindC_Inr nft_run_def logged_nft_def pushes_def split: prod.splits option.splits)

text \<open>
  C17. The packet filter never allows a blocked range: whatever the resolver answers and whatever the scope includes,
  when a scope has been applied, the commands it gave are those that add the blocked and then the allowed elements, every
  allowed element is an address outside all blocked ranges or a network that shares no address with one, and
  every element of the block set is a destination the egress guard blocks.
\<close>

theorem nft_never_allows_blocked:
  assumes "apply_scope (logged_nft P) sc (w, sent) = (Inr res, (w', sent'))"
  shows "sent' = sent @ pushes P ''blocked_targets'' (se_blocked res) @ pushes P ''allowed_targets'' (se_allowed res) \<and>
     (\<forall>e \<in> set (se_allowed res). clear_of (np_blocked P) e) \<and> (\<forall>e \<in> set (se_blocked res). is_blocked_destination (np_blocked P) e)"
proof -
  from assms obtain w1 w2 where c: "classify_entries (logged_nft P) (sc_include sc) \<lparr>se_allowed = [], se_blocked = [], se_rejected = []\<rparr> (w, sent) = (Inr res, w1)"
    and b: "add_elements (logged_nft P) ''blocked_targets'' (se_blocked res) w1 = (Inr (), w2)"
    and a: "add_elements (logged_nft P) ''allowed_targets'' (se_allowed res) w2 = (Inr (), (w', sent'))"
    by (auto simp: apply_scope_def bindC_Inr)
  have "snd w1 = sent" using keepsD [OF keeps_log_entries c] by simp
  moreover have "acc_ok (logged_nft P) res" using classify_entries_ok [OF c] by (simp add: acc_ok_def)
  moreover have "np_blocked (logged_nft P) = np_blocked P" by (simp add: logged_nft_def)
  ultimately show ?thesis
    using add_elements_log [OF b] add_elements_log [OF a] by (auto simp: acc_ok_def list_all_iff)
qed

text \<open>The exclude rules of the scope play no part: a network with an excluded address inside is allowed whole.\<close>

lemma apply_scope_ignores_exclusions: "apply_scope P (sc\<lparr>sc_exclude := xs\<rparr>) = apply_scope P sc"
  by (simp add: apply_scope_def)

text \<open>A name that resolves differently the second time is never allowed.\<close>

lemma rebinding_is_rejected:
  assumes "ip_address host = None" "np_resolve P host w = (Inr first, w1)" "np_resolve P host w1 = (Inr second, w2)" "set first \<noteq> set second"
  shows "\<exists>m. resolve_with_rebinding_check P host w = (Inl (DnsRebindingError m), w2)"
  using assms by (simp add: resolve_with_rebinding_check_def)

section \<open>Witness\<close>

definition sample_nft :: "unit nft_ports" where
  "sample_nft = \<lparr>np_resolve = \<lambda>h w. (Inr [''127.0.0.1'', ''10.1.1.1''], w), np_run = \<lambda>args w. (Inr (), w), np_audit = None, np_table = ''secopent_egress'',
     np_netns = None, np_blocked = List.map_filter ip_network DEFAULT_BLOCKED_CIDRS\<rparr>"

definition nft_scope :: scope_snapshot where
  "nft_scope = \<lparr>sc_id = ''s'', sc_project_id = ''p'', sc_include = [''10.0.0.0/24'', ''app.example'', ''127.0.0.0/30''], sc_exclude = [], sc_ports = [443],
     sc_limits = \<lparr>requests_per_second = 1, concurrency = 1, max_requests = 1\<rparr>, sc_approved_by = ''h'', sc_approved_at = 0, sc_digest = ''d'',
     sc_cloud_accounts = []\<rparr>"

lemma sample_nft_run:
  "case fst (apply_scope (logged_nft sample_nft) nft_scope ((), [])) of Inl e \<Rightarrow> False
   | Inr res \<Rightarrow> se_allowed res = [''10.0.0.0/24'', ''10.1.1.1''] \<and> se_blocked res = [''127.0.0.1'']"
  by code_simp

theorem nft_never_allows_blocked_witness:
  "clear_of (np_blocked sample_nft) ''10.0.0.0/24'' \<and> is_blocked_destination (np_blocked sample_nft) ''127.0.0.1''"
proof -
  obtain res w' sent' where r: "apply_scope (logged_nft sample_nft) nft_scope ((), []) = (Inr res, (w', sent'))"
    and e: "se_allowed res = [''10.0.0.0/24'', ''10.1.1.1'']" "se_blocked res = [''127.0.0.1'']"
    using sample_nft_run by (cases "apply_scope (logged_nft sample_nft) nft_scope ((), [])") (auto split: sum.splits)
  show ?thesis using nft_never_allows_blocked [OF r] by (simp add: e)
qed

end
