(* ===== verification/Containers.thy ===== *)
theory Containers
  imports Orchestration Findings Scope
begin

text \<open>
  How a plan step becomes a container: the docker command line and its execution
  (\<^verbatim>\<open>infrastructure/adapters/subprocess_executor.py\<close>), the catalog of images
  (\<^verbatim>\<open>infrastructure/adapters/image_catalog.py\<close>), one scan with its parser
  (\<^verbatim>\<open>infrastructure/adapters/real_scan.py\<close>), the step runner that scans every target
  (\<^verbatim>\<open>infrastructure/adapters/step_runner.py\<close>) and its production wiring
  (\<^verbatim>\<open>interfaces/api/routers/assessments.py\<close>). Starting a process, the text of an exception, the
  temporary directory, whether a path is a file, and the parsers of the single tools are
  parameters. Metrics have no effect on the modelled state.
\<close>

section \<open>Paths\<close>

text \<open>\<^verbatim>\<open>Path(s)\<close> on a POSIX system: its root, and its parts without empty and dot parts.\<close>

definition path_root :: "string \<Rightarrow> string" where
  "path_root s =
     (if starts_with s ''//'' \<and> \<not> starts_with s ''///'' then ''//''
      else if starts_with s ''/'' then ''/'' else [])"

definition path_parts :: "string \<Rightarrow> string list" where
  "path_parts s = filter (\<lambda>p. p \<noteq> [] \<and> p \<noteq> ''.'') (split_on (CHR ''/'') s)"

definition path_str :: "string \<Rightarrow> string" where
  "path_str s = (if path_root s = [] \<and> path_parts s = [] then ''.'' else path_root s @ join ''/'' (path_parts s))"

definition path_name :: "string \<Rightarrow> string" where
  "path_name s = (if path_parts s = [] then [] else last (path_parts s))"

section \<open>The docker command\<close>

record container_result =
  cr_stdout :: string
  cr_stderr :: string
  cr_exit_code :: int
  cr_artifacts_dir :: string

record container_call =
  cc_image_digest :: string
  cc_command :: "string list"
  cc_mounts :: "(string \<times> string) list"
  cc_network_policy :: string
  cc_resource_limits :: pydict
  cc_capabilities :: "string list"
  cc_extra_labels :: "(string \<times> string) list"
  cc_env :: "(string \<times> string) list"
  cc_network_namespace :: "string option"
  cc_seccomp_profile :: "string option"

definition OUTPUT_KEYS :: "string list" where
  "OUTPUT_KEYS = [''/work/output'', ''/out'']"

text \<open>The namespace when it is truthy.\<close>

definition namespace_of :: "container_call \<Rightarrow> string option" where
  "namespace_of c = (case cc_network_namespace c of Some n \<Rightarrow> if n = [] then None else Some n | None \<Rightarrow> None)"

definition network_mode :: "container_call \<Rightarrow> string" where
  "network_mode c = (case namespace_of c of Some n \<Rightarrow> ''container:'' @ n | None \<Rightarrow> ''bridge'')"

definition memory_limit :: "pydict \<Rightarrow> string" where
  "memory_limit l =
     (case dict_get l ''memory'' of
        Some v \<Rightarrow> py_str v
      | None \<Rightarrow> (case dict_get l ''memory_mb'' of Some v \<Rightarrow> py_str v | None \<Rightarrow> ''512'') @ ''m'')"

definition cpus_limit :: "pydict \<Rightarrow> string" where
  "cpus_limit l =
     (case dict_get l ''cpus'' of
        Some v \<Rightarrow> py_str v
      | None \<Rightarrow> (case dict_get l ''cpu_quota'' of Some v \<Rightarrow> py_str v | None \<Rightarrow> ''0.5''))"

definition docker_options :: "container_call \<Rightarrow> string list list" where
  "docker_options c =
     [[''--rm''], [''--label'', ''secopent=execution'']] @
     map (\<lambda>(k, v). [''--label'', k @ ''='' @ v]) (cc_extra_labels c) @
     (if namespace_of c = None then [[''--add-host'', ''host.docker.internal:host-gateway'']] else []) @
     [[''--user'', ''65532:65532''], [''--cap-drop'', ''ALL'']] @
     map (\<lambda>cap. [''--cap-add'', cap]) (cc_capabilities c) @
     (case cc_seccomp_profile c of None \<Rightarrow> [] | Some p \<Rightarrow> [[''--security-opt'', ''seccomp='' @ p]]) @
     [[''--read-only''], [''--tmpfs'', ''/tmp:rw,noexec,nosuid,size=256m''], [''--env'', ''HOME=/tmp'']] @
     map (\<lambda>(k, v). [''--env'', k @ ''='' @ v]) (cc_env c) @
     [[''--network'', network_mode c], [''--memory'', memory_limit (cc_resource_limits c)],
      [''--cpus'', cpus_limit (cc_resource_limits c)], [''--ulimit'', ''nofile=65536:65536''], [''--workdir'', ''/work'']] @
     map (\<lambda>(destination, source). [''-v'', source @ '':'' @ destination]) (cc_mounts c)"

definition build_args :: "string \<Rightarrow> container_call \<Rightarrow> string list" where
  "build_args docker c = [docker, ''run''] @ concat (docker_options c) @ [cc_image_digest c] @ cc_command c"

definition artifacts_dir :: "string \<Rightarrow> (string \<times> string) list \<Rightarrow> string" where
  "artifacts_dir tmp mounts =
     (case List.find (\<lambda>k. k \<in> set (dict_keys mounts)) OUTPUT_KEYS of
        Some k \<Rightarrow> path_str (the (dict_get mounts k)) | None \<Rightarrow> path_str tmp)"

section \<open>Running a container\<close>

text \<open>
  \<^verbatim>\<open>subprocess.run\<close> with a time limit: standard output, standard error and exit code, or the exception;
  \<^verbatim>\<open>subprocess.TimeoutExpired\<close> is \<^const>\<open>TimeoutExpired\<close>.
\<close>

record 'w docker_ports =
  dk_process :: "string list \<Rightarrow> int \<Rightarrow> ('w, string \<times> string \<times> int) cmd"
  dk_docker :: string
  dk_timeout :: int
  dk_inspect_timeout :: int
  dk_tmp :: string
  dk_err :: "exn \<Rightarrow> string" \<comment> \<open>\<^verbatim>\<open>str(exc)\<close>\<close>

definition verify_digest :: "'w docker_ports \<Rightarrow> string \<Rightarrow> ('w, unit) cmd" where
  "verify_digest D img =
     (if CHR ''@'' \<notin> set img then returnC ()
      else bindC (dk_process D [dk_docker D, ''image'', ''inspect'', img] (dk_inspect_timeout D)) (\<lambda>(_, _, returncode).
        if returncode \<noteq> 0 then raiseC (ImageDigestMismatch (''image not present at pinned digest: '' @ img))
        else returnC ()))"

definition docker_run :: "'w docker_ports \<Rightarrow> container_call \<Rightarrow> ('w, container_result) cmd" where
  "docker_run D c w =
     (case dk_process D (build_args (dk_docker D) c) (dk_timeout D) w of
        (Inr (out, err, returncode), w') \<Rightarrow>
          (Inr \<lparr>cr_stdout = out, cr_stderr = err, cr_exit_code = returncode, cr_artifacts_dir = artifacts_dir (dk_tmp D) (cc_mounts c)\<rparr>, w')
      | (Inl (TimeoutExpired _), w') \<Rightarrow>
          (Inr \<lparr>cr_stdout = [], cr_stderr = ''execution timeout after '' @ int_repr (dk_timeout D) @ ''s'', cr_exit_code = 124,
                cr_artifacts_dir = artifacts_dir (dk_tmp D) (cc_mounts c)\<rparr>, w')
      | (Inl e, w') \<Rightarrow> (Inl e, w'))"

definition run_container :: "'w docker_ports \<Rightarrow> container_call \<Rightarrow> ('w, container_result) cmd" where
  "run_container D c = bindC (verify_digest D (cc_image_digest c)) (\<lambda>_. docker_run D c)"

section \<open>The img catalog\<close>

record image_ref =
  im_name :: string
  im_tag :: string
  im_digest :: string

definition IMAGE_CATALOG :: "(string \<times> image_ref) list" where
  "IMAGE_CATALOG =
     [(''subfinder'', \<lparr>im_name = ''projectdiscovery/subfinder'', im_tag = ''latest'', im_digest = ''sha256:8953620e5248c43871c7d852bf60095f326622c99e88e7ca831c201e68020a22''\<rparr>),
      (''httpx'', \<lparr>im_name = ''projectdiscovery/httpx'', im_tag = ''latest'', im_digest = ''sha256:e2f89a700e535b3e0d5ccf95e3383ebb54c2faecd8e8100573455cd0cbe8e02d''\<rparr>),
      (''naabu'', \<lparr>im_name = ''projectdiscovery/naabu'', im_tag = ''latest'', im_digest = ''sha256:0b7efcd6eb4bf7be2c5cfb2bbfe091a132df0e442e549267bca818a4cef15ea4''\<rparr>),
      (''katana'', \<lparr>im_name = ''projectdiscovery/katana'', im_tag = ''latest'', im_digest = ''sha256:a05d8460d34d06addc259da2543e554ef85ea756ed68e57701850fe09f326eff''\<rparr>),
      (''fingerprinthub'', \<lparr>im_name = ''dominicbreuker/fingerprintx'', im_tag = ''latest'', im_digest = ''''\<rparr>),
      (''nuclei'', \<lparr>im_name = ''projectdiscovery/nuclei'', im_tag = ''latest'', im_digest = ''sha256:e677842fb1f50f29747565ba274a1d35dcf8c684132a42b0cb406e71fccae9fc''\<rparr>),
      (''dalfox'', \<lparr>im_name = ''hahwul/dalfox'', im_tag = ''latest'', im_digest = ''sha256:91d5cebda9114fb7c2bfc7ad179ac5d605705c0bf4632a68f572f7a2f1d8a6dc''\<rparr>),
      (''restler'', \<lparr>im_name = ''mcr.microsoft.com/restlerfuzzer/restler'', im_tag = ''latest'', im_digest = ''sha256:0f3275119352be05011b7004a7bc644b190baf7522674ab970955917ee111a12''\<rparr>),
      (''schemathesis'', \<lparr>im_name = ''schemathesis/schemathesis'', im_tag = ''latest'', im_digest = ''sha256:2f25d34b5e063e58df213f43a8ae288f656e0c1ca7a27821e0f1987430893ae5''\<rparr>),
      (''zap'', \<lparr>im_name = ''owasp/zap2docker-stable'', im_tag = ''latest'', im_digest = ''''\<rparr>),
      (''nmap'', \<lparr>im_name = ''instrumentisto/nmap'', im_tag = ''latest'', im_digest = ''sha256:96f6ed194519b62421a1a1c57809e65a7f94d2aa1c8c25676f247e5e148c0827''\<rparr>),
      (''nuclei_tcp'', \<lparr>im_name = ''projectdiscovery/nuclei'', im_tag = ''latest'', im_digest = ''sha256:e677842fb1f50f29747565ba274a1d35dcf8c684132a42b0cb406e71fccae9fc''\<rparr>),
      (''prowler'', \<lparr>im_name = ''toniblyx/prowler'', im_tag = ''latest'', im_digest = ''''\<rparr>),
      (''trivy'', \<lparr>im_name = ''aquasec/trivy'', im_tag = ''latest'', im_digest = ''sha256:cffe3f5161a47a6823fbd23d985795b3ed72a4c806da4c4df16266c02accdd6f''\<rparr>),
      (''kube_bench'', \<lparr>im_name = ''aquasec/kube-bench'', im_tag = ''latest'', im_digest = ''''\<rparr>),
      (''checkov'', \<lparr>im_name = ''bridgecrew/checkov'', im_tag = ''latest'', im_digest = ''sha256:c64ffb6d6fc8087c896341a2c697770a04a1cf558db04fa7b8129d8ca6bce336''\<rparr>),
      (''scoutsuite'', \<lparr>im_name = ''nccgroup/scoutsuite'', im_tag = ''latest'', im_digest = ''''\<rparr>),
      (''juice_shop'', \<lparr>im_name = ''bkimminich/juice-shop'', im_tag = ''latest'', im_digest = ''sha256:e68144772ebaaca0ec117b38d44903af92416793230288ef7c5437fc4f26850a''\<rparr>),
      (''httpbin'', \<lparr>im_name = ''kennethreitz/httpbin'', im_tag = ''latest'', im_digest = ''sha256:599fe5e5073102dbb0ee3dbb65f049dab44fa9fc251f6835c9990f8fb196a72b''\<rparr>),
      (''interactsh_server'', \<lparr>im_name = ''projectdiscovery/interactsh-server'', im_tag = ''latest'', im_digest = ''sha256:f75d1fdeb0598012ce4560158232a9ad99701da28b31c141dc95d03402e4aa4f''\<rparr>),
      (''alpine'', \<lparr>im_name = ''library/alpine'', im_tag = ''latest'', im_digest = ''sha256:28bd5fe8b56d1bd048e5babf5b10710ebe0bae67db86916198a6eec434943f8b''\<rparr>)]"

section \<open>One scan\<close>

record real_scan_result =
  rs_adapter_key :: string
  rs_observations :: "observation list"
  rs_exit_code :: int
  rs_stdout :: string
  rs_stderr :: string

type_synonym tool_parser = "string \<Rightarrow> adapter_source \<Rightarrow> observation list result"

text \<open>The registry of parsers; the parsers themselves are given by their adapter key.\<close>

definition PARSED_ADAPTERS :: "string list" where
  "PARSED_ADAPTERS =
     [''nuclei'', ''subfinder'', ''httpx'', ''naabu'', ''nmap'', ''dalfox'', ''katana'', ''schemathesis'', ''restler'',
      ''trivy'', ''prowler'', ''kube_bench'', ''checkov'', ''scoutsuite'']"

definition ADAPTER_PARSERS :: "(string \<Rightarrow> tool_parser) \<Rightarrow> (string \<times> tool_parser) list" where
  "ADAPTER_PARSERS parse = map (\<lambda>k. (k, parse k)) PARSED_ADAPTERS"

definition limits_of :: "string \<Rightarrow> string \<Rightarrow> pydict" where
  "limits_of memory cpus = [(''memory'', VStr memory), (''cpus'', VStr cpus)]"

definition DEFAULT_RESOURCE_LIMITS :: pydict where
  "DEFAULT_RESOURCE_LIMITS = limits_of ''512m'' ''0.5''"

definition ADAPTER_RESOURCE_LIMITS :: "(string \<times> pydict) list" where
  "ADAPTER_RESOURCE_LIMITS =
     [(''trivy'', limits_of ''2g'' ''1.0''), (''prowler'', limits_of ''1g'' ''1.0''), (''scoutsuite'', limits_of ''1g'' ''1.0''),
      (''zap'', limits_of ''1g'' ''1.0''), (''schemathesis'', limits_of ''1g'' ''1.0''), (''restler'', limits_of ''1g'' ''1.0''),
      (''checkov'', limits_of ''1g'' ''1.0''), (''kube_bench'', limits_of ''1g'' ''1.0''), (''nuclei'', limits_of ''2g'' ''1.0'')]"

definition ADAPTER_CAPABILITIES :: "(string \<times> string list) list" where
  "ADAPTER_CAPABILITIES = [(''nmap'', [''NET_RAW'']), (''naabu'', [''NET_RAW''])]"

definition image_ref_of :: "string \<Rightarrow> string result" where
  "image_ref_of key =
     (case dict_get IMAGE_CATALOG key of
        None \<Rightarrow> Inl (KeyError (repr_str key))
      | Some im \<Rightarrow> if im_digest im \<noteq> [] then Inr (im_name im @ ''@'' @ im_digest im) else Inr (im_name im @ '':'' @ im_tag im))"

text \<open>\<^verbatim>\<open>given or table.get(key, default)\<close>.\<close>

definition given_or :: "'a list option \<Rightarrow> (string \<times> 'a list) list \<Rightarrow> string \<Rightarrow> 'a list \<Rightarrow> 'a list" where
  "given_or given table key dflt =
     (case given of
        Some (x # xs) \<Rightarrow> x # xs
      | _ \<Rightarrow> (case dict_get table key of Some v \<Rightarrow> v | None \<Rightarrow> dflt))"

definition scan_call :: "string \<Rightarrow> string \<Rightarrow> string list \<Rightarrow> (string \<times> string) list \<Rightarrow> pydict option \<Rightarrow> string list option \<Rightarrow> container_call" where
  "scan_call img key args mounts limits caps =
     \<lparr>cc_image_digest = img, cc_command = args, cc_mounts = mounts, cc_network_policy = ''bridge'',
      cc_resource_limits = given_or limits ADAPTER_RESOURCE_LIMITS key DEFAULT_RESOURCE_LIMITS,
      cc_capabilities = given_or caps ADAPTER_CAPABILITIES key [],
      cc_extra_labels = [], cc_env = [], cc_network_namespace = None, cc_seccomp_profile = None\<rparr>"

definition launch_scan :: "'w docker_ports \<Rightarrow> string \<Rightarrow> string list \<Rightarrow> (string \<times> string) list \<Rightarrow> pydict option \<Rightarrow> string list option \<Rightarrow> ('w, container_result) cmd" where
  "launch_scan D key args mounts limits caps w =
     (case bindC (liftC (image_ref_of key)) (\<lambda>img. run_container D (scan_call img key args mounts limits caps)) w of
        (Inr res, w') \<Rightarrow> (Inr res, w')
      | (Inl e, w') \<Rightarrow> (Inl (ContainerExecError (''container launch failed for '' @ key @ '': '' @ dk_err D e)), w'))"

definition scan ::
  "'w docker_ports \<Rightarrow> (string \<Rightarrow> tool_parser) \<Rightarrow> string \<Rightarrow> string list \<Rightarrow> (string \<times> string) list \<Rightarrow> adapter_source option \<Rightarrow>
   pydict option \<Rightarrow> string list option \<Rightarrow> ('w, real_scan_result) cmd" where
  "scan D parse key args mounts src limits caps =
     (case dict_get (ADAPTER_PARSERS parse) key of
        None \<Rightarrow> raiseC (ValueError (''no parser registered for adapter '' @ repr_str key))
      | Some parser \<Rightarrow>
          bindC (launch_scan D key args mounts limits caps) (\<lambda>res.
          bindC (liftC (case src of Some s \<Rightarrow> Inr s
              | None \<Rightarrow> AdapterSource_check \<lparr>as_name = key, as_version = ''1.0.0'', as_template_version = ''1.0.0''\<rparr>)) (\<lambda>s.
          bindC (liftC (parser (cr_stdout res) s)) (\<lambda>obs.
          returnC \<lparr>rs_adapter_key = key, rs_observations = obs, rs_exit_code = cr_exit_code res, rs_stdout = cr_stdout res,
                   rs_stderr = cr_stderr res\<rparr>))))"

section \<open>The step runner\<close>

record scan_context =
  cx_targets :: "string list"
  cx_template_host_dir :: "string option"
  cx_template_container_path :: string
  cx_extra_mounts :: "(string \<times> string) list"
  cx_ports :: "int list"

datatype step_exn = StepFailure failure_class string | OtherExn exn

definition TEMPLATE_ADAPTERS :: "string set" where
  "TEMPLATE_ADAPTERS = {''nuclei'', ''nuclei_tcp''}"

definition URL_ADAPTERS :: "string set" where
  "URL_ADAPTERS = {''nuclei'', ''nuclei_tcp'', ''httpx'', ''katana'', ''dalfox''}"

definition DEFAULT_TEMPLATE_MOUNT :: string where
  "DEFAULT_TEMPLATE_MOUNT = ''/templates''"

definition ports_arg :: "scan_context \<Rightarrow> string" where
  "ports_arg cx = join '','' (map int_repr (cx_ports cx))"

definition base_mounts :: "scan_context \<Rightarrow> (string \<times> string) list" where
  "base_mounts cx = fold (\<lambda>(d, s). dict_set d s) (cx_extra_mounts cx) []"

definition template_dir :: "scan_context \<Rightarrow> string option" where
  "template_dir cx = (case cx_template_host_dir cx of Some d \<Rightarrow> if d = [] then None else Some d | None \<Rightarrow> None)"

definition template_invocation :: "(string \<Rightarrow> bool) \<Rightarrow> scan_context \<Rightarrow> string \<Rightarrow> string list \<times> (string \<times> string) list" where
  "template_invocation is_file cx target =
     (let args = [''-u'', target, ''-jsonl'', ''-silent'', ''-duc'']; mounts = base_mounts cx; point = cx_template_container_path cx in
      case template_dir cx of
        None \<Rightarrow> (args, mounts)
      | Some dir \<Rightarrow>
          if is_file dir then
            (let file_dest = point @ ''/'' @ path_name dir in ([''-t'', file_dest] @ args, dict_set file_dest (path_str dir) mounts))
          else ([''-t'', point @ ''/''] @ args, dict_set point dir mounts))"

definition plain_args :: "scan_context \<Rightarrow> string \<Rightarrow> string \<Rightarrow> string list" where
  "plain_args cx key target =
     (if key = ''nmap'' then
        (if cx_ports cx \<noteq> [] then [''-p'', ports_arg cx, ''--open'', ''-oX'', ''-'', target] else [''--open'', ''-oX'', ''-'', target])
      else if key = ''naabu'' then
        (if cx_ports cx \<noteq> [] then [''-host'', target, ''-p'', ports_arg cx, ''-json'', ''-silent'']
         else [''-host'', target, ''-json'', ''-silent''])
      else if key = ''httpx'' then [''-u'', target, ''-json'', ''-silent'']
      else if key = ''dalfox'' then [''dalfox'', ''url'', target, ''-o'', ''json'', ''--silence'']
      else if key = ''subfinder'' then [''-d'', target, ''-json'', ''-silent'']
      else if key = ''katana'' then [''-u'', target, ''-json'', ''-silent'', ''-d'', ''3'']
      else if key = ''fingerprinthub'' then [''-t'', target, ''-j'']
      else if key = ''schemathesis'' then [''run'', target, ''--report'', ''json'', ''--hypothesis-max-examples'', ''50'']
      else if key = ''prowler'' then [target, ''-M'', ''json'']
      else if key = ''kube_bench'' then [''--json'']
      else if key = ''scoutsuite'' then [target, ''--report-dir'', ''/work/output'', ''--json'']
      else if key = ''zap'' then [''-t'', target, ''-J'', ''-l'', ''WARN'']
      else if key = ''restler'' then [''test'', ''--grammar_file'', target]
      else if key = ''trivy'' then [''image'', ''--format'', ''json'', ''--quiet'', target]
      else [target])"

definition invocation :: "(string \<Rightarrow> bool) \<Rightarrow> scan_context \<Rightarrow> string \<Rightarrow> string \<Rightarrow> step_exn + (string list \<times> (string \<times> string) list)" where
  "invocation is_file cx key target0 =
     (let target = (if key \<in> URL_ADAPTERS then rstrip_when (\<lambda>c. c = CHR ''/'') target0 else target0) in
      if key \<in> TEMPLATE_ADAPTERS then Inr (template_invocation is_file cx target)
      else if key = ''checkov'' then
        (case template_dir cx of
           Some dir \<Rightarrow> Inr ([''--directory'', cx_template_container_path cx, ''--output'', ''json'', ''--quiet''],
                          dict_set (cx_template_container_path cx) dir (base_mounts cx))
         | None \<Rightarrow> Inl (StepFailure INPUT_INVALID ''checkov requires template_host_dir (IaC input directory)''))
      else Inr (plain_args cx key target, base_mounts cx))"

text \<open>\<^verbatim>\<open>isinstance(exc, ValueError)\<close>: \<^verbatim>\<open>DomainValidationError\<close> is one.\<close>

fun is_value_error :: "exn \<Rightarrow> bool" where
  "is_value_error (ValueError _) = True"
| "is_value_error (DomainValidationError _) = True"
| "is_value_error _ = False"

fun scan_failure :: "(exn \<Rightarrow> string) \<Rightarrow> string \<Rightarrow> exn \<Rightarrow> step_exn" where
  "scan_failure err key (ContainerExecError m) =
     StepFailure WORKER_UNAVAILABLE (m @ '' (see `docker logs '' @ key @ ''` for the container)'')"
| "scan_failure err key e = (if is_value_error e then StepFailure INPUT_INVALID (err e) else OtherExn e)"

record 'w scan_ports =
  sp_docker :: "'w docker_ports"
  sp_parse :: "string \<Rightarrow> tool_parser"
  sp_is_file :: "string \<Rightarrow> bool"
  sp_sha :: "string \<Rightarrow> string"
  sp_float :: "rat \<Rightarrow> string"

definition scan_target :: "'w scan_ports \<Rightarrow> scan_context \<Rightarrow> plan_step \<Rightarrow> string \<Rightarrow> 'w \<Rightarrow> (step_exn + real_scan_result) \<times> 'w" where
  "scan_target S cx step target w =
     (case invocation (sp_is_file S) cx (runner step) target of
        Inl e \<Rightarrow> (Inl e, w)
      | Inr (args, mounts) \<Rightarrow>
          (case scan (sp_docker S) (sp_parse S) (runner step) args mounts None None None w of
             (Inl e, w') \<Rightarrow> (Inl (scan_failure (dk_err (sp_docker S)) (runner step) e), w')
           | (Inr res, w') \<Rightarrow>
               if rs_exit_code res \<noteq> 0 \<and> rs_observations res = [] then
                 (Inl (StepFailure WORKER_UNAVAILABLE (''adapter '' @ repr_str (runner step) @ '' on '' @ target @ '': exit_code='' @
                    int_repr (rs_exit_code res) @ '', stderr='' @
                    (if py_strip (rs_stderr res) = [] then ''no stderr'' else py_strip (rs_stderr res)))), w')
               else (Inr res, w')))"

fun scan_each :: "'w scan_ports \<Rightarrow> scan_context \<Rightarrow> plan_step \<Rightarrow> string list \<Rightarrow> 'w \<Rightarrow> (step_exn + observation list) \<times> 'w" where
  "scan_each S cx step [] w = (Inr [], w)"
| "scan_each S cx step (t # ts) w =
     (case scan_target S cx step t w of
        (Inl e, w') \<Rightarrow> (Inl e, w')
      | (Inr res, w') \<Rightarrow>
          (case scan_each S cx step ts w' of
             (Inl e, w'') \<Rightarrow> (Inl e, w'')
           | (Inr obs, w'') \<Rightarrow> (Inr (rs_observations res @ obs), w'')))"

definition observation_json :: "(rat \<Rightarrow> string) \<Rightarrow> observation \<Rightarrow> pyval" where
  "observation_json fr x = VDict
     [(''external_id'', VStr (ob_external_id x)), (''asset_identity'', VStr (ob_asset_identity x)),
      (''source'', VDict [(''name'', VStr (as_name (ob_source x))), (''version'', VStr (as_version (ob_source x))),
        (''template_version'', VStr (as_template_version (ob_source x)))]),
      (''rule_id'', VStr (ob_rule_id x)), (''rule_version'', VStr (ob_rule_version x)),
      (''coverage_domain'', VStr (domain_value (ob_coverage_domain x))), (''title'', VStr (ob_title x)),
      (''severity'', VStr (severity_value (ob_severity x))), (''confidence'', VFloat (fr (ob_confidence x))),
      (''cwe'', VStrs (ob_cwe x)), (''cve'', VStrs (ob_cve x)), (''owasp'', VStrs (ob_owasp x)),
      (''evidence_artifact_ids'', VStrs (ob_evidence_artifact_ids x)), (''raw'', VDict (ob_raw x))]"

definition observations_digest :: "'w scan_ports \<Rightarrow> observation list \<Rightarrow> string" where
  "observations_digest S obs = canonical_digest (sp_sha S) (VList (map (observation_json (sp_float S)) obs))"

record 'w scan_state =
  sn_observations :: "(string \<times> observation list) list"
  sn_out :: 'w

definition run_adapter_step :: "'w scan_ports \<Rightarrow> scan_context \<Rightarrow> 'w scan_state step_runner" where
  "run_adapter_step S cx w step =
     (if cx_targets cx = [] then (RunFailure INPUT_INVALID, w)
      else case scan_each S cx step (cx_targets cx) (sn_out w) of
        (Inl (StepFailure fc _), out) \<Rightarrow> (RunFailure fc, w\<lparr>sn_out := out\<rparr>)
      | (Inl (OtherExn e), out) \<Rightarrow> (RunRaise (dk_err (sp_docker S) e), w\<lparr>sn_out := out\<rparr>)
      | (Inr obs, out) \<Rightarrow>
          (RunOk (observations_digest S obs),
           w\<lparr>sn_observations := dict_set (step_key step) obs (sn_observations w), sn_out := out\<rparr>))"

definition observations_for :: "'w scan_state \<Rightarrow> string \<Rightarrow> observation list" where
  "observations_for w key = (case dict_get (sn_observations w) key of Some obs \<Rightarrow> obs | None \<Rightarrow> [])"

definition all_observations :: "'w scan_state \<Rightarrow> observation list" where
  "all_observations w = concat (dict_values (sn_observations w))"

section \<open>Production wiring\<close>

definition scan_timeout :: "string option \<Rightarrow> int" where
  "scan_timeout env = (case py_int (case env of Some s \<Rightarrow> s | None \<Rightarrow> ''1800'') of Some n \<Rightarrow> n | None \<Rightarrow> 1800)"

definition production_context :: "string \<Rightarrow> scope_snapshot \<Rightarrow> scan_context" where
  "production_context template_env sc =
     \<lparr>cx_targets = sc_include sc,
      cx_template_host_dir = (if py_strip template_env = [] then None else Some (py_strip template_env)),
      cx_template_container_path = DEFAULT_TEMPLATE_MOUNT, cx_extra_mounts = [], cx_ports = []\<rparr>"

definition production_step_runner :: "'w scan_ports \<Rightarrow> string \<Rightarrow> string option \<Rightarrow> scope_snapshot \<Rightarrow> 'w scan_state step_runner" where
  "production_step_runner S template_env timeout_env sc =
     run_adapter_step (S\<lparr>sp_docker := (sp_docker S)\<lparr>dk_timeout := scan_timeout timeout_env\<rparr>\<rparr>) (production_context template_env sc)"

end
