(* ===== verification/Container_Safety.thy ===== *)
theory Container_Safety
  imports Containers
begin

text \<open>
  What the containers of a run can do and what a step that succeeded means. A locale collects what every run of
  the orchestrator keeps of the world its runner and gate work on; it is interpreted twice on the step
  runner: for the trace of started processes and for the observations beside the call log.
\<close>

section \<open>Invariants of the world under a run\<close>

locale world_invariant =
  fixes run :: "'w step_runner" and gate :: "'w step_gate" and S :: "plan_step set" and P :: "'w \<Rightarrow> bool"
  assumes run_keeps: "P w \<Longrightarrow> s \<in> S \<Longrightarrow> run w s = (out, w') \<Longrightarrow> P w'"
    and gate_keeps: "gate = Some g \<Longrightarrow> P w \<Longrightarrow> g w = (d, w') \<Longrightarrow> P w'"
begin

lemma check_gate_keeps: "check_gate gate w = (r, w') \<Longrightarrow> P w \<Longrightarrow> P w'"
  by (auto simp: check_gate_def Let_def split: option.splits prod.splits if_splits dest: gate_keeps)

lemma execute_step_keeps:
  assumes "execute_step run owner now j s orc = (r, orc')" "s \<in> S" "P (world orc)"
  shows "P (world orc') \<and> known_steps orc' = known_steps orc"
proof -
  obtain out w where "run (world orc) s = (out, w)" by (cases "run (world orc) s")
  moreover from this have "P w" using assms(2,3) run_keeps by blast
  ultimately show ?thesis using assms(1,3)
    by (auto simp: execute_step_def Let_def split: sum.splits prod.splits)
qed

lemma execute_targets_keeps:
  "execute_targets run gate owner now ts orc = (r, orc') \<Longrightarrow> snd ` set ts \<subseteq> S \<Longrightarrow> P (world orc) \<Longrightarrow>
     P (world orc') \<and> known_steps orc' = known_steps orc"
proof (induction ts arbitrary: orc r orc')
  case (Cons t ts)
  obtain j s where t: "t = (j, s)" by (cases t)
  obtain c w where g: "check_gate gate (world orc) = (c, w)" by (cases "check_gate gate (world orc)")
  obtain r1 orc1 where e: "execute_step run owner now j s (orc\<lparr>world := w\<rparr>) = (r1, orc1)"
    by (cases "execute_step run owner now j s (orc\<lparr>world := w\<rparr>)")
  have w: "P w" using check_gate_keeps [OF g Cons.prems(3)] .
  have k: "P (world orc1) \<and> known_steps orc1 = known_steps orc"
    using execute_step_keeps [OF e] Cons.prems(2) w by (simp add: t)
  obtain r2 orc2 where i: "execute_targets run gate owner now ts orc1 = (r2, orc2)"
    by (cases "execute_targets run gate owner now ts orc1")
  from Cons.IH [OF i] k Cons.prems(2) have "P (world orc2) \<and> known_steps orc2 = known_steps orc" by simp
  with Cons.prems(1) w k show ?case
    by (cases c; cases r1; cases r2) (auto simp: t g e i)
qed simp

lemma execute_ready_keeps:
  assumes "execute_ready run gate owner now orc = (r, orc')" "snd ` set (known_steps orc) \<subseteq> S" "P (world orc)"
  shows "P (world orc') \<and> known_steps orc' = known_steps orc"
proof -
  obtain r1 orc1 where t: "execute_targets run gate owner now (targets now orc) orc = (r1, orc1)"
    by (cases "execute_targets run gate owner now (targets now orc) orc")
  have "snd ` set (targets now orc) \<subseteq> S"
    using assms(2) by (fastforce simp: targets_def split: option.splits dest: map_of_SomeD [OF sym])
  with execute_targets_keeps [OF t] assms(3) have "P (world orc1) \<and> known_steps orc1 = known_steps orc" by simp
  with assms(1) show ?thesis by (cases r1) (auto simp: execute_ready_def t split: sum.splits)
qed

lemma run_keeps_world:
  "run_to_completion run gate owner now rounds orc = (r, orc') \<Longrightarrow> snd ` set (known_steps orc) \<subseteq> S \<Longrightarrow> P (world orc) \<Longrightarrow> P (world orc')"
proof (induction rounds arbitrary: orc)
  case (Suc rounds)
  obtain r1 orc1 where e: "execute_ready run gate owner now orc = (r1, orc1)" by (cases "execute_ready run gate owner now orc")
  with execute_ready_keeps [OF e] Suc show ?case by (cases r1) (auto split: if_splits)
qed simp

end

text \<open>A plan dispatched into a fresh orchestrator knows exactly the steps of the plan.\<close>

lemma dispatched_world:
  assumes "distinct (map step_key (plan_steps plan))"
  shows "snd ` set (known_steps (snd (dispatch plan (fresh_orchestrator lifetime w)))) = set (plan_steps plan)"
    "world (snd (dispatch plan (fresh_orchestrator lifetime w))) = w"
  by (simp_all add: dispatch_fresh [OF assms] image_image)

text \<open>A runner and a gate that work on different parts of the world.\<close>

definition beside :: "'w step_runner \<Rightarrow> ('w \<times> 'g) step_runner" where
  "beside run wx s = (case run (fst wx) s of (out, w') \<Rightarrow> (out, (w', snd wx)))"

definition gate_beside :: "'g step_gate \<Rightarrow> ('w \<times> 'g) step_gate" where
  "gate_beside gate = map_option (\<lambda>g wx. case g (snd wx) of (d, x) \<Rightarrow> (d, (fst wx, x))) gate"

section \<open>The trace of processes\<close>

type_synonym process_log = "(string list \<times> (string \<times> string \<times> int) result) list"

definition logged_docker :: "'w docker_ports \<Rightarrow> ('w \<times> process_log) docker_ports" where
  "logged_docker D =
     \<lparr>dk_process = (\<lambda>argv limit wl. case dk_process D argv limit (fst wl) of (r, w') \<Rightarrow> (r, (w', snd wl @ [(argv, r)]))),
      dk_docker = dk_docker D, dk_timeout = dk_timeout D, dk_inspect_timeout = dk_inspect_timeout D, dk_tmp = dk_tmp D, dk_err = dk_err D\<rparr>"

definition logged_scans :: "'w scan_ports \<Rightarrow> ('w \<times> process_log) scan_ports" where
  "logged_scans S = \<lparr>sp_docker = logged_docker (sp_docker S), sp_parse = sp_parse S, sp_is_file = sp_is_file S, sp_sha = sp_sha S, sp_float = sp_float S\<rparr>"

lemma logged_simps [simp]:
  "dk_docker (logged_docker D) = dk_docker D" "dk_timeout (logged_docker D) = dk_timeout D"
  "dk_inspect_timeout (logged_docker D) = dk_inspect_timeout D" "dk_tmp (logged_docker D) = dk_tmp D" "dk_err (logged_docker D) = dk_err D"
  "sp_docker (logged_scans S) = logged_docker (sp_docker S)" "sp_is_file (logged_scans S) = sp_is_file S" "sp_parse (logged_scans S) = sp_parse S"
  by (simp_all add: logged_docker_def logged_scans_def)

text \<open>
  The options of a sandboxed container: the fixed user, no capability but the ones given, a read-only root, the
  bridge network and the given mounts; every option word is one of those listed.
\<close>

definition plain_options :: "string set" where
  "plain_options = {''--label'', ''--add-host'', ''--tmpfs'', ''--env'', ''--memory'', ''--cpus'', ''--ulimit'', ''--workdir''}"

definition sandbox_option :: "string list \<Rightarrow> (string \<times> string) list \<Rightarrow> string list \<Rightarrow> bool" where
  "sandbox_option caps mounts opt \<longleftrightarrow>
     opt \<in> {[''--rm''], [''--read-only''], [''--user'', ''65532:65532''], [''--cap-drop'', ''ALL''], [''--network'', ''bridge'']} \<or>
     (\<exists>name \<in> plain_options. \<exists>v. opt = [name, v]) \<or>
     (\<exists>cap \<in> set caps. opt = [''--cap-add'', cap]) \<or>
     (\<exists>(destination, source) \<in> set mounts. opt = [''-v'', source @ '':'' @ destination])"

definition sandboxed :: "string \<Rightarrow> string \<Rightarrow> string list \<Rightarrow> string list \<Rightarrow> (string \<times> string) list \<Rightarrow> string list \<Rightarrow> bool" where
  "sandboxed docker img caps args mounts argv \<longleftrightarrow>
     (\<exists>opts. argv = docker # ''run'' # concat opts @ img # args \<and> (\<forall>opt \<in> set opts. sandbox_option caps mounts opt) \<and>
        {[''--user'', ''65532:65532''], [''--cap-drop'', ''ALL''], [''--read-only''], [''--network'', ''bridge'']} \<subseteq> set opts)"

definition caps_of :: "string \<Rightarrow> string list" where
  "caps_of key = given_or None ADAPTER_CAPABILITIES key []"

lemma sandbox_optionI:
  "name \<in> plain_options \<Longrightarrow> sandbox_option caps mounts [name, v]"
  "cap \<in> set caps \<Longrightarrow> sandbox_option caps mounts [''--cap-add'', cap]"
  "m \<in> set mounts \<Longrightarrow> sandbox_option caps mounts (case m of (d, s) \<Rightarrow> [''-v'', s @ CHR '':'' # d])"
  by (auto simp: sandbox_option_def)

lemma sandbox_option_fixed:
  "opt \<in> {[''--rm''], [''--read-only''], [''--user'', ''65532:65532''], [''--cap-drop'', ''ALL''], [''--network'', ''bridge'']} \<Longrightarrow>
     sandbox_option caps mounts opt"
  unfolding sandbox_option_def by (rule disjI1)

lemma scan_call_sandboxed:
  "sandboxed docker img (caps_of key) args mounts (build_args docker (scan_call img key args mounts None None))"
proof -
  let ?c = "scan_call img key args mounts None None"
  have "\<forall>opt \<in> set (docker_options ?c). sandbox_option (caps_of key) mounts opt"
    by (simp add: docker_options_def scan_call_def namespace_of_def network_mode_def caps_of_def [symmetric]
        sandbox_option_fixed sandbox_optionI ball_Un plain_options_def del: split_paired_All)
  moreover have "{[''--user'', ''65532:65532''], [''--cap-drop'', ''ALL''], [''--read-only''], [''--network'', ''bridge'']} \<subseteq> set (docker_options ?c)"
    by (simp add: docker_options_def scan_call_def namespace_of_def network_mode_def)
  ultimately show ?thesis
    unfolding sandboxed_def by (intro exI [of _ "docker_options ?c"]) (simp add: build_args_def scan_call_def)
qed

text \<open>The processes of one scan: a pinned image is inspected first, and run only when it is there.\<close>

fun present :: "(string \<times> string \<times> int) result \<Rightarrow> bool" where
  "present (Inr (_, _, returncode)) \<longleftrightarrow> returncode = 0"
| "present (Inl _) \<longleftrightarrow> False"

definition container_trace :: "string \<Rightarrow> string \<Rightarrow> (string list \<Rightarrow> bool) \<Rightarrow> process_log \<Rightarrow> bool" where
  "container_trace docker img ok_argv blk \<longleftrightarrow>
     (\<exists>argv r seen. ok_argv argv \<and>
        (if CHR ''@'' \<in> set img
         then blk = (if present seen then [([docker, ''image'', ''inspect'', img], seen), (argv, r)]
                     else [([docker, ''image'', ''inspect'', img], seen)])
         else blk = [(argv, r)]))"

definition scan_trace :: "'w scan_ports \<Rightarrow> scan_context \<Rightarrow> plan_step \<Rightarrow> process_log \<Rightarrow> bool" where
  "scan_trace S cx step blk \<longleftrightarrow>
     (\<exists>target \<in> set (cx_targets cx). \<exists>img args mounts.
        runner step \<in> set PARSED_ADAPTERS \<and> image_ref_of (runner step) = Inr img \<and>
        invocation (sp_is_file S) cx (runner step) target = Inr (args, mounts) \<and>
        container_trace (dk_docker (sp_docker S)) img (sandboxed (dk_docker (sp_docker S)) img (caps_of (runner step)) args mounts) blk)"

lemma docker_run_trace:
  assumes "docker_run (logged_docker D) c wl = (res, wl')"
  shows "\<exists>r. snd wl' = snd wl @ [(build_args (dk_docker D) c, r)]"
  using assms by (auto simp: docker_run_def logged_docker_def split: prod.splits sum.splits exn.splits)

lemma run_container_trace:
  assumes "run_container (logged_docker D) c wl = (res, wl')" "ok_argv (build_args (dk_docker D) c)"
  shows "\<exists>blk. snd wl' = snd wl @ blk \<and> container_trace (dk_docker D) (cc_image_digest c) ok_argv blk"
proof (cases "CHR ''@'' \<in> set (cc_image_digest c)")
  case False
  with assms(1) have "docker_run (logged_docker D) c wl = (res, wl')" by (simp add: run_container_def verify_digest_def)
  from docker_run_trace [OF this] False assms(2) show ?thesis by (auto simp: container_trace_def)
next
  case True
  let ?inspect = "[dk_docker D, ''image'', ''inspect'', cc_image_digest c]"
  obtain seen w1 where p: "dk_process D ?inspect (dk_inspect_timeout D) (fst wl) = (seen, w1)"
    by (cases "dk_process D ?inspect (dk_inspect_timeout D) (fst wl)")
  then have v: "dk_process (logged_docker D) ?inspect (dk_inspect_timeout D) wl = (seen, (w1, snd wl @ [(?inspect, seen)]))"
    by (simp add: logged_docker_def)
  show ?thesis
  proof (cases "present seen")
    case True
    then obtain a b where "seen = Inr (a, b, 0)" by (cases seen) auto
    with v assms(1) \<open>CHR ''@'' \<in> set (cc_image_digest c)\<close>
    have "docker_run (logged_docker D) c (w1, snd wl @ [(?inspect, seen)]) = (res, wl')"
      by (simp add: run_container_def verify_digest_def bindC_def)
    from docker_run_trace [OF this] True assms(2) \<open>CHR ''@'' \<in> set (cc_image_digest c)\<close>
    show ?thesis by (fastforce simp: container_trace_def)
  next
    case False
    with v assms(1) \<open>CHR ''@'' \<in> set (cc_image_digest c)\<close> have "wl' = (w1, snd wl @ [(?inspect, seen)])"
      by (cases seen) (auto simp: run_container_def verify_digest_def bindC_def split: if_splits)
    with False assms(2) \<open>CHR ''@'' \<in> set (cc_image_digest c)\<close> show ?thesis by (fastforce simp: container_trace_def)
  qed
qed

lemma launch_scan_trace:
  assumes "launch_scan (logged_docker D) key args mounts None None wl = (res, wl')"
  shows "snd wl' = snd wl \<or> (\<exists>img blk. image_ref_of key = Inr img \<and> snd wl' = snd wl @ blk \<and>
     container_trace (dk_docker D) img (sandboxed (dk_docker D) img (caps_of key) args mounts) blk)"
proof (cases "image_ref_of key")
  case (Inl e)
  with assms show ?thesis by (simp add: launch_scan_def liftC_def bindC_def)
next
  case (Inr img)
  let ?c = "scan_call img key args mounts None None"
  obtain r1 wl1 where r: "run_container (logged_docker D) ?c wl = (r1, wl1)" by (cases "run_container (logged_docker D) ?c wl")
  from run_container_trace [where ok_argv = "sandboxed (dk_docker D) img (caps_of key) args mounts", OF r scan_call_sandboxed]
  have "\<exists>blk. snd wl1 = snd wl @ blk \<and> container_trace (dk_docker D) img (sandboxed (dk_docker D) img (caps_of key) args mounts) blk"
    by (simp add: scan_call_def)
  moreover have "wl' = wl1" using assms r Inr by (auto simp: launch_scan_def liftC_def bindC_def split: sum.splits)
  ultimately show ?thesis using Inr by blast
qed

lemma ADAPTER_PARSERS_get: "dict_get (ADAPTER_PARSERS parse) key = (if key \<in> set PARSED_ADAPTERS then Some (parse key) else None)"
  by (simp add: ADAPTER_PARSERS_def PARSED_ADAPTERS_def)

lemma scan_target_trace:
  assumes "scan_target (logged_scans S) cx step target wl = (res, wl')" "target \<in> set (cx_targets cx)"
  shows "snd wl' = snd wl \<or> (\<exists>blk. snd wl' = snd wl @ blk \<and> scan_trace S cx step blk)"
proof -
  let ?D = "logged_docker (sp_docker S)" and ?key = "runner step"
  consider (none) "snd wl' = snd wl" | (scan) args mounts where "invocation (sp_is_file S) cx ?key target = Inr (args, mounts)"
      "?key \<in> set PARSED_ADAPTERS" "\<exists>r. launch_scan ?D ?key args mounts None None wl = (r, wl')"
  proof (cases "invocation (sp_is_file S) cx ?key target")
    case (Inl e)
    with assms(1) show ?thesis by (intro none) (simp add: scan_target_def)
  next
    case (Inr am)
    obtain args mounts where am: "am = (args, mounts)" by (cases am)
    obtain r1 wl1 where s: "scan ?D (sp_parse S) ?key args mounts None None None wl = (r1, wl1)"
      by (cases "scan ?D (sp_parse S) ?key args mounts None None None wl")
    have eq: "wl' = wl1" using assms(1) by (auto simp: scan_target_def Inr am s split: sum.splits if_splits)
    show ?thesis
    proof (cases "?key \<in> set PARSED_ADAPTERS")
      case False
      with s eq show ?thesis by (intro none) (simp add: scan_def ADAPTER_PARSERS_get)
    next
      case True
      obtain r2 wl2 where l: "launch_scan ?D ?key args mounts None None wl = (r2, wl2)"
        by (cases "launch_scan ?D ?key args mounts None None wl")
      with s eq True have "wl' = wl2"
        by (cases r2) (auto simp: scan_def ADAPTER_PARSERS_get bindC_def liftC_def split: sum.splits prod.splits)
      with l Inr am True show ?thesis by (intro scan) auto
    qed
  qed
  then show ?thesis
  proof cases
    case scan
    then obtain r where "launch_scan ?D ?key args mounts None None wl = (r, wl')" by blast
    from launch_scan_trace [OF this] scan(1,2) assms(2) show ?thesis by (auto simp: scan_trace_def)
  qed simp
qed

lemma scan_each_trace:
  "scan_each (logged_scans S) cx step ts wl = (res, wl') \<Longrightarrow> set ts \<subseteq> set (cx_targets cx) \<Longrightarrow>
     \<exists>blks. snd wl' = snd wl @ concat blks \<and> (\<forall>blk \<in> set blks. scan_trace S cx step blk)"
proof (induction ts arbitrary: wl res wl')
  case Nil
  then show ?case by (auto intro: exI [of _ "[]"])
next
  case (Cons t ts)
  obtain r1 wl1 where s: "scan_target (logged_scans S) cx step t wl = (r1, wl1)"
    by (cases "scan_target (logged_scans S) cx step t wl")
  have "\<exists>blks. snd wl1 = snd wl @ concat blks \<and> (\<forall>blk \<in> set blks. scan_trace S cx step blk)"
    using scan_target_trace [OF s] Cons.prems(2) by (auto intro: exI [of _ "[]"] exI [of _ "[blk]" for blk])
  then obtain blks where b: "snd wl1 = snd wl @ concat blks" "\<forall>blk \<in> set blks. scan_trace S cx step blk" by blast
  show ?case
  proof (cases r1)
    case (Inl e)
    with Cons.prems(1) s b show ?thesis by auto
  next
    case (Inr r)
    obtain r2 wl2 where i: "scan_each (logged_scans S) cx step ts wl1 = (r2, wl2)"
      by (cases "scan_each (logged_scans S) cx step ts wl1")
    with Cons.IH [OF i] Cons.prems(2) obtain blks' where
      "snd wl2 = snd wl1 @ concat blks'" "\<forall>blk \<in> set blks'. scan_trace S cx step blk" by auto
    moreover have "wl' = wl2" using Cons.prems(1) s i Inr by (auto split: sum.splits)
    ultimately show ?thesis using b by (intro exI [of _ "blks @ blks'"]) auto
  qed
qed

definition traced :: "'w scan_ports \<Rightarrow> scan_context \<Rightarrow> plan_step set \<Rightarrow> process_log \<Rightarrow> bool" where
  "traced S cx steps plog \<longleftrightarrow> (\<exists>blks. plog = concat blks \<and> (\<forall>blk \<in> set blks. \<exists>step \<in> steps. scan_trace S cx step blk))"

lemma run_adapter_step_traced:
  assumes "run_adapter_step (logged_scans S) cx w step = (out, w')" "step \<in> steps" "traced S cx steps (snd (sn_out w))"
  shows "traced S cx steps (snd (sn_out w'))"
proof (cases "cx_targets cx")
  case Nil
  with assms show ?thesis by (simp add: run_adapter_step_def)
next
  case Cons
  obtain r out' where s: "scan_each (logged_scans S) cx step (cx_targets cx) (sn_out w) = (r, out')"
    by (cases "scan_each (logged_scans S) cx step (cx_targets cx) (sn_out w)")
  from scan_each_trace [OF s] obtain blks where
    b: "snd out' = snd (sn_out w) @ concat blks" "\<forall>blk \<in> set blks. scan_trace S cx step blk" by auto
  from assms(3) obtain blks0 where "snd (sn_out w) = concat blks0" "\<forall>blk \<in> set blks0. \<exists>s \<in> steps. scan_trace S cx s blk"
    by (auto simp: traced_def)
  with b assms(2) have "traced S cx steps (snd out')"
    unfolding traced_def by (intro exI [of _ "blks0 @ blks"]) auto
  moreover have "sn_out w' = out'" using assms(1) Cons s by (auto simp: run_adapter_step_def split: sum.splits step_exn.splits)
  ultimately show ?thesis by simp
qed

interpretation processes: world_invariant
  "beside (run_adapter_step (logged_scans S) cx)" "gate_beside gate" steps "\<lambda>wx. traced S cx steps (snd (sn_out (fst wx)))"
  for S cx gate steps
proof
  fix w s out w'
  assume "traced S cx steps (snd (sn_out (fst w)))" "s \<in> steps" "beside (run_adapter_step (logged_scans S) cx) w s = (out, w')"
  then show "traced S cx steps (snd (sn_out (fst w')))"
    by (auto simp: beside_def split: prod.splits dest: run_adapter_step_traced)
next
  fix g w d w'
  assume "gate_beside gate = Some g" "traced S cx steps (snd (sn_out (fst w)))" "g w = (d, w')"
  then show "traced S cx steps (snd (sn_out (fst w')))"
    by (auto simp: gate_beside_def split: prod.splits)
qed

section \<open>What a plan may start\<close>

text \<open>The mounts of an invocation: those of the engagement, and the template directory.\<close>

lemma in_dict_set: "(d, s) \<in> set (dict_set k v m) \<Longrightarrow> (d, s) \<in> set m \<or> s = v"
  by (induction m) (auto split: if_splits)

lemma invocation_mounts:
  assumes "invocation is_file cx key target = Inr (args, mounts)" "(d, s) \<in> set mounts"
  shows "(d, s) \<in> set (base_mounts cx) \<or> (\<exists>dir. template_dir cx = Some dir \<and> (s = dir \<or> s = path_str dir))"
  using assms by (auto simp: invocation_def template_invocation_def Let_def dest!: in_dict_set split: if_splits option.splits)

lemma caps_of_exact: "caps_of key = (if key \<in> {''nmap'', ''naabu''} then [''NET_RAW''] else [])"
  by (simp add: caps_of_def given_or_def ADAPTER_CAPABILITIES_def)

text \<open>Every adapter with a parser has an image in the catalog.\<close>

lemma parsed_adapters_have_images: "key \<in> set PARSED_ADAPTERS \<Longrightarrow> \<exists>img. image_ref_of key = Inr img"
  by (auto simp: PARSED_ADAPTERS_def image_ref_of_def IMAGE_CATALOG_def)

text \<open>
  C7. Scans stay in the sandbox. For every accepted plan, run by the orchestrator with the production step runner,
  whatever the tools answer and the gate decides: the processes started are, one group per scan and nothing
  else, those of a step of the plan on a target the scope includes. A pinned image is run only right after an
  inspection that found it; the container has the fixed user, no capability but NET_RAW for nmap and naabu, a
  read-only root, the bridge network, and no mount but the configured template directory.
\<close>

theorem scans_stay_in_the_sandbox:
  assumes "ExecutionPlan_create sha pid asm ver steps = Inr plan"
    and "run_to_completion (beside (production_step_runner (logged_scans S) tmpl tmo sc)) (gate_beside gate) owner now rounds
       (snd (dispatch plan (fresh_orchestrator lifetime (\<lparr>sn_observations = [], sn_out = (w, [])\<rparr>, x)))) = (r, orc')"
  shows "\<exists>blks. snd (sn_out (fst (world orc'))) = concat blks \<and> (\<forall>blk \<in> set blks. \<exists>step \<in> set steps. \<exists>target \<in> set (sc_include sc).
     \<exists>img args mounts. runner step \<in> set PARSED_ADAPTERS \<and> image_ref_of (runner step) = Inr img \<and>
       invocation (sp_is_file S) (production_context tmpl sc) (runner step) target = Inr (args, mounts) \<and>
       container_trace (dk_docker (sp_docker S)) img
         (sandboxed (dk_docker (sp_docker S)) img (if runner step \<in> {''nmap'', ''naabu''} then [''NET_RAW''] else []) args mounts) blk \<and>
       (\<forall>(d, s) \<in> set mounts. s \<in> {py_strip tmpl, path_str (py_strip tmpl)}))"
proof -
  let ?S = "S\<lparr>sp_docker := (sp_docker S)\<lparr>dk_timeout := scan_timeout tmo\<rparr>\<rparr>" and ?cx = "production_context tmpl sc"
  have run: "production_step_runner (logged_scans S) tmpl tmo sc = run_adapter_step (logged_scans ?S) ?cx"
    by (simp add: production_step_runner_def logged_scans_def logged_docker_def)
  have d: "distinct (map step_key (plan_steps plan))" "plan_steps plan = steps" using created_plan [OF assms(1)] by auto
  have "traced ?S ?cx (set steps) []" by (auto simp: traced_def intro: exI [of _ "[]"])
  with processes.run_keeps_world [OF assms(2) [unfolded run], of "set steps"] d
  have "traced ?S ?cx (set steps) (snd (sn_out (fst (world orc'))))" by (simp add: dispatched_world)
  then obtain blks where b: "snd (sn_out (fst (world orc'))) = concat blks" "\<forall>blk \<in> set blks. \<exists>step \<in> set steps. scan_trace ?S ?cx step blk"
    by (auto simp: traced_def)
  have m: "(d, s) \<in> set mounts \<Longrightarrow> s \<in> {py_strip tmpl, path_str (py_strip tmpl)}"
    if "invocation (sp_is_file S) ?cx key target = Inr (args, mounts)" for key target args mounts d s
    using invocation_mounts [OF that, of d s] by (auto simp: production_context_def base_mounts_def template_dir_def split: if_splits)
  have t: "cx_targets ?cx = sc_include sc" by (simp add: production_context_def)
  have "\<exists>step \<in> set steps. \<exists>target \<in> set (sc_include sc).
     \<exists>img args mounts. runner step \<in> set PARSED_ADAPTERS \<and> image_ref_of (runner step) = Inr img \<and>
       invocation (sp_is_file S) ?cx (runner step) target = Inr (args, mounts) \<and>
       container_trace (dk_docker (sp_docker S)) img
         (sandboxed (dk_docker (sp_docker S)) img (if runner step \<in> {''nmap'', ''naabu''} then [''NET_RAW''] else []) args mounts) blk \<and>
       (\<forall>(d, s) \<in> set mounts. s \<in> {py_strip tmpl, path_str (py_strip tmpl)})" if blk: "blk \<in> set blks" for blk
  proof -
    obtain step target img args mounts where k: "step \<in> set steps" "target \<in> set (sc_include sc)" "runner step \<in> set PARSED_ADAPTERS"
      "image_ref_of (runner step) = Inr img" "invocation (sp_is_file S) ?cx (runner step) target = Inr (args, mounts)"
      "container_trace (dk_docker (sp_docker S)) img (sandboxed (dk_docker (sp_docker S)) img (caps_of (runner step)) args mounts) blk"
      using b(2) blk by (fastforce simp: scan_trace_def t)
    moreover have "\<forall>(d, s) \<in> set mounts. s \<in> {py_strip tmpl, path_str (py_strip tmpl)}" using m [OF k(5)] by blast
    ultimately show ?thesis unfolding caps_of_exact by blast
  qed
  with b(1) show ?thesis by blast
qed

section \<open>What a successful step means\<close>

text \<open>The results of the scans of one step, target by target.\<close>

inductive scanned :: "'w scan_ports \<Rightarrow> scan_context \<Rightarrow> plan_step \<Rightarrow> string list \<Rightarrow> 'w \<Rightarrow> real_scan_result list \<Rightarrow> 'w \<Rightarrow> bool"
  for S :: "'w scan_ports" and cx :: scan_context and step :: plan_step where
  scanned_Nil: "scanned S cx step [] w [] w"
| scanned_Cons: "invocation (sp_is_file S) cx (runner step) t = Inr (args, mounts) \<Longrightarrow>
    scan (sp_docker S) (sp_parse S) (runner step) args mounts None None None w = (Inr res, w') \<Longrightarrow>
    rs_exit_code res = 0 \<or> rs_observations res \<noteq> [] \<Longrightarrow>
    scanned S cx step ts w' rss w'' \<Longrightarrow> scanned S cx step (t # ts) w (res # rss) w''"










section \<open>Findings\<close>

text \<open>
  Steps of the runner \<^verbatim>\<open>case-engine\<close>, which the planner writes for every logic test, have no parser: each fails as
  invalid input without starting anything. The same holds for the template adapter \<^verbatim>\<open>nuclei_tcp\<close>.
\<close>

lemma logic_steps_never_run:
  assumes "runner step \<in> {''case-engine'', ''adapter'', ''nuclei_tcp'', ''zap'', ''fingerprinthub''}"
  shows "run_adapter_step S cx w step = (RunFailure INPUT_INVALID, w)"
proof (cases "cx_targets cx")
  case (Cons t ts)
  have "dict_get (ADAPTER_PARSERS (sp_parse S)) (runner step) = None" using assms by (auto simp: ADAPTER_PARSERS_get PARSED_ADAPTERS_def)
  moreover obtain args mounts where "invocation (sp_is_file S) cx (runner step) t = Inr (args, mounts)"
    using assms by (cases "template_invocation (sp_is_file S) cx (rstrip_when (\<lambda>c. c = CHR ''/'') t)") (auto simp: invocation_def TEMPLATE_ADAPTERS_def URL_ADAPTERS_def)
  ultimately have "scan_target S cx step t (sn_out w) = (Inl (StepFailure INPUT_INVALID (dk_err (sp_docker S) (ValueError (''no parser registered for adapter '' @ repr_str (runner step))))), sn_out w)"
    by (simp add: scan_target_def scan_def)
  then show ?thesis by (simp add: run_adapter_step_def Cons)
qed (simp add: run_adapter_step_def)

text \<open>In production the port scanners get no ports: what the scope says about ports and exclusions does not reach them.\<close>

lemma scope_ports_and_exclusions_ignored:
  "sc_include sc = sc_include sc' \<Longrightarrow> production_step_runner S tmpl tmo sc = production_step_runner S tmpl tmo sc'"
  by (simp add: production_step_runner_def production_context_def)

text \<open>An image of the catalog without a digest runs by its floating tag, with no inspection.\<close>

lemma unpinned_image_runs:
  "image_ref_of ''prowler'' = Inr ''toniblyx/prowler:latest''" "verify_digest D ''toniblyx/prowler:latest'' w = (Inr (), w)"
  by (simp_all add: image_ref_of_def IMAGE_CATALOG_def verify_digest_def)

section \<open>Witnesses\<close>

definition one_step_plan :: execution_plan where
  "one_step_plan = (case ExecutionPlan_create id ''p'' ''asm'' 1
     [\<lparr>step_key = ''scan'', runner = ''nuclei'', risk = ACTIVE, parameters = [], dependencies = []\<rparr>] of Inr plan \<Rightarrow> plan)"

definition quiet_scan_ports :: "unit scan_ports" where
  "quiet_scan_ports =
     \<lparr>sp_docker = \<lparr>dk_process = (\<lambda>argv limit w. (Inr ([], [], 0), w)), dk_docker = ''docker'', dk_timeout = 600, dk_inspect_timeout = 30,
        dk_tmp = ''/tmp'', dk_err = (\<lambda>e. [])\<rparr>,
      sp_parse = (\<lambda>key out src. Inr []), sp_is_file = (\<lambda>p. False), sp_sha = id, sp_float = (\<lambda>r. ''1.0'')\<rparr>"

definition shop_scope :: scope_snapshot where
  "shop_scope =
     \<lparr>sc_id = ''s'', sc_project_id = ''p'', sc_include = [''http://shop:3000/''], sc_exclude = [], sc_ports = [3000],
      sc_limits = \<lparr>requests_per_second = 1, concurrency = 1, max_requests = 10\<rparr>, sc_approved_by = ''h'', sc_approved_at = 0,
      sc_digest = ''d'', sc_cloud_accounts = []\<rparr>"

definition shop_run :: "(exn + string) \<times> ((unit \<times> process_log) scan_state \<times> unit) orchestrator" where
  "shop_run = run_to_completion (beside (production_step_runner (logged_scans quiet_scan_ports) ''/srv/t'' None shop_scope)) (gate_beside None) ''w1'' 0 3
     (snd (dispatch one_step_plan (fresh_orchestrator 300 (\<lparr>sn_observations = [], sn_out = ((), [])\<rparr>, ()))))"

lemma one_step_plan_ok: "ExecutionPlan_create id ''p'' ''asm'' 1
     [\<lparr>step_key = ''scan'', runner = ''nuclei'', risk = ACTIVE, parameters = [], dependencies = []\<rparr>] = Inr one_step_plan"
  by code_simp

lemma shop_run_log: "length (snd (sn_out (fst (world (snd shop_run))))) = 2"
  by code_simp

theorem scans_stay_in_the_sandbox_witness:
  "\<exists>blk \<in> {blk. set blk \<subseteq> set (snd (sn_out (fst (world (snd shop_run)))))}. blk \<noteq> [] \<and> (\<exists>img args mounts.
     image_ref_of ''nuclei'' = Inr img \<and> container_trace ''docker'' img (sandboxed ''docker'' img [] args mounts) blk)"
proof -
  from scans_stay_in_the_sandbox [OF one_step_plan_ok, of quiet_scan_ports "''/srv/t''" None shop_scope None "''w1''" 0 3 300 "()" "()" "fst shop_run" "snd shop_run"]
  obtain blks where b: "snd (sn_out (fst (world (snd shop_run)))) = concat blks"
    "\<forall>blk \<in> set blks. \<exists>img args mounts. image_ref_of ''nuclei'' = Inr img \<and> container_trace ''docker'' img (sandboxed ''docker'' img [] args mounts) blk"
    by (simp add: shop_run_def [symmetric]) (fastforce simp: quiet_scan_ports_def)
  have "concat blks \<noteq> []" using shop_run_log unfolding b(1) by (metis list.size(3) zero_neq_numeral)
  then obtain blk where "blk \<in> set blks" "blk \<noteq> []" by auto
  with b show ?thesis by (intro bexI [of _ blk]) auto
qed





end
