(* ===== verification/Adapter_Runner.thy ===== *)
theory Adapter_Runner
  imports Containers Logic_Tests
begin

text \<open>
  The contracts of the adapters (\<^verbatim>\<open>domain/adapters/contracts.py\<close>) and the runner that checks the scope of every
  target before it starts a container (\<^verbatim>\<open>infrastructure/adapters/base.py\<close>). The container executor, the
  content store, the parsers, temporary directories and the listing of a directory are parameters that act on
  a world of their own; so are the policy engine, which the code injects, the reading of an ISO date and of
  the numeral of a float.
\<close>

section \<open>Contracts\<close>

datatype output_status = OUT_COMPLETED | OUT_PARTIAL | OUT_FAILED

record adapter_upstream =
  up_name :: string
  up_url :: string
  up_version :: string
  up_digest :: string

definition AdapterUpstream_check :: "adapter_upstream \<Rightarrow> adapter_upstream result" where
  "AdapterUpstream_check u =
     (if up_name u = [] then Inl (DomainValidationError ''AdapterUpstream.name must be non-empty'')
      else if up_version u = [] then Inl (DomainValidationError ''AdapterUpstream.version must be non-empty'')
      else Inr u)"

record adapter_manifest =
  mf_id :: string
  mf_version :: string
  mf_adapter_api_version :: string
  mf_license :: string
  mf_upstream :: adapter_upstream
  mf_risk_class :: risk_class
  mf_coverage_domain :: "coverage_domain list"
  mf_input_schema :: string
  mf_output_schema :: string
  mf_network_policy :: string
  mf_parser :: string
  mf_fixtures :: "string list"
  mf_permissions :: "string list"
  mf_digest :: string

definition manifest_payload :: "adapter_manifest \<Rightarrow> pyval" where
  "manifest_payload m = VDict
     [(''id'', VStr (mf_id m)), (''version'', VStr (mf_version m)), (''adapter_api_version'', VStr (mf_adapter_api_version m)),
      (''license'', VStr (mf_license m)),
      (''upstream'', VDict [(''name'', VStr (up_name (mf_upstream m))), (''url'', VStr (up_url (mf_upstream m))),
        (''version'', VStr (up_version (mf_upstream m))), (''digest'', VStr (up_digest (mf_upstream m)))]),
      (''risk_class'', VStr (risk_value (mf_risk_class m))), (''coverage_domain'', VStrs (map domain_value (mf_coverage_domain m))),
      (''input_schema'', VStr (mf_input_schema m)), (''output_schema'', VStr (mf_output_schema m)),
      (''network_policy'', VStr (mf_network_policy m)), (''parser'', VStr (mf_parser m)), (''fixtures'', VStrs (mf_fixtures m)),
      (''permissions'', VStrs (mf_permissions m))]"

definition AdapterManifest_check :: "(string \<Rightarrow> string) \<Rightarrow> adapter_manifest \<Rightarrow> adapter_manifest result" where
  "AdapterManifest_check sha m =
     (if mf_id m = [] then Inl (DomainValidationError ''AdapterManifest.id must be non-empty'')
      else if mf_version m = [] then Inl (DomainValidationError ''AdapterManifest.version must be non-empty'')
      else if mf_adapter_api_version m = [] then Inl (DomainValidationError ''AdapterManifest.adapter_api_version must be non-empty'')
      else if mf_license m = [] then Inl (DomainValidationError ''AdapterManifest.license must be non-empty'')
      else if mf_coverage_domain m = [] then Inl (DomainValidationError ''AdapterManifest.coverage_domain must be non-empty'')
      else if mf_input_schema m = [] then Inl (DomainValidationError ''AdapterManifest.input_schema must be non-empty'')
      else if mf_output_schema m = [] then Inl (DomainValidationError ''AdapterManifest.output_schema must be non-empty'')
      else if mf_network_policy m = [] then Inl (DomainValidationError ''AdapterManifest.network_policy must be non-empty'')
      else if mf_parser m = [] then Inl (DomainValidationError ''AdapterManifest.parser must be non-empty'')
      else Inr (m\<lparr>mf_digest := canonical_digest sha (manifest_payload m)\<rparr>))"

record execution_policy =
  xl_timeout_seconds :: int
  xl_max_concurrency :: int
  xl_network_profile :: string

definition ExecutionPolicy_check :: "execution_policy \<Rightarrow> execution_policy result" where
  "ExecutionPolicy_check p =
     (if xl_timeout_seconds p \<le> 0 then Inl (DomainValidationError ''ExecutionPolicy.timeout_seconds must be positive'')
      else if xl_max_concurrency p \<le> 0 then Inl (DomainValidationError ''ExecutionPolicy.max_concurrency must be positive'')
      else if xl_network_profile p = [] then Inl (DomainValidationError ''ExecutionPolicy.network_profile must be non-empty'')
      else Inr p)"

record adapter_input =
  ai_run_id :: string
  ai_engagement_id :: string
  ai_scope_snapshot :: pydict
  ai_targets :: "string list"
  ai_options :: pydict
  ai_execution_policy :: execution_policy

definition AdapterInput_check :: "adapter_input \<Rightarrow> adapter_input result" where
  "AdapterInput_check i =
     (if ai_run_id i = [] then Inl (DomainValidationError ''AdapterInput.run_id must be non-empty'')
      else if ai_engagement_id i = [] then Inl (DomainValidationError ''AdapterInput.engagement_id must be non-empty'')
      else if ai_targets i = [] then Inl (DomainValidationError ''AdapterInput.targets must be non-empty'')
      else Inr i)"

record artifact =
  ar_id :: string
  ar_kind :: string
  ar_sha256 :: string
  ar_storage_uri :: string

definition Artifact_check :: "artifact \<Rightarrow> artifact result" where
  "Artifact_check a =
     (if ar_id a = [] then Inl (DomainValidationError ''Artifact.id must be non-empty'')
      else if ar_kind a = [] then Inl (DomainValidationError ''Artifact.kind must be non-empty'')
      else if ar_sha256 a = [] then Inl (DomainValidationError ''Artifact.sha256 must be non-empty'')
      else if ar_storage_uri a = [] then Inl (DomainValidationError ''Artifact.storage_uri must be non-empty'')
      else Inr a)"

record adapter_output =
  ao_run_id :: string
  ao_status :: output_status
  ao_tool :: adapter_source
  ao_artifacts :: "artifact list"
  ao_observations :: "observation list"
  ao_errors :: "string list"

definition AdapterOutput_check :: "adapter_output \<Rightarrow> adapter_output result" where
  "AdapterOutput_check x =
     (if ao_run_id x = [] then Inl (DomainValidationError ''AdapterOutput.run_id must be non-empty'') else Inr x)"

section \<open>The scope of an input\<close>

text \<open>\<^verbatim>\<open>int(v)\<close> and \<^verbatim>\<open>float(v)\<close>; \<open>num\<close> reads the numeral of a float that is a number.\<close>

fun int_of_value :: "(string \<Rightarrow> rat) \<Rightarrow> pyval \<Rightarrow> int result" where
  "int_of_value num (VInt i) = Inr i"
| "int_of_value num (VBool b) = Inr (if b then 1 else 0)"
| "int_of_value num (VFloat r) = int_of_numeral num r"
| "int_of_value num (VStr s) =
     (case py_int s of Some i \<Rightarrow> Inr i | None \<Rightarrow> Inl (ValueError (''invalid literal for int() with base 10: '' @ repr_str s)))"
| "int_of_value num _ = Inl (TypeError ''int() argument must be a string, a bytes-like object or a real number'')"

fun float_of_value :: "(string \<Rightarrow> rat) \<Rightarrow> (string \<Rightarrow> rat option) \<Rightarrow> pyval \<Rightarrow> rat result" where
  "float_of_value num text (VInt i) = Inr (of_int i)"
| "float_of_value num text (VBool b) = Inr (if b then 1 else 0)"
| "float_of_value num text (VFloat r) = Inr (num r)"
| "float_of_value num text (VStr s) =
     (case text s of Some q \<Rightarrow> Inr q | None \<Rightarrow> Inl (ValueError (''could not convert string to float: '' @ repr_str s)))"
| "float_of_value num text _ = Inl (TypeError ''float() argument must be a string or a real number'')"

text \<open>The elements of a \<^verbatim>\<open>Sequence\<close>: a list, and a string character by character.\<close>

fun sequence_of :: "pyval \<Rightarrow> pyval list option" where
  "sequence_of (VList vs) = Some vs"
| "sequence_of (VStr s) = Some (map (\<lambda>c. VStr [c]) s)"
| "sequence_of _ = None"

definition item :: "pydict \<Rightarrow> string \<Rightarrow> pyval result" where
  "item d k = (case dict_get d k of Some v \<Rightarrow> Inr v | None \<Rightarrow> Inl (KeyError (repr_str k)))"

definition sequence_item :: "pyval \<Rightarrow> string \<Rightarrow> pyval list result" where
  "sequence_item v field =
     (case sequence_of v of Some vs \<Rightarrow> Inr vs
      | None \<Rightarrow> Inl (AssertionError (''scope_snapshot.'' @ field @ '' must be a sequence'')))"

definition item_or_empty :: "pydict \<Rightarrow> string \<Rightarrow> pyval" where
  "item_or_empty d k = (case dict_get d k of Some v \<Rightarrow> v | None \<Rightarrow> VList [])"

record readers =
  rd_num :: "string \<Rightarrow> rat"
  rd_float_text :: "string \<Rightarrow> rat option"
  rd_iso :: "string \<Rightarrow> datetime result"

definition rebuild_limits :: "readers \<Rightarrow> pyval \<Rightarrow> scope_limits result" where
  "rebuild_limits R v =
     (case v of
        VDict l \<Rightarrow>
          bind_res (bind_res (item l ''requests_per_second'') (float_of_value (rd_num R) (rd_float_text R))) (\<lambda>rps.
          bind_res (bind_res (item l ''concurrency'') (int_of_value (rd_num R))) (\<lambda>con.
          bind_res (bind_res (item l ''max_requests'') (int_of_value (rd_num R))) (\<lambda>mx.
          ScopeLimits_check \<lparr>requests_per_second = rps, concurrency = con, max_requests = mx\<rparr>)))
      | _ \<Rightarrow> Inl (AssertionError ''scope_snapshot.limits must be a mapping''))"

definition rebuild_scope_snapshot :: "readers \<Rightarrow> pydict \<Rightarrow> scope_snapshot result" where
  "rebuild_scope_snapshot R d =
     bind_res (bind_res (item d ''limits'') (rebuild_limits R)) (\<lambda>limits.
     bind_res (bind_res (item d ''ports'') (\<lambda>v. sequence_item v ''ports'')) (\<lambda>ports_raw.
     bind_res (bind_res (item d ''approved_at'') (\<lambda>v. case v of VStr s \<Rightarrow> Inr s
        | _ \<Rightarrow> Inl (AssertionError ''scope_snapshot.approved_at must be ISO str''))) (\<lambda>approved_at_raw.
     bind_res (bind_res (item d ''include'') (\<lambda>v. sequence_item v ''include'')) (\<lambda>include_raw.
     bind_res (sequence_item (item_or_empty d ''exclude'') ''exclude'') (\<lambda>exclude_raw.
     bind_res (sequence_item (item_or_empty d ''cloud_accounts'') ''cloud_accounts'') (\<lambda>cloud_raw.
     bind_res (item d ''id'') (\<lambda>sid.
     bind_res (item d ''project_id'') (\<lambda>pid.
     bind_res (map_res (int_of_value (rd_num R)) ports_raw) (\<lambda>ports.
     bind_res (item d ''approved_by'') (\<lambda>approver.
     bind_res (rd_iso R approved_at_raw) (\<lambda>approved.
     bind_res (item d ''digest'') (\<lambda>digest.
     Inr \<lparr>sc_id = py_str sid, sc_project_id = py_str pid, sc_include = map py_str include_raw, sc_exclude = map py_str exclude_raw,
          sc_ports = ports, sc_limits = limits, sc_approved_by = py_str approver, sc_approved_at = approved, sc_digest = py_str digest,
          sc_cloud_accounts = map py_str cloud_raw\<rparr>))))))))))))"

section \<open>The scope gate\<close>

definition extract_ports :: "readers \<Rightarrow> adapter_input \<Rightarrow> int list result" where
  "extract_ports R i =
     (case dict_get (ai_options i) ''ports'' of
        None \<Rightarrow> Inr []
      | Some v \<Rightarrow> (case sequence_of v of None \<Rightarrow> Inr [] | Some vs \<Rightarrow> map_res (int_of_value (rd_num R)) vs))"

definition is_cloud_target :: "string \<Rightarrow> adapter_manifest \<Rightarrow> bool" where
  "is_cloud_target target m =
     (if CLOUD \<notin> set (mf_coverage_domain m) then False
      else case normalize_cloud_account target of Inl _ \<Rightarrow> False | Inr _ \<Rightarrow> True)"

definition denied :: "string \<Rightarrow> string \<Rightarrow> 'a result" where
  "denied target why = Inl (ScopeDeniedError (''scope denied for target='' @ target @ '' reason='' @ why))"

definition enforce_cloud_target ::
  "string \<Rightarrow> risk_class \<Rightarrow> string \<Rightarrow> scope_snapshot \<Rightarrow> risk_class set \<Rightarrow> string set \<Rightarrow> unit result" where
  "enforce_cloud_target target level capability sc approved_risks approved_capabilities =
     (if level = DESTRUCTIVE then denied target ''DESTRUCTIVE_ACTION_DENIED''
      else bind_res (includes_cloud_account sc target) (\<lambda>inside.
        if \<not> inside then denied target ''SCOPE_DENIED''
        else if level \<notin> approved_risks then denied target ''RISK_NOT_APPROVED''
        else if level \<in> {ACTIVE, INTRUSIVE} \<and> capability \<notin> approved_capabilities then denied target ''CAPABILITY_NOT_APPROVED''
        else Inr ()))"

type_synonym policy_engine = "action_request \<Rightarrow> scope_snapshot \<Rightarrow> execution_mode \<Rightarrow> risk_class set \<Rightarrow> string set \<Rightarrow> policy_decision result"

definition adapter_capability :: "adapter_manifest \<Rightarrow> string" where
  "adapter_capability m = (case mf_permissions m of [] \<Rightarrow> ''passive'' | c # _ \<Rightarrow> c)"

definition adapter_risks :: "risk_class set" where
  "adapter_risks = {PASSIVE, risk_class.LOW, ACTIVE, INTRUSIVE}"

definition enforce_target :: "policy_engine \<Rightarrow> adapter_manifest \<Rightarrow> int list \<Rightarrow> scope_snapshot \<Rightarrow> string \<Rightarrow> unit result" where
  "enforce_target engine m ports sc target =
     (if is_cloud_target target m then
        enforce_cloud_target target (mf_risk_class m) (adapter_capability m) sc adapter_risks (set (mf_permissions m))
      else
        bind_res (engine \<lparr>ar_target = target, ar_port = (case ports of [] \<Rightarrow> 0 | p # _ \<Rightarrow> p), ar_risk = mf_risk_class m,
            ar_capability = adapter_capability m\<rparr> sc SCOPE_AUTOPILOT adapter_risks (set (mf_permissions m))) (\<lambda>d.
          if allowed d then Inr () else denied target (reason d)))"

fun enforce_targets :: "policy_engine \<Rightarrow> adapter_manifest \<Rightarrow> int list \<Rightarrow> scope_snapshot \<Rightarrow> string list \<Rightarrow> unit result" where
  "enforce_targets engine m ports sc [] = Inr ()"
| "enforce_targets engine m ports sc (t # ts) =
     bind_res (enforce_target engine m ports sc t) (\<lambda>_. enforce_targets engine m ports sc ts)"

definition enforce_scope :: "readers \<Rightarrow> policy_engine \<Rightarrow> adapter_manifest \<Rightarrow> adapter_input \<Rightarrow> scope_snapshot \<Rightarrow> unit result" where
  "enforce_scope R engine m i sc =
     bind_res (extract_ports R i) (\<lambda>ports. enforce_targets engine m ports sc (ai_targets i))"

section \<open>The run\<close>

type_synonym adapter_parser = "string \<Rightarrow> adapter_source \<Rightarrow> (string \<times> string) list \<Rightarrow> observation list result"

record 'w adapter_ports =
  ap_readers :: readers
  ap_engine :: policy_engine
  ap_executor :: "container_call \<Rightarrow> ('w, container_result) cmd"
  ap_store :: "string \<Rightarrow> string \<Rightarrow> ('w, string) cmd" \<comment> \<open>content, kind; the URI\<close>
  ap_mkdtemp :: "string \<Rightarrow> ('w, string) cmd"
  ap_write_json :: "string \<Rightarrow> pyval \<Rightarrow> ('w, unit) cmd"
  ap_list_dir :: "string \<Rightarrow> ('w, (string \<times> string option) list option) cmd" \<comment> \<open>the files of a directory with their content\<close>
  ap_parsers :: "(string \<times> adapter_parser) list"
  ap_sha :: "string \<Rightarrow> string"
  ap_text :: "exn \<Rightarrow> string"

definition SECURITY_FLAGS :: "string list" where
  "SECURITY_FLAGS = [''--user=nonroot'', ''--cap-drop=ALL'', ''--read-only'', ''--network=scoped-egress'']"

definition ADAPTER_DEFAULT_LIMITS :: pydict where
  "ADAPTER_DEFAULT_LIMITS =
     [(''cpu_quota'', VStr ''1.0''), (''memory_mb'', VInt 512), (''pids_limit'', VInt 64), (''no_new_privileges'', VBool True)]"

definition input_payload :: "adapter_input \<Rightarrow> pyval" where
  "input_payload i = VDict
     [(''run_id'', VStr (ai_run_id i)), (''engagement_id'', VStr (ai_engagement_id i)), (''targets'', VStrs (ai_targets i)),
      (''options'', VDict (ai_options i)),
      (''execution_policy'', VDict [(''timeout_seconds'', VInt (xl_timeout_seconds (ai_execution_policy i))),
        (''max_concurrency'', VInt (xl_max_concurrency (ai_execution_policy i))),
        (''network_profile'', VStr (xl_network_profile (ai_execution_policy i)))])]"

definition adapter_call :: "adapter_manifest \<Rightarrow> string \<Rightarrow> string \<Rightarrow> container_call" where
  "adapter_call m in_dir out_dir =
     \<lparr>cc_image_digest = up_digest (mf_upstream m),
      cc_command = SECURITY_FLAGS @ [up_digest (mf_upstream m), ''--input=/in/input.json'', ''--output=/out''],
      cc_mounts = [(''/in'', in_dir), (''/out'', out_dir)], cc_network_policy = mf_network_policy m,
      cc_resource_limits = ADAPTER_DEFAULT_LIMITS, cc_capabilities = [], cc_extra_labels = [], cc_env = [],
      cc_network_namespace = None, cc_seccomp_profile = None\<rparr>"

definition execute_container :: "'w adapter_ports \<Rightarrow> adapter_manifest \<Rightarrow> adapter_input \<Rightarrow> ('w, container_result) cmd" where
  "execute_container P m i =
     bindC (ap_mkdtemp P ''adapter-out-'') (\<lambda>out_dir.
     bindC (ap_mkdtemp P ''adapter-in-'') (\<lambda>in_dir.
     bindC (ap_write_json P (in_dir @ ''/input.json'') (input_payload i)) (\<lambda>_.
     ap_executor P (adapter_call m in_dir out_dir))))"

text \<open>\<^verbatim>\<open>path.suffix.lstrip(".") or "bin"\<close> of a file name.\<close>

definition path_suffix :: "string \<Rightarrow> string" where
  "path_suffix name =
     (case rpartition_on (CHR ''.'') name of (stem, dot, ext) \<Rightarrow> if dot \<and> stem \<noteq> [] \<and> ext \<noteq> [] then CHR ''.'' # ext else [])"

definition artifact_kind :: "string \<Rightarrow> string" where
  "artifact_kind name = (let s = dropWhile (\<lambda>c. c = CHR ''.'') (path_suffix name) in if s = [] then ''bin'' else s)"

fun store_artifacts :: "'w adapter_ports \<Rightarrow> (string \<times> string option) list \<Rightarrow> ('w, artifact list) cmd" where
  "store_artifacts P [] = returnC []"
| "store_artifacts P ((name, None) # fs) = store_artifacts P fs"
| "store_artifacts P ((name, Some content) # fs) =
     bindC (ap_store P content (artifact_kind name)) (\<lambda>uri.
     bindC (liftC (Artifact_check \<lparr>ar_id = name, ar_kind = artifact_kind name, ar_sha256 = ''sha256:'' @ ap_sha P content,
       ar_storage_uri = uri\<rparr>)) (\<lambda>a.
     bindC (store_artifacts P fs) (\<lambda>rest. returnC (a # rest))))"

definition collect_artifacts :: "'w adapter_ports \<Rightarrow> string \<Rightarrow> ('w, artifact list) cmd" where
  "collect_artifacts P dir =
     bindC (ap_list_dir P dir) (\<lambda>fs.
       case fs of None \<Rightarrow> returnC [] | Some fs \<Rightarrow> store_artifacts P (sort_key fst fs))"

definition parse_output :: "'w adapter_ports \<Rightarrow> adapter_manifest \<Rightarrow> adapter_source \<Rightarrow> string \<Rightarrow> string \<Rightarrow> ('w, observation list) cmd" where
  "parse_output P m src out dir =
     (case dict_get (ap_parsers P) (mf_parser m) of
        None \<Rightarrow> returnC []
      | Some parser \<Rightarrow>
          bindC (ap_list_dir P dir) (\<lambda>fs.
          liftC (parser out src (List.map_filter (\<lambda>(name, c). map_option (\<lambda>content. (name, content)) c) (case fs of None \<Rightarrow> [] | Some fs \<Rightarrow> fs)))))"

definition finish_run :: "'w adapter_ports \<Rightarrow> adapter_manifest \<Rightarrow> adapter_input \<Rightarrow> adapter_source \<Rightarrow> container_result \<Rightarrow> ('w, adapter_output) cmd" where
  "finish_run P m i src res =
     bindC (collect_artifacts P (cr_artifacts_dir res)) (\<lambda>artifacts.
     bindC (parse_output P m src (cr_stdout res) (cr_artifacts_dir res)) (\<lambda>observations.
     liftC (AdapterOutput_check
       \<lparr>ao_run_id = ai_run_id i, ao_status = (if cr_exit_code res = 0 then OUT_COMPLETED else OUT_PARTIAL), ao_tool = src,
        ao_artifacts = artifacts, ao_observations = observations,
        ao_errors = (if cr_exit_code res \<noteq> 0
          then [''container exit_code='' @ int_repr (cr_exit_code res) @ '' stderr='' @ cr_stderr res] else [])\<rparr>)))"

definition run_admitted :: "'w adapter_ports \<Rightarrow> adapter_manifest \<Rightarrow> adapter_input \<Rightarrow> adapter_source \<Rightarrow> ('w, adapter_output) cmd" where
  "run_admitted P m i src w =
     (case execute_container P m i w of
        (Inl e, w') \<Rightarrow>
          (AdapterOutput_check \<lparr>ao_run_id = ai_run_id i, ao_status = OUT_FAILED, ao_tool = src, ao_artifacts = [], ao_observations = [],
             ao_errors = [''container execution failed: '' @ ap_text P e]\<rparr>, w')
      | (Inr res, w') \<Rightarrow> finish_run P m i src res w')"

definition run_adapter :: "'w adapter_ports \<Rightarrow> adapter_manifest \<Rightarrow> adapter_input \<Rightarrow> ('w, adapter_output) cmd" where
  "run_adapter P m i =
     bindC (liftC (rebuild_scope_snapshot (ap_readers P) (ai_scope_snapshot i))) (\<lambda>sc.
     bindC (liftC (enforce_scope (ap_readers P) (ap_engine P) m i sc)) (\<lambda>_.
     bindC (liftC (AdapterSource_check \<lparr>as_name = mf_id m, as_version = mf_version m, as_template_version = up_version (mf_upstream m)\<rparr>)) (\<lambda>src.
     run_admitted P m i src)))"

end
