(* ===== verification/Adapter_Safety.thy ===== *)
theory Adapter_Safety
  imports Adapter_Runner
begin

text \<open>
  What holds of every run of an adapter: nothing is started before the scope gate has admitted every target, and the
  output accounts for the container's exit and for every file it left. The last section holds the inputs on which
  the gate is weaker, or stricter, than its documentation.
\<close>

section \<open>The gate\<close>

lemma enforce_targets_Inr: "enforce_targets engine m ports sc ts = Inr () \<longleftrightarrow> (\<forall>t \<in> set ts. enforce_target engine m ports sc t = Inr ())"
  by (induction ts) (auto simp: bind_res_Inr_iff)

text \<open>What the gate establishes of one target.\<close>

definition target_admitted :: "(string \<Rightarrow> string option) \<Rightarrow> adapter_manifest \<Rightarrow> int list \<Rightarrow> scope_snapshot \<Rightarrow> string \<Rightarrow> bool" where
  "target_admitted idna m ports sc t \<longleftrightarrow>
     mf_risk_class m \<noteq> DESTRUCTIVE \<and> (mf_risk_class m \<in> {ACTIVE, INTRUSIVE} \<longrightarrow> mf_permissions m \<noteq> []) \<and>
     (if is_cloud_target t m then includes_cloud_account sc t = Inr True
      else includes_url idna sc t = Inr True \<and> (\<exists>p ps. ports = p # ps \<and> includes_port sc p = Inr True))"

lemma includes_port_0: "includes_port sc 0 = Inl (DomainValidationError ''port must be between 1 and 65535'')"
  by (simp add: includes_port_def normalize_port_def)

lemma capability_permitted: "adapter_capability m \<in> set (mf_permissions m) \<longleftrightarrow> mf_permissions m \<noteq> []"
  by (cases "mf_permissions m") (simp_all add: adapter_capability_def)

lemma risk_cases: "r \<noteq> DESTRUCTIVE \<Longrightarrow> r \<in> adapter_risks"
  by (cases r) (simp_all add: adapter_risks_def)

lemma enforce_target_network:
  assumes "\<not> is_cloud_target t m"
  shows "enforce_target engine m ports sc t = Inr () \<longleftrightarrow>
     (\<exists>d. engine \<lparr>ar_target = t, ar_port = (case ports of [] \<Rightarrow> 0 | p # _ \<Rightarrow> p), ar_risk = mf_risk_class m,
        ar_capability = adapter_capability m\<rparr> sc SCOPE_AUTOPILOT adapter_risks (set (mf_permissions m)) = Inr d \<and> allowed d)"
  using assms by (auto simp: enforce_target_def denied_def bind_res_Inr_iff split: if_splits)

lemma enforce_target_Inr: "enforce_target (evaluate idna) m ports sc t = Inr () \<longleftrightarrow> target_admitted idna m ports sc t"
proof (cases "is_cloud_target t m")
  case True
  then show ?thesis
    by (auto simp: enforce_target_def enforce_cloud_target_def denied_def target_admitted_def bind_res_Inr_iff capability_permitted
        risk_cases split: if_splits)
next
  case False
  have cap: "(r = PASSIVE \<or> r = risk_class.LOW \<or> P) \<longleftrightarrow> (r \<in> {ACTIVE, INTRUSIVE} \<longrightarrow> P)" if "r \<noteq> DESTRUCTIVE" for r P
    using that by (cases r) auto
  have risks: "r \<noteq> DESTRUCTIVE \<and> A \<and> B \<and> C \<and> D \<and> r \<in> adapter_risks \<and> E \<longleftrightarrow> r \<noteq> DESTRUCTIVE \<and> A \<and> B \<and> C \<and> D \<and> E" for r A B C D E
    using risk_cases by blast
  show ?thesis
    unfolding enforce_target_network [OF False] evaluate_allows_iff target_admitted_def includes_port_True
    using False cap [of "mf_risk_class m" "adapter_capability m \<in> set (mf_permissions m)"] risk_cases [of "mf_risk_class m"]
    by (cases ports) (simp_all add: capability_permitted conj_ac cong: conj_cong)
qed

lemma enforce_scope_Inr:
  "enforce_scope R (evaluate idna) m i sc = Inr () \<longleftrightarrow>
     (\<exists>ports. extract_ports R i = Inr ports \<and> (\<forall>t \<in> set (ai_targets i). target_admitted idna m ports sc t))"
  by (simp add: enforce_scope_def bind_res_Inr_iff enforce_targets_Inr enforce_target_Inr)

text \<open>
  C10. Nothing is started before the gate. With the policy engine of the code: a run of an adapter either raises and leaves the
  world as it was, or the scope of the input was rebuilt, the manifest is not destructive, and every target
  was admitted, a cloud account by membership, any other target by its URL and the first requested port; only
  then directories are made, a container is executed, and results are stored.
\<close>

theorem adapter_runs_only_in_scope:
  "case run_adapter (P\<lparr>ap_engine := evaluate idna\<rparr>) m i w of (r, w') \<Rightarrow>
     (\<exists>e. r = Inl e \<and> w' = w) \<or>
     (\<exists>sc ports src. rebuild_scope_snapshot (ap_readers P) (ai_scope_snapshot i) = Inr sc \<and> extract_ports (ap_readers P) i = Inr ports \<and>
        (\<forall>t \<in> set (ai_targets i). mf_risk_class m \<noteq> DESTRUCTIVE \<and>
          (if is_cloud_target t m then includes_cloud_account sc t = Inr True
           else includes_url idna sc t = Inr True \<and> (\<exists>p ps. ports = p # ps \<and> includes_port sc p = Inr True))) \<and>
        (r, w') = run_admitted (P\<lparr>ap_engine := evaluate idna\<rparr>) m i src w)"
proof (cases "rebuild_scope_snapshot (ap_readers P) (ai_scope_snapshot i)")
  case (Inl e)
  then show ?thesis by (simp add: run_adapter_def lift_bindC)
next
  case (Inr sc)
  note sc = this
  show ?thesis
  proof (cases "enforce_scope (ap_readers P) (evaluate idna) m i sc")
    case (Inl e)
    with sc show ?thesis by (simp add: run_adapter_def lift_bindC)
  next
    case (Inr u)
    then obtain ports where p: "extract_ports (ap_readers P) i = Inr ports" "\<forall>t \<in> set (ai_targets i). target_admitted idna m ports sc t"
      by (auto simp: enforce_scope_Inr)
    let ?src = "AdapterSource_check \<lparr>as_name = mf_id m, as_version = mf_version m, as_template_version = up_version (mf_upstream m)\<rparr>"
    show ?thesis
    proof (cases ?src)
      case (Inl e)
      with sc Inr show ?thesis by (simp add: run_adapter_def lift_bindC)
    next
      case src: (Inr src)
      have run: "run_adapter (P\<lparr>ap_engine := evaluate idna\<rparr>) m i w = run_admitted (P\<lparr>ap_engine := evaluate idna\<rparr>) m i src w"
        using sc Inr src by (simp add: run_adapter_def lift_bindC)
      have "\<forall>t \<in> set (ai_targets i). mf_risk_class m \<noteq> DESTRUCTIVE \<and>
          (if is_cloud_target t m then includes_cloud_account sc t = Inr True
           else includes_url idna sc t = Inr True \<and> (\<exists>p ps. ports = p # ps \<and> includes_port sc p = Inr True))"
        using p(2) unfolding target_admitted_def by blast
      with sc p(1) show ?thesis
        unfolding run case_prod_unfold by - (rule disjI2, intro exI conjI, (assumption | rule prod.collapse)+)
    qed
  qed
qed

section \<open>The output\<close>

definition stored_files :: "(string \<times> string option) list \<Rightarrow> (string \<times> string) list" where
  "stored_files fs = List.map_filter (\<lambda>(name, c). map_option (\<lambda>content. (name, content)) c) fs"

lemma stored_files_simps [simp]:
  "stored_files [] = []" "stored_files ((n, None) # fs) = stored_files fs" "stored_files ((n, Some c) # fs) = (n, c) # stored_files fs"
  by (simp_all add: stored_files_def List.map_filter_simps)

lemma store_artifacts_exact:
  "store_artifacts P fs w = (Inr as, w') \<Longrightarrow>
     map (\<lambda>a. (ar_id a, ar_kind a, ar_sha256 a)) as = map (\<lambda>(n, c). (n, artifact_kind n, ''sha256:'' @ ap_sha P c)) (stored_files fs)"
proof (induction P fs arbitrary: w as w' rule: store_artifacts.induct)
  case (3 P name content fs)
  then show ?case
    by (auto simp: bindC_Inr liftC_def Artifact_check_def split: if_splits)
qed auto

text \<open>
  The output accounts for the container. When an admitted run returns: it is marked failed exactly when the container could
  not be executed, completed exactly when it exited with zero, and partial otherwise, with an error text unless completed;
  and, unless failed, its artifacts are the files the container left, sorted by name, each with the hash of its content.
\<close>

theorem adapter_output_exact:
  assumes "run_admitted P m i src w = (Inr out, w')"
  shows "ao_run_id out = ai_run_id i \<and> ao_tool out = src \<and> (ao_errors out = [] \<longleftrightarrow> ao_status out = OUT_COMPLETED) \<and>
    (case execute_container P m i w of
       (Inl e, w1) \<Rightarrow> ao_status out = OUT_FAILED \<and> ao_artifacts out = [] \<and> ao_observations out = [] \<and> w' = w1
     | (Inr res, w1) \<Rightarrow> ao_status out = (if cr_exit_code res = 0 then OUT_COMPLETED else OUT_PARTIAL) \<and>
         (\<exists>fs w2. ap_list_dir P (cr_artifacts_dir res) w1 = (Inr fs, w2) \<and>
            map (\<lambda>a. (ar_id a, ar_sha256 a)) (ao_artifacts out) =
              (case fs of None \<Rightarrow> [] | Some fs \<Rightarrow> map (\<lambda>(n, c). (n, ''sha256:'' @ ap_sha P c)) (stored_files (sort_key fst fs)))))"
proof (cases "execute_container P m i w")
  case (Pair r w1)
  show ?thesis
  proof (cases r)
    case (Inl e)
    with Pair assms show ?thesis by (auto simp: run_admitted_def AdapterOutput_check_def split: if_splits)
  next
    case (Inr res)
    with Pair assms obtain as obs w2 w3 where c: "collect_artifacts P (cr_artifacts_dir res) w1 = (Inr as, w2)"
      and out: "ao_run_id out = ai_run_id i" "ao_tool out = src" "ao_artifacts out = as"
        "ao_status out = (if cr_exit_code res = 0 then OUT_COMPLETED else OUT_PARTIAL)" "ao_errors out = [] \<longleftrightarrow> cr_exit_code res = 0"
      by (auto simp: run_admitted_def finish_run_def bindC_Inr liftC_def AdapterOutput_check_def split: if_splits)
    from c obtain fs w4 where l: "ap_list_dir P (cr_artifacts_dir res) w1 = (Inr fs, w4)"
      and a: "(case fs of None \<Rightarrow> returnC [] | Some fs \<Rightarrow> store_artifacts P (sort_key fst fs)) w4 = (Inr as, w2)"
      by (auto simp: collect_artifacts_def bindC_Inr)
    have "map (\<lambda>a. (ar_id a, ar_sha256 a)) as =
        (case fs of None \<Rightarrow> [] | Some fs \<Rightarrow> map (\<lambda>(n, c). (n, ''sha256:'' @ ap_sha P c)) (stored_files (sort_key fst fs)))"
    proof (cases fs)
      case (Some f)
      with a have "map (\<lambda>(n, k, s). (n, s)) (map (\<lambda>a. (ar_id a, ar_kind a, ar_sha256 a)) as) =
         map (\<lambda>(n, k, s). (n, s)) (map (\<lambda>(n, c). (n, artifact_kind n, ''sha256:'' @ ap_sha P c)) (stored_files (sort_key fst f)))"
        using store_artifacts_exact [of P "sort_key fst f" w4 as w2] by simp
      with Some show ?thesis by (simp add: comp_def case_prod_unfold)
    qed (use a in simp)
    with l out Inr Pair show ?thesis by auto
  qed
qed

section \<open>Findings\<close>

text \<open>
  Without requested ports the gate asks for port 0, which no scope can admit: the port-less reconnaissance the
  documentation describes raises for every target.
\<close>

lemma portless_run_raises:
  assumes "\<not> is_cloud_target t m" "mf_risk_class m \<noteq> DESTRUCTIVE"
  shows "enforce_target (evaluate idna) m [] sc t = Inl (DomainValidationError ''port must be between 1 and 65535'')"
  using assms by (simp add: enforce_target_def evaluate_def includes_port_0)

text \<open>Only the first requested port is compared with the scope; a text is read digit by digit.\<close>

lemma later_ports_unchecked: "enforce_target engine m (p # ps) sc t = enforce_target engine m [p] sc t"
  by (simp add: enforce_target_def)

lemma text_port_read_by_digit: "ai_options i = [(''ports'', VStr ''443'')] \<Longrightarrow> extract_ports R i = Inr [4, 4, 3]"
  by (simp add: extract_ports_def) code_simp

text \<open>The approved capabilities are those of the manifest itself: no manifest with a permission is ever refused for its capability.\<close>

lemma manifest_approves_itself:
  "mf_permissions m \<noteq> [] \<Longrightarrow> adapter_capability m \<in> set (mf_permissions m)"
  by (simp add: capability_permitted)

text \<open>
  With the executor of the code, the hardening flags follow the image: docker passes them to the tool. And the image is a
  bare digest, for which the check of the pinned digest does nothing.
\<close>

lemma security_flags_reach_the_tool:
  "build_args docker (adapter_call m ind outd) =
     [docker, ''run''] @ concat (docker_options (adapter_call m ind outd)) @ up_digest (mf_upstream m) #
     SECURITY_FLAGS @ [up_digest (mf_upstream m), ''--input=/in/input.json'', ''--output=/out'']"
  "CHR ''@'' \<notin> set (up_digest (mf_upstream m)) \<Longrightarrow> verify_digest D (cc_image_digest (adapter_call m ind outd)) w = (Inr (), w)"
  by (simp_all add: build_args_def adapter_call_def verify_digest_def)

section \<open>Witness\<close>

definition quiet_adapter_ports :: "unit adapter_ports" where
  "quiet_adapter_ports =
     \<lparr>ap_readers = \<lparr>rd_num = (\<lambda>_. 1), rd_float_text = (\<lambda>_. None), rd_iso = (\<lambda>_. Inr 0)\<rparr>, ap_engine = evaluate (\<lambda>_. None),
      ap_executor = (\<lambda>c w. (Inr \<lparr>cr_stdout = [], cr_stderr = [], cr_exit_code = 0, cr_artifacts_dir = ''/out''\<rparr>, w)),
      ap_store = (\<lambda>content kind w. (Inr (''cas://'' @ content), w)), ap_mkdtemp = (\<lambda>p w. (Inr p, w)), ap_write_json = (\<lambda>p v w. (Inr (), w)),
      ap_list_dir = (\<lambda>d w. (Inr (Some [(''b.xml'', Some ''x''), (''a'', Some ''y''), (''sub'', None)]), w)), ap_parsers = [],
      ap_sha = id, ap_text = (\<lambda>e. [])\<rparr>"

definition nmap_manifest :: adapter_manifest where
  "nmap_manifest =
     \<lparr>mf_id = ''nmap'', mf_version = ''1.0.0'', mf_adapter_api_version = ''v1'', mf_license = ''NPSL'',
      mf_upstream = \<lparr>up_name = ''nmap'', up_url = [], up_version = ''7.95'', up_digest = ''sha256:n''\<rparr>, mf_risk_class = ACTIVE,
      mf_coverage_domain = [NETWORK], mf_input_schema = ''s'', mf_output_schema = ''s'', mf_network_policy = ''scoped-egress'',
      mf_parser = ''nmap:parse'', mf_fixtures = [], mf_permissions = [''active''], mf_digest = []\<rparr>"

definition nmap_input :: adapter_input where
  "nmap_input = \<lparr>ai_run_id = ''r1'', ai_engagement_id = ''e1'', ai_scope_snapshot = [], ai_targets = [''http://shop/''],
     ai_options = [], ai_execution_policy = \<lparr>xl_timeout_seconds = 1, xl_max_concurrency = 1, xl_network_profile = ''p''\<rparr>\<rparr>"

text \<open>A run on an included target: its scope as the caller serialises it.\<close>

definition scoped_input :: adapter_input where
  "scoped_input = nmap_input\<lparr>ai_options := [(''ports'', VList [VInt 80])],
     ai_scope_snapshot := [(''id'', VStr ''s''), (''project_id'', VStr ''p''), (''include'', VStrs [''http://shop/'']), (''exclude'', VList []),
       (''ports'', VList [VInt 80]),
       (''limits'', VDict [(''requests_per_second'', VInt 1), (''concurrency'', VInt 1), (''max_requests'', VInt 10)]),
       (''approved_by'', VStr ''h''), (''approved_at'', VStr ''2026-01-01''), (''digest'', VStr ''d'')]\<rparr>"

lemma scoped_run: "\<not> isl (fst (run_adapter (quiet_adapter_ports\<lparr>ap_engine := evaluate (\<lambda>_. None)\<rparr>) nmap_manifest scoped_input ()))"
  by code_simp

theorem adapter_runs_only_in_scope_witness:
  "\<exists>sc. rebuild_scope_snapshot (ap_readers quiet_adapter_ports) (ai_scope_snapshot scoped_input) = Inr sc \<and>
     includes_url (\<lambda>_. None) sc ''http://shop/'' = Inr True \<and> includes_port sc 80 = Inr True"
proof -
  obtain r w' where run: "run_adapter (quiet_adapter_ports\<lparr>ap_engine := evaluate (\<lambda>_. None)\<rparr>) nmap_manifest scoped_input () = (r, w')"
    by (cases "run_adapter (quiet_adapter_ports\<lparr>ap_engine := evaluate (\<lambda>_. None)\<rparr>) nmap_manifest scoped_input ()")
  have r: "\<not> isl r" using scoped_run run by simp
  have e: "extract_ports (ap_readers quiet_adapter_ports) scoped_input = Inr [80]" "is_cloud_target ''http://shop/'' nmap_manifest = False"
    "ai_targets scoped_input = [''http://shop/'']"
    by code_simp+
  from adapter_runs_only_in_scope [where P = quiet_adapter_ports and idna = "\<lambda>_. None" and m = nmap_manifest and i = scoped_input and w = "()", unfolded run prod.case e] r
  obtain sc where sc: "rebuild_scope_snapshot (ap_readers quiet_adapter_ports) (ai_scope_snapshot scoped_input) = Inr sc"
    and each: "\<forall>t \<in> set [''http://shop/'']. mf_risk_class nmap_manifest \<noteq> DESTRUCTIVE \<and>
      (if is_cloud_target t nmap_manifest then includes_cloud_account sc t = Inr True
       else includes_url (\<lambda>_. None) sc t = Inr True \<and> (\<exists>p ps. [80] = p # ps \<and> includes_port sc p = Inr True))"
    unfolding isl_def by blast
  from bspec [OF each, of "''http://shop/''"] sc show ?thesis unfolding e by auto
qed

definition nmap_source :: adapter_source where
  "nmap_source = \<lparr>as_name = ''nmap'', as_version = ''1'', as_template_version = ''1''\<rparr>"

definition nmap_output :: adapter_output where
  "nmap_output = (case fst (run_admitted quiet_adapter_ports nmap_manifest nmap_input nmap_source ()) of Inr out \<Rightarrow> out)"

lemma nmap_run: "run_admitted quiet_adapter_ports nmap_manifest nmap_input nmap_source () = (Inr nmap_output, ())"
  by code_simp

theorem adapter_output_exact_witness:
  "map (\<lambda>a. (ar_id a, ar_sha256 a)) (ao_artifacts nmap_output) = [(''a'', ''sha256:y''), (''b.xml'', ''sha256:x'')]"
proof -
  have e: "execute_container quiet_adapter_ports nmap_manifest nmap_input () =
     (Inr \<lparr>cr_stdout = [], cr_stderr = [], cr_exit_code = 0, cr_artifacts_dir = ''/out''\<rparr>, ())"
    by code_simp
  have s: "map (\<lambda>(n, c). (n, ''sha256:'' @ c)) (stored_files (sort_key fst [(''b.xml'', Some ''x''), (''a'', Some ''y''), (''sub'', None)])) =
     [(''a'', ''sha256:y''), (''b.xml'', ''sha256:x'')]"
    by code_simp
  from adapter_output_exact [OF nmap_run] show ?thesis
    unfolding e by (simp add: quiet_adapter_ports_def s [simplified])
qed

end
