(* ===== verification/Updates.thy ===== *)
theory Updates
  imports Audit_Trail Provenance Scope
begin

text \<open>
  Update bundles: the bundle (\<^verbatim>\<open>domain/updates/models.py\<close>), the fetcher of release assets
  (\<^verbatim>\<open>infrastructure/updates/github_bundle_fetcher.py\<close>), the service that verifies and activates what was fetched
  (\<^verbatim>\<open>application/bundle_sync.py\<close>), the publisher of local bundles (\<^verbatim>\<open>application/intel_bundle.py\<close>), the manager over
  the staging port (\<^verbatim>\<open>application/updates.py\<close>) and the SQL rows (\<^verbatim>\<open>SqlAlchemyUpdateRepository\<close>). HTTP, JSON decoding,
  base64, SHA-256 and Ed25519 are parameters. A manifest field is any JSON value, as the code reads it.
\<close>

section \<open>Bundles\<close>

record update_bundle =
  ub_bundle_id :: pyval
  ub_version :: pyval
  ub_schema_version :: pyval
  ub_payload :: pydict
  ub_digest :: string

definition UpdateBundle_create :: "(string \<Rightarrow> string) \<Rightarrow> pyval \<Rightarrow> pyval \<Rightarrow> pyval \<Rightarrow> pydict \<Rightarrow> update_bundle result" where
  "UpdateBundle_create sha bid ver schema payload =
     (if \<not> truthy bid \<or> \<not> truthy ver \<or> \<not> truthy schema then
        Inl (DomainValidationError ''bundle_id, version, schema_version must not be empty'')
      else Inr \<lparr>ub_bundle_id = bid, ub_version = ver, ub_schema_version = schema, ub_payload = payload,
        ub_digest = canonical_digest sha (VDict
          [(''bundle_id'', bid), (''version'', ver), (''schema_version'', schema), (''payload'', VDict payload)])\<rparr>)"

text \<open>\<^verbatim>\<open>doc[key]\<close> and \<^verbatim>\<open>doc.get(key, default)\<close> of a decoded document.\<close>

definition doc_item :: "pyval \<Rightarrow> string \<Rightarrow> pyval result" where
  "doc_item doc key =
     (case doc of
        VDict d \<Rightarrow> (case dict_get d key of Some v \<Rightarrow> Inr v | None \<Rightarrow> Inl (KeyError (repr_str key)))
      | _ \<Rightarrow> Inl (TypeError ''the document is not a mapping''))"

definition doc_get :: "pyval \<Rightarrow> string \<Rightarrow> pyval \<Rightarrow> pyval result" where
  "doc_get doc key dflt =
     (case doc of
        VDict d \<Rightarrow> Inr (case dict_get d key of Some v \<Rightarrow> v | None \<Rightarrow> dflt)
      | _ \<Rightarrow> Inl (AttributeError ''the document has no attribute get''))"

text \<open>
  \<^verbatim>\<open>dict(value)\<close>: of a mapping, or of a sequence of pairs with text keys. A pair with another key, which Python would
  also take, is refused here.
\<close>

fun pair_of_value :: "pyval \<Rightarrow> (string \<times> pyval) result" where
  "pair_of_value (VList [VStr k, v]) = Inr (k, v)"
| "pair_of_value (VStr [a, b]) = Inr ([a], VStr [b])"
| "pair_of_value (VList _) = Inl (ValueError ''dictionary update sequence element has the wrong length'')"
| "pair_of_value (VStr _) = Inl (ValueError ''dictionary update sequence element has the wrong length'')"
| "pair_of_value _ = Inl (TypeError ''cannot convert dictionary update sequence element to a sequence'')"

fun dict_of_value :: "pyval \<Rightarrow> pydict result" where
  "dict_of_value (VDict d) = Inr d"
| "dict_of_value (VList vs) = bind_res (map_res pair_of_value vs) (\<lambda>ps. Inr (fold (\<lambda>(k, v). dict_set k v) ps []))"
| "dict_of_value (VStr s) = bind_res (map_res (\<lambda>c. pair_of_value (VStr [c])) s) (\<lambda>ps. Inr (fold (\<lambda>(k, v). dict_set k v) ps []))"
| "dict_of_value _ = Inl (TypeError ''object is not iterable'')"

type_synonym json_loads = "string \<Rightarrow> string + pyval" \<comment> \<open>the text of the decoding error, or the value\<close>

definition load_document :: "json_loads \<Rightarrow> string \<Rightarrow> pyval result" where
  "load_document loads bytes =
     (case loads bytes of Inl m \<Rightarrow> Inl (DomainValidationError (''bundle bytes are not valid JSON: '' @ m)) | Inr doc \<Rightarrow> Inr doc)"

definition parse_bundle :: "(string \<Rightarrow> string) \<Rightarrow> json_loads \<Rightarrow> string \<Rightarrow> update_bundle result" where
  "parse_bundle sha loads bytes =
     bind_res (load_document loads bytes) (\<lambda>doc.
     bind_res (doc_item doc ''bundle_id'') (\<lambda>bid.
     bind_res (doc_item doc ''version'') (\<lambda>ver.
     bind_res (doc_item doc ''schema_version'') (\<lambda>schema.
     bind_res (bind_res (doc_get doc ''payload'' (VDict [])) dict_of_value) (\<lambda>payload.
     UpdateBundle_create sha bid ver schema payload)))))"

section \<open>The fetcher\<close>

record 'w http_ports =
  hp_get :: "string \<Rightarrow> ('w, int \<times> string) cmd" \<comment> \<open>status code and content\<close>
  hp_base_url :: string
  hp_loads :: json_loads

definition parse_github_source :: "string \<Rightarrow> (string \<times> string \<times> string) result" where
  "parse_github_source src =
     (if \<not> starts_with src ''github:'' then Inl (BundleFetchError (''not a github source: '' @ repr_str src))
      else case rpartition_on (CHR '':'') (drop 7 src) of (path, sep, tag) \<Rightarrow>
        if \<not> sep \<or> tag = [] \<or> CHR ''/'' \<notin> set path then Inl (BundleFetchError (''malformed github source: '' @ repr_str src))
        else case partition_on (CHR ''/'') path of (owner, _, repo) \<Rightarrow>
          if owner = [] \<or> repo = [] then Inl (BundleFetchError (''malformed github source: '' @ repr_str src))
          else Inr (owner, repo, tag))"

definition asset_url :: "'w http_ports \<Rightarrow> string \<Rightarrow> string \<Rightarrow> string \<Rightarrow> string \<Rightarrow> string" where
  "asset_url H owner repo tag asset =
     rstrip_when (\<lambda>c. c = CHR ''/'') (hp_base_url H) @ ''/'' @ owner @ ''/'' @ repo @ ''/releases/download/'' @ tag @ ''/'' @ asset"

definition download_asset :: "'w http_ports \<Rightarrow> string \<Rightarrow> string \<Rightarrow> string \<Rightarrow> string \<Rightarrow> ('w, string) cmd" where
  "download_asset H owner repo tag asset =
     bindC (hp_get H (asset_url H owner repo tag asset)) (\<lambda>(code, content).
       if code \<noteq> 200 then raiseC (BundleFetchError (''failed to fetch '' @ asset @ '' for '' @ owner @ ''/'' @ repo @ ''@'' @ tag @
         '': HTTP '' @ int_repr code))
       else returnC content)"

definition revoked_in :: "pyval \<Rightarrow> string \<Rightarrow> bool" where
  "revoked_in doc tag =
     (case (case doc of VDict d \<Rightarrow> (case dict_get d ''revoked'' of Some v \<Rightarrow> v | None \<Rightarrow> VList []) | _ \<Rightarrow> doc) of
        VList vs \<Rightarrow> VStr tag \<in> set vs
      | _ \<Rightarrow> False)"

definition is_revoked_tag :: "'w http_ports \<Rightarrow> string \<Rightarrow> string \<Rightarrow> string \<Rightarrow> ('w, bool) cmd" where
  "is_revoked_tag H owner repo tag w =
     (case download_asset H owner repo tag ''revocations.json'' w of
        (Inl (BundleFetchError _), w') \<Rightarrow> (Inr False, w')
      | (Inl e, w') \<Rightarrow> (Inl e, w')
      | (Inr content, w') \<Rightarrow> (Inr (case hp_loads H content of Inl _ \<Rightarrow> False | Inr doc \<Rightarrow> revoked_in doc tag), w'))"

definition fetch_bundle :: "'w http_ports \<Rightarrow> string \<Rightarrow> ('w, string \<times> string) cmd" where
  "fetch_bundle H src =
     bindC (liftC (parse_github_source src)) (\<lambda>(owner, repo, tag).
     bindC (is_revoked_tag H owner repo tag) (\<lambda>revoked.
       if revoked then raiseC (BundleRevokedError (''bundle '' @ repr_str tag @ '' is revoked in '' @ owner @ ''/'' @ repo @ ''; refusing to sync''))
       else
         bindC (download_asset H owner repo tag ''bundle.json'') (\<lambda>bundle.
         bindC (download_asset H owner repo tag ''bundle.json.sig'') (\<lambda>signature. returnC (bundle, signature)))))"

section \<open>The store\<close>

record bundle_row =
  br_version :: pyval
  br_digest :: string
  br_payload :: pydict
  br_staged_at :: datetime

record signature_state =
  ss_last_valid :: bool
  ss_last_bundle_id :: "pyval option"

record 'w update_world =
  uw_bundles :: "(pyval \<times> bundle_row) list"
  uw_active :: "pyval option"
  uw_audit :: "audit_call list"
  uw_signature :: signature_state
  uw_net :: 'w

definition add_bundle :: "datetime \<Rightarrow> update_bundle \<Rightarrow> ('w update_world, unit) cmd" where
  "add_bundle now b w =
     (Inr (), w\<lparr>uw_bundles := dict_set (ub_bundle_id b)
        \<lparr>br_version = ub_version b, br_digest = ub_digest b, br_payload = ub_payload b, br_staged_at = now\<rparr> (uw_bundles w)\<rparr>)"

definition get_bundle :: "pyval \<Rightarrow> 'w update_world \<Rightarrow> bundle_row option" where
  "get_bundle i w = dict_get (uw_bundles w) i"

definition set_active_bundle :: "pyval \<Rightarrow> ('w update_world, unit) cmd" where
  "set_active_bundle i w = (Inr (), w\<lparr>uw_active := Some i\<rparr>)"

definition update_audit :: "string \<Rightarrow> string \<Rightarrow> pyval \<Rightarrow> pydict \<Rightarrow> ('w update_world, unit) cmd" where
  "update_audit actor action bid payload w =
     (case log_record \<lparr>c_actor = actor, c_action = action, c_resource_type = ''update_bundle'', c_resource_id = py_str bid,
        c_payload = payload\<rparr> (uw_audit w) of (r, l) \<Rightarrow> (r, w\<lparr>uw_audit := l\<rparr>))"

definition netC :: "('w, 'a) cmd \<Rightarrow> ('w update_world, 'a) cmd" where
  "netC m w = (case m (uw_net w) of (r, n) \<Rightarrow> (r, w\<lparr>uw_net := n\<rparr>))"

section \<open>Synchronisation\<close>

type_synonym bundle_verifier = "update_bundle \<Rightarrow> string \<Rightarrow> string \<Rightarrow> bool"

record sync_result =
  sy_bundle_id :: pyval
  sy_version :: pyval
  sy_digest :: string
  sy_previous_bundle_id :: "pyval option"

definition optval :: "pyval option \<Rightarrow> pyval" where
  "optval x = (case x of None \<Rightarrow> VNone | Some v \<Rightarrow> v)"

text \<open>The checks of a fetched bundle, each rejection audited.\<close>

definition verify_signature :: "bundle_verifier \<Rightarrow> string \<Rightarrow> string \<Rightarrow> update_bundle \<Rightarrow> string \<Rightarrow> ('w update_world, unit) cmd" where
  "verify_signature verify key src b signature =
     (if verify b signature key then returnC ()
      else bindC (update_audit ''bundle-sync'' ''update.rejected'' (ub_bundle_id b)
          [(''reason'', VStr ''signature_invalid''), (''version'', ub_version b), (''source'', VStr src)]) (\<lambda>_.
        raiseC (DomainValidationError (''signature verification failed for bundle '' @ py_str (ub_bundle_id b)))))"

definition verify_schema :: "string \<Rightarrow> update_bundle \<Rightarrow> ('w update_world, unit) cmd" where
  "verify_schema expected b =
     (if ub_schema_version b = VStr expected then returnC ()
      else bindC (update_audit ''bundle-sync'' ''update.rejected'' (ub_bundle_id b)
          [(''reason'', VStr ''schema_incompatible''), (''bundle_schema'', ub_schema_version b), (''expected_schema'', VStr expected)]) (\<lambda>_.
        raiseC (DomainValidationError (''schema version mismatch: bundle='' @ py_str (ub_schema_version b) @ '' expected='' @ expected))))"

definition store_synced :: "datetime \<Rightarrow> string \<Rightarrow> pyval option \<Rightarrow> update_bundle \<Rightarrow> ('w update_world, sync_result) cmd" where
  "store_synced now src previous b =
     bindC (add_bundle now b) (\<lambda>_.
     bindC (set_active_bundle (ub_bundle_id b)) (\<lambda>_.
     bindC (update_audit ''bundle-sync'' ''update.synced'' (ub_bundle_id b)
       [(''version'', ub_version b), (''schema_version'', ub_schema_version b), (''source'', VStr src), (''digest'', VStr (ub_digest b)),
        (''previous_bundle_id'', optval previous)]) (\<lambda>_.
     returnC \<lparr>sy_bundle_id = ub_bundle_id b, sy_version = ub_version b, sy_digest = ub_digest b, sy_previous_bundle_id = previous\<rparr>)))"

definition sync_bundle ::
  "(string \<Rightarrow> string) \<Rightarrow> json_loads \<Rightarrow> bundle_verifier \<Rightarrow> string \<Rightarrow> string \<Rightarrow> datetime \<Rightarrow> (string \<Rightarrow> ('w, string \<times> string) cmd) \<Rightarrow> string \<Rightarrow>
   ('w update_world, sync_result) cmd" where
  "sync_bundle sha loads verify key expected now fetch src =
     bindC (netC (fetch src)) (\<lambda>(bytes, signature).
     bindC (liftC (parse_bundle sha loads bytes)) (\<lambda>b.
     bindC (\<lambda>w. (Inr (uw_active w), w)) (\<lambda>previous.
     bindC (verify_signature verify key src b signature) (\<lambda>_.
     bindC (verify_schema expected b) (\<lambda>_. store_synced now src previous b)))))"

section \<open>Publication\<close>

record publish_result =
  pu_bundle_id :: pyval
  pu_version :: pyval
  pu_digest :: string
  pu_signature_valid :: bool

definition DEFAULT_SCHEMA :: string where
  "DEFAULT_SCHEMA = ''secopent-intel/v1''"

definition record_signature :: "pyval \<Rightarrow> bool \<Rightarrow> ('w update_world, unit) cmd" where
  "record_signature i valid w = (Inr (), w\<lparr>uw_signature := \<lparr>ss_last_valid = valid, ss_last_bundle_id = Some i\<rparr>\<rparr>)"

definition publish_bundle ::
  "(string \<Rightarrow> string) \<Rightarrow> bundle_verifier \<Rightarrow> (string \<Rightarrow> string result) \<Rightarrow> bool \<Rightarrow> datetime \<Rightarrow> (string \<Rightarrow> string result) \<Rightarrow> string \<Rightarrow>
   string \<Rightarrow> string \<Rightarrow> string \<Rightarrow> pydict \<Rightarrow> ('w update_world, publish_result) cmd" where
  "publish_bundle sha verify b64decode has_state now signer public_key schema bid ver payload =
     bindC (liftC (UpdateBundle_create sha (VStr bid) (VStr ver) (VStr schema) payload)) (\<lambda>b.
     bindC (liftC (bind_res (signer (ub_digest b)) b64decode)) (\<lambda>signature.
     bindC (liftC (b64decode public_key)) (\<lambda>key.
     let valid = verify b signature key in
     bindC (if has_state then record_signature (ub_bundle_id b) valid else returnC ()) (\<lambda>_.
     if \<not> valid then
       bindC (update_audit ''intel-publisher'' ''update.rejected'' (ub_bundle_id b)
         [(''reason'', VStr ''signature_invalid''), (''version'', ub_version b)]) (\<lambda>_.
       raiseC (DomainValidationError (''intel bundle signature verification failed: '' @ bid)))
     else
       bindC (add_bundle now b) (\<lambda>_.
       bindC (set_active_bundle (ub_bundle_id b)) (\<lambda>_.
       bindC (update_audit ''intel-publisher'' ''update.published'' (ub_bundle_id b)
         [(''version'', ub_version b), (''schema_version'', ub_schema_version b), (''digest'', VStr (ub_digest b))]) (\<lambda>_.
       returnC \<lparr>pu_bundle_id = ub_bundle_id b, pu_version = ub_version b, pu_digest = ub_digest b, pu_signature_valid = valid\<rparr>)))))))"

section \<open>The manager over the staging port\<close>

record 'w stage_ports =
  st_stage :: "update_bundle \<Rightarrow> string \<Rightarrow> ('w, unit) cmd"
  st_get_staged :: "pyval \<Rightarrow> ('w, pydict option) cmd" \<comment> \<open>the payload of a staged bundle\<close>
  st_activate :: "pyval \<Rightarrow> ('w, unit) cmd"
  st_active :: "('w, pyval option) cmd"
  st_rollback :: "('w, pyval option) cmd"
  st_audit :: "audit_call \<Rightarrow> ('w, unit) cmd"
  st_fetch :: "string \<Rightarrow> ('w, string \<times> string) cmd"

definition manager_audit :: "'w stage_ports \<Rightarrow> string \<Rightarrow> pyval \<Rightarrow> pydict \<Rightarrow> ('w, unit) cmd" where
  "manager_audit R action bid payload =
     st_audit R \<lparr>c_actor = ''update-manager'', c_action = action, c_resource_type = ''update_bundle'', c_resource_id = py_str bid, c_payload = payload\<rparr>"

definition manager_fetch :: "(string \<Rightarrow> string) \<Rightarrow> json_loads \<Rightarrow> 'w stage_ports \<Rightarrow> string \<Rightarrow> ('w, update_bundle \<times> string) cmd" where
  "manager_fetch sha loads R src =
     bindC (st_fetch R src) (\<lambda>(bytes, signature).
     liftC (
       bind_res (load_document loads bytes) (\<lambda>doc.
       bind_res (bind_res (doc_get doc ''payload'' (VDict [])) dict_of_value) (\<lambda>payload.
       bind_res (doc_item doc ''bundle_id'') (\<lambda>bid.
       bind_res (doc_item doc ''version'') (\<lambda>ver.
       bind_res (doc_item doc ''schema_version'') (\<lambda>schema.
       bind_res (UpdateBundle_create sha bid ver schema payload) (\<lambda>b. Inr (b, signature)))))))))"

text \<open>Keys of two payloads, sorted: added, removed, changed.\<close>

definition preview_diff :: "'w stage_ports \<Rightarrow> pyval option \<Rightarrow> update_bundle \<Rightarrow> ('w, pydict) cmd" where
  "preview_diff R previous b =
     (let new = ub_payload b in
      case previous of
        None \<Rightarrow> returnC [(''added'', VStrs (dict_keys new)), (''removed'', VList []), (''changed'', VList [])]
      | Some i \<Rightarrow>
          bindC (st_get_staged R i) (\<lambda>row.
          case row of
            None \<Rightarrow> returnC [(''added'', VList []), (''removed'', VList []), (''changed'', VList []), (''note'', VStr ''previous not found'')]
          | Some old \<Rightarrow> returnC
              [(''added'', VStrs (sorted_list_of_set (set (dict_keys new) - set (dict_keys old)))),
               (''removed'', VStrs (sorted_list_of_set (set (dict_keys old) - set (dict_keys new)))),
               (''changed'', VStrs (sorted_list_of_set {k \<in> set (dict_keys old) \<inter> set (dict_keys new). dict_get old k \<noteq> dict_get new k}))]))"

text \<open>Activation with the defensive restoration of the previous bundle.\<close>

definition manager_activate :: "(exn \<Rightarrow> string) \<Rightarrow> 'w stage_ports \<Rightarrow> pyval option \<Rightarrow> update_bundle \<Rightarrow> ('w, unit) cmd" where
  "manager_activate text R previous b w =
     (case st_activate R (ub_bundle_id b) w of
        (Inr _, w') \<Rightarrow> (Inr (), w')
      | (Inl e, w') \<Rightarrow>
          bindC (case previous of
              None \<Rightarrow> returnC ()
            | Some p \<Rightarrow> bindC (st_active R) (\<lambda>now. if now \<noteq> Some p then st_activate R p else returnC ())) (\<lambda>_.
          bindC (manager_audit R ''update.rejected'' (ub_bundle_id b)
            [(''reason'', VStr ''activation_failed''), (''error'', VStr (text e))]) (\<lambda>_. raiseC e)) w')"

definition manager_sync ::
  "(string \<Rightarrow> string) \<Rightarrow> json_loads \<Rightarrow> (exn \<Rightarrow> string) \<Rightarrow> bundle_verifier \<Rightarrow> string \<Rightarrow> string \<Rightarrow> 'w stage_ports \<Rightarrow> string \<Rightarrow> update_bundle option \<Rightarrow>
   ('w, sync_result) cmd" where
  "manager_sync sha loads text verify key expected R src given =
     bindC (case given of
         None \<Rightarrow> manager_fetch sha loads R src
       | Some b \<Rightarrow> bindC (st_fetch R src) (\<lambda>(_, signature). returnC (b, signature))) (\<lambda>(b, signature).
     bindC (st_active R) (\<lambda>previous.
     bindC (st_stage R b signature) (\<lambda>_.
     if \<not> verify b signature key then
       bindC (manager_audit R ''update.rejected'' (ub_bundle_id b)
         [(''reason'', VStr ''signature_invalid''), (''version'', ub_version b)]) (\<lambda>_.
       raiseC (DomainValidationError (''signature verification failed for bundle '' @ py_str (ub_bundle_id b))))
     else if ub_schema_version b \<noteq> VStr expected then
       bindC (manager_audit R ''update.rejected'' (ub_bundle_id b)
         [(''reason'', VStr ''schema_incompatible''), (''bundle_schema'', ub_schema_version b), (''expected_schema'', VStr expected)]) (\<lambda>_.
       raiseC (DomainValidationError (''schema version mismatch: bundle='' @ py_str (ub_schema_version b) @ '' expected='' @ expected)))
     else
       bindC (preview_diff R previous b) (\<lambda>diff.
       bindC (manager_audit R ''update.synced'' (ub_bundle_id b)
         [(''version'', ub_version b), (''schema_version'', ub_schema_version b), (''source'', VStr src), (''digest'', VStr (ub_digest b)),
          (''diff'', VDict diff)]) (\<lambda>_.
       bindC (manager_activate text R previous b) (\<lambda>_.
       bindC (manager_audit R ''update.activated'' (ub_bundle_id b)
         [(''version'', ub_version b), (''previous_bundle_id'', optval previous), (''digest'', VStr (ub_digest b))]) (\<lambda>_.
       returnC \<lparr>sy_bundle_id = ub_bundle_id b, sy_version = ub_version b, sy_digest = ub_digest b, sy_previous_bundle_id = previous\<rparr>)))))))"

definition manager_rollback :: "'w stage_ports \<Rightarrow> ('w, pyval) cmd" where
  "manager_rollback R =
     bindC (st_rollback R) (\<lambda>restored.
     case restored of
       None \<Rightarrow> raiseC (RuntimeError ''rollback produced no active bundle'')
     | Some i \<Rightarrow>
         bindC (manager_audit R ''update.rolled_back'' i [(''restored_bundle_id'', i)]) (\<lambda>_. returnC i))"

end
