(* ===== verification/Update_Safety.thy ===== *)
theory Update_Safety
  imports Updates Canonical_Injective
begin

text \<open>
  What holds of the bundles a deployment activates: over every history of synchronisations and publications the active
  bundle is stored, its digest is of its content, and a signature of it was accepted; a refused
  synchronisation leaves the store as it was; a revoked release is never activated.
\<close>

section \<open>Histories\<close>

datatype update_call =
    SyncCall string string datetime "(string \<times> string) result" string
  | PublishCall bool datetime "string \<Rightarrow> string result" string string string string pydict

fun update_apply ::
  "(string \<Rightarrow> string) \<Rightarrow> json_loads \<Rightarrow> bundle_verifier \<Rightarrow> (string \<Rightarrow> string result) \<Rightarrow> update_call \<Rightarrow> unit update_world \<Rightarrow> unit update_world" where
  "update_apply sha loads verify b64 (SyncCall key expected now fetched src) w =
     snd (sync_bundle sha loads verify key expected now (\<lambda>_ n. (fetched, n)) src w)"
| "update_apply sha loads verify b64 (PublishCall has_state now signer pk schema bid ver payload) w =
     snd (publish_bundle sha verify b64 has_state now signer pk schema bid ver payload w)"

definition empty_updates :: "unit update_world" where
  "empty_updates = \<lparr>uw_bundles = [], uw_active = None, uw_audit = [], uw_signature = \<lparr>ss_last_valid = True, ss_last_bundle_id = None\<rparr>, uw_net = ()\<rparr>"

definition updates_after ::
  "(string \<Rightarrow> string) \<Rightarrow> json_loads \<Rightarrow> bundle_verifier \<Rightarrow> (string \<Rightarrow> string result) \<Rightarrow> update_call list \<Rightarrow> unit update_world" where
  "updates_after sha loads verify b64 = after (update_apply sha loads verify b64) empty_updates"

text \<open>A call that carried a bundle with an accepted signature, and the schema it was expected to have.\<close>

fun offers :: "(string \<Rightarrow> string) \<Rightarrow> json_loads \<Rightarrow> bundle_verifier \<Rightarrow> (string \<Rightarrow> string result) \<Rightarrow> update_call \<Rightarrow> update_bundle \<Rightarrow> bool" where
  "offers sha loads verify b64 (SyncCall key expected now fetched src) b \<longleftrightarrow>
     (\<exists>bytes signature. fetched = Inr (bytes, signature) \<and> parse_bundle sha loads bytes = Inr b \<and> verify b signature key \<and>
        ub_schema_version b = VStr expected)"
| "offers sha loads verify b64 (PublishCall has_state now signer pk schema bid ver payload) b \<longleftrightarrow>
     (\<exists>signature key. UpdateBundle_create sha (VStr bid) (VStr ver) (VStr schema) payload = Inr b \<and>
        bind_res (signer (ub_digest b)) b64 = Inr signature \<and> b64 pk = Inr key \<and> verify b signature key)"

definition holds_bundle :: "bundle_row \<Rightarrow> update_bundle \<Rightarrow> bool" where
  "holds_bundle r b \<longleftrightarrow> br_version r = ub_version b \<and> br_digest r = ub_digest b \<and> br_payload r = ub_payload b"

lemma created_digest:
  "UpdateBundle_create sha bid ver schema payload = Inr b \<Longrightarrow>
     ub_digest b = canonical_digest sha (VDict [(''bundle_id'', ub_bundle_id b), (''version'', ub_version b),
       (''schema_version'', ub_schema_version b), (''payload'', VDict (ub_payload b))])"
  by (auto simp: UpdateBundle_create_def split: if_splits)

lemma parse_bundle_created:
  "parse_bundle sha loads bytes = Inr b \<Longrightarrow> \<exists>bid ver schema payload. UpdateBundle_create sha bid ver schema payload = Inr b"
  by (auto simp: parse_bundle_def bind_res_Inr_iff)

lemma offered_digest:
  "offers sha loads verify b64 c b \<Longrightarrow>
     ub_digest b = canonical_digest sha (VDict [(''bundle_id'', ub_bundle_id b), (''version'', ub_version b),
       (''schema_version'', ub_schema_version b), (''payload'', VDict (ub_payload b))])"
  by (cases c) (auto dest!: parse_bundle_created created_digest)

section \<open>The effect of one call\<close>

lemma update_audit_effect:
  "update_audit actor action bid payload w = (r, w') \<Longrightarrow> uw_bundles w' = uw_bundles w \<and> uw_active w' = uw_active w \<and> uw_net w' = uw_net w"
  by (auto simp: update_audit_def split: prod.splits)

lemma audited_raise_effect:
  "bindC (update_audit actor action bid payload) (\<lambda>_. raiseC e) w = (r, w') \<Longrightarrow>
     (\<exists>e. r = Inl e) \<and> uw_bundles w' = uw_bundles w \<and> uw_active w' = uw_active w \<and> uw_net w' = uw_net w"
  by (cases "update_audit actor action bid payload w") (auto simp: bindC_def split: sum.splits dest: update_audit_effect)

text \<open>What an accepted bundle makes of the store.\<close>

definition activated :: "update_bundle \<Rightarrow> datetime \<Rightarrow> 'w update_world \<Rightarrow> 'w update_world \<Rightarrow> bool" where
  "activated b now w w' \<longleftrightarrow> uw_active w' = Some (ub_bundle_id b) \<and>
     uw_bundles w' = dict_set (ub_bundle_id b) \<lparr>br_version = ub_version b, br_digest = ub_digest b, br_payload = ub_payload b, br_staged_at = now\<rparr> (uw_bundles w)"

definition same_store :: "'w update_world \<Rightarrow> 'w update_world \<Rightarrow> bool" where
  "same_store w w' \<longleftrightarrow> uw_active w' = uw_active w \<and> uw_bundles w' = uw_bundles w"

lemma store_synced_effect: "store_synced now src previous b w = (r, w') \<Longrightarrow> activated b now w w'"
  by (auto simp: store_synced_def add_bundle_def set_active_bundle_def bindC_def activated_def split: prod.splits sum.splits
      dest!: update_audit_effect)

lemma sync_effect:
  assumes "sync_bundle sha loads verify key expected now fetch src w = (r, w')" "fetch src (uw_net w) = (f, n)"
  shows "(\<exists>bytes signature b. f = Inr (bytes, signature) \<and> parse_bundle sha loads bytes = Inr b \<and> verify b signature key \<and>
       ub_schema_version b = VStr expected \<and> activated b now w w' \<and> (r, w') = store_synced now src (uw_active w) b (w\<lparr>uw_net := n\<rparr>)) \<or>
     (\<exists>e. r = Inl e) \<and> same_store w w'"
proof (cases f)
  case (Inl e)
  with assms show ?thesis by (auto simp: sync_bundle_def netC_def bindC_def same_store_def)
next
  case (Inr bs)
  obtain bytes signature where bs: "bs = (bytes, signature)" by (cases bs)
  let ?w = "w\<lparr>uw_net := n\<rparr>"
  show ?thesis
  proof (cases "parse_bundle sha loads bytes")
    case (Inl e)
    with assms Inr bs show ?thesis by (auto simp: sync_bundle_def netC_def bindC_def liftC_def same_store_def)
  next
    case b: (Inr b)
    have run: "(r, w') = bindC (verify_signature verify key src b signature) (\<lambda>_. bindC (verify_schema expected b) (\<lambda>_. store_synced now src (uw_active ?w) b)) ?w"
      using assms(1) [symmetric] assms(2) Inr bs b
      by (simp add: sync_bundle_def netC_def bindC_def liftC_def cong: sum.case_cong prod.case_cong)
    consider "\<not> verify b signature key" | "verify b signature key" "ub_schema_version b \<noteq> VStr expected" | "verify b signature key" "ub_schema_version b = VStr expected"
      by blast
    then show ?thesis
    proof cases
      case 1
      obtain r1 w1 where v: "verify_signature verify key src b signature ?w = (r1, w1)" by (cases "verify_signature verify key src b signature ?w")
      with 1 have "(\<exists>e. r1 = Inl e) \<and> same_store w w1"
        using audited_raise_effect by (fastforce simp: verify_signature_def same_store_def)
      with run v show ?thesis by (auto simp: bindC_def)
    next
      case 2
      obtain r1 w1 where v: "verify_schema expected b ?w = (r1, w1)" by (cases "verify_schema expected b ?w")
      with 2 have "(\<exists>e. r1 = Inl e) \<and> same_store w w1"
        using audited_raise_effect by (fastforce simp: verify_schema_def same_store_def)
      with run v 2 show ?thesis by (auto simp: bindC_def verify_signature_def)
    next
      case 3
      with run have s: "(r, w') = store_synced now src (uw_active w) b ?w" by (simp add: verify_signature_def verify_schema_def)
      from store_synced_effect [OF s [symmetric]] have "activated b now w w'" by (simp add: activated_def)
      with 3 Inr bs b s show ?thesis by blast
    qed
  qed
qed

lemma publish_effect:
  assumes "publish_bundle sha verify b64 has_state now signer pk schema bid ver payload w = (r, w')"
  shows "(\<exists>b signature key. UpdateBundle_create sha (VStr bid) (VStr ver) (VStr schema) payload = Inr b \<and>
       bind_res (signer (ub_digest b)) b64 = Inr signature \<and> b64 pk = Inr key \<and> verify b signature key \<and> activated b now w w') \<or>
     (\<exists>e. r = Inl e) \<and> same_store w w'"
proof (cases "UpdateBundle_create sha (VStr bid) (VStr ver) (VStr schema) payload")
  case (Inl e)
  with assms show ?thesis by (auto simp: publish_bundle_def lift_bindC same_store_def)
next
  case b: (Inr b)
  show ?thesis
  proof (cases "bind_res (signer (ub_digest b)) b64")
    case (Inl e)
    with assms b show ?thesis by (auto simp: publish_bundle_def lift_bindC same_store_def)
  next
    case s: (Inr signature)
    show ?thesis
    proof (cases "b64 pk")
      case (Inl e)
      with assms b s show ?thesis by (auto simp: publish_bundle_def lift_bindC same_store_def)
    next
      case k: (Inr key)
      define w1 where "w1 = (if has_state then snd (record_signature (ub_bundle_id b) (verify b signature key) w) else w)"
      have m: "bindC (if has_state then record_signature (ub_bundle_id b) v else returnC ()) k w = k () w1"
        if "v \<longleftrightarrow> verify b signature key" for v and k :: "unit \<Rightarrow> ('a update_world, publish_result) cmd"
        using that by (simp add: w1_def record_signature_def returnC_def bindC_def)
      have w1: "uw_bundles w1 = uw_bundles w" "uw_active w1 = uw_active w" by (auto simp: w1_def record_signature_def)
      show ?thesis
      proof (cases "verify b signature key")
        case False
        have "publish_bundle sha verify b64 has_state now signer pk schema bid ver payload w = bindC (update_audit ''intel-publisher'' ''update.rejected'' (ub_bundle_id b)
            [(''reason'', VStr ''signature_invalid''), (''version'', ub_version b)]) (\<lambda>_.
          raiseC (DomainValidationError (''intel bundle signature verification failed: '' @ bid))) w1"
          using b s k False m [of False] by (simp add: publish_bundle_def lift_bindC)
        with assms have "bindC (update_audit ''intel-publisher'' ''update.rejected'' (ub_bundle_id b)
            [(''reason'', VStr ''signature_invalid''), (''version'', ub_version b)]) (\<lambda>_.
          raiseC (DomainValidationError (''intel bundle signature verification failed: '' @ bid))) w1 = (r, w')" by simp
        from audited_raise_effect [OF this] w1 show ?thesis by (simp add: same_store_def)
      next
        case True
        have "publish_bundle sha verify b64 has_state now signer pk schema bid ver payload w =
            bindC (add_bundle now b) (\<lambda>_. bindC (set_active_bundle (ub_bundle_id b)) (\<lambda>_.
            bindC (update_audit ''intel-publisher'' ''update.published'' (ub_bundle_id b)
              [(''version'', ub_version b), (''schema_version'', ub_schema_version b), (''digest'', VStr (ub_digest b))]) (\<lambda>_.
            returnC \<lparr>pu_bundle_id = ub_bundle_id b, pu_version = ub_version b, pu_digest = ub_digest b, pu_signature_valid = True\<rparr>))) w1"
          using b s k True m [of True] by (simp add: publish_bundle_def lift_bindC)
        with assms have "activated b now w1 w'"
          by (auto simp: add_bundle_def set_active_bundle_def activated_def bindC_def split: prod.splits sum.splits dest!: update_audit_effect)
        then have "activated b now w w'" by (simp add: activated_def w1)
        with b s k True show ?thesis by blast
      qed
    qed
  qed
qed

lemma update_apply_effect:
  "(\<exists>b now. offers sha loads verify b64 c b \<and> activated b now w (update_apply sha loads verify b64 c w)) \<or>
     same_store w (update_apply sha loads verify b64 c w)"
proof (cases c)
  case (SyncCall key expected now fetched src)
  let ?f = "\<lambda>(_ :: string) (n :: unit). (fetched, n)"
  obtain r w' where s: "sync_bundle sha loads verify key expected now ?f src w = (r, w')"
    by (cases "sync_bundle sha loads verify key expected now ?f src w")
  from sync_effect [OF s, of fetched "uw_net w"] s SyncCall show ?thesis by auto
next
  case (PublishCall has_state now signer pk schema bid ver payload)
  obtain r w' where s: "publish_bundle sha verify b64 has_state now signer pk schema bid ver payload w = (r, w')"
    by (cases "publish_bundle sha verify b64 has_state now signer pk schema bid ver payload w")
  from publish_effect [OF s] s PublishCall show ?thesis by auto
qed

interpretation bundles: provenance "update_apply sha loads verify b64" "\<lambda>w. dict_get (uw_bundles w)" empty_updates "\<lambda>_. True" "\<lambda>_ _. False"
  "\<lambda>k calls row. \<exists>c \<in> set calls. \<exists>b. offers sha loads verify b64 c b \<and> ub_bundle_id b = k \<and> holds_bundle row b"
  for sha loads verify b64
proof
  fix c w k row and past :: "pyval \<Rightarrow> update_call list"
  assume past: "\<And>k row. dict_get (uw_bundles w) k = Some row \<Longrightarrow>
      \<exists>c \<in> set (past k). \<exists>b. offers sha loads verify b64 c b \<and> ub_bundle_id b = k \<and> holds_bundle row b"
    and row: "dict_get (uw_bundles (update_apply sha loads verify b64 c w)) k = Some row"
  from update_apply_effect [of sha loads verify b64 c w]
  have "\<exists>x \<in> set (c # past k). \<exists>b. offers sha loads verify b64 x b \<and> ub_bundle_id b = k \<and> holds_bundle row b"
  proof (elim disjE exE conjE)
    fix b now
    assume o: "offers sha loads verify b64 c b" and a: "activated b now w (update_apply sha loads verify b64 c w)"
    show ?thesis
    proof (cases "ub_bundle_id b = k")
      case True
      with a row have "holds_bundle row b" by (auto simp: activated_def holds_bundle_def)
      with o True show ?thesis by auto
    next
      case False
      with a row have "dict_get (uw_bundles w) k = Some row" by (simp add: activated_def)
      from past [OF this] show ?thesis by auto
    qed
  next
    assume "same_store w (update_apply sha loads verify b64 c w)"
    with row have "dict_get (uw_bundles w) k = Some row" by (simp add: same_store_def)
    from past [OF this] show ?thesis by auto
  qed
  then show "\<exists>x \<in> set (if False then [] else c # past k). \<exists>b. offers sha loads verify b64 x b \<and> ub_bundle_id b = k \<and> holds_bundle row b"
    by simp
qed (auto simp: empty_updates_def)

lemma active_is_stored:
  "uw_active (updates_after sha loads verify b64 calls) = Some k \<Longrightarrow> dict_get (uw_bundles (updates_after sha loads verify b64 calls)) k \<noteq> None"
proof (induction calls arbitrary: k rule: rev_induct)
  case (snoc c calls)
  then show ?case
    using update_apply_effect [of sha loads verify b64 c "updates_after sha loads verify b64 calls"]
    by (auto simp: updates_after_def activated_def same_store_def)
qed (simp add: updates_after_def empty_updates_def)

section \<open>Properties\<close>

text \<open>
  C9. The active bundle was verified. After every history of synchronisations and publications, whatever was fetched and
  signed: the active bundle is stored, some call of the history offered a bundle of that id with the stored
  version and payload, a signature the verifier accepted and, when it was fetched, the expected schema, and the stored
  digest is the canonical digest of that content.
\<close>

theorem active_bundle_is_verified:
  assumes "uw_active (updates_after sha loads verify b64 calls) = Some k"
  shows "\<exists>row c b. dict_get (uw_bundles (updates_after sha loads verify b64 calls)) k = Some row \<and> c \<in> set calls \<and>
     offers sha loads verify b64 c b \<and> ub_bundle_id b = k \<and> br_version row = ub_version b \<and> br_payload row = ub_payload b \<and>
     br_digest row = canonical_digest sha (VDict [(''bundle_id'', k), (''version'', br_version row),
       (''schema_version'', ub_schema_version b), (''payload'', VDict (br_payload row))])"
proof -
  obtain row where row: "dict_get (uw_bundles (updates_after sha loads verify b64 calls)) k = Some row"
    using active_is_stored [OF assms] by blast
  have "list_all (\<lambda>_. True) calls" by (simp add: list_all_iff)
  from bundles.history [OF this row [unfolded updates_after_def]]
  obtain c b where "c \<in> set calls" "offers sha loads verify b64 c b" "ub_bundle_id b = k" "holds_bundle row b"
    by (auto dest: since_set)
  with row offered_digest [of sha loads verify b64 c b] show ?thesis by (auto simp: holds_bundle_def)
qed

text \<open>A release whose bundle the verifier accepts.\<close>

definition sample_loads :: json_loads where
  "sample_loads bytes =
     (if bytes = ''bundle'' then Inr (VDict [(''bundle_id'', VStr ''b-1''), (''version'', VStr ''1''), (''schema_version'', VStr ''s1''),
        (''payload'', VDict [(''rules'', VInt 2)])])
      else Inl ''Expecting value'')"

definition sample_verifier :: bundle_verifier where
  "sample_verifier b signature key \<longleftrightarrow> signature = ''ok'' \<and> key = ''k''"

definition sample_calls :: "update_call list" where
  "sample_calls =
     [SyncCall ''k'' ''s1'' 0 (Inr (''bundle'', ''ok'')) ''github:o/r:t1'',
      SyncCall ''k'' ''s1'' 0 (Inr (''bundle'', ''forged'')) ''github:o/r:t2'',
      SyncCall ''k'' ''s1'' 0 (Inr (''<html>'', ''ok'')) ''github:o/r:t3'']"

lemma sample_updates: "uw_active (updates_after (\<lambda>s. s) sample_loads sample_verifier Inr sample_calls) = Some (VStr ''b-1'')"
  by code_simp

lemma active_bundle_is_verified_witness:
  "\<exists>row c b. dict_get (uw_bundles (updates_after (\<lambda>s. s) sample_loads sample_verifier Inr sample_calls)) (VStr ''b-1'') = Some row \<and>
     c \<in> set sample_calls \<and> offers (\<lambda>s. s) sample_loads sample_verifier Inr c b \<and> ub_bundle_id b = VStr ''b-1'' \<and>
     br_version row = ub_version b \<and> br_payload row = ub_payload b \<and>
     br_digest row = canonical_digest (\<lambda>s. s) (VDict [(''bundle_id'', VStr ''b-1''), (''version'', br_version row),
       (''schema_version'', ub_schema_version b), (''payload'', VDict (br_payload row))])"
  by (rule active_bundle_is_verified [OF sample_updates])

lemma synced_call_ok:
  assumes "truthy i" "i \<noteq> VFloat []"
  shows "py_str i \<noteq> []"
  using assms by (cases i) (auto simp: py_str_def int_repr_number)

text \<open>
  C40. A refused synchronisation changes nothing. When a synchronisation raises, the stored bundles and the active one are
  as before; it raises exactly when the release cannot be fetched or was revoked, cannot be parsed, has a bad
  signature or another schema, and otherwise it activates that bundle and reports the one it replaced. (The numeral of a
  decoded float is never empty.)
\<close>

theorem refused_sync_changes_nothing:
  assumes "\<forall>bytes b. parse_bundle sha loads bytes = Inr b \<longrightarrow> ub_bundle_id b \<noteq> VFloat []"
    and "fetch src (uw_net w) = (f, n)"
  shows "case sync_bundle sha loads verify key expected now fetch src w of
      (Inl e, w') \<Rightarrow> uw_bundles w' = uw_bundles w \<and> uw_active w' = uw_active w \<and>
        (\<nexists>bytes signature b. f = Inr (bytes, signature) \<and> parse_bundle sha loads bytes = Inr b \<and> verify b signature key \<and>
           ub_schema_version b = VStr expected)
    | (Inr res, w') \<Rightarrow> \<exists>bytes signature b. f = Inr (bytes, signature) \<and> parse_bundle sha loads bytes = Inr b \<and> verify b signature key \<and>
        ub_schema_version b = VStr expected \<and> uw_active w' = Some (ub_bundle_id b) \<and> sy_previous_bundle_id res = uw_active w \<and>
        sy_digest res = ub_digest b \<and> map_option br_digest (dict_get (uw_bundles w') (ub_bundle_id b)) = Some (ub_digest b)"
proof -
  have good: "\<exists>res w'. store_synced now src (uw_active w) b (w\<lparr>uw_net := n\<rparr>) = (Inr res, w') \<and> sy_previous_bundle_id res = uw_active w \<and> sy_digest res = ub_digest b"
    if "parse_bundle sha loads bytes = Inr b" for b bytes
  proof -
    have "truthy (ub_bundle_id b)" using parse_bundle_created [OF that] by (auto simp: UpdateBundle_create_def split: if_splits)
    with assms(1) that have "py_str (ub_bundle_id b) \<noteq> []" using synced_call_ok by blast
    moreover have "\<forall>k \<in> {''version'', ''schema_version'', ''source'', ''digest'', ''previous_bundle_id''}. py_lower k \<notin> set SECRET_KEYS"
      by code_simp
    ultimately show ?thesis
      by (simp add: store_synced_def add_bundle_def set_active_bundle_def update_audit_def log_record_def call_ok_def bindC_def)
  qed
  obtain r w' where s: "sync_bundle sha loads verify key expected now fetch src w = (r, w')"
    by (cases "sync_bundle sha loads verify key expected now fetch src w")
  from sync_effect [OF s assms(2)] show ?thesis
  proof (elim disjE exE conjE)
    fix bytes signature b
    assume *: "f = Inr (bytes, signature)" "parse_bundle sha loads bytes = Inr b" "verify b signature key" "ub_schema_version b = VStr expected"
      "activated b now w w'" "(r, w') = store_synced now src (uw_active w) b (w\<lparr>uw_net := n\<rparr>)"
    with good [of bytes b] obtain res where "r = Inr res" "sy_previous_bundle_id res = uw_active w" "sy_digest res = ub_digest b" by auto
    with * s show ?thesis by (auto simp: activated_def)
  next
    fix e
    assume *: "same_store w w'" "r = Inl e"
    have "\<not> (f = Inr (bytes, signature) \<and> parse_bundle sha loads bytes = Inr b \<and> verify b signature key \<and> ub_schema_version b = VStr expected)"
      for bytes signature b
    proof
      assume a: "f = Inr (bytes, signature) \<and> parse_bundle sha loads bytes = Inr b \<and> verify b signature key \<and> ub_schema_version b = VStr expected"
      then have "sync_bundle sha loads verify key expected now fetch src w = store_synced now src (uw_active w) b (w\<lparr>uw_net := n\<rparr>)"
        using assms(2) by (simp add: sync_bundle_def netC_def bindC_def liftC_def verify_signature_def verify_schema_def)
      with s * good [of bytes b] a show False by auto
    qed
    with * s show ?thesis by (auto simp: same_store_def)
  qed
qed

definition sample_fetch :: "string \<Rightarrow> (unit, string \<times> string) cmd" where
  "sample_fetch src n = (Inr (''bundle'', ''forged''), n)"

lemma refused_sync_changes_nothing_witness:
  "(case sync_bundle (\<lambda>s. s) sample_loads sample_verifier ''k'' ''s1'' 0 sample_fetch ''github:o/r:t1'' empty_updates of
      (Inl e, w') \<Rightarrow> uw_bundles w' = [] \<and> uw_active w' = None
    | (Inr res, w') \<Rightarrow> False)"
proof -
  have 1: "\<forall>bytes b. parse_bundle (\<lambda>s. s) sample_loads bytes = Inr b \<longrightarrow> ub_bundle_id b \<noteq> VFloat []"
    by (auto simp: parse_bundle_def load_document_def sample_loads_def doc_item_def UpdateBundle_create_def bind_res_Inr_iff
        split: if_splits)
  have 2: "sample_fetch ''github:o/r:t1'' (uw_net empty_updates) = (Inr (''bundle'', ''forged''), ())"
    by (simp add: sample_fetch_def)
  show ?thesis
    using refused_sync_changes_nothing [where fetch = sample_fetch and f = "Inr (''bundle'', ''forged'')" and n = "()" and w = empty_updates and src = "''github:o/r:t1''", OF 1 2, of sample_verifier "''k''" "''s1''" 0]
    by (auto simp: sample_verifier_def empty_updates_def split: prod.splits sum.splits)
qed

text \<open>A release whose revocation list names its tag is refused before its bundle is downloaded.\<close>

lemma revoked_release_refused:
  assumes "parse_github_source src = Inr (owner, repo, tag)"
    and "hp_get H (asset_url H owner repo tag ''revocations.json'') n = (Inr (200, content), n')"
    and "hp_loads H content = Inr doc" "revoked_in doc tag"
  shows "fetch_bundle H src n = (Inl (BundleRevokedError (''bundle '' @ repr_str tag @ '' is revoked in '' @ owner @ ''/'' @ repo @ ''; refusing to sync'')), n')"
proof -
  have "download_asset H owner repo tag ''revocations.json'' n = (Inr content, n')"
    using assms(2) by (simp add: download_asset_def bindC_def)
  then show ?thesis using assms(1,3,4) by (simp add: fetch_bundle_def lift_bindC is_revoked_tag_def bindC_def [of "is_revoked_tag H owner repo tag"])
qed

text \<open>A rejected update never reaches the activation of the staging port.\<close>

lemma rejected_update_never_activates:
  assumes "\<forall>b signature. verify b signature key \<longrightarrow> ub_schema_version b \<noteq> VStr expected"
  shows "manager_sync sha loads text verify key expected (R\<lparr>st_activate := activate\<rparr>) src given =
    manager_sync sha loads text verify key expected R src given"
proof -
  have R: "manager_fetch sha loads (R\<lparr>st_activate := activate\<rparr>) = manager_fetch sha loads R" "manager_audit (R\<lparr>st_activate := activate\<rparr>) = manager_audit R"
    "preview_diff (R\<lparr>st_activate := activate\<rparr>) = preview_diff R"
    "st_fetch (R\<lparr>st_activate := activate\<rparr>) = st_fetch R" "st_active (R\<lparr>st_activate := activate\<rparr>) = st_active R"
    "st_stage (R\<lparr>st_activate := activate\<rparr>) = st_stage R"
    by (simp_all add: manager_fetch_def manager_audit_def preview_diff_def fun_eq_iff cong: option.case_cong)
  have third: "(if \<not> verify b s key then A else if ub_schema_version b \<noteq> VStr expected then B else C) =
      (if \<not> verify b s key then A else B)" for b s and A B C :: "('a, sync_result) cmd"
    using assms by auto
  show ?thesis unfolding manager_sync_def R third by (rule refl)
qed

section \<open>Findings\<close>

text \<open>A synchronised bundle with the id of a stored one replaces it: the old snapshot is not retained.\<close>

lemma resync_replaces_bundle:
  "dict_get (uw_bundles (snd (add_bundle now b w))) (ub_bundle_id b) =
     Some \<lparr>br_version = ub_version b, br_digest = ub_digest b, br_payload = ub_payload b, br_staged_at = now\<rparr>"
  by (simp add: add_bundle_def)

text \<open>The state the health detector reads follows the publisher only: a synchronisation whose signature fails leaves it valid.\<close>

lemma failed_sync_keeps_signature_state:
  "uw_signature (snd (verify_signature (\<lambda>_ _ _. False) key src b signature w)) = uw_signature w"
  by (auto simp: verify_signature_def update_audit_def bindC_def split: prod.splits sum.splits)

end
