(* ===== verification/Tool_Parsers.thy ===== *)
theory Tool_Parsers
  imports Adapter_Runner Updates
begin

text \<open>
  The adapters of the external scanners (\<^verbatim>\<open>integrations/adapters\<close>): the manifest of each tool and the parser that turns what the
  tool wrote into observations. \<^verbatim>\<open>json.loads\<close>, which decodes or raises JSONDecodeError, the XML reader (\<^verbatim>\<open>defusedxml\<close>) and the value of a
  float's numeral are parameters. The asset of
  an observation is text here: a value of another kind, which Python would store as it is, is taken as its text.
\<close>

section \<open>Reading JSON\<close>

definition get_field :: "pydict \<Rightarrow> string \<Rightarrow> pyval" where
  "get_field r k = opt_val (dict_get r k)"

text \<open>\<^verbatim>\<open>a or b or c\<close>: the first true value, or the last.\<close>

fun first_true :: "pyval list \<Rightarrow> pyval" where
  "first_true [] = VNone"
| "first_true [v] = v"
| "first_true (v # w # vs) = (if truthy v then v else first_true (w # vs))"

definition any_field :: "pydict \<Rightarrow> string list \<Rightarrow> pyval list \<Rightarrow> pyval" where
  "any_field r ks vs = first_true (map (get_field r) ks @ vs)"

definition safe_str :: "pyval \<Rightarrow> string" where
  "safe_str v = (if v = VNone then [] else py_str v)"

definition dict_setdefault :: "pydict \<Rightarrow> string \<Rightarrow> pyval \<Rightarrow> pydict" where
  "dict_setdefault d k v = (if dict_get d k = None then d @ [(k, v)] else d)"

text \<open>The elements a \<^verbatim>\<open>for\<close> statement visits, and whether a value can be an element of a set.\<close>

fun elements_of :: "pyval \<Rightarrow> pyval list result" where
  "elements_of (VList vs) = Inr vs"
| "elements_of (VStr s) = Inr (map (\<lambda>c. VStr [c]) s)"
| "elements_of (VDict d) = Inr (map VStr (dict_keys d))"
| "elements_of _ = Inl (TypeError ''object is not iterable'')"

fun hashed :: "pyval \<Rightarrow> pyval result" where
  "hashed (VList _) = Inl (TypeError ''unhashable type: list'')"
| "hashed (VDict _) = Inl (TypeError ''unhashable type: dict'')"
| "hashed v = Inr v"

fun texts :: "pyval list \<Rightarrow> string list" where
  "texts [] = []"
| "texts (VStr s # vs) = s # texts vs"
| "texts (_ # vs) = texts vs"

text \<open>The dictionaries of a document that is one, or a list of them.\<close>

fun dicts_of :: "pyval list \<Rightarrow> pydict list" where
  "dicts_of [] = []"
| "dicts_of (VDict d # vs) = d # dicts_of vs"
| "dicts_of (_ # vs) = dicts_of vs"

fun objects_in :: "pyval \<Rightarrow> pydict list" where
  "objects_in (VDict d) = [d]"
| "objects_in (VList vs) = dicts_of vs"
| "objects_in _ = []"

fun list_or_empty :: "pyval \<Rightarrow> pyval list" where
  "list_or_empty (VList vs) = vs"
| "list_or_empty _ = []"

fun dict_or_empty :: "pyval \<Rightarrow> pydict" where
  "dict_or_empty (VDict d) = d"
| "dict_or_empty _ = []"

text \<open>\<^verbatim>\<open>str.splitlines\<close> on code points below 256.\<close>

definition is_linebreak :: "char \<Rightarrow> bool" where
  "is_linebreak c \<longleftrightarrow> (let n = (of_char c :: nat) in 10 \<le> n \<and> n \<le> 13 \<or> 28 \<le> n \<and> n \<le> 30 \<or> n = 133)"

function py_splitlines :: "string \<Rightarrow> string list" where
  "py_splitlines [] = []"
| "py_splitlines (c # s) =
     (if is_linebreak c then [] # py_splitlines (if c = CHR 0x0D \<and> s \<noteq> [] \<and> hd s = CHR 0x0A then tl s else s)
      else case py_splitlines s of [] \<Rightarrow> [[c]] | l # ls \<Rightarrow> (c # l) # ls)"
  by pat_completeness auto
termination by (relation "measure length") auto

text \<open>\<^verbatim>\<open>safe_jsonl_load\<close>: one line that is not JSON discards all of the output.\<close>

fun load_lines :: "json_loads \<Rightarrow> string list \<Rightarrow> pydict list option" where
  "load_lines loads [] = Some []"
| "load_lines loads (l # ls) =
     (let t = py_strip l in
      if t = [] then load_lines loads ls
      else case loads t of
        Inl _ \<Rightarrow> None
      | Inr v \<Rightarrow> map_option (\<lambda>rs. objects_in v @ rs) (load_lines loads ls))"

definition load_whole :: "json_loads \<Rightarrow> string \<Rightarrow> pydict list" where
  "load_whole loads s = (case loads s of Inl _ \<Rightarrow> [] | Inr v \<Rightarrow> objects_in v)"

definition safe_jsonl_load :: "json_loads \<Rightarrow> string \<Rightarrow> pydict list" where
  "safe_jsonl_load loads out =
     (if py_strip out = [] then []
      else case load_lines loads (py_splitlines out) of
        None \<Rightarrow> []
      | Some [] \<Rightarrow> load_whole loads out
      | Some rs \<Rightarrow> rs)"

section \<open>The loop of the parsers\<close>

text \<open>
  Every parser walks its records in order, derives a key from each, skips a record without a key or with one already seen,
  and makes an observation of the others. The number in its id counts the records (\<^term>\<open>every\<close>) or the observations.
\<close>

fun sweep ::
  "bool \<Rightarrow> ('r \<Rightarrow> nat \<Rightarrow> 'k option result) \<Rightarrow> ('r \<Rightarrow> nat \<Rightarrow> observation result) \<Rightarrow> nat \<Rightarrow> 'k list \<Rightarrow> 'r list \<Rightarrow> observation list result" where
  "sweep every key build i seen [] = Inr []"
| "sweep every key build i seen (r # rs) =
     bind_res (key r i) (\<lambda>k.
       case k of
         None \<Rightarrow> sweep every key build (if every then Suc i else i) seen rs
       | Some k \<Rightarrow>
           if k \<in> set seen then sweep every key build (if every then Suc i else i) seen rs
           else bind_res (build r i) (\<lambda>x. bind_res (sweep every key build (Suc i) (k # seen) rs) (\<lambda>xs. Inr (x # xs))))"

section \<open>Weaknesses and vulnerabilities\<close>

text \<open>The non-overlapping matches of \<^verbatim>\<open>CVE-\d{4}-\d{4,7}\<close>, case ignored, in upper case.\<close>

definition cve_at :: "string \<Rightarrow> string option" where
  "cve_at s =
     (let year = take 4 (drop 4 s); number = takeWhile is_digit (take 7 (drop 9 s)) in
      if py_lower (take 4 s) = ''cve-'' \<and> length year = 4 \<and> list_all is_digit year \<and> take 1 (drop 8 s) = ''-'' \<and> 4 \<le> length number
      then Some (take (9 + length number) s) else None)"

function find_cves :: "string \<Rightarrow> string list" where
  "find_cves [] = []"
| "find_cves (c # s) =
     (case cve_at (c # s) of
        Some m \<Rightarrow> py_upper m # find_cves (drop (length m - 1) s)
      | None \<Rightarrow> find_cves s)"
  by pat_completeness auto
termination by (relation "measure length") auto

text \<open>\<^verbatim>\<open>tuple(dict.fromkeys(xs))\<close>.\<close>

definition unique :: "'a list \<Rightarrow> 'a list" where
  "unique xs = rev (remdups (rev xs))"

definition extract_cve :: "pyval \<Rightarrow> string list result" where
  "extract_cve reference =
     (if \<not> truthy reference then Inr []
      else bind_res (case reference of VStr s \<Rightarrow> Inr [VStr s] | v \<Rightarrow> elements_of v) (\<lambda>refs.
        Inr (unique (concat (map find_cves (texts refs))))))"

type_synonym weakness_map = "(string \<times> string list \<times> string list) list"

definition map_tags :: "weakness_map \<Rightarrow> pyval \<Rightarrow> (string list \<times> string list) result" where
  "map_tags table tags =
     (if \<not> truthy tags then Inr ([], [])
      else bind_res (case tags of VStr s \<Rightarrow> Inr [VStr s] | v \<Rightarrow> elements_of v) (\<lambda>ts.
        let hits = List.map_filter (\<lambda>t. dict_get table (py_lower t)) (texts ts)
        in Inr (sorted_set (concat (map fst hits)), sorted_set (concat (map snd hits)))))"

definition severity_of :: "(string \<times> severity) list \<Rightarrow> severity \<Rightarrow> string \<Rightarrow> severity" where
  "severity_of table dflt s = (case dict_get table s of Some v \<Rightarrow> v | None \<Rightarrow> dflt)"

section \<open>Manifests\<close>

definition catalog_digest :: "string \<Rightarrow> string \<Rightarrow> string" where
  "catalog_digest key placeholder =
     (case dict_get IMAGE_CATALOG key of
        Some im \<Rightarrow> if im_digest im \<noteq> [] then im_digest im else ''sha256:'' @ placeholder
      | None \<Rightarrow> ''sha256:'' @ placeholder)"

definition tool_manifest ::
  "(string \<Rightarrow> string) \<Rightarrow> string \<Rightarrow> string \<Rightarrow> string \<Rightarrow> string \<Rightarrow> string \<Rightarrow> string \<Rightarrow> risk_class \<Rightarrow> coverage_domain \<Rightarrow> string \<Rightarrow> string \<Rightarrow> string list \<Rightarrow> adapter_manifest result" where
  "tool_manifest sha key license upname url ver placeholder level covered ext fixture permissions =
     bind_res (AdapterUpstream_check \<lparr>up_name = upname, up_url = url, up_version = ver,
       up_digest = catalog_digest key (placeholder @ ''-'' @ ver)\<rparr>) (\<lambda>upstream.
     AdapterManifest_check sha \<lparr>mf_id = key, mf_version = ''1.0.0'', mf_adapter_api_version = ''v1'', mf_license = license,
      mf_upstream = upstream,
      mf_risk_class = level, mf_coverage_domain = [covered], mf_input_schema = ''schema://'' @ key @ ''/input.json'',
      mf_output_schema = ''schema://'' @ key @ ''/output.'' @ ext, mf_network_policy = ''scoped-egress'',
      mf_parser = ''secopent_adapters.'' @ key @ '':parse'', 
      mf_fixtures = [''fixtures/positive.'' @ fixture, ''fixtures/negative.'' @ fixture, ''fixtures/timeout.txt'', ''fixtures/malformed.'' @ fixture],
      mf_permissions = permissions, mf_digest = []\<rparr>)"

definition manifest_subfinder :: "(string \<Rightarrow> string) \<Rightarrow> adapter_manifest result" where
  "manifest_subfinder sha = tool_manifest sha ''subfinder'' ''MIT'' ''subfinder'' ''https://github.com/projectdiscovery/subfinder'' ''2.6.7'' ''subfinder'' PASSIVE ASSET ''json'' ''json'' [''passive'']"

definition manifest_httpx :: "(string \<Rightarrow> string) \<Rightarrow> adapter_manifest result" where
  "manifest_httpx sha = tool_manifest sha ''httpx'' ''MIT'' ''httpx'' ''https://github.com/projectdiscovery/httpx'' ''1.6.9'' ''httpx'' PASSIVE ASSET ''json'' ''json'' [''network.connect'']"

definition manifest_naabu :: "(string \<Rightarrow> string) \<Rightarrow> adapter_manifest result" where
  "manifest_naabu sha = tool_manifest sha ''naabu'' ''MIT'' ''naabu'' ''https://github.com/projectdiscovery/naabu'' ''2.3.3'' ''naabu'' risk_class.LOW ASSET ''json'' ''json'' [''network.connect'']"

definition manifest_katana :: "(string \<Rightarrow> string) \<Rightarrow> adapter_manifest result" where
  "manifest_katana sha = tool_manifest sha ''katana'' ''MIT'' ''katana'' ''https://github.com/projectdiscovery/katana'' ''1.1.0'' ''katana'' PASSIVE ASSET ''json'' ''json'' [''network.connect'']"

definition manifest_fingerprinthub :: "(string \<Rightarrow> string) \<Rightarrow> adapter_manifest result" where
  "manifest_fingerprinthub sha = tool_manifest sha ''fingerprinthub'' ''MIT'' ''FingerprintHub'' ''https://github.com/StarCrossPortal/FingerprintHub'' ''1.9.0'' ''fingerprinthub'' PASSIVE ASSET ''json'' ''json'' [''passive'']"

definition manifest_nuclei :: "(string \<Rightarrow> string) \<Rightarrow> adapter_manifest result" where
  "manifest_nuclei sha = tool_manifest sha ''nuclei'' ''MIT'' ''nuclei'' ''https://github.com/projectdiscovery/nuclei'' ''3.3.7'' ''nuclei'' ACTIVE WEB ''json'' ''jsonl'' [''active'']"

definition manifest_nuclei_tcp :: "(string \<Rightarrow> string) \<Rightarrow> adapter_manifest result" where
  "manifest_nuclei_tcp sha = tool_manifest sha ''nuclei_tcp'' ''MIT'' ''nuclei'' ''https://github.com/projectdiscovery/nuclei'' ''3.3.7'' ''nuclei'' ACTIVE NETWORK ''jsonl'' ''jsonl'' [''active'', ''network.connect'']"

definition manifest_dalfox :: "(string \<Rightarrow> string) \<Rightarrow> adapter_manifest result" where
  "manifest_dalfox sha = tool_manifest sha ''dalfox'' ''MIT'' ''dalfox'' ''https://github.com/hahwul/dalfox'' ''2.9.2'' ''dalfox'' ACTIVE WEB ''json'' ''json'' [''active'']"

definition manifest_zap :: "(string \<Rightarrow> string) \<Rightarrow> adapter_manifest result" where
  "manifest_zap sha = tool_manifest sha ''zap'' ''Apache-2.0'' ''zap'' ''https://github.com/zaproxy/zaproxy'' ''2.15.0'' ''zap'' ACTIVE WEB ''json'' ''json'' [''active'', ''standalone-only'']"

definition manifest_schemathesis :: "(string \<Rightarrow> string) \<Rightarrow> adapter_manifest result" where
  "manifest_schemathesis sha = tool_manifest sha ''schemathesis'' ''MIT'' ''schemathesis'' ''https://github.com/schemathesis/schemathesis'' ''3.36.4'' ''schemathesis'' ACTIVE WEB ''json'' ''json'' [''active'']"

definition manifest_restler :: "(string \<Rightarrow> string) \<Rightarrow> adapter_manifest result" where
  "manifest_restler sha = tool_manifest sha ''restler'' ''MIT'' ''restler'' ''https://github.com/microsoft/restler-fuzzer'' ''9.2.0'' ''restler'' ACTIVE WEB ''json'' ''json'' [''active'']"

definition manifest_nmap :: "(string \<Rightarrow> string) \<Rightarrow> adapter_manifest result" where
  "manifest_nmap sha = tool_manifest sha ''nmap'' ''GPL-2.0-or-later'' ''nmap'' ''https://nmap.org/'' ''7.94'' ''nmap'' risk_class.LOW NETWORK ''xml'' ''xml'' [''network.connect'', ''independent_process'']"

definition manifest_trivy :: "(string \<Rightarrow> string) \<Rightarrow> adapter_manifest result" where
  "manifest_trivy sha = tool_manifest sha ''trivy'' ''Apache-2.0'' ''trivy'' ''https://github.com/aquasecurity/trivy'' ''0.55.0'' ''trivy'' PASSIVE CLOUD ''json'' ''json'' [''passive'']"

definition manifest_prowler :: "(string \<Rightarrow> string) \<Rightarrow> adapter_manifest result" where
  "manifest_prowler sha = tool_manifest sha ''prowler'' ''Apache-2.0'' ''prowler'' ''https://github.com/prowler-cloud/prowler'' ''4.6.0'' ''prowler'' PASSIVE CLOUD ''json'' ''json'' [''passive'']"

definition manifest_kube_bench :: "(string \<Rightarrow> string) \<Rightarrow> adapter_manifest result" where
  "manifest_kube_bench sha = tool_manifest sha ''kube_bench'' ''Apache-2.0'' ''kube-bench'' ''https://github.com/aquasecurity/kube-bench'' ''0.8.0'' ''kube-bench'' PASSIVE CLOUD ''json'' ''json'' [''passive'']"

definition manifest_checkov :: "(string \<Rightarrow> string) \<Rightarrow> adapter_manifest result" where
  "manifest_checkov sha = tool_manifest sha ''checkov'' ''MIT'' ''checkov'' ''https://github.com/bridgecrewio/checkov'' ''3.2.0'' ''checkov'' PASSIVE CLOUD ''json'' ''json'' [''passive'']"

definition manifest_scoutsuite :: "(string \<Rightarrow> string) \<Rightarrow> adapter_manifest result" where
  "manifest_scoutsuite sha = tool_manifest sha ''scoutsuite'' ''GPL-2.0-or-later'' ''ScoutSuite'' ''https://github.com/nccgroup/ScoutSuite'' ''5.13.0'' ''scoutsuite'' PASSIVE CLOUD ''json'' ''json'' [''passive'', ''independent_process'']"

end
