(* ===== verification/Tool_Reports.thy ===== *)
theory Tool_Reports
  imports Tool_Parsers
begin

text \<open>
  The parsers of the tools, one group of definitions per tool: its tables, how it reads its output, the key that identifies a
  result, the observation it makes of one (\<^verbatim>\<open>integrations/adapters/*/__init__.py\<close>), and the registry of \<^verbatim>\<open>real_scan.py\<close>.
\<close>

section \<open>Assets\<close>

text \<open>A key that is a plain value of the record: \<^verbatim>\<open>if not v or v in seen\<close>.\<close>

definition value_key :: "pyval \<Rightarrow> pyval option result" where
  "value_key v = (if truthy v then map_sum id Some (hashed v) else Inr None)"

definition info_observation ::
  "string \<Rightarrow> string \<Rightarrow> adapter_source \<Rightarrow> string \<Rightarrow> string \<Rightarrow> coverage_domain \<Rightarrow> string \<Rightarrow> rat \<Rightarrow> pydict \<Rightarrow> observation result" where
  "info_observation external asset src rule ver covered title confidence raw =
     Observation_check \<lparr>ob_external_id = external, ob_asset_identity = asset, ob_source = src, ob_rule_id = rule, ob_rule_version = ver,
       ob_coverage_domain = covered, ob_title = title, ob_severity = INFO, ob_confidence = confidence, ob_cwe = [], ob_cve = [], ob_owasp = [],
       ob_evidence_artifact_ids = [], ob_raw = raw\<rparr>"

definition subfinder_key :: "pydict \<Rightarrow> nat \<Rightarrow> pyval option result" where
  "subfinder_key r i = value_key (any_field r [''host'', ''domain''] [])"

definition subfinder_build :: "adapter_source \<Rightarrow> pydict \<Rightarrow> nat \<Rightarrow> observation result" where
  "subfinder_build src r i =
     (let host = py_str (any_field r [''host'', ''domain''] []) in
      info_observation (''subfinder:'' @ host @ '':'' @ nat_repr i) host src ''subfinder.subdomain'' ''2.6.7'' ASSET
        (''subdomain discovered: '' @ host) (9 / 10) r)"

definition parse_subfinder :: "json_loads \<Rightarrow> tool_parser" where
  "parse_subfinder loads out src = sweep True subfinder_key (subfinder_build src) 0 [] (safe_jsonl_load loads out)"

definition httpx_key :: "pydict \<Rightarrow> nat \<Rightarrow> pyval option result" where
  "httpx_key r i = value_key (any_field r [''url'', ''input''] [])"

definition httpx_build :: "adapter_source \<Rightarrow> pydict \<Rightarrow> nat \<Rightarrow> observation result" where
  "httpx_build src r i =
     (let url = py_str (any_field r [''url'', ''input''] []);
          tech = any_field r [''tech'', ''technologies''] [VList []];
          title = (case dict_get r ''title'' of Some t \<Rightarrow> t | None \<Rightarrow> VStr []) in
      info_observation (''httpx:'' @ url @ '':'' @ nat_repr i) url src ''httpx.probe'' ''1.6.9'' ASSET
        (''http probe: '' @ url @ '' status='' @ py_str (get_field r ''status_code'') @ '' title='' @ py_repr title) (19 / 20)
        (dict_setdefault r ''tech'' (case tech of VList vs \<Rightarrow> VList vs | v \<Rightarrow> VList [v])))"

definition parse_httpx :: "json_loads \<Rightarrow> tool_parser" where
  "parse_httpx loads out src = sweep True httpx_key (httpx_build src) 0 [] (safe_jsonl_load loads out)"

definition naabu_key :: "pydict \<Rightarrow> nat \<Rightarrow> string option result" where
  "naabu_key r i =
     (let ip = any_field r [''ip'', ''host'', ''address''] []; port = get_field r ''port'' in
      Inr (if \<not> truthy ip \<or> port = VNone then None else Some (py_str ip @ '':'' @ py_str port)))"

definition naabu_build :: "adapter_source \<Rightarrow> pydict \<Rightarrow> nat \<Rightarrow> observation result" where
  "naabu_build src r i =
     (let asset = py_str (any_field r [''ip'', ''host'', ''address''] []) @ '':'' @ py_str (get_field r ''port'') in
      info_observation (''naabu:'' @ asset @ '':'' @ nat_repr i) asset src ''naabu.open_port'' ''2.3.3'' ASSET (''open port: '' @ asset) (19 / 20) r)"

definition parse_naabu :: "json_loads \<Rightarrow> tool_parser" where
  "parse_naabu loads out src = sweep True naabu_key (naabu_build src) 0 [] (safe_jsonl_load loads out)"

definition katana_url :: "pydict \<Rightarrow> pyval" where
  "katana_url r =
     (case get_field r ''request'' of
        VDict q \<Rightarrow> any_field q [''endpoint'', ''url''] []
      | _ \<Rightarrow> any_field r [''url'', ''endpoint''] [])"

definition katana_key :: "pydict \<Rightarrow> nat \<Rightarrow> pyval option result" where
  "katana_key r i = value_key (katana_url r)"

definition katana_build :: "adapter_source \<Rightarrow> pydict \<Rightarrow> nat \<Rightarrow> observation result" where
  "katana_build src r i =
     (let url = py_str (katana_url r) in
      info_observation (''katana:'' @ url @ '':'' @ nat_repr i) url src ''katana.crawl'' ''1.1.0'' ASSET (''crawled URL: '' @ url) (9 / 10) r)"

definition parse_katana :: "json_loads \<Rightarrow> tool_parser" where
  "parse_katana loads out src = sweep True katana_key (katana_build src) 0 [] (safe_jsonl_load loads out)"

text \<open>
  FingerprintHub: one item per fingerprint of a record. A value of \<^verbatim>\<open>fingerprints\<close> that cannot be walked raises when its turn comes.
\<close>

definition TAG_OWASP :: "(string \<times> string list) list" where
  "TAG_OWASP = [(''wordpress'', [''A01'']), (''phpmyadmin'', [''A01'', ''A07'']), (''jenkins'', [''A05'']), (''git'', [''A05''])]"

type_synonym fingerprint_item = "nat \<times> pydict \<times> pyval \<times> string"

definition fingerprint_items :: "nat \<Rightarrow> pydict \<Rightarrow> fingerprint_item result list" where
  "fingerprint_items i r =
     (let url = any_field r [''url'', ''host'', ''input''] [];
          single = get_field r ''fingerprint'';
          prints = (if truthy (get_field r ''fingerprints'') then get_field r ''fingerprints'' else if truthy single then VList [single] else VList []) in
      if \<not> truthy url \<or> \<not> truthy prints then []
      else case elements_of prints of
        Inl e \<Rightarrow> [Inl e]
      | Inr vs \<Rightarrow> map (\<lambda>fp. Inr (i, r, url, fp)) (texts vs))"

definition fingerprint_key :: "fingerprint_item result \<Rightarrow> nat \<Rightarrow> (pyval \<times> string) option result" where
  "fingerprint_key x n = bind_res x (\<lambda>(i, r, url, fp). bind_res (hashed url) (\<lambda>u. Inr (Some (u, fp))))"

definition fingerprint_build :: "adapter_source \<Rightarrow> fingerprint_item result \<Rightarrow> nat \<Rightarrow> observation result" where
  "fingerprint_build src x n =
     bind_res x (\<lambda>(i, r, url, fp).
       Observation_check \<lparr>ob_external_id = ''fingerprinthub:'' @ py_str url @ '':'' @ fp @ '':'' @ nat_repr i, ob_asset_identity = py_str url,
         ob_source = src, ob_rule_id = ''fingerprinthub.match'', ob_rule_version = ''1.9.0'', ob_coverage_domain = ASSET,
         ob_title = ''fingerprint: '' @ fp @ '' on '' @ py_str url, ob_severity = INFO, ob_confidence = 17 / 20, ob_cwe = [], ob_cve = [],
         ob_owasp = (case dict_get TAG_OWASP (py_lower fp) of Some t \<Rightarrow> t | None \<Rightarrow> []), ob_evidence_artifact_ids = [],
         ob_raw = fold (\<lambda>(k, v). dict_set k v) r [(''url'', url), (''fingerprint'', VStr fp)]\<rparr>)"

definition parse_fingerprinthub :: "json_loads \<Rightarrow> tool_parser" where
  "parse_fingerprinthub loads out src =
     sweep True fingerprint_key (fingerprint_build src) 0 []
       (concat (map (\<lambda>(i, r). fingerprint_items i r) (enumerate 0 (safe_jsonl_load loads out))))"

section \<open>Template scanners\<close>

definition NUCLEI_TAGS :: weakness_map where
  "NUCLEI_TAGS =
     [(''sqli'', [''CWE-89''], [''A03:2021'']), (''sql-injection'', [''CWE-89''], [''A03:2021'']), (''xss'', [''CWE-79''], [''A03:2021'']),
      (''stored-xss'', [''CWE-79''], [''A03:2021'']), (''reflected-xss'', [''CWE-79''], [''A03:2021'']), (''dom-xss'', [''CWE-79''], [''A03:2021'']),
      (''ssrf'', [''CWE-918''], [''A10:2021'']), (''rce'', [''CWE-78''], [''A03:2021'']), (''lfi'', [''CWE-22''], [''A01:2021'']),
      (''rfi'', [''CWE-98''], [''A03:2021'']), (''command-injection'', [''CWE-78''], [''A03:2021'']), (''ssti'', [''CWE-94''], [''A03:2021'']),
      (''default-login'', [''CWE-521''], [''A07:2021'']), (''weak-password'', [''CWE-521''], [''A07:2021'']), (''auth-bypass'', [''CWE-287''], [''A07:2021'']),
      (''exposure'', [''CWE-200''], [''A05:2021'']), (''exposed-panel'', [''CWE-200''], [''A05:2021'']), (''misconfig'', [''CWE-16''], [''A05:2021'']),
      (''ssl'', [''CWE-295''], [''A02:2021'']), (''tls'', [''CWE-295''], [''A02:2021'']), (''idor'', [''CWE-639''], [''A01:2021'']),
      (''authz'', [''CWE-862''], [''A01:2021'']), (''open-redirect'', [''CWE-601''], [''A01:2021''])]"

definition NUCLEI_SEVERITY :: "(string \<times> severity) list" where
  "NUCLEI_SEVERITY =
     [(''critical'', CRITICAL), (''high'', HIGH), (''medium'', MEDIUM), (''moderate'', MEDIUM), (''low'', severity.LOW),
      (''info'', INFO), (''informational'', INFO)]"

definition info_of :: "pydict \<Rightarrow> pydict" where
  "info_of r = dict_or_empty (get_field r ''info'')"

definition template_id :: "pydict \<Rightarrow> nat \<Rightarrow> pyval" where
  "template_id r i =
     any_field r [''template-id'', ''templateID'', ''template_id''] [get_field (info_of r) ''name'', VStr (''unknown-'' @ nat_repr i)]"

definition template_tags :: "pydict \<Rightarrow> pyval" where
  "template_tags r = first_true [get_field (info_of r) ''tags'', get_field r ''tags'', VList []]"

definition template_reference :: "pydict \<Rightarrow> pyval" where
  "template_reference r = first_true [get_field r ''reference'', get_field (info_of r) ''reference'']"

definition template_severity :: "(string \<times> severity) list \<Rightarrow> pydict \<Rightarrow> severity" where
  "template_severity table r =
     severity_of table INFO (py_lower (py_str (case dict_get (info_of r) ''severity'' of Some s \<Rightarrow> s | None \<Rightarrow> VStr ''info'')))"

definition template_title :: "pydict \<Rightarrow> pyval \<Rightarrow> string" where
  "template_title r tid = py_str (first_true [get_field (info_of r) ''name'', tid])"

definition template_raw :: "pydict \<Rightarrow> pyval \<Rightarrow> pyval \<Rightarrow> pydict" where
  "template_raw r tid tags =
     dict_setdefault (dict_setdefault r ''template-id'' tid) ''tags'' (case tags of VList vs \<Rightarrow> VList vs | v \<Rightarrow> VList [v])"

definition nuclei_host :: "pydict \<Rightarrow> pyval" where
  "nuclei_host r = any_field r [''matched-host'', ''matched-at'', ''host'', ''url''] [VStr []]"

definition nuclei_key :: "pydict \<Rightarrow> nat \<Rightarrow> string option result" where
  "nuclei_key r i =
     (let place = get_field r ''matched-at''; matched = (if truthy place then py_str place else []) in
      Inr (if \<not> truthy (nuclei_host r) then None
           else Some (py_str (template_id r i) @ ''|'' @ (if matched \<noteq> [] then matched else py_str (nuclei_host r)))))"

definition nuclei_build :: "adapter_source \<Rightarrow> pydict \<Rightarrow> nat \<Rightarrow> observation result" where
  "nuclei_build src r i =
     (let tid = template_id r i; host = py_str (nuclei_host r); tags = template_tags r in
      bind_res (map_tags NUCLEI_TAGS tags) (\<lambda>(cwe, owasp).
      bind_res (extract_cve (template_reference r)) (\<lambda>referenced.
      bind_res (if referenced = [] then (case tid of VStr t \<Rightarrow> extract_cve (VList [VStr t]) | _ \<Rightarrow> Inr []) else Inr referenced) (\<lambda>cve.
      Observation_check \<lparr>ob_external_id = ''nuclei:'' @ py_str tid @ '':'' @ host @ '':'' @ nat_repr i, ob_asset_identity = host, ob_source = src,
        ob_rule_id = py_str tid, ob_rule_version = ''3.3.7'', ob_coverage_domain = WEB, ob_title = template_title r tid,
        ob_severity = template_severity NUCLEI_SEVERITY r, ob_confidence = 9 / 10, ob_cwe = cwe, ob_cve = cve, ob_owasp = owasp,
        ob_evidence_artifact_ids = [], ob_raw = template_raw r tid tags\<rparr>))))"

definition parse_nuclei :: "json_loads \<Rightarrow> tool_parser" where
  "parse_nuclei loads out src = sweep True nuclei_key (nuclei_build src) 0 [] (safe_jsonl_load loads out)"

text \<open>The network templates: the same tool, but results are told apart by their host alone.\<close>

definition NUCLEI_TCP_TAGS :: weakness_map where
  "NUCLEI_TCP_TAGS =
     [(''ssl'', [''CWE-295''], [''A02:2021'']), (''tls'', [''CWE-295''], [''A02:2021'']), (''heartbleed'', [''CWE-319''], [''A02:2021'']),
      (''poodle'', [''CWE-327''], [''A02:2021'']), (''cbc'', [''CWE-327''], [''A02:2021'']), (''weak-cipher'', [''CWE-327''], [''A02:2021'']),
      (''weak-crypto'', [''CWE-327''], [''A02:2021'']), (''mitm'', [''CWE-295''], [''A02:2021'']), (''dns'', [''CWE-200''], [''A05:2021'']),
      (''zone-transfer'', [''CWE-200''], [''A05:2021'']), (''dnssec'', [''CWE-345''], [''A05:2021'']), (''subdomain-takeover'', [''CWE-350''], [''A05:2021'']),
      (''takeover'', [''CWE-350''], [''A05:2021'']), (''exposure'', [''CWE-200''], [''A05:2021'']), (''exposed-service'', [''CWE-200''], [''A05:2021'']),
      (''default-login'', [''CWE-521''], [''A07:2021'']), (''weak-password'', [''CWE-521''], [''A07:2021'']), (''rce'', [''CWE-78''], [''A03:2021'']),
      (''fingerprint'', [], []), (''tech'', [], [])]"

definition NUCLEI_TCP_SEVERITY :: "(string \<times> severity) list" where
  "NUCLEI_TCP_SEVERITY =
     [(''critical'', CRITICAL), (''high'', HIGH), (''medium'', MEDIUM), (''moderate'', MEDIUM), (''low'', severity.LOW),
      (''info'', INFO), (''informational'', INFO)]"

definition nuclei_tcp_host :: "pydict \<Rightarrow> pyval" where
  "nuclei_tcp_host r = any_field r [''matched-at'', ''matched-host'', ''host'', ''ip''] [VStr []]"

definition nuclei_tcp_key :: "pydict \<Rightarrow> nat \<Rightarrow> pyval option result" where
  "nuclei_tcp_key r i = value_key (nuclei_tcp_host r)"

definition extract_cve_tcp :: "pyval \<Rightarrow> string list" where
  "extract_cve_tcp reference =
     unique (concat (map find_cves (texts (case reference of VStr s \<Rightarrow> [VStr s] | v \<Rightarrow> list_or_empty v))))"

definition nuclei_tcp_build :: "adapter_source \<Rightarrow> pydict \<Rightarrow> nat \<Rightarrow> observation result" where
  "nuclei_tcp_build src r i =
     (let tid = template_id r i; host = py_str (nuclei_tcp_host r); tags = template_tags r;
          referenced = extract_cve_tcp (template_reference r) in
      bind_res (map_tags NUCLEI_TCP_TAGS tags) (\<lambda>(cwe, owasp).
      Observation_check \<lparr>ob_external_id = ''nuclei_tcp:'' @ py_str tid @ '':'' @ host @ '':'' @ nat_repr i, ob_asset_identity = host, ob_source = src,
        ob_rule_id = py_str tid, ob_rule_version = ''3.3.7'', ob_coverage_domain = NETWORK, ob_title = template_title r tid,
        ob_severity = template_severity NUCLEI_TCP_SEVERITY r, ob_confidence = 9 / 10, ob_cwe = cwe,
        ob_cve = (if referenced = [] then (case tid of VStr t \<Rightarrow> extract_cve_tcp (VList [VStr t]) | _ \<Rightarrow> []) else referenced), ob_owasp = owasp,
        ob_evidence_artifact_ids = [], ob_raw = template_raw r tid tags\<rparr>))"

definition parse_nuclei_tcp :: "json_loads \<Rightarrow> tool_parser" where
  "parse_nuclei_tcp loads out src = sweep True nuclei_tcp_key (nuclei_tcp_build src) 0 [] (safe_jsonl_load loads out)"

section \<open>Web scanners\<close>

definition DALFOX_SEVERITY :: "(string \<times> severity) list" where
  "DALFOX_SEVERITY =
     [(''critical'', CRITICAL), (''high'', HIGH), (''medium'', MEDIUM), (''moderate'', MEDIUM), (''low'', severity.LOW),
      (''info'', INFO)]"

text \<open>Lines that are not JSON are skipped here.\<close>

fun load_tolerant :: "json_loads \<Rightarrow> string list \<Rightarrow> pydict list" where
  "load_tolerant loads [] = []"
| "load_tolerant loads (l # ls) =
     (let t = py_strip l in
      if t = [] then load_tolerant loads ls
      else (case loads t of Inl _ \<Rightarrow> [] | Inr v \<Rightarrow> objects_in v) @ load_tolerant loads ls)"

definition load_json_records :: "json_loads \<Rightarrow> string \<Rightarrow> pydict list" where
  "load_json_records loads out =
     (let text = py_strip out in
      if text = [] then []
      else case load_tolerant loads (py_splitlines text) of [] \<Rightarrow> load_whole loads text | rs \<Rightarrow> rs)"

definition dalfox_asset :: "pydict \<Rightarrow> pyval" where
  "dalfox_asset r =
     (let url = any_field r [''url'', ''target'', ''host''] [] in
      case get_field r ''param'' of
        VStr p \<Rightarrow> if p = [] then first_true [url, VStr []] else if truthy url then VStr (py_str url @ ''?'' @ p) else VStr p
      | _ \<Rightarrow> first_true [url, VStr []])"

definition dalfox_key :: "pydict \<Rightarrow> nat \<Rightarrow> pyval option result" where
  "dalfox_key r i = value_key (dalfox_asset r)"

definition dalfox_build :: "adapter_source \<Rightarrow> pydict \<Rightarrow> nat \<Rightarrow> observation result" where
  "dalfox_build src r i =
     (let asset = py_str (dalfox_asset r) in
      Observation_check \<lparr>ob_external_id = ''dalfox:'' @ asset @ '':'' @ nat_repr i, ob_asset_identity = asset, ob_source = src,
        ob_rule_id = ''dalfox.xss'', ob_rule_version = ''2.9.2'', ob_coverage_domain = WEB,
        ob_title = ''xss: '' @ py_str (any_field r [''message'', ''type''] [VStr ''xss'']),
        ob_severity = severity_of DALFOX_SEVERITY MEDIUM (py_lower (py_str (any_field r [''severity'', ''Severity''] [VStr ''medium'']))),
        ob_confidence = 17 / 20, ob_cwe = [''CWE-79''], ob_cve = [], ob_owasp = [''A03:2021''], ob_evidence_artifact_ids = [],
        ob_raw = dict_setdefault (dict_setdefault r ''cwe'' (VStr ''CWE-79'')) ''owasp'' (VStr ''A03:2021'')\<rparr>)"

definition parse_dalfox :: "json_loads \<Rightarrow> tool_parser" where
  "parse_dalfox loads out src = sweep True dalfox_key (dalfox_build src) 0 [] (load_json_records loads out)"

definition PLUGIN_OWASP :: "(string \<times> string) list" where
  "PLUGIN_OWASP =
     [(''40018'', ''A03:2021''), (''40014'', ''A03:2021''), (''40019'', ''A03:2021''), (''40020'', ''A03:2021''), (''40024'', ''A01:2021''),
      (''40025'', ''A01:2021''), (''10202'', ''A02:2021''), (''10027'', ''A05:2021''), (''10010'', ''A05:2021''), (''10017'', ''A05:2021''),
      (''10021'', ''A05:2021''), (''10038'', ''A05:2021''), (''10028'', ''A07:2021''), (''10098'', ''A05:2021'')]"

definition ZAP_SEVERITY :: "(string \<times> severity) list" where
  "ZAP_SEVERITY =
     [(''high'', HIGH), (''medium'', MEDIUM), (''moderate'', MEDIUM), (''low'', severity.LOW), (''info'', INFO),
      (''informational'', INFO)]"

definition load_alerts :: "json_loads \<Rightarrow> string \<Rightarrow> pydict list" where
  "load_alerts loads out =
     (let text = py_strip out in
      if text = [] then []
      else case loads text of
        Inr (VList vs) \<Rightarrow> dicts_of vs
      | Inr (VDict d) \<Rightarrow>
          (case get_field d ''alerts'' of
             VList vs \<Rightarrow> dicts_of vs
           | _ \<Rightarrow> concat (map (\<lambda>site. dicts_of (list_or_empty (get_field site ''alerts''))) (dicts_of (list_or_empty (get_field d ''site'')))))
      | _ \<Rightarrow> [])"

definition zap_plugin :: "pydict \<Rightarrow> string" where
  "zap_plugin r = py_str (any_field r [''pluginid'', ''id''] [VStr []])"

definition zap_url :: "pydict \<Rightarrow> pyval" where
  "zap_url r = any_field r [''url'', ''instance'', ''host''] [VStr []]"

definition zap_cwe :: "pydict \<Rightarrow> string list" where
  "zap_cwe r =
     (case py_int (py_str (any_field r [''cweid'', ''cwe''] [VStr ''0''])) of
        Some n \<Rightarrow> if n > 0 then [''CWE-'' @ int_repr n] else []
      | None \<Rightarrow> [])"

definition zap_risk :: "pydict \<Rightarrow> string" where
  "zap_risk r =
     (let s = py_lower (py_str (any_field r [''risk'', ''riskcode''] [VStr ''info''])) in
      if isdigit_text s then
        (case dict_get [(''3'', ''high''), (''2'', ''medium''), (''1'', ''low''), (''0'', ''info'')] s of Some w \<Rightarrow> w | None \<Rightarrow> ''info'')
      else s)"

definition zap_key :: "pydict \<Rightarrow> nat \<Rightarrow> (string \<times> string) option result" where
  "zap_key r i = Inr (if truthy (zap_url r) then Some (zap_plugin r, py_str (zap_url r)) else None)"

definition zap_build :: "adapter_source \<Rightarrow> pydict \<Rightarrow> nat \<Rightarrow> observation result" where
  "zap_build src r i =
     (let plugin = zap_plugin r; url = py_str (zap_url r) in
      Observation_check \<lparr>ob_external_id = ''zap:'' @ plugin @ '':'' @ url @ '':'' @ nat_repr i, ob_asset_identity = url, ob_source = src,
        ob_rule_id = (if plugin \<noteq> [] then ''zap.'' @ plugin else ''zap.alert''), ob_rule_version = ''2.15.0'', ob_coverage_domain = WEB,
        ob_title = py_str (any_field r [''alert'', ''name''] [VStr ''zap alert'']), ob_severity = severity_of ZAP_SEVERITY INFO (zap_risk r),
        ob_confidence = 4 / 5, ob_cwe = zap_cwe r, ob_cve = [],
        ob_owasp = (case dict_get PLUGIN_OWASP plugin of Some w \<Rightarrow> [w] | None \<Rightarrow> []), ob_evidence_artifact_ids = [],
        ob_raw = dict_setdefault r ''pluginid'' (VStr plugin)\<rparr>)"

definition parse_zap :: "json_loads \<Rightarrow> tool_parser" where
  "parse_zap loads out src = sweep True zap_key (zap_build src) 0 [] (load_alerts loads out)"

section \<open>Fuzzers\<close>

definition CHECK_SEVERITY :: "(string \<times> severity) list" where
  "CHECK_SEVERITY =
     [(''not_a_server_error'', HIGH), (''status_code_conformance'', MEDIUM), (''content_type_conformance'', MEDIUM), (''response_schema_conformance'', MEDIUM), (''negative_data_rejection'', HIGH),
      (''ensure_check_ast_removal'', severity.LOW)]"

fun ndjson_events :: "json_loads \<Rightarrow> string list \<Rightarrow> pydict list" where
  "ndjson_events loads [] = []"
| "ndjson_events loads (l # ls) =
     (let t = py_strip l in
      if t = [] \<or> \<not> starts_with t ''{'' then ndjson_events loads ls
      else case loads t of Inr (VDict d) \<Rightarrow> d # ndjson_events loads ls | _ \<Rightarrow> ndjson_events loads ls)"

fun first_by :: "('a \<Rightarrow> 'k) \<Rightarrow> 'k list \<Rightarrow> 'a list \<Rightarrow> 'a list" where
  "first_by f seen [] = []"
| "first_by f seen (x # xs) = (if f x \<in> set seen then first_by f seen xs else x # first_by f (f x # seen) xs)"

definition failed_check :: "pyval \<Rightarrow> string \<Rightarrow> string \<Rightarrow> pydict \<Rightarrow> pydict" where
  "failed_check outcome method path check =
     (let info = (case get_field check ''failure_info'' of VDict d \<Rightarrow> d | _ \<Rightarrow> []);
          message = (case get_field info ''failure'' of VDict f \<Rightarrow> py_str (any_field f [''message''] [VStr []]) | _ \<Rightarrow> []) in
      [(''check'', VStr (py_str (any_field check [''name''] [VStr ''unknown'']))), (''method'', VStr method), (''path'', VStr path),
       (''message'', VStr message), (''status'', outcome)])"

definition is_failure :: "pydict \<Rightarrow> bool" where
  "is_failure d \<longleftrightarrow> get_field d ''status'' = VStr ''failure''"

definition scenario_checks :: "pydict \<Rightarrow> pydict list" where
  "scenario_checks event =
     (case get_field event ''ScenarioFinished'' of
        VDict sf \<Rightarrow>
          if \<not> is_failure sf then []
          else (case get_field sf ''recorder'' of
             VDict rec \<Rightarrow>
               let label = py_str (any_field rec [''label''] [VStr []]);
                   (method, path) = (case partition_on (CHR '' '') label of (m, sep, p) \<Rightarrow>
                     if sep then (m, p) else (''GET'', if label = [] then ''/'' else label)) in
               concat (map (\<lambda>(case_id, checks). map (failed_check (get_field sf ''status'') method path)
                 (filter is_failure (dicts_of (list_or_empty checks)))) (dict_or_empty (get_field rec ''checks'')))
           | _ \<Rightarrow> [])
      | _ \<Rightarrow> [])"

definition failed_checks_from_events :: "pydict list \<Rightarrow> pydict list" where
  "failed_checks_from_events events =
     first_by (\<lambda>d. (get_field d ''check'', get_field d ''method'', get_field d ''path'')) [] (concat (map scenario_checks events))"

definition has_any_key :: "pydict \<Rightarrow> string list \<Rightarrow> bool" where
  "has_any_key d ks \<longleftrightarrow> list_ex (\<lambda>k. dict_get d k \<noteq> None) ks"

definition load_events :: "json_loads \<Rightarrow> string \<Rightarrow> pydict list" where
  "load_events loads text =
     (let events = ndjson_events loads (py_splitlines text);
          flat = filter (\<lambda>e. has_any_key e [''check'', ''name'', ''method'', ''path'']) events in
      if flat \<noteq> [] then flat else failed_checks_from_events events)"

definition load_results :: "json_loads \<Rightarrow> string \<Rightarrow> pydict list" where
  "load_results loads out =
     (let text = py_strip out in
      if text = [] then []
      else case loads text of
        Inr (VDict d) \<Rightarrow>
          (case get_field d ''results'' of
             VList vs \<Rightarrow> dicts_of vs
           | _ \<Rightarrow> if has_any_key d [''check'', ''method'', ''path'', ''name''] then [d] else load_events loads text)
      | Inr (VList vs) \<Rightarrow> dicts_of vs
      | _ \<Rightarrow> load_events loads text)"

definition fuzz_check :: "pydict \<Rightarrow> pyval" where
  "fuzz_check r = any_field r [''check'', ''name''] [VStr ''unknown'']"

definition fuzz_method :: "pydict \<Rightarrow> pyval" where
  "fuzz_method r = any_field r [''method'', ''verb''] [VStr ''GET'']"

definition fuzz_path :: "pydict \<Rightarrow> pyval" where
  "fuzz_path r = any_field r [''path'', ''endpoint'', ''url''] [VStr ''/'']"

definition schemathesis_key :: "pydict \<Rightarrow> nat \<Rightarrow> (string \<times> pyval \<times> pyval) option result" where
  "schemathesis_key r i =
     bind_res (hashed (fuzz_method r)) (\<lambda>m. bind_res (hashed (fuzz_path r)) (\<lambda>p. Inr (Some (py_str (fuzz_check r), m, p))))"

definition schemathesis_build :: "adapter_source \<Rightarrow> pydict \<Rightarrow> nat \<Rightarrow> observation result" where
  "schemathesis_build src r i =
     (let check = py_str (fuzz_check r); method = py_str (fuzz_method r); path = py_str (fuzz_path r); endpoint = method @ '' '' @ path in
      Observation_check \<lparr>ob_external_id = ''schemathesis:'' @ check @ '':'' @ method @ '':'' @ path @ '':'' @ nat_repr i, ob_asset_identity = endpoint,
        ob_source = src, ob_rule_id = ''schemathesis.'' @ check, ob_rule_version = ''3.36.4'', ob_coverage_domain = WEB,
        ob_title = ''schemathesis boundary: '' @ check @ '' failed on '' @ endpoint, ob_severity = severity_of CHECK_SEVERITY MEDIUM check,
        ob_confidence = 17 / 20, ob_cwe = [], ob_cve = [], ob_owasp = [''A04:2021''], ob_evidence_artifact_ids = [],
        ob_raw = dict_set ''test_class'' (VStr ''boundary'') r\<rparr>)"

definition parse_schemathesis :: "json_loads \<Rightarrow> tool_parser" where
  "parse_schemathesis loads out src = sweep True schemathesis_key (schemathesis_build src) 0 [] (load_results loads out)"

definition BUG_SEVERITY :: "(string \<times> severity) list" where
  "BUG_SEVERITY =
     [(''skip_step'', HIGH), (''out_of_order'', HIGH), (''replay'', MEDIUM)]"

definition flatten_bugs :: "pydict list \<Rightarrow> pydict list" where
  "flatten_bugs rs = concat (map (\<lambda>r. case get_field r ''bugs'' of VList vs \<Rightarrow> dicts_of vs | _ \<Rightarrow> [r]) rs)"

definition load_bugs :: "json_loads \<Rightarrow> string \<Rightarrow> pydict list" where
  "load_bugs loads out =
     (let text = py_strip out in
      if text = [] then []
      else case load_lines loads (py_splitlines text) of
        None \<Rightarrow> []
      | Some [] \<Rightarrow> flatten_bugs (load_whole loads text)
      | Some rs \<Rightarrow> flatten_bugs rs)"

definition bug_class :: "pydict \<Rightarrow> string" where
  "bug_class r =
     map (\<lambda>c. if c = CHR ''-'' then CHR ''_'' else c) (py_lower (py_str (any_field r [''bug_class'', ''test_class'', ''type''] [VStr ''unknown''])))"

definition bug_endpoint :: "pydict \<Rightarrow> pyval" where
  "bug_endpoint r = any_field r [''endpoint'', ''request'', ''url'', ''method''] [VStr []]"

definition restler_key :: "pydict \<Rightarrow> nat \<Rightarrow> (string \<times> string) option result" where
  "restler_key r i = Inr (if truthy (bug_endpoint r) then Some (bug_class r, py_str (bug_endpoint r)) else None)"

definition restler_build :: "adapter_source \<Rightarrow> pydict \<Rightarrow> nat \<Rightarrow> observation result" where
  "restler_build src r i =
     (let kind = bug_class r; endpoint = py_str (bug_endpoint r) in
      Observation_check \<lparr>ob_external_id = ''restler:'' @ kind @ '':'' @ endpoint @ '':'' @ nat_repr i, ob_asset_identity = endpoint, ob_source = src,
        ob_rule_id = ''restler.'' @ kind, ob_rule_version = ''9.2.0'', ob_coverage_domain = WEB,
        ob_title = ''restler sequence bug: '' @ kind @ '' at '' @ endpoint, ob_severity = severity_of BUG_SEVERITY MEDIUM kind,
        ob_confidence = 4 / 5, ob_cwe = [], ob_cve = [], ob_owasp = [''A04:2021''], ob_evidence_artifact_ids = [],
        ob_raw = dict_set ''test_class'' (VStr kind) r\<rparr>)"

definition parse_restler :: "json_loads \<Rightarrow> tool_parser" where
  "parse_restler loads out src = sweep True restler_key (restler_build src) 0 [] (load_bugs loads out)"

section \<open>Hosts\<close>

text \<open>An element of an XML tree: its tag, attributes and children.\<close>

datatype xml = Element string "(string \<times> string) list" "xml list"

fun xml_tag :: "xml \<Rightarrow> string" where
  "xml_tag (Element t a cs) = t"

fun xml_get :: "xml \<Rightarrow> string \<Rightarrow> string option" where
  "xml_get (Element t a cs) k = dict_get a k"

fun xml_children :: "xml \<Rightarrow> string \<Rightarrow> xml list" where
  "xml_children (Element t a cs) tag = filter (\<lambda>c. xml_tag c = tag) cs"

text \<open>The element and all below it, in document order.\<close>

fun descendants :: "xml \<Rightarrow> xml list" where
  "descendants (Element t a cs) = Element t a cs # concat (map descendants cs)"

definition xml_iter :: "xml \<Rightarrow> string \<Rightarrow> xml list" where
  "xml_iter x tag = filter (\<lambda>e. xml_tag e = tag) (descendants x)"

definition attribute_or :: "xml \<Rightarrow> string \<Rightarrow> string \<Rightarrow> string" where
  "attribute_or x k dflt = (case xml_get x k of Some v \<Rightarrow> v | None \<Rightarrow> dflt)"

definition VULN_SCRIPT_IDS :: "string set" where
  "VULN_SCRIPT_IDS = {''ssl-heartbleed'', ''ssl-ccs'', ''ssl-poodle'', ''smb-vuln'', ''vulners'', ''http-vuln-cve'', ''ftp-vsftpd-backdoor'',
     ''ssh-hostkey'', ''ms-sql-empty-password''}"

definition host_addresses :: "xml \<Rightarrow> string list \<times> string option" where
  "host_addresses host =
     (map (\<lambda>a. attribute_or a ''addr'' []) (filter (\<lambda>a. attribute_or a ''addrtype'' [] = ''ipv4'') (xml_children host ''address'')),
      List.find (\<lambda>name. name \<noteq> []) (List.map_filter (\<lambda>hn. xml_get hn ''name'') (xml_iter host ''hostname'')))"

definition parse_service :: "xml \<Rightarrow> (string \<times> string) list" where
  "parse_service port =
     (case xml_children port ''service'' of
        [] \<Rightarrow> []
      | svc # _ \<Rightarrow> List.map_filter (\<lambda>k. case xml_get svc k of Some v \<Rightarrow> if v \<noteq> [] then Some (k, v) else None | None \<Rightarrow> None)
          [''name'', ''product'', ''version'', ''extrainfo'', ''tunnel''])"

definition parse_scripts :: "xml \<Rightarrow> (string \<times> string) list" where
  "parse_scripts port = map (\<lambda>s. (attribute_or s ''id'' [], attribute_or s ''output'' [])) (xml_children port ''script'')"

type_synonym nmap_port = "string \<times> string option \<times> xml" \<comment> \<open>address, host name, port element\<close>

definition nmap_ports :: "xml \<Rightarrow> nmap_port list" where
  "nmap_ports doc =
     concat (map (\<lambda>host.
       if (case xml_children host ''status'' of s # _ \<Rightarrow> xml_get s ''state'' = Some ''down'' | [] \<Rightarrow> False) then []
       else case host_addresses host of
         ([], _) \<Rightarrow> []
       | (ip # _, hostname) \<Rightarrow> map (\<lambda>port. (ip, hostname, port)) (xml_iter host ''port'')) (xml_iter doc ''host''))"

definition nmap_key :: "nmap_port \<Rightarrow> nat \<Rightarrow> string option result" where
  "nmap_key x n =
     (case x of (ip, hostname, port) \<Rightarrow>
        Inr (if (case xml_children port ''state'' of s # _ \<Rightarrow> xml_get s ''state'' \<noteq> Some ''open'' | [] \<Rightarrow> False) then None
             else if attribute_or port ''portid'' [] = [] then None
             else Some (ip @ '':'' @ attribute_or port ''portid'' [])))"

definition nmap_build :: "adapter_source \<Rightarrow> nmap_port \<Rightarrow> nat \<Rightarrow> observation result" where
  "nmap_build src x i =
     (case x of (ip, hostname, port) \<Rightarrow>
        let portid = attribute_or port ''portid'' []; asset = ip @ '':'' @ portid; service = parse_service port; scripts = parse_scripts port in
        Observation_check \<lparr>ob_external_id = ''nmap:'' @ asset @ '':'' @ nat_repr i, ob_asset_identity = asset, ob_source = src,
          ob_rule_id = ''nmap.open_port'', ob_rule_version = ''7.94'', ob_coverage_domain = NETWORK,
          ob_title = (case dict_get service ''name'' of Some s \<Rightarrow> ''open '' @ s @ '' port: '' @ asset | None \<Rightarrow> ''open port: '' @ asset),
          ob_severity = INFO, ob_confidence = 19 / 20,
          ob_cwe = (if list_ex (\<lambda>(sid, out). starts_with sid ''ssl-'' \<and> out \<noteq> []) scripts then [''CWE-310''] else []),
          ob_cve = sorted_set (concat (map (\<lambda>(sid, out). if sid \<in> VULN_SCRIPT_IDS \<or> out \<noteq> [] then unique (find_cves out) else []) scripts)),
          ob_owasp = [], ob_evidence_artifact_ids = [],
          ob_raw = [(''ip'', VStr ip), (''port'', VStr portid), (''protocol'', VStr (attribute_or port ''protocol'' ''tcp'')),
            (''hostname'', VStr (case hostname of Some h \<Rightarrow> h | None \<Rightarrow> [])), (''service'', VDict (map (\<lambda>(k, v). (k, VStr v)) service)),
            (''scripts'', VList (map (\<lambda>(sid, out). VDict [(''id'', VStr sid), (''output'', VStr out)]) scripts))]\<rparr>)"

definition parse_nmap :: "(string \<Rightarrow> xml option) \<Rightarrow> tool_parser" where
  "parse_nmap read_xml out src =
     (if py_strip out = [] then Inr []
      else case read_xml out of None \<Rightarrow> Inr [] | Some doc \<Rightarrow> sweep False nmap_key (nmap_build src) 0 [] (nmap_ports doc))"

section \<open>Cloud and container scanners\<close>

definition load_object :: "json_loads \<Rightarrow> string \<Rightarrow> pydict option" where
  "load_object loads out =
     (if py_strip out = [] then None else case loads out of Inr (VDict d) \<Rightarrow> Some d | _ \<Rightarrow> None)"

definition load_records :: "json_loads \<Rightarrow> string \<Rightarrow> pydict list" where
  "load_records loads out = (if py_strip out = [] then [] else load_whole loads out)"

definition TRIVY_SEVERITY :: "(string \<times> severity) list" where
  "TRIVY_SEVERITY =
     [(''critical'', CRITICAL), (''high'', HIGH), (''medium'', MEDIUM), (''moderate'', MEDIUM), (''low'', severity.LOW),
      (''info'', INFO), (''informational'', INFO), (''unknown'', INFO), (''none'', INFO)]"

definition trivy_artifact :: "pydict \<Rightarrow> string" where
  "trivy_artifact d = safe_str (any_field d [''ArtifactName'', ''artifact_name''] [])"

type_synonym trivy_item = "string \<times> string \<times> pydict" \<comment> \<open>artifact, target, vulnerability\<close>

definition trivy_items :: "pydict \<Rightarrow> trivy_item list" where
  "trivy_items d =
     (let artifact = trivy_artifact d in
      concat (map (\<lambda>result.
        map (\<lambda>vuln. (artifact, safe_str (any_field result [''Target'', ''target''] [VStr artifact]), vuln))
          (dicts_of (list_or_empty (any_field result [''Vulnerabilities'', ''vulnerabilities''] [])))) (dicts_of (list_or_empty (get_field d ''Results'')))))"

definition trivy_vid :: "pydict \<Rightarrow> string" where
  "trivy_vid v = safe_str (any_field v [''VulnerabilityID'', ''vulnerability_id''] [])"

definition trivy_pkg :: "pydict \<Rightarrow> string" where
  "trivy_pkg v = safe_str (any_field v [''PkgName'', ''pkg_name''] [])"

definition trivy_asset :: "trivy_item \<Rightarrow> string" where
  "trivy_asset x = (case x of (artifact, target, v) \<Rightarrow> (if artifact \<noteq> [] then artifact else target) @ '':'' @ trivy_pkg v @ '':'' @ trivy_vid v)"

definition trivy_key :: "trivy_item \<Rightarrow> nat \<Rightarrow> string option result" where
  "trivy_key x n = (case x of (artifact, target, v) \<Rightarrow> Inr (if trivy_vid v = [] \<or> trivy_pkg v = [] then None else Some (trivy_asset x)))"

definition trivy_cwes :: "pydict \<Rightarrow> string list result" where
  "trivy_cwes v =
     (let ids = any_field v [''CweIDs'', ''cwe_ids''] [VList []] in
      bind_res (case ids of VStr s \<Rightarrow> Inr [VStr s] | x \<Rightarrow> elements_of x) (\<lambda>cs.
        Inr (sorted_set (map py_upper (filter (\<lambda>s. starts_with s ''CWE-'') (map safe_str cs))))))"

definition trivy_build :: "adapter_source \<Rightarrow> trivy_item \<Rightarrow> nat \<Rightarrow> observation result" where
  "trivy_build src x i =
     (case x of (artifact, target, v) \<Rightarrow>
        let vid = trivy_vid v; pkg = trivy_pkg v in
        bind_res (trivy_cwes v) (\<lambda>cwe.
        Observation_check \<lparr>ob_external_id = ''trivy:'' @ vid @ '':'' @ pkg @ '':'' @ nat_repr i, ob_asset_identity = trivy_asset x, ob_source = src,
          ob_rule_id = vid, ob_rule_version = ''0.55.0'', ob_coverage_domain = CLOUD, ob_title = safe_str (any_field v [''Title'', ''title''] [VStr vid]),
          ob_severity = severity_of TRIVY_SEVERITY INFO (py_lower (safe_str (any_field v [''Severity'', ''severity''] []))), ob_confidence = 9 / 10,
          ob_cwe = cwe, ob_cve = unique (find_cves vid), ob_owasp = [], ob_evidence_artifact_ids = [],
          ob_raw = dict_set ''target'' (VStr target) (dict_set ''artifact'' (VStr artifact)
            (dict_setdefault (dict_setdefault v ''PkgName'' (VStr pkg)) ''VulnerabilityID'' (VStr vid)))\<rparr>))"

definition parse_trivy :: "json_loads \<Rightarrow> tool_parser" where
  "parse_trivy loads out src =
     (case load_object loads out of None \<Rightarrow> Inr [] | Some d \<Rightarrow> sweep False trivy_key (trivy_build src) 0 [] (trivy_items d))"

text \<open>The first entry of a table whose key a text starts with.\<close>

definition prefix_entry :: "weakness_map \<Rightarrow> string \<Rightarrow> (string list \<times> string list) option" where
  "prefix_entry table s = map_option snd (List.find (\<lambda>(p, m). starts_with s p) table)"

definition CIS_CWE_MAP :: weakness_map where
  "CIS_CWE_MAP =
     [(''iam_user_mfa'', [''CWE-287''], [''A07:2021'']), (''iam_mfa'', [''CWE-287''], [''A07:2021'']), (''iam_root'', [''CWE-287''], [''A07:2021'']),
      (''iam_password'', [''CWE-521''], [''A07:2021'']), (''iam_access_key'', [''CWE-798''], [''A07:2021'']), (''iam_policy'', [''CWE-732''], [''A01:2021'']),
      (''cloudtrail'', [''CWE-778''], [''A09:2021'']), (''cloudwatch'', [''CWE-778''], [''A09:2021'']), (''config'', [''CWE-778''], [''A09:2021'']),
      (''kms'', [''CWE-311''], [''A02:2021'']), (''tls'', [''CWE-295''], [''A02:2021'']), (''ssl'', [''CWE-295''], [''A02:2021'']),
      (''security_group'', [''CWE-284''], [''A05:2021'']), (''nacl'', [''CWE-284''], [''A05:2021'']), (''vpc'', [''CWE-284''], [''A05:2021'']),
      (''s3_bucket'', [''CWE-732''], [''A01:2021'']), (''s3'', [''CWE-732''], [''A01:2021'']), (''rds'', [''CWE-284''], [''A05:2021'']),
      (''check_2'', [''CWE-778''], [''A09:2021'']), (''check_4'', [''CWE-311''], [''A02:2021'']), (''check_5'', [''CWE-284''], [''A05:2021''])]"

definition PROWLER_SEVERITY :: "(string \<times> severity) list" where
  "PROWLER_SEVERITY =
     [(''critical'', CRITICAL), (''high'', HIGH), (''medium'', MEDIUM), (''moderate'', MEDIUM), (''low'', severity.LOW),
      (''info'', INFO), (''informational'', INFO)]"

definition map_cis_check :: "string \<Rightarrow> string list \<times> string list" where
  "map_cis_check check_id =
     (if check_id = [] then ([], []) else case prefix_entry CIS_CWE_MAP (py_lower check_id) of Some m \<Rightarrow> m | None \<Rightarrow> ([], []))"

definition prowler_check :: "pydict \<Rightarrow> string" where
  "prowler_check r = safe_str (any_field r [''CheckId'', ''check_id'', ''checkid''] [])"

definition prowler_account :: "pydict \<Rightarrow> string" where
  "prowler_account r = safe_str (any_field r [''AccountId'', ''account_id'', ''account''] [])"

definition prowler_region :: "pydict \<Rightarrow> string" where
  "prowler_region r = safe_str (any_field r [''Region'', ''region''] [VStr ''global''])"

definition prowler_asset :: "pydict \<Rightarrow> string" where
  "prowler_asset r =
     (if prowler_account r \<noteq> [] then prowler_account r else ''unknown'') @ '':'' @ prowler_region r @ '':'' @ prowler_check r"

definition prowler_severity :: "pydict \<Rightarrow> severity" where
  "prowler_severity r =
     (if py_upper (safe_str (any_field r [''Status'', ''status''] [VStr []])) = ''PASS'' then INFO
      else severity_of PROWLER_SEVERITY INFO (py_lower (safe_str (any_field r [''Severity'', ''severity''] [VStr ''info'']))))"

definition prowler_key :: "pydict \<Rightarrow> nat \<Rightarrow> string option result" where
  "prowler_key r i = Inr (if prowler_check r = [] then None else Some (prowler_asset r))"

definition prowler_build :: "adapter_source \<Rightarrow> pydict \<Rightarrow> nat \<Rightarrow> observation result" where
  "prowler_build src r i =
     (let check = prowler_check r in
      Observation_check \<lparr>ob_external_id = ''prowler:'' @ check @ '':'' @ prowler_account r @ '':'' @ prowler_region r @ '':'' @ nat_repr i,
        ob_asset_identity = prowler_asset r, ob_source = src, ob_rule_id = check, ob_rule_version = ''4.6.0'', ob_coverage_domain = CLOUD,
        ob_title = safe_str (any_field r [''CheckTitle'', ''check_title''] [VStr check]), ob_severity = prowler_severity r, ob_confidence = 9 / 10,
        ob_cwe = fst (map_cis_check check), ob_cve = [], ob_owasp = snd (map_cis_check check), ob_evidence_artifact_ids = [],
        ob_raw = dict_setdefault r ''check_id'' (VStr check)\<rparr>)"

definition parse_prowler :: "json_loads \<Rightarrow> tool_parser" where
  "parse_prowler loads out src = sweep True prowler_key (prowler_build src) 0 [] (load_records loads out)"

definition STATUS_SEVERITY :: "(string \<times> severity) list" where
  "STATUS_SEVERITY =
     [(''FAIL'', HIGH), (''WARN'', INFO), (''PASS'', INFO), (''INFO'', INFO), (''MANUAL'', INFO)]"

type_synonym bench_item = "string \<times> string \<times> pydict" \<comment> \<open>control, kind of node, result\<close>

definition test_number :: "pydict \<Rightarrow> string" where
  "test_number r = safe_str (any_field r [''test_number'', ''testNumber''] [])"

definition bench_items :: "pydict \<Rightarrow> bench_item list" where
  "bench_items controls =
     (let control = safe_str (any_field controls [''id'', ''control_id''] []); node = safe_str (any_field controls [''node_type'', ''nodeType''] []) in
      concat (map (\<lambda>group. map (\<lambda>r. (control, node, r))
        (case get_field group ''results'' of
           VList vs \<Rightarrow> dicts_of vs
         | _ \<Rightarrow> if test_number group \<noteq> [] then [group] else [])) (dicts_of (list_or_empty (get_field controls ''tests'')))))"

definition bench_asset :: "bench_item \<Rightarrow> string" where
  "bench_asset x = (case x of (control, node, r) \<Rightarrow> (if node \<noteq> [] then node else ''node'') @ '':'' @ test_number r)"

definition kube_bench_key :: "bench_item \<Rightarrow> nat \<Rightarrow> string option result" where
  "kube_bench_key x n = (case x of (control, node, r) \<Rightarrow> Inr (if test_number r = [] then None else Some (bench_asset x)))"

definition kube_bench_build :: "adapter_source \<Rightarrow> bench_item \<Rightarrow> nat \<Rightarrow> observation result" where
  "kube_bench_build src x i =
     (case x of (control, node, r) \<Rightarrow>
        let number = test_number r in
        Observation_check \<lparr>ob_external_id = ''kube_bench:'' @ node @ '':'' @ number @ '':'' @ nat_repr i, ob_asset_identity = bench_asset x,
          ob_source = src, ob_rule_id = number, ob_rule_version = ''0.8.0'', ob_coverage_domain = CLOUD,
          ob_title = safe_str (any_field r [''test_desc'', ''text''] [VStr number]),
          ob_severity = severity_of STATUS_SEVERITY INFO (py_upper (safe_str (get_field r ''status''))), ob_confidence = 9 / 10, ob_cwe = [],
          ob_cve = [], ob_owasp = [], ob_evidence_artifact_ids = [],
          ob_raw = dict_set ''node_type'' (VStr node) (dict_setdefault (dict_setdefault (dict_setdefault r ''id'' (VStr control))
            ''control_id'' (VStr control)) ''test_id'' (VStr number))\<rparr>)"

definition parse_kube_bench :: "json_loads \<Rightarrow> tool_parser" where
  "parse_kube_bench loads out src =
     sweep False kube_bench_key (kube_bench_build src) 0 [] (concat (map bench_items (load_records loads out)))"

definition CKV_CWE_MAP :: weakness_map where
  "CKV_CWE_MAP =
     [(''CKV_AWS_S3'', [''CWE-732''], [''A01:2021'']), (''CKV_AWS_18'', [''CWE-778''], [''A09:2021'']), (''CKV_AWS_19'', [''CWE-311''], [''A02:2021'']),
      (''CKV_AWS_20'', [''CWE-732''], [''A01:2021'']), (''CKV_AWS_21'', [''CWE-732''], [''A01:2021'']), (''CKV_AWS_52'', [''CWE-693''], [''A05:2021'']),
      (''CKV_AWS_40'', [''CWE-287''], [''A07:2021'']), (''CKV_AWS_41'', [''CWE-798''], [''A07:2021'']), (''CKV_AWS_107'', [''CWE-732''], [''A01:2021'']),
      (''CKV_AWS_KMS'', [''CWE-311''], [''A02:2021'']), (''CKV_AWS_7'', [''CWE-311''], [''A02:2021'']), (''CKV_AWS_23'', [''CWE-284''], [''A05:2021'']),
      (''CKV_AWS_24'', [''CWE-284''], [''A05:2021'']), (''CKV_AWS_260'', [''CWE-284''], [''A05:2021'']), (''CKV_AWS_CLOUDTRAIL'', [''CWE-778''], [''A09:2021'']),
      (''CKV_AWS_99'', [''CWE-778''], [''A09:2021'']), (''CKV_AWS'', [''CWE-693''], [''A05:2021'']), (''CKV_GCP'', [''CWE-693''], [''A05:2021'']),
      (''CKV_AZURE'', [''CWE-693''], [''A05:2021'']), (''CKV_K8S'', [''CWE-693''], [''A05:2021''])]"

definition map_ckv_check :: "string \<Rightarrow> string list \<times> string list" where
  "map_ckv_check check_id =
     (if check_id = [] then ([], [])
      else let cid = py_upper check_id in
        case dict_get CKV_CWE_MAP cid of
          Some m \<Rightarrow> m
        | None \<Rightarrow>
            (case List.find (\<lambda>(p, m). starts_with cid (p @ ''_'') \<or> cid = p) CKV_CWE_MAP of Some (p, m) \<Rightarrow> m | None \<Rightarrow> ([], [])))"

definition checkov_checks :: "json_loads \<Rightarrow> string \<Rightarrow> pydict list" where
  "checkov_checks loads out =
     (if py_strip out = [] then []
      else concat (map (\<lambda>block. dicts_of (list_or_empty (get_field (dict_or_empty (get_field block ''results'')) ''failed_checks'')))
        (load_whole loads out)))"

definition checkov_id :: "pydict \<Rightarrow> string" where
  "checkov_id c = safe_str (any_field c [''check_id'', ''CheckId''] [])"

definition checkov_file :: "pydict \<Rightarrow> string" where
  "checkov_file c = safe_str (any_field c [''file_path'', ''file_path_''] [VStr ''<unknown>''])"

definition checkov_asset :: "pydict \<Rightarrow> string" where
  "checkov_asset c =
     (let resource = safe_str (any_field c [''resource'', ''resource_address''] []) in
      checkov_file c @ '':'' @ (if resource \<noteq> [] then resource else checkov_id c))"

definition checkov_key :: "pydict \<Rightarrow> nat \<Rightarrow> string option result" where
  "checkov_key c n = Inr (if checkov_id c = [] then None else Some (checkov_asset c))"

definition checkov_build :: "adapter_source \<Rightarrow> pydict \<Rightarrow> nat \<Rightarrow> observation result" where
  "checkov_build src c i =
     (let check = checkov_id c in
      bind_res (extract_cve (any_field c [''guideline'', ''references''] [])) (\<lambda>cve.
      Observation_check \<lparr>ob_external_id = ''checkov:'' @ check @ '':'' @ checkov_file c @ '':'' @ nat_repr i, ob_asset_identity = checkov_asset c,
        ob_source = src, ob_rule_id = check, ob_rule_version = ''3.2.0'', ob_coverage_domain = CLOUD,
        ob_title = safe_str (any_field c [''check_name'', ''check_title''] [VStr check]), ob_severity = MEDIUM, ob_confidence = 9 / 10,
        ob_cwe = fst (map_ckv_check check), ob_cve = cve, ob_owasp = snd (map_ckv_check check), ob_evidence_artifact_ids = [],
        ob_raw = dict_setdefault c ''check_id'' (VStr check)\<rparr>))"

definition parse_checkov :: "json_loads \<Rightarrow> tool_parser" where
  "parse_checkov loads out src = sweep False checkov_key (checkov_build src) 0 [] (checkov_checks loads out)"

definition FINDING_CWE_MAP :: weakness_map where
  "FINDING_CWE_MAP =
     [(''iam'', [''CWE-287''], [''A07:2021'']), (''cloudtrail'', [''CWE-778''], [''A09:2021'']), (''logging'', [''CWE-778''], [''A09:2021'']),
      (''kms'', [''CWE-311''], [''A02:2021'']), (''elb'', [''CWE-295''], [''A02:2021'']), (''ec2'', [''CWE-284''], [''A05:2021'']),
      (''vpc'', [''CWE-284''], [''A05:2021'']), (''security-group'', [''CWE-284''], [''A05:2021'']), (''s3'', [''CWE-732''], [''A01:2021'']),
      (''rds'', [''CWE-284''], [''A05:2021'']), (''redshift'', [''CWE-284''], [''A05:2021''])]"

definition SCOUT_SEVERITY :: "(string \<times> severity) list" where
  "SCOUT_SEVERITY =
     [(''danger'', HIGH), (''warning'', MEDIUM), (''info'', INFO)]"

definition map_finding_key :: "string \<Rightarrow> string \<Rightarrow> string list \<times> string list" where
  "map_finding_key key service =
     (case List.map_filter (\<lambda>c. if c = [] then None else prefix_entry FINDING_CWE_MAP c) [py_lower key, py_lower service] of
        m # _ \<Rightarrow> m
      | [] \<Rightarrow> ([], []))"

type_synonym scout_item = "string \<times> string \<times> string \<times> pydict" \<comment> \<open>account, service, finding key, finding\<close>

fun named_dicts :: "pydict \<Rightarrow> (string \<times> pydict) list" where
  "named_dicts [] = []"
| "named_dicts ((k, VDict d) # rest) = (k, d) # named_dicts rest"
| "named_dicts (_ # rest) = named_dicts rest"

definition scout_items :: "pydict \<Rightarrow> scout_item list" where
  "scout_items d =
     (let account = safe_str (any_field d [''account_id'', ''accountId''] [VStr ''unknown'']) in
      concat (map (\<lambda>(service, obj). map (\<lambda>(key, finding). (account, service, key, finding)) (named_dicts (dict_or_empty (get_field obj ''findings''))))
        (named_dicts (dict_or_empty (get_field d ''services'')))))"

text \<open>\<^verbatim>\<open>int(flagged)\<close>, zero where it raises TypeError or ValueError. The OverflowError of an infinity is not caught.\<close>

definition flagged_count :: "(string \<Rightarrow> rat) \<Rightarrow> pydict \<Rightarrow> int result" where
  "flagged_count num finding =
     (case int_of_value num (case dict_get finding ''flagged_items'' of Some v \<Rightarrow> v | None \<Rightarrow> VInt 0) of
        Inl (TypeError _) \<Rightarrow> Inr 0
      | Inl (ValueError _) \<Rightarrow> Inr 0
      | r \<Rightarrow> r)"

definition scoutsuite_key :: "(string \<Rightarrow> rat) \<Rightarrow> scout_item \<Rightarrow> nat \<Rightarrow> string option result" where
  "scoutsuite_key num x n =
     (case x of (account, service, key, finding) \<Rightarrow>
        bind_res (flagged_count num finding) (\<lambda>count.
          Inr (if count \<le> 0 then None else Some (account @ '':'' @ service @ '':'' @ key))))"

definition scoutsuite_build :: "adapter_source \<Rightarrow> scout_item \<Rightarrow> nat \<Rightarrow> observation result" where
  "scoutsuite_build src x i =
     (case x of (account, service, key, finding) \<Rightarrow>
        Observation_check \<lparr>ob_external_id = ''scoutsuite:'' @ service @ '':'' @ key @ '':'' @ account @ '':'' @ nat_repr i,
          ob_asset_identity = account @ '':'' @ service @ '':'' @ key, ob_source = src, ob_rule_id = key, ob_rule_version = ''5.13.0'',
          ob_coverage_domain = CLOUD, ob_title = safe_str (any_field finding [''description''] [VStr key]),
          ob_severity = severity_of SCOUT_SEVERITY MEDIUM (py_lower (safe_str (any_field finding [''level''] [VStr ''warning'']))),
          ob_confidence = 9 / 10, ob_cwe = fst (map_finding_key key service), ob_cve = [], ob_owasp = snd (map_finding_key key service),
          ob_evidence_artifact_ids = [], ob_raw = dict_setdefault (dict_setdefault finding ''service'' (VStr service)) ''finding_key'' (VStr key)\<rparr>)"

definition parse_scoutsuite :: "json_loads \<Rightarrow> (string \<Rightarrow> rat) \<Rightarrow> tool_parser" where
  "parse_scoutsuite loads num out src =
     (case load_object loads out of None \<Rightarrow> Inr [] | Some d \<Rightarrow> sweep False (scoutsuite_key num) (scoutsuite_build src) 0 [] (scout_items d))"

section \<open>The registry\<close>

record report_readers =
  rr_loads :: json_loads
  rr_xml :: "string \<Rightarrow> xml option"
  rr_num :: "string \<Rightarrow> rat"

definition TOOL_PARSERS :: "report_readers \<Rightarrow> (string \<times> tool_parser) list" where
  "TOOL_PARSERS R =
     (let loads = rr_loads R in
      [(''nuclei'', parse_nuclei loads), (''subfinder'', parse_subfinder loads), (''httpx'', parse_httpx loads), (''naabu'', parse_naabu loads),
       (''nmap'', parse_nmap (rr_xml R)), (''dalfox'', parse_dalfox loads), (''katana'', parse_katana loads),
       (''schemathesis'', parse_schemathesis loads), (''restler'', parse_restler loads), (''trivy'', parse_trivy loads),
       (''prowler'', parse_prowler loads), (''kube_bench'', parse_kube_bench loads), (''checkov'', parse_checkov loads),
       (''scoutsuite'', parse_scoutsuite loads (rr_num R))])"

definition tool_parse :: "report_readers \<Rightarrow> string \<Rightarrow> tool_parser" where
  "tool_parse R key = (case dict_get (TOOL_PARSERS R) key of Some p \<Rightarrow> p | None \<Rightarrow> (\<lambda>out src. Inr []))"

text \<open>The registry of \<^verbatim>\<open>real_scan.py\<close> with the parsers of this theory.\<close>

lemma registered_parsers: "ADAPTER_PARSERS (tool_parse R) = TOOL_PARSERS R"
  by (simp add: ADAPTER_PARSERS_def PARSED_ADAPTERS_def tool_parse_def TOOL_PARSERS_def Let_def)

end
