(* ===== verification/Report_Safety.thy ===== *)
theory Report_Safety
  imports Tool_Reports Canonical_Injective
begin

text \<open>
  What holds of the observations the parsers make of any output: they are valid, come from the given source and have different
  ids. Every parser is a sweep over records, so the lemmas on the sweep are shared.
\<close>

section \<open>The loop\<close>

lemma sweep_made:
  "sweep every key build i seen rs = Inr obs \<Longrightarrow>
     \<exists>ns. sorted_wrt (<) ns \<and> (\<forall>n \<in> set ns. i \<le> n) \<and>
       list_all2 (\<lambda>n x. \<exists>r \<in> set rs. \<exists>k. key r n = Inr (Some k) \<and> build r n = Inr x) ns obs"
proof (induction rs arbitrary: i seen obs)
  case (Cons r rs)
  from Cons.prems obtain k where k: "key r i = Inr k" by (auto simp: bind_res_Inr_iff)
  consider (skip) j where "sweep every key build j seen rs = Inr obs" "i \<le> j"
    | (make) c x xs where "k = Some c" "build r i = Inr x" "sweep every key build (Suc i) (c # seen) rs = Inr xs" "obs = x # xs"
    using Cons.prems k by (cases k) (auto simp: bind_res_Inr_iff split: if_splits)
  then show ?case
  proof cases
    case skip
    from Cons.IH [OF skip(1)] obtain ns where "sorted_wrt (<) ns" "\<forall>n \<in> set ns. j \<le> n"
      "list_all2 (\<lambda>n x. \<exists>r \<in> set rs. \<exists>k. key r n = Inr (Some k) \<and> build r n = Inr x) ns obs" by blast
    with skip(2) show ?thesis
      by (intro exI [of _ ns]) (auto elim!: list_all2_mono dest: order_trans)
  next
    case make
    from Cons.IH [OF make(3)] obtain ns where ns: "sorted_wrt (<) ns" "\<forall>n \<in> set ns. Suc i \<le> n"
      "list_all2 (\<lambda>n x. \<exists>r \<in> set rs. \<exists>k. key r n = Inr (Some k) \<and> build r n = Inr x) ns xs" by blast
    with make k show ?thesis
      by (intro exI [of _ "i # ns"]) (auto elim!: list_all2_mono)
  qed
qed simp

lemma sweep_raised:
  "sweep every key build i seen rs = Inl e \<Longrightarrow> \<exists>r \<in> set rs. \<exists>n. key r n = Inl e \<or> (\<exists>k. key r n = Inr (Some k) \<and> build r n = Inl e)"
  by (induction rs arbitrary: i seen) (fastforce simp: bind_res_Inl_iff split: option.splits if_splits)+

text \<open>The first record of every key is kept, and no key twice.\<close>

lemma sweep_covers:
  "sweep every key build i seen rs = Inr obs \<Longrightarrow> \<forall>r \<in> set rs. \<forall>k. (\<forall>n. key r n = Inr (Some k)) \<longrightarrow> k \<notin> set seen \<longrightarrow>
     (\<exists>x \<in> set obs. \<exists>q \<in> set rs. \<exists>n. key q n = Inr (Some k) \<and> build q n = Inr x)"
proof (induction rs arbitrary: i seen obs)
  case (Cons r rs)
  from Cons.prems obtain k where k: "key r i = Inr k" by (auto simp: bind_res_Inr_iff)
  consider (skip) j where "sweep every key build j seen rs = Inr obs" "k = None \<or> (\<exists>c. k = Some c \<and> c \<in> set seen)"
    | (make) c x xs where "k = Some c" "build r i = Inr x" "sweep every key build (Suc i) (c # seen) rs = Inr xs" "obs = x # xs"
    using Cons.prems k by (cases k) (auto simp: bind_res_Inr_iff split: if_splits)
  then show ?case
  proof cases
    case skip
    from Cons.IH [OF skip(1)] skip(2) k show ?thesis by fastforce
  next
    case make
    from Cons.IH [OF make(3)] make k show ?thesis by (simp; metis sum.inject(2) option.inject)
  qed
qed simp

section \<open>Ids\<close>

definition tagged :: "string \<Rightarrow> adapter_source \<Rightarrow> nat \<Rightarrow> observation \<Rightarrow> bool" where
  "tagged key src n x \<longleftrightarrow> prefix (key @ '':'') (ob_external_id x) \<and> suffix ('':'' @ nat_repr n) (ob_external_id x) \<and> ob_source x = src \<and> Observation_check x = Inr x"

lemma nat_repr_no_colon: "CHR '':'' \<notin> set (nat_repr n)"
proof -
  have "set (nat_repr n) \<subseteq> digit_chars" by (rule nat_repr_digits)
  moreover have "CHR '':'' \<notin> digit_chars" unfolding digit_chars_def by code_simp
  ultimately show ?thesis by blast
qed

lemma tag_number:
  assumes "tagged key src n x" "tagged key src m y" "ob_external_id x = ob_external_id y"
  shows "n = m"
proof -
  obtain p q where p: "ob_external_id x = p @ '':'' @ nat_repr n" and q: "ob_external_id y = q @ '':'' @ nat_repr m"
    using assms(1,2) unfolding tagged_def suffix_def by blast
  have "p @ CHR '':'' # nat_repr n = q @ CHR '':'' # nat_repr m"
    using assms(3) unfolding p q by simp
  then have "rev (nat_repr n) @ CHR '':'' # rev p = rev (nat_repr m) @ CHR '':'' # rev q"
    by (metis append.assoc append_Cons append_Nil rev.simps(2) rev_append)
  from arg_cong [OF this, of "takeWhile (\<lambda>c. c \<noteq> CHR '':'')"] have "rev (nat_repr n) = rev (nat_repr m)"
    using nat_repr_no_colon by (subst (asm) (1 2) takeWhile_append2) auto
  then show ?thesis using nat_repr_inject by auto
qed

lemma tagged_ids:
  assumes "sorted_wrt (<) ns" "list_all2 (tagged key src) ns obs"
  shows "distinct (map ob_external_id obs)"
  using assms(2,1)
proof (induction rule: list_all2_induct)
  case (Cons n ns x xs)
  have "ob_external_id y \<noteq> ob_external_id x" if y: "y \<in> set xs" for y
  proof
    assume same: "ob_external_id y = ob_external_id x"
    obtain i where i: "i < length xs" "xs ! i = y" using y by (auto simp: in_set_conv_nth)
    define m where "m = ns ! i"
    have "m \<in> set ns" "tagged key src m y"
      using i list_all2_nthD2 [OF Cons.hyps(2) i(1)] list_all2_lengthD [OF Cons.hyps(2)] by (auto simp: m_def)
    with tag_number [OF _ Cons.hyps(1) same] Cons.prems show False by auto
  qed
  then have "ob_external_id x \<notin> ob_external_id ` set xs" by (metis imageE)
  with Cons.IH Cons.prems show ?case by simp
qed simp

lemma sweep_tagged:
  assumes "sweep every key build i seen rs = Inr obs"
    and "\<And>r n x. build r n = Inr x \<Longrightarrow> tagged tool src n x"
  shows "distinct (map ob_external_id obs) \<and> (\<forall>x \<in> set obs. \<exists>n. tagged tool src n x)"
proof -
  obtain ns where "sorted_wrt (<) ns" "list_all2 (\<lambda>n x. \<exists>r \<in> set rs. \<exists>k. key r n = Inr (Some k) \<and> build r n = Inr x) ns obs"
    using sweep_made [OF assms(1)] by blast
  then have "sorted_wrt (<) ns" "list_all2 (tagged tool src) ns obs"
    by (auto elim!: list_all2_mono intro: assms(2))
  then show ?thesis using tagged_ids by (fastforce simp: list_all2_conv_all_nth in_set_conv_nth)
qed

section \<open>Every registered parser\<close>

lemmas made_simps = tagged_def Let_def bind_res_Inr_iff Observation_check_def info_observation_def
lemmas made_intros = suffix_ConsI suffix_appendI

lemma subfinder_made: "subfinder_build src r n = Inr x \<Longrightarrow> tagged ''subfinder'' src n x"
  by (auto simp: subfinder_build_def made_simps intro!: made_intros split: if_splits)

lemma httpx_made: "httpx_build src r n = Inr x \<Longrightarrow> tagged ''httpx'' src n x"
  by (auto simp: httpx_build_def made_simps intro!: made_intros split: if_splits)

lemma naabu_made: "naabu_build src r n = Inr x \<Longrightarrow> tagged ''naabu'' src n x"
  by (auto simp: naabu_build_def made_simps intro!: made_intros split: if_splits)

lemma katana_made: "katana_build src r n = Inr x \<Longrightarrow> tagged ''katana'' src n x"
  by (auto simp: katana_build_def made_simps intro!: made_intros split: if_splits)

lemma nuclei_made: "nuclei_build src r n = Inr x \<Longrightarrow> tagged ''nuclei'' src n x"
  by (auto simp: nuclei_build_def made_simps intro!: made_intros split: if_splits)

lemma dalfox_made: "dalfox_build src r n = Inr x \<Longrightarrow> tagged ''dalfox'' src n x"
  by (auto simp: dalfox_build_def made_simps intro!: made_intros split: if_splits)

lemma schemathesis_made: "schemathesis_build src r n = Inr x \<Longrightarrow> tagged ''schemathesis'' src n x"
  by (auto simp: schemathesis_build_def made_simps intro!: made_intros split: if_splits)

lemma restler_made: "restler_build src r n = Inr x \<Longrightarrow> tagged ''restler'' src n x"
  by (auto simp: restler_build_def made_simps intro!: made_intros split: if_splits)

lemma nmap_made: "nmap_build src r n = Inr x \<Longrightarrow> tagged ''nmap'' src n x"
  by (cases r) (auto simp: nmap_build_def made_simps intro!: made_intros split: if_splits)

lemma trivy_made: "trivy_build src r n = Inr x \<Longrightarrow> tagged ''trivy'' src n x"
  by (cases r) (auto simp: trivy_build_def made_simps intro!: made_intros split: if_splits)

lemma prowler_made: "prowler_build src r n = Inr x \<Longrightarrow> tagged ''prowler'' src n x"
  by (auto simp: prowler_build_def made_simps intro!: made_intros split: if_splits)

lemma kube_bench_made: "kube_bench_build src r n = Inr x \<Longrightarrow> tagged ''kube_bench'' src n x"
  by (cases r) (auto simp: kube_bench_build_def made_simps intro!: made_intros split: if_splits)

lemma checkov_made: "checkov_build src r n = Inr x \<Longrightarrow> tagged ''checkov'' src n x"
  by (auto simp: checkov_build_def made_simps intro!: made_intros split: if_splits)

lemma scoutsuite_made: "scoutsuite_build src r n = Inr x \<Longrightarrow> tagged ''scoutsuite'' src n x"
  by (cases r) (auto simp: scoutsuite_build_def made_simps intro!: made_intros split: if_splits)

text \<open>The parser of each key.\<close>

lemma parser_of [simp]:
  "tool_parse R ''nuclei'' = parse_nuclei (rr_loads R)" "tool_parse R ''subfinder'' = parse_subfinder (rr_loads R)"
  "tool_parse R ''httpx'' = parse_httpx (rr_loads R)" "tool_parse R ''naabu'' = parse_naabu (rr_loads R)"
  "tool_parse R ''nmap'' = parse_nmap (rr_xml R)" "tool_parse R ''dalfox'' = parse_dalfox (rr_loads R)"
  "tool_parse R ''katana'' = parse_katana (rr_loads R)" "tool_parse R ''schemathesis'' = parse_schemathesis (rr_loads R)"
  "tool_parse R ''restler'' = parse_restler (rr_loads R)" "tool_parse R ''trivy'' = parse_trivy (rr_loads R)"
  "tool_parse R ''prowler'' = parse_prowler (rr_loads R)" "tool_parse R ''kube_bench'' = parse_kube_bench (rr_loads R)"
  "tool_parse R ''checkov'' = parse_checkov (rr_loads R)" "tool_parse R ''scoutsuite'' = parse_scoutsuite (rr_loads R) (rr_num R)"
  by (simp_all add: tool_parse_def TOOL_PARSERS_def Let_def)

lemma each_parser:
  assumes "key \<in> set PARSED_ADAPTERS"
    and "P ''nuclei''" "P ''subfinder''" "P ''httpx''" "P ''naabu''" "P ''nmap''" "P ''dalfox''" "P ''katana''"
    and "P ''schemathesis''" "P ''restler''" "P ''trivy''" "P ''prowler''" "P ''kube_bench''" "P ''checkov''" "P ''scoutsuite''"
  shows "P key"
  using assms(1) unfolding PARSED_ADAPTERS_def list.set insert_iff empty_iff by (elim disjE FalseE; simp only: assms)

definition reported :: "string \<Rightarrow> adapter_source \<Rightarrow> observation list \<Rightarrow> bool" where
  "reported key src obs \<longleftrightarrow> distinct (map ob_external_id obs) \<and> (\<forall>x \<in> set obs. \<exists>n. tagged key src n x)"

lemma reported_nothing [simp]: "reported key src []"
  by (simp add: reported_def)

lemma nuclei_reported: "parse_nuclei loads out src = Inr obs \<Longrightarrow> reported ''nuclei'' src obs"
  unfolding parse_nuclei_def reported_def by (rule sweep_tagged [OF _ nuclei_made])

lemma subfinder_reported: "parse_subfinder loads out src = Inr obs \<Longrightarrow> reported ''subfinder'' src obs"
  unfolding parse_subfinder_def reported_def by (rule sweep_tagged [OF _ subfinder_made])

lemma httpx_reported: "parse_httpx loads out src = Inr obs \<Longrightarrow> reported ''httpx'' src obs"
  unfolding parse_httpx_def reported_def by (rule sweep_tagged [OF _ httpx_made])

lemma naabu_reported: "parse_naabu loads out src = Inr obs \<Longrightarrow> reported ''naabu'' src obs"
  unfolding parse_naabu_def reported_def by (rule sweep_tagged [OF _ naabu_made])

lemma nmap_reported: "parse_nmap read_xml out src = Inr obs \<Longrightarrow> reported ''nmap'' src obs"
  by (auto simp: parse_nmap_def reported_def split: if_splits option.splits dest!: sweep_tagged [where build = "nmap_build src" and tool = "''nmap''" and src = src] nmap_made)

lemma dalfox_reported: "parse_dalfox loads out src = Inr obs \<Longrightarrow> reported ''dalfox'' src obs"
  unfolding parse_dalfox_def reported_def by (rule sweep_tagged [OF _ dalfox_made])

lemma katana_reported: "parse_katana loads out src = Inr obs \<Longrightarrow> reported ''katana'' src obs"
  unfolding parse_katana_def reported_def by (rule sweep_tagged [OF _ katana_made])

lemma schemathesis_reported: "parse_schemathesis loads out src = Inr obs \<Longrightarrow> reported ''schemathesis'' src obs"
  unfolding parse_schemathesis_def reported_def by (rule sweep_tagged [OF _ schemathesis_made])

lemma restler_reported: "parse_restler loads out src = Inr obs \<Longrightarrow> reported ''restler'' src obs"
  unfolding parse_restler_def reported_def by (rule sweep_tagged [OF _ restler_made])

lemma trivy_reported: "parse_trivy loads out src = Inr obs \<Longrightarrow> reported ''trivy'' src obs"
  by (auto simp: parse_trivy_def reported_def split: if_splits option.splits dest!: sweep_tagged [where build = "trivy_build src" and tool = "''trivy''" and src = src] trivy_made)

lemma prowler_reported: "parse_prowler loads out src = Inr obs \<Longrightarrow> reported ''prowler'' src obs"
  unfolding parse_prowler_def reported_def by (rule sweep_tagged [OF _ prowler_made])

lemma kube_bench_reported: "parse_kube_bench loads out src = Inr obs \<Longrightarrow> reported ''kube_bench'' src obs"
  unfolding parse_kube_bench_def reported_def by (rule sweep_tagged [OF _ kube_bench_made])

lemma checkov_reported: "parse_checkov loads out src = Inr obs \<Longrightarrow> reported ''checkov'' src obs"
  unfolding parse_checkov_def reported_def by (rule sweep_tagged [OF _ checkov_made])

lemma scoutsuite_reported: "parse_scoutsuite loads num out src = Inr obs \<Longrightarrow> reported ''scoutsuite'' src obs"
  by (auto simp: parse_scoutsuite_def reported_def split: if_splits option.splits dest!: sweep_tagged [where build = "scoutsuite_build src" and tool = "''scoutsuite''" and src = src] scoutsuite_made)

text \<open>
  C14. Reports are well formed. Whatever a registered tool wrote: when its parser returns, every observation is valid, carries the
  given source and an id that starts with the key of the tool, and no two of them have the same id.
\<close>

theorem reports_well_formed:
  assumes "tool_parse R key out src = Inr obs" "key \<in> set PARSED_ADAPTERS"
  shows "distinct (map ob_external_id obs) \<and>
    (\<forall>x \<in> set obs. Observation_check x = Inr x \<and> ob_source x = src \<and> prefix (key @ '':'') (ob_external_id x))"
proof -
  have "tool_parse R key out src = Inr obs \<longrightarrow> reported key src obs"
    using assms(2)
    by (rule each_parser; simp add: nuclei_reported subfinder_reported httpx_reported naabu_reported nmap_reported dalfox_reported
        katana_reported schemathesis_reported restler_reported trivy_reported prowler_reported kube_bench_reported checkov_reported
        scoutsuite_reported)
  with assms(1) show ?thesis by (auto simp: reported_def tagged_def)
qed

end
