(* ===== verification/Report_Errors.thy ===== *)
theory Report_Errors
  imports Report_Safety
begin

text \<open>
  When a report is read: with values of the right kinds in the fields that are looked at, a parser returns; what it does
  with other values; what a report may lose; and the manifests of the tools.
\<close>

section \<open>Exceptions\<close>

text \<open>A decoded document whose floats have a numeral, as every document that \<^verbatim>\<open>json.loads\<close> returns.\<close>

fun numerals_ok :: "pyval \<Rightarrow> bool" where
  "numerals_ok (VFloat r) \<longleftrightarrow> r \<noteq> []"
| "numerals_ok (VList vs) \<longleftrightarrow> list_all numerals_ok vs"
| "numerals_ok (VDict d) \<longleftrightarrow> list_all (\<lambda>(k, v). numerals_ok v) d"
| "numerals_ok _ \<longleftrightarrow> True"

abbreviation record_ok :: "pydict \<Rightarrow> bool" where
  "record_ok d \<equiv> numerals_ok (VDict d)"

lemma get_field_ok [simp]: "record_ok d \<Longrightarrow> numerals_ok (get_field d k)"
  by (induction d) (auto simp: get_field_def opt_val_def split: option.splits)

lemma first_true_ok: "\<forall>v \<in> set vs. numerals_ok v \<Longrightarrow> numerals_ok (first_true vs)"
  by (induction vs rule: first_true.induct) auto

lemma any_field_ok [simp]: "record_ok d \<Longrightarrow> \<forall>v \<in> set vs. numerals_ok v \<Longrightarrow> numerals_ok (any_field d ks vs)"
  unfolding any_field_def by (rule first_true_ok) (auto simp del: numerals_ok.simps)

lemma repr_str_nonempty [simp]: "repr_str s \<noteq> []"
  by (simp add: repr_str_def Let_def)

lemma py_str_text: "numerals_ok v \<Longrightarrow> truthy v \<Longrightarrow> py_str v \<noteq> []"
  by (cases v) (auto simp: py_str_def int_repr_number)

lemma first_true_last: "truthy v \<Longrightarrow> truthy (first_true (us @ [v]))"
  by (induction us rule: first_true.induct) auto

lemma any_field_last: "truthy v \<Longrightarrow> truthy (any_field d ks [v])"
  by (simp add: any_field_def first_true_last)

lemma safe_str_text: "numerals_ok v \<Longrightarrow> truthy v \<Longrightarrow> safe_str v \<noteq> []"
  by (auto simp: safe_str_def py_str_text)

lemma dicts_of_ok: "list_all numerals_ok vs \<Longrightarrow> d \<in> set (dicts_of vs) \<Longrightarrow> record_ok d"
  by (induction vs rule: dicts_of.induct) auto

lemma objects_in_ok: "numerals_ok v \<Longrightarrow> d \<in> set (objects_in v) \<Longrightarrow> record_ok d"
  by (cases v) (auto dest: dicts_of_ok)

lemma list_or_empty_ok [simp]: "numerals_ok v \<Longrightarrow> list_all numerals_ok (list_or_empty v)"
  by (cases v) auto

lemma dict_or_empty_ok: "numerals_ok v \<Longrightarrow> record_ok (dict_or_empty v)"
  by (cases v) auto

definition readable :: "json_loads \<Rightarrow> bool" where
  "readable loads \<longleftrightarrow> (\<forall>s v. loads s = Inr v \<longrightarrow> numerals_ok v)"

lemma readable_objects: "readable loads \<Longrightarrow> loads s = Inr v \<Longrightarrow> d \<in> set (objects_in v) \<Longrightarrow> record_ok d"
  by (rule objects_in_ok) (simp_all add: readable_def del: numerals_ok.simps)

lemma load_whole_ok: "readable loads \<Longrightarrow> d \<in> set (load_whole loads s) \<Longrightarrow> record_ok d"
  by (cases "loads s") (simp_all add: load_whole_def readable_objects del: numerals_ok.simps)

lemma load_lines_ok: "readable loads \<Longrightarrow> load_lines loads ls = Some ds \<Longrightarrow> d \<in> set ds \<Longrightarrow> record_ok d"
proof (induction ls arbitrary: ds)
  case (Cons l ls)
  show ?case
  proof (cases "py_strip l = []")
    case False
    with Cons.prems(2) obtain v rs where v: "loads (py_strip l) = Inr v" "load_lines loads ls = Some rs" "ds = objects_in v @ rs"
      by (auto simp: Let_def split: sum.splits)
    with Cons.prems(3) show ?thesis
      using Cons.IH [OF Cons.prems(1) v(2)] readable_objects [OF Cons.prems(1) v(1)] by (auto simp del: numerals_ok.simps)
  qed (use Cons in \<open>simp add: Let_def del: numerals_ok.simps\<close>)
qed simp

lemma safe_jsonl_ok: "readable loads \<Longrightarrow> d \<in> set (safe_jsonl_load loads out) \<Longrightarrow> record_ok d"
proof (cases "load_lines loads (py_splitlines out)")
  case (Some rs)
  assume "readable loads" "d \<in> set (safe_jsonl_load loads out)"
  with Some show ?thesis
    using load_lines_ok [of loads "py_splitlines out" rs d] load_whole_ok [of loads d out]
    by (cases rs) (auto simp: safe_jsonl_load_def simp del: numerals_ok.simps split: if_splits)
qed (simp add: safe_jsonl_load_def split: if_splits)

lemma load_tolerant_ok: "readable loads \<Longrightarrow> d \<in> set (load_tolerant loads ls) \<Longrightarrow> record_ok d"
  by (induction ls) (auto simp: Let_def simp del: numerals_ok.simps split: sum.splits if_splits dest: readable_objects)

lemma load_json_records_ok: "readable loads \<Longrightarrow> d \<in> set (load_json_records loads out) \<Longrightarrow> record_ok d"
  using load_tolerant_ok [of loads d "py_splitlines (py_strip out)"] load_whole_ok [of loads d "py_strip out"]
  by (cases "load_tolerant loads (py_splitlines (py_strip out))")
    (auto simp: load_json_records_def Let_def simp del: numerals_ok.simps split: if_splits)

lemma load_object_ok: "readable loads \<Longrightarrow> load_object loads out = Some d \<Longrightarrow> record_ok d"
  using readable_objects [of loads out "VDict d" d]
  by (auto simp: load_object_def simp del: numerals_ok.simps split: if_splits sum.splits pyval.splits)

lemma load_records_ok: "readable loads \<Longrightarrow> d \<in> set (load_records loads out) \<Longrightarrow> record_ok d"
  by (auto simp: load_records_def simp del: numerals_ok.simps split: if_splits dest: load_whole_ok)

section \<open>Values of the right kinds\<close>

text \<open>A value that can be an element of a set, and one that a \<^verbatim>\<open>for\<close> statement can visit when it is not empty.\<close>

definition hashable :: "pyval \<Rightarrow> bool" where
  "hashable v \<longleftrightarrow> hashed v = Inr v"

definition walkable :: "pyval \<Rightarrow> bool" where
  "walkable v \<longleftrightarrow> \<not> truthy v \<or> (\<exists>vs. elements_of v = Inr vs)"

lemma hashable_iff: "hashable v \<longleftrightarrow> (case v of VList _ \<Rightarrow> False | VDict _ \<Rightarrow> False | _ \<Rightarrow> True)"
  by (cases v) (simp_all add: hashable_def)

lemma walkable_iff: "walkable v \<longleftrightarrow> \<not> truthy v \<or> (case v of VList _ \<Rightarrow> True | VDict _ \<Rightarrow> True | VStr _ \<Rightarrow> True | _ \<Rightarrow> False)"
  by (cases v) (simp_all add: walkable_def)

text \<open>A count of flagged items that is no infinity.\<close>

definition finite_count :: "pydict \<Rightarrow> bool" where
  "finite_count d \<longleftrightarrow> get_field d ''flagged_items'' \<notin> {VFloat ''inf'', VFloat ''-inf''}"

lemma hashed_error: "hashed v = Inl e \<Longrightarrow> \<not> hashable v"
  by (simp add: hashable_def)

lemma map_tags_error: "map_tags table v = Inl e \<Longrightarrow> \<not> walkable v"
  by (cases v) (auto simp: map_tags_def Let_def walkable_def split: if_splits)

lemma extract_cve_error: "extract_cve v = Inl e \<Longrightarrow> \<not> walkable v"
  by (cases v) (auto simp: extract_cve_def walkable_def split: if_splits)

lemma value_key_Inl: "value_key v = Inl e \<Longrightarrow> \<not> hashable v"
  by (cases v) (auto simp: value_key_def hashable_def split: if_splits)

lemma flagged_count_error: "flagged_count num d = Inl e \<Longrightarrow> \<not> finite_count d"
  by (auto simp: flagged_count_def finite_count_def get_field_def opt_val_def int_of_numeral_def
      split: option.splits sum.splits pyval.splits exn.splits if_splits elim!: int_of_value.elims)

lemma value_key_Some: "value_key v = Inr (Some k) \<Longrightarrow> truthy v"
  by (auto simp: value_key_def split: if_splits)

text \<open>An observation with texts in its required fields is valid.\<close>

lemma observation_error:
  "Observation_check x = Inl e \<Longrightarrow> ob_external_id x \<noteq> [] \<Longrightarrow> ob_rule_version x \<noteq> [] \<Longrightarrow> 0 \<le> ob_confidence x \<Longrightarrow> ob_confidence x \<le> 1 \<Longrightarrow>
     ob_asset_identity x = [] \<or> ob_rule_id x = [] \<or> ob_title x = []"
  by (auto simp: Observation_check_def split: if_splits)

declare numerals_ok.simps(3) [simp del]

lemma sweep_returns:
  assumes "\<And>r n e. r \<in> set rs \<Longrightarrow> key r n \<noteq> Inl e"
    and "\<And>r n k e. r \<in> set rs \<Longrightarrow> key r n = Inr (Some k) \<Longrightarrow> build r n \<noteq> Inl e"
  shows "\<exists>obs. sweep every key build i seen rs = Inr obs"
  using sweep_raised [of every key build i seen rs] assms by (cases "sweep every key build i seen rs") blast+

lemmas error_simps = info_observation_def Let_def bind_res_Inl_iff bind_res_Inr_iff
lemmas error_dests = observation_error map_tags_error extract_cve_error

lemma subfinder_error: "record_ok r \<Longrightarrow> subfinder_key r n = Inr (Some k) \<Longrightarrow> subfinder_build src r n = Inl e \<Longrightarrow> False"
  using py_str_text [of "any_field r [''host'', ''domain''] []"]
  by (auto simp: subfinder_key_def subfinder_build_def error_simps dest!: error_dests value_key_Some)

lemma httpx_error: "record_ok r \<Longrightarrow> httpx_key r n = Inr (Some k) \<Longrightarrow> httpx_build src r n = Inl e \<Longrightarrow> False"
  using py_str_text [of "any_field r [''url'', ''input''] []"]
  by (auto simp: httpx_key_def httpx_build_def error_simps dest!: error_dests value_key_Some)

lemma naabu_error: "naabu_build src r n = Inl e \<Longrightarrow> False"
  by (auto simp: naabu_build_def error_simps dest!: error_dests)

lemma katana_url_ok [simp]:
  assumes r: "record_ok r"
  shows "numerals_ok (katana_url r)"
proof -
  have "numerals_ok (get_field r ''request'')" using r by simp
  then show ?thesis using r by (cases "get_field r ''request''") (simp_all add: katana_url_def)
qed

lemma katana_error: "record_ok r \<Longrightarrow> katana_key r n = Inr (Some k) \<Longrightarrow> katana_build src r n = Inl e \<Longrightarrow> False"
  using py_str_text [of "katana_url r"]
  by (auto simp: katana_key_def katana_build_def error_simps dest!: error_dests value_key_Some)

lemma info_ok [simp]: "record_ok r \<Longrightarrow> record_ok (info_of r)"
  by (simp add: info_of_def dict_or_empty_ok)

lemma template_id_text: "record_ok r \<Longrightarrow> py_str (template_id r n) \<noteq> []"
proof -
  assume r: "record_ok r"
  have "truthy (template_id r n)"
    using first_true_last [of "VStr (''unknown-'' @ nat_repr n)" "map (get_field r) [''template-id'', ''templateID'', ''template_id''] @ [get_field (info_of r) ''name'']"]
    by (simp add: template_id_def any_field_def)
  with r show ?thesis by (intro py_str_text) (auto simp: template_id_def)
qed

lemma template_title_text: "record_ok r \<Longrightarrow> template_title r (template_id r n) \<noteq> []"
  using template_id_text [of r n] py_str_text [of "get_field (info_of r) ''name''"] by (auto simp: template_title_def)

lemma nuclei_error:
  assumes r: "record_ok r" and key: "nuclei_key r n = Inr (Some k)" and e: "nuclei_build src r m = Inl e"
  shows "\<not> (walkable (template_tags r) \<and> walkable (template_reference r))"
proof (cases "map_tags NUCLEI_TAGS (template_tags r)")
  case (Inl e')
  with e show ?thesis by (auto simp: nuclei_build_def Let_def dest: map_tags_error)
next
  case tags: (Inr weak)
  show ?thesis
  proof (cases "extract_cve (template_reference r)")
    case (Inl e')
    with e tags show ?thesis by (cases weak) (auto simp: nuclei_build_def Let_def dest: extract_cve_error)
  next
    case (Inr cves)
    have "truthy (nuclei_host r)" using key by (simp add: nuclei_key_def Let_def split: if_splits)
    moreover have "numerals_ok (nuclei_host r)" using r by (simp add: nuclei_host_def)
    ultimately have host: "py_str (nuclei_host r) \<noteq> []" by (rule py_str_text [rotated])
    define own where "own = (case template_id r m of VStr t \<Rightarrow> extract_cve (VList [VStr t]) | _ \<Rightarrow> Inr [])"
    have "\<exists>c. own = Inr c" by (cases "template_id r m") (simp_all add: own_def extract_cve_def)
    then obtain c where "own = Inr c" ..
    with e tags Inr host template_id_text [OF r, of m] template_title_text [OF r, of m] show ?thesis
      by (cases weak) (auto simp: nuclei_build_def Let_def own_def [symmetric] dest!: observation_error split: if_splits)
  qed
qed

lemma dalfox_asset_ok [simp]: "record_ok r \<Longrightarrow> numerals_ok (dalfox_asset r)"
  by (cases "get_field r ''param''") (simp_all add: dalfox_asset_def Let_def)

lemma dalfox_error: "record_ok r \<Longrightarrow> dalfox_key r n = Inr (Some k) \<Longrightarrow> dalfox_build src r n = Inl e \<Longrightarrow> False"
  using py_str_text [of "dalfox_asset r"]
  by (auto simp: dalfox_key_def dalfox_build_def error_simps dest!: error_dests value_key_Some)

lemma schemathesis_error: "schemathesis_build src r n = Inl e \<Longrightarrow> False"
  by (auto simp: schemathesis_build_def error_simps dest!: error_dests)

lemma restler_error: "record_ok r \<Longrightarrow> restler_key r n = Inr (Some k) \<Longrightarrow> restler_build src r n = Inl e \<Longrightarrow> False"
  using py_str_text [of "bug_endpoint r"]
  by (auto simp: restler_key_def bug_endpoint_def restler_build_def error_simps dest!: error_dests split: if_splits)

lemma nmap_error: "nmap_key x n = Inr (Some k) \<Longrightarrow> nmap_build src x m = Inl e \<Longrightarrow> False"
  by (cases x) (auto simp: nmap_key_def nmap_build_def error_simps dest!: error_dests split: if_splits option.splits)

lemma first_true_or_last: "truthy (first_true (us @ [v])) \<or> first_true (us @ [v]) = v"
  by (induction us rule: first_true.induct) auto

lemma any_field_or_last: "truthy (any_field d ks [v]) \<or> any_field d ks [v] = v"
  using first_true_or_last by (simp add: any_field_def)

lemma trivy_cwes_error: "trivy_cwes v = Inl e \<Longrightarrow> \<not> walkable (any_field v [''CweIDs'', ''cwe_ids''] [VList []])"
  using any_field_or_last [of v "[''CweIDs'', ''cwe_ids'']" "VList []"]
  by (cases "any_field v [''CweIDs'', ''cwe_ids''] [VList []]") (auto simp: trivy_cwes_def walkable_def)

lemma trivy_error: "record_ok (snd (snd x)) \<Longrightarrow> trivy_key x n = Inr (Some k) \<Longrightarrow> trivy_build src x m = Inl e \<Longrightarrow> \<not> walkable (any_field (snd (snd x)) [''CweIDs'', ''cwe_ids''] [VList []])"
  using safe_str_text [of "any_field (snd (snd x)) [''Title'', ''title''] [VStr (trivy_vid (snd (snd x)))]"]
    any_field_last [of "VStr (trivy_vid (snd (snd x)))" "snd (snd x)" "[''Title'', ''title'']"]
  by (cases x) (auto simp: trivy_key_def trivy_asset_def trivy_build_def error_simps dest!: error_dests trivy_cwes_error split: if_splits)

lemma prowler_error: "record_ok r \<Longrightarrow> prowler_key r n = Inr (Some k) \<Longrightarrow> prowler_build src r m = Inl e \<Longrightarrow> False"
  using safe_str_text [of "any_field r [''CheckTitle'', ''check_title''] [VStr (prowler_check r)]"]
    any_field_last [of "VStr (prowler_check r)" r "[''CheckTitle'', ''check_title'']"]
  by (auto simp: prowler_key_def prowler_asset_def prowler_build_def error_simps dest!: error_dests split: if_splits)

lemma kube_bench_error: "record_ok (snd (snd x)) \<Longrightarrow> kube_bench_key x n = Inr (Some k) \<Longrightarrow> kube_bench_build src x m = Inl e \<Longrightarrow> False"
  using safe_str_text [of "any_field (snd (snd x)) [''test_desc'', ''text''] [VStr (test_number (snd (snd x)))]"]
    any_field_last [of "VStr (test_number (snd (snd x)))" "snd (snd x)" "[''test_desc'', ''text'']"]
  by (cases x) (auto simp: kube_bench_key_def bench_asset_def kube_bench_build_def error_simps dest!: error_dests split: if_splits)

lemma checkov_error: "record_ok r \<Longrightarrow> checkov_key r n = Inr (Some k) \<Longrightarrow> checkov_build src r m = Inl e \<Longrightarrow> \<not> walkable (any_field r [''guideline'', ''references''] [])"
  using safe_str_text [of "any_field r [''check_name'', ''check_title''] [VStr (checkov_id r)]"]
    any_field_last [of "VStr (checkov_id r)" r "[''check_name'', ''check_title'']"]
  by (auto simp: checkov_key_def checkov_asset_def checkov_build_def error_simps dest!: error_dests split: if_splits)

text \<open>A finding with an empty key is the one thing that makes an invalid observation.\<close>

lemma scoutsuite_error:
  "record_ok (snd (snd (snd x))) \<Longrightarrow> fst (snd (snd x)) \<noteq> [] \<Longrightarrow> scoutsuite_build src x m = Inl e \<Longrightarrow> False"
  using safe_str_text [of "any_field (snd (snd (snd x))) [''description''] [VStr (fst (snd (snd x)))]"]
    any_field_last [of "VStr (fst (snd (snd x)))" "snd (snd (snd x))" "[''description'']"]
  by (cases x) (auto simp: scoutsuite_build_def error_simps dest!: error_dests)

lemma listed_ok: "record_ok d \<Longrightarrow> q \<in> set (dicts_of (list_or_empty (get_field d k))) \<Longrightarrow> record_ok q"
  by (rule dicts_of_ok [OF list_or_empty_ok]) simp_all

lemma load_bugs_ok: "readable loads \<Longrightarrow> d \<in> set (load_bugs loads out) \<Longrightarrow> record_ok d"
proof -
  assume loads: "readable loads" and d: "d \<in> set (load_bugs loads out)"
  have flat: "record_ok q" if q: "q \<in> set (flatten_bugs rs)" and ok: "\<forall>r \<in> set rs. record_ok r" for q rs
  proof -
    obtain r where r: "r \<in> set rs" "q \<in> set (case get_field r ''bugs'' of VList vs \<Rightarrow> dicts_of vs | _ \<Rightarrow> [r])"
      using q by (auto simp: flatten_bugs_def)
    then have "q \<in> set (dicts_of (list_or_empty (get_field r ''bugs''))) \<or> q = r" by (cases "get_field r ''bugs''") auto
    with r(1) ok listed_ok [of r q "''bugs''"] show ?thesis by auto
  qed
  show ?thesis
  proof (cases "load_lines loads (py_splitlines (py_strip out))")
    case (Some rs)
    have whole: "\<forall>r \<in> set (load_whole loads (py_strip out)). record_ok r" using load_whole_ok [OF loads] by blast
    have each: "\<forall>r \<in> set rs. record_ok r" using load_lines_ok [OF loads Some] by blast
    show ?thesis
    proof (cases rs)
      case Nil
      with Some d have "d \<in> set (flatten_bugs (load_whole loads (py_strip out)))" by (simp add: load_bugs_def Let_def split: if_splits)
      then show ?thesis using whole by (rule flat)
    next
      case (Cons r rest)
      with Some d have "d \<in> set (flatten_bugs rs)" by (simp add: load_bugs_def Let_def split: if_splits)
      then show ?thesis using each by (rule flat)
    qed
  qed (use d in \<open>simp add: load_bugs_def Let_def split: if_splits\<close>)
qed

lemma trivy_items_ok: "record_ok d \<Longrightarrow> x \<in> set (trivy_items d) \<Longrightarrow> record_ok (snd (snd x))"
proof -
  assume d: "record_ok d" and x: "x \<in> set (trivy_items d)"
  obtain result where result: "result \<in> set (dicts_of (list_or_empty (get_field d ''Results'')))"
    and v: "snd (snd x) \<in> set (dicts_of (list_or_empty (any_field result [''Vulnerabilities'', ''vulnerabilities''] [])))"
    using x by (auto simp: trivy_items_def Let_def)
  have "record_ok result" using d result by (rule listed_ok)
  then show ?thesis by (intro dicts_of_ok [OF list_or_empty_ok v]) simp
qed

lemma bench_items_ok: "record_ok d \<Longrightarrow> x \<in> set (bench_items d) \<Longrightarrow> record_ok (snd (snd x))"
proof -
  assume d: "record_ok d" and x: "x \<in> set (bench_items d)"
  obtain group where group: "group \<in> set (dicts_of (list_or_empty (get_field d ''tests'')))"
    and v: "snd (snd x) \<in> set (case get_field group ''results'' of VList vs \<Rightarrow> dicts_of vs | _ \<Rightarrow> if test_number group \<noteq> [] then [group] else [])"
    using x by (auto simp: bench_items_def Let_def)
  have g: "record_ok group" using d group by (rule listed_ok)
  have "snd (snd x) \<in> set (dicts_of (list_or_empty (get_field group ''results''))) \<or> snd (snd x) = group"
    using v by (cases "get_field group ''results''") (auto split: if_splits)
  with g listed_ok [OF g] show ?thesis by auto
qed

lemma checkov_checks_ok: "readable loads \<Longrightarrow> d \<in> set (checkov_checks loads out) \<Longrightarrow> record_ok d"
proof -
  assume loads: "readable loads" and d: "d \<in> set (checkov_checks loads out)"
  obtain block where "block \<in> set (load_whole loads out)"
    and v: "d \<in> set (dicts_of (list_or_empty (get_field (dict_or_empty (get_field block ''results'')) ''failed_checks'')))"
    using d by (auto simp: checkov_checks_def split: if_splits)
  then have "record_ok block" using load_whole_ok [OF loads] by blast
  then have "record_ok (dict_or_empty (get_field block ''results''))" by (simp add: dict_or_empty_ok)
  from listed_ok [OF this v] show ?thesis .
qed

lemma named_dicts_ok: "record_ok d \<Longrightarrow> (k, q) \<in> set (named_dicts d) \<Longrightarrow> record_ok q"
  by (induction d rule: named_dicts.induct) (auto simp: numerals_ok.simps)

lemma scout_items_ok: "record_ok d \<Longrightarrow> x \<in> set (scout_items d) \<Longrightarrow> record_ok (snd (snd (snd x)))"
proof -
  assume d: "record_ok d" and x: "x \<in> set (scout_items d)"
  obtain service obj where obj: "(service, obj) \<in> set (named_dicts (dict_or_empty (get_field d ''services'')))"
    and v: "(fst (snd (snd x)), snd (snd (snd x))) \<in> set (named_dicts (dict_or_empty (get_field obj ''findings'')))"
    using x by (auto simp: scout_items_def Let_def)
  have "record_ok obj" by (rule named_dicts_ok [OF _ obj]) (simp add: d dict_or_empty_ok)
  then show ?thesis by (intro named_dicts_ok [OF _ v]) (simp add: dict_or_empty_ok)
qed

section \<open>Reports that fit\<close>

text \<open>What each tool must write into the fields its parser takes apart; nothing is asked of the others.\<close>

definition report_fits :: "report_readers \<Rightarrow> string \<Rightarrow> string \<Rightarrow> bool" where
  "report_fits R key out \<longleftrightarrow>
     (let loads = rr_loads R; lines = set (safe_jsonl_load loads out) in
      (key = ''subfinder'' \<longrightarrow> (\<forall>r \<in> lines. hashable (any_field r [''host'', ''domain''] []))) \<and>
      (key = ''httpx'' \<longrightarrow> (\<forall>r \<in> lines. hashable (any_field r [''url'', ''input''] []))) \<and>
      (key = ''katana'' \<longrightarrow> (\<forall>r \<in> lines. hashable (katana_url r))) \<and>
      (key = ''nuclei'' \<longrightarrow> (\<forall>r \<in> lines. walkable (template_tags r) \<and> walkable (template_reference r))) \<and>
      (key = ''dalfox'' \<longrightarrow> (\<forall>r \<in> set (load_json_records loads out). hashable (dalfox_asset r))) \<and>
      (key = ''schemathesis'' \<longrightarrow> (\<forall>r \<in> set (load_results loads out). hashable (fuzz_method r) \<and> hashable (fuzz_path r))) \<and>
      (key = ''trivy'' \<longrightarrow> (\<forall>d. load_object loads out = Some d \<longrightarrow>
        (\<forall>x \<in> set (trivy_items d). walkable (any_field (snd (snd x)) [''CweIDs'', ''cwe_ids''] [VList []])))) \<and>
      (key = ''checkov'' \<longrightarrow> (\<forall>r \<in> set (checkov_checks loads out). walkable (any_field r [''guideline'', ''references''] []))) \<and>
      (key = ''scoutsuite'' \<longrightarrow> (\<forall>d. load_object loads out = Some d \<longrightarrow>
        (\<forall>x \<in> set (scout_items d). fst (snd (snd x)) \<noteq> [] \<and> finite_count (snd (snd (snd x)))))))"

text \<open>The records of each parser, and none that raises.\<close>

lemma nuclei_returns:
  assumes "readable loads" "\<forall>r \<in> set (safe_jsonl_load loads out). walkable (template_tags r) \<and> walkable (template_reference r)"
  shows "\<exists>obs. parse_nuclei loads out src = Inr obs"
  unfolding parse_nuclei_def
  by (rule sweep_returns) (simp add: nuclei_key_def Let_def, meson assms nuclei_error safe_jsonl_ok)

lemma subfinder_returns:
  assumes "readable loads" "\<forall>r \<in> set (safe_jsonl_load loads out). hashable (any_field r [''host'', ''domain''] [])"
  shows "\<exists>obs. parse_subfinder loads out src = Inr obs"
  unfolding parse_subfinder_def
  by (rule sweep_returns) (metis assms(2) subfinder_key_def value_key_Inl, meson assms(1) subfinder_error safe_jsonl_ok)

lemma httpx_returns:
  assumes "readable loads" "\<forall>r \<in> set (safe_jsonl_load loads out). hashable (any_field r [''url'', ''input''] [])"
  shows "\<exists>obs. parse_httpx loads out src = Inr obs"
  unfolding parse_httpx_def
  by (rule sweep_returns) (metis assms(2) httpx_key_def value_key_Inl, meson assms(1) httpx_error safe_jsonl_ok)

lemma naabu_returns: "\<exists>obs. parse_naabu loads out src = Inr obs"
  unfolding parse_naabu_def by (rule sweep_returns) (simp add: naabu_key_def Let_def, meson naabu_error)

lemma katana_returns:
  assumes "readable loads" "\<forall>r \<in> set (safe_jsonl_load loads out). hashable (katana_url r)"
  shows "\<exists>obs. parse_katana loads out src = Inr obs"
  unfolding parse_katana_def
  by (rule sweep_returns) (metis assms(2) katana_key_def value_key_Inl, meson assms(1) katana_error safe_jsonl_ok)

lemma dalfox_returns:
  assumes "readable loads" "\<forall>r \<in> set (load_json_records loads out). hashable (dalfox_asset r)"
  shows "\<exists>obs. parse_dalfox loads out src = Inr obs"
  unfolding parse_dalfox_def
  by (rule sweep_returns) (metis assms(2) dalfox_key_def value_key_Inl, meson assms(1) dalfox_error load_json_records_ok)

lemma schemathesis_returns:
  assumes "\<forall>r \<in> set (load_results loads out). hashable (fuzz_method r) \<and> hashable (fuzz_path r)"
  shows "\<exists>obs. parse_schemathesis loads out src = Inr obs"
  unfolding parse_schemathesis_def
  by (rule sweep_returns) (use assms in \<open>simp add: schemathesis_key_def hashable_def\<close>, meson schemathesis_error)

lemma restler_returns: "readable loads \<Longrightarrow> \<exists>obs. parse_restler loads out src = Inr obs"
  unfolding parse_restler_def
  by (rule sweep_returns) (simp add: restler_key_def, meson restler_error load_bugs_ok)

lemma nmap_returns: "\<exists>obs. parse_nmap read_xml out src = Inr obs"
proof (cases "read_xml out")
  case (Some doc)
  have "\<exists>obs. sweep False nmap_key (nmap_build src) 0 [] (nmap_ports doc) = Inr obs"
    by (rule sweep_returns) (simp add: nmap_key_def split: prod.splits, meson nmap_error)
  with Some show ?thesis by (simp add: parse_nmap_def)
qed (simp add: parse_nmap_def)

lemma trivy_returns:
  assumes "readable loads"
    and "\<forall>d. load_object loads out = Some d \<longrightarrow> (\<forall>x \<in> set (trivy_items d). walkable (any_field (snd (snd x)) [''CweIDs'', ''cwe_ids''] [VList []]))"
  shows "\<exists>obs. parse_trivy loads out src = Inr obs"
proof (cases "load_object loads out")
  case (Some d)
  have ok: "record_ok (snd (snd x))" if "x \<in> set (trivy_items d)" for x by (rule trivy_items_ok [OF load_object_ok [OF assms(1) Some] that])
  have "\<exists>obs. sweep False trivy_key (trivy_build src) 0 [] (trivy_items d) = Inr obs"
    by (rule sweep_returns) (simp add: trivy_key_def split: prod.splits, use ok trivy_error assms(2) Some in blast)
  with Some show ?thesis by (simp add: parse_trivy_def)
qed (simp add: parse_trivy_def)

lemma prowler_returns: "readable loads \<Longrightarrow> \<exists>obs. parse_prowler loads out src = Inr obs"
  unfolding parse_prowler_def
  by (rule sweep_returns) (simp add: prowler_key_def, meson prowler_error load_records_ok)

lemma kube_bench_returns:
  assumes "readable loads"
  shows "\<exists>obs. parse_kube_bench loads out src = Inr obs"
proof -
  have ok: "record_ok (snd (snd x))" if x: "x \<in> set (concat (map bench_items (load_records loads out)))" for x
  proof -
    obtain d where "d \<in> set (load_records loads out)" "x \<in> set (bench_items d)" using x by auto
    then show ?thesis using bench_items_ok [of d x] load_records_ok [OF assms, of d out] by blast
  qed
  show ?thesis
    unfolding parse_kube_bench_def
    by (rule sweep_returns) (simp add: kube_bench_key_def split: prod.splits, use ok kube_bench_error in blast)
qed

lemma checkov_returns:
  assumes "readable loads" "\<forall>r \<in> set (checkov_checks loads out). walkable (any_field r [''guideline'', ''references''] [])"
  shows "\<exists>obs. parse_checkov loads out src = Inr obs"
  unfolding parse_checkov_def
  by (rule sweep_returns) (simp add: checkov_key_def, meson assms checkov_error checkov_checks_ok)

lemma scoutsuite_returns:
  assumes "readable loads"
    and "\<forall>d. load_object loads out = Some d \<longrightarrow> (\<forall>x \<in> set (scout_items d). fst (snd (snd x)) \<noteq> [] \<and> finite_count (snd (snd (snd x))))"
  shows "\<exists>obs. parse_scoutsuite loads num out src = Inr obs"
proof (cases "load_object loads out")
  case (Some d)
  have ok: "record_ok (snd (snd (snd x)))" if "x \<in> set (scout_items d)" for x by (rule scout_items_ok [OF load_object_ok [OF assms(1) Some] that])
  have "scoutsuite_key num x n \<noteq> Inl e" if "x \<in> set (scout_items d)" for x n e
    using assms(2) Some that flagged_count_error by (cases x) (fastforce simp: scoutsuite_key_def bind_res_Inl_iff)
  moreover have "scoutsuite_build src x n \<noteq> Inl e" if "x \<in> set (scout_items d)" for x n e
    using scoutsuite_error [OF ok [OF that]] assms(2) Some that by blast
  ultimately have "\<exists>obs. sweep False (scoutsuite_key num) (scoutsuite_build src) 0 [] (scout_items d) = Inr obs"
    by (rule sweep_returns)
  with Some show ?thesis by (simp add: parse_scoutsuite_def)
qed (simp add: parse_scoutsuite_def)

text \<open>
  C15. Which reports are read. Of every registered tool: when \<^verbatim>\<open>json.loads\<close> decodes what the tool wrote or raises JSONDecodeError, and
  the fields the parser takes apart hold values of the right kinds (what becomes an element of a set is no list and no
  dictionary, what is visited by a loop is a text, a list, a dictionary or empty, a ScoutSuite finding has a key and a
  finite count), then the parser returns: no other field of any record, missing or of any type, and no text around the records raises,
  and no record makes an invalid observation. Nothing is asked of naabu, nmap, restler, prowler and kube-bench. (The numeral of a decoded
  float is never empty.)
\<close>

theorem fitting_reports_parse:
  assumes "\<forall>s v. rr_loads R s = Inr v \<longrightarrow> numerals_ok v" "key \<in> set PARSED_ADAPTERS" "report_fits R key out"
  shows "\<exists>obs. tool_parse R key out src = Inr obs"
proof -
  have loads: "readable (rr_loads R)" using assms(1) by (simp add: readable_def)
  have "report_fits R key out \<longrightarrow> (\<exists>obs. tool_parse R key out src = Inr obs)"
    using assms(2)
    by (rule each_parser; simp add: report_fits_def Let_def nuclei_returns subfinder_returns httpx_returns naabu_returns nmap_returns
        dalfox_returns katana_returns schemathesis_returns restler_returns trivy_returns prowler_returns kube_bench_returns checkov_returns
        scoutsuite_returns loads)
  with assms(3) show ?thesis by blast
qed

section \<open>What may be lost\<close>

text \<open>A result of nuclei with a template and a location is reported, from the first record of that template and location.\<close>

lemma nuclei_keeps_every_result:
  assumes "parse_nuclei loads out src = Inr obs" "r \<in> set (safe_jsonl_load loads out)" "\<forall>n. nuclei_key r n = Inr (Some k)"
  shows "\<exists>x \<in> set obs. \<exists>q \<in> set (safe_jsonl_load loads out). \<exists>n. nuclei_key q n = Inr (Some k) \<and> nuclei_build src q n = Inr x"
  using sweep_covers [OF assms(1) [unfolded parse_nuclei_def]] assms(2,3) by auto

text \<open>One line that is not JSON, such as a status line or a cut one, hides all other lines.\<close>

lemma garbled_line_hides_all:
  assumes "l \<in> set (py_splitlines out)" "py_strip l \<noteq> []" "loads (py_strip l) = Inl m"
  shows "safe_jsonl_load loads out = []"
proof -
  have "load_lines loads ls = None" if "l \<in> set ls" for ls
    using that assms(2,3) by (induction ls) (auto simp: Let_def split: sum.splits)
  then show ?thesis using assms(1) by (simp add: safe_jsonl_load_def)
qed

text \<open>Such a run passes for a clean scan when the tool exits with zero.\<close>

lemma garbled_report_passes_for_clean:
  assumes "l \<in> set (py_splitlines out)" "py_strip l \<noteq> []" "rr_loads R (py_strip l) = Inl m"
  shows "tool_parse R ''nuclei'' out src = Inr []" "tool_parse R ''httpx'' out src = Inr []" "tool_parse R ''naabu'' out src = Inr []"
  by (simp_all add: parse_nuclei_def parse_httpx_def parse_naabu_def garbled_line_hides_all [where loads = "rr_loads R", OF assms])

definition sample_source :: adapter_source where
  "sample_source = \<lparr>as_name = ''t'', as_version = ''1.0.0'', as_template_version = ''1.0.0''\<rparr>"

definition one_document :: "pyval \<Rightarrow> json_loads" where
  "one_document v s = Inr v"

text \<open>Of two failed checks of one resource, checkov's parser reports the first only.\<close>

lemma second_check_on_resource_lost:
  "(case parse_checkov (one_document (VDict [(''results'', VDict [(''failed_checks'', VList
       [VDict [(''check_id'', VStr ''CKV_AWS_18''), (''file_path'', VStr ''/main.tf''), (''resource'', VStr ''aws_s3_bucket.b'')],
        VDict [(''check_id'', VStr ''CKV_AWS_20''), (''file_path'', VStr ''/main.tf''), (''resource'', VStr ''aws_s3_bucket.b'')]])])])) ''x'' sample_source of
      Inr obs \<Rightarrow> map ob_rule_id obs | Inl _ \<Rightarrow> []) = [''CKV_AWS_18'']"
  by code_simp

text \<open>Of two templates that match one host, the network parser reports the first only; the web parser keeps both.\<close>

definition two_templates :: pyval where
  "two_templates = VList
     [VDict [(''template-id'', VStr ''weak-cipher''), (''matched-at'', VStr ''10.0.0.1:443''), (''reference'', VList [VStr ''cve-2016-2183''])],
      VDict [(''template-id'', VStr ''heartbleed''), (''matched-at'', VStr ''10.0.0.1:443'')]]"

lemma second_template_on_host_lost:
  "(case parse_nuclei_tcp (one_document two_templates) ''x'' sample_source of Inr obs \<Rightarrow> map ob_rule_id obs | Inl _ \<Rightarrow> []) = [''weak-cipher'']"
  "(case parse_nuclei (one_document two_templates) ''x'' sample_source of Inr obs \<Rightarrow> map (\<lambda>x. (ob_rule_id x, ob_cve x)) obs | Inl _ \<Rightarrow> []) =
     [(''weak-cipher'', [''CVE-2016-2183'']), (''heartbleed'', [])]"
  by code_simp+

text \<open>A list where a URL is expected raises, and the step runner does not handle it.\<close>

lemma list_url_aborts_step:
  "parse_httpx (one_document (VDict [(''url'', VList [VStr ''http://a/''])])) ''x'' sample_source = Inl (TypeError ''unhashable type: list'')"
  "scan_failure txt key (TypeError m) = OtherExn (TypeError m)"
  by code_simp simp

text \<open>An infinite count of flagged items raises as well.\<close>

lemma infinite_count_raises:
  "parse_scoutsuite (one_document (VDict [(''services'', VDict [(''s3'', VDict [(''findings'', VDict [(''k'',
     VDict [(''flagged_items'', VFloat ''inf'')])])])])])) (\<lambda>_. 0) ''x'' sample_source =
   Inl (OverflowError ''cannot convert float infinity to integer'')"
  by code_simp

text \<open>A \<^verbatim>\<open>fingerprints\<close> field that is a text is read character by character.\<close>

lemma fingerprint_read_by_character:
  "(case parse_fingerprinthub (one_document (VDict [(''url'', VStr ''u''), (''fingerprints'', VStr ''git'')])) ''x'' sample_source of
      Inr obs \<Rightarrow> map ob_title obs | Inl _ \<Rightarrow> []) = [''fingerprint: g on u'', ''fingerprint: i on u'', ''fingerprint: t on u'']"
  by code_simp

text \<open>A host with an IPv6 address only is left out.\<close>

lemma ipv6_host_left_out:
  "parse_nmap (\<lambda>_. Some (Element ''nmaprun'' [] [Element ''host'' [] [Element ''address'' [(''addr'', ''fe80::1''), (''addrtype'', ''ipv6'')] [],
     Element ''ports'' [] [Element ''port'' [(''portid'', ''22'')] [Element ''state'' [(''state'', ''open'')] []]]]])) ''x'' sample_source = Inr []"
  by code_simp

lemma empty_scout_key_raises:
  "parse_scoutsuite (one_document (VDict [(''services'', VDict [(''s3'', VDict [(''findings'', VDict [([], VDict [(''flagged_items'', VInt 1)])])])])]))
     (\<lambda>_. 0) ''x'' sample_source = Inl (DomainValidationError ''Observation.rule_id must be non-empty'')"
  by code_simp

section \<open>Manifests\<close>

definition TOOL_MANIFESTS :: "(string \<Rightarrow> string) \<Rightarrow> adapter_manifest result list" where
  "TOOL_MANIFESTS sha =
     [manifest_nuclei sha, manifest_subfinder sha, manifest_httpx sha, manifest_naabu sha, manifest_nmap sha, manifest_dalfox sha,
      manifest_katana sha, manifest_schemathesis sha, manifest_restler sha, manifest_trivy sha, manifest_prowler sha, manifest_kube_bench sha,
      manifest_checkov sha, manifest_scoutsuite sha, manifest_fingerprinthub sha, manifest_nuclei_tcp sha, manifest_zap sha]"

lemmas manifest_defs = manifest_nuclei_def manifest_subfinder_def manifest_httpx_def manifest_naabu_def manifest_nmap_def manifest_dalfox_def
  manifest_katana_def manifest_schemathesis_def manifest_restler_def manifest_trivy_def manifest_prowler_def manifest_kube_bench_def
  manifest_checkov_def manifest_scoutsuite_def manifest_fingerprinthub_def manifest_nuclei_tcp_def manifest_zap_def

text \<open>Every manifest can be built; none is destructive, all stay inside the egress of the scope, and the GPL tools run as processes of their own.\<close>

definition well_declared :: "adapter_manifest result \<Rightarrow> bool" where
  "well_declared r \<longleftrightarrow> (\<exists>m. r = Inr m \<and> mf_risk_class m \<in> {PASSIVE, risk_class.LOW, ACTIVE} \<and> mf_network_policy m = ''scoped-egress'' \<and>
     (mf_license m = ''GPL-2.0-or-later'' \<longrightarrow> ''independent_process'' \<in> set (mf_permissions m)))"

lemma tool_manifest_well_declared:
  assumes "key \<noteq> []" "lic \<noteq> []" "upname \<noteq> []" "ver \<noteq> []" "level \<in> {PASSIVE, risk_class.LOW, ACTIVE}"
    and "lic = ''GPL-2.0-or-later'' \<longrightarrow> ''independent_process'' \<in> set permissions"
  shows "well_declared (tool_manifest sha key lic upname url ver placeholder level covered ext fixture permissions)"
  using assms by (auto simp: well_declared_def tool_manifest_def AdapterUpstream_check_def AdapterManifest_check_def)

lemma manifests_well_declared: "list_all well_declared (TOOL_MANIFESTS sha)"
  by (simp add: TOOL_MANIFESTS_def manifest_defs tool_manifest_well_declared)

section \<open>Witnesses\<close>

definition sample_readers :: report_readers where
  "sample_readers = \<lparr>rr_loads = (\<lambda>s. if s = ''r'' then Inr two_templates else Inl ''Expecting value''), rr_xml = (\<lambda>_. None), rr_num = (\<lambda>_. 0)\<rparr>"

lemma sample_tool_report: "\<exists>obs. tool_parse sample_readers ''nuclei'' ''r'' sample_source = Inr obs \<and> length obs = 2"
proof -
  have "(case tool_parse sample_readers ''nuclei'' ''r'' sample_source of Inr obs \<Rightarrow> length obs = 2 | Inl _ \<Rightarrow> False)" by code_simp
  then show ?thesis by (auto split: sum.splits)
qed

theorem reports_well_formed_witness:
  "\<exists>obs. tool_parse sample_readers ''nuclei'' ''r'' sample_source = Inr obs \<and> length obs = 2 \<and> distinct (map ob_external_id obs)"
proof -
  obtain obs where obs: "tool_parse sample_readers ''nuclei'' ''r'' sample_source = Inr obs" "length obs = 2" using sample_tool_report by blast
  have "''nuclei'' \<in> set PARSED_ADAPTERS" by (simp add: PARSED_ADAPTERS_def)
  from reports_well_formed [OF obs(1) this] obs show ?thesis by blast
qed

theorem fitting_reports_parse_witness:
  "\<exists>obs. tool_parse sample_readers ''nuclei'' ''r'' sample_source = Inr obs"
proof (rule fitting_reports_parse)
  show "\<forall>s v. rr_loads sample_readers s = Inr v \<longrightarrow> numerals_ok v"
    by (auto simp: sample_readers_def two_templates_def numerals_ok.simps)
  show "''nuclei'' \<in> set PARSED_ADAPTERS" by (simp add: PARSED_ADAPTERS_def)
  have "list_all (\<lambda>r. walkable (template_tags r) \<and> walkable (template_reference r)) (safe_jsonl_load (rr_loads sample_readers) ''r'')"
    unfolding walkable_iff by code_simp
  then show "report_fits sample_readers ''nuclei'' ''r''" by (simp add: report_fits_def Let_def list_all_iff)
qed

end
