(* ===== verification/App_Enrichment.thy ===== *)
theory App_Enrichment
  imports Tool_Parsers App_Model_Safety
begin

text \<open>
  The import of an application model over HTTP (\<^verbatim>\<open>interfaces/api/routers/appmodels.py\<close>): the draft of an importer, to which a language
  model may propose states and invariants. The gateway (\<^verbatim>\<open>application/remote_model.py\<close>) and \<^verbatim>\<open>json.loads\<close> are parameters: the gateway
  answers with a text, or with nothing where the call raised a DomainError or a ValueError.
\<close>

section \<open>Proposals\<close>

definition enrichment_prompt :: "app_model \<Rightarrow> string" where
  "enrichment_prompt draft =
     ''You assist a security engineer modeling an application. From these API '' @
     ''endpoints, propose business states and invariants. Reply ONLY with JSON '' @
     [CHR ''{'', CHR 0x22] @ ''states'' @ [CHR 0x22] @ '': ['' @ [CHR 0x22] @ ''...'' @ [CHR 0x22] @ ''], '' @ [CHR 0x22] @ ''invariants'' @ [CHR 0x22] @
     '': [{'' @ [CHR 0x22] @ ''id'' @ [CHR 0x22] @ '': '' @ [CHR 0x22] @ ''...'' @ [CHR 0x22] @ '', '' @ [CHR 0x22] @ ''expr'' @ [CHR 0x22] @ '': '' @
     [CHR 0x22] @ ''...'' @ [CHR 0x22] @ ''}]}.'' @ [CHR 0x0A] @ ''Endpoints: '' @ join '', '' (map tr_endpoint (am_transitions draft))"

fun add_states :: "string list \<Rightarrow> pyval list \<Rightarrow> string list" where
  "add_states states [] = states"
| "add_states states (VStr s # vs) = add_states (if s \<noteq> [] \<and> s \<notin> set states then states @ [s] else states) vs"
| "add_states states (_ # vs) = add_states states vs"

fun add_invariants :: "model_invariant list \<Rightarrow> string list \<Rightarrow> pyval list \<Rightarrow> model_invariant list result" where
  "add_invariants is ids [] = Inr is"
| "add_invariants is ids (VDict d # vs) =
     (let i = get_field d ''id''; e = get_field d ''expr'' in
      if \<not> truthy i \<or> \<not> truthy e then add_invariants is ids vs
      else bind_res (hashed i) (\<lambda>i.
        if i \<in> set (map VStr ids) then add_invariants is ids vs
        else bind_res (Invariant_check \<lparr>inv_id = py_str i, inv_expr = py_str e\<rparr>) (\<lambda>x. add_invariants (is @ [x]) (py_str i # ids) vs)))"
| "add_invariants is ids (_ # vs) = add_invariants is ids vs"

definition given_list :: "pydict \<Rightarrow> string \<Rightarrow> pyval list result" where
  "given_list d k = elements_of (case dict_get d k of None \<Rightarrow> VList [] | Some v \<Rightarrow> v)"

definition llm_propose_enrichment ::
  "(string \<Rightarrow> string) \<Rightarrow> (rat \<Rightarrow> string) \<Rightarrow> (string \<Rightarrow> string option) \<Rightarrow> json_loads \<Rightarrow> app_model \<Rightarrow> app_model result" where
  "llm_propose_enrichment sha fr gateway loads draft =
     (case gateway (enrichment_prompt draft) of
        None \<Rightarrow> Inr draft
      | Some reply \<Rightarrow>
          (case loads reply of
             Inl _ \<Rightarrow> Inr draft
           | Inr (VDict data) \<Rightarrow>
               bind_res (given_list data ''states'') (\<lambda>states.
               bind_res (given_list data ''invariants'') (\<lambda>invariants.
               bind_res (add_invariants (am_invariants draft) (map inv_id (am_invariants draft)) invariants) (\<lambda>is.
                 AppModel_check sha fr (draft\<lparr>am_states := add_states (am_states draft) states, am_invariants := is\<rparr>))))
           | Inr _ \<Rightarrow> Inl (AttributeError ''object has no attribute get'')))"

definition MODEL_IMPORTERS :: "(string \<Rightarrow> string) \<Rightarrow> (rat \<Rightarrow> string) \<Rightarrow> (string \<times> model_importer) list" where
  "MODEL_IMPORTERS sha fr = [(''openapi'', openapi_to_draft sha fr), (''postman'', postman_to_draft sha fr)]"

definition import_app_model ::
  "(string \<Rightarrow> string) \<Rightarrow> (rat \<Rightarrow> string) \<Rightarrow> (string \<Rightarrow> string option) \<Rightarrow> json_loads \<Rightarrow> string \<Rightarrow> pydict \<Rightarrow> bool \<Rightarrow> (model_store, app_model) cmd" where
  "import_app_model sha fr gateway loads source_type spec use_llm =
     (case dict_get (MODEL_IMPORTERS sha fr) source_type of
        None \<Rightarrow> raiseC (HTTPException 422 (''unknown source_type: '' @ source_type))
      | Some to_draft \<Rightarrow>
          bindC (liftC (to_draft spec)) (\<lambda>draft.
            if \<not> use_llm then create_model draft False
            else bindC (liftC (llm_propose_enrichment sha fr gateway loads draft)) create_proposed))"

section \<open>What a proposal can change\<close>

lemma add_states_extends: "\<exists>new. add_states states vs = states @ new \<and> distinct new \<and> set new \<inter> set states = {} \<and> [] \<notin> set new"
proof (induction states vs rule: add_states.induct)
  case (2 states s vs)
  show ?case
  proof (cases "s \<noteq> [] \<and> s \<notin> set states")
    case True
    with 2 obtain new where "add_states (states @ [s]) vs = (states @ [s]) @ new" "distinct new" "set new \<inter> set (states @ [s]) = {}" "[] \<notin> set new" by auto
    with True show ?thesis by (intro exI [of _ "s # new"]) auto
  next
    case False
    then have "(if s \<noteq> [] \<and> s \<notin> set states then states @ [s] else states) = states" by auto
    with 2 show ?thesis by simp
  qed
qed simp_all

lemma add_invariants_extends: "add_invariants is ids vs = Inr js \<Longrightarrow> \<exists>new. js = is @ new \<and> (\<forall>x \<in> set new. Invariant_check x = Inr x)"
proof (induction "is" ids vs arbitrary: js rule: add_invariants.induct)
  case (2 "is" ids d vs)
  let ?i = "get_field d ''id''" and ?e = "get_field d ''expr''"
  show ?case
  proof (cases "\<not> truthy ?i \<or> \<not> truthy ?e \<or> (\<exists>i. hashed ?i = Inr i \<and> i \<in> set (map VStr ids))")
    case True
    then have "add_invariants is ids vs = Inr js" using "2.prems" by (auto simp: Let_def split: if_splits)
    then show ?thesis using "2.IH" True by (metis (full_types))
  next
    case False
    with "2.prems" obtain i x where i: "hashed ?i = Inr i" "i \<notin> set (map VStr ids)" "Invariant_check \<lparr>inv_id = py_str i, inv_expr = py_str ?e\<rparr> = Inr x"
      "add_invariants (is @ [x]) (py_str i # ids) vs = Inr js"
      by (auto simp: Let_def bind_res_Inr_iff split: if_splits)
    then have "x = \<lparr>inv_id = py_str i, inv_expr = py_str ?e\<rparr>" by (auto simp: Invariant_check_def split: if_splits)
    with i "2.IH"(3) [OF refl refl] False show ?thesis by fastforce
  qed
qed simp_all

text \<open>
  A proposal adds states and invariants, and nothing else: what the importer found, the status and also the digest stay.
\<close>

lemma enrichment_extends:
  assumes "llm_propose_enrichment sha fr gateway loads draft = Inr m" "am_digest draft \<noteq> []"
  shows "\<exists>states is. m = draft\<lparr>am_states := am_states draft @ states, am_invariants := am_invariants draft @ is\<rparr> \<and>
     (\<forall>i \<in> set is. Invariant_check i = Inr i)"
proof -
  consider "m = draft" | states "is" where "add_invariants (am_invariants draft) (map inv_id (am_invariants draft)) is = Inr (am_invariants m)"
    "m = draft\<lparr>am_states := add_states (am_states draft) states, am_invariants := am_invariants m\<rparr>"
    using assms by (auto simp: llm_propose_enrichment_def bind_res_Inr_iff AppModel_check_def split: option.splits sum.splits pyval.splits if_splits)
  then show ?thesis
  proof cases
    case 1
    then show ?thesis by (intro exI [of _ "[]"]) simp
  next
    case 2
    from add_invariants_extends [OF 2(1)] obtain new where new: "am_invariants m = am_invariants draft @ new" "\<forall>x \<in> set new. Invariant_check x = Inr x" by blast
    from add_states_extends obtain ss where "add_states (am_states draft) states = am_states draft @ ss" by metis
    with 2(2) new have "m = draft\<lparr>am_states := am_states draft @ ss, am_invariants := am_invariants draft @ new\<rparr>" by simp
    with new(2) show ?thesis by blast
  qed
qed

lemma enrichment_keeps_digest:
  assumes "llm_propose_enrichment sha fr gateway loads draft = Inr m" "am_digest draft \<noteq> []"
  shows "am_digest m = am_digest draft \<and> am_status m = am_status draft \<and> am_transitions m = am_transitions draft \<and> am_fields m = am_fields draft"
  using enrichment_extends [OF assms] by auto

text \<open>Without an answer that can be read, the import is that of the importer alone, but for its status.\<close>

lemma unread_proposal_changes_nothing:
  assumes "\<And>reply. gateway (enrichment_prompt draft) = Some reply \<Longrightarrow> \<exists>e. loads reply = Inl e"
  shows "llm_propose_enrichment sha fr gateway loads draft = Inr draft"
  using assms by (cases "gateway (enrichment_prompt draft)") (auto simp: llm_propose_enrichment_def)

text \<open>
  A model with a proposed state keeps the digest of the draft: once validated and signed by a human it carries a signature for
  the content before the proposal, and the state is in no content that was ever signed.
\<close>

definition proposing_loads :: json_loads where
  "proposing_loads s = Inr (VDict [(''states'', VList [VStr ''refunded''])])"

definition enriched_run :: "app_model result \<times> model_store" where
  "enriched_run =
     bindC (import_app_model id (\<lambda>_. []) Some proposing_loads ''openapi'' [] True) (\<lambda>m.
     bindC (validate_model (am_app_id m) (am_version m) ''human'') (\<lambda>m.
       sign_model (am_app_id m) (am_version m) (\<lambda>d. Inr d) ''human'')) []"

lemma proposed_state_is_not_signed:
  "case fst enriched_run of
     Inl e \<Rightarrow> False
   | Inr m \<Rightarrow> am_status m = MODEL_SIGNED \<and> am_states m = [''default'', ''refunded''] \<and>
       am_signature m = Some (content_digest id (\<lambda>_. []) (m\<lparr>am_states := [''default'']\<rparr>)) \<and>
       am_signature m \<noteq> Some (content_digest id (\<lambda>_. []) m)"
  by code_simp

text \<open>A proposal that is no object, or whose id is a list, is not caught.\<close>

lemma odd_proposals_raise:
  assumes "gateway (enrichment_prompt draft) = Some reply"
  shows "loads reply = Inr (VList vs) \<Longrightarrow> llm_propose_enrichment sha fr gateway loads draft = Inl (AttributeError ''object has no attribute get'')"
    and "loads reply = Inr (VDict [(''states'', VNone)]) \<Longrightarrow> llm_propose_enrichment sha fr gateway loads draft = Inl (TypeError ''object is not iterable'')"
  using assms by (simp_all add: llm_propose_enrichment_def given_list_def)

end
