(* ===== verification/Spec2Isabelle.thy ===== *)
theory Spec2Isabelle
  imports Orchestration Scope_Text Execution_Safety Gate_Safety Chain_Safety Sql_Jobs Case_Safety
    App_Model_Safety Planner_Safety Peer_Safety Nft_Scope Container_Safety Adapter_Safety Update_Safety Report_Errors
    App_Enrichment
begin

text \<open>
  SecOpent is a control plane for security assessments: a project freezes a scope, an assessment carries a
  plan of steps, a human or a grant approves it, and an executor runs scanners inside the scope, audits what
  it does, correlates what the scanners saw and lets an oracle reproduce it. Beside that a reasoning loop
  lets a language model propose single steps behind gates. Paths below are relative to
  \<^verbatim>\<open>src/src/secopent\<close>.

  \<^bold>\<open>Theories and the code they model.\<close>
  \<^item> \<^verbatim>\<open>Prelude\<close>: Python values, exceptions as values of \<^typ>\<open>exn\<close>, insertion-ordered dictionaries, commands on
    a state (\<^const>\<open>bindC\<close>) with their frame rules (\<^const>\<open>keeps\<close>, \<^const>\<open>readonly\<close>), and the locale of an
    operation behind a gate.
  \<^item> \<^verbatim>\<open>Policy\<close>, \<^verbatim>\<open>Canonical\<close>, \<^verbatim>\<open>Canonical_Injective\<close>: risks and modes (\<^verbatim>\<open>domain/policy/models.py\<close>); canonical
    JSON and digests (\<^verbatim>\<open>domain/common/canonical.py\<close>) and the proof that the text commits to the value.
  \<^item> \<^verbatim>\<open>Plans\<close>, \<^verbatim>\<open>Jobs\<close>, \<^verbatim>\<open>Orchestration\<close>: \<^verbatim>\<open>ExecutionPlan.create\<close>, the job store behind its port (locale
    \<open>job_store\<close>) and the orchestrator (\<^verbatim>\<open>application/orchestrator.py\<close>).
  \<^item> \<^verbatim>\<open>Net\<close>, \<^verbatim>\<open>Scope\<close>, \<^verbatim>\<open>Scope_Text\<close>: the parts of \<^verbatim>\<open>ipaddress\<close> and \<^verbatim>\<open>urllib.parse\<close> the code uses; scopes
    (\<^verbatim>\<open>domain/scope\<close>), the policy engine (\<^verbatim>\<open>domain/policy/engine.py\<close>) and the enforcer
    (\<^verbatim>\<open>application/scope_enforcer.py\<close>). The four queries of a snapshot share the locale \<open>scope_query\<close>.
  \<^item> \<^verbatim>\<open>Grants\<close>, \<^verbatim>\<open>Assessments\<close>, \<^verbatim>\<open>Assessment_Safety\<close>: engagement grants and assessments with their repositories
    and services, one database record for both, and what holds over every history of their calls.
  \<^item> \<^verbatim>\<open>Permits\<close>: permits, their registry and the emergency stop.
  \<^item> \<^verbatim>\<open>Findings\<close>: observations, correlation, catalog and coverage.
  \<^item> \<^verbatim>\<open>Audit_Trail\<close>: the audit events, the repository-backed service and the signed chain, both behind the
    recorder port (locale \<open>audit_recorder\<close>), whose specification is the list of accepted calls.
  \<^item> \<^verbatim>\<open>Verification\<close>, \<^verbatim>\<open>Oracle_Service\<close>: the N-of-N oracle, canary tokens, verifiers and the two clients.
  \<^item> \<^verbatim>\<open>Loop_Model\<close>, \<^verbatim>\<open>Loop_Orchestrator\<close>, \<^verbatim>\<open>Loop_Safety\<close>: the reasoning loop, its budget, feedback and
    termination, the driver and the human control plane (\<^verbatim>\<open>domain\<close> and \<^verbatim>\<open>application/reasoning_loop\<close>).
  \<^item> \<^verbatim>\<open>Loop_Gates\<close>, \<^verbatim>\<open>Gate_Safety\<close>: the schema, policy and permit gates of the loop and the step that
    becomes a job (\<^verbatim>\<open>schema_gate.py\<close>, \<^verbatim>\<open>policy_gate.py\<close>, \<^verbatim>\<open>permit_gate.py\<close>, \<^verbatim>\<open>job_builder.py\<close>,
    \<^verbatim>\<open>loop_scheduler.py\<close>).
  \<^item> \<^verbatim>\<open>Chains\<close>, \<^verbatim>\<open>Chain_Safety\<close>: attack chains, their engine (\<^verbatim>\<open>application/chain_engine.py\<close>) and the bridge to
    the loop (\<^verbatim>\<open>chain_bridge.py\<close>).
  \<^item> \<^verbatim>\<open>Sql_Jobs\<close>: the job store over SQL rows (\<^verbatim>\<open>sqlalchemy_jobs.py\<close>) and its simulation by the in-memory store.
  \<^item> \<^verbatim>\<open>Execution\<close>, \<^verbatim>\<open>Execution_Safety\<close>: the execution and the resumption of one assessment
    (\<^verbatim>\<open>application/execution.py\<close>) and the egress guard. It calls the service, the permits, the scope chain, the
    orchestrator, correlation, coverage, the audit recorders and the batch oracle, in the order of the code.
  \<^item> \<^verbatim>\<open>Cases\<close>, \<^verbatim>\<open>Case_Engine\<close>, \<^verbatim>\<open>Case_Safety\<close>: test cases with their life cycle (\<^verbatim>\<open>domain/cases\<close>,
    \<^verbatim>\<open>application/cases.py\<close>) and the engine that runs them (\<^verbatim>\<open>infrastructure/case_engine\<close>).
  \<^item> \<^verbatim>\<open>Provenance\<close>: the locale of a keyed store whose entries an event accounts for, in every history of calls; it
    carries the registries of cases, application models and update bundles.
  \<^item> \<^verbatim>\<open>App_Models\<close>, \<^verbatim>\<open>App_Model_Safety\<close>, \<^verbatim>\<open>App_Enrichment\<close>: application models, their importers, life cycle and registry
    (\<^verbatim>\<open>domain/appmodel\<close>, \<^verbatim>\<open>application/appmodels.py\<close>, \<^verbatim>\<open>model_builder.py\<close>, \<^verbatim>\<open>model_registry.py\<close>,
    \<^verbatim>\<open>infrastructure/model_sources\<close>), and the import with the proposals of a language model
    (\<^verbatim>\<open>interfaces/api/routers/appmodels.py\<close>).
  \<^item> \<^verbatim>\<open>Floats\<close>: rounding to doubles, for the strategies of logic tests, and \<^verbatim>\<open>int\<close> of a float.
  \<^item> \<^verbatim>\<open>Logic_Tests\<close>, \<^verbatim>\<open>Planner_Safety\<close>: the strategies that derive logic tests from a model
    (\<^verbatim>\<open>infrastructure/logic_strategies\<close>) and the planner (\<^verbatim>\<open>application/planner.py\<close>).
  \<^item> \<^verbatim>\<open>Peer_Agents\<close>, \<^verbatim>\<open>Peer_Safety\<close>: peer agents, from the launch to the normalised report
    (\<^verbatim>\<open>domain/peer_agents\<close>, \<^verbatim>\<open>application/peer_agents.py\<close>, \<^verbatim>\<open>peer_replan.py\<close>).
  \<^item> \<^verbatim>\<open>Nft_Scope\<close>: the packet filter of a scope, as the commands it gives (\<^verbatim>\<open>infrastructure/egress/nft_scope.py\<close>).
  \<^item> \<^verbatim>\<open>Containers\<close>, \<^verbatim>\<open>Container_Safety\<close>: the docker command of a call, the image catalog, the scan runner and the
    step runner wired into the executor (\<^verbatim>\<open>infrastructure/adapters\<close>, \<^verbatim>\<open>routers/assessments.py\<close>).
  \<^item> \<^verbatim>\<open>Adapter_Runner\<close>, \<^verbatim>\<open>Adapter_Safety\<close>: the adapter contracts (\<^verbatim>\<open>domain/adapters/contracts.py\<close>) and the runner
    with its own scope gate (\<^verbatim>\<open>infrastructure/adapters/base.py\<close>).
  \<^item> \<^verbatim>\<open>Updates\<close>, \<^verbatim>\<open>Update_Safety\<close>: update bundles, how they are fetched, verified, published and activated
    (\<^verbatim>\<open>application/bundle_sync.py\<close>, \<^verbatim>\<open>intel_bundle.py\<close>, \<^verbatim>\<open>updates.py\<close>, \<^verbatim>\<open>github_bundle_fetcher.py\<close>).
  \<^item> \<^verbatim>\<open>Tool_Parsers\<close>, \<^verbatim>\<open>Tool_Reports\<close>, \<^verbatim>\<open>Report_Safety\<close>, \<^verbatim>\<open>Report_Errors\<close>: what the parser of each tool makes of
    its output, and the manifests of the tools (\<^verbatim>\<open>integrations/adapters\<close>).

  \<^bold>\<open>What the theorems show.\<close> The plan search accepts exactly the acyclic plans; a run respects dependencies,
  bounds retries and ends completed, as its gate answered or as its runner raised; leases exclude each other. The scope chain admits exactly what passes every
  check, exclusions only narrow, a range rule means its addresses, and freezing is canonical. The assessment
  service refines an abstract status machine, whatever executes is pinned to an approval of its plan, an agent
  acts only inside an active grant, and revocation is final. No step runs before the executor's checks, and
  the end of a run decides the status. Permits bind their content and the emergency stop fails safe. The audit
  chain verifies over every history and commits to its past. The oracle confirms exactly on full reproduction.
  The loop executes only gated steps, ends, and stays dead once stopped; with the gates of the code wired, a step
  lies inside the policy, its permit is good for that action only, and it is enqueued once. Chains rest on validated
  findings and confirm exactly on an ordered match. The SQL job store refines the in-memory one. Published cases and
  signed models passed every stage of their life cycle, a signature is for the digest its model carries, and a case engine sends
  declared requests only. The planner
  plans all that is required, keeps the tiers of risk in every run, and its logic tests break what the model
  forbids, as long as doubles count exactly. Peer agents start only behind the scope, and all they report is accounted for. The packet filter never
  allows a blocked address. Every container of a run is sandboxed, on an included target, and no failed scan
  passes for a clean one; the adapter runner does nothing before its gate; the active update bundle was verified.
  Whatever a tool writes, a parser that returns makes valid observations with distinct ids, and it returns when the few fields it takes
  apart have values of the right kinds. The
  theorem of this theory composes the assessment service with the executor.

  \<^bold>\<open>Parameters and bounds.\<close> Code outside the repository is an argument: SHA-256 and HMAC, Ed25519, IDNA
  (Nameprep and Punycode), DNS, random draws, clock readings, the numeral of a float, scanners, containers,
  nftables and language models. What a theorem needs of them is a hypothesis of that theorem, instantiated in its
  witness. No definition uses fuel of its own: \<^verbatim>\<open>run_to_completion\<close> has the bound \<^verbatim>\<open>max_rounds\<close> of the code, and
  the liveness theorem says how many rounds are enough; the canary draw reads a finite list of draws. Integers
  are unbounded, as in Python; floats are rationals, and where the strategies of logic tests compute with them the result is rounded to a double.

  \<^bold>\<open>Not modelled.\<close> Worker threads of the orchestrator (the serial executor is the default), of the container
  executor and of the outbox; SQL storage beyond its rows (sessions, transactions, migrations); the scanners,
  peer harnesses and network namespaces (docker and nft are modelled as the commands
  given to them); prompt building and model backends; rendering of reports; feeds of intelligence; the evidence
  store; and the API, command line, MCP and web front ends, which parse requests and call the services (of the API
  only the wiring of the step runner and the import of application models are modelled).
\<close>

section \<open>Across the components\<close>

text \<open>
  C1. Only approved plans run, and only inside their scope: in every database a history of service calls leads
  to, when executing an assessment changes the state the step runner works on, the assessment was queued or
  paused, the plan that ran is the stored one whose digest a stored approval of this assessment carries, and
  every scan target was admitted by the wired guards. The assessment service, the transition table, the
  executor, the scope chain and the egress guard all take part.
\<close>

theorem only_approved_plans_run:
  assumes "asm_reachable A (asm_db.truncate w)"
    and "ex_run (snd (execute_assessment P nonce i w)) \<noteq> ex_run w"
  shows "\<exists>a plan sc k ap. dict_get (asm_rows w) i = Some a \<and> asm_status a \<in> {QUEUED, assessment_status.PAUSED} \<and>
    execution_inputs i w plan sc \<and> asm_approval_id a = Some k \<and> dict_get (approval_rows w) k = Some ap \<and>
    apr_assessment_id ap = i \<and> apr_plan_digest ap = plan_digest plan \<and> apr_mode ap = asm_mode a \<and>
    (\<forall>v \<in> set (scan_targets plan sc). admitted P sc v)"
proof -
  obtain a plan sc where a: "dict_get (asm_rows w) i = Some a" "asm_status a \<in> {QUEUED, assessment_status.PAUSED}"
    "execution_inputs i w plan sc" "\<forall>v \<in> set (scan_targets plan sc). admitted P sc v"
    using run_needs_checks [OF assms(2)] by blast
  have "asm_id a = i \<and> pinned (asm_db.truncate w) a"
    using asm_reachable_inv [OF assms(1)] a(1,2) by (auto simp: asm_inv_def row_ok_def needs_approval_def asm_db.defs)
  then show ?thesis
    using a by (auto simp: pinned_def execution_inputs_def asm_db.defs)
qed

theorem only_approved_plans_run_witness:
  "\<exists>plan sc k ap. execution_inputs ''asm-a1'' demo_exec_world plan sc \<and>
     dict_get (approval_rows demo_exec_world) k = Some ap \<and> apr_plan_digest ap = plan_digest plan"
proof -
  have "asm_reachable sample_ports (asm_db.truncate demo_exec_world)"
    by (simp add: demo_exec_world_db queued_db_reachable)
  from only_approved_plans_run [OF this, of demo_exec_ports "''n1''" "''asm-a1''"] demo_run
  show ?thesis by (auto simp: demo_exec_world_def)
qed

end
